(* ===== verification/Prelude.thy ===== *)
theory Prelude
  imports Main "HOL-Library.Char_ord" "HOL-Library.Word"
begin

text \<open>
  Shared vocabulary of the development. A Go string is a byte sequence, modelled as
  \<^typ>\<open>string\<close> (a list of 8-bit characters). This theory holds the string helpers of
  Go's standard library that the verifier calls (package strings, encoding/hex,
  encoding/base64, strconv), and the lemmas about them that the components share:
  when a join with a separator can be undone, and that hexadecimal and decimal
  spellings determine their value.
\<close>

named_theorems go_simps \<open>facts about the Go string helpers\<close>
named_theorems split_rules \<open>case splits of options, sums and conditionals\<close>

lemmas [split_rules] = if_splits option.splits sum.splits

type_synonym bytes = string

section \<open>Joining and splitting\<close>

text \<open>strings.Join with a one-byte separator.\<close>

fun join :: "char \<Rightarrow> string list \<Rightarrow> string" where
  "join c [] = []"
| "join c [x] = x"
| "join c (x # y # r) = x @ c # join c (y # r)"

text \<open>strings.Split at a one-byte separator.\<close>

fun split_on :: "char \<Rightarrow> string \<Rightarrow> string list" where
  "split_on c [] = [[]]"
| "split_on c (x # s) =
     (if x = c then [] # split_on c s
      else (case split_on c s of [] \<Rightarrow> [[x]] | p # ps \<Rightarrow> (x # p) # ps))"

lemma split_on_not_Nil [simp]: "split_on c s \<noteq> []"
  by (induction s) (auto split: list.splits)

lemma split_on_free [go_simps]: "c \<notin> set s \<Longrightarrow> split_on c s = [s]"
  by (induction s) auto

lemma split_on_append_sep: "split_on c (s @ c # t) = split_on c s @ split_on c t"
  by (induction s) (auto split: list.splits)

lemma split_on_join: "xs \<noteq> [] \<Longrightarrow> split_on c (join c xs) = concat (map (split_on c) xs)"
  by (induction c xs rule: join.induct) (auto simp: split_on_append_sep)

lemma length_split_on: "length (split_on c s) = Suc (count_list s c)"
  by (induction s) (auto split: list.splits)

lemma count_list_0_iff: "count_list s c = 0 \<longleftrightarrow> c \<notin> set s"
  by (induction s) auto

lemma length_concat_split: "length (concat (map (split_on c) xs)) = length xs + sum_list (map (\<lambda>x. count_list x c) xs)"
  by (induction xs) (auto simp: length_split_on)

lemma concat_split_free: "\<forall>x \<in> set xs. c \<notin> set x \<Longrightarrow> concat (map (split_on c) xs) = xs"
  by (induction xs) (auto simp: split_on_free)

text \<open>
  A join can be undone when one of the two lists is known to be free of the separator
  and both have the same number of parts: the other list is then free of it as well.
\<close>

lemma join_inject:
  assumes eq: "join c xs = join c ys" and len: "length xs = length ys"
    and free: "\<forall>x \<in> set xs. c \<notin> set x"
  shows "xs = ys"
proof (cases "xs = []")
  case True
  with len show ?thesis by simp
next
  case False
  with len have ys: "ys \<noteq> []" by auto
  have parts: "concat (map (split_on c) ys) = xs"
    using split_on_join [OF False, of c] split_on_join [OF ys, of c] eq concat_split_free [OF free] by simp
  have "sum_list (map (\<lambda>y. count_list y c) ys) = 0"
    using length_concat_split [of c ys] parts len by simp
  then have "\<forall>y \<in> set ys. c \<notin> set y"
    by (auto simp: count_list_0_iff)
  then show ?thesis
    using concat_split_free parts by simp
qed

lemma set_join: "set (join c xs) \<subseteq> insert c (\<Union>(set ` set xs))"
  by (induction c xs rule: join.induct) auto

lemma join_Cons: "r \<noteq> [] \<Longrightarrow> join c (x # r) = x @ c # join c r"
  by (cases r) auto

text \<open>
  Two joins whose separator-free prefix parts have the same number of components agree
  part by part; used for domain-separated preimages of different forms.
\<close>

lemma join_component:
  assumes "join c xs = join c ys" "xs \<noteq> []" "ys \<noteq> []"
  shows "concat (map (split_on c) xs) = concat (map (split_on c) ys)"
  using assms by (metis split_on_join)

section \<open>Hexadecimal (encoding/hex)\<close>

definition hex_digit :: "nat \<Rightarrow> char" where
  "hex_digit n = ''0123456789abcdef'' ! n"

fun hex_encode :: "bytes \<Rightarrow> string" where
  "hex_encode [] = []"
| "hex_encode (b # bs) =
     hex_digit (of_char b div 16) # hex_digit (of_char b mod 16) # hex_encode bs"

definition hex_value :: "char \<Rightarrow> nat option" where
  "hex_value c = (let n = of_char c :: nat in
     if 48 \<le> n \<and> n \<le> 57 then Some (n - 48)
     else if 97 \<le> n \<and> n \<le> 102 then Some (n - 87)
     else if 65 \<le> n \<and> n \<le> 70 then Some (n - 55)
     else None)"

text \<open>hex.DecodeString: either case of letter, an even number of digits.\<close>

fun hex_decode :: "string \<Rightarrow> bytes option" where
  "hex_decode [] = Some []"
| "hex_decode [c] = None"
| "hex_decode (c # d # s) =
     (case (hex_value c, hex_value d) of
        (Some h, Some l) \<Rightarrow> map_option (\<lambda>r. char_of (16 * h + l) # r) (hex_decode s)
      | _ \<Rightarrow> None)"

definition is_lower_hex :: "char \<Rightarrow> bool" where
  "is_lower_hex c = (let n = of_char c :: nat in (48 \<le> n \<and> n \<le> 57) \<or> (97 \<le> n \<and> n \<le> 102))"

lemma hex_digit_cases: "n < 16 \<Longrightarrow> P 0 \<Longrightarrow> P 1 \<Longrightarrow> P 2 \<Longrightarrow> P 3 \<Longrightarrow> P 4 \<Longrightarrow> P 5 \<Longrightarrow> P 6 \<Longrightarrow> P 7 \<Longrightarrow>
   P 8 \<Longrightarrow> P 9 \<Longrightarrow> P 10 \<Longrightarrow> P 11 \<Longrightarrow> P 12 \<Longrightarrow> P 13 \<Longrightarrow> P 14 \<Longrightarrow> P 15 \<Longrightarrow> P (n :: nat)"
  by (auto simp: numeral_eq_Suc less_Suc_eq)

lemma hex_value_digit [go_simps]: "n < 16 \<Longrightarrow> hex_value (hex_digit n) = Some n"
  by (erule hex_digit_cases) (simp_all add: hex_digit_def hex_value_def nth_Cons')

lemma lower_hex_digit [go_simps]: "n < 16 \<Longrightarrow> is_lower_hex (hex_digit n)"
  by (erule hex_digit_cases) (simp_all add: hex_digit_def is_lower_hex_def nth_Cons')

lemma char_div_16 [simp]: "(of_char (c :: char) :: nat) div 16 < 16"
  using nat_of_char_less_256 [of c] by linarith

lemma hex_decode_encode [go_simps]: "hex_decode (hex_encode bs) = Some bs"
proof (induction bs)
  case (Cons b bs)
  have "16 * (of_char b div 16) + of_char b mod 16 = (of_char b :: nat)" by simp
  with Cons show ?case by (simp add: hex_value_digit)
qed simp

lemma hex_encode_inject [simp]: "hex_encode a = hex_encode b \<longleftrightarrow> a = b"
  by (metis hex_decode_encode option.inject)

lemma length_hex_encode [simp]: "length (hex_encode bs) = 2 * length bs"
  by (induction bs) auto

lemma hex_encode_lower: "\<forall>c \<in> set (hex_encode bs). is_lower_hex c"
  by (induction bs) (auto simp: lower_hex_digit)

text \<open>The 64 lowercase hexadecimal characters of a SHA-256 digest (isHex64, jobHashPattern).\<close>

definition is_hex64 :: "string \<Rightarrow> bool" where
  "is_hex64 s \<longleftrightarrow> length s = 64 \<and> list_all is_lower_hex s"

lemma is_hex64_encode [go_simps]: "length bs = 32 \<Longrightarrow> is_hex64 (hex_encode bs)"
  using hex_encode_lower by (auto simp: is_hex64_def list_all_iff)

lemma lower_hex_not_sep:
  "is_lower_hex c \<Longrightarrow> c \<noteq> CHR ''.'' \<and> c \<noteq> CHR 0x00 \<and> c \<noteq> CHR 0x2C \<and> c \<noteq> CHR ''\"'' \<and> c \<noteq> CHR 0x5C"
  by (auto simp: is_lower_hex_def)

lemma hex64_free: "is_hex64 s \<Longrightarrow> \<not> is_lower_hex c \<Longrightarrow> c \<notin> set s"
  by (auto simp: is_hex64_def list_all_iff)

section \<open>Decimal integers (strconv)\<close>

definition digit_char :: "nat \<Rightarrow> char" where
  "digit_char n = char_of (48 + n)"

definition digit_value :: "char \<Rightarrow> nat option" where
  "digit_value c = (let n = of_char c :: nat in if 48 \<le> n \<and> n \<le> 57 then Some (n - 48) else None)"

fun nat_str :: "nat \<Rightarrow> string" where
  "nat_str n = (if n < 10 then [digit_char n] else nat_str (n div 10) @ [digit_char (n mod 10)])"

declare nat_str.simps [simp del]

text \<open>strconv.FormatInt in base 10 and the percent-d verb.\<close>

definition int_str :: "int \<Rightarrow> string" where
  "int_str i = (if i < 0 then CHR ''-'' # nat_str (nat (- i)) else nat_str (nat i))"

fun digits_value :: "nat \<Rightarrow> string \<Rightarrow> nat option" where
  "digits_value acc [] = Some acc"
| "digits_value acc (c # s) =
     (case digit_value c of None \<Rightarrow> None | Some d \<Rightarrow> digits_value (10 * acc + d) s)"

definition int64_range :: "int \<Rightarrow> bool" where
  "int64_range i \<longleftrightarrow> - (2 ^ 63) \<le> i \<and> i < 2 ^ 63"

text \<open>strconv.ParseInt in base 10 with 64 bits: an optional sign, at least one digit, in range.\<close>

definition parse_int64 :: "string \<Rightarrow> int option" where
  "parse_int64 s =
     (let (neg, ds) = (case s of [] \<Rightarrow> (False, [])
                       | c # r \<Rightarrow> if c = CHR ''-'' then (True, r)
                                  else if c = CHR ''+'' then (False, r) else (False, s))
      in if ds = [] then None
         else (case digits_value 0 ds of None \<Rightarrow> None
               | Some n \<Rightarrow> (let i = (if neg then - int n else int n)
                           in if int64_range i then Some i else None)))"

lemma digit_value_char [simp]: "n < 10 \<Longrightarrow> digit_value (digit_char n) = Some n"
  by (simp add: digit_value_def digit_char_def)

lemma digit_char_not_sign: "n < 10 \<Longrightarrow> digit_char n \<noteq> CHR ''-'' \<and> digit_char n \<noteq> CHR ''+''"
  by (auto simp: digit_char_def dest!: arg_cong [where f = "of_char :: char \<Rightarrow> nat"])

lemma digits_value_append:
  "digits_value a (s @ t) = (case digits_value a s of None \<Rightarrow> None | Some b \<Rightarrow> digits_value b t)"
  by (induction a s rule: digits_value.induct) (auto split: option.splits)

lemma nat_str_digits: "\<exists>d s. nat_str n = d # s \<and> (\<forall>c \<in> set (d # s). \<exists>k < 10. c = digit_char k)"
proof (induction n rule: nat_str.induct)
  case (1 n)
  show ?case
  proof (cases "n < 10")
    case True
    then show ?thesis by (subst nat_str.simps) auto
  next
    case False
    from 1 [OF False] obtain d s where "nat_str (n div 10) = d # s"
      "\<forall>c \<in> set (d # s). \<exists>k < 10. c = digit_char k" by auto
    moreover have "\<exists>k < 10. digit_char (n mod 10) = digit_char k"
      by (rule exI [of _ "n mod 10"]) simp
    ultimately show ?thesis using False by (subst nat_str.simps) auto
  qed
qed

lemma digits_value_nat_str [simp]: "digits_value 0 (nat_str n) = Some n"
proof (induction n rule: nat_str.induct)
  case (1 n)
  show ?case
  proof (cases "n < 10")
    case True
    then show ?thesis by (subst nat_str.simps) simp
  next
    case False
    with 1 have "digits_value 0 (nat_str (n div 10)) = Some (n div 10)" by simp
    with False show ?thesis
      by (subst nat_str.simps) (simp add: digits_value_append)
  qed
qed

lemma nat_str_not_sign: "nat_str n \<noteq> [] \<and> hd (nat_str n) \<noteq> CHR ''-'' \<and> hd (nat_str n) \<noteq> CHR ''+''"
  using nat_str_digits [of n] digit_char_not_sign by fastforce

lemma parse_int64_str [go_simps]: "int64_range i \<Longrightarrow> parse_int64 (int_str i) = Some i"
proof (cases "i < 0")
  case True
  assume "int64_range i"
  with True show ?thesis
    using nat_str_not_sign [of "nat (- i)"] by (simp add: parse_int64_def int_str_def Let_def)
next
  case False
  assume r: "int64_range i"
  obtain c t where ct: "nat_str (nat i) = c # t" "c \<noteq> CHR ''-''" "c \<noteq> CHR ''+''"
    using nat_str_not_sign [of "nat i"] by (cases "nat_str (nat i)") auto
  have "digits_value 0 (c # t) = Some (nat i)" using ct(1) digits_value_nat_str by metis
  with False r ct show ?thesis
    by (simp add: parse_int64_def int_str_def Let_def del: digits_value.simps)
qed

lemma nat_str_inject: "nat_str a = nat_str b \<longleftrightarrow> a = b"
  by (metis digits_value_nat_str option.inject)

lemma int_str_inject [simp]: "int_str a = int_str b \<longleftrightarrow> a = b"
proof
  assume eq: "int_str a = int_str b"
  have h: "hd (nat_str n) \<noteq> CHR ''-''" for n using nat_str_not_sign by blast
  show "a = b"
  proof (cases "a < 0"; cases "b < 0")
    assume "a < 0" "b < 0"
    then show ?thesis using eq by (simp add: int_str_def nat_str_inject)
  next
    assume "a < 0" "\<not> b < 0"
    then show ?thesis using eq h [of "nat b"] by (auto simp: int_str_def dest: arg_cong [of _ _ hd])
  next
    assume "\<not> a < 0" "b < 0"
    then show ?thesis using eq h [of "nat a"] by (auto simp: int_str_def dest: arg_cong [of _ _ hd])
  next
    assume "\<not> a < 0" "\<not> b < 0"
    then show ?thesis using eq by (simp add: int_str_def nat_str_inject)
  qed
qed simp

lemma int_str_chars: "c \<in> set (int_str i) \<Longrightarrow> c = CHR ''-'' \<or> (\<exists>k < 10. c = digit_char k)"
  using nat_str_digits [of "nat i"] nat_str_digits [of "nat (- i)"]
  by (auto simp: int_str_def split: if_splits)

lemma digit_char_range: "k < 10 \<Longrightarrow> (48 :: nat) \<le> of_char (digit_char k) \<and> of_char (digit_char k) \<le> (57 :: nat)"
  by (simp add: digit_char_def)

lemma int_str_free: "c \<noteq> CHR ''-'' \<Longrightarrow> (of_char c :: nat) < 48 \<or> 57 < (of_char c :: nat) \<Longrightarrow> c \<notin> set (int_str i)"
  using int_str_chars digit_char_range by fastforce

section \<open>White space and letter case\<close>

text \<open>
  strings.TrimSpace removes Unicode white space: the six ASCII characters and the UTF-8
  spellings of U+0085, U+00A0, U+1680, U+2000 to U+200A, U+2028, U+2029, U+202F, U+205F
  and U+3000. \<open>lead_space\<close> is the number of bytes of a white-space character at the front.
\<close>

definition ascii_space :: "char \<Rightarrow> bool" where
  "ascii_space c = (let n = of_char c :: nat in (9 \<le> n \<and> n \<le> 13) \<or> n = 32)"

fun space2 :: "nat \<Rightarrow> nat \<Rightarrow> bool" where
  "space2 a b \<longleftrightarrow> a = 0xC2 \<and> (b = 0x85 \<or> b = 0xA0)"

fun space3 :: "nat \<Rightarrow> nat \<Rightarrow> nat \<Rightarrow> bool" where
  "space3 a b c \<longleftrightarrow> (a = 0xE1 \<and> b = 0x9A \<and> c = 0x80)
     \<or> (a = 0xE2 \<and> b = 0x80 \<and> ((0x80 \<le> c \<and> c \<le> 0x8A) \<or> c = 0xA8 \<or> c = 0xA9 \<or> c = 0xAF))
     \<or> (a = 0xE2 \<and> b = 0x81 \<and> c = 0x9F) \<or> (a = 0xE3 \<and> b = 0x80 \<and> c = 0x80)"

fun trim_left :: "string \<Rightarrow> string" where
  "trim_left [] = []"
| "trim_left (a # s) =
     (if ascii_space a then trim_left s
      else case s of
        b # t \<Rightarrow> if space2 (of_char a) (of_char b) then trim_left t
                 else (case t of c # u \<Rightarrow> if space3 (of_char a) (of_char b) (of_char c) then trim_left u
                                          else a # s
                       | [] \<Rightarrow> a # s)
      | [] \<Rightarrow> a # s)"

fun trim_right_rev :: "string \<Rightarrow> string" where
  "trim_right_rev [] = []"
| "trim_right_rev (a # s) =
     (if ascii_space a then trim_right_rev s
      else case s of
        b # t \<Rightarrow> if space2 (of_char b) (of_char a) then trim_right_rev t
                 else (case t of c # u \<Rightarrow> if space3 (of_char c) (of_char b) (of_char a) then trim_right_rev u
                                          else a # s
                       | [] \<Rightarrow> a # s)
      | [] \<Rightarrow> a # s)"

definition trim_space :: "string \<Rightarrow> string" where
  "trim_space s = rev (trim_right_rev (rev (trim_left s)))"

text \<open>
  strings.ToLower and strings.EqualFold on ASCII letters. The verifier applies them to
  values it compares with a hexadecimal digest it computed itself, and no non-ASCII
  character folds to one of the digits 0 to 9 or the letters a to f, so the comparisons
  come out as Go's do.
\<close>

definition lower_char :: "char \<Rightarrow> char" where
  "lower_char c = (let n = of_char c :: nat in if 65 \<le> n \<and> n \<le> 90 then char_of (n + 32) else c)"

definition to_lower :: "string \<Rightarrow> string" where
  "to_lower s = map lower_char s"

definition equal_fold :: "string \<Rightarrow> string \<Rightarrow> bool" where
  "equal_fold a b \<longleftrightarrow> to_lower a = to_lower b"

lemma lower_char_hex [simp]: "is_lower_hex c \<Longrightarrow> lower_char c = c"
  by (auto simp: is_lower_hex_def lower_char_def Let_def)

lemma to_lower_hex [simp]: "list_all is_lower_hex s \<Longrightarrow> to_lower s = s"
  by (induction s) (auto simp: to_lower_def)

lemma length_to_lower [simp]: "length (to_lower s) = length s"
  by (simp add: to_lower_def)

lemma to_lower_encode [simp]: "to_lower (hex_encode b) = hex_encode b"
  using hex_encode_lower by (auto simp: list_all_iff)

section \<open>Base64 (encoding/base64, StdEncoding)\<close>

definition b64_value :: "char \<Rightarrow> nat option" where
  "b64_value c = (let n = of_char c :: nat in
     if 65 \<le> n \<and> n \<le> 90 then Some (n - 65)
     else if 97 \<le> n \<and> n \<le> 122 then Some (n - 71)
     else if 48 \<le> n \<and> n \<le> 57 then Some (n + 4)
     else if n = 43 then Some 62 else if n = 47 then Some 63 else None)"

text \<open>
  DecodeString skips carriage returns and line feeds, requires padding, and accepts
  non-zero trailing bits (StdEncoding is not strict).
\<close>

fun b64_quads :: "string \<Rightarrow> bytes option" where
  "b64_quads [] = Some []"
| "b64_quads (a # b # c # d # r) =
     (case (b64_value a, b64_value b) of
        (Some x, Some y) \<Rightarrow>
          (if c = CHR ''='' then (if d = CHR ''='' \<and> r = [] then Some [char_of (4 * x + y div 16)] else None)
           else case b64_value c of None \<Rightarrow> None
           | Some z \<Rightarrow>
             if d = CHR ''='' then
               (if r = [] then Some [char_of (4 * x + y div 16), char_of (16 * (y mod 16) + z div 4)] else None)
             else (case b64_value d of None \<Rightarrow> None
                   | Some w \<Rightarrow> map_option (\<lambda>t. char_of (4 * x + y div 16) # char_of (16 * (y mod 16) + z div 4)
                                          # char_of (64 * (z mod 4) + w) # t) (b64_quads r)))
      | _ \<Rightarrow> None)"
| "b64_quads _ = None"

definition base64_decode :: "string \<Rightarrow> bytes option" where
  "base64_decode s = b64_quads (filter (\<lambda>c. c \<noteq> CHR 0x0D \<and> c \<noteq> CHR 0x0A) s)"

definition b64_digit :: "nat \<Rightarrow> char" where
  "b64_digit n = (if n < 26 then char_of (n + 65) else if n < 52 then char_of (n + 71)
     else if n < 62 then char_of (n - 4) else if n = 62 then CHR ''+'' else CHR ''/'')"

fun base64_encode :: "bytes \<Rightarrow> string" where
  "base64_encode [] = []"
| "base64_encode [a] = (let x = of_char a in [b64_digit (x div 4), b64_digit (16 * (x mod 4)), CHR ''='', CHR ''=''])"
| "base64_encode [a, b] = (let x = of_char a; y = of_char b in
     [b64_digit (x div 4), b64_digit (16 * (x mod 4) + y div 16), b64_digit (4 * (y mod 16)), CHR ''=''])"
| "base64_encode (a # b # c # r) = (let x = of_char a; y = of_char b; z = of_char c in
     b64_digit (x div 4) # b64_digit (16 * (x mod 4) + y div 16) #
     b64_digit (4 * (y mod 16) + z div 64) # b64_digit (z mod 64) # base64_encode r)"

lemma b64_value_digit: "n < 64 \<Longrightarrow> b64_value (b64_digit n) = Some n"
  by (auto simp: b64_value_def b64_digit_def Let_def)

lemma b64_value_plain: "b64_value c = Some n \<Longrightarrow> c \<noteq> CHR ''='' \<and> c \<noteq> CHR 0x0D \<and> c \<noteq> CHR 0x0A"
  by (auto simp: b64_value_def)

lemma b64_digit_plain: "n < 64 \<Longrightarrow> b64_digit n \<noteq> CHR ''='' \<and> b64_digit n \<noteq> CHR 0x0D \<and> b64_digit n \<noteq> CHR 0x0A"
  using b64_value_plain [OF b64_value_digit] .

lemma sextets:
  fixes x y z :: nat
  assumes "x < 256" "y < 256" "z < 256"
  shows "x div 4 < 64" "16 * (x mod 4) < 64" "16 * (x mod 4) + y div 16 < 64"
    "4 * (y mod 16) < 64" "4 * (y mod 16) + z div 64 < 64" "z mod 64 < 64"
    "(16 * (x mod 4) + y div 16) div 16 = x mod 4" "(16 * (x mod 4) + y div 16) mod 16 = y div 16"
    "(4 * (y mod 16) + z div 64) div 4 = y mod 16" "(4 * (y mod 16) + z div 64) mod 4 = z div 64"
    "4 * (x div 4) + x mod 4 = x" "16 * (y div 16) + y mod 16 = y" "64 * (z div 64 mod 4) + z mod 64 = z"
proof -
  have b: "x div 4 < 64" "y div 16 < 16" "z div 64 < 4" using assms by auto
  have m: "x mod 4 < 4" "y mod 16 < 16" "z mod 64 < 64" by auto
  show "x div 4 < 64" "16 * (x mod 4) < 64" "16 * (x mod 4) + y div 16 < 64"
    "4 * (y mod 16) < 64" "4 * (y mod 16) + z div 64 < 64" "z mod 64 < 64"
    using b m by linarith+
  show "(16 * (x mod 4) + y div 16) div 16 = x mod 4" "(16 * (x mod 4) + y div 16) mod 16 = y div 16"
    "(4 * (y mod 16) + z div 64) div 4 = y mod 16" "(4 * (y mod 16) + z div 64) mod 4 = z div 64"
    using b by auto
  show "4 * (x div 4) + x mod 4 = x" "16 * (y div 16) + y mod 16 = y" "64 * (z div 64 mod 4) + z mod 64 = z"
    using b by simp_all
qed

lemmas char_sextets =
  sextets [OF nat_of_char_less_256 nat_of_char_less_256 nat_of_char_less_256]

lemma base64_plain: "list_all (\<lambda>c. c \<noteq> CHR 0x0D \<and> c \<noteq> CHR 0x0A) (base64_encode bs)"
  by (induction bs rule: base64_encode.induct)
    (simp_all add: Let_def b64_digit_plain char_sextets)

lemma b64_quads_encode: "b64_quads (base64_encode bs) = Some bs"
  by (induction bs rule: base64_encode.induct)
    (simp_all add: Let_def b64_digit_plain b64_value_digit char_sextets)

lemma base64_round_trip [go_simps]: "base64_decode (base64_encode bs) = Some bs"
proof -
  have "filter (\<lambda>c. c \<noteq> CHR 0x0D \<and> c \<noteq> CHR 0x0A) (base64_encode bs) = base64_encode bs"
    using base64_plain [of bs] by (simp add: list_all_iff filter_id_conv)
  then show ?thesis by (simp add: base64_decode_def b64_quads_encode)
qed

lemma base64_free: "b64_value c = None \<Longrightarrow> c \<noteq> CHR ''='' \<Longrightarrow> c \<notin> set (base64_encode bs)"
  by (induction bs rule: base64_encode.induct)
    (auto simp: Let_def dest: arg_cong [of _ _ b64_value] simp: b64_value_digit char_sextets)

section \<open>Booleans and optional fields\<close>

text \<open>boolWord, boolStr and the percent-t verb.\<close>

definition bool_word :: "bool \<Rightarrow> string" where
  "bool_word b = (if b then ''true'' else ''false'')"

lemma bool_word_inject [simp]: "bool_word a = bool_word b \<longleftrightarrow> a = b"
  by (auto simp: bool_word_def)

end
