(* ===== verification/Golib.thy ===== *)
theory Golib
  imports Prelude
begin

text \<open>
  The primitives of Go's standard library that the verifier calls and whose algorithms
  are not part of this repository: the SHA-2 digests, ECDSA and Ed25519 verification,
  PEM and X.509 parsing, Unicode case folding, quoting and error texts, and the reading and
  spelling of binary floating-point numbers. They are the
  fields of one record, an argument of every definition that uses them, so no theorem
  depends on a particular implementation. Two computed preimages with the same digest are
  reported explicitly: \<open>collides\<close> names the two finite lists of preimages a theorem
  compares, and a theorem's conclusion is content equality or such a collision.
\<close>

text \<open>
  A float64 is its 64 bits. Every float64 of a record was read from JSON, which has no
  spelling for an infinity or a NaN, so the type holds the finite values: those whose
  exponent bits are not all set.
\<close>

typedef f64 = "{w :: 64 word. take_bit 11 (drop_bit 52 w) \<noteq> 0x7FF}"
  morphisms f64_bits f64_of_bits
  by (rule exI [of _ 0]) simp

setup_lifting type_definition_f64

lift_definition f64_positive_zero :: f64 is 0
  by simp

record ecdsa_key =
  ek_p256 :: bool      \<comment> \<open>the curve is elliptic.P256()\<close>
  ek_point :: bytes    \<comment> \<open>the public point\<close>

datatype pkix_key = PkEcdsa ecdsa_key | PkOther

record pem_block =
  pem_type :: string
  pem_bytes :: bytes

text \<open>A parsed X.509 certificate: Raw, RawTBSCertificate, the key if it is an ECDSA key, and the rest.\<close>

record x509_cert =
  xc_raw :: bytes
  xc_raw_tbs :: bytes
  xc_ecdsa :: "ecdsa_key option"
  xc_rest :: bytes

record golib =
  gl_sha256 :: "bytes \<Rightarrow> bytes"
  gl_sha384 :: "bytes \<Rightarrow> bytes"
  gl_sha512 :: "bytes \<Rightarrow> bytes"
  gl_ecdsa_verify_asn1 :: "ecdsa_key \<Rightarrow> bytes \<Rightarrow> bytes \<Rightarrow> bool"
  gl_ed25519_verify :: "bytes \<Rightarrow> bytes \<Rightarrow> bytes \<Rightarrow> bool"
  gl_pem_decode :: "bytes \<Rightarrow> (pem_block \<times> bytes) option"
  gl_parse_pkix :: "bytes \<Rightarrow> pkix_key option"
  gl_marshal_pkix :: "ecdsa_key \<Rightarrow> bytes option"
  gl_json_float :: "f64 \<Rightarrow> string"   \<comment> \<open>encoding/json's spelling\<close>
  gl_g_float :: "f64 \<Rightarrow> string"      \<comment> \<open>the percent-g verb\<close>
  gl_parse_float :: "string \<Rightarrow> f64 option"   \<comment> \<open>strconv.ParseFloat, None on an error\<close>
  gl_equal_fold :: "string \<Rightarrow> string \<Rightarrow> bool"   \<comment> \<open>strings.EqualFold\<close>
  gl_quote :: "string \<Rightarrow> string"        \<comment> \<open>the percent-q verb\<close>
  gl_base64_error :: "string \<Rightarrow> string" \<comment> \<open>the text of a base64 error on this input\<close>
  gl_parse_certificate :: "bytes \<Rightarrow> x509_cert option"
  gl_certificate_tbs :: "bytes \<Rightarrow> bytes option"   \<comment> \<open>asn1.Unmarshal, TBSCertificate.FullBytes\<close>
  gl_check_signature_from :: "x509_cert \<Rightarrow> x509_cert \<Rightarrow> bool"
  gl_ecdsa_verify :: "ecdsa_key \<Rightarrow> bytes \<Rightarrow> nat \<Rightarrow> nat \<Rightarrow> bool"

text \<open>hex.EncodeToString(sha256.Sum256(...)), also written with the percent-x verb.\<close>

definition sha256_hex :: "golib \<Rightarrow> bytes \<Rightarrow> string" where
  "sha256_hex g p = hex_encode (gl_sha256 g p)"

definition digest32 :: "golib \<Rightarrow> bool" where
  "digest32 g \<longleftrightarrow> (\<forall>p. length (gl_sha256 g p) = 32)"

definition collides :: "golib \<Rightarrow> bytes list \<Rightarrow> bytes list \<Rightarrow> bool" where
  "collides g P Q \<longleftrightarrow> list_ex (\<lambda>p. list_ex (\<lambda>q. p \<noteq> q \<and> gl_sha256 g p = gl_sha256 g q) Q) P"

lemma sha256_hex_eq [simp]: "sha256_hex g p = sha256_hex g q \<longleftrightarrow> gl_sha256 g p = gl_sha256 g q"
  by (simp add: sha256_hex_def)

lemma sha256_hex64: "digest32 g \<Longrightarrow> is_hex64 (sha256_hex g p)"
  by (simp add: sha256_hex_def digest32_def is_hex64_encode)

lemma sha256_hex_chars: "list_all is_lower_hex (sha256_hex g p)"
  using hex_encode_lower by (simp add: sha256_hex_def list_all_iff)

lemma sha256_hex_free: "\<not> is_lower_hex c \<Longrightarrow> c \<notin> set (sha256_hex g p)"
  using sha256_hex_chars by (auto simp: list_all_iff)

lemma to_lower_sha256 [simp]: "to_lower (sha256_hex g p) = sha256_hex g p"
  by (simp add: sha256_hex_def)

lemma collidesI: "p \<in> set P \<Longrightarrow> q \<in> set Q \<Longrightarrow> p \<noteq> q \<Longrightarrow> gl_sha256 g p = gl_sha256 g q \<Longrightarrow> collides g P Q"
  by (auto simp: collides_def list_ex_iff)

lemma collidesE:
  assumes "collides g P Q"
  obtains p q where "p \<in> set P" "q \<in> set Q" "p \<noteq> q" "gl_sha256 g p = gl_sha256 g q"
  using assms by (auto simp: collides_def list_ex_iff)

lemma collides_mono: "collides g P Q \<Longrightarrow> set P \<subseteq> set P' \<Longrightarrow> set Q \<subseteq> set Q' \<Longrightarrow> collides g P' Q'"
  by (simp add: collides_def list_ex_iff) blast

lemma collides_Cons: "collides g [p] [q] \<or> collides g P Q \<Longrightarrow> collides g (p # P) (q # Q)"
  by (auto simp: collides_def list_ex_iff)

section \<open>Commitments\<close>

text \<open>
  What every digest of the verifier relies on: the preimage of a value determines the
  value, on the values the verifier accepts. A commitment then binds its value: equal
  digests mean equal values, or the two preimages are a SHA-256 collision. \<open>wf\<close> is what is
  known of the sealed value, \<open>ok\<close> what is known of the value compared with it. The locale is
  interpreted for the leaf preimages, the tables and the canonical sections in the
  theories that define them.
\<close>

locale commitment =
  fixes enc :: "'a \<Rightarrow> bytes" and wf :: "'a \<Rightarrow> bool" and ok :: "'a \<Rightarrow> bool"
  assumes enc_inject: "wf x \<Longrightarrow> ok y \<Longrightarrow> enc x = enc y \<Longrightarrow> x = y"
begin

lemma binds:
  assumes "wf x" and "ok y" and "sha256_hex g (enc x) = sha256_hex g (enc y)"
  shows "x = y \<or> collides g [enc x] [enc y]"
  using assms enc_inject [of x y] by (auto intro: collidesI)

lemma binds_in:
  assumes "wf x" and "ok y" and "sha256_hex g (enc x) = sha256_hex g (enc y)"
    and "enc x \<in> set P" and "enc y \<in> set Q"
  shows "x = y \<or> collides g P Q"
  using binds [OF assms(1-3)] assms(4,5) collides_mono [of g "[enc x]" "[enc y]" P Q] by auto

end

section \<open>A library to compute with\<close>

text \<open>
  A digest that keeps the last 32 bytes, and verification oracles that accept one signature
  text. Nothing is assumed of them beyond the length of a digest.
\<close>

definition toy_digest :: "bytes \<Rightarrow> bytes" where
  "toy_digest p = take 32 (rev p @ replicate 32 (CHR 0x00))"

definition toy_lib :: golib where
  "toy_lib = \<lparr>
    gl_sha256 = toy_digest, gl_sha384 = toy_digest, gl_sha512 = toy_digest,
    gl_ecdsa_verify_asn1 = (\<lambda>k d s. s = ''sig''), gl_ed25519_verify = (\<lambda>k m s. s = ''sig''),
    gl_pem_decode = (\<lambda>p. Some (\<lparr>pem_type = ''PUBLIC KEY'', pem_bytes = p\<rparr>, [])),
    gl_parse_pkix = (\<lambda>p. Some (PkEcdsa \<lparr>ek_p256 = True, ek_point = p\<rparr>)),
    gl_marshal_pkix = (\<lambda>k. Some (ek_point k)),
    gl_json_float = (\<lambda>x. ''0''), gl_g_float = (\<lambda>x. ''0''),
    gl_parse_float = (\<lambda>s. None), gl_equal_fold = (\<lambda>s t. to_lower s = to_lower t),
    gl_quote = (\<lambda>s. s), gl_base64_error = (\<lambda>s. ''illegal base64 data''),
    gl_parse_certificate = (\<lambda>d. Some \<lparr>xc_raw = d, xc_raw_tbs = d,
      xc_ecdsa = Some \<lparr>ek_p256 = False, ek_point = d\<rparr>, xc_rest = []\<rparr>),
    gl_certificate_tbs = Some, gl_check_signature_from = (\<lambda>c p. True),
    gl_ecdsa_verify = (\<lambda>k d r s. r = s)\<rparr>"

lemma toy_digest32: "digest32 toy_lib"
  by (auto simp: digest32_def toy_lib_def toy_digest_def min_def)

end
