(* ===== verification/Json.thy ===== *)
theory Json
  imports Golib
begin

text \<open>
  encoding/json as the verifier uses it: the writer behind json.Marshal (member order,
  HTML-safe escaping, replacement of invalid UTF-8), and the reader behind
  json.Unmarshal and json.Decoder, which keeps the members of an object in order with
  their duplicates and keeps each number's text (UseNumber). The main results are that
  reading a written value gives it back, and that the writer therefore determines the
  value; every canonical hash of the verifier is over a written value.
\<close>

section \<open>UTF-8\<close>

definition in_range :: "char \<Rightarrow> nat \<Rightarrow> nat \<Rightarrow> bool" where
  "in_range c lo hi \<longleftrightarrow> lo \<le> of_char c \<and> of_char c \<le> hi"

definition cont_byte :: "char \<Rightarrow> bool" where
  "cont_byte c \<longleftrightarrow> in_range c 0x80 0xBF"

text \<open>utf8.DecodeRune: the size of the well-formed character at the front, 0 when there is none.\<close>

definition rune_size :: "string \<Rightarrow> nat" where
  "rune_size s = (case s of [] \<Rightarrow> 0 | a # t \<Rightarrow>
     if in_range a 0 0x7F then 1
     else if in_range a 0xC2 0xDF then
       (case t of b # _ \<Rightarrow> if cont_byte b then 2 else 0 | [] \<Rightarrow> 0)
     else if in_range a 0xE0 0xEF then
       (case t of b # c # _ \<Rightarrow>
          if in_range b (if of_char a = (0xE0 :: nat) then 0xA0 else 0x80)
                        (if of_char a = (0xED :: nat) then 0x9F else 0xBF) \<and> cont_byte c then 3 else 0
        | _ \<Rightarrow> 0)
     else if in_range a 0xF0 0xF4 then
       (case t of b # c # d # _ \<Rightarrow>
          if in_range b (if of_char a = (0xF0 :: nat) then 0x90 else 0x80)
                        (if of_char a = (0xF4 :: nat) then 0x8F else 0xBF) \<and> cont_byte c \<and> cont_byte d
          then 4 else 0
        | _ \<Rightarrow> 0)
     else 0)"

text \<open>utf8.Valid.\<close>

fun valid_utf8 :: "string \<Rightarrow> bool" where
  "valid_utf8 [] = True"
| "valid_utf8 (a # s) = (let k = rune_size (a # s) in 0 < k \<and> valid_utf8 (drop (k - 1) s))"

definition utf8_enc :: "nat \<Rightarrow> string" where
  "utf8_enc v =
     (if v < 0x80 then [char_of v]
      else if v < 0x800 then [char_of (0xC0 + v div 64), char_of (0x80 + v mod 64)]
      else if v < 0x10000 then
        [char_of (0xE0 + v div 4096), char_of (0x80 + v div 64 mod 64), char_of (0x80 + v mod 64)]
      else [char_of (0xF0 + v div 262144), char_of (0x80 + v div 4096 mod 64),
            char_of (0x80 + v div 64 mod 64), char_of (0x80 + v mod 64)])"

lemma rune_size_le: "rune_size s \<le> length s"
  by (auto simp: rune_size_def split: list.splits)

section \<open>Values and the writer\<close>

datatype json =
    JNull
  | JBool bool
  | JNum string
  | JStr string
  | JArr "json list"
  | JObj "(string \<times> json) list"

abbreviation quote_char :: char where "quote_char \<equiv> CHR 0x22"
abbreviation backslash :: char where "backslash \<equiv> CHR 0x5C"

definition esc_ascii :: "char \<Rightarrow> string" where
  "esc_ascii c = (let n = of_char c :: nat in
     if c = quote_char \<or> c = backslash then [backslash, c]
     else if n = 8 then [backslash, CHR ''b'']
     else if n = 12 then [backslash, CHR ''f'']
     else if n = 10 then [backslash, CHR ''n'']
     else if n = 13 then [backslash, CHR ''r'']
     else if n = 9 then [backslash, CHR ''t'']
     else if n < 32 \<or> c = CHR ''<'' \<or> c = CHR ''>'' \<or> c = CHR ''&''
       then [backslash, CHR ''u'', CHR ''0'', CHR ''0'', hex_digit (n div 16), hex_digit (n mod 16)]
     else [c])"

definition line_separator :: "string \<Rightarrow> bool" where
  "line_separator r \<longleftrightarrow> r = [CHR 0xE2, CHR 0x80, CHR 0xA8] \<or> r = [CHR 0xE2, CHR 0x80, CHR 0xA9]"

definition esc_rune :: "string \<Rightarrow> string" where
  "esc_rune r = (if line_separator r
     then [backslash, CHR ''u'', CHR ''2'', CHR ''0'', CHR ''2'', hex_digit (of_char (last r) mod 16)]
     else r)"

fun json_escape :: "string \<Rightarrow> string" where
  "json_escape [] = []"
| "json_escape (a # s) =
     (if in_range a 0 0x7F then esc_ascii a @ json_escape s
      else let k = rune_size (a # s) in
        if k = 0 then [backslash, CHR ''u'', CHR ''f'', CHR ''f'', CHR ''f'', CHR ''d''] @ json_escape s
        else esc_rune (take k (a # s)) @ json_escape (drop (k - 1) s))"

definition json_quote :: "string \<Rightarrow> string" where
  "json_quote s = quote_char # json_escape s @ [quote_char]"

fun json_write :: "json \<Rightarrow> string"
  and write_elems :: "json list \<Rightarrow> string"
  and write_members :: "(string \<times> json) list \<Rightarrow> string" where
  "json_write JNull = ''null''"
| "json_write (JBool b) = bool_word b"
| "json_write (JNum t) = t"
| "json_write (JStr s) = json_quote s"
| "json_write (JArr xs) = CHR ''['' # write_elems xs @ '']''"
| "json_write (JObj ms) = CHR ''{'' # write_members ms @ ''}''"
| "write_elems [] = []"
| "write_elems [x] = json_write x"
| "write_elems (x # y # r) = json_write x @ CHR 0x2C # write_elems (y # r)"
| "write_members [] = []"
| "write_members [(k, v)] = json_quote k @ CHR '':'' # json_write v"
| "write_members ((k, v) # y # r) = json_quote k @ CHR '':'' # json_write v @ CHR 0x2C # write_members (y # r)"

section \<open>The reader\<close>

fun hex4 :: "string \<Rightarrow> (nat \<times> string) option" where
  "hex4 (a # b # c # d # r) =
     (case (hex_value a, hex_value b, hex_value c, hex_value d) of
        (Some w, Some x, Some y, Some z) \<Rightarrow> Some (4096 * w + 256 * x + 16 * y + z, r)
      | _ \<Rightarrow> None)"
| "hex4 _ = None"

lemma hex4_length: "hex4 s = Some (v, r) \<Longrightarrow> length r < length s"
  by (cases s rule: hex4.cases) (auto split: option.splits)

definition simple_escape :: "char \<Rightarrow> char option" where
  "simple_escape e =
     (if e = quote_char \<or> e = backslash \<or> e = CHR ''/'' then Some e
      else if e = CHR ''b'' then Some (CHR 0x08)
      else if e = CHR ''f'' then Some (CHR 0x0C)
      else if e = CHR ''n'' then Some (CHR 0x0A)
      else if e = CHR ''r'' then Some (CHR 0x0D)
      else if e = CHR ''t'' then Some (CHR 0x09)
      else None)"

definition replacement :: string where
  "replacement = [CHR 0xEF, CHR 0xBF, CHR 0xBD]"

text \<open>The low half of a surrogate pair, when one follows.\<close>

definition low_half :: "string \<Rightarrow> (nat \<times> string) option" where
  "low_half s = (case s of a # b # t \<Rightarrow>
     if a = backslash \<and> b = CHR ''u'' then
       (case hex4 t of Some (v, r) \<Rightarrow> if 0xDC00 \<le> v \<and> v \<le> 0xDFFF then Some (v, r) else None | None \<Rightarrow> None)
     else None | _ \<Rightarrow> None)"

lemma low_half_length: "low_half s = Some (v, r) \<Longrightarrow> length r < length s"
  by (auto simp: low_half_def dest!: hex4_length split: list.splits if_splits option.splits)

definition prepend :: "string \<Rightarrow> (string \<times> string) option \<Rightarrow> (string \<times> string) option" where
  "prepend p x = map_option (\<lambda>(s, r). (p @ s, r)) x"

lemma prepend_simps [simp]: "prepend p None = None" "prepend p (Some (s, r)) = Some (p @ s, r)"
  by (simp_all add: prepend_def)

text \<open>The characters of a string up to its closing quote, decoded, and the input after it.\<close>

function unquote :: "string \<Rightarrow> (string \<times> string) option" where
  "unquote [] = None"
| "unquote (c # s) =
     (if c = quote_char then Some ([], s)
      else if c = backslash then
        (case s of [] \<Rightarrow> None | e # t \<Rightarrow>
           (case simple_escape e of Some d \<Rightarrow> prepend [d] (unquote t)
            | None \<Rightarrow> if e = CHR ''u'' then
                (case hex4 t of None \<Rightarrow> None | Some (v, r) \<Rightarrow>
                   if 0xD800 \<le> v \<and> v \<le> 0xDBFF then
                     (case low_half r of
                        Some (w, r') \<Rightarrow> prepend (utf8_enc (0x10000 + (v - 0xD800) * 1024 + (w - 0xDC00))) (unquote r')
                      | None \<Rightarrow> prepend replacement (unquote r))
                   else if 0xDC00 \<le> v \<and> v \<le> 0xDFFF then prepend replacement (unquote r)
                   else prepend (utf8_enc v) (unquote r))
              else None))
      else if in_range c 0 0x1F then None
      else if in_range c 0 0x7F then prepend [c] (unquote s)
      else (let k = rune_size (c # s) in
              if k = 0 then prepend replacement (unquote s)
              else prepend (take k (c # s)) (unquote (drop (k - 1) s))))"
  by pat_completeness auto
termination
  by (relation "measure length") (auto dest!: hex4_length low_half_length)

declare unquote.simps(2) [simp del]

definition json_space :: "char \<Rightarrow> bool" where
  "json_space c \<longleftrightarrow> c = CHR 0x20 \<or> c = CHR 0x09 \<or> c = CHR 0x0A \<or> c = CHR 0x0D"

definition skip_ws :: "string \<Rightarrow> string" where
  "skip_ws s = dropWhile json_space s"

definition is_digit :: "char \<Rightarrow> bool" where
  "is_digit c \<longleftrightarrow> in_range c 48 57"

fun exp_part :: "string \<Rightarrow> (string \<times> string) option" where
  "exp_part [] = Some ([], [])"
| "exp_part (e # s) =
     (if e = CHR ''e'' \<or> e = CHR ''E'' then
        (let (sg, t) = (case s of c # u \<Rightarrow> if c = CHR ''+'' \<or> c = CHR ''-'' then ([c], u) else ([], s) | [] \<Rightarrow> ([], []))
         in if takeWhile is_digit t = [] then None
            else Some (e # sg @ takeWhile is_digit t, dropWhile is_digit t))
      else Some ([], e # s))"

fun frac_part :: "string \<Rightarrow> (string \<times> string) option" where
  "frac_part [] = Some ([], [])"
| "frac_part (c # s) =
     (if c = CHR ''.'' then
        (if takeWhile is_digit s = [] then None
         else prepend (c # takeWhile is_digit s) (exp_part (dropWhile is_digit s)))
      else exp_part (c # s))"

definition unsigned_number :: "string \<Rightarrow> (string \<times> string) option" where
  "unsigned_number s = (case s of [] \<Rightarrow> None | c # t \<Rightarrow>
     if c = CHR ''0'' then prepend [c] (frac_part t)
     else if is_digit c then prepend (c # takeWhile is_digit t) (frac_part (dropWhile is_digit t))
     else None)"

definition parse_number :: "string \<Rightarrow> (string \<times> string) option" where
  "parse_number s = (case s of [] \<Rightarrow> None | c # t \<Rightarrow>
     if c = CHR ''-'' then prepend [c] (unsigned_number t) else unsigned_number s)"

definition strip_prefix :: "string \<Rightarrow> string \<Rightarrow> string option" where
  "strip_prefix p s = (if take (length p) s = p then Some (drop (length p) s) else None)"

text \<open>
  Values, elements and members. The first argument is fuel, the second the nesting depth
  still allowed (encoding/json refuses more than 10000 open brackets).
\<close>

fun parse_value :: "nat \<Rightarrow> nat \<Rightarrow> string \<Rightarrow> (json \<times> string) option"
  and parse_elems :: "nat \<Rightarrow> nat \<Rightarrow> string \<Rightarrow> (json list \<times> string) option"
  and parse_members :: "nat \<Rightarrow> nat \<Rightarrow> string \<Rightarrow> ((string \<times> json) list \<times> string) option" where
  "parse_value 0 d s = None"
| "parse_value (Suc n) d s =
     (case skip_ws s of [] \<Rightarrow> None | c # t \<Rightarrow>
        if c = CHR ''{'' then
          (if d = 0 then None
           else (case skip_ws t of
               x # u \<Rightarrow> if x = CHR ''}'' then Some (JObj [], u)
                       else map_option (\<lambda>(ms, r). (JObj ms, r)) (parse_members n (d - 1) (x # u))
             | [] \<Rightarrow> None))
        else if c = CHR ''['' then
          (if d = 0 then None
           else (case skip_ws t of
               x # u \<Rightarrow> if x = CHR '']'' then Some (JArr [], u)
                       else map_option (\<lambda>(xs, r). (JArr xs, r)) (parse_elems n (d - 1) (x # u))
             | [] \<Rightarrow> None))
        else if c = quote_char then map_option (\<lambda>(x, r). (JStr x, r)) (unquote t)
        else if c = CHR ''t'' then map_option (\<lambda>r. (JBool True, r)) (strip_prefix ''true'' (c # t))
        else if c = CHR ''f'' then map_option (\<lambda>r. (JBool False, r)) (strip_prefix ''false'' (c # t))
        else if c = CHR ''n'' then map_option (\<lambda>r. (JNull, r)) (strip_prefix ''null'' (c # t))
        else map_option (\<lambda>(x, r). (JNum x, r)) (parse_number (c # t)))"
| "parse_elems 0 d s = None"
| "parse_elems (Suc n) d s =
     (case parse_value n d s of None \<Rightarrow> None | Some (v, r) \<Rightarrow>
        (case skip_ws r of [] \<Rightarrow> None | c # u \<Rightarrow>
           if c = CHR 0x2C then map_option (\<lambda>(vs, w). (v # vs, w)) (parse_elems n d u)
           else if c = CHR '']'' then Some ([v], u) else None))"
| "parse_members 0 d s = None"
| "parse_members (Suc n) d s =
     (case skip_ws s of [] \<Rightarrow> None | q # t \<Rightarrow>
        if q \<noteq> quote_char then None
        else (case unquote t of None \<Rightarrow> None | Some (k, r) \<Rightarrow>
          (case skip_ws r of [] \<Rightarrow> None | x # u \<Rightarrow>
             if x \<noteq> CHR '':'' then None
             else (case parse_value n d u of None \<Rightarrow> None | Some (v, w) \<Rightarrow>
               (case skip_ws w of [] \<Rightarrow> None | c # y \<Rightarrow>
                  if c = CHR 0x2C then map_option (\<lambda>(ms, z). ((k, v) # ms, z)) (parse_members n d y)
                  else if c = CHR ''}'' then Some ([(k, v)], y) else None)))))"

definition max_depth :: nat where "max_depth = 10000"

text \<open>A whole document: one value and only white space after it.\<close>

definition json_parse :: "string \<Rightarrow> json option" where
  "json_parse s = (case parse_value (2 * length s + 2) max_depth s of
     Some (v, r) \<Rightarrow> if skip_ws r = [] then Some v else None | None \<Rightarrow> None)"

section \<open>Reading back what was written\<close>

lemma rune_size_cases:
  assumes "0 < rune_size s"
  obtains (one) a t where "s = a # t" "in_range a 0 0x7F"
  | (two) a b t where "s = a # b # t" "\<not> in_range a 0 0x7F" "in_range a 0xC2 0xDF" "cont_byte b"
  | (three) a b c t where "s = a # b # c # t" "\<not> in_range a 0 0x7F" "\<not> in_range a 0xC2 0xDF" "in_range a 0xE0 0xEF"
      "in_range b (if of_char a = (0xE0 :: nat) then 0xA0 else 0x80) (if of_char a = (0xED :: nat) then 0x9F else 0xBF)"
      "cont_byte c"
  | (four) a b c d t where "s = a # b # c # d # t" "\<not> in_range a 0 0x7F" "\<not> in_range a 0xC2 0xDF"
      "\<not> in_range a 0xE0 0xEF" "in_range a 0xF0 0xF4"
      "in_range b (if of_char a = (0xF0 :: nat) then 0x90 else 0x80) (if of_char a = (0xF4 :: nat) then 0x8F else 0xBF)"
      "cont_byte c" "cont_byte d"
proof -
  obtain a t where s: "s = a # t" using assms by (cases s) (simp_all add: rune_size_def)
  show thesis
  proof (cases "in_range a 0 0x7F")
    case True
    then show thesis using s one by blast
  next
    case no1: False
    show thesis
    proof (cases "in_range a 0xC2 0xDF")
      case True
      with assms s no1 show thesis using two by (cases t) (simp_all add: rune_size_def split: if_splits)
    next
      case no2: False
      show thesis
      proof (cases "in_range a 0xE0 0xEF")
        case True
        with assms s no1 no2 obtain b c u where "t = b # c # u"
          by (cases t; cases "tl t") (simp_all add: rune_size_def)
        with assms s no1 no2 True show thesis using three [of a b c u]
          by (simp add: rune_size_def split: if_splits)
      next
        case no3: False
        with assms s no1 no2 have r: "in_range a 0xF0 0xF4" by (simp add: rune_size_def split: if_splits)
        with assms s no1 no2 no3 obtain b c d u where "t = b # c # d # u"
          by (cases t; cases "tl t"; cases "tl (tl t)") (simp_all add: rune_size_def)
        with assms s no1 no2 no3 r show thesis using four [of a b c d u]
          by (simp add: rune_size_def split: if_splits)
      qed
    qed
  qed
qed

lemma rune_size_prefix:
  assumes "0 < rune_size s"
  shows "rune_size (take (rune_size s) s @ t) = rune_size s"
  using assms by (cases rule: rune_size_cases) (simp_all add: rune_size_def)

lemma rune_size_lead:
  "0 < rune_size (a # s) \<Longrightarrow> \<not> in_range a 0 0x7F \<Longrightarrow> in_range a 0xC2 0xF4"
  by (erule rune_size_cases) (auto simp: in_range_def)

lemma char_of_lit: "of_char c = (n :: nat) \<Longrightarrow> char_of n = c"
  by auto

lemma char_lits [simp]:
  "char_of (8 :: nat) = CHR 0x08" "char_of (12 :: nat) = CHR 0x0C" "char_of (10 :: nat) = CHR 0x0A"
  "char_of (13 :: nat) = CHR 0x0D" "char_of (9 :: nat) = CHR 0x09" "char_of (226 :: nat) = CHR 0xE2"
  "char_of (128 :: nat) = CHR 0x80" "char_of (168 :: nat) = CHR 0xA8" "char_of (169 :: nat) = CHR 0xA9"
  by (rule char_of_lit, simp)+

lemma utf8_enc_ascii: "in_range a 0 0x7F \<Longrightarrow> utf8_enc (of_char a) = [a]"
  by (simp add: utf8_enc_def in_range_def)

lemma hex4_low: "n < 256 \<Longrightarrow>
    hex4 (CHR ''0'' # CHR ''0'' # hex_digit (n div 16) # hex_digit (n mod 16) # r) = Some (n, r)"
  by (simp add: hex_value_digit) (simp add: hex_value_def)

lemma unquote_esc_ascii:
  assumes "in_range a 0 0x7F"
  shows "unquote (esc_ascii a @ t) = prepend [a] (unquote t)"
proof -
  consider (q) "a = quote_char \<or> a = backslash"
    | (named) "a \<in> {CHR 0x08, CHR 0x0C, CHR 0x0A, CHR 0x0D, CHR 0x09}"
    | (hex) "a \<noteq> quote_char" "a \<noteq> backslash" "a \<notin> {CHR 0x08, CHR 0x0C, CHR 0x0A, CHR 0x0D, CHR 0x09}"
        "(of_char a :: nat) < 32 \<or> a = CHR ''<'' \<or> a = CHR ''>'' \<or> a = CHR ''&''"
    | (plain) "a \<noteq> quote_char" "a \<noteq> backslash" "\<not> (of_char a :: nat) < 32"
        "a \<noteq> CHR ''<''" "a \<noteq> CHR ''>''" "a \<noteq> CHR ''&''"
    by auto
  then show ?thesis
  proof cases
    case q
    then show ?thesis by (auto simp: esc_ascii_def unquote.simps(2) simple_escape_def)
  next
    case named
    then show ?thesis by (auto simp: esc_ascii_def unquote.simps(2) simple_escape_def)
  next
    case hex
    have ne: "(of_char a :: nat) \<noteq> 8" "(of_char a :: nat) \<noteq> 12" "(of_char a :: nat) \<noteq> 10"
      "(of_char a :: nat) \<noteq> 13" "(of_char a :: nat) \<noteq> 9"
      using hex(3) by (auto dest!: arg_cong [where f = "char_of :: nat \<Rightarrow> char"])
    have lt: "(of_char a :: nat) < 128" using assms by (simp add: in_range_def)
    have "esc_ascii a = [backslash, CHR ''u'', CHR ''0'', CHR ''0'',
        hex_digit (of_char a div 16), hex_digit (of_char a mod 16)]"
      using hex ne by (simp add: esc_ascii_def Let_def)
    then show ?thesis
      using lt hex4_low [of "of_char a" t] utf8_enc_ascii [OF assms]
      by (simp add: unquote.simps(2) simple_escape_def)
  next
    case plain
    then show ?thesis using assms
      by (auto simp: esc_ascii_def Let_def unquote.simps(2) in_range_def)
  qed
qed

lemma unquote_esc_rune:
  assumes k: "0 < rune_size (a # s)" and a: "\<not> in_range a 0 0x7F"
  shows "unquote (esc_rune (take (rune_size (a # s)) (a # s)) @ t)
    = prepend (take (rune_size (a # s)) (a # s)) (unquote t)"
proof (cases "line_separator (take (rune_size (a # s)) (a # s))")
  case True
  then show ?thesis
    by (auto simp: line_separator_def esc_rune_def unquote.simps(2) simple_escape_def hex_value_digit
        hex_value_def utf8_enc_def hex_digit_def nth_Cons')
next
  case False
  let ?k = "rune_size (a # s)"
  obtain m where m: "?k = Suc m" using k by (cases ?k) auto
  have pre: "rune_size (a # take m s @ t) = ?k"
    using rune_size_prefix [OF k, of t] m by simp
  have len: "length (take m s) = m" using rune_size_le [of "a # s"] m by simp
  have lead: "in_range a 0xC2 0xF4" by (rule rune_size_lead [OF k a])
  then have "a \<noteq> quote_char" "a \<noteq> backslash" "\<not> in_range a 0 0x1F"
    by (auto simp: in_range_def)
  with a pre m len False show ?thesis
    by (simp add: esc_rune_def unquote.simps(2) [of a "take m s @ t"])
qed

theorem unquote_escape:
  "valid_utf8 s \<Longrightarrow> unquote (json_escape s @ quote_char # r) = Some (s, r)"
proof (induction s rule: valid_utf8.induct)
  case 1
  show ?case by (simp add: unquote.simps(2))
next
  case (2 a s)
  let ?k = "rune_size (a # s)"
  from "2.prems" have k: "0 < ?k" and v: "valid_utf8 (drop (?k - 1) s)"
    by (simp_all add: Let_def)
  from "2.IH" [OF refl] v k have IH: "unquote (json_escape (drop (?k - 1) s) @ quote_char # r) = Some (drop (?k - 1) s, r)"
    by simp
  show ?case
  proof (cases "in_range a 0 0x7F")
    case True
    then have "?k = 1" by (simp add: rune_size_def)
    with IH True show ?thesis by (simp add: unquote_esc_ascii)
  next
    case False
    have "take ?k (a # s) @ drop (?k - 1) s = a # s" using k by (cases ?k) auto
    with IH False k show ?thesis by (simp add: unquote_esc_rune Let_def)
  qed
qed

text \<open>Numbers: the text is a JSON number, and reading it stops at a delimiter.\<close>

definition wf_num :: "string \<Rightarrow> bool" where
  "wf_num t \<longleftrightarrow> parse_number t = Some (t, [])"

definition delimited :: "string \<Rightarrow> bool" where
  "delimited r \<longleftrightarrow> r = [] \<or> hd r \<in> {CHR 0x2C, CHR '']'', CHR ''}''}"

lemma delimited_digits: "delimited r \<Longrightarrow> takeWhile is_digit (t @ r) = takeWhile is_digit t
    \<and> dropWhile is_digit (t @ r) = dropWhile is_digit t @ r"
  by (induction t; cases r) (auto simp: delimited_def is_digit_def in_range_def)

lemma exp_part_append: "delimited r \<Longrightarrow> exp_part t = Some (x, []) \<Longrightarrow> exp_part (t @ r) = Some (x, r)"
proof (cases t)
  case Nil
  assume "delimited r" "exp_part t = Some (x, [])"
  with Nil show ?thesis by (cases r) (auto simp: delimited_def)
next
  case (Cons e s)
  assume d: "delimited r" and p: "exp_part t = Some (x, [])"
  note ds = conjunct1 [OF delimited_digits [OF d]] conjunct2 [OF delimited_digits [OF d]]
  have e: "e = CHR ''e'' \<or> e = CHR ''E''" using p Cons by (auto split: if_splits)
  show ?thesis
  proof (cases s)
    case Nil
    with p Cons e show ?thesis by simp
  next
    case (Cons c u)
    with p \<open>t = e # s\<close> e show ?thesis
      using ds [of u] ds [of "c # u"]
      by (cases "c = CHR ''+'' \<or> c = CHR ''-''")
         (auto simp del: takeWhile.simps dropWhile.simps split: if_splits)
  qed
qed

lemma frac_part_append: "delimited r \<Longrightarrow> frac_part t = Some (x, []) \<Longrightarrow> frac_part (t @ r) = Some (x, r)"
proof (cases t)
  case Nil
  assume "delimited r" "frac_part t = Some (x, [])"
  with Nil show ?thesis by (cases r) (auto simp: delimited_def)
next
  case (Cons c s)
  assume d: "delimited r" and p: "frac_part t = Some (x, [])"
  show ?thesis
  proof (cases "c = CHR ''.''")
    case True
    with p Cons obtain y where y: "exp_part (dropWhile is_digit s) = Some (y, [])" "takeWhile is_digit s \<noteq> []"
      "x = c # takeWhile is_digit s @ y"
      by (auto simp: prepend_def split: if_splits)
    with exp_part_append [OF d y(1)] delimited_digits [OF d, of s] Cons True show ?thesis by simp
  next
    case False
    with p Cons have "exp_part t = Some (x, [])" by simp
    from exp_part_append [OF d this] Cons False show ?thesis by simp
  qed
qed

lemma prepend_Some_iff: "prepend p x = Some (y, r) \<longleftrightarrow> (\<exists>z. x = Some (z, r) \<and> y = p @ z)"
  by (auto simp: prepend_def)

lemma unsigned_number_append:
  "delimited r \<Longrightarrow> unsigned_number t = Some (x, []) \<Longrightarrow> unsigned_number (t @ r) = Some (x, r)"
  by (cases t)
     (auto simp: unsigned_number_def prepend_Some_iff frac_part_append delimited_digits split: if_splits)

lemma parse_number_append:
  "delimited r \<Longrightarrow> parse_number t = Some (x, []) \<Longrightarrow> parse_number (t @ r) = Some (x, r)"
proof (cases t)
  case Nil
  assume "parse_number t = Some (x, [])"
  with Nil show ?thesis by (simp add: parse_number_def)
next
  case (Cons c s)
  assume d: "delimited r" and p: "parse_number t = Some (x, [])"
  show ?thesis
  proof (cases "c = CHR ''-''")
    case True
    with p Cons d show ?thesis by (auto simp: parse_number_def prepend_Some_iff unsigned_number_append)
  next
    case False
    with p Cons have "unsigned_number t = Some (x, [])" by (simp add: parse_number_def)
    from unsigned_number_append [OF d this] Cons False show ?thesis by (simp add: parse_number_def)
  qed
qed

text \<open>Well-formed values, their nesting depth, and the fuel that reads them back.\<close>

fun wf_json :: "json \<Rightarrow> bool"
  and wf_elems :: "json list \<Rightarrow> bool"
  and wf_members :: "(string \<times> json) list \<Rightarrow> bool" where
  "wf_json JNull = True"
| "wf_json (JBool b) = True"
| "wf_json (JNum t) = wf_num t"
| "wf_json (JStr s) = valid_utf8 s"
| "wf_json (JArr xs) = wf_elems xs"
| "wf_json (JObj ms) = wf_members ms"
| "wf_elems [] = True"
| "wf_elems (x # r) = (wf_json x \<and> wf_elems r)"
| "wf_members [] = True"
| "wf_members ((k, v) # r) = (valid_utf8 k \<and> wf_json v \<and> wf_members r)"

fun json_depth :: "json \<Rightarrow> nat"
  and elems_depth :: "json list \<Rightarrow> nat"
  and members_depth :: "(string \<times> json) list \<Rightarrow> nat" where
  "json_depth (JArr xs) = Suc (elems_depth xs)"
| "json_depth (JObj ms) = Suc (members_depth ms)"
| "json_depth _ = 0"
| "elems_depth [] = 0"
| "elems_depth (x # r) = max (json_depth x) (elems_depth r)"
| "members_depth [] = 0"
| "members_depth ((k, v) # r) = max (json_depth v) (members_depth r)"

fun json_fuel :: "json \<Rightarrow> nat"
  and elems_fuel :: "json list \<Rightarrow> nat"
  and members_fuel :: "(string \<times> json) list \<Rightarrow> nat" where
  "json_fuel (JArr xs) = Suc (elems_fuel xs)"
| "json_fuel (JObj ms) = Suc (members_fuel ms)"
| "json_fuel _ = 1"
| "elems_fuel [] = 0"
| "elems_fuel (x # r) = Suc (json_fuel x + elems_fuel r)"
| "members_fuel [] = 0"
| "members_fuel ((k, v) # r) = Suc (json_fuel v + members_fuel r)"

lemma wf_num_start: "wf_num t \<Longrightarrow> \<exists>c s. t = c # s \<and> (c = CHR ''-'' \<or> is_digit c)"
  by (cases t)
     (auto simp: wf_num_def parse_number_def unsigned_number_def is_digit_def in_range_def split: if_splits)

lemma digit_not: "is_digit c \<Longrightarrow> c \<noteq> CHR ''{'' \<and> c \<noteq> CHR ''['' \<and> c \<noteq> quote_char \<and> c \<noteq> CHR ''t''
    \<and> c \<noteq> CHR ''f'' \<and> c \<noteq> CHR ''n'' \<and> c \<noteq> CHR '']'' \<and> c \<noteq> CHR ''}'' \<and> \<not> json_space c"
  by (auto simp: is_digit_def in_range_def json_space_def)

text \<open>How a written value begins: never with white space or a closing bracket.\<close>

lemma json_write_start:
  assumes "wf_json v"
  shows "\<exists>c t. json_write v = c # t \<and> \<not> json_space c \<and> c \<noteq> CHR '']'' \<and> c \<noteq> CHR ''}''"
proof (cases v)
  case (JNum t)
  with assms obtain c s where t: "t = c # s" and c: "c = CHR ''-'' \<or> is_digit c"
    using wf_num_start [of t] by fastforce
  from c have "\<not> json_space c \<and> c \<noteq> CHR '']'' \<and> c \<noteq> CHR ''}''"
    using digit_not [of c] by (elim disjE) (simp_all add: json_space_def)
  with t JNum show ?thesis by simp
qed (simp_all add: json_space_def json_quote_def bool_word_def)

lemma skip_ws_start [simp]: "\<not> json_space c \<Longrightarrow> skip_ws (c # t) = c # t"
  by (simp add: skip_ws_def)

lemma json_space_lits [simp]: "\<not> json_space (CHR 0x2C)" "\<not> json_space (CHR '']'')" "\<not> json_space (CHR ''}'')"
  "\<not> json_space (CHR '':'')" "\<not> json_space quote_char" "\<not> json_space (CHR ''['')" "\<not> json_space (CHR ''{'')"
  by (simp_all add: json_space_def)

lemma delimited_lits [simp]: "delimited (CHR 0x2C # r)" "delimited (CHR '']'' # r)" "delimited (CHR ''}'' # r)" "delimited []"
  by (simp_all add: delimited_def)

lemma write_elems_start: "wf_elems (x # r) \<Longrightarrow> \<exists>c t. write_elems (x # r) = c # t \<and> \<not> json_space c \<and> c \<noteq> CHR '']''"
  using json_write_start [of x] by (cases r) auto

lemma write_members_start: "\<exists>t. write_members (m # r) = quote_char # t"
  by (cases m; cases r) (simp_all add: json_quote_def)

text \<open>A number followed by a delimiter.\<close>

lemma parse_value_num:
  assumes "wf_num t" "delimited r"
  shows "parse_value (Suc n) d (t @ r) = Some (JNum t, r)"
proof -
  obtain c s where cs: "t = c # s" "c = CHR ''-'' \<or> is_digit c" using wf_num_start [OF assms(1)] by blast
  have "parse_number (c # s @ r) = Some (t, r)"
    using parse_number_append [OF assms(2), of t t] assms(1) cs by (simp add: wf_num_def)
  with cs digit_not [of c] show ?thesis by (auto simp: json_space_def)
qed

lemma parse_value_write:
  "wf_json v \<Longrightarrow> json_depth v \<le> d \<Longrightarrow> json_fuel v \<le> n \<Longrightarrow> delimited r
     \<Longrightarrow> parse_value n d (json_write v @ r) = Some (v, r)"
  "wf_elems xs \<Longrightarrow> xs \<noteq> [] \<Longrightarrow> elems_depth xs \<le> d \<Longrightarrow> elems_fuel xs \<le> n
     \<Longrightarrow> parse_elems n d (write_elems xs @ CHR '']'' # r) = Some (xs, r)"
  "wf_members ms \<Longrightarrow> ms \<noteq> [] \<Longrightarrow> members_depth ms \<le> d \<Longrightarrow> members_fuel ms \<le> n
     \<Longrightarrow> parse_members n d (write_members ms @ CHR ''}'' # r) = Some (ms, r)"
proof (induction v and xs and ms arbitrary: d n r and d n r and d n r rule: json_write_write_elems_write_members.induct)
  case 1 then show ?case by (cases n) (simp_all add: json_space_def strip_prefix_def)
next
  case 2 then show ?case by (cases n) (auto simp: json_space_def strip_prefix_def bool_word_def)
next
  case (3 t) then show ?case by (cases n) (simp_all add: parse_value_num del: parse_value.simps(2))
next
  case 4 then show ?case by (cases n) (simp_all add: json_quote_def unquote_escape)
next
  case (5 xs)
  obtain m where m: "n = Suc m" using "5.prems"(3) by (cases n) auto
  show ?case
  proof (cases xs)
    case Nil
    with m "5.prems"(2) show ?thesis by simp
  next
    case (Cons x l)
    with "5.prems" obtain c t where ct: "write_elems xs = c # t" "\<not> json_space c" "c \<noteq> CHR '']''"
      using write_elems_start [of x l] by auto
    have "parse_elems m (d - 1) (write_elems xs @ CHR '']'' # r) = Some (xs, r)"
      by (rule "5.IH") (use "5.prems" Cons m in auto)
    with ct m "5.prems"(2) show ?thesis by simp
  qed
next
  case (6 ms)
  obtain m where m: "n = Suc m" using "6.prems"(3) by (cases n) auto
  show ?case
  proof (cases ms)
    case Nil
    with m "6.prems"(2) show ?thesis by simp
  next
    case (Cons x l)
    have "parse_members m (d - 1) (write_members ms @ CHR ''}'' # r) = Some (ms, r)"
      by (rule "6.IH") (use "6.prems" Cons m in auto)
    moreover obtain t where "write_members ms = quote_char # t" using write_members_start [of x l] Cons by auto
    ultimately show ?thesis using m "6.prems"(2) by simp
  qed
next
  case 7 then show ?case by simp
next
  case (8 x)
  obtain m where m: "n = Suc m" using "8.prems"(4) by (cases n) auto
  have "parse_value m d (json_write x @ CHR '']'' # r) = Some (x, CHR '']'' # r)"
    by (rule "8.IH") (use "8.prems" m in auto)
  with m show ?case by simp
next
  case (9 x y l)
  obtain m where m: "n = Suc m" using "9.prems"(4) by (cases n) auto
  have "parse_value m d (json_write x @ CHR 0x2C # write_elems (y # l) @ CHR '']'' # r)
      = Some (x, CHR 0x2C # write_elems (y # l) @ CHR '']'' # r)"
    by (rule "9.IH") (use "9.prems" m in auto)
  moreover have "parse_elems m d (write_elems (y # l) @ CHR '']'' # r) = Some (y # l, r)"
    by (rule "9.IH") (use "9.prems" m in auto)
  ultimately show ?case using m by simp
next
  case 10 then show ?case by simp
next
  case (11 k v)
  obtain m where m: "n = Suc m" using "11.prems"(4) by (cases n) auto
  have "parse_value m d (json_write v @ CHR ''}'' # r) = Some (v, CHR ''}'' # r)"
    by (rule "11.IH") (use "11.prems" m in auto)
  with m "11.prems"(1) show ?case by (simp add: json_quote_def unquote_escape)
next
  case (12 k v y l)
  obtain m where m: "n = Suc m" using "12.prems"(4) by (cases n) auto
  have "parse_value m d (json_write v @ CHR 0x2C # write_members (y # l) @ CHR ''}'' # r)
      = Some (v, CHR 0x2C # write_members (y # l) @ CHR ''}'' # r)"
    by (rule "12.IH") (use "12.prems" m in auto)
  moreover have "parse_members m d (write_members (y # l) @ CHR ''}'' # r) = Some (y # l, r)"
    by (rule "12.IH") (use "12.prems" m in auto)
  ultimately show ?case using m "12.prems"(1) by (simp add: json_quote_def unquote_escape)
qed

lemma write_fuel:
  "wf_json v \<Longrightarrow> json_fuel v < 2 * length (json_write v)"
  "wf_elems xs \<Longrightarrow> elems_fuel xs \<le> 2 * length (write_elems xs)"
  "wf_members ms \<Longrightarrow> members_fuel ms \<le> 2 * length (write_members ms)"
proof (induction v and xs and ms rule: json_write_write_elems_write_members.induct)
  case (3 t)
  then have "t \<noteq> []" using wf_num_start [of t] by auto
  then have "0 < length t" by simp
  then have "1 < 2 * length t" by linarith
  then show ?case by simp
qed (auto simp: json_quote_def bool_word_def)

theorem json_parse_write:
  assumes "wf_json v" and "json_depth v \<le> max_depth"
  shows "json_parse (json_write v) = Some v"
proof -
  have "parse_value (2 * length (json_write v) + 2) max_depth (json_write v @ []) = Some (v, [])"
    by (rule parse_value_write) (use assms write_fuel(1) [of v] in auto)
  then show ?thesis by (simp add: json_parse_def skip_ws_def)
qed

lemma json_write_inject:
  assumes "wf_json v" "wf_json w" "json_write v = json_write w"
  shows "v = w"
proof -
  let ?n = "json_fuel v + json_fuel w" and ?d = "json_depth v + json_depth w"
  have "parse_value ?n ?d (json_write v @ []) = Some (v, [])"
    by (rule parse_value_write) (use assms(1) in auto)
  moreover have "parse_value ?n ?d (json_write w @ []) = Some (w, [])"
    by (rule parse_value_write) (use assms(2) in auto)
  ultimately show ?thesis using assms(3) by simp
qed

section \<open>Building objects from struct fields\<close>

text \<open>
  encoding/json writes a struct's fields in declaration order and leaves out a field tagged
  omitempty whose value is empty. A field is its JSON name with the value written, if any.
\<close>

type_synonym json_field = "string \<times> json option"

fun present_fields :: "json_field list \<Rightarrow> (string \<times> json) list" where
  "present_fields [] = []"
| "present_fields ((k, None) # r) = present_fields r"
| "present_fields ((k, Some v) # r) = (k, v) # present_fields r"

definition mk_obj :: "json_field list \<Rightarrow> json" where
  "mk_obj fs = JObj (present_fields fs)"

lemma present_fields_keys: "fst ` set (present_fields fs) \<subseteq> fst ` set fs"
  by (induction fs rule: present_fields.induct) auto

lemma present_fields_inject:
  "map fst fs = map fst gs \<Longrightarrow> distinct (map fst fs) \<Longrightarrow> present_fields fs = present_fields gs \<Longrightarrow> fs = gs"
proof (induction fs arbitrary: gs)
  case (Cons f fs)
  obtain g hs where gs: "gs = g # hs" using Cons.prems(1) by (cases gs) auto
  obtain k a b where fg: "f = (k, a)" "g = (k, b)" using Cons.prems(1) gs by (cases f; cases g) auto
  have nf: "k \<notin> fst ` set (present_fields fs)" "k \<notin> fst ` set (present_fields hs)"
    using Cons.prems(1,2) gs fg present_fields_keys [of fs] present_fields_keys [of hs]
    by (auto simp flip: set_map)
  have np: "(k, v) # l \<noteq> present_fields fs" "(k, v) # l \<noteq> present_fields hs" for v l
    using nf by (metis fst_conv image_eqI list.set_intros(1))+
  have "a = b \<and> present_fields fs = present_fields hs"
    using Cons.prems(3) gs fg np np [symmetric] by (cases a; cases b) auto
  with Cons.IH [of hs] Cons.prems gs fg show ?case by simp
qed simp

lemma mk_obj_inject [simp]:
  "map fst fs = map fst gs \<Longrightarrow> distinct (map fst fs) \<Longrightarrow> mk_obj fs = mk_obj gs \<longleftrightarrow> fs = gs"
  using present_fields_inject by (auto simp: mk_obj_def)

lemma wf_members_iff: "wf_members ms \<longleftrightarrow> (\<forall>(k, v) \<in> set ms. valid_utf8 k \<and> wf_json v)"
  by (induction ms) auto

lemma wf_elems_iff: "wf_elems xs \<longleftrightarrow> (\<forall>x \<in> set xs. wf_json x)"
  by (induction xs) auto

definition ascii_text :: "string \<Rightarrow> bool" where
  "ascii_text s \<longleftrightarrow> list_all (\<lambda>c. in_range c 0 0x7F) s"

lemma valid_utf8_ascii: "ascii_text s \<Longrightarrow> valid_utf8 s"
  by (induction s) (auto simp: ascii_text_def rune_size_def)

text \<open>The values of a struct field by its Go type; the second form is omitempty.\<close>

definition js :: "string \<Rightarrow> json option" where "js s = Some (JStr s)"
definition js_omit :: "string \<Rightarrow> json option" where "js_omit s = (if s = [] then None else js s)"
definition ji :: "int \<Rightarrow> json option" where "ji i = Some (JNum (int_str i))"
definition ji_omit :: "int \<Rightarrow> json option" where "ji_omit i = (if i = 0 then None else ji i)"
definition jb :: "bool \<Rightarrow> json option" where "jb b = Some (JBool b)"
definition jb_omit :: "bool \<Rightarrow> json option" where "jb_omit b = (if b then jb b else None)"

definition js_list :: "string list option \<Rightarrow> json option" where
  "js_list x = Some (case x of None \<Rightarrow> JNull | Some l \<Rightarrow> JArr (map JStr l))"
definition js_list_omit :: "string list \<Rightarrow> json option" where
  "js_list_omit l = (if l = [] then None else Some (JArr (map JStr l)))"

definition jv :: "('a \<Rightarrow> json) \<Rightarrow> 'a \<Rightarrow> json option" where "jv e x = Some (e x)"
definition jp_omit :: "('a \<Rightarrow> json) \<Rightarrow> 'a option \<Rightarrow> json option" where
  "jp_omit e x = map_option e x"
definition jl :: "('a \<Rightarrow> json) \<Rightarrow> 'a list option \<Rightarrow> json option" where
  "jl e x = Some (case x of None \<Rightarrow> JNull | Some l \<Rightarrow> JArr (map e l))"
definition jl_omit :: "('a \<Rightarrow> json) \<Rightarrow> 'a list \<Rightarrow> json option" where
  "jl_omit e l = (if l = [] then None else Some (JArr (map e l)))"

text \<open>A float64 is left out by omitempty when it is zero, of either sign.\<close>

definition f64_zero :: "f64 \<Rightarrow> bool" where 
  "f64_zero x \<longleftrightarrow> f64_bits x = 0 \<or> f64_bits x = 0x8000000000000000"
definition jf_value :: "golib \<Rightarrow> f64 \<Rightarrow> json" where "jf_value g x = JNum (gl_json_float g x)"
definition jf :: "golib \<Rightarrow> f64 \<Rightarrow> json option" where "jf g x = Some (jf_value g x)"
definition jf_omit :: "golib \<Rightarrow> f64 \<Rightarrow> json option" where
  "jf_omit g x = (if f64_zero x then None else jf g x)"
definition jb_value :: "bool \<Rightarrow> json" where "jb_value b = JBool b"
definition ji_value :: "int \<Rightarrow> json" where "ji_value i = JNum (int_str i)"

text \<open>A map with string keys, held in key order, which is the order encoding/json writes.\<close>

definition jm_omit :: "(string \<times> int) list \<Rightarrow> json option" where
  "jm_omit m = (if m = [] then None else Some (JObj (map (\<lambda>(k, i). (k, ji_value i)) m)))"

named_theorems json_inj \<open>an encoder determines the value it encodes\<close>

lemma map_inject: "(\<And>a b. e a = e b \<longleftrightarrow> a = b) \<Longrightarrow> map e l = map e m \<longleftrightarrow> l = m"
  using inj_map_eq_map [of e l m] by (simp add: inj_def)

lemma js_inj [json_inj]: "js a = js b \<longleftrightarrow> a = b" by (simp add: js_def)
lemma js_omit_inj [json_inj]: "js_omit a = js_omit b \<longleftrightarrow> a = b" by (auto simp: js_omit_def js_def)
lemma ji_inj [json_inj]: "ji a = ji b \<longleftrightarrow> a = b" by (simp add: ji_def)
lemma ji_omit_inj [json_inj]: "ji_omit a = ji_omit b \<longleftrightarrow> a = b" by (auto simp: ji_omit_def ji_def)
lemma jb_inj [json_inj]: "jb a = jb b \<longleftrightarrow> a = b" by (simp add: jb_def)
lemma jb_omit_inj [json_inj]: "jb_omit a = jb_omit b \<longleftrightarrow> a = b" by (auto simp: jb_omit_def jb_def)
lemma jb_value_inj [json_inj]: "jb_value a = jb_value b \<longleftrightarrow> a = b" by (simp add: jb_value_def)
lemma ji_value_inj [json_inj]: "ji_value a = ji_value b \<longleftrightarrow> a = b" by (simp add: ji_value_def)
lemma js_list_inj [json_inj]: "js_list a = js_list b \<longleftrightarrow> a = b"
  by (auto simp: js_list_def map_inject split: option.splits)
lemma js_list_omit_inj [json_inj]: "js_list_omit a = js_list_omit b \<longleftrightarrow> a = b"
  by (auto simp: js_list_omit_def map_inject)
lemma jm_omit_inj [json_inj]: "jm_omit a = jm_omit b \<longleftrightarrow> a = b"
proof -
  have "map (\<lambda>(k, i). (k, ji_value i)) a = map (\<lambda>(k, i). (k, ji_value i)) b \<longleftrightarrow> a = b"
    using inj_map_eq_map [of "\<lambda>(k :: string, i). (k, ji_value i)"] by (auto simp: inj_def ji_value_inj)
  then show ?thesis by (auto simp: jm_omit_def)
qed
lemma jv_inj [json_inj]: "jv e a = jv e b \<longleftrightarrow> e a = e b" by (simp add: jv_def)
lemma jp_omit_inj [json_inj]: "(\<And>a b. e a = e b \<longleftrightarrow> a = b) \<Longrightarrow> jp_omit e x = jp_omit e y \<longleftrightarrow> x = y"
  by (cases x; cases y) (auto simp: jp_omit_def)
lemma jl_inj [json_inj]: "(\<And>a b. e a = e b \<longleftrightarrow> a = b) \<Longrightarrow> (\<And>a. e a \<noteq> JNull) \<Longrightarrow> jl e x = jl e y \<longleftrightarrow> x = y"
  by (auto simp: jl_def map_inject split: option.splits)
lemma jl_omit_inj [json_inj]: "(\<And>a b. e a = e b \<longleftrightarrow> a = b) \<Longrightarrow> jl_omit e x = jl_omit e y \<longleftrightarrow> x = y"
  by (auto simp: jl_omit_def map_inject)

end
