(* ===== verification/Canonical.thy ===== *)
theory Canonical
  imports Json
begin

text \<open>
  The three preimage forms behind the record's hashes: the canonical JSON of a struct
  (canonical.go), the hand-written object of canonicalHashOf (builder.go), and the
  null-separated list (sealing.go). A \<open>preimage\<close> names the content of a hash before it is
  written; \<open>pre_bytes\<close> is what the code hashes. The commitment interpretations show that
  each form determines its content, so a hash binds it.
\<close>

text \<open>The elements of a slice, nil or not.\<close>

definition slice :: "'a list option \<Rightarrow> 'a list" where
  "slice x = (case x of None \<Rightarrow> [] | Some l \<Rightarrow> l)"

section \<open>Canonical JSON\<close>

definition MustCanonicalHash :: "golib \<Rightarrow> json \<Rightarrow> string" where
  "MustCanonicalHash g v = sha256_hex g (json_write v)"

interpretation json_text: commitment json_write wf_json wf_json
  by unfold_locales (rule json_write_inject)

section \<open>The flat object writer\<close>

text \<open>
  jsonEscape returns the string itself unless it holds a quote or a backslash; otherwise it
  walks the runes, and a byte that starts no rune is written as U+FFFD.
\<close>

fun escape_runes :: "string \<Rightarrow> string" where
  "escape_runes [] = []"
| "escape_runes (a # s) =
     (if a = quote_char \<or> a = backslash then backslash # a # escape_runes s
      else let k = rune_size (a # s) in
        if k = 0 then [CHR 0xEF, CHR 0xBF, CHR 0xBD] @ escape_runes s
        else take k (a # s) @ escape_runes (drop (k - 1) s))"

definition jsonEscape :: "string \<Rightarrow> string" where
  "jsonEscape s = (if quote_char \<notin> set s \<and> backslash \<notin> set s then s else escape_runes s)"

fun write_kv :: "(string \<times> string) list \<Rightarrow> string" where
  "write_kv [] = []"
| "write_kv ((k, v) # r) =
     CHR 0x2C # quote_char # k @ [quote_char, CHR '':'', quote_char] @ jsonEscape v @ quote_char # write_kv r"

definition kv_text :: "string \<Rightarrow> (string \<times> string) list \<Rightarrow> string" where
  "kv_text kind ps = ''{'' @ quote_char # ''kind'' @ [quote_char, CHR '':'', quote_char] @ kind @
     quote_char # write_kv ps @ ''}''"

definition canonicalHashOf :: "golib \<Rightarrow> string \<Rightarrow> (string \<times> string) list \<Rightarrow> string" where
  "canonicalHashOf g kind ps = sha256_hex g (kv_text kind ps)"

definition boolStr :: "bool \<Rightarrow> string" where
  "boolStr b = (if b then ''true'' else ''false'')"

definition esc_min :: "char \<Rightarrow> string" where
  "esc_min c = (if c = quote_char \<or> c = backslash then [backslash, c] else [c])"

lemma multibyte_plain:
  "in_range c lo hi \<Longrightarrow> 0x80 \<le> lo \<Longrightarrow> esc_min c = [c]"
  by (auto simp: in_range_def esc_min_def)

lemma rune_plain:
  assumes "0 < rune_size (a # s)" "a \<noteq> quote_char" "a \<noteq> backslash"
  shows "concat (map esc_min (take (rune_size (a # s)) (a # s))) = take (rune_size (a # s)) (a # s)"
  using assms(1)
proof (cases rule: rune_size_cases)
  case (one c t)
  with assms show ?thesis by (simp add: rune_size_def esc_min_def)
next
  case (two c b t)
  then show ?thesis using multibyte_plain [of c] multibyte_plain [of b]
    by (simp add: rune_size_def cont_byte_def)
next
  case (three c b d t)
  then have "esc_min b = [b]" by (auto intro: multibyte_plain split: if_splits)
  with three show ?thesis using multibyte_plain [of c] multibyte_plain [of d]
    by (simp add: rune_size_def cont_byte_def)
next
  case (four c b d e t)
  then have "esc_min b = [b]" by (auto intro: multibyte_plain split: if_splits)
  with four show ?thesis using multibyte_plain [of c] multibyte_plain [of d] multibyte_plain [of e]
    by (simp add: rune_size_def cont_byte_def)
qed

lemma escape_runes_valid: "valid_utf8 s \<Longrightarrow> escape_runes s = concat (map esc_min s)"
proof (induction s rule: escape_runes.induct)
  case (2 a s)
  let ?k = "rune_size (a # s)"
  have k: "0 < ?k" and v: "valid_utf8 (drop (?k - 1) s)" using "2.prems" by (auto simp: Let_def)
  show ?case
  proof (cases "a = quote_char \<or> a = backslash")
    case True
    then have "?k = 1" by (auto simp: rune_size_def in_range_def)
    with True v "2.IH"(1) show ?thesis by (auto simp: esc_min_def)
  next
    case False
    have "a # s = take ?k (a # s) @ drop (?k - 1) s"
      using k by (cases ?k) simp_all
    then have "concat (map esc_min (a # s))
        = concat (map esc_min (take ?k (a # s))) @ concat (map esc_min (drop (?k - 1) s))"
      by (metis concat_append map_append)
    moreover have "escape_runes (drop (?k - 1) s) = concat (map esc_min (drop (?k - 1) s))"
      using "2.IH"(3) [OF False refl] k v by simp
    ultimately show ?thesis using False k rune_plain [OF k] by (simp add: Let_def)
  qed
qed simp

lemma jsonEscape_valid: "valid_utf8 s \<Longrightarrow> jsonEscape s = concat (map esc_min s)"
proof -
  have "quote_char \<notin> set s \<Longrightarrow> backslash \<notin> set s \<Longrightarrow> concat (map esc_min s) = s"
    by (induction s) (auto simp: esc_min_def)
  then show "valid_utf8 s \<Longrightarrow> jsonEscape s = concat (map esc_min s)"
    by (simp add: jsonEscape_def escape_runes_valid)
qed

lemma escaped_cut:
  "concat (map esc_min s) @ quote_char # r = concat (map esc_min t) @ quote_char # r' \<Longrightarrow> s = t \<and> r = r'"
proof (induction s arbitrary: t)
  case Nil
  then show ?case by (cases t) (auto simp: esc_min_def split: if_splits)
next
  case (Cons a s)
  obtain b u where t: "t = b # u" using Cons.prems by (cases t) (auto simp: esc_min_def split: if_splits)
  have "esc_min a @ x = esc_min b @ y \<Longrightarrow> a = b \<and> x = y" for x y
    by (auto simp: esc_min_def split: if_splits)
  with Cons.prems t have "a = b" "concat (map esc_min s) @ quote_char # r = concat (map esc_min u) @ quote_char # r'"
    by force+
  with Cons.IH t show ?case by blast
qed

lemma write_kv_cut:
  assumes "map fst ps = map fst qs" "\<forall>(k, v) \<in> set ps. valid_utf8 v" "\<forall>(k, v) \<in> set qs. valid_utf8 v"
    "write_kv ps @ r = write_kv qs @ r'"
  shows "ps = qs"
  using assms
proof (induction ps arbitrary: qs)
  case (Cons p ps)
  obtain k v w us where p: "p = (k, v)" and qs: "qs = (k, w) # us"
    using Cons.prems(1) by (cases p; cases qs) auto
  have "concat (map esc_min v) @ quote_char # write_kv ps @ r = concat (map esc_min w) @ quote_char # write_kv us @ r'"
    using Cons.prems(2,3,4) p qs by (simp add: jsonEscape_valid)
  then have "v = w \<and> write_kv ps @ r = write_kv us @ r'" by (rule escaped_cut)
  moreover have "ps = us" if "write_kv ps @ r = write_kv us @ r'"
    by (rule Cons.IH) (use Cons.prems p qs that in auto)
  ultimately show ?case using p qs by simp
qed simp

definition kv_over :: "string list \<Rightarrow> (string \<times> string) list \<Rightarrow> bool" where
  "kv_over ks ps \<longleftrightarrow> map fst ps = ks \<and> list_all (\<lambda>(k, v). valid_utf8 v) ps"

interpretation kv_object: commitment "kv_text kind" "kv_over ks" "kv_over ks" for kind ks
  by unfold_locales (auto simp: kv_over_def kv_text_def list_all_iff dest: write_kv_cut)

section \<open>The null-separated list\<close>

abbreviation NUL :: char where "NUL \<equiv> CHR 0x00"

definition null_join :: "string list \<Rightarrow> string" where
  "null_join parts = join NUL parts"

definition nullJoinHash :: "golib \<Rightarrow> string \<Rightarrow> string list \<Rightarrow> string" where
  "nullJoinHash g domain fs = sha256_hex g (null_join (domain # fs))"

definition nullJoinHashParts :: "golib \<Rightarrow> string list \<Rightarrow> string" where
  "nullJoinHashParts g parts = sha256_hex g (null_join parts)"

definition nul_free :: "string list \<Rightarrow> bool" where
  "nul_free xs \<longleftrightarrow> list_all (\<lambda>x. NUL \<notin> set x) xs"

text \<open>
  The list must be free of the separator on the sealed side only: a list of the same length
  with the same join is then the same list.
\<close>

lemma null_join_inject: "nul_free xs \<Longrightarrow> length xs = length ys \<Longrightarrow> null_join xs = null_join ys \<Longrightarrow> xs = ys"
  by (auto simp: null_join_def nul_free_def list_all_iff intro: join_inject)

interpretation null_list: commitment null_join "\<lambda>xs. nul_free xs \<and> length xs = n" "\<lambda>ys. length ys = n" for n
  by unfold_locales (auto intro: null_join_inject)

section \<open>Preimages\<close>

datatype preimage =
    Canon json
  | Pairs string "(string \<times> string) list"
  | Nulls "string list"

fun pre_bytes :: "preimage \<Rightarrow> bytes" where
  "pre_bytes (Canon v) = json_write v"
| "pre_bytes (Pairs kind ps) = kv_text kind ps"
| "pre_bytes (Nulls xs) = null_join xs"

text \<open>
  Two preimages are compared in the same position of the record, so they have the same form:
  the same kind and keys, or the same number of parts. A readable preimage holds valid UTF-8,
  which every string read from JSON is, and its separated parts hold no separator.
\<close>

fun same_form :: "preimage \<Rightarrow> preimage \<Rightarrow> bool" where
  "same_form (Canon _) (Canon _) = True"
| "same_form (Pairs k ps) (Pairs l qs) = (k = l \<and> map fst ps = map fst qs)"
| "same_form (Nulls xs) (Nulls ys) = (length xs = length ys)"
| "same_form _ _ = False"

fun pre_ok :: "preimage \<Rightarrow> bool" where
  "pre_ok (Canon v) = wf_json v"
| "pre_ok (Pairs kind ps) = list_all (\<lambda>(k, v). valid_utf8 v) ps"
| "pre_ok (Nulls xs) = nul_free xs"

definition pre_hash :: "golib \<Rightarrow> preimage \<Rightarrow> string" where
  "pre_hash g p = sha256_hex g (pre_bytes p)"

interpretation sealed: commitment pre_bytes "\<lambda>p. pre_ok p \<and> same_form p s" "\<lambda>q. pre_ok q \<and> same_form s q" for s
proof unfold_locales
  fix x y :: preimage
  assume "pre_ok x \<and> same_form x s" "pre_ok y \<and> same_form s y" "pre_bytes x = pre_bytes y"
  then show "x = y"
    by (cases x; cases y; cases s)
      (auto simp: kv_over_def intro: json_write_inject null_join_inject
        kv_object.enc_inject [unfolded kv_over_def])
qed

lemma pre_hash_simps [go_simps]:
  "pre_hash g (Canon v) = MustCanonicalHash g v"
  "pre_hash g (Pairs kind ps) = canonicalHashOf g kind ps"
  "pre_hash g (Nulls (d # fs)) = nullJoinHash g d fs"
  by (simp_all add: pre_hash_def MustCanonicalHash_def canonicalHashOf_def nullJoinHash_def)

text \<open>Two object preimages of different kinds are different texts, whatever their keys.\<close>

fun comparable :: "preimage \<Rightarrow> preimage \<Rightarrow> bool" where
  "comparable (Pairs k ps) (Pairs l qs) =
     (if k = l then map fst ps = map fst qs else quote_char \<notin> set k \<and> quote_char \<notin> set l)"
| "comparable (Nulls xs) (Nulls ys) = (xs \<noteq> [] \<and> ys \<noteq> [])"
| "comparable p q = same_form p q"

lemma plain_cut: "c \<notin> set k \<Longrightarrow> c \<notin> set l \<Longrightarrow> k @ c # r = l @ c # r' \<Longrightarrow> k = l"
  by (induction k arbitrary: l; case_tac l) auto

lemma kv_kind_cut: "quote_char \<notin> set k \<Longrightarrow> quote_char \<notin> set l \<Longrightarrow> kv_text k ps = kv_text l qs \<Longrightarrow> k = l"
  using plain_cut [of quote_char k l] by (auto simp: kv_text_def)

lemma null_join_free:
  assumes "nul_free xs" "nul_free ys" "xs \<noteq> []" "ys \<noteq> []" "null_join xs = null_join ys"
  shows "xs = ys"
proof -
  have "concat (map (split_on NUL) zs) = zs" if "nul_free zs" for zs
    using that by (intro concat_split_free) (auto simp: nul_free_def list_all_iff)
  then show ?thesis using join_component [OF assms(5) [unfolded null_join_def]] assms by metis
qed

lemma pre_hash_binds:
  assumes "pre_ok p" "pre_ok q" "comparable p q" "pre_hash g p = pre_hash g q"
  shows "p = q \<or> collides g [pre_bytes p] [pre_bytes q]"
proof (cases "same_form p q")
  case True
  moreover have "same_form q q" by (cases q) auto
  ultimately show ?thesis using sealed.binds [of p q q g] assms by (simp add: pre_hash_def)
next
  case False
  with assms(1-3) have "p = q \<or> pre_bytes p \<noteq> pre_bytes q"
    by (cases p; cases q) (auto split: if_splits dest: kv_kind_cut null_join_free)
  with assms(4) show ?thesis by (auto simp: pre_hash_def intro: collidesI)
qed

lemma pre_hashes_bind:
  assumes "list_all2 comparable ps qs" "list_all pre_ok ps" "list_all pre_ok qs"
    "map (pre_hash g) ps = map (pre_hash g) qs"
  shows "ps = qs \<or> collides g (map pre_bytes ps) (map pre_bytes qs)"
  using assms
proof (induction ps qs rule: list_all2_induct)
  case (Cons p ps q qs)
  from Cons.prems have "p = q \<or> collides g [pre_bytes p] [pre_bytes q]"
    by (intro pre_hash_binds) (use Cons.hyps in auto)
  moreover from Cons have "ps = qs \<or> collides g (map pre_bytes ps) (map pre_bytes qs)" by simp
  ultimately show ?case
    using collides_Cons [of g] by (metis list.map(2))
qed simp

end
