(* ===== verification/Types.thy ===== *)
theory Types
  imports Json
begin

text \<open>
  The audit bundle (internal/artifacts/types.go and the files beside it): one record per
  struct, field by field in declaration order, and for each struct that reaches a
  canonical hash the JSON object encoding/json writes for it. A slice whose field has no
  omitempty is an option, None for nil, because the two are written differently; a
  pointer is an option. The integers of these structs are only compared and printed.
\<close>

section \<open>References and notes\<close>

record seal_reference =
  sr_manifest_hash :: string
  sr_seal_field :: string
  sr_sealed_hash :: string

definition sr_json :: "seal_reference \<Rightarrow> json" where
  "sr_json x = mk_obj [
    (''manifest_hash'', js (sr_manifest_hash x)),
    (''seal_field'', js (sr_seal_field x)),
    (''sealed_hash'', js (sr_sealed_hash x))]"

lemma sr_json_inj [json_inj]: "sr_json x = sr_json y \<longleftrightarrow> x = y"
  by (cases x; cases y) (simp add: sr_json_def json_inj)

lemma sr_json_not_null [json_inj]: "sr_json x \<noteq> JNull"
  by (simp add: sr_json_def mk_obj_def)

record scaffold_note =
  sn_is_scaffold :: bool
  sn_activated_by :: string
  sn_note :: string

definition sn_json :: "scaffold_note \<Rightarrow> json" where
  "sn_json x = mk_obj [
    (''is_scaffold'', jb (sn_is_scaffold x)),
    (''activated_by'', js_omit (sn_activated_by x)),
    (''note'', js_omit (sn_note x))]"

lemma sn_json_inj [json_inj]: "sn_json x = sn_json y \<longleftrightarrow> x = y"
  by (cases x; cases y) (simp add: sn_json_def json_inj)

lemma sn_json_not_null [json_inj]: "sn_json x \<noteq> JNull"
  by (simp add: sn_json_def mk_obj_def)

section \<open>The pipeline artifacts\<close>

record attested_context =
  ac_attested :: bool
  ac_actor_id :: string
  ac_actor_role :: string
  ac_authorization_policy :: string
  ac_actor_signature :: string
  ac_model_provider :: string
  ac_model_name :: string
  ac_model_version :: string
  ac_model_temperature :: "f64 option"
  ac_prompt_hash :: string
  ac_decision_kind :: string
  ac_decision_result :: string
  ac_decision_note :: string

definition ac_json :: "golib \<Rightarrow> attested_context \<Rightarrow> json" where
  "ac_json g x = mk_obj [
    (''attested'', jb (ac_attested x)),
    (''actor_id'', js_omit (ac_actor_id x)),
    (''actor_role'', js_omit (ac_actor_role x)),
    (''authorization_policy'', js_omit (ac_authorization_policy x)),
    (''actor_signature'', js_omit (ac_actor_signature x)),
    (''model_provider'', js_omit (ac_model_provider x)),
    (''model_name'', js_omit (ac_model_name x)),
    (''model_version'', js_omit (ac_model_version x)),
    (''model_temperature'', jp_omit (jf_value g) (ac_model_temperature x)),
    (''prompt_hash'', js_omit (ac_prompt_hash x)),
    (''decision_kind'', js_omit (ac_decision_kind x)),
    (''decision_result'', js_omit (ac_decision_result x)),
    (''decision_note'', js_omit (ac_decision_note x))]"

record payload =
  pl_kind :: string
  pl_payload_id :: string
  pl_content_hash :: string
  pl_content_length :: int
  pl_content_inline :: string
  pl_origin_type :: string
  pl_schema_version :: string
  pl_hash :: string

record envelope =
  env_kind :: string
  env_envelope_id :: string
  env_payload_hash :: string
  env_program_id :: string
  env_route_id :: string
  env_registry_record_hash :: string
  env_timestamp :: string
  env_hash :: string
  env_seal :: seal_reference

record transport =
  tr_kind :: string
  tr_envelope_id :: string
  tr_envelope_hash :: string
  tr_sequence_id :: string
  tr_route :: "string list option"
  tr_hash :: string
  tr_seal :: seal_reference

record policy_inputs =
  pi_subject_id :: string
  pi_subject_type :: string
  pi_subject_role :: string
  pi_verb :: string
  pi_object_type :: string
  pi_object_id :: string
  pi_classification :: string
  pi_mfa_satisfied :: bool
  pi_session_age_seconds :: int
  pi_evaluated_at :: string
  pi_rate_counts :: "(string \<times> int) list"

definition pi_json :: "policy_inputs \<Rightarrow> json" where
  "pi_json x = mk_obj [
    (''subject_id'', js (pi_subject_id x)),
    (''subject_type'', js (pi_subject_type x)),
    (''subject_role'', js_omit (pi_subject_role x)),
    (''verb'', js (pi_verb x)),
    (''object_type'', js (pi_object_type x)),
    (''object_id'', js (pi_object_id x)),
    (''classification'', js (pi_classification x)),
    (''mfa_satisfied'', jb_omit (pi_mfa_satisfied x)),
    (''session_age_seconds'', ji_omit (pi_session_age_seconds x)),
    (''evaluated_at'', js (pi_evaluated_at x)),
    (''rate_counts'', jm_omit (pi_rate_counts x))]"

lemma pi_json_inj [json_inj]: "pi_json x = pi_json y \<longleftrightarrow> x = y"
  by (cases x; cases y) (simp add: pi_json_def json_inj)

lemma pi_json_not_null [json_inj]: "pi_json x \<noteq> JNull"
  by (simp add: pi_json_def mk_obj_def)

record policy_gate =
  pg_policy_id :: string
  pg_policy_name :: string
  pg_policy_version :: string
  pg_policy_hash :: string
  pg_outcome :: string
  pg_fired_rule_id :: string
  pg_decision_reason_code :: string
  pg_evaluation_hash :: string
  pg_source :: string
  pg_document_hash :: string
  pg_activation_hash :: string
  pg_inputs :: "policy_inputs option"

definition pg_json :: "policy_gate \<Rightarrow> json" where
  "pg_json x = mk_obj [
    (''policy_id'', js (pg_policy_id x)),
    (''policy_name'', js (pg_policy_name x)),
    (''policy_version'', js (pg_policy_version x)),
    (''policy_hash'', js (pg_policy_hash x)),
    (''outcome'', js (pg_outcome x)),
    (''fired_rule_id'', js (pg_fired_rule_id x)),
    (''decision_reason_code'', js (pg_decision_reason_code x)),
    (''evaluation_hash'', js (pg_evaluation_hash x)),
    (''source'', js_omit (pg_source x)),
    (''document_hash'', js_omit (pg_document_hash x)),
    (''activation_hash'', js_omit (pg_activation_hash x)),
    (''inputs'', jp_omit pi_json (pg_inputs x))]"

lemma pg_json_inj [json_inj]: "pg_json x = pg_json y \<longleftrightarrow> x = y"
  by (cases x; cases y) (simp add: pg_json_def json_inj)

lemma pg_json_not_null [json_inj]: "pg_json x \<noteq> JNull"
  by (simp add: pg_json_def mk_obj_def)

record env_snapshot =
  es_time :: string
  es_region :: string
  es_os :: string
  es_go_version :: string

definition es_json :: "env_snapshot \<Rightarrow> json" where
  "es_json x = mk_obj [
    (''time'', js (es_time x)),
    (''region'', js (es_region x)),
    (''os'', js (es_os x)),
    (''go_version'', js (es_go_version x))]"

lemma es_json_inj [json_inj]: "es_json x = es_json y \<longleftrightarrow> x = y"
  by (cases x; cases y) (simp add: es_json_def json_inj)

lemma es_json_not_null [json_inj]: "es_json x \<noteq> JNull"
  by (simp add: es_json_def mk_obj_def)

record epa =
  epa_kind :: string
  epa_kernel_id :: string
  epa_kernel_version :: string
  epa_policy_hash :: string
  epa_environment_snapshot :: env_snapshot
  epa_attested_context :: attested_context
  epa_policy_gate :: "policy_gate option"
  epa_account_policy_gate :: "policy_gate option"
  epa_hash :: string
  epa_seal :: seal_reference

record exec_step =
  st_step_index :: int
  st_kernel :: string
  st_execution_id :: string
  st_status :: string

definition st_json :: "exec_step \<Rightarrow> json" where
  "st_json x = mk_obj [
    (''step_index'', ji (st_step_index x)),
    (''kernel'', js (st_kernel x)),
    (''execution_id'', js (st_execution_id x)),
    (''status'', js (st_status x))]"

lemma st_json_inj [json_inj]: "st_json x = st_json y \<longleftrightarrow> x = y"
  by (cases x; cases y) (simp add: st_json_def json_inj)

lemma st_json_not_null [json_inj]: "st_json x \<noteq> JNull"
  by (simp add: st_json_def mk_obj_def)

record efa =
  efa_kind :: string
  efa_steps :: "exec_step list option"
  efa_deterministic :: bool
  efa_fail_closed :: bool
  efa_hash :: string
  efa_seal :: seal_reference

record decision_record =
  dr_source :: string
  dr_kind :: string
  dr_result :: string
  dr_note :: string

definition dr_json :: "decision_record \<Rightarrow> json" where
  "dr_json x = mk_obj [
    (''source'', js (dr_source x)),
    (''kind'', js_omit (dr_kind x)),
    (''result'', js_omit (dr_result x)),
    (''note'', js_omit (dr_note x))]"

lemma dr_json_inj [json_inj]: "dr_json x = dr_json y \<longleftrightarrow> x = y"
  by (cases x; cases y) (simp add: dr_json_def json_inj)

lemma dr_json_not_null [json_inj]: "dr_json x \<noteq> JNull"
  by (simp add: dr_json_def mk_obj_def)

record aer =
  aer_kind :: string
  aer_envelope_id :: string
  aer_sequence_id :: string
  aer_execution_ids :: "string list option"
  aer_final_state :: string
  aer_decision :: decision_record
  aer_hash :: string
  aer_seal :: seal_reference

record transcript =
  ts_kind :: string
  ts_proof_hash_input :: string
  ts_transcript_hash :: string
  ts_scaffold :: scaffold_note
  ts_hash :: string
  ts_seal :: seal_reference

record sevsnp_claim =
  vc_platform :: string
  vc_root_fingerprint_sha256 :: string
  vc_chain_verified :: bool
  vc_signature_verified :: bool
  vc_report_data_bound :: bool
  vc_signing_key_type :: string
  vc_report_version :: int
  vc_measurement_hex :: string
  vc_report_id_hex :: string
  vc_current_tcb_hex :: string
  vc_reported_tcb_hex :: string
  vc_report_data_hex :: string
  vc_vlek_leaf_sha256 :: string

definition vc_json :: "sevsnp_claim \<Rightarrow> json" where
  "vc_json x = mk_obj [
    (''platform'', js (vc_platform x)),
    (''root_fingerprint_sha256'', js (vc_root_fingerprint_sha256 x)),
    (''chain_verified'', jb (vc_chain_verified x)),
    (''signature_verified'', jb (vc_signature_verified x)),
    (''report_data_bound'', jb (vc_report_data_bound x)),
    (''signing_key_type'', js (vc_signing_key_type x)),
    (''report_version'', ji (vc_report_version x)),
    (''measurement_hex'', js (vc_measurement_hex x)),
    (''report_id_hex'', js (vc_report_id_hex x)),
    (''current_tcb_hex'', js (vc_current_tcb_hex x)),
    (''reported_tcb_hex'', js (vc_reported_tcb_hex x)),
    (''report_data_hex'', js (vc_report_data_hex x)),
    (''vlek_leaf_sha256'', js (vc_vlek_leaf_sha256 x))]"

lemma vc_json_inj [json_inj]: "vc_json x = vc_json y \<longleftrightarrow> x = y"
  by (cases x; cases y) (simp add: vc_json_def json_inj)

lemma vc_json_not_null [json_inj]: "vc_json x \<noteq> JNull"
  by (simp add: vc_json_def mk_obj_def)

record hardware_attestation =
  hw_kind :: string
  hw_attestation_mode :: string
  hw_enclave_measurement :: string
  hw_firmware_class :: string
  hw_secure_boot_state :: string
  hw_execution_environment :: string
  hw_pcr_selection :: string
  hw_tier4_blockers :: "string list option"
  hw_platform :: string
  hw_quote_b64 :: string
  hw_vlek_cert_pem :: string
  hw_cert_chain_pem :: string
  hw_report_data_hex :: string
  hw_report_data_recipe :: string
  hw_verification :: "sevsnp_claim option"
  hw_scaffold :: scaffold_note
  hw_hash :: string
  hw_seal :: seal_reference

record leakage_bundle =
  lb_kind :: string
  lb_constant_time_compliant :: bool
  lb_timing_variance_observed :: bool
  lb_mitigations :: "string list option"
  lb_scaffold :: scaffold_note
  lb_hash :: string
  lb_seal :: seal_reference

record zksp_binding =
  zk_kind :: string
  zk_proving_system :: string
  zk_verification_status :: string
  zk_binds_to :: "string list option"
  zk_scaffold :: scaffold_note
  zk_hash :: string
  zk_seal :: seal_reference

record migration_token =
  mt_kind :: string
  mt_from_version :: string
  mt_to_version :: string
  mt_state_hash :: string
  mt_hash :: string
  mt_seal :: seal_reference

record replay_fingerprint =
  rf_kind :: string
  rf_deterministic_inputs :: "string list option"
  rf_expected_output_hash :: string
  rf_hash :: string
  rf_seal :: seal_reference

record pote_proof =
  pp_kind :: string
  pp_proof_type :: string
  pp_execution_trace_hash :: string
  pp_log_entry_id :: string
  pp_ledger_backend :: string
  pp_ledger_log_id :: string
  pp_integrated_time :: int
  pp_signed_entry_timestamp :: string
  pp_ledger_checkpoint :: string
  pp_scaffold :: scaffold_note
  pp_hash :: string
  pp_seal :: seal_reference

record final_vfa =
  vf_kind :: string
  vf_envelope_hash :: string
  vf_transport_hash :: string
  vf_epa_hash :: string
  vf_efa_hash :: string
  vf_aer_hash :: string
  vf_transcript_hash :: string
  vf_hardware_attestation_hash :: string
  vf_leakage_bundle_hash :: string
  vf_zksp_binding_hash :: string
  vf_migration_token_hash :: string
  vf_replay_fingerprint :: string
  vf_pote_proof_hash :: string
  vf_independent_verified :: bool
  vf_hash :: string
  vf_seal :: seal_reference

section \<open>The sections outside the pipeline\<close>

record formal_verification =
  fv_kind :: string
  fv_repo :: string
  fv_commit_sha :: string
  fv_toolchain :: string
  fv_modules :: "string list option"
  fv_theorems :: "string list option"
  fv_axiom_footprint :: string
  fv_scope :: string
  fv_manifest_hash :: string
  fv_hash :: string

record request_signature =
  rs_public_key :: string
  rs_signature :: string
  rs_signed_at :: string
  rs_nonce :: string
  rs_version :: string
  rs_body_hash :: string
  rs_ai_output_hash :: string

record job_link =
  jl_job_id :: string
  jl_step_id :: string
  jl_previous_record_hashes :: "string list"
  jl_external_previous :: "string list"
  jl_final :: bool

record nrep_section =
  nr_actor_id :: string
  nr_public_key :: string
  nr_signature :: string
  nr_signed_at :: string
  nr_request_signature :: "request_signature option"
  nr_job :: "job_link option"
  nr_account_id :: string

record aivp_t4_section =
  ai_outcome :: string
  ai_pia_hash :: string
  ai_adapter_id :: string
  ai_ai_output_hash :: string
  ai_decision :: string
  ai_halt_receipt_hash :: string

record rekor_anchor =
  ra_backend :: string
  ra_log_entry_id :: string
  ra_log_id :: string
  ra_leaf_hash :: string
  ra_input_nonce :: int
  ra_entry_body :: string
  ra_log_index :: int
  ra_tree_size :: int
  ra_root_hash :: string
  ra_inclusion_path :: "string list option"
  ra_checkpoint :: string
  ra_signed_entry_timestamp :: string
  ra_integrated_time :: int

record pre_anchor_entry =
  pe_name :: string
  pe_value :: string

record stage_timing =
  sg_stage :: string
  sg_duration_nanos :: int

record execution_record =
  er_kind :: string
  er_formula :: string
  er_input_hash :: string
  er_transport_hash :: string
  er_execution_control_hash :: string
  er_program_hash :: string
  er_kernel_output_ids :: "string list option"
  er_hardware_attestation_hash :: string
  er_hardware_attested :: bool
  er_aer_hash :: string
  er_proof_hash :: string

record bundle_anchor =
  ba_kind :: string
  ba_digest_form :: string
  ba_anchored_digest :: string
  ba_backend :: string
  ba_log_entry_id :: string
  ba_log_id :: string
  ba_leaf_hash :: string
  ba_log_index :: int
  ba_tree_size :: int
  ba_root_hash :: string
  ba_inclusion_path :: "string list option"
  ba_checkpoint :: string
  ba_signed_entry_timestamp :: string
  ba_integrated_time :: int
  ba_entry_body :: string

end
