(* ===== verification/Categories.thy ===== *)
theory Categories
  imports Types
begin

text \<open>
  The six extension categories of the audit bundle (category1_request.go to
  category6_reproducibility.go), with the JSON each section hash is taken over, and the
  bundle that holds every section. A category's hash covers its whole struct with the
  hash and seal blanked, so every struct of a category has its encoder.
\<close>

section \<open>Request substance\<close>

record prompt_record =
  pr_hash :: string
  pr_template_id :: string
  pr_template_version :: string
  pr_system_hash :: string
  pr_user_hash :: string
  pr_content_inline :: string
  pr_token_count :: int
  pr_content_encoding :: string

definition pr_json :: "prompt_record \<Rightarrow> json" where
  "pr_json x = mk_obj [
    (''hash'', js_omit (pr_hash x)),
    (''template_id'', js_omit (pr_template_id x)),
    (''template_version'', js_omit (pr_template_version x)),
    (''system_hash'', js_omit (pr_system_hash x)),
    (''user_hash'', js_omit (pr_user_hash x)),
    (''content_inline'', js_omit (pr_content_inline x)),
    (''token_count'', ji_omit (pr_token_count x)),
    (''content_encoding'', js_omit (pr_content_encoding x))]"

lemma pr_json_inj [json_inj]: "pr_json x = pr_json y \<longleftrightarrow> x = y"
  by (cases x; cases y) (simp add: pr_json_def json_inj)

lemma pr_json_not_null [json_inj]: "pr_json x \<noteq> JNull"
  by (simp add: pr_json_def mk_obj_def)

record output_record =
  orc_hash :: string
  orc_content_inline :: string
  orc_token_count :: int
  orc_finish_reason :: string
  orc_stop_sequences :: "string list"
  orc_streaming_closed :: bool

definition orc_json :: "output_record \<Rightarrow> json" where
  "orc_json x = mk_obj [
    (''hash'', js_omit (orc_hash x)),
    (''content_inline'', js_omit (orc_content_inline x)),
    (''token_count'', ji_omit (orc_token_count x)),
    (''finish_reason'', js_omit (orc_finish_reason x)),
    (''stop_sequences'', js_list_omit (orc_stop_sequences x)),
    (''streaming_closed'', jb_omit (orc_streaming_closed x))]"

lemma orc_json_inj [json_inj]: "orc_json x = orc_json y \<longleftrightarrow> x = y"
  by (cases x; cases y) (simp add: orc_json_def json_inj)

lemma orc_json_not_null [json_inj]: "orc_json x \<noteq> JNull"
  by (simp add: orc_json_def mk_obj_def)

record post_processing_step =
  pps_step_index :: int
  pps_step_type :: string
  pps_description :: string
  pps_input_hash :: string
  pps_output_hash :: string
  pps_tool_id :: string

definition pps_json :: "post_processing_step \<Rightarrow> json" where
  "pps_json x = mk_obj [
    (''step_index'', ji (pps_step_index x)),
    (''step_type'', js (pps_step_type x)),
    (''description'', js_omit (pps_description x)),
    (''input_hash'', js (pps_input_hash x)),
    (''output_hash'', js (pps_output_hash x)),
    (''tool_id'', js_omit (pps_tool_id x))]"

lemma pps_json_inj [json_inj]: "pps_json x = pps_json y \<longleftrightarrow> x = y"
  by (cases x; cases y) (simp add: pps_json_def json_inj)

lemma pps_json_not_null [json_inj]: "pps_json x \<noteq> JNull"
  by (simp add: pps_json_def mk_obj_def)

record cost_breakdown =
  cb_input_tokens :: int
  cb_output_tokens :: int
  cb_total_tokens :: int
  cb_estimated_cost_usd :: f64
  cb_billing_tier :: string

definition cb_json :: "golib \<Rightarrow> cost_breakdown \<Rightarrow> json" where
  "cb_json g x = mk_obj [
    (''input_tokens'', ji_omit (cb_input_tokens x)),
    (''output_tokens'', ji_omit (cb_output_tokens x)),
    (''total_tokens'', ji_omit (cb_total_tokens x)),
    (''estimated_cost_usd'', jf_omit g (cb_estimated_cost_usd x)),
    (''billing_tier'', js_omit (cb_billing_tier x))]"

record stage_latency =
  sl_stage :: string
  sl_duration_ms :: int

definition sl_json :: "stage_latency \<Rightarrow> json" where
  "sl_json x = mk_obj [
    (''stage'', js (sl_stage x)),
    (''duration_ms'', ji (sl_duration_ms x))]"

lemma sl_json_inj [json_inj]: "sl_json x = sl_json y \<longleftrightarrow> x = y"
  by (cases x; cases y) (simp add: sl_json_def json_inj)

lemma sl_json_not_null [json_inj]: "sl_json x \<noteq> JNull"
  by (simp add: sl_json_def mk_obj_def)

record latency_breakdown =
  la_total_ms :: int
  la_per_stage_ms :: "stage_latency list"
  la_network_in_ms :: int
  la_network_out_ms :: int
  la_model_latency_ms :: int

definition la_json :: "latency_breakdown \<Rightarrow> json" where
  "la_json x = mk_obj [
    (''total_ms'', ji (la_total_ms x)),
    (''per_stage_ms'', jl_omit sl_json (la_per_stage_ms x)),
    (''network_in_ms'', ji_omit (la_network_in_ms x)),
    (''network_out_ms'', ji_omit (la_network_out_ms x)),
    (''model_latency_ms'', ji_omit (la_model_latency_ms x))]"

lemma la_json_inj [json_inj]: "la_json x = la_json y \<longleftrightarrow> x = y"
  by (cases x; cases y) (simp add: la_json_def json_inj)

lemma la_json_not_null [json_inj]: "la_json x \<noteq> JNull"
  by (simp add: la_json_def mk_obj_def)

record request_origin_inline =
  roi_source_ip :: string
  roi_user_agent :: string

definition roi_json :: "request_origin_inline \<Rightarrow> json" where
  "roi_json x = mk_obj [
    (''source_ip'', js_omit (roi_source_ip x)),
    (''user_agent'', js_omit (roi_user_agent x))]"

lemma roi_json_inj [json_inj]: "roi_json x = roi_json y \<longleftrightarrow> x = y"
  by (cases x; cases y) (simp add: roi_json_def json_inj)

lemma roi_json_not_null [json_inj]: "roi_json x \<noteq> JNull"
  by (simp add: roi_json_def mk_obj_def)

record request_origin =
  ro_source_ip_hash :: string
  ro_user_agent_hash :: string
  ro_device_fingerprint_hash :: string
  ro_geo_country :: string
  ro_geo_region :: string
  ro_origin_inline :: "request_origin_inline option"

definition ro_json :: "request_origin \<Rightarrow> json" where
  "ro_json x = mk_obj [
    (''source_ip_hash'', js_omit (ro_source_ip_hash x)),
    (''user_agent_hash'', js_omit (ro_user_agent_hash x)),
    (''device_fingerprint_hash'', js_omit (ro_device_fingerprint_hash x)),
    (''geo_country'', js_omit (ro_geo_country x)),
    (''geo_region'', js_omit (ro_geo_region x)),
    (''origin_inline'', jp_omit roi_json (ro_origin_inline x))]"

lemma ro_json_inj [json_inj]: "ro_json x = ro_json y \<longleftrightarrow> x = y"
  by (cases x; cases y) (simp add: ro_json_def json_inj)

lemma ro_json_not_null [json_inj]: "ro_json x \<noteq> JNull"
  by (simp add: ro_json_def mk_obj_def)

record authentication_record =
  au_method :: string
  au_provider :: string
  au_api_key_id :: int
  au_api_key_name :: string
  au_key_last_rotated_at :: string
  au_session_age_seconds :: int
  au_mfa_satisfied :: "bool option"
  au_mfa_method :: string

definition au_json :: "authentication_record \<Rightarrow> json" where
  "au_json x = mk_obj [
    (''method'', js (au_method x)),
    (''provider'', js_omit (au_provider x)),
    (''api_key_id'', ji_omit (au_api_key_id x)),
    (''api_key_name'', js_omit (au_api_key_name x)),
    (''key_last_rotated_at'', js_omit (au_key_last_rotated_at x)),
    (''session_age_seconds'', ji_omit (au_session_age_seconds x)),
    (''mfa_satisfied'', jp_omit jb_value (au_mfa_satisfied x)),
    (''mfa_method'', js_omit (au_mfa_method x))]"

lemma au_json_inj [json_inj]: "au_json x = au_json y \<longleftrightarrow> x = y"
  by (cases x; cases y) (simp add: au_json_def json_inj)

lemma au_json_not_null [json_inj]: "au_json x \<noteq> JNull"
  by (simp add: au_json_def mk_obj_def)

record request_substance =
  rq_kind :: string
  rq_prompt :: prompt_record
  rq_output :: output_record
  rq_post_processing :: "post_processing_step list"
  rq_cost :: cost_breakdown
  rq_latency :: latency_breakdown
  rq_origin :: request_origin
  rq_authentication :: authentication_record
  rq_hash :: string
  rq_seal :: seal_reference

definition rq_json :: "golib \<Rightarrow> request_substance \<Rightarrow> json" where
  "rq_json g x = mk_obj [
    (''kind'', js (rq_kind x)),
    (''prompt'', jv pr_json (rq_prompt x)),
    (''output'', jv orc_json (rq_output x)),
    (''post_processing'', jl_omit pps_json (rq_post_processing x)),
    (''cost'', jv (cb_json g) (rq_cost x)),
    (''latency'', jv la_json (rq_latency x)),
    (''origin'', jv ro_json (rq_origin x)),
    (''authentication'', jv au_json (rq_authentication x)),
    (''hash'', js (rq_hash x)),
    (''seal'', jv sr_json (rq_seal x))]"

section \<open>Authorization chain\<close>

record approver =
  ap_order :: int
  ap_actor_id :: string
  ap_actor_role :: string
  ap_approved_at :: string
  ap_approved_request_hash :: string
  ap_signature :: string
  ap_signature_kind :: string
  ap_comment :: string

definition ap_json :: "approver \<Rightarrow> json" where
  "ap_json x = mk_obj [
    (''order'', ji (ap_order x)),
    (''actor_id'', js (ap_actor_id x)),
    (''actor_role'', js_omit (ap_actor_role x)),
    (''approved_at'', js (ap_approved_at x)),
    (''approved_request_hash'', js (ap_approved_request_hash x)),
    (''signature'', js_omit (ap_signature x)),
    (''signature_kind'', js_omit (ap_signature_kind x)),
    (''comment'', js_omit (ap_comment x))]"

lemma ap_json_inj [json_inj]: "ap_json x = ap_json y \<longleftrightarrow> x = y"
  by (cases x; cases y) (simp add: ap_json_def json_inj)

lemma ap_json_not_null [json_inj]: "ap_json x \<noteq> JNull"
  by (simp add: ap_json_def mk_obj_def)

record threshold_check =
  tc_name :: string
  tc_threshold_value :: f64
  tc_observed_value :: f64
  tc_unit :: string
  tc_operator :: string
  tc_breached :: bool
  tc_policy_triggered :: string

definition tc_json :: "golib \<Rightarrow> threshold_check \<Rightarrow> json" where
  "tc_json g x = mk_obj [
    (''name'', js (tc_name x)),
    (''threshold_value'', jf g (tc_threshold_value x)),
    (''observed_value'', jf g (tc_observed_value x)),
    (''unit'', js_omit (tc_unit x)),
    (''operator'', js (tc_operator x)),
    (''breached'', jb (tc_breached x)),
    (''policy_triggered'', js_omit (tc_policy_triggered x))]"

record hitl_status =
  hi_required :: bool
  hi_performed :: bool
  hi_performed_by :: string
  hi_performed_at :: string
  hi_review_mode :: string
  hi_review_outcome :: string
  hi_modifications_hash :: string

definition hi_json :: "hitl_status \<Rightarrow> json" where
  "hi_json x = mk_obj [
    (''required'', jb (hi_required x)),
    (''performed'', jb (hi_performed x)),
    (''performed_by'', js_omit (hi_performed_by x)),
    (''performed_at'', js_omit (hi_performed_at x)),
    (''review_mode'', js_omit (hi_review_mode x)),
    (''review_outcome'', js_omit (hi_review_outcome x)),
    (''modifications_hash'', js_omit (hi_modifications_hash x))]"

lemma hi_json_inj [json_inj]: "hi_json x = hi_json y \<longleftrightarrow> x = y"
  by (cases x; cases y) (simp add: hi_json_def json_inj)

lemma hi_json_not_null [json_inj]: "hi_json x \<noteq> JNull"
  by (simp add: hi_json_def mk_obj_def)

record risk_assessment =
  rk_score :: f64
  rk_class :: string
  rk_scoring_method :: string
  rk_factors :: "string list"

definition rk_json :: "golib \<Rightarrow> risk_assessment \<Rightarrow> json" where
  "rk_json g x = mk_obj [
    (''score'', jf g (rk_score x)),
    (''class'', js (rk_class x)),
    (''scoring_method'', js_omit (rk_scoring_method x)),
    (''factors'', js_list_omit (rk_factors x))]"

record segregation_status =
  sd_required :: bool
  sd_satisfied :: bool
  sd_note :: string

definition sd_json :: "segregation_status \<Rightarrow> json" where
  "sd_json x = mk_obj [
    (''required'', jb (sd_required x)),
    (''satisfied'', jb (sd_satisfied x)),
    (''note'', js_omit (sd_note x))]"

lemma sd_json_inj [json_inj]: "sd_json x = sd_json y \<longleftrightarrow> x = y"
  by (cases x; cases y) (simp add: sd_json_def json_inj)

lemma sd_json_not_null [json_inj]: "sd_json x \<noteq> JNull"
  by (simp add: sd_json_def mk_obj_def)

record delegation_ref =
  dg_on_behalf_of :: string
  dg_delegation_grant :: string
  dg_grant_expires_at :: string

definition dg_json :: "delegation_ref \<Rightarrow> json" where
  "dg_json x = mk_obj [
    (''on_behalf_of'', js (dg_on_behalf_of x)),
    (''delegation_grant'', js (dg_delegation_grant x)),
    (''grant_expires_at'', js_omit (dg_grant_expires_at x))]"

lemma dg_json_inj [json_inj]: "dg_json x = dg_json y \<longleftrightarrow> x = y"
  by (cases x; cases y) (simp add: dg_json_def json_inj)

lemma dg_json_not_null [json_inj]: "dg_json x \<noteq> JNull"
  by (simp add: dg_json_def mk_obj_def)

record authorization_chain =
  az_kind :: string
  az_approvers :: "approver list"
  az_threshold_checks :: "threshold_check list"
  az_human_in_loop :: hitl_status
  az_risk :: "risk_assessment option"
  az_segregation_of_duties :: segregation_status
  az_delegation :: "delegation_ref list"
  az_hash :: string
  az_seal :: seal_reference

definition az_json :: "golib \<Rightarrow> authorization_chain \<Rightarrow> json" where
  "az_json g x = mk_obj [
    (''kind'', js (az_kind x)),
    (''approvers'', jl_omit ap_json (az_approvers x)),
    (''threshold_checks'', jl_omit (tc_json g) (az_threshold_checks x)),
    (''human_in_loop'', jv hi_json (az_human_in_loop x)),
    (''risk'', jp_omit (rk_json g) (az_risk x)),
    (''segregation_of_duties'', jv sd_json (az_segregation_of_duties x)),
    (''delegation'', jl_omit dg_json (az_delegation x)),
    (''hash'', js (az_hash x)),
    (''seal'', jv sr_json (az_seal x))]"

section \<open>Regulatory scaffolding\<close>

record policy_snapshot =
  psn_policy_id :: string
  psn_policy_version :: string
  psn_policy_hash :: string
  psn_policy_url :: string
  psn_snapshot_inline :: string
  psn_effective_at :: string

definition psn_json :: "policy_snapshot \<Rightarrow> json" where
  "psn_json x = mk_obj [
    (''policy_id'', js (psn_policy_id x)),
    (''policy_version'', js (psn_policy_version x)),
    (''policy_hash'', js (psn_policy_hash x)),
    (''policy_url'', js_omit (psn_policy_url x)),
    (''snapshot_inline'', js_omit (psn_snapshot_inline x)),
    (''effective_at'', js_omit (psn_effective_at x))]"

lemma psn_json_inj [json_inj]: "psn_json x = psn_json y \<longleftrightarrow> x = y"
  by (cases x; cases y) (simp add: psn_json_def json_inj)

lemma psn_json_not_null [json_inj]: "psn_json x \<noteq> JNull"
  by (simp add: psn_json_def mk_obj_def)

record us_gov_classification =
  us_level :: string
  us_sci :: bool
  us_compartments :: "string list"
  us_special_access_programs :: "string list"
  us_caveats :: "string list"
  us_cui_category :: string
  us_cui_decontrol_date :: string
  us_restricted_data :: bool
  us_formerly_restricted_data :: bool
  us_transclassified_frd :: bool
  us_oca_org_id :: string
  us_derived_from :: string
  us_declassify_on :: string
  us_declassify_exemption :: string
  us_banner_marking :: string
  us_portion_marking :: string

definition us_json :: "us_gov_classification \<Rightarrow> json" where
  "us_json x = mk_obj [
    (''level'', js (us_level x)),
    (''sci'', jb_omit (us_sci x)),
    (''compartments'', js_list_omit (us_compartments x)),
    (''special_access_programs'', js_list_omit (us_special_access_programs x)),
    (''caveats'', js_list_omit (us_caveats x)),
    (''cui_category'', js_omit (us_cui_category x)),
    (''cui_decontrol_date'', js_omit (us_cui_decontrol_date x)),
    (''restricted_data'', jb_omit (us_restricted_data x)),
    (''formerly_restricted_data'', jb_omit (us_formerly_restricted_data x)),
    (''transclassified_frd'', jb_omit (us_transclassified_frd x)),
    (''oca_org_id'', js_omit (us_oca_org_id x)),
    (''derived_from'', js_omit (us_derived_from x)),
    (''declassify_on'', js_omit (us_declassify_on x)),
    (''declassify_exemption'', js_omit (us_declassify_exemption x)),
    (''banner_marking'', js_omit (us_banner_marking x)),
    (''portion_marking'', js_omit (us_portion_marking x))]"

lemma us_json_inj [json_inj]: "us_json x = us_json y \<longleftrightarrow> x = y"
  by (cases x; cases y) (simp add: us_json_def json_inj)

lemma us_json_not_null [json_inj]: "us_json x \<noteq> JNull"
  by (simp add: us_json_def mk_obj_def)

record export_control_classification =
  xc_itar_controlled :: bool
  xc_usml_category :: string
  xc_ear_controlled :: bool
  xc_eccn :: string
  xc_ear99 :: bool
  xc_license_exception :: string
  xc_ofac_sanctions :: "string list"
  xc_embargoed_countries :: "string list"
  xc_deemed_export :: bool

definition xc_json :: "export_control_classification \<Rightarrow> json" where
  "xc_json x = mk_obj [
    (''itar_controlled'', jb_omit (xc_itar_controlled x)),
    (''usml_category'', js_omit (xc_usml_category x)),
    (''ear_controlled'', jb_omit (xc_ear_controlled x)),
    (''eccn'', js_omit (xc_eccn x)),
    (''ear99'', jb_omit (xc_ear99 x)),
    (''license_exception'', js_omit (xc_license_exception x)),
    (''ofac_sanctions'', js_list_omit (xc_ofac_sanctions x)),
    (''embargoed_countries'', js_list_omit (xc_embargoed_countries x)),
    (''deemed_export'', jb_omit (xc_deemed_export x))]"

lemma xc_json_inj [json_inj]: "xc_json x = xc_json y \<longleftrightarrow> x = y"
  by (cases x; cases y) (simp add: xc_json_def json_inj)

lemma xc_json_not_null [json_inj]: "xc_json x \<noteq> JNull"
  by (simp add: xc_json_def mk_obj_def)

record nato_classification =
  na_level :: string
  na_atomal :: bool
  na_caveats :: "string list"

definition na_json :: "nato_classification \<Rightarrow> json" where
  "na_json x = mk_obj [
    (''level'', js (na_level x)),
    (''atomal'', jb_omit (na_atomal x)),
    (''caveats'', js_list_omit (na_caveats x))]"

lemma na_json_inj [json_inj]: "na_json x = na_json y \<longleftrightarrow> x = y"
  by (cases x; cases y) (simp add: na_json_def json_inj)

lemma na_json_not_null [json_inj]: "na_json x \<noteq> JNull"
  by (simp add: na_json_def mk_obj_def)

record allied_classification =
  al_fvey_releasable :: bool
  al_aukus_releasable :: bool
  al_abca_releasable :: bool
  al_releasable_to :: "string list"

definition al_json :: "allied_classification \<Rightarrow> json" where
  "al_json x = mk_obj [
    (''fvey_releasable'', jb_omit (al_fvey_releasable x)),
    (''aukus_releasable'', jb_omit (al_aukus_releasable x)),
    (''abca_releasable'', jb_omit (al_abca_releasable x)),
    (''releasable_to'', js_list_omit (al_releasable_to x))]"

lemma al_json_inj [json_inj]: "al_json x = al_json y \<longleftrightarrow> x = y"
  by (cases x; cases y) (simp add: al_json_def json_inj)

lemma al_json_not_null [json_inj]: "al_json x \<noteq> JNull"
  by (simp add: al_json_def mk_obj_def)

record data_classification =
  dc_commercial :: "string list"
  dc_us_gov :: "us_gov_classification option"
  dc_export_control :: "export_control_classification option"
  dc_nato :: "nato_classification option"
  dc_allied :: "allied_classification option"
  dc_other_markings :: "string list"

definition dc_json :: "data_classification \<Rightarrow> json" where
  "dc_json x = mk_obj [
    (''commercial'', js_list_omit (dc_commercial x)),
    (''us_gov'', jp_omit us_json (dc_us_gov x)),
    (''export_control'', jp_omit xc_json (dc_export_control x)),
    (''nato'', jp_omit na_json (dc_nato x)),
    (''allied'', jp_omit al_json (dc_allied x)),
    (''other_markings'', js_list_omit (dc_other_markings x))]"

lemma dc_json_inj [json_inj]: "dc_json x = dc_json y \<longleftrightarrow> x = y"
  by (cases x; cases y) (simp add: dc_json_def json_inj)

lemma dc_json_not_null [json_inj]: "dc_json x \<noteq> JNull"
  by (simp add: dc_json_def mk_obj_def)

record data_residency =
  dy_processing_region :: string
  dy_model_hosting_region :: string
  dy_storage_region :: string
  dy_cross_border_transfer :: bool
  dy_transfer_mechanism :: string
  dy_sovereignty :: "string list"

definition dy_json :: "data_residency \<Rightarrow> json" where
  "dy_json x = mk_obj [
    (''processing_region'', js (dy_processing_region x)),
    (''model_hosting_region'', js_omit (dy_model_hosting_region x)),
    (''storage_region'', js (dy_storage_region x)),
    (''cross_border_transfer'', jb_omit (dy_cross_border_transfer x)),
    (''transfer_mechanism'', js_omit (dy_transfer_mechanism x)),
    (''sovereignty'', js_list_omit (dy_sovereignty x))]"

lemma dy_json_inj [json_inj]: "dy_json x = dy_json y \<longleftrightarrow> x = y"
  by (cases x; cases y) (simp add: dy_json_def json_inj)

lemma dy_json_not_null [json_inj]: "dy_json x \<noteq> JNull"
  by (simp add: dy_json_def mk_obj_def)

record retention_policy =
  rp_retention_days :: int
  rp_legal_hold :: bool
  rp_legal_hold_reason :: string
  rp_legal_hold_until :: string
  rp_deletion_eligible :: bool
  rp_gdpr_right_to_erase :: bool
  rp_hipaa_retention_minimum :: bool
  rp_sox_retention_minimum :: bool

definition rp_json :: "retention_policy \<Rightarrow> json" where
  "rp_json x = mk_obj [
    (''retention_days'', ji (rp_retention_days x)),
    (''legal_hold'', jb (rp_legal_hold x)),
    (''legal_hold_reason'', js_omit (rp_legal_hold_reason x)),
    (''legal_hold_until'', js_omit (rp_legal_hold_until x)),
    (''deletion_eligible'', jb (rp_deletion_eligible x)),
    (''gdpr_right_to_erase'', jb (rp_gdpr_right_to_erase x)),
    (''hipaa_retention_minimum'', jb_omit (rp_hipaa_retention_minimum x)),
    (''sox_retention_minimum'', jb_omit (rp_sox_retention_minimum x))]"

lemma rp_json_inj [json_inj]: "rp_json x = rp_json y \<longleftrightarrow> x = y"
  by (cases x; cases y) (simp add: rp_json_def json_inj)

lemma rp_json_not_null [json_inj]: "rp_json x \<noteq> JNull"
  by (simp add: rp_json_def mk_obj_def)

record framework_ref =
  fr_framework :: string
  fr_assessment_id :: string
  fr_assessment_url :: string
  fr_risk_class :: string
  fr_control_ids :: "string list"
  fr_attestation_id :: string

definition fr_json :: "framework_ref \<Rightarrow> json" where
  "fr_json x = mk_obj [
    (''framework'', js (fr_framework x)),
    (''assessment_id'', js_omit (fr_assessment_id x)),
    (''assessment_url'', js_omit (fr_assessment_url x)),
    (''risk_class'', js_omit (fr_risk_class x)),
    (''control_ids'', js_list_omit (fr_control_ids x)),
    (''attestation_id'', js_omit (fr_attestation_id x))]"

lemma fr_json_inj [json_inj]: "fr_json x = fr_json y \<longleftrightarrow> x = y"
  by (cases x; cases y) (simp add: fr_json_def json_inj)

lemma fr_json_not_null [json_inj]: "fr_json x \<noteq> JNull"
  by (simp add: fr_json_def mk_obj_def)

record bias_check_ref =
  bc_test_id :: string
  bc_last_run_at :: string
  bc_outcome :: string
  bc_overall_score :: f64
  bc_protected_attributes :: "string list"
  bc_report_url :: string
  bc_methodology :: string

definition bc_json :: "golib \<Rightarrow> bias_check_ref \<Rightarrow> json" where
  "bc_json g x = mk_obj [
    (''test_id'', js (bc_test_id x)),
    (''last_run_at'', js (bc_last_run_at x)),
    (''outcome'', js (bc_outcome x)),
    (''overall_score'', jf_omit g (bc_overall_score x)),
    (''protected_attributes'', js_list_omit (bc_protected_attributes x)),
    (''report_url'', js_omit (bc_report_url x)),
    (''methodology'', js_omit (bc_methodology x))]"

record regulatory_scaffolding =
  rg_kind :: string
  rg_policy_snapshot :: policy_snapshot
  rg_data_classification :: data_classification
  rg_data_residency :: data_residency
  rg_retention_policy :: retention_policy
  rg_frameworks :: "framework_ref list"
  rg_bias_check :: "bias_check_ref option"
  rg_right_to_explanation :: string
  rg_hash :: string
  rg_seal :: seal_reference

definition rg_json :: "golib \<Rightarrow> regulatory_scaffolding \<Rightarrow> json" where
  "rg_json g x = mk_obj [
    (''kind'', js (rg_kind x)),
    (''policy_snapshot'', jv psn_json (rg_policy_snapshot x)),
    (''data_classification'', jv dc_json (rg_data_classification x)),
    (''data_residency'', jv dy_json (rg_data_residency x)),
    (''retention_policy'', jv rp_json (rg_retention_policy x)),
    (''frameworks'', jl_omit fr_json (rg_frameworks x)),
    (''bias_check'', jp_omit (bc_json g) (rg_bias_check x)),
    (''right_to_explanation'', js_omit (rg_right_to_explanation x)),
    (''hash'', js (rg_hash x)),
    (''seal'', jv sr_json (rg_seal x))]"

section \<open>Causal graph\<close>

record entity_ref =
  et_kind :: string
  et_id_hash :: string
  et_id_inline :: string
  et_description :: string
  et_jurisdiction_country :: string

definition et_json :: "entity_ref \<Rightarrow> json" where
  "et_json x = mk_obj [
    (''kind'', js (et_kind x)),
    (''id_hash'', js (et_id_hash x)),
    (''id_inline'', js_omit (et_id_inline x)),
    (''description'', js_omit (et_description x)),
    (''jurisdiction_country'', js_omit (et_jurisdiction_country x))]"

lemma et_json_inj [json_inj]: "et_json x = et_json y \<longleftrightarrow> x = y"
  by (cases x; cases y) (simp add: et_json_def json_inj)

lemma et_json_not_null [json_inj]: "et_json x \<noteq> JNull"
  by (simp add: et_json_def mk_obj_def)

record effect_entry =
  ee_effect_kind :: string
  ee_target :: string
  ee_status :: string
  ee_issued_at :: string
  ee_acknowledged_at :: string
  ee_ack_hash :: string
  ee_error_reason :: string

definition ee_json :: "effect_entry \<Rightarrow> json" where
  "ee_json x = mk_obj [
    (''effect_kind'', js (ee_effect_kind x)),
    (''target'', js_omit (ee_target x)),
    (''status'', js (ee_status x)),
    (''issued_at'', js_omit (ee_issued_at x)),
    (''acknowledged_at'', js_omit (ee_acknowledged_at x)),
    (''ack_hash'', js_omit (ee_ack_hash x)),
    (''error_reason'', js_omit (ee_error_reason x))]"

lemma ee_json_inj [json_inj]: "ee_json x = ee_json y \<longleftrightarrow> x = y"
  by (cases x; cases y) (simp add: ee_json_def json_inj)

lemma ee_json_not_null [json_inj]: "ee_json x \<noteq> JNull"
  by (simp add: ee_json_def mk_obj_def)

record causal_graph =
  cg_kind :: string
  cg_parent_run_id :: int
  cg_related_run_ids :: "int list"
  cg_affected_entities :: "entity_ref list"
  cg_effect_log :: "effect_entry list"
  cg_confidence_score :: "f64 option"
  cg_out_of_distribution :: "bool option"
  cg_adversarial_signals :: "string list"
  cg_cohort_percentile :: "f64 option"
  cg_cohort_window :: string
  cg_hash :: string
  cg_seal :: seal_reference

definition cg_json :: "golib \<Rightarrow> causal_graph \<Rightarrow> json" where
  "cg_json g x = mk_obj [
    (''kind'', js (cg_kind x)),
    (''parent_run_id'', ji_omit (cg_parent_run_id x)),
    (''related_run_ids'', jl_omit ji_value (cg_related_run_ids x)),
    (''affected_entities'', jl_omit et_json (cg_affected_entities x)),
    (''effect_log'', jl_omit ee_json (cg_effect_log x)),
    (''confidence_score'', jp_omit (jf_value g) (cg_confidence_score x)),
    (''out_of_distribution'', jp_omit jb_value (cg_out_of_distribution x)),
    (''adversarial_signals'', js_list_omit (cg_adversarial_signals x)),
    (''cohort_percentile'', jp_omit (jf_value g) (cg_cohort_percentile x)),
    (''cohort_window'', js_omit (cg_cohort_window x)),
    (''hash'', js (cg_hash x)),
    (''seal'', jv sr_json (cg_seal x))]"

section \<open>System provenance\<close>

record build_provenance =
  bp_slsa_level :: int
  bp_sigstore_certificate :: string
  bp_sbom_hash :: string
  bp_sbom_url :: string
  bp_builder_id :: string
  bp_build_invocation_id :: string
  bp_build_started_at :: string
  bp_build_finished_at :: string
  bp_source_repo :: string
  bp_source_commit_sha :: string

definition bp_json :: "build_provenance \<Rightarrow> json" where
  "bp_json x = mk_obj [
    (''slsa_level'', ji (bp_slsa_level x)),
    (''sigstore_certificate'', js_omit (bp_sigstore_certificate x)),
    (''sbom_hash'', js_omit (bp_sbom_hash x)),
    (''sbom_url'', js_omit (bp_sbom_url x)),
    (''builder_id'', js_omit (bp_builder_id x)),
    (''build_invocation_id'', js_omit (bp_build_invocation_id x)),
    (''build_started_at'', js_omit (bp_build_started_at x)),
    (''build_finished_at'', js_omit (bp_build_finished_at x)),
    (''source_repo'', js_omit (bp_source_repo x)),
    (''source_commit_sha'', js_omit (bp_source_commit_sha x))]"

lemma bp_json_inj [json_inj]: "bp_json x = bp_json y \<longleftrightarrow> x = y"
  by (cases x; cases y) (simp add: bp_json_def json_inj)

lemma bp_json_not_null [json_inj]: "bp_json x \<noteq> JNull"
  by (simp add: bp_json_def mk_obj_def)

record kernel_version =
  kv_kernel :: string
  kv_version :: string
  kv_hash :: string

definition kv_json :: "kernel_version \<Rightarrow> json" where
  "kv_json x = mk_obj [
    (''kernel'', js (kv_kernel x)),
    (''version'', js (kv_version x)),
    (''hash'', js_omit (kv_hash x))]"

lemma kv_json_inj [json_inj]: "kv_json x = kv_json y \<longleftrightarrow> x = y"
  by (cases x; cases y) (simp add: kv_json_def json_inj)

lemma kv_json_not_null [json_inj]: "kv_json x \<noteq> JNull"
  by (simp add: kv_json_def mk_obj_def)

record runtime_environment =
  re_cloud :: string
  re_region :: string
  re_instance_id :: string
  re_instance_type :: string
  re_container_image_digest :: string
  re_os :: string
  re_arch :: string
  re_go_version :: string
  re_hostname :: string
  re_uptime_seconds :: int

definition re_json :: "runtime_environment \<Rightarrow> json" where
  "re_json x = mk_obj [
    (''cloud'', js (re_cloud x)),
    (''region'', js (re_region x)),
    (''instance_id'', js_omit (re_instance_id x)),
    (''instance_type'', js_omit (re_instance_type x)),
    (''container_image_digest'', js_omit (re_container_image_digest x)),
    (''os'', js (re_os x)),
    (''arch'', js (re_arch x)),
    (''go_version'', js (re_go_version x)),
    (''hostname'', js_omit (re_hostname x)),
    (''uptime_seconds'', ji_omit (re_uptime_seconds x))]"

lemma re_json_inj [json_inj]: "re_json x = re_json y \<longleftrightarrow> x = y"
  by (cases x; cases y) (simp add: re_json_def json_inj)

lemma re_json_not_null [json_inj]: "re_json x \<noteq> JNull"
  by (simp add: re_json_def mk_obj_def)

record system_provenance =
  sp_kind :: string
  sp_orchestrator_version :: string
  sp_orchestrator_git_sha :: string
  sp_build_provenance :: build_provenance
  sp_config_hash :: string
  sp_kernel_versions :: "kernel_version list option"
  sp_dependency_manifest_hash :: string
  sp_environment :: runtime_environment
  sp_hash :: string
  sp_seal :: seal_reference

definition sp_json :: "system_provenance \<Rightarrow> json" where
  "sp_json x = mk_obj [
    (''kind'', js (sp_kind x)),
    (''orchestrator_version'', js (sp_orchestrator_version x)),
    (''orchestrator_git_sha'', js (sp_orchestrator_git_sha x)),
    (''build_provenance'', jv bp_json (sp_build_provenance x)),
    (''config_hash'', js_omit (sp_config_hash x)),
    (''kernel_versions'', jl kv_json (sp_kernel_versions x)),
    (''dependency_manifest_hash'', js_omit (sp_dependency_manifest_hash x)),
    (''environment'', jv re_json (sp_environment x)),
    (''hash'', js (sp_hash x)),
    (''seal'', jv sr_json (sp_seal x))]"

lemma sp_json_inj [json_inj]: "sp_json x = sp_json y \<longleftrightarrow> x = y"
  by (cases x; cases y) (simp add: sp_json_def json_inj)

lemma sp_json_not_null [json_inj]: "sp_json x \<noteq> JNull"
  by (simp add: sp_json_def mk_obj_def)

section \<open>Reproducibility context\<close>

record reproducibility_context =
  rc_declared :: bool
  rc_container_image_hash :: string
  rc_runtime_name :: string
  rc_runtime_version :: string
  rc_pinned_dependencies :: "string list"
  rc_git_commit_sha :: string
  rc_random_seeds :: "string list"
  rc_platform :: string
  rc_hash :: string

definition rc_json :: "reproducibility_context \<Rightarrow> json" where
  "rc_json x = mk_obj [
    (''declared'', jb (rc_declared x)),
    (''container_image_hash'', js_omit (rc_container_image_hash x)),
    (''runtime_name'', js_omit (rc_runtime_name x)),
    (''runtime_version'', js_omit (rc_runtime_version x)),
    (''pinned_dependencies'', js_list_omit (rc_pinned_dependencies x)),
    (''git_commit_sha'', js_omit (rc_git_commit_sha x)),
    (''random_seeds'', js_list_omit (rc_random_seeds x)),
    (''platform'', js_omit (rc_platform x)),
    (''hash'', js (rc_hash x))]"

lemma rc_json_inj [json_inj]: "rc_json x = rc_json y \<longleftrightarrow> x = y"
  by (cases x; cases y) (simp add: rc_json_def json_inj)

lemma rc_json_not_null [json_inj]: "rc_json x \<noteq> JNull"
  by (simp add: rc_json_def mk_obj_def)

section \<open>The audit bundle\<close>

record audit_bundle =
  ab_kind :: string
  ab_schema_version :: string
  ab_run_id :: int
  ab_status :: string
  ab_manifest_hash :: string
  ab_generated_at :: string
  ab_payload :: payload
  ab_envelope :: envelope
  ab_transport :: transport
  ab_epa :: epa
  ab_efa :: efa
  ab_aer :: aer
  ab_transcript :: transcript
  ab_hardware_attestation :: hardware_attestation
  ab_leakage_bundle :: leakage_bundle
  ab_zksp_binding :: zksp_binding
  ab_migration_token :: migration_token
  ab_replay_fingerprint :: replay_fingerprint
  ab_pote_proof :: pote_proof
  ab_final_vfa :: final_vfa
  ab_request_substance :: request_substance
  ab_authorization_chain :: authorization_chain
  ab_regulatory_scaffolding :: regulatory_scaffolding
  ab_causal_graph :: causal_graph
  ab_system_provenance :: system_provenance
  ab_reproducibility_context :: reproducibility_context
  ab_rekor_anchor :: rekor_anchor
  ab_aivp_t4 :: aivp_t4_section
  ab_nrep :: nrep_section
  ab_formal_verification :: formal_verification
  ab_nrep_section_hash :: string
  ab_scaffold_flags_hash :: string
  ab_runtime_timing_hash :: string
  ab_runtime_timing :: "stage_timing list"
  ab_pre_anchor :: "pre_anchor_entry list"
  ab_pre_anchor_digest :: string
  ab_attested_digest :: string
  ab_execution_record :: "execution_record option"
  ab_bundle_hash :: string
  ab_bundle_anchor :: "bundle_anchor option"

end
