(* ===== verification/Recompute.thy ===== *)
theory Recompute
  imports Canonical Categories
begin

text \<open>
  internal/artifacts/recompute.go: the hash of every section of the record from its own
  content, and the bundle hash over them. Each hash has its preimage as a definition of its
  own (the struct literal the code marshals, or the key and value list it writes), and the
  preimage determines the fields the section's hash covers.
\<close>

section \<open>The pipeline artifacts\<close>

definition payload_preimage :: "payload \<Rightarrow> json" where
  "payload_preimage x = mk_obj [
    (''kind'', js (pl_kind x)),
    (''payload_id'', js (pl_payload_id x)),
    (''content_hash'', js (pl_content_hash x)),
    (''content_length'', ji (pl_content_length x)),
    (''origin_type'', js (pl_origin_type x)),
    (''schema_version'', js (pl_schema_version x))]"

definition RecomputePayloadHash :: "golib \<Rightarrow> payload \<Rightarrow> string" where
  "RecomputePayloadHash g x = MustCanonicalHash g (payload_preimage x)"

definition envelope_pairs :: "envelope \<Rightarrow> (string \<times> string) list" where
  "envelope_pairs x = [
    (''envelope_id'', env_envelope_id x),
    (''payload_hash'', env_payload_hash x),
    (''program_id'', env_program_id x),
    (''route_id'', env_route_id x),
    (''registry_record_hash'', env_registry_record_hash x),
    (''timestamp'', env_timestamp x)]"

definition RecomputeEnvelopeHash :: "golib \<Rightarrow> envelope \<Rightarrow> string" where
  "RecomputeEnvelopeHash g x = canonicalHashOf g ''verdifax.artifact.envelope.v1'' (envelope_pairs x)"

definition transport_pairs :: "transport \<Rightarrow> (string \<times> string) list" where
  "transport_pairs x = [
    (''envelope_id'', tr_envelope_id x),
    (''envelope_hash'', tr_envelope_hash x),
    (''sequence_id'', tr_sequence_id x),
    (''route'', join (CHR ''|'') (slice (tr_route x)))]"

definition RecomputeTransportHash :: "golib \<Rightarrow> transport \<Rightarrow> string" where
  "RecomputeTransportHash g x = canonicalHashOf g ''verdifax.artifact.transport.v1'' (transport_pairs x)"

definition epa_preimage :: "golib \<Rightarrow> epa \<Rightarrow> json" where
  "epa_preimage g x = mk_obj [
    (''kind'', js (epa_kind x)),
    (''kernel_id'', js (epa_kernel_id x)),
    (''kernel_version'', js (epa_kernel_version x)),
    (''policy_hash'', js (epa_policy_hash x)),
    (''environment_snapshot'', jv es_json (epa_environment_snapshot x)),
    (''attested_context'', jv (ac_json g) (epa_attested_context x)),
    (''policy_gate'', jp_omit pg_json (epa_policy_gate x)),
    (''account_policy_gate'', jp_omit pg_json (epa_account_policy_gate x))]"

definition RecomputeEPAHash :: "golib \<Rightarrow> epa \<Rightarrow> string" where
  "RecomputeEPAHash g x = MustCanonicalHash g (epa_preimage g x)"

definition efa_preimage :: "efa \<Rightarrow> json" where
  "efa_preimage x = mk_obj [
    (''kind'', js (efa_kind x)),
    (''steps'', jl st_json (efa_steps x)),
    (''deterministic'', jb (efa_deterministic x)),
    (''fail_closed'', jb (efa_fail_closed x))]"

definition RecomputeEFAHash :: "golib \<Rightarrow> efa \<Rightarrow> string" where
  "RecomputeEFAHash g x = MustCanonicalHash g (efa_preimage x)"

definition aer_preimage :: "aer \<Rightarrow> json" where
  "aer_preimage x = mk_obj [
    (''kind'', js (aer_kind x)),
    (''envelope_id'', js (aer_envelope_id x)),
    (''sequence_id'', js (aer_sequence_id x)),
    (''execution_ids'', js_list (aer_execution_ids x)),
    (''final_state'', js (aer_final_state x)),
    (''decision'', jv dr_json (aer_decision x))]"

definition RecomputeAERHash :: "golib \<Rightarrow> aer \<Rightarrow> string" where
  "RecomputeAERHash g x = MustCanonicalHash g (aer_preimage x)"

definition transcript_pairs :: "transcript \<Rightarrow> (string \<times> string) list" where
  "transcript_pairs x = [
    (''proof_hash_input'', ts_proof_hash_input x),
    (''transcript_hash'', ts_transcript_hash x),
    (''scaffold_is_scaffold'', boolStr (sn_is_scaffold (ts_scaffold x)))]"

definition RecomputeTranscriptHash :: "golib \<Rightarrow> transcript \<Rightarrow> string" where
  "RecomputeTranscriptHash g x = canonicalHashOf g ''verdifax.artifact.transcript.v1'' (transcript_pairs x)"

definition hardware_attestation_preimage :: "hardware_attestation \<Rightarrow> json" where
  "hardware_attestation_preimage x = mk_obj [
    (''kind'', js (hw_kind x)),
    (''attestation_mode'', js (hw_attestation_mode x)),
    (''enclave_measurement'', js (hw_enclave_measurement x)),
    (''firmware_class'', js (hw_firmware_class x)),
    (''secure_boot_state'', js (hw_secure_boot_state x)),
    (''execution_environment'', js (hw_execution_environment x)),
    (''pcr_selection'', js (hw_pcr_selection x)),
    (''tier4_blockers'', js_list (hw_tier4_blockers x))]"

definition RecomputeHardwareAttestationHash :: "golib \<Rightarrow> hardware_attestation \<Rightarrow> string" where
  "RecomputeHardwareAttestationHash g x = MustCanonicalHash g (hardware_attestation_preimage x)"

definition leakage_bundle_preimage :: "leakage_bundle \<Rightarrow> json" where
  "leakage_bundle_preimage x = mk_obj [
    (''kind'', js (lb_kind x)),
    (''constant_time_compliant'', jb (lb_constant_time_compliant x)),
    (''timing_variance_observed'', jb (lb_timing_variance_observed x)),
    (''mitigations'', js_list (lb_mitigations x))]"

definition RecomputeLeakageBundleHash :: "golib \<Rightarrow> leakage_bundle \<Rightarrow> string" where
  "RecomputeLeakageBundleHash g x = MustCanonicalHash g (leakage_bundle_preimage x)"

definition zksp_binding_preimage :: "zksp_binding \<Rightarrow> json" where
  "zksp_binding_preimage x = mk_obj [
    (''kind'', js (zk_kind x)),
    (''proving_system'', js (zk_proving_system x)),
    (''verification_status'', js (zk_verification_status x)),
    (''binds_to'', js_list (zk_binds_to x))]"

definition RecomputeZkspBindingHash :: "golib \<Rightarrow> zksp_binding \<Rightarrow> string" where
  "RecomputeZkspBindingHash g x = MustCanonicalHash g (zksp_binding_preimage x)"

definition migration_token_pairs :: "migration_token \<Rightarrow> (string \<times> string) list" where
  "migration_token_pairs x = [
    (''from_version'', mt_from_version x),
    (''to_version'', mt_to_version x),
    (''state_hash'', mt_state_hash x)]"

definition RecomputeMigrationTokenHash :: "golib \<Rightarrow> migration_token \<Rightarrow> string" where
  "RecomputeMigrationTokenHash g x = canonicalHashOf g ''verdifax.artifact.migration_token.v1'' (migration_token_pairs x)"

definition replay_fingerprint_preimage :: "replay_fingerprint \<Rightarrow> json" where
  "replay_fingerprint_preimage x = mk_obj [
    (''kind'', js (rf_kind x)),
    (''deterministic_inputs'', js_list (rf_deterministic_inputs x)),
    (''expected_output_hash'', js (rf_expected_output_hash x))]"

definition RecomputeReplayFingerprintHash :: "golib \<Rightarrow> replay_fingerprint \<Rightarrow> string" where
  "RecomputeReplayFingerprintHash g x = MustCanonicalHash g (replay_fingerprint_preimage x)"

text \<open>The proof of temporal execution has a second form, chosen by its kind, that adds the ledger fields.\<close>

definition pote_v2 :: string where "pote_v2 = ''verdifax.artifact.pote.v2''"

definition pote_pairs :: "pote_proof \<Rightarrow> string \<times> (string \<times> string) list" where
  "pote_pairs x =
     (if pp_kind x = pote_v2 then (pote_v2, [
        (''proof_type'', pp_proof_type x),
        (''execution_trace_hash'', pp_execution_trace_hash x),
        (''log_entry_id'', pp_log_entry_id x),
        (''ledger_log_id'', pp_ledger_log_id x),
        (''integrated_time'', int_str (pp_integrated_time x)),
        (''signed_entry_timestamp'', pp_signed_entry_timestamp x),
        (''ledger_checkpoint'', pp_ledger_checkpoint x)])
      else (''verdifax.artifact.pote.v1'', [
        (''proof_type'', pp_proof_type x),
        (''execution_trace_hash'', pp_execution_trace_hash x),
        (''log_entry_id'', pp_log_entry_id x)]))"

definition poteCanonicalHash :: "golib \<Rightarrow> pote_proof \<Rightarrow> string" where
  "poteCanonicalHash g x = (let (kind, ps) = pote_pairs x in canonicalHashOf g kind ps)"

definition RecomputePoteProofHash :: "golib \<Rightarrow> pote_proof \<Rightarrow> string" where
  "RecomputePoteProofHash g x = poteCanonicalHash g x"

definition final_vfa_preimage :: "final_vfa \<Rightarrow> json" where
  "final_vfa_preimage x = mk_obj [
    (''kind'', js (vf_kind x)),
    (''envelope_hash'', js (vf_envelope_hash x)),
    (''transport_hash'', js (vf_transport_hash x)),
    (''epa_hash'', js (vf_epa_hash x)),
    (''efa_hash'', js (vf_efa_hash x)),
    (''aer_hash'', js (vf_aer_hash x)),
    (''transcript_hash'', js (vf_transcript_hash x)),
    (''hardware_attestation_hash'', js (vf_hardware_attestation_hash x)),
    (''leakage_bundle_hash'', js (vf_leakage_bundle_hash x)),
    (''zksp_binding_hash'', js (vf_zksp_binding_hash x)),
    (''migration_token_hash'', js (vf_migration_token_hash x)),
    (''replay_fingerprint'', js (vf_replay_fingerprint x)),
    (''pote_proof_hash'', js (vf_pote_proof_hash x)),
    (''independent_verified'', jb (vf_independent_verified x))]"

definition RecomputeFinalVFAHash :: "golib \<Rightarrow> final_vfa \<Rightarrow> string" where
  "RecomputeFinalVFAHash g x = MustCanonicalHash g (final_vfa_preimage x)"

section \<open>The categories\<close>

text \<open>A category is hashed with its hash and seal set to their zero values.\<close>

definition zero_seal_reference :: seal_reference where
  "zero_seal_reference = \<lparr>sr_manifest_hash = [], sr_seal_field = [], sr_sealed_hash = []\<rparr>"

definition request_substance_preimage :: "golib \<Rightarrow> request_substance \<Rightarrow> json" where
  "request_substance_preimage g x = rq_json g (x\<lparr>rq_hash := [], rq_seal := zero_seal_reference\<rparr>)"

definition RecomputeRequestSubstanceHash :: "golib \<Rightarrow> request_substance \<Rightarrow> string" where
  "RecomputeRequestSubstanceHash g x = MustCanonicalHash g (request_substance_preimage g x)"

definition authorization_chain_preimage :: "golib \<Rightarrow> authorization_chain \<Rightarrow> json" where
  "authorization_chain_preimage g x = az_json g (x\<lparr>az_hash := [], az_seal := zero_seal_reference\<rparr>)"

definition RecomputeAuthorizationChainHash :: "golib \<Rightarrow> authorization_chain \<Rightarrow> string" where
  "RecomputeAuthorizationChainHash g x = MustCanonicalHash g (authorization_chain_preimage g x)"

definition regulatory_scaffolding_preimage :: "golib \<Rightarrow> regulatory_scaffolding \<Rightarrow> json" where
  "regulatory_scaffolding_preimage g x = rg_json g (x\<lparr>rg_hash := [], rg_seal := zero_seal_reference\<rparr>)"

definition RecomputeRegulatoryScaffoldingHash :: "golib \<Rightarrow> regulatory_scaffolding \<Rightarrow> string" where
  "RecomputeRegulatoryScaffoldingHash g x = MustCanonicalHash g (regulatory_scaffolding_preimage g x)"

definition causal_graph_preimage :: "golib \<Rightarrow> causal_graph \<Rightarrow> json" where
  "causal_graph_preimage g x = cg_json g (x\<lparr>cg_hash := [], cg_seal := zero_seal_reference\<rparr>)"

definition RecomputeCausalGraphHash :: "golib \<Rightarrow> causal_graph \<Rightarrow> string" where
  "RecomputeCausalGraphHash g x = MustCanonicalHash g (causal_graph_preimage g x)"

definition system_provenance_preimage :: "system_provenance \<Rightarrow> json" where
  "system_provenance_preimage x = sp_json (x\<lparr>sp_hash := [], sp_seal := zero_seal_reference\<rparr>)"

definition RecomputeSystemProvenanceHash :: "golib \<Rightarrow> system_provenance \<Rightarrow> string" where
  "RecomputeSystemProvenanceHash g x = MustCanonicalHash g (system_provenance_preimage x)"

definition reproducibility_context_preimage :: "reproducibility_context \<Rightarrow> json" where
  "reproducibility_context_preimage x = rc_json (x\<lparr>rc_hash := []\<rparr>)"

definition RecomputeReproducibilityContextHash :: "golib \<Rightarrow> reproducibility_context \<Rightarrow> string" where
  "RecomputeReproducibilityContextHash g x = MustCanonicalHash g (reproducibility_context_preimage x)"

section \<open>The formal-verification section and the bundle hash\<close>

definition formal_verification_preimage :: "formal_verification \<Rightarrow> json" where
  "formal_verification_preimage x = mk_obj [
    (''kind'', js (fv_kind x)),
    (''repo'', js (fv_repo x)),
    (''commit_sha'', js (fv_commit_sha x)),
    (''toolchain'', js (fv_toolchain x)),
    (''modules'', js_list (fv_modules x)),
    (''theorems'', js_list (fv_theorems x)),
    (''axiom_footprint'', js (fv_axiom_footprint x)),
    (''scope'', js (fv_scope x)),
    (''manifest_hash'', js (fv_manifest_hash x))]"

definition RecomputeFormalVerificationHash :: "golib \<Rightarrow> formal_verification \<Rightarrow> string" where
  "RecomputeFormalVerificationHash g x = MustCanonicalHash g (formal_verification_preimage x)"

definition audit_bundle_preimage :: "audit_bundle \<Rightarrow> json" where
  "audit_bundle_preimage x = mk_obj [
    (''kind'', js (ab_kind x)),
    (''schema_version'', js (ab_schema_version x)),
    (''manifest_hash'', js (ab_manifest_hash x)),
    (''payload_hash'', js (pl_hash (ab_payload x))),
    (''envelope_hash'', js (env_hash (ab_envelope x))),
    (''transport_hash'', js (tr_hash (ab_transport x))),
    (''epa_hash'', js (epa_hash (ab_epa x))),
    (''efa_hash'', js (efa_hash (ab_efa x))),
    (''aer_hash'', js (aer_hash (ab_aer x))),
    (''transcript_hash'', js (ts_hash (ab_transcript x))),
    (''hwa_hash'', js (hw_hash (ab_hardware_attestation x))),
    (''leakage_hash'', js (lb_hash (ab_leakage_bundle x))),
    (''zksp_hash'', js (zk_hash (ab_zksp_binding x))),
    (''migration_hash'', js (mt_hash (ab_migration_token x))),
    (''replay_hash'', js (rf_hash (ab_replay_fingerprint x))),
    (''pote_hash'', js (pp_hash (ab_pote_proof x))),
    (''vfa_hash'', js (vf_hash (ab_final_vfa x))),
    (''request_substance_hash'', js (rq_hash (ab_request_substance x))),
    (''authorization_chain_hash'', js (az_hash (ab_authorization_chain x))),
    (''regulatory_scaffolding_hash'', js (rg_hash (ab_regulatory_scaffolding x))),
    (''causal_graph_hash'', js (cg_hash (ab_causal_graph x))),
    (''system_provenance_hash'', js (sp_hash (ab_system_provenance x))),
    (''reproducibility_context_hash'', js (rc_hash (ab_reproducibility_context x)))]"

definition RecomputeBundleHash :: "golib \<Rightarrow> audit_bundle \<Rightarrow> string" where
  "RecomputeBundleHash g x = MustCanonicalHash g (audit_bundle_preimage x)"

section \<open>What the bundle hash binds\<close>

text \<open>
  The content of the twenty section hashes, in the order of the bundle preimage, and the
  hashes the bundle stores for them.
\<close>

definition section_sources :: "golib \<Rightarrow> audit_bundle \<Rightarrow> preimage list" where
  "section_sources g b = [
    Canon (payload_preimage (ab_payload b)),
    Pairs ''verdifax.artifact.envelope.v1'' (envelope_pairs (ab_envelope b)),
    Pairs ''verdifax.artifact.transport.v1'' (transport_pairs (ab_transport b)),
    Canon (epa_preimage g (ab_epa b)),
    Canon (efa_preimage (ab_efa b)),
    Canon (aer_preimage (ab_aer b)),
    Pairs ''verdifax.artifact.transcript.v1'' (transcript_pairs (ab_transcript b)),
    Canon (hardware_attestation_preimage (ab_hardware_attestation b)),
    Canon (leakage_bundle_preimage (ab_leakage_bundle b)),
    Canon (zksp_binding_preimage (ab_zksp_binding b)),
    Pairs ''verdifax.artifact.migration_token.v1'' (migration_token_pairs (ab_migration_token b)),
    Canon (replay_fingerprint_preimage (ab_replay_fingerprint b)),
    Pairs (fst (pote_pairs (ab_pote_proof b))) (snd (pote_pairs (ab_pote_proof b))),
    Canon (final_vfa_preimage (ab_final_vfa b)),
    Canon (request_substance_preimage g (ab_request_substance b)),
    Canon (authorization_chain_preimage g (ab_authorization_chain b)),
    Canon (regulatory_scaffolding_preimage g (ab_regulatory_scaffolding b)),
    Canon (causal_graph_preimage g (ab_causal_graph b)),
    Canon (system_provenance_preimage (ab_system_provenance b)),
    Canon (reproducibility_context_preimage (ab_reproducibility_context b))]"

definition recomputed_hashes :: "golib \<Rightarrow> audit_bundle \<Rightarrow> string list" where
  "recomputed_hashes g b = [
    RecomputePayloadHash g (ab_payload b), RecomputeEnvelopeHash g (ab_envelope b),
    RecomputeTransportHash g (ab_transport b), RecomputeEPAHash g (ab_epa b),
    RecomputeEFAHash g (ab_efa b), RecomputeAERHash g (ab_aer b),
    RecomputeTranscriptHash g (ab_transcript b),
    RecomputeHardwareAttestationHash g (ab_hardware_attestation b),
    RecomputeLeakageBundleHash g (ab_leakage_bundle b), RecomputeZkspBindingHash g (ab_zksp_binding b),
    RecomputeMigrationTokenHash g (ab_migration_token b),
    RecomputeReplayFingerprintHash g (ab_replay_fingerprint b),
    RecomputePoteProofHash g (ab_pote_proof b), RecomputeFinalVFAHash g (ab_final_vfa b),
    RecomputeRequestSubstanceHash g (ab_request_substance b),
    RecomputeAuthorizationChainHash g (ab_authorization_chain b),
    RecomputeRegulatoryScaffoldingHash g (ab_regulatory_scaffolding b),
    RecomputeCausalGraphHash g (ab_causal_graph b),
    RecomputeSystemProvenanceHash g (ab_system_provenance b),
    RecomputeReproducibilityContextHash g (ab_reproducibility_context b)]"

definition stored_hashes :: "audit_bundle \<Rightarrow> string list" where
  "stored_hashes b = [
    pl_hash (ab_payload b), env_hash (ab_envelope b), tr_hash (ab_transport b), epa_hash (ab_epa b),
    efa_hash (ab_efa b), aer_hash (ab_aer b), ts_hash (ab_transcript b),
    hw_hash (ab_hardware_attestation b), lb_hash (ab_leakage_bundle b), zk_hash (ab_zksp_binding b),
    mt_hash (ab_migration_token b), rf_hash (ab_replay_fingerprint b), pp_hash (ab_pote_proof b),
    vf_hash (ab_final_vfa b), rq_hash (ab_request_substance b), az_hash (ab_authorization_chain b),
    rg_hash (ab_regulatory_scaffolding b), cg_hash (ab_causal_graph b),
    sp_hash (ab_system_provenance b), rc_hash (ab_reproducibility_context b)]"

lemmas recompute_defs =
  RecomputePayloadHash_def RecomputeEnvelopeHash_def RecomputeTransportHash_def RecomputeEPAHash_def
  RecomputeEFAHash_def RecomputeAERHash_def RecomputeTranscriptHash_def RecomputeHardwareAttestationHash_def
  RecomputeLeakageBundleHash_def RecomputeZkspBindingHash_def RecomputeMigrationTokenHash_def
  RecomputeReplayFingerprintHash_def RecomputePoteProofHash_def poteCanonicalHash_def
  RecomputeFinalVFAHash_def RecomputeRequestSubstanceHash_def RecomputeAuthorizationChainHash_def
  RecomputeRegulatoryScaffoldingHash_def RecomputeCausalGraphHash_def RecomputeSystemProvenanceHash_def
  RecomputeReproducibilityContextHash_def

lemma recomputed_pre: "recomputed_hashes g b = map (pre_hash g) (section_sources g b)"
  by (simp add: recomputed_hashes_def section_sources_def go_simps recompute_defs case_prod_beta)

lemma sections_comparable: "list_all2 comparable (section_sources g a) (section_sources g b)"
  by (auto simp: section_sources_def envelope_pairs_def transport_pairs_def transcript_pairs_def
      migration_token_pairs_def pote_pairs_def pote_v2_def)

lemma audit_bundle_preimage_inj:
  "audit_bundle_preimage a = audit_bundle_preimage b \<longleftrightarrow>
     ab_kind a = ab_kind b \<and> ab_schema_version a = ab_schema_version b
     \<and> ab_manifest_hash a = ab_manifest_hash b \<and> stored_hashes a = stored_hashes b"
  by (simp add: audit_bundle_preimage_def stored_hashes_def json_inj)

definition bundle_wf :: "golib \<Rightarrow> audit_bundle \<Rightarrow> bool" where
  "bundle_wf g b \<longleftrightarrow> wf_json (audit_bundle_preimage b) \<and> list_all pre_ok (section_sources g b)"

definition bundle_preimages :: "golib \<Rightarrow> audit_bundle \<Rightarrow> bytes list" where
  "bundle_preimages g b = json_write (audit_bundle_preimage b) # map pre_bytes (section_sources g b)"

lemma bundle_hash_binds:
  assumes wf: "bundle_wf g a" "bundle_wf g b"
    and rows: "stored_hashes a = recomputed_hashes g a" "stored_hashes b = recomputed_hashes g b"
    and eq: "RecomputeBundleHash g a = RecomputeBundleHash g b"
  shows "ab_kind a = ab_kind b \<and> ab_schema_version a = ab_schema_version b
      \<and> ab_manifest_hash a = ab_manifest_hash b \<and> section_sources g a = section_sources g b
    \<or> collides g (bundle_preimages g a) (bundle_preimages g b)"
proof -
  have "audit_bundle_preimage a = audit_bundle_preimage b
      \<or> collides g [json_write (audit_bundle_preimage a)] [json_write (audit_bundle_preimage b)]"
    by (rule json_text.binds)
      (use wf eq in \<open>auto simp: bundle_wf_def RecomputeBundleHash_def MustCanonicalHash_def\<close>)
  then show ?thesis
  proof
    assume "audit_bundle_preimage a = audit_bundle_preimage b"
    moreover from this have "section_sources g a = section_sources g b
        \<or> collides g (map pre_bytes (section_sources g a)) (map pre_bytes (section_sources g b))"
      by (intro pre_hashes_bind sections_comparable)
        (use wf rows in \<open>auto simp: bundle_wf_def audit_bundle_preimage_inj recomputed_pre\<close>)
    ultimately show ?thesis
      by (simp add: bundle_preimages_def audit_bundle_preimage_inj) (metis collides_Cons)
  next
    assume "collides g [json_write (audit_bundle_preimage a)] [json_write (audit_bundle_preimage b)]"
    then show ?thesis using collides_Cons by (simp add: bundle_preimages_def)
  qed
qed

text \<open>The fields of the sections a reader acts on, from the equality of the section contents.\<close>

lemma section_fields:
  assumes "section_sources g a = section_sources g b"
  shows "aer_decision (ab_aer a) = aer_decision (ab_aer b)"
    and "aer_final_state (ab_aer a) = aer_final_state (ab_aer b)"
    and "aer_execution_ids (ab_aer a) = aer_execution_ids (ab_aer b)"
    and "epa_policy_gate (ab_epa a) = epa_policy_gate (ab_epa b)"
    and "epa_account_policy_gate (ab_epa a) = epa_account_policy_gate (ab_epa b)"
    and "efa_steps (ab_efa a) = efa_steps (ab_efa b)"
    and "pl_content_hash (ab_payload a) = pl_content_hash (ab_payload b)"
    and "env_envelope_id (ab_envelope a) = env_envelope_id (ab_envelope b)"
    and "env_program_id (ab_envelope a) = env_program_id (ab_envelope b)"
    and "env_timestamp (ab_envelope a) = env_timestamp (ab_envelope b)"
    and "join (CHR ''|'') (slice (tr_route (ab_transport a))) = join (CHR ''|'') (slice (tr_route (ab_transport b)))"
  using assms
  by (simp_all add: section_sources_def aer_preimage_def epa_preimage_def efa_preimage_def
      payload_preimage_def envelope_pairs_def transport_pairs_def json_inj)

end
