(* ===== verification/Samples.thy ===== *)
theory Samples
  imports Recompute
begin

text \<open>
  The zero value of each struct, as Go gives it to a section that is absent from the JSON,
  and a bundle whose section hashes are filled in the
  way the builder does. It is the concrete input on which the properties are applied.
\<close>

section \<open>Zero values\<close>

definition zero_payload :: payload where
  "zero_payload = \<lparr>
    pl_kind = [], pl_payload_id = [], pl_content_hash = [], pl_content_length = 0,
    pl_content_inline = [], pl_origin_type = [], pl_schema_version = [], pl_hash = []\<rparr>"

definition zero_envelope :: envelope where
  "zero_envelope = \<lparr>
    env_kind = [], env_envelope_id = [], env_payload_hash = [], env_program_id = [],
    env_route_id = [], env_registry_record_hash = [], env_timestamp = [], env_hash = [],
    env_seal = zero_seal_reference\<rparr>"

definition zero_transport :: transport where
  "zero_transport = \<lparr>
    tr_kind = [], tr_envelope_id = [], tr_envelope_hash = [], tr_sequence_id = [], tr_route = None,
    tr_hash = [], tr_seal = zero_seal_reference\<rparr>"

definition zero_env_snapshot :: env_snapshot where
  "zero_env_snapshot = \<lparr>
    es_time = [], es_region = [], es_os = [], es_go_version = []\<rparr>"

definition zero_attested_context :: attested_context where
  "zero_attested_context = \<lparr>
    ac_attested = False, ac_actor_id = [], ac_actor_role = [], ac_authorization_policy = [],
    ac_actor_signature = [], ac_model_provider = [], ac_model_name = [], ac_model_version = [],
    ac_model_temperature = None, ac_prompt_hash = [], ac_decision_kind = [], ac_decision_result = [],
    ac_decision_note = []\<rparr>"

definition zero_epa :: epa where
  "zero_epa = \<lparr>
    epa_kind = [], epa_kernel_id = [], epa_kernel_version = [], epa_policy_hash = [],
    epa_environment_snapshot = zero_env_snapshot, epa_attested_context = zero_attested_context,
    epa_policy_gate = None, epa_account_policy_gate = None, epa_hash = [],
    epa_seal = zero_seal_reference\<rparr>"

definition zero_efa :: efa where
  "zero_efa = \<lparr>
    efa_kind = [], efa_steps = None, efa_deterministic = False, efa_fail_closed = False,
    efa_hash = [], efa_seal = zero_seal_reference\<rparr>"

definition zero_decision_record :: decision_record where
  "zero_decision_record = \<lparr>
    dr_source = [], dr_kind = [], dr_result = [], dr_note = []\<rparr>"

definition zero_aer :: aer where
  "zero_aer = \<lparr>
    aer_kind = [], aer_envelope_id = [], aer_sequence_id = [], aer_execution_ids = None,
    aer_final_state = [], aer_decision = zero_decision_record, aer_hash = [],
    aer_seal = zero_seal_reference\<rparr>"

definition zero_scaffold_note :: scaffold_note where
  "zero_scaffold_note = \<lparr>
    sn_is_scaffold = False, sn_activated_by = [], sn_note = []\<rparr>"

definition zero_transcript :: transcript where
  "zero_transcript = \<lparr>
    ts_kind = [], ts_proof_hash_input = [], ts_transcript_hash = [],
    ts_scaffold = zero_scaffold_note, ts_hash = [], ts_seal = zero_seal_reference\<rparr>"

definition zero_hardware_attestation :: hardware_attestation where
  "zero_hardware_attestation = \<lparr>
    hw_kind = [], hw_attestation_mode = [], hw_enclave_measurement = [], hw_firmware_class = [],
    hw_secure_boot_state = [], hw_execution_environment = [], hw_pcr_selection = [],
    hw_tier4_blockers = None, hw_platform = [], hw_quote_b64 = [], hw_vlek_cert_pem = [],
    hw_cert_chain_pem = [], hw_report_data_hex = [], hw_report_data_recipe = [],
    hw_verification = None, hw_scaffold = zero_scaffold_note, hw_hash = [],
    hw_seal = zero_seal_reference\<rparr>"

definition zero_leakage_bundle :: leakage_bundle where
  "zero_leakage_bundle = \<lparr>
    lb_kind = [], lb_constant_time_compliant = False, lb_timing_variance_observed = False,
    lb_mitigations = None, lb_scaffold = zero_scaffold_note, lb_hash = [],
    lb_seal = zero_seal_reference\<rparr>"

definition zero_zksp_binding :: zksp_binding where
  "zero_zksp_binding = \<lparr>
    zk_kind = [], zk_proving_system = [], zk_verification_status = [], zk_binds_to = None,
    zk_scaffold = zero_scaffold_note, zk_hash = [], zk_seal = zero_seal_reference\<rparr>"

definition zero_migration_token :: migration_token where
  "zero_migration_token = \<lparr>
    mt_kind = [], mt_from_version = [], mt_to_version = [], mt_state_hash = [], mt_hash = [],
    mt_seal = zero_seal_reference\<rparr>"

definition zero_replay_fingerprint :: replay_fingerprint where
  "zero_replay_fingerprint = \<lparr>
    rf_kind = [], rf_deterministic_inputs = None, rf_expected_output_hash = [], rf_hash = [],
    rf_seal = zero_seal_reference\<rparr>"

definition zero_pote_proof :: pote_proof where
  "zero_pote_proof = \<lparr>
    pp_kind = [], pp_proof_type = [], pp_execution_trace_hash = [], pp_log_entry_id = [],
    pp_ledger_backend = [], pp_ledger_log_id = [], pp_integrated_time = 0,
    pp_signed_entry_timestamp = [], pp_ledger_checkpoint = [], pp_scaffold = zero_scaffold_note,
    pp_hash = [], pp_seal = zero_seal_reference\<rparr>"

definition zero_final_vfa :: final_vfa where
  "zero_final_vfa = \<lparr>
    vf_kind = [], vf_envelope_hash = [], vf_transport_hash = [], vf_epa_hash = [], vf_efa_hash = [],
    vf_aer_hash = [], vf_transcript_hash = [], vf_hardware_attestation_hash = [],
    vf_leakage_bundle_hash = [], vf_zksp_binding_hash = [], vf_migration_token_hash = [],
    vf_replay_fingerprint = [], vf_pote_proof_hash = [], vf_independent_verified = False,
    vf_hash = [], vf_seal = zero_seal_reference\<rparr>"

definition zero_prompt_record :: prompt_record where
  "zero_prompt_record = \<lparr>
    pr_hash = [], pr_template_id = [], pr_template_version = [], pr_system_hash = [],
    pr_user_hash = [], pr_content_inline = [], pr_token_count = 0, pr_content_encoding = []\<rparr>"

definition zero_output_record :: output_record where
  "zero_output_record = \<lparr>
    orc_hash = [], orc_content_inline = [], orc_token_count = 0, orc_finish_reason = [],
    orc_stop_sequences = [], orc_streaming_closed = False\<rparr>"

definition zero_cost_breakdown :: cost_breakdown where
  "zero_cost_breakdown = \<lparr>
    cb_input_tokens = 0, cb_output_tokens = 0, cb_total_tokens = 0,
    cb_estimated_cost_usd = f64_positive_zero, cb_billing_tier = []\<rparr>"

definition zero_latency_breakdown :: latency_breakdown where
  "zero_latency_breakdown = \<lparr>
    la_total_ms = 0, la_per_stage_ms = [], la_network_in_ms = 0, la_network_out_ms = 0,
    la_model_latency_ms = 0\<rparr>"

definition zero_request_origin :: request_origin where
  "zero_request_origin = \<lparr>
    ro_source_ip_hash = [], ro_user_agent_hash = [], ro_device_fingerprint_hash = [],
    ro_geo_country = [], ro_geo_region = [], ro_origin_inline = None\<rparr>"

definition zero_authentication_record :: authentication_record where
  "zero_authentication_record = \<lparr>
    au_method = [], au_provider = [], au_api_key_id = 0, au_api_key_name = [],
    au_key_last_rotated_at = [], au_session_age_seconds = 0, au_mfa_satisfied = None,
    au_mfa_method = []\<rparr>"

definition zero_request_substance :: request_substance where
  "zero_request_substance = \<lparr>
    rq_kind = [], rq_prompt = zero_prompt_record, rq_output = zero_output_record,
    rq_post_processing = [], rq_cost = zero_cost_breakdown, rq_latency = zero_latency_breakdown,
    rq_origin = zero_request_origin, rq_authentication = zero_authentication_record, rq_hash = [],
    rq_seal = zero_seal_reference\<rparr>"

definition zero_hitl_status :: hitl_status where
  "zero_hitl_status = \<lparr>
    hi_required = False, hi_performed = False, hi_performed_by = [], hi_performed_at = [],
    hi_review_mode = [], hi_review_outcome = [], hi_modifications_hash = []\<rparr>"

definition zero_segregation_status :: segregation_status where
  "zero_segregation_status = \<lparr>
    sd_required = False, sd_satisfied = False, sd_note = []\<rparr>"

definition zero_authorization_chain :: authorization_chain where
  "zero_authorization_chain = \<lparr>
    az_kind = [], az_approvers = [], az_threshold_checks = [], az_human_in_loop = zero_hitl_status,
    az_risk = None, az_segregation_of_duties = zero_segregation_status, az_delegation = [],
    az_hash = [], az_seal = zero_seal_reference\<rparr>"

definition zero_policy_snapshot :: policy_snapshot where
  "zero_policy_snapshot = \<lparr>
    psn_policy_id = [], psn_policy_version = [], psn_policy_hash = [], psn_policy_url = [],
    psn_snapshot_inline = [], psn_effective_at = []\<rparr>"

definition zero_data_classification :: data_classification where
  "zero_data_classification = \<lparr>
    dc_commercial = [], dc_us_gov = None, dc_export_control = None, dc_nato = None, dc_allied = None,
    dc_other_markings = []\<rparr>"

definition zero_data_residency :: data_residency where
  "zero_data_residency = \<lparr>
    dy_processing_region = [], dy_model_hosting_region = [], dy_storage_region = [],
    dy_cross_border_transfer = False, dy_transfer_mechanism = [], dy_sovereignty = []\<rparr>"

definition zero_retention_policy :: retention_policy where
  "zero_retention_policy = \<lparr>
    rp_retention_days = 0, rp_legal_hold = False, rp_legal_hold_reason = [],
    rp_legal_hold_until = [], rp_deletion_eligible = False, rp_gdpr_right_to_erase = False,
    rp_hipaa_retention_minimum = False, rp_sox_retention_minimum = False\<rparr>"

definition zero_regulatory_scaffolding :: regulatory_scaffolding where
  "zero_regulatory_scaffolding = \<lparr>
    rg_kind = [], rg_policy_snapshot = zero_policy_snapshot,
    rg_data_classification = zero_data_classification, rg_data_residency = zero_data_residency,
    rg_retention_policy = zero_retention_policy, rg_frameworks = [], rg_bias_check = None,
    rg_right_to_explanation = [], rg_hash = [], rg_seal = zero_seal_reference\<rparr>"

definition zero_causal_graph :: causal_graph where
  "zero_causal_graph = \<lparr>
    cg_kind = [], cg_parent_run_id = 0, cg_related_run_ids = [], cg_affected_entities = [],
    cg_effect_log = [], cg_confidence_score = None, cg_out_of_distribution = None,
    cg_adversarial_signals = [], cg_cohort_percentile = None, cg_cohort_window = [], cg_hash = [],
    cg_seal = zero_seal_reference\<rparr>"

definition zero_build_provenance :: build_provenance where
  "zero_build_provenance = \<lparr>
    bp_slsa_level = 0, bp_sigstore_certificate = [], bp_sbom_hash = [], bp_sbom_url = [],
    bp_builder_id = [], bp_build_invocation_id = [], bp_build_started_at = [],
    bp_build_finished_at = [], bp_source_repo = [], bp_source_commit_sha = []\<rparr>"

definition zero_runtime_environment :: runtime_environment where
  "zero_runtime_environment = \<lparr>
    re_cloud = [], re_region = [], re_instance_id = [], re_instance_type = [],
    re_container_image_digest = [], re_os = [], re_arch = [], re_go_version = [], re_hostname = [],
    re_uptime_seconds = 0\<rparr>"

definition zero_system_provenance :: system_provenance where
  "zero_system_provenance = \<lparr>
    sp_kind = [], sp_orchestrator_version = [], sp_orchestrator_git_sha = [],
    sp_build_provenance = zero_build_provenance, sp_config_hash = [], sp_kernel_versions = None,
    sp_dependency_manifest_hash = [], sp_environment = zero_runtime_environment, sp_hash = [],
    sp_seal = zero_seal_reference\<rparr>"

definition zero_reproducibility_context :: reproducibility_context where
  "zero_reproducibility_context = \<lparr>
    rc_declared = False, rc_container_image_hash = [], rc_runtime_name = [], rc_runtime_version = [],
    rc_pinned_dependencies = [], rc_git_commit_sha = [], rc_random_seeds = [], rc_platform = [],
    rc_hash = []\<rparr>"

definition zero_rekor_anchor :: rekor_anchor where
  "zero_rekor_anchor = \<lparr>
    ra_backend = [], ra_log_entry_id = [], ra_log_id = [], ra_leaf_hash = [], ra_input_nonce = 0,
    ra_entry_body = [], ra_log_index = 0, ra_tree_size = 0, ra_root_hash = [],
    ra_inclusion_path = None, ra_checkpoint = [], ra_signed_entry_timestamp = [],
    ra_integrated_time = 0\<rparr>"

definition zero_aivp_t4_section :: aivp_t4_section where
  "zero_aivp_t4_section = \<lparr>
    ai_outcome = [], ai_pia_hash = [], ai_adapter_id = [], ai_ai_output_hash = [], ai_decision = [],
    ai_halt_receipt_hash = []\<rparr>"

definition zero_nrep_section :: nrep_section where
  "zero_nrep_section = \<lparr>
    nr_actor_id = [], nr_public_key = [], nr_signature = [], nr_signed_at = [],
    nr_request_signature = None, nr_job = None, nr_account_id = []\<rparr>"

definition zero_formal_verification :: formal_verification where
  "zero_formal_verification = \<lparr>
    fv_kind = [], fv_repo = [], fv_commit_sha = [], fv_toolchain = [], fv_modules = None,
    fv_theorems = None, fv_axiom_footprint = [], fv_scope = [], fv_manifest_hash = [], fv_hash = []\<rparr>"

definition zero_audit_bundle :: audit_bundle where
  "zero_audit_bundle = \<lparr>
    ab_kind = [], ab_schema_version = [], ab_run_id = 0, ab_status = [], ab_manifest_hash = [],
    ab_generated_at = [], ab_payload = zero_payload, ab_envelope = zero_envelope,
    ab_transport = zero_transport, ab_epa = zero_epa, ab_efa = zero_efa, ab_aer = zero_aer,
    ab_transcript = zero_transcript, ab_hardware_attestation = zero_hardware_attestation,
    ab_leakage_bundle = zero_leakage_bundle, ab_zksp_binding = zero_zksp_binding,
    ab_migration_token = zero_migration_token, ab_replay_fingerprint = zero_replay_fingerprint,
    ab_pote_proof = zero_pote_proof, ab_final_vfa = zero_final_vfa,
    ab_request_substance = zero_request_substance, ab_authorization_chain = zero_authorization_chain,
    ab_regulatory_scaffolding = zero_regulatory_scaffolding, ab_causal_graph = zero_causal_graph,
    ab_system_provenance = zero_system_provenance,
    ab_reproducibility_context = zero_reproducibility_context, ab_rekor_anchor = zero_rekor_anchor,
    ab_aivp_t4 = zero_aivp_t4_section, ab_nrep = zero_nrep_section,
    ab_formal_verification = zero_formal_verification, ab_nrep_section_hash = [],
    ab_scaffold_flags_hash = [], ab_runtime_timing_hash = [], ab_runtime_timing = [],
    ab_pre_anchor = [], ab_pre_anchor_digest = [], ab_attested_digest = [],
    ab_execution_record = None, ab_bundle_hash = [], ab_bundle_anchor = None\<rparr>"

lemmas zero_defs = zero_payload_def zero_seal_reference_def zero_envelope_def zero_transport_def
  zero_env_snapshot_def zero_attested_context_def zero_epa_def zero_efa_def zero_decision_record_def
  zero_aer_def zero_scaffold_note_def zero_transcript_def zero_hardware_attestation_def
  zero_leakage_bundle_def zero_zksp_binding_def zero_migration_token_def zero_replay_fingerprint_def
  zero_pote_proof_def zero_final_vfa_def zero_prompt_record_def zero_output_record_def
  zero_cost_breakdown_def zero_latency_breakdown_def zero_request_origin_def
  zero_authentication_record_def zero_request_substance_def zero_hitl_status_def
  zero_segregation_status_def zero_authorization_chain_def zero_policy_snapshot_def
  zero_data_classification_def zero_data_residency_def zero_retention_policy_def
  zero_regulatory_scaffolding_def zero_causal_graph_def zero_build_provenance_def
  zero_runtime_environment_def zero_system_provenance_def zero_reproducibility_context_def
  zero_rekor_anchor_def zero_aivp_t4_section_def zero_nrep_section_def zero_formal_verification_def
  zero_audit_bundle_def

section \<open>A sealed bundle\<close>

text \<open>The section hashes filled in, as the builder does once every section is final.\<close>

definition fill_hashes :: "golib \<Rightarrow> audit_bundle \<Rightarrow> audit_bundle" where
  "fill_hashes g b = b\<lparr>
    ab_payload := (ab_payload b)\<lparr>pl_hash := RecomputePayloadHash g (ab_payload b)\<rparr>,
    ab_envelope := (ab_envelope b)\<lparr>env_hash := RecomputeEnvelopeHash g (ab_envelope b)\<rparr>,
    ab_transport := (ab_transport b)\<lparr>tr_hash := RecomputeTransportHash g (ab_transport b)\<rparr>,
    ab_epa := (ab_epa b)\<lparr>epa_hash := RecomputeEPAHash g (ab_epa b)\<rparr>,
    ab_efa := (ab_efa b)\<lparr>efa_hash := RecomputeEFAHash g (ab_efa b)\<rparr>,
    ab_aer := (ab_aer b)\<lparr>aer_hash := RecomputeAERHash g (ab_aer b)\<rparr>,
    ab_transcript := (ab_transcript b)\<lparr>ts_hash := RecomputeTranscriptHash g (ab_transcript b)\<rparr>,
    ab_hardware_attestation := (ab_hardware_attestation b)\<lparr>
      hw_hash := RecomputeHardwareAttestationHash g (ab_hardware_attestation b)\<rparr>,
    ab_leakage_bundle := (ab_leakage_bundle b)\<lparr>lb_hash := RecomputeLeakageBundleHash g (ab_leakage_bundle b)\<rparr>,
    ab_zksp_binding := (ab_zksp_binding b)\<lparr>zk_hash := RecomputeZkspBindingHash g (ab_zksp_binding b)\<rparr>,
    ab_migration_token := (ab_migration_token b)\<lparr>mt_hash := RecomputeMigrationTokenHash g (ab_migration_token b)\<rparr>,
    ab_replay_fingerprint := (ab_replay_fingerprint b)\<lparr>
      rf_hash := RecomputeReplayFingerprintHash g (ab_replay_fingerprint b)\<rparr>,
    ab_pote_proof := (ab_pote_proof b)\<lparr>pp_hash := RecomputePoteProofHash g (ab_pote_proof b)\<rparr>,
    ab_final_vfa := (ab_final_vfa b)\<lparr>vf_hash := RecomputeFinalVFAHash g (ab_final_vfa b)\<rparr>,
    ab_request_substance := (ab_request_substance b)\<lparr>
      rq_hash := RecomputeRequestSubstanceHash g (ab_request_substance b)\<rparr>,
    ab_authorization_chain := (ab_authorization_chain b)\<lparr>
      az_hash := RecomputeAuthorizationChainHash g (ab_authorization_chain b)\<rparr>,
    ab_regulatory_scaffolding := (ab_regulatory_scaffolding b)\<lparr>
      rg_hash := RecomputeRegulatoryScaffoldingHash g (ab_regulatory_scaffolding b)\<rparr>,
    ab_causal_graph := (ab_causal_graph b)\<lparr>cg_hash := RecomputeCausalGraphHash g (ab_causal_graph b)\<rparr>,
    ab_system_provenance := (ab_system_provenance b)\<lparr>
      sp_hash := RecomputeSystemProvenanceHash g (ab_system_provenance b)\<rparr>,
    ab_reproducibility_context := (ab_reproducibility_context b)\<lparr>
      rc_hash := RecomputeReproducibilityContextHash g (ab_reproducibility_context b)\<rparr>\<rparr>"

lemmas preimage_defs =
  payload_preimage_def envelope_pairs_def transport_pairs_def epa_preimage_def efa_preimage_def
  aer_preimage_def transcript_pairs_def hardware_attestation_preimage_def leakage_bundle_preimage_def
  zksp_binding_preimage_def migration_token_pairs_def replay_fingerprint_preimage_def pote_pairs_def
  final_vfa_preimage_def request_substance_preimage_def authorization_chain_preimage_def
  regulatory_scaffolding_preimage_def causal_graph_preimage_def system_provenance_preimage_def
  reproducibility_context_preimage_def

lemma fill_sources [simp]: "section_sources g (fill_hashes g b) = section_sources g b"
  by (simp add: section_sources_def fill_hashes_def preimage_defs)

lemma fill_stored [simp]: "stored_hashes (fill_hashes g b) = recomputed_hashes g b"
  by (simp add: stored_hashes_def recomputed_hashes_def fill_hashes_def)

lemma fill_rows [simp]: "recomputed_hashes g (fill_hashes g b) = recomputed_hashes g b"
  by (simp add: recomputed_pre)

definition named_zero :: audit_bundle where
  "named_zero = zero_audit_bundle\<lparr>ab_envelope := zero_envelope\<lparr>env_envelope_id := ''env-1''\<rparr>\<rparr>"

lemma named_sources_ok: "list_all pre_ok (section_sources toy_lib named_zero)"
  by code_simp

end
