(* ===== verification/SealedArtifacts.thy ===== *)
theory SealedArtifacts
  imports Samples "HOL-Library.List_Lexorder"
begin

text \<open>
  The sealed artifacts of internal/artifacts that are not sections of a record: the five
  receipts of a refused or halted run, the allow token and the malicious-code finding. Each is
  sealed by the hash of the JSON of all its fields but the hash, and verified by computing that
  hash again. The locale states what the seal promises; it is interpreted for each artifact.
\<close>

datatype artifact_error = DenyReceiptHashMismatch | CCVHaltReceiptHashMismatch | MACCHaltReceiptHashMismatch
  | AivpT4HaltReceiptHashMismatch | AttestationGapReceiptHashMismatch | AllowTokenHashMismatch | MCDFindingHashMismatch

text \<open>
  A sorted copy of a list of names: append to a nil slice and sort.Strings. An empty copy is
  nil. Verifying an attestation gap receipt leaves its two lists sorted; nothing reads them
  afterwards.
\<close>

definition sorted_copy :: "string list option \<Rightarrow> string list option" where
  "sorted_copy l = (case l of None \<Rightarrow> None | Some xs \<Rightarrow> if xs = [] then None else Some (sort xs))"

section \<open>The artifacts\<close>

record deny_receipt =
  dr_anchor_required :: bool
  dr_decision_reason_code :: string
  dr_deny_clock :: string
  dr_envelope_id :: string
  dr_evaluation_hash :: string
  dr_evaluator_version :: string
  dr_fired_rule_id :: string
  dr_mcd_finding_hash :: string
  dr_policy_hash :: string
  dr_version :: string
  dr_hash :: string

definition deny_receipt_preimage :: "deny_receipt \<Rightarrow> json" where
  "deny_receipt_preimage r = mk_obj [
     (''anchor_required'', jb_omit (dr_anchor_required r)),
     (''decision_reason_code'', js (dr_decision_reason_code r)),
     (''deny_clock'', js (dr_deny_clock r)),
     (''envelope_id'', js (dr_envelope_id r)),
     (''evaluation_hash'', js (dr_evaluation_hash r)),
     (''evaluator_version'', js (dr_evaluator_version r)),
     (''fired_rule_id'', js (dr_fired_rule_id r)),
     (''mcd_finding_hash'', js (dr_mcd_finding_hash r)),
     (''policy_hash'', js (dr_policy_hash r)),
     (''version'', js (dr_version r))]"

definition BuildDenyReceiptHash :: "golib \<Rightarrow> deny_receipt \<Rightarrow> string \<times> deny_receipt" where
  "BuildDenyReceiptHash g r = (let h = MustCanonicalHash g (deny_receipt_preimage r) in (h, r\<lparr>dr_hash := h\<rparr>))"

definition VerifyDenyReceiptHash :: "golib \<Rightarrow> deny_receipt \<Rightarrow> artifact_error option" where
  "VerifyDenyReceiptHash g r = (if fst (BuildDenyReceiptHash g (r\<lparr>dr_hash := []\<rparr>)) \<noteq> dr_hash r then Some DenyReceiptHashMismatch else None)"

record ccv_halt_receipt =
  cv_allow_token_hash :: string
  cv_anchor_required :: bool
  cv_budget_hash :: string
  cv_budget_limit :: int
  cv_constraint_type :: string
  cv_consumed_at_halt :: int
  cv_envelope_id :: string
  cv_evaluator_version :: string
  cv_halt_clock :: string
  cv_halt_reason_code :: string
  cv_partial_execution_hash :: string
  cv_version :: string
  cv_hash :: string

definition ccv_halt_receipt_preimage :: "ccv_halt_receipt \<Rightarrow> json" where
  "ccv_halt_receipt_preimage r = mk_obj [
     (''allow_token_hash'', js (cv_allow_token_hash r)),
     (''anchor_required'', jb_omit (cv_anchor_required r)),
     (''budget_hash'', js (cv_budget_hash r)),
     (''budget_limit'', ji (cv_budget_limit r)),
     (''constraint_type'', js (cv_constraint_type r)),
     (''consumed_at_halt'', ji (cv_consumed_at_halt r)),
     (''envelope_id'', js (cv_envelope_id r)),
     (''evaluator_version'', js (cv_evaluator_version r)),
     (''halt_clock'', js (cv_halt_clock r)),
     (''halt_reason_code'', js (cv_halt_reason_code r)),
     (''partial_execution_hash'', js (cv_partial_execution_hash r)),
     (''version'', js (cv_version r))]"

definition BuildCCVHaltReceiptHash :: "golib \<Rightarrow> ccv_halt_receipt \<Rightarrow> string \<times> ccv_halt_receipt" where
  "BuildCCVHaltReceiptHash g r = (let h = MustCanonicalHash g (ccv_halt_receipt_preimage r) in (h, r\<lparr>cv_hash := h\<rparr>))"

definition VerifyCCVHaltReceiptHash :: "golib \<Rightarrow> ccv_halt_receipt \<Rightarrow> artifact_error option" where
  "VerifyCCVHaltReceiptHash g r = (if fst (BuildCCVHaltReceiptHash g (r\<lparr>cv_hash := []\<rparr>)) \<noteq> cv_hash r then Some CCVHaltReceiptHashMismatch else None)"

record macc_halt_receipt =
  mc_allow_token_hash :: string
  mc_anchor_required :: bool
  mc_budget_hash :: string
  mc_budget_limit :: int
  mc_constraint_type :: string
  mc_cumulative_at_halt :: int
  mc_envelope_id :: string
  mc_evaluator_version :: string
  mc_halt_clock :: string
  mc_halt_reason_code :: string
  mc_per_run_consumption :: int
  mc_tenant_id :: string
  mc_version :: string
  mc_window_start :: string
  mc_hash :: string

definition macc_halt_receipt_preimage :: "macc_halt_receipt \<Rightarrow> json" where
  "macc_halt_receipt_preimage r = mk_obj [
     (''allow_token_hash'', js (mc_allow_token_hash r)),
     (''anchor_required'', jb_omit (mc_anchor_required r)),
     (''budget_hash'', js (mc_budget_hash r)),
     (''budget_limit'', ji (mc_budget_limit r)),
     (''constraint_type'', js (mc_constraint_type r)),
     (''cumulative_at_halt'', ji (mc_cumulative_at_halt r)),
     (''envelope_id'', js (mc_envelope_id r)),
     (''evaluator_version'', js (mc_evaluator_version r)),
     (''halt_clock'', js (mc_halt_clock r)),
     (''halt_reason_code'', js (mc_halt_reason_code r)),
     (''per_run_consumption'', ji (mc_per_run_consumption r)),
     (''tenant_id'', js (mc_tenant_id r)),
     (''version'', js (mc_version r)),
     (''window_start'', js (mc_window_start r))]"

definition BuildMACCHaltReceiptHash :: "golib \<Rightarrow> macc_halt_receipt \<Rightarrow> string \<times> macc_halt_receipt" where
  "BuildMACCHaltReceiptHash g r = (let h = MustCanonicalHash g (macc_halt_receipt_preimage r) in (h, r\<lparr>mc_hash := h\<rparr>))"

definition VerifyMACCHaltReceiptHash :: "golib \<Rightarrow> macc_halt_receipt \<Rightarrow> artifact_error option" where
  "VerifyMACCHaltReceiptHash g r = (if fst (BuildMACCHaltReceiptHash g (r\<lparr>mc_hash := []\<rparr>)) \<noteq> mc_hash r then Some MACCHaltReceiptHashMismatch else None)"

record aivp_t4_halt_receipt =
  at_adapter_id :: string
  at_ai_output_hash :: string
  at_allow_token_hash :: string
  at_anchor_required :: bool
  at_decision_kind :: string
  at_decision_reason :: string
  at_envelope_id :: string
  at_evaluator_version :: string
  at_halt_clock :: string
  at_halt_reason_code :: string
  at_pia_hash :: string
  at_version :: string
  at_hash :: string

definition aivp_t4_halt_receipt_preimage :: "aivp_t4_halt_receipt \<Rightarrow> json" where
  "aivp_t4_halt_receipt_preimage r = mk_obj [
     (''adapter_id'', js (at_adapter_id r)),
     (''ai_output_hash'', js (at_ai_output_hash r)),
     (''allow_token_hash'', js (at_allow_token_hash r)),
     (''anchor_required'', jb_omit (at_anchor_required r)),
     (''decision_kind'', js (at_decision_kind r)),
     (''decision_reason'', js (at_decision_reason r)),
     (''envelope_id'', js (at_envelope_id r)),
     (''evaluator_version'', js (at_evaluator_version r)),
     (''halt_clock'', js (at_halt_clock r)),
     (''halt_reason_code'', js (at_halt_reason_code r)),
     (''pia_hash'', js (at_pia_hash r)),
     (''version'', js (at_version r))]"

definition BuildAivpT4HaltReceiptHash :: "golib \<Rightarrow> aivp_t4_halt_receipt \<Rightarrow> string \<times> aivp_t4_halt_receipt" where
  "BuildAivpT4HaltReceiptHash g r = (let h = MustCanonicalHash g (aivp_t4_halt_receipt_preimage r) in (h, r\<lparr>at_hash := h\<rparr>))"

definition VerifyAivpT4HaltReceiptHash :: "golib \<Rightarrow> aivp_t4_halt_receipt \<Rightarrow> artifact_error option" where
  "VerifyAivpT4HaltReceiptHash g r = (if fst (BuildAivpT4HaltReceiptHash g (r\<lparr>at_hash := []\<rparr>)) \<noteq> at_hash r then Some AivpT4HaltReceiptHashMismatch else None)"

record attestation_gap_receipt =
  gr_anchor_required :: bool
  gr_decision_reason_code :: string
  gr_envelope_id :: string
  gr_evaluator_version :: string
  gr_gap_clock :: string
  gr_missing_fields :: "string list option"
  gr_policy_hash :: string
  gr_policy_id :: string
  gr_policy_name :: string
  gr_profile_tag :: string
  gr_required_fields :: "string list option"
  gr_version :: string
  gr_hash :: string

definition attestation_gap_receipt_preimage :: "attestation_gap_receipt \<Rightarrow> json" where
  "attestation_gap_receipt_preimage r = mk_obj [
     (''anchor_required'', jb_omit (gr_anchor_required r)),
     (''decision_reason_code'', js (gr_decision_reason_code r)),
     (''envelope_id'', js (gr_envelope_id r)),
     (''evaluator_version'', js (gr_evaluator_version r)),
     (''gap_clock'', js (gr_gap_clock r)),
     (''missing_fields'', js_list (sorted_copy (gr_missing_fields r))),
     (''policy_hash'', js (gr_policy_hash r)),
     (''policy_id'', js (gr_policy_id r)),
     (''policy_name'', js (gr_policy_name r)),
     (''profile_tag'', js_omit (gr_profile_tag r)),
     (''required_fields'', js_list (sorted_copy (gr_required_fields r))),
     (''version'', js (gr_version r))]"

definition BuildAttestationGapReceiptHash :: "golib \<Rightarrow> attestation_gap_receipt \<Rightarrow> string \<times> attestation_gap_receipt" where
  "BuildAttestationGapReceiptHash g r = (let h = MustCanonicalHash g (attestation_gap_receipt_preimage r) in (h, r\<lparr>gr_hash := h, gr_missing_fields := sorted_copy (gr_missing_fields r),
       gr_required_fields := sorted_copy (gr_required_fields r)\<rparr>))"

definition VerifyAttestationGapReceiptHash :: "golib \<Rightarrow> attestation_gap_receipt \<Rightarrow> artifact_error option" where
  "VerifyAttestationGapReceiptHash g r = (if fst (BuildAttestationGapReceiptHash g (r\<lparr>gr_hash := []\<rparr>)) \<noteq> gr_hash r then Some AttestationGapReceiptHashMismatch else None)"

record allow_token =
  al_allow_clock :: string
  al_decision_reason_code :: string
  al_envelope_id :: string
  al_evaluation_hash :: string
  al_evaluator_version :: string
  al_fired_rule_id :: string
  al_policy_hash :: string
  al_version :: string
  al_hash :: string

definition allow_token_preimage :: "allow_token \<Rightarrow> json" where
  "allow_token_preimage r = mk_obj [
     (''allow_clock'', js (al_allow_clock r)),
     (''decision_reason_code'', js (al_decision_reason_code r)),
     (''envelope_id'', js (al_envelope_id r)),
     (''evaluation_hash'', js (al_evaluation_hash r)),
     (''evaluator_version'', js (al_evaluator_version r)),
     (''fired_rule_id'', js (al_fired_rule_id r)),
     (''policy_hash'', js (al_policy_hash r)),
     (''version'', js (al_version r))]"

definition BuildAllowTokenHash :: "golib \<Rightarrow> allow_token \<Rightarrow> string \<times> allow_token" where
  "BuildAllowTokenHash g r = (let h = MustCanonicalHash g (allow_token_preimage r) in (h, r\<lparr>al_hash := h\<rparr>))"

definition VerifyAllowTokenHash :: "golib \<Rightarrow> allow_token \<Rightarrow> artifact_error option" where
  "VerifyAllowTokenHash g r = (if fst (BuildAllowTokenHash g (r\<lparr>al_hash := []\<rparr>)) \<noteq> al_hash r then Some AllowTokenHashMismatch else None)"

record mcd_finding =
  mf_category :: string
  mf_envelope_id :: string
  mf_finding_clock :: string
  mf_library_hash :: string
  mf_matched_signature_id :: string
  mf_payload_fingerprint :: string
  mf_severity :: string
  mf_version :: string
  mf_hash :: string

definition mcd_finding_preimage :: "mcd_finding \<Rightarrow> json" where
  "mcd_finding_preimage r = mk_obj [
     (''category'', js (mf_category r)),
     (''envelope_id'', js (mf_envelope_id r)),
     (''finding_clock'', js (mf_finding_clock r)),
     (''library_hash'', js (mf_library_hash r)),
     (''matched_signature_id'', js (mf_matched_signature_id r)),
     (''payload_fingerprint'', js (mf_payload_fingerprint r)),
     (''severity'', js (mf_severity r)),
     (''version'', js (mf_version r))]"

definition BuildMCDFindingHash :: "golib \<Rightarrow> mcd_finding \<Rightarrow> string \<times> mcd_finding" where
  "BuildMCDFindingHash g r = (let h = MustCanonicalHash g (mcd_finding_preimage r) in (h, r\<lparr>mf_hash := h\<rparr>))"

definition VerifyMCDFindingHash :: "golib \<Rightarrow> mcd_finding \<Rightarrow> artifact_error option" where
  "VerifyMCDFindingHash g r = (if fst (BuildMCDFindingHash g (r\<lparr>mf_hash := []\<rparr>)) \<noteq> mf_hash r then Some MCDFindingHashMismatch else None)"

lemma sorted_copy_idem: "sorted_copy (sorted_copy l) = sorted_copy l"
proof -
  have "sort xs = [] \<longleftrightarrow> xs = []" for xs :: "string list"
    by (metis length_sort length_0_conv)
  then show ?thesis by (auto simp: sorted_copy_def sorted_sort_id split: option.splits)
qed

section \<open>What a seal promises\<close>

locale sealed_artifact =
  fixes pre :: "'r \<Rightarrow> json" and stored :: "'r \<Rightarrow> string" and same :: "'r \<Rightarrow> 'r \<Rightarrow> bool"
    and build :: "golib \<Rightarrow> 'r \<Rightarrow> string \<times> 'r" and verify :: "golib \<Rightarrow> 'r \<Rightarrow> artifact_error option"
  assumes verify_iff: "verify g r = None \<longleftrightarrow> MustCanonicalHash g (pre r) = stored r"
    and build_hash: "fst (build g r) = MustCanonicalHash g (pre r)"
    and build_stored: "stored (snd (build g r)) = fst (build g r)"
    and build_pre: "pre (snd (build g r)) = pre r"
    and pre_inject: "pre r = pre s \<longleftrightarrow> same r s"
begin

text \<open>A built artifact verifies.\<close>

lemma build_verifies: "verify g (snd (build g r)) = None"
  by (simp add: verify_iff build_stored build_hash build_pre)

text \<open>Two verified artifacts with one hash have the same fields, or their texts collide.\<close>

lemma seal_binds:
  assumes "verify g r = None" "verify g s = None" "stored r = stored s" "wf_json (pre r)" "wf_json (pre s)"
  shows "same r s \<or> collides g [json_write (pre r)] [json_write (pre s)]"
proof -
  have "sha256_hex g (json_write (pre r)) = sha256_hex g (json_write (pre s))"
    using assms(1-3) unfolding verify_iff MustCanonicalHash_def by simp
  from json_text.binds [OF assms(4,5) this] show ?thesis by (simp only: pre_inject)
qed

end

interpretation deny: sealed_artifact deny_receipt_preimage dr_hash
  "\<lambda>r s. r\<lparr>dr_hash := []\<rparr> = s\<lparr>dr_hash := []\<rparr>"
  BuildDenyReceiptHash VerifyDenyReceiptHash
proof (unfold_locales, goal_cases)
  case (5 r s)
  show ?case by (cases r; cases s) (simp add: deny_receipt_preimage_def json_inj)
qed (simp_all add: BuildDenyReceiptHash_def VerifyDenyReceiptHash_def deny_receipt_preimage_def Let_def)

interpretation ccv_halt: sealed_artifact ccv_halt_receipt_preimage cv_hash
  "\<lambda>r s. r\<lparr>cv_hash := []\<rparr> = s\<lparr>cv_hash := []\<rparr>"
  BuildCCVHaltReceiptHash VerifyCCVHaltReceiptHash
proof (unfold_locales, goal_cases)
  case (5 r s)
  show ?case by (cases r; cases s) (simp add: ccv_halt_receipt_preimage_def json_inj)
qed (simp_all add: BuildCCVHaltReceiptHash_def VerifyCCVHaltReceiptHash_def ccv_halt_receipt_preimage_def Let_def)

interpretation macc_halt: sealed_artifact macc_halt_receipt_preimage mc_hash
  "\<lambda>r s. r\<lparr>mc_hash := []\<rparr> = s\<lparr>mc_hash := []\<rparr>"
  BuildMACCHaltReceiptHash VerifyMACCHaltReceiptHash
proof (unfold_locales, goal_cases)
  case (5 r s)
  show ?case by (cases r; cases s) (simp add: macc_halt_receipt_preimage_def json_inj)
qed (simp_all add: BuildMACCHaltReceiptHash_def VerifyMACCHaltReceiptHash_def macc_halt_receipt_preimage_def Let_def)

interpretation aivp_halt: sealed_artifact aivp_t4_halt_receipt_preimage at_hash
  "\<lambda>r s. r\<lparr>at_hash := []\<rparr> = s\<lparr>at_hash := []\<rparr>"
  BuildAivpT4HaltReceiptHash VerifyAivpT4HaltReceiptHash
proof (unfold_locales, goal_cases)
  case (5 r s)
  show ?case by (cases r; cases s) (simp add: aivp_t4_halt_receipt_preimage_def json_inj)
qed (simp_all add: BuildAivpT4HaltReceiptHash_def VerifyAivpT4HaltReceiptHash_def aivp_t4_halt_receipt_preimage_def Let_def)

interpretation gap: sealed_artifact attestation_gap_receipt_preimage gr_hash
  "\<lambda>r s. r\<lparr>gr_hash := [], gr_missing_fields := sorted_copy (gr_missing_fields r), gr_required_fields := sorted_copy (gr_required_fields r)\<rparr>
     = s\<lparr>gr_hash := [], gr_missing_fields := sorted_copy (gr_missing_fields s), gr_required_fields := sorted_copy (gr_required_fields s)\<rparr>"
  BuildAttestationGapReceiptHash VerifyAttestationGapReceiptHash
proof (unfold_locales, goal_cases)
  case (5 r s)
  show ?case by (cases r; cases s) (simp add: attestation_gap_receipt_preimage_def json_inj)
qed (simp_all add: BuildAttestationGapReceiptHash_def VerifyAttestationGapReceiptHash_def attestation_gap_receipt_preimage_def Let_def sorted_copy_idem)

interpretation allow: sealed_artifact allow_token_preimage al_hash
  "\<lambda>r s. r\<lparr>al_hash := []\<rparr> = s\<lparr>al_hash := []\<rparr>"
  BuildAllowTokenHash VerifyAllowTokenHash
proof (unfold_locales, goal_cases)
  case (5 r s)
  show ?case by (cases r; cases s) (simp add: allow_token_preimage_def json_inj)
qed (simp_all add: BuildAllowTokenHash_def VerifyAllowTokenHash_def allow_token_preimage_def Let_def)

interpretation mcd: sealed_artifact mcd_finding_preimage mf_hash
  "\<lambda>r s. r\<lparr>mf_hash := []\<rparr> = s\<lparr>mf_hash := []\<rparr>"
  BuildMCDFindingHash VerifyMCDFindingHash
proof (unfold_locales, goal_cases)
  case (5 r s)
  show ?case by (cases r; cases s) (simp add: mcd_finding_preimage_def json_inj)
qed (simp_all add: BuildMCDFindingHash_def VerifyMCDFindingHash_def mcd_finding_preimage_def Let_def)

end
