(* ===== verification/Sealing.thy ===== *)
theory Sealing
  imports Samples
begin

text \<open>
  internal/artifacts/sealing.go with the section hash of the actor section (types.go,
  job.go): the null-separated digests the ledger leaf anchors, and the three forms of the
  anchored pre-anchor table. A table's digest determines its rows when the rows carry the
  frozen names and no separator, and the three forms are separated by their domain.
\<close>

section \<open>The actor section\<close>

definition nrepSectionDomain :: string where "nrepSectionDomain = ''verdifax.nrep.section.v1''"
definition scaffoldFlagsDomain :: string where "scaffoldFlagsDomain = ''verdifax.scaffold.flags.v1''"
definition runtimeTimingDomain :: string where "runtimeTimingDomain = ''verdifax.timing.v1''"

definition ComputeNrepSectionHash :: "golib \<Rightarrow> string \<Rightarrow> string \<Rightarrow> string \<Rightarrow> string \<Rightarrow> string" where
  "ComputeNrepSectionHash g actorID publicKey signature signedAt =
     nullJoinHash g nrepSectionDomain [actorID, publicKey, signature, signedAt]"

definition request_signature_fields :: "request_signature \<Rightarrow> string list" where
  "request_signature_fields r =
     [rs_public_key r, rs_signature r, rs_signed_at r, rs_nonce r] @
     (if rs_version r \<noteq> [] then [rs_version r, rs_body_hash r, rs_ai_output_hash r] else [])"

definition JobFormat :: string where "JobFormat = ''verdifax.job.v1''"

definition job_link_fields :: "job_link option \<Rightarrow> string list" where
  "job_link_fields j = (case j of
     None \<Rightarrow> [JobFormat, [], [], [], [], ''false'']
   | Some j \<Rightarrow> [JobFormat, jl_job_id j, jl_step_id j, join (CHR '','') (jl_previous_record_hashes j),
       join (CHR '','') (jl_external_previous j), if jl_final j then ''true'' else ''false''])"

definition nrep_section_fields :: "nrep_section \<Rightarrow> string list" where
  "nrep_section_fields n =
     [nr_actor_id n, nr_public_key n, nr_signature n, nr_signed_at n] @
     (case nr_request_signature n of None \<Rightarrow> [] | Some r \<Rightarrow> request_signature_fields r) @
     (case nr_job n of None \<Rightarrow> [] | Some j \<Rightarrow> job_link_fields (Some j)) @
     (if nr_account_id n \<noteq> [] then [''account'', nr_account_id n] else [])"

definition NrepSection_SectionHash :: "golib \<Rightarrow> nrep_section \<Rightarrow> string" where
  "NrepSection_SectionHash g n =
     (if nr_request_signature n = None \<and> nr_job n = None \<and> nr_account_id n = []
      then ComputeNrepSectionHash g (nr_actor_id n) (nr_public_key n) (nr_signature n) (nr_signed_at n)
      else nullJoinHash g nrepSectionDomain (nrep_section_fields n))"

definition ComputeScaffoldFlagsHash :: "golib \<Rightarrow> bool \<Rightarrow> bool \<Rightarrow> bool \<Rightarrow> bool \<Rightarrow> string" where
  "ComputeScaffoldFlagsHash g transcript hardware zksp leakage =
     nullJoinHash g scaffoldFlagsDomain [bool_word transcript, bool_word hardware, bool_word zksp, bool_word leakage]"

definition timing_part :: "stage_timing \<Rightarrow> string" where
  "timing_part s = sg_stage s @ ''='' @ int_str (sg_duration_nanos s)"

definition ComputeRuntimeTimingHash :: "golib \<Rightarrow> stage_timing list \<Rightarrow> string" where
  "ComputeRuntimeTimingHash g stages = sha256_hex g (null_join (runtimeTimingDomain # map timing_part stages))"

section \<open>The attested block\<close>

definition attestedContextDomain :: string where "attestedContextDomain = ''verdifax.attested.v1''"

definition attested_fields :: "golib \<Rightarrow> attested_context \<Rightarrow> string list" where
  "attested_fields g ac =
     [bool_word (ac_attested ac),
      ac_actor_id ac, ac_actor_role ac, ac_authorization_policy ac, ac_actor_signature ac,
      ac_model_provider ac, ac_model_name ac, ac_model_version ac,
      (case ac_model_temperature ac of None \<Rightarrow> [] | Some t \<Rightarrow> gl_g_float g t), ac_prompt_hash ac,
      ac_decision_kind ac, ac_decision_result ac, ac_decision_note ac]"

definition ComputeAttestedContextDigest :: "golib \<Rightarrow> attested_context \<Rightarrow> string" where
  "ComputeAttestedContextDigest g ac = nullJoinHash g attestedContextDomain (attested_fields g ac)"

section \<open>The pre-anchor table\<close>

type_synonym table = "pre_anchor_entry list"

definition preAnchorDomain :: string where "preAnchorDomain = ''verdifax.preanchor.v1''"

definition PreAnchorNames :: "string list" where
  "PreAnchorNames = [
    ''program_id'', ''route_id'', ''registry_record_hash'', ''clock_epoch'',
    ''attested_digest'', ''input_hash'', ''envelope_id'', ''envelope_hash'',
    ''transport_hash'', ''epa_hash'', ''efa_hash'', ''aer_hash'', ''execution_ids'',
    ''pepg_outcome'', ''allow_token_hash'', ''deny_receipt_hash'',
    ''aivp_outcome'', ''aivp_adapter_id'', ''aivp_pia_hash'',
    ''aivp_ai_output_hash'', ''aivp_halt_receipt_hash'', ''transcript_hash'',
    ''hardware_attestation_hash'', ''leakage_bundle_hash'', ''zksp_binding_hash'',
    ''formal_verifier_status'', ''migration_token_hash'', ''replay_fingerprint'',
    ''nrep_actor_id'', ''nrep_public_key'', ''nrep_signature'', ''nrep_signed_at'',
    ''scaffold_flags_hash'']"

definition PreAnchorFormV1 :: string where "PreAnchorFormV1 = ''verdifax.preanchor.v1''"
definition PreAnchorFormV2 :: string where "PreAnchorFormV2 = ''verdifax.preanchor.v2''"
definition PreAnchorFormV3 :: string where "PreAnchorFormV3 = ''verdifax.preanchor.v3''"
definition CompleteRecordAnchorRow :: string where "CompleteRecordAnchorRow = ''complete_record_anchor''"
definition CompleteRecordAnchorRequired :: string where "CompleteRecordAnchorRequired = ''required''"
definition AnchoringWindowRow :: string where "AnchoringWindowRow = ''anchoring_window_seconds''"

definition PreAnchorNamesV2 :: "string list" where
  "PreAnchorNamesV2 = [
    ''program_id'', ''route_id'', ''registry_record_hash'', ''clock_epoch'',
    ''attested_digest'', ''input_hash'', ''envelope_id'', ''envelope_hash'',
    ''transport_hash'', ''epa_hash'', ''efa_hash'', ''aer_hash'', ''execution_ids'',
    ''pepg_outcome'', ''allow_token_hash'', ''deny_receipt_hash'',
    ''aivp_outcome'', ''aivp_adapter_id'', ''aivp_pia_hash'',
    ''aivp_ai_output_hash'', ''aivp_halt_receipt_hash'', ''transcript_hash'',
    ''hardware_attestation_hash'', ''leakage_bundle_hash'', ''zksp_binding_hash'',
    ''formal_verifier_status'', ''migration_token_hash'', ''replay_fingerprint'',
    ''nrep_actor_id'', ''nrep_public_key'', ''nrep_signature'', ''nrep_signed_at'',
    ''scaffold_flags_hash'',
    CompleteRecordAnchorRow]"

definition PreAnchorNamesV3 :: "string list" where
  "PreAnchorNamesV3 = PreAnchorNamesV2 @ [AnchoringWindowRow]"

definition table_parts :: "table \<Rightarrow> string list" where
  "table_parts t = concat (map (\<lambda>e. [pe_name e, pe_value e]) t)"

definition ComputePreAnchorDigestFromTable :: "golib \<Rightarrow> table \<Rightarrow> string" where
  "ComputePreAnchorDigestFromTable g t = nullJoinHashParts g (preAnchorDomain # table_parts t)"

definition ComputePreAnchorDigestV2FromTable :: "golib \<Rightarrow> table \<Rightarrow> string" where
  "ComputePreAnchorDigestV2FromTable g t = nullJoinHashParts g (PreAnchorFormV2 # table_parts t)"

definition ComputePreAnchorDigestV3FromTable :: "golib \<Rightarrow> table \<Rightarrow> string" where
  "ComputePreAnchorDigestV3FromTable g t = nullJoinHashParts g (PreAnchorFormV3 # table_parts t)"

definition TableSealsAnchoringWindow :: "table \<Rightarrow> bool" where
  "TableSealsAnchoringWindow t = list_ex (\<lambda>e. pe_name e = AnchoringWindowRow) t"

definition TableRequiresCompleteRecordAnchor :: "table \<Rightarrow> bool" where
  "TableRequiresCompleteRecordAnchor t = list_ex (\<lambda>e. pe_name e = CompleteRecordAnchorRow) t"

definition PreAnchorTableForm :: "table \<Rightarrow> string" where
  "PreAnchorTableForm t =
     (if TableSealsAnchoringWindow t then PreAnchorFormV3
      else if TableRequiresCompleteRecordAnchor t then PreAnchorFormV2
      else PreAnchorFormV1)"

definition ComputePreAnchorDigestForTable :: "golib \<Rightarrow> table \<Rightarrow> string" where
  "ComputePreAnchorDigestForTable g t =
     (if TableSealsAnchoringWindow t then ComputePreAnchorDigestV3FromTable g t
      else if TableRequiresCompleteRecordAnchor t then ComputePreAnchorDigestV2FromTable g t
      else ComputePreAnchorDigestFromTable g t)"

section \<open>What the digests bind\<close>

lemma join_head:
  assumes "c \<notin> set x" "c \<notin> set y" "xs \<noteq> []" "ys \<noteq> []" "join c (x # xs) = join c (y # ys)"
  shows "x = y \<and> join c xs = join c ys"
proof -
  have eq: "x @ c # join c xs = y @ c # join c ys" using assms by (simp add: join_Cons)
  then have "x = y" using plain_cut assms(1,2) by metis
  with eq show ?thesis by simp
qed

lemma form_names:
  "NUL \<notin> set PreAnchorFormV1" "NUL \<notin> set PreAnchorFormV2" "NUL \<notin> set PreAnchorFormV3"
  "preAnchorDomain = PreAnchorFormV1"
  by (simp_all add: PreAnchorFormV1_def PreAnchorFormV2_def PreAnchorFormV3_def preAnchorDomain_def)

lemma digest_for_table:
  "ComputePreAnchorDigestForTable g t = sha256_hex g (null_join (PreAnchorTableForm t # table_parts t))"
  by (simp add: ComputePreAnchorDigestForTable_def PreAnchorTableForm_def ComputePreAnchorDigestFromTable_def
      ComputePreAnchorDigestV2FromTable_def ComputePreAnchorDigestV3FromTable_def nullJoinHashParts_def form_names)

lemma table_form_free: "NUL \<notin> set (PreAnchorTableForm t)"
  by (simp add: PreAnchorTableForm_def form_names)

definition frozen_names :: "string \<Rightarrow> string list" where
  "frozen_names form =
     (if form = PreAnchorFormV3 then PreAnchorNamesV3
      else if form = PreAnchorFormV2 then PreAnchorNamesV2 else PreAnchorNames)"

lemma frozen_names_free: "n \<in> set (frozen_names form) \<Longrightarrow> NUL \<notin> set n"
  by (auto simp: frozen_names_def PreAnchorNamesV3_def PreAnchorNamesV2_def PreAnchorNames_def
      CompleteRecordAnchorRow_def AnchoringWindowRow_def split: if_splits)

lemma frozen_names_cons: "frozen_names form \<noteq> []"
  by (simp add: frozen_names_def PreAnchorNamesV3_def PreAnchorNamesV2_def PreAnchorNames_def)

lemma length_table_parts: "length (table_parts t) = 2 * length t"
  by (induction t) (simp_all add: table_parts_def)

lemma shaped_parts: "map pe_name t = frozen_names form \<Longrightarrow> table_parts t \<noteq> []"
  using frozen_names_cons [of form] length_table_parts [of t] by auto

lemma table_parts_inject: "table_parts s = table_parts t \<Longrightarrow> s = t"
proof (induction s arbitrary: t)
  case Nil
  then show ?case by (cases t) (simp_all add: table_parts_def)
next
  case (Cons e s)
  obtain f u where t: "t = f # u" using Cons.prems by (cases t) (simp_all add: table_parts_def)
  then have "e = f" using Cons.prems by (cases e; cases f) (simp add: table_parts_def)
  moreover have "s = u" by (rule Cons.IH) (use Cons.prems t in \<open>simp add: table_parts_def\<close>)
  ultimately show ?case using t by simp
qed

lemma table_parts_free:
  assumes "map pe_name t = frozen_names form" "nul_free (map pe_value t)"
  shows "nul_free (table_parts t)"
  using assms(2) frozen_names_free [of _ form] unfolding assms(1) [symmetric]
  by (auto simp: table_parts_def nul_free_def list_all_iff)

text \<open>
  The table of an anchored record is bound by its digest: another table of one of the three
  shapes with the same digest has the same form and the same rows. Only the sealed table's
  values have to be free of the separator.
\<close>

lemma table_digest_binds:
  assumes a: "map pe_name s = frozen_names (PreAnchorTableForm s)" "nul_free (map pe_value s)"
    and b: "map pe_name t = frozen_names (PreAnchorTableForm t)"
    and eq: "ComputePreAnchorDigestForTable g s = ComputePreAnchorDigestForTable g t"
  shows "s = t \<or> collides g [null_join (PreAnchorTableForm s # table_parts s)]
                             [null_join (PreAnchorTableForm t # table_parts t)]"
proof (cases "null_join (PreAnchorTableForm s # table_parts s) = null_join (PreAnchorTableForm t # table_parts t)")
  case True
  have ne: "table_parts s \<noteq> []" "table_parts t \<noteq> []"
    by (rule shaped_parts [OF a(1)], rule shaped_parts [OF b])
  then have same: "PreAnchorTableForm s = PreAnchorTableForm t" "null_join (table_parts s) = null_join (table_parts t)"
    using join_head [OF table_form_free table_form_free ne] True unfolding null_join_def by blast+
  have "length s = length t" using a(1) b same(1) by (metis length_map)
  then have "table_parts s = table_parts t"
    using null_join_inject [OF table_parts_free [OF a] _ same(2)] by (simp add: length_table_parts)
  then show ?thesis by (simp add: table_parts_inject)
next
  case False
  with eq show ?thesis by (auto simp: digest_for_table intro: collidesI)
qed

text \<open>Measured durations are bound when no stage name holds the separator.\<close>

lemma timing_part_inject: "timing_part s = timing_part t \<Longrightarrow> s = t"
proof -
  have neq: "CHR ''='' \<notin> set (int_str i)" for i by (rule int_str_free) simp_all
  assume "timing_part s = timing_part t"
  then have "rev (timing_part s) = rev (timing_part t)" by simp
  then have "rev (int_str (sg_duration_nanos s)) @ CHR ''='' # rev (sg_stage s)
      = rev (int_str (sg_duration_nanos t)) @ CHR ''='' # rev (sg_stage t)"
    by (simp add: timing_part_def)
  moreover from this have "rev (int_str (sg_duration_nanos s)) = rev (int_str (sg_duration_nanos t))"
    by (rule plain_cut [of "CHR ''=''", rotated 2]) (simp_all add: neq)
  ultimately show "s = t" by (cases s; cases t) simp
qed

lemma timing_binds:
  assumes "nul_free (map sg_stage xs)" "nul_free (map sg_stage ys)"
    and "ComputeRuntimeTimingHash g xs = ComputeRuntimeTimingHash g ys"
  shows "xs = ys \<or> collides g [null_join (runtimeTimingDomain # map timing_part xs)]
                               [null_join (runtimeTimingDomain # map timing_part ys)]"
proof (cases "null_join (runtimeTimingDomain # map timing_part xs) = null_join (runtimeTimingDomain # map timing_part ys)")
  case True
  have neq: "NUL \<notin> set (int_str i)" for i by (rule int_str_free) simp_all
  have free: "nul_free (runtimeTimingDomain # map timing_part zs)" if "nul_free (map sg_stage zs)" for zs
    using that neq by (auto simp: nul_free_def list_all_iff timing_part_def runtimeTimingDomain_def)
  have "concat (map (split_on NUL) (runtimeTimingDomain # map timing_part xs))
      = concat (map (split_on NUL) (runtimeTimingDomain # map timing_part ys))"
    using True by (intro join_component) (simp_all add: null_join_def)
  moreover have "concat (map (split_on NUL) (runtimeTimingDomain # map timing_part zs)) = runtimeTimingDomain # map timing_part zs"
    if "nul_free (map sg_stage zs)" for zs
    using free [OF that] by (intro concat_split_free) (auto simp: nul_free_def list_all_iff)
  ultimately have "map timing_part xs = map timing_part ys"
    using assms(1,2) by (metis list.inject)
  moreover have "inj timing_part" by (rule injI) (rule timing_part_inject)
  ultimately show ?thesis by simp
next
  case False
  with assms(3) show ?thesis by (auto simp: ComputeRuntimeTimingHash_def intro: collidesI)
qed

text \<open>
  A stage name that does hold the separator runs into the next stage: one stage whose name
  contains a null byte digests as two. Nothing in the digest refuses such a name.
\<close>

lemma timing_separator_ambiguous:
  "ComputeRuntimeTimingHash g
     [\<lparr>sg_stage = ''a=1'' @ [NUL] @ ''b'', sg_duration_nanos = 2\<rparr>]
   = ComputeRuntimeTimingHash g
     [\<lparr>sg_stage = ''a'', sg_duration_nanos = 1\<rparr>, \<lparr>sg_stage = ''b'', sg_duration_nanos = 2\<rparr>]"
proof -
  have "int_str 1 = ''1''" by code_simp
  then show ?thesis by (simp add: ComputeRuntimeTimingHash_def null_join_def timing_part_def runtimeTimingDomain_def)
qed

text \<open>
  The job block joins its hash lists with commas, so a list of one element that holds a comma
  has the fields of a list of two.
\<close>

lemma job_list_ambiguous:
  "job_link_fields (Some \<lparr>jl_job_id = j, jl_step_id = s, jl_previous_record_hashes = [x @ '','' @ y],
      jl_external_previous = e, jl_final = f\<rparr>)
   = job_link_fields (Some \<lparr>jl_job_id = j, jl_step_id = s, jl_previous_record_hashes = [x, y],
      jl_external_previous = e, jl_final = f\<rparr>)"
  by (simp add: job_link_fields_def)

end
