(* ===== verification/ExecutionRecord.thy ===== *)
theory ExecutionRecord
  imports Samples
begin

text \<open>
  internal/artifacts/execution_record.go and execution_record_hardware.go: the attestation
  execution record's own formula over fields of fixed width, its proof, and the hardware
  slot. The fixed width is what replaces a separator, and the main result is that the
  formula binds every field, the number of kernel ids included.
\<close>

section \<open>The execution record\<close>

definition AerFormulaV1 :: string where "AerFormulaV1 = ''aer.v1''"
definition ExecutionRecordKind :: string where "ExecutionRecordKind = ''verdifax.execution_record.v1''"

datatype record_error =
    NoKernelIds
  | NotHex64 string
  | UnknownRecordKind string
  | UnknownFormula string
  | NoHardwareQuote
  | QuoteUndecodable

definition NoHardwareAttestationHash :: "golib \<Rightarrow> string" where
  "NoHardwareAttestationHash g = sha256_hex g ''hw.none.v1''"

text \<open>
  Every field is written in turn until one of them is not a lowercase hex hash; that field
  is the error. The kernel ids are named by their index.
\<close>

fun write_fields :: "string \<Rightarrow> (string \<times> string) list \<Rightarrow> record_error + string" where
  "write_fields h [] = Inr h"
| "write_fields h ((name, v) # r) = (if is_hex64 v then write_fields (h @ v) r else Inl (NotHex64 name))"

fun kernel_fields :: "nat \<Rightarrow> string list \<Rightarrow> (string \<times> string) list" where
  "kernel_fields i [] = []"
| "kernel_fields i (x # xs) = (''kernel_output_ids['' @ nat_str i @ '']'', x) # kernel_fields (Suc i) xs"

definition aer_fields :: "string \<Rightarrow> string \<Rightarrow> string \<Rightarrow> string \<Rightarrow> string list \<Rightarrow> string \<Rightarrow> (string \<times> string) list" where
  "aer_fields inputHash transportHash controlHash programHash kernels hardwareHash =
     [(''input_hash'', inputHash), (''transport_hash'', transportHash),
      (''execution_control_hash'', controlHash), (''program_hash'', programHash)]
     @ kernel_fields 0 kernels @ [(''hardware_attestation_hash'', hardwareHash)]"

definition ComputeAerV1 ::
  "golib \<Rightarrow> string \<Rightarrow> string \<Rightarrow> string \<Rightarrow> string \<Rightarrow> string list \<Rightarrow> string \<Rightarrow> record_error + string" where
  "ComputeAerV1 g inputHash transportHash controlHash programHash kernels hardwareHash =
     (if kernels = [] then Inl NoKernelIds
      else case write_fields ''aer.v1.'' (aer_fields inputHash transportHash controlHash programHash kernels hardwareHash) of
        Inl e \<Rightarrow> Inl e
      | Inr h \<Rightarrow> Inr (sha256_hex g h))"

definition ComputeProofV1 :: "golib \<Rightarrow> string \<Rightarrow> string \<Rightarrow> record_error + string" where
  "ComputeProofV1 g aerHash hardwareHash =
     (if \<not> is_hex64 aerHash then Inl (NotHex64 ''aer_hash'')
      else if \<not> is_hex64 hardwareHash then Inl (NotHex64 ''hardware_attestation_hash'')
      else Inr (sha256_hex g (''proof.v1.'' @ aerHash @ hardwareHash)))"

definition RecomputeExecutionRecord :: "golib \<Rightarrow> execution_record \<Rightarrow> record_error + string \<times> string" where
  "RecomputeExecutionRecord g r =
     (if er_kind r \<noteq> ExecutionRecordKind then Inl (UnknownRecordKind (er_kind r))
      else if er_formula r \<noteq> AerFormulaV1 then Inl (UnknownFormula (er_formula r))
      else case ComputeAerV1 g (er_input_hash r) (er_transport_hash r) (er_execution_control_hash r)
             (er_program_hash r) (slice (er_kernel_output_ids r)) (er_hardware_attestation_hash r) of
        Inl e \<Rightarrow> Inl e
      | Inr aerHash \<Rightarrow>
          (case ComputeProofV1 g aerHash (er_hardware_attestation_hash r) of
             Inl e \<Rightarrow> Inl e
           | Inr proofHash \<Rightarrow> Inr (aerHash, proofHash)))"

definition ExecutionRecordHardwareHash :: "golib \<Rightarrow> audit_bundle \<Rightarrow> record_error + string" where
  "ExecutionRecordHardwareHash g b = (let h = ab_hardware_attestation b in
     if hw_attestation_mode h \<noteq> ''sev_snp'' \<or> hw_quote_b64 h = [] then Inl NoHardwareQuote
     else case base64_decode (hw_quote_b64 h) of
       None \<Rightarrow> Inl QuoteUndecodable
     | Some raw \<Rightarrow> Inr (sha256_hex g raw))"

section \<open>What the record hash binds\<close>

definition first_malformed :: "(string \<times> string) list \<Rightarrow> string option" where
  "first_malformed fs = map_option fst (find (\<lambda>(n, v). \<not> is_hex64 v) fs)"

lemma write_fields_spec:
  "write_fields h fs = (case first_malformed fs of None \<Rightarrow> Inr (h @ concat (map snd fs)) | Some n \<Rightarrow> Inl (NotHex64 n))"
  by (induction h fs rule: write_fields.induct) (auto simp: first_malformed_def split: option.splits)

lemma first_malformed_None: "first_malformed fs = None \<longleftrightarrow> list_all is_hex64 (map snd fs)"
  by (induction fs) (auto simp: first_malformed_def)

lemma snd_kernel_fields [simp]: "map snd (kernel_fields i xs) = xs"
  by (induction i xs rule: kernel_fields.induct) simp_all

lemma length_kernel_fields [simp]: "length (kernel_fields i xs) = length xs"
  by (induction i xs rule: kernel_fields.induct) simp_all

definition aer_text :: "string list \<Rightarrow> bytes" where
  "aer_text vs = ''aer.v1.'' @ concat vs"

lemma concat_blocks_inject:
  "list_all is_hex64 xs \<Longrightarrow> list_all is_hex64 ys \<Longrightarrow> concat xs = concat ys \<Longrightarrow> xs = ys"
proof (induction xs arbitrary: ys)
  case Nil
  then show ?case by (cases ys) (auto simp: is_hex64_def)
next
  case (Cons x xs)
  obtain y us where ys: "ys = y # us" using Cons.prems by (cases ys) (auto simp: is_hex64_def)
  then have "x = y \<and> concat xs = concat us"
    using Cons.prems by (auto simp: is_hex64_def dest: append_eq_append_conv [THEN iffD1, rotated])
  with Cons.IH [of us] Cons.prems ys show ?case by simp
qed

interpretation aer_record: commitment aer_text "list_all is_hex64" "list_all is_hex64"
  by unfold_locales (auto simp: aer_text_def intro: concat_blocks_inject)

lemma ComputeAerV1_Inr:
  "ComputeAerV1 g i t c p ks h = Inr r \<longleftrightarrow>
     ks \<noteq> [] \<and> list_all is_hex64 ([i, t, c, p] @ ks @ [h]) \<and> r = sha256_hex g (aer_text ([i, t, c, p] @ ks @ [h]))"
proof -
  let ?fs = "aer_fields i t c p ks h"
  have vals: "map snd ?fs = [i, t, c, p] @ ks @ [h]" by (simp add: aer_fields_def)
  show ?thesis
    using first_malformed_None [of ?fs]
    by (cases "first_malformed ?fs")
      (auto simp: ComputeAerV1_def write_fields_spec vals aer_text_def simp del: concat_append)
qed

text \<open>C4. The aer.v1 hash binds every field of the execution record: two records whose hashes
  the verifier recomputes to the same value have the same input, transport, control, program
  and hardware hashes and the same kernel ids in the same order and number, or the two
  preimages collide.\<close>

theorem aer_hash_binds_fields:
  assumes "ComputeAerV1 g i t c p ks h = Inr r" and "ComputeAerV1 g i' t' c' p' ks' h' = Inr r"
  shows "(i = i' \<and> t = t' \<and> c = c' \<and> p = p' \<and> ks = ks' \<and> h = h')
    \<or> collides g [aer_text ([i, t, c, p] @ ks @ [h])] [aer_text ([i', t', c', p'] @ ks' @ [h'])]"
proof -
  have "[i, t, c, p] @ ks @ [h] = [i', t', c', p'] @ ks' @ [h']
      \<or> collides g [aer_text ([i, t, c, p] @ ks @ [h])] [aer_text ([i', t', c', p'] @ ks' @ [h'])]"
    by (rule aer_record.binds) (use assms in \<open>simp_all only: ComputeAerV1_Inr\<close>)
  then show ?thesis by auto
qed

lemma aer_hash_binds_fields_witness:
  defines "z \<equiv> replicate 64 (CHR ''0'')"
  shows "(z = z \<and> [z] = [z]) \<or> collides toy_lib [aer_text ([z, z, z, z] @ [z] @ [z])] [aer_text ([z, z, z, z] @ [z] @ [z])]"
proof -
  have "is_hex64 z" by (simp add: z_def is_hex64_def list_all_iff is_lower_hex_def)
  then have "ComputeAerV1 toy_lib z z z z [z] z = Inr (sha256_hex toy_lib (aer_text ([z, z, z, z] @ [z] @ [z])))"
    by (simp add: ComputeAerV1_Inr)
  from aer_hash_binds_fields [OF this this] show ?thesis by blast
qed

text \<open>A record hash or an error: the error names the first field that is not a lowercase hex hash.\<close>

lemma ComputeAerV1_error:
  "ks \<noteq> [] \<Longrightarrow> ComputeAerV1 g i t c p ks h = Inl e \<longleftrightarrow>
     (\<exists>n. first_malformed (aer_fields i t c p ks h) = Some n \<and> e = NotHex64 n)"
  by (auto simp: ComputeAerV1_def write_fields_spec split: option.splits)

end
