(* ===== verification/RecordAnchor.thy ===== *)
theory RecordAnchor
  imports Sealing ExecutionRecord
begin

text \<open>
  internal/artifacts/bundle_anchor.go: the thirteen named values of
  the complete-record digest, each recomputed from the record's own content with the digest and
  the ledger leaf over it. The main result is that
  two records whose leaf holds the same digest have the same content under every pair.
\<close>

section \<open>The sections outside the bundle hash\<close>

definition aivp_t4_section_preimage :: "aivp_t4_section \<Rightarrow> json" where
  "aivp_t4_section_preimage x = mk_obj [
    (''form'', js ''verdifax.aivp_t4.section.v1''),
    (''outcome'', js (ai_outcome x)),
    (''pia_hash'', js (ai_pia_hash x)),
    (''adapter_id'', js (ai_adapter_id x)),
    (''ai_output_hash'', js (ai_ai_output_hash x)),
    (''decision'', js (ai_decision x)),
    (''halt_receipt_hash'', js (ai_halt_receipt_hash x))]"

definition ComputeAivpT4SectionHash :: "golib \<Rightarrow> aivp_t4_section \<Rightarrow> string" where
  "ComputeAivpT4SectionHash g x = MustCanonicalHash g (aivp_t4_section_preimage x)"

definition execution_record_preimage :: "execution_record option \<Rightarrow> json" where
  "execution_record_preimage x = (case x of
     None \<Rightarrow> mk_obj [(''form'', js ''verdifax.execution_record.section.v1''), (''present'', jb False)]
   | Some r \<Rightarrow> mk_obj [
    (''form'', js ''verdifax.execution_record.section.v1''),
    (''present'', jb True),
    (''kind'', js (er_kind r)),
    (''formula'', js (er_formula r)),
    (''input_hash'', js (er_input_hash r)),
    (''transport_hash'', js (er_transport_hash r)),
    (''execution_control_hash'', js (er_execution_control_hash r)),
    (''program_hash'', js (er_program_hash r)),
    (''kernel_output_ids'', js_list (er_kernel_output_ids r)),
    (''hardware_attestation_hash'', js (er_hardware_attestation_hash r)),
    (''hardware_attested'', jb (er_hardware_attested r)),
    (''aer_hash'', js (er_aer_hash r)),
    (''proof_hash'', js (er_proof_hash r))])"

definition ComputeExecutionRecordSectionHash :: "golib \<Rightarrow> execution_record option \<Rightarrow> string" where
  "ComputeExecutionRecordSectionHash g x = MustCanonicalHash g (execution_record_preimage x)"

definition hardware_evidence_preimage :: "hardware_attestation \<Rightarrow> json" where
  "hardware_evidence_preimage x = mk_obj [
    (''form'', js ''verdifax.hardware_evidence.v1''),
    (''platform'', js (hw_platform x)),
    (''quote_b64'', js (hw_quote_b64 x)),
    (''vlek_cert_pem'', js (hw_vlek_cert_pem x)),
    (''cert_chain_pem'', js (hw_cert_chain_pem x)),
    (''report_data_hex'', js (hw_report_data_hex x)),
    (''report_data_recipe'', js (hw_report_data_recipe x)),
    (''verification'', Some (case hw_verification x of None \<Rightarrow> JNull | Some v \<Rightarrow> vc_json v))]"

definition ComputeHardwareEvidenceHash :: "golib \<Rightarrow> hardware_attestation \<Rightarrow> string" where
  "ComputeHardwareEvidenceHash g x = MustCanonicalHash g (hardware_evidence_preimage x)"

definition pote_ledger_preimage :: "pote_proof \<Rightarrow> json" where
  "pote_ledger_preimage x = mk_obj [
    (''form'', js ''verdifax.pote_ledger.v1''),
    (''kind'', js (pp_kind x)),
    (''ledger_backend'', js (pp_ledger_backend x)),
    (''ledger_log_id'', js (pp_ledger_log_id x)),
    (''integrated_time'', ji (pp_integrated_time x)),
    (''signed_entry_timestamp'', js (pp_signed_entry_timestamp x)),
    (''ledger_checkpoint'', js (pp_ledger_checkpoint x))]"

definition ComputePoteLedgerHash :: "golib \<Rightarrow> pote_proof \<Rightarrow> string" where
  "ComputePoteLedgerHash g x = MustCanonicalHash g (pote_ledger_preimage x)"

definition scaffold_notes_preimage :: "audit_bundle \<Rightarrow> json" where
  "scaffold_notes_preimage x = mk_obj [
    (''form'', js ''verdifax.scaffold_notes.v1''),
    (''transcript'', jv sn_json (ts_scaffold (ab_transcript x))),
    (''hardware_attestation'', jv sn_json (hw_scaffold (ab_hardware_attestation x))),
    (''leakage_bundle'', jv sn_json (lb_scaffold (ab_leakage_bundle x))),
    (''zksp_binding'', jv sn_json (zk_scaffold (ab_zksp_binding x))),
    (''pote_proof'', jv sn_json (pp_scaffold (ab_pote_proof x)))]"

definition ComputeScaffoldNotesHash :: "golib \<Rightarrow> audit_bundle \<Rightarrow> string" where
  "ComputeScaffoldNotesHash g x = MustCanonicalHash g (scaffold_notes_preimage x)"

definition named_seal_json :: "string \<times> seal_reference \<Rightarrow> json" where
  "named_seal_json s = mk_obj [(''section'', js (fst s)), (''seal'', jv sr_json (snd s))]"

definition named_seals :: "audit_bundle \<Rightarrow> (string \<times> seal_reference) list" where
  "named_seals b = [
    (''envelope'', env_seal (ab_envelope b)),
    (''transport'', tr_seal (ab_transport b)),
    (''epa'', epa_seal (ab_epa b)),
    (''efa'', efa_seal (ab_efa b)),
    (''aer'', aer_seal (ab_aer b)),
    (''transcript'', ts_seal (ab_transcript b)),
    (''hardware_attestation'', hw_seal (ab_hardware_attestation b)),
    (''leakage_bundle'', lb_seal (ab_leakage_bundle b)),
    (''zksp_binding'', zk_seal (ab_zksp_binding b)),
    (''migration_token'', mt_seal (ab_migration_token b)),
    (''replay_fingerprint'', rf_seal (ab_replay_fingerprint b)),
    (''pote_proof'', pp_seal (ab_pote_proof b)),
    (''final_vfa'', vf_seal (ab_final_vfa b)),
    (''request_substance'', rq_seal (ab_request_substance b)),
    (''authorization_chain'', az_seal (ab_authorization_chain b)),
    (''regulatory_scaffolding'', rg_seal (ab_regulatory_scaffolding b)),
    (''causal_graph'', cg_seal (ab_causal_graph b)),
    (''system_provenance'', sp_seal (ab_system_provenance b))]"

definition seal_references_preimage :: "audit_bundle \<Rightarrow> json" where
  "seal_references_preimage x = mk_obj [
    (''form'', js ''verdifax.seal_references.v1''),
    (''seals'', jl named_seal_json (Some (named_seals x)))]"

definition ComputeSealReferencesHash :: "golib \<Rightarrow> audit_bundle \<Rightarrow> string" where
  "ComputeSealReferencesHash g x = MustCanonicalHash g (seal_references_preimage x)"

definition section_residue_preimage :: "audit_bundle \<Rightarrow> json" where
  "section_residue_preimage x = mk_obj [
    (''form'', js ''verdifax.section_residue.v1''),
    (''payload_content_inline'', js (pl_content_inline (ab_payload x))),
    (''envelope_kind'', js (env_kind (ab_envelope x))),
    (''transport_kind'', js (tr_kind (ab_transport x))),
    (''transcript_kind'', js (ts_kind (ab_transcript x))),
    (''migration_token_kind'', js (mt_kind (ab_migration_token x)))]"

definition ComputeSectionResidueHash :: "golib \<Rightarrow> audit_bundle \<Rightarrow> string" where
  "ComputeSectionResidueHash g x = MustCanonicalHash g (section_residue_preimage x)"

definition record_metadata_preimage :: "audit_bundle \<Rightarrow> json" where
  "record_metadata_preimage x = mk_obj [
    (''form'', js ''verdifax.record_metadata.v1''),
    (''run_id'', ji (ab_run_id x)),
    (''status'', js (ab_status x)),
    (''generated_at'', js (ab_generated_at x)),
    (''nrep_section_hash'', js (ab_nrep_section_hash x)),
    (''scaffold_flags_hash'', js (ab_scaffold_flags_hash x)),
    (''runtime_timing_hash'', js (ab_runtime_timing_hash x)),
    (''pre_anchor_digest'', js (ab_pre_anchor_digest x)),
    (''attested_digest'', js (ab_attested_digest x))]"

definition ComputeRecordMetadataHash :: "golib \<Rightarrow> audit_bundle \<Rightarrow> string" where
  "ComputeRecordMetadataHash g x = MustCanonicalHash g (record_metadata_preimage x)"

section \<open>The digest and the leaf\<close>

definition BundleAnchorKind :: string where "BundleAnchorKind = ''verdifax.bundle_anchor.v1''"
definition BundleAnchorDigestForm :: string where "BundleAnchorDigestForm = ''verdifax.bundle.anchor.v1''"
definition BundleLeafDomain :: string where "BundleLeafDomain = ''verdifax.ledger.bundle.v1''"

definition AnchoredRecordNames :: "string list" where
  "AnchoredRecordNames = [
    ''bundle_hash'', ''pre_anchor_digest'', ''nrep_section'', ''aivp_t4_section'',
    ''formal_verification'', ''execution_record'', ''runtime_timing'',
    ''hardware_evidence'', ''pote_ledger'', ''scaffold_notes'',
    ''seal_references'', ''section_residue'', ''record_metadata'']"

definition AnchoredRecordPairs :: "golib \<Rightarrow> audit_bundle \<Rightarrow> (string \<times> string) list" where
  "AnchoredRecordPairs g b = zip AnchoredRecordNames [
    RecomputeBundleHash g b,
    ComputePreAnchorDigestFromTable g (ab_pre_anchor b),
    NrepSection_SectionHash g (ab_nrep b),
    ComputeAivpT4SectionHash g (ab_aivp_t4 b),
    RecomputeFormalVerificationHash g (ab_formal_verification b),
    ComputeExecutionRecordSectionHash g (ab_execution_record b),
    ComputeRuntimeTimingHash g (ab_runtime_timing b),
    ComputeHardwareEvidenceHash g (ab_hardware_attestation b),
    ComputePoteLedgerHash g (ab_pote_proof b),
    ComputeScaffoldNotesHash g b,
    ComputeSealReferencesHash g b,
    ComputeSectionResidueHash g b,
    ComputeRecordMetadataHash g b]"

definition pair_parts :: "(string \<times> string) list \<Rightarrow> string list" where
  "pair_parts ps = concat (map (\<lambda>(n, v). [n, v]) ps)"

definition ComputeAnchoredRecordDigest :: "golib \<Rightarrow> audit_bundle \<Rightarrow> string" where
  "ComputeAnchoredRecordDigest g b =
     sha256_hex g (null_join (BundleAnchorDigestForm # pair_parts (AnchoredRecordPairs g b)))"

datatype bundle_leaf_error = EnvelopeIdEmpty | EnvelopeIdHasDot | DigestLength nat | DigestNotHex

definition ValidateBundleLeafFields :: "string \<Rightarrow> string \<Rightarrow> bundle_leaf_error option" where
  "ValidateBundleLeafFields envelopeID anchoredDigest =
     (if envelopeID = [] then Some EnvelopeIdEmpty
      else if CHR ''.'' \<in> set envelopeID then Some EnvelopeIdHasDot
      else if length anchoredDigest \<noteq> 64 then Some (DigestLength (length anchoredDigest))
      else if \<not> list_all is_lower_hex anchoredDigest then Some DigestNotHex
      else None)"

definition BundleLeafPreimage :: "string \<Rightarrow> string \<Rightarrow> string" where
  "BundleLeafPreimage envelopeID anchoredDigest = join (CHR ''.'') [BundleLeafDomain, envelopeID, anchoredDigest]"

definition ComputeBundleLeafHash :: "golib \<Rightarrow> string \<Rightarrow> string \<Rightarrow> string" where
  "ComputeBundleLeafHash g envelopeID anchoredDigest = sha256_hex g (BundleLeafPreimage envelopeID anchoredDigest)"

section \<open>What the record digest binds\<close>

text \<open>The content under each of the thirteen pairs, in pair order.\<close>

definition record_sources :: "golib \<Rightarrow> audit_bundle \<Rightarrow> preimage list" where
  "record_sources g b = [
    Canon (audit_bundle_preimage b),
    Nulls (preAnchorDomain # table_parts (ab_pre_anchor b)),
    Nulls (nrepSectionDomain # nrep_section_fields (ab_nrep b)),
    Canon (aivp_t4_section_preimage (ab_aivp_t4 b)),
    Canon (formal_verification_preimage (ab_formal_verification b)),
    Canon (execution_record_preimage (ab_execution_record b)),
    Nulls (runtimeTimingDomain # map timing_part (ab_runtime_timing b)),
    Canon (hardware_evidence_preimage (ab_hardware_attestation b)),
    Canon (pote_ledger_preimage (ab_pote_proof b)),
    Canon (scaffold_notes_preimage b),
    Canon (seal_references_preimage b),
    Canon (section_residue_preimage b),
    Canon (record_metadata_preimage b)]"

lemma nrep_hash_fields:
  "NrepSection_SectionHash g n = nullJoinHash g nrepSectionDomain (nrep_section_fields n)"
  by (simp add: NrepSection_SectionHash_def ComputeNrepSectionHash_def nrep_section_fields_def)

lemma anchored_pairs_pre:
  "AnchoredRecordPairs g b = zip AnchoredRecordNames (map (pre_hash g) (record_sources g b))"
  by (simp add: AnchoredRecordPairs_def record_sources_def go_simps nrep_hash_fields
      RecomputeBundleHash_def ComputePreAnchorDigestFromTable_def nullJoinHashParts_def nullJoinHash_def
      ComputeAivpT4SectionHash_def RecomputeFormalVerificationHash_def ComputeExecutionRecordSectionHash_def
      ComputeRuntimeTimingHash_def ComputeHardwareEvidenceHash_def ComputePoteLedgerHash_def
      ComputeScaffoldNotesHash_def ComputeSealReferencesHash_def ComputeSectionResidueHash_def
      ComputeRecordMetadataHash_def)

lemma record_sources_comparable: "list_all2 comparable (record_sources g a) (record_sources g b)"
  by (simp add: record_sources_def)

lemma pair_parts_zip_inject:
  "length ns = length vs \<Longrightarrow> length ns = length ws \<Longrightarrow> pair_parts (zip ns vs) = pair_parts (zip ns ws) \<Longrightarrow> vs = ws"
proof (induction ns arbitrary: vs ws)
  case (Cons n ns)
  then obtain v vs' w ws' where "vs = v # vs'" "ws = w # ws'" by (metis length_Suc_conv)
  with Cons show ?case by (simp add: pair_parts_def)
qed simp

lemma length_record_sources: "length (record_sources g b) = length AnchoredRecordNames"
  by (simp add: record_sources_def AnchoredRecordNames_def)

lemma pair_parts_free:
  assumes "\<forall>n \<in> set ns. NUL \<notin> set n"
  shows "nul_free (pair_parts (zip ns (map (pre_hash g) ps)))"
proof -
  have "NUL \<notin> set (pre_hash g p)" for p
    unfolding pre_hash_def by (rule sha256_hex_free) (simp add: is_lower_hex_def)
  then show ?thesis using assms
    by (fastforce simp: nul_free_def list_all_iff pair_parts_def dest: set_zip_leftD set_zip_rightD)
qed

definition record_wf :: "golib \<Rightarrow> audit_bundle \<Rightarrow> bool" where
  "record_wf g b \<longleftrightarrow> list_all pre_ok (record_sources g b)"

definition record_preimages :: "golib \<Rightarrow> audit_bundle \<Rightarrow> bytes list" where
  "record_preimages g b =
     null_join (BundleAnchorDigestForm # pair_parts (AnchoredRecordPairs g b)) # map pre_bytes (record_sources g b)"

lemma record_digest_binds:
  assumes wf: "record_wf g a" "record_wf g b"
    and eq: "ComputeAnchoredRecordDigest g a = ComputeAnchoredRecordDigest g b"
  shows "record_sources g a = record_sources g b \<or> collides g (record_preimages g a) (record_preimages g b)"
proof -
  let ?parts = "\<lambda>x. BundleAnchorDigestForm # pair_parts (AnchoredRecordPairs g x)"
  have free: "nul_free (?parts x)" for x
    using pair_parts_free [of AnchoredRecordNames g "record_sources g x"]
    by (auto simp: anchored_pairs_pre nul_free_def BundleAnchorDigestForm_def AnchoredRecordNames_def)
  show ?thesis
  proof (cases "null_join (?parts a) = null_join (?parts b)")
    case True
    then have "?parts a = ?parts b" by (rule null_join_free [OF free free, rotated 2]) simp_all
    then have pp: "pair_parts (zip AnchoredRecordNames (map (pre_hash g) (record_sources g a)))
        = pair_parts (zip AnchoredRecordNames (map (pre_hash g) (record_sources g b)))"
      by (simp only: anchored_pairs_pre list.inject)
    have "map (pre_hash g) (record_sources g a) = map (pre_hash g) (record_sources g b)"
      by (rule pair_parts_zip_inject [OF _ _ pp]) (simp_all only: length_map length_record_sources)
    then have "record_sources g a = record_sources g b
        \<or> collides g (map pre_bytes (record_sources g a)) (map pre_bytes (record_sources g b))"
      by (intro pre_hashes_bind record_sources_comparable) (use wf in \<open>auto simp: record_wf_def\<close>)
    then show ?thesis unfolding record_preimages_def using collides_Cons by blast
  next
    case False
    then show ?thesis using eq
      by (auto simp: ComputeAnchoredRecordDigest_def record_preimages_def intro!: collidesI)
  qed
qed

text \<open>The fields outside the bundle hash, from the equality of the contents.\<close>

lemma nrep_fields_first4:
  "nrep_section_fields m = nrep_section_fields n \<Longrightarrow>
     nr_actor_id m = nr_actor_id n \<and> nr_public_key m = nr_public_key n
     \<and> nr_signature m = nr_signature n \<and> nr_signed_at m = nr_signed_at n"
  by (simp add: nrep_section_fields_def)

lemma er_preimage_inj: "execution_record_preimage x = execution_record_preimage y \<longleftrightarrow> x = y"
proof -
  have "execution_record_preimage (Some r) = execution_record_preimage (Some s) \<longleftrightarrow> r = s" for r s
    by (cases r; cases s) (simp add: execution_record_preimage_def json_inj)
  moreover have "execution_record_preimage None \<noteq> execution_record_preimage (Some r)" for r
    by (simp add: execution_record_preimage_def mk_obj_def jb_def js_def)
  ultimately show ?thesis by (cases x; cases y) (auto dest: sym)
qed

lemma timing_parts_inject: "map timing_part xs = map timing_part ys \<Longrightarrow> xs = ys"
proof -
  have "inj timing_part" by (rule injI) (rule timing_part_inject)
  then show "map timing_part xs = map timing_part ys \<Longrightarrow> xs = ys" by simp
qed

lemma record_fields:
  assumes "record_sources g a = record_sources g b"
  shows "stored_hashes a = stored_hashes b" and "ab_manifest_hash a = ab_manifest_hash b"
    and "ab_pre_anchor a = ab_pre_anchor b"
    and "nr_actor_id (ab_nrep a) = nr_actor_id (ab_nrep b)"
    and "ab_aivp_t4 a = ab_aivp_t4 b"
    and "ab_execution_record a = ab_execution_record b"
    and "ab_runtime_timing a = ab_runtime_timing b"
    and "named_seals a = named_seals b"
    and "ab_run_id a = ab_run_id b" and "ab_status a = ab_status b" and "ab_generated_at a = ab_generated_at b"
    and "pl_content_inline (ab_payload a) = pl_content_inline (ab_payload b)"
proof -
  note eq = assms [unfolded record_sources_def list.inject preimage.inject]
  show "stored_hashes a = stored_hashes b" "ab_manifest_hash a = ab_manifest_hash b"
    using eq by (simp_all add: audit_bundle_preimage_inj)
  show "ab_pre_anchor a = ab_pre_anchor b" using eq table_parts_inject by blast
  show "nr_actor_id (ab_nrep a) = nr_actor_id (ab_nrep b)" using eq nrep_fields_first4 by blast
  show "ab_aivp_t4 a = ab_aivp_t4 b" using eq
    by (cases "ab_aivp_t4 a"; cases "ab_aivp_t4 b") (simp add: aivp_t4_section_preimage_def json_inj)
  show "ab_execution_record a = ab_execution_record b" using eq by (simp add: er_preimage_inj)
  show "ab_runtime_timing a = ab_runtime_timing b" using eq timing_parts_inject by blast
  have "named_seal_json s = named_seal_json t \<longleftrightarrow> s = t" for s t
    by (cases s; cases t) (simp add: named_seal_json_def json_inj)
  moreover have "named_seal_json s \<noteq> JNull" for s by (simp add: named_seal_json_def mk_obj_def)
  ultimately show "named_seals a = named_seals b"
    using eq by (simp add: seal_references_preimage_def json_inj)
  show "ab_run_id a = ab_run_id b" "ab_status a = ab_status b" "ab_generated_at a = ab_generated_at b"
    using eq by (simp_all add: record_metadata_preimage_def json_inj)
  show "pl_content_inline (ab_payload a) = pl_content_inline (ab_payload b)"
    using eq by (simp add: section_residue_preimage_def json_inj)
qed

text \<open>What two records agree on when their contents are the same.\<close>

definition same_content :: "golib \<Rightarrow> audit_bundle \<Rightarrow> audit_bundle \<Rightarrow> bool" where
  "same_content g a b \<longleftrightarrow> aer_decision (ab_aer a) = aer_decision (ab_aer b)
      \<and> aer_final_state (ab_aer a) = aer_final_state (ab_aer b)
      \<and> epa_policy_gate (ab_epa a) = epa_policy_gate (ab_epa b)
      \<and> epa_account_policy_gate (ab_epa a) = epa_account_policy_gate (ab_epa b)
      \<and> pl_content_hash (ab_payload a) = pl_content_hash (ab_payload b)
      \<and> pl_content_inline (ab_payload a) = pl_content_inline (ab_payload b)
      \<and> env_program_id (ab_envelope a) = env_program_id (ab_envelope b)
      \<and> env_timestamp (ab_envelope a) = env_timestamp (ab_envelope b)
      \<and> ab_pre_anchor a = ab_pre_anchor b \<and> ab_aivp_t4 a = ab_aivp_t4 b
      \<and> ab_execution_record a = ab_execution_record b
      \<and> ab_runtime_timing a = ab_runtime_timing b
      \<and> named_seals a = named_seals b
      \<and> ab_run_id a = ab_run_id b \<and> ab_status a = ab_status b \<and> ab_generated_at a = ab_generated_at b
      \<and> section_sources g a = section_sources g b"

lemma content_determined:
  assumes "bundle_wf g a" "bundle_wf g b" "record_wf g a" "record_wf g b"
    and "stored_hashes a = recomputed_hashes g a" "stored_hashes b = recomputed_hashes g b"
    and "ComputeAnchoredRecordDigest g a = ComputeAnchoredRecordDigest g b"
  shows "same_content g a b
    \<or> collides g (record_preimages g a @ bundle_preimages g a) (record_preimages g b @ bundle_preimages g b)"
proof -
  from record_digest_binds [OF assms(3,4,7)] show ?thesis
  proof
    assume rec: "record_sources g a = record_sources g b"
    note rf = record_fields [OF rec]
    have "RecomputeBundleHash g a = RecomputeBundleHash g b"
      using rec by (simp add: record_sources_def RecomputeBundleHash_def)
    from bundle_hash_binds [OF assms(1,2,5,6) this] show ?thesis
    proof
      assume "ab_kind a = ab_kind b \<and> ab_schema_version a = ab_schema_version b
        \<and> ab_manifest_hash a = ab_manifest_hash b \<and> section_sources g a = section_sources g b"
      then have sec: "section_sources g a = section_sources g b" by simp
      note sf = section_fields [OF sec]
      show ?thesis unfolding same_content_def using sec sf(1,2,4,5,7,9,10) rf(3,5-12) by blast
    next
      assume "collides g (bundle_preimages g a) (bundle_preimages g b)"
      then show ?thesis by (intro disjI2, elim collides_mono) auto
    qed
  next
    assume "collides g (record_preimages g a) (record_preimages g b)"
    then show ?thesis by (intro disjI2, elim collides_mono) auto
  qed
qed

text \<open>C3. The complete-record digest determines the record: if two records whose section hashes
  recompute have the same anchored digest, they agree on the decision, the final state, the
  policy gates, the payload, the program, the run clock, the pre-anchor table, the
  governance section, the execution record, the timings, the seal references and the
  metadata, or the theorem exhibits two preimages of the records that collide.\<close>

theorem anchored_digest_determines_record:
  assumes "bundle_wf g a" "bundle_wf g b" "record_wf g a" "record_wf g b"
    and "stored_hashes a = recomputed_hashes g a" "stored_hashes b = recomputed_hashes g b"
    and "ComputeAnchoredRecordDigest g a = ComputeAnchoredRecordDigest g b"
  shows "same_content g a b
    \<or> collides g (record_preimages g a @ bundle_preimages g a) (record_preimages g b @ bundle_preimages g b)"
  using assms by (rule content_determined)

definition sample_bundle :: audit_bundle where
  "sample_bundle = fill_hashes toy_lib named_zero"

lemma valid_utf8_hash: "valid_utf8 (pre_hash g p)"
proof -
  have "list_all is_lower_hex (pre_hash g p)" unfolding pre_hash_def by (rule sha256_hex_chars)
  then show ?thesis
    by (intro valid_utf8_ascii) (auto simp: ascii_text_def list_all_iff is_lower_hex_def in_range_def Let_def)
qed

lemma wf_bundle_preimage:
  "wf_json (audit_bundle_preimage b) \<longleftrightarrow> valid_utf8 (ab_kind b) \<and> valid_utf8 (ab_schema_version b)
     \<and> valid_utf8 (ab_manifest_hash b) \<and> list_all valid_utf8 (stored_hashes b)"
  by (simp add: audit_bundle_preimage_def stored_hashes_def mk_obj_def js_def rune_size_def in_range_def)

lemma fill_bundle_wf:
  assumes "list_all pre_ok (section_sources g b)"
    and "valid_utf8 (ab_kind b)" "valid_utf8 (ab_schema_version b)" "valid_utf8 (ab_manifest_hash b)"
  shows "bundle_wf g (fill_hashes g b)"
proof -
  have "list_all valid_utf8 (recomputed_hashes g b)"
    by (simp add: recomputed_pre list_all_iff valid_utf8_hash)
  moreover have "ab_kind (fill_hashes g b) = ab_kind b" "ab_schema_version (fill_hashes g b) = ab_schema_version b"
    "ab_manifest_hash (fill_hashes g b) = ab_manifest_hash b"
    by (simp_all add: fill_hashes_def)
  ultimately show ?thesis using assms by (simp add: bundle_wf_def wf_bundle_preimage)
qed

lemma fill_record_sources: "tl (record_sources g (fill_hashes g b)) = tl (record_sources g b)"
  by (simp add: record_sources_def fill_hashes_def formal_verification_preimage_def hardware_evidence_preimage_def
      pote_ledger_preimage_def scaffold_notes_preimage_def seal_references_preimage_def named_seals_def
      section_residue_preimage_def record_metadata_preimage_def)

lemma named_records_ok: "list_all pre_ok (tl (record_sources toy_lib named_zero))"
  by code_simp

lemma sample_wf:
  "bundle_wf toy_lib sample_bundle" "record_wf toy_lib sample_bundle"
  "stored_hashes sample_bundle = recomputed_hashes toy_lib sample_bundle"
proof -
  show b: "bundle_wf toy_lib sample_bundle"
    unfolding sample_bundle_def
    by (rule fill_bundle_wf [OF named_sources_ok]) (simp_all add: named_zero_def zero_audit_bundle_def)
  have "record_sources toy_lib sample_bundle
      = Canon (audit_bundle_preimage sample_bundle) # tl (record_sources toy_lib named_zero)"
    using fill_record_sources [of toy_lib named_zero] by (simp add: record_sources_def sample_bundle_def)
  then show "record_wf toy_lib sample_bundle"
    using b named_records_ok by (simp add: record_wf_def bundle_wf_def)
  show "stored_hashes sample_bundle = recomputed_hashes toy_lib sample_bundle"
    by (simp add: sample_bundle_def)
qed

text \<open>The two records differ in a proof they carry, which no digest of the content covers.\<close>

lemma anchored_digest_determines_record_witness:
  defines "other \<equiv> sample_bundle\<lparr>ab_rekor_anchor := zero_rekor_anchor\<lparr>ra_backend := ''rekor''\<rparr>\<rparr>"
  shows "ab_pre_anchor sample_bundle = ab_pre_anchor other
    \<or> collides toy_lib (record_preimages toy_lib sample_bundle @ bundle_preimages toy_lib sample_bundle)
        (record_preimages toy_lib other @ bundle_preimages toy_lib other)"
proof -
  have same: "section_sources toy_lib other = section_sources toy_lib sample_bundle"
    "record_sources toy_lib other = record_sources toy_lib sample_bundle"
    "stored_hashes other = stored_hashes sample_bundle"
    "audit_bundle_preimage other = audit_bundle_preimage sample_bundle"
    by (simp_all add: other_def section_sources_def record_sources_def stored_hashes_def
        audit_bundle_preimage_def scaffold_notes_preimage_def seal_references_preimage_def named_seals_def
        section_residue_preimage_def record_metadata_preimage_def)
  show ?thesis
    using anchored_digest_determines_record [of toy_lib sample_bundle other] sample_wf
    by (auto simp: same bundle_wf_def record_wf_def recomputed_pre ComputeAnchoredRecordDigest_def
        anchored_pairs_pre same_content_def)
qed

end
