(* ===== verification/LeafBinding.thy ===== *)
theory LeafBinding
  imports RecordAnchor
begin

text \<open>
  leafbinding.go: whether the leaf anchored in the public log is the one this record's own
  values produce, in each of the six forms of the leaf. The fields of a leaf are joined with
  dots and nothing in the check refuses a dot in a field, so the results are about a sealed
  record whose fields hold none, as the comment in the code states of every genuine one: then
  no other record, of any form, has its leaf, short of a collision.
\<close>

section \<open>The check\<close>

definition leafDomainV1 :: string where "leafDomainV1 = ''verdifax.ledger.input.v1''"
definition leafDomainV2 :: string where "leafDomainV2 = ''verdifax.ledger.input.v2''"
definition leafDomainV3 :: string where "leafDomainV3 = ''verdifax.ledger.input.v3''"
definition leafDomainV5 :: string where "leafDomainV5 = ''verdifax.ledger.input.v5''"
definition leafDomainV6 :: string where "leafDomainV6 = ''verdifax.ledger.input.v6''"
definition leafDomainV7 :: string where "leafDomainV7 = ''verdifax.ledger.input.v7''"

datatype leaf_reason =
    InputsMissing "string list"
  | LeafOfAnotherRun bool   \<comment> \<open>whether the hint about a v3 leaf is added\<close>

record leaf_binding_check =
  lc_Performed :: bool
  lc_Match :: bool
  lc_Form :: string
  lc_Recorded :: string
  lc_Computed :: string
  lc_Reason :: "leaf_reason option"

definition joinLeafParts :: "string list \<Rightarrow> string" where
  "joinLeafParts parts = join (CHR ''.'') parts"

text \<open>The form of the leaf, chosen by what the record carries, and the preimage it is over.\<close>

definition leaf_preimage_parts :: "golib \<Rightarrow> audit_bundle \<Rightarrow> string list" where
  "leaf_preimage_parts g b =
     (let envelopeID = env_envelope_id (ab_envelope b);
          aerHash = sr_sealed_hash (aer_seal (ab_aer b));
          bindingHash = sr_sealed_hash (zk_seal (ab_zksp_binding b));
          nonce = int_str (ra_input_nonce (ab_rekor_anchor b))
      in if TableSealsAnchoringWindow (ab_pre_anchor b) then
           [leafDomainV7, envelopeID, aerHash, bindingHash, nonce,
            ComputePreAnchorDigestV3FromTable g (ab_pre_anchor b)]
         else if TableRequiresCompleteRecordAnchor (ab_pre_anchor b) then
           [leafDomainV6, envelopeID, aerHash, bindingHash, nonce,
            ComputePreAnchorDigestV2FromTable g (ab_pre_anchor b)]
         else if ab_pre_anchor b \<noteq> [] \<or> ab_pre_anchor_digest b \<noteq> [] then
           [leafDomainV5, envelopeID, aerHash, bindingHash, nonce,
            ComputePreAnchorDigestFromTable g (ab_pre_anchor b)]
         else if ab_nrep_section_hash b \<noteq> [] \<or> ab_scaffold_flags_hash b \<noteq> [] then
           [leafDomainV3, envelopeID, aerHash, bindingHash, nonce,
            NrepSection_SectionHash g (ab_nrep b),
            ComputeScaffoldFlagsHash g (sn_is_scaffold (ts_scaffold (ab_transcript b)))
              (sn_is_scaffold (hw_scaffold (ab_hardware_attestation b)))
              (sn_is_scaffold (zk_scaffold (ab_zksp_binding b)))
              (sn_is_scaffold (lb_scaffold (ab_leakage_bundle b)))]
         else if ra_input_nonce (ab_rekor_anchor b) \<noteq> 0 then
           [leafDomainV2, envelopeID, aerHash, bindingHash, nonce]
         else [leafDomainV1, envelopeID, aerHash, bindingHash])"

definition missing_inputs :: "audit_bundle \<Rightarrow> string list" where
  "missing_inputs b =
     (if env_envelope_id (ab_envelope b) = [] then [''envelope.envelope_id''] else []) @
     (if sr_sealed_hash (aer_seal (ab_aer b)) = [] then [''aer.seal.sealed_hash''] else []) @
     (if sr_sealed_hash (zk_seal (ab_zksp_binding b)) = [] then [''zksp_binding.seal.sealed_hash''] else []) @
     (if ra_leaf_hash (ab_rekor_anchor b) = [] then [''rekor_anchor.leaf_hash''] else [])"

definition verifyLeafBinding :: "golib \<Rightarrow> audit_bundle \<Rightarrow> leaf_binding_check" where
  "verifyLeafBinding g b =
     (if ra_backend (ab_rekor_anchor b) \<noteq> ''rekor'' then
        \<lparr>lc_Performed = False, lc_Match = False, lc_Form = [], lc_Recorded = [], lc_Computed = [], lc_Reason = None\<rparr>
      else if missing_inputs b \<noteq> [] then
        \<lparr>lc_Performed = True, lc_Match = False, lc_Form = [], lc_Recorded = ra_leaf_hash (ab_rekor_anchor b),
         lc_Computed = [], lc_Reason = Some (InputsMissing (missing_inputs b))\<rparr>
      else
        (let parts = leaf_preimage_parts g b;
             form = hd parts;
             computed = sha256_hex g (joinLeafParts parts);
             recorded = to_lower (ra_leaf_hash (ab_rekor_anchor b));
             matches = (computed = recorded)
         in \<lparr>lc_Performed = True, lc_Match = matches, lc_Form = form, lc_Recorded = recorded, lc_Computed = computed,
             lc_Reason = (if matches then None else Some (LeafOfAnotherRun (form = leafDomainV3)))\<rparr>))"

section \<open>The domains\<close>

lemmas leaf_domains = leafDomainV1_def leafDomainV2_def leafDomainV3_def leafDomainV5_def leafDomainV6_def leafDomainV7_def

abbreviation dot :: char where "dot \<equiv> CHR ''.''"

definition leaf_domain :: "string \<Rightarrow> bool" where
  "leaf_domain d \<longleftrightarrow> d \<in> {leafDomainV1, leafDomainV2, leafDomainV3, leafDomainV5, leafDomainV6, leafDomainV7}"

text \<open>A domain splits into four parts; the last one is the version.\<close>

lemma split_domain:
  "leaf_domain d \<Longrightarrow> \<exists>v. split_on dot d = [''verdifax'', ''ledger'', ''input'', v]
     \<and> d = ''verdifax.ledger.input.'' @ v"
  by (auto simp: leaf_domain_def leaf_domains)

lemma leaf_parts_shape:
  "leaf_preimage_parts g b = hd (leaf_preimage_parts g b) # tl (leaf_preimage_parts g b)
     \<and> leaf_domain (hd (leaf_preimage_parts g b)) \<and> tl (leaf_preimage_parts g b) \<noteq> []
     \<and> length (tl (leaf_preimage_parts g b)) =
         (let d = hd (leaf_preimage_parts g b)
          in if d = leafDomainV1 then 3 else if d = leafDomainV2 then 4 else if d = leafDomainV3 then 6 else 5)"
  by (auto simp: leaf_preimage_parts_def Let_def leaf_domain_def leaf_domains)

text \<open>A list of parts after a domain is recovered when one side's parts hold no dot.\<close>

lemma domain_join_inject:
  assumes d: "leaf_domain d" "leaf_domain e" and ne: "xs \<noteq> []" "ys \<noteq> []"
    and len: "d = e \<Longrightarrow> length xs = length ys"
    and free: "\<forall>x \<in> set xs. dot \<notin> set x"
    and eq: "joinLeafParts (d # xs) = joinLeafParts (e # ys)"
  shows "d = e \<and> xs = ys"
proof -
  obtain v w where v: "split_on dot d = [''verdifax'', ''ledger'', ''input'', v]" "d = ''verdifax.ledger.input.'' @ v"
    and w: "split_on dot e = [''verdifax'', ''ledger'', ''input'', w]" "e = ''verdifax.ledger.input.'' @ w"
    using split_domain [OF d(1)] split_domain [OF d(2)] by blast
  have "concat (map (split_on dot) (d # xs)) = concat (map (split_on dot) (e # ys))"
    using eq by (intro join_component) (simp_all add: joinLeafParts_def)
  then have "v = w" using v w by simp
  then have de: "d = e" using v w by simp
  have "join dot xs = join dot ys"
    using eq ne by (simp add: joinLeafParts_def join_Cons de)
  then have "xs = ys" using len [OF de] free by (intro join_inject [of dot]) auto
  with de show ?thesis by simp
qed

section \<open>One leaf, one run\<close>

definition dot_free_run :: "audit_bundle \<Rightarrow> bool" where
  "dot_free_run b \<longleftrightarrow> dot \<notin> set (env_envelope_id (ab_envelope b))
     \<and> dot \<notin> set (sr_sealed_hash (aer_seal (ab_aer b))) \<and> dot \<notin> set (sr_sealed_hash (zk_seal (ab_zksp_binding b)))"

lemma leaf_parts_free:
  assumes "dot_free_run b"
  shows "\<forall>x \<in> set (tl (leaf_preimage_parts g b)). dot \<notin> set x"
proof -
  have h: "dot \<notin> set (sha256_hex g p)" for p by (rule sha256_hex_free) (simp add: is_lower_hex_def)
  have n: "dot \<notin> set (int_str i)" for i by (rule int_str_free) simp_all
  have "dot \<notin> set (NrepSection_SectionHash g x)" for x
    by (simp add: NrepSection_SectionHash_def ComputeNrepSectionHash_def nullJoinHash_def h)
  then show ?thesis using assms n
    by (simp add: leaf_preimage_parts_def Let_def dot_free_run_def ComputePreAnchorDigestFromTable_def
        ComputePreAnchorDigestV2FromTable_def ComputePreAnchorDigestV3FromTable_def nullJoinHashParts_def
        ComputeScaffoldFlagsHash_def nullJoinHash_def h)
qed

definition leaf_preimage :: "golib \<Rightarrow> audit_bundle \<Rightarrow> string" where
  "leaf_preimage g b = joinLeafParts (leaf_preimage_parts g b)"

lemma leaf_preimage_inject:
  assumes "dot_free_run a" "leaf_preimage g a = leaf_preimage g b"
  shows "leaf_preimage_parts g a = leaf_preimage_parts g b"
proof -
  note a = leaf_parts_shape [of g a] and b = leaf_parts_shape [of g b]
  have "hd (leaf_preimage_parts g a) = hd (leaf_preimage_parts g b)
      \<and> tl (leaf_preimage_parts g a) = tl (leaf_preimage_parts g b)"
    by (rule domain_join_inject)
      (use a b assms(2) leaf_parts_free [OF assms(1)] in \<open>auto simp: leaf_preimage_def Let_def\<close>)
  with a b show ?thesis by metis
qed

lemma leaf_match:
  assumes "lc_Match (verifyLeafBinding g b)"
  shows "sha256_hex g (leaf_preimage g b) = to_lower (ra_leaf_hash (ab_rekor_anchor b))"
    and "ra_backend (ab_rekor_anchor b) = ''rekor''"
  using assms by (auto simp: verifyLeafBinding_def leaf_preimage_def Let_def split: if_splits)

lemma leaf_form: "lc_Match (verifyLeafBinding g b) \<Longrightarrow> lc_Form (verifyLeafBinding g b) = hd (leaf_preimage_parts g b)"
  by (auto simp: verifyLeafBinding_def Let_def split: if_splits)

lemma leaf_parts_fields:
  assumes "leaf_preimage_parts g a = leaf_preimage_parts g b"
  shows "env_envelope_id (ab_envelope a) = env_envelope_id (ab_envelope b)"
    and "sr_sealed_hash (aer_seal (ab_aer a)) = sr_sealed_hash (aer_seal (ab_aer b))"
    and "sr_sealed_hash (zk_seal (ab_zksp_binding a)) = sr_sealed_hash (zk_seal (ab_zksp_binding b))"
    and "hd (leaf_preimage_parts g a) \<noteq> leafDomainV1 \<Longrightarrow>
      ra_input_nonce (ab_rekor_anchor a) = ra_input_nonce (ab_rekor_anchor b)"
    and "hd (leaf_preimage_parts g a) \<in> {leafDomainV5, leafDomainV6, leafDomainV7} \<Longrightarrow>
      ComputePreAnchorDigestForTable g (ab_pre_anchor a) = ComputePreAnchorDigestForTable g (ab_pre_anchor b)"
    and "hd (leaf_preimage_parts g a) = leafDomainV3 \<Longrightarrow>
      NrepSection_SectionHash g (ab_nrep a) = NrepSection_SectionHash g (ab_nrep b)"
  using assms
  by (auto simp: leaf_preimage_parts_def Let_def leaf_domains ComputePreAnchorDigestForTable_def split: if_splits)

lemma same_leaf_parts:
  assumes "lc_Match (verifyLeafBinding g a)" "lc_Match (verifyLeafBinding g b)"
    and "to_lower (ra_leaf_hash (ab_rekor_anchor a)) = to_lower (ra_leaf_hash (ab_rekor_anchor b))"
    and "dot_free_run a"
  shows "leaf_preimage_parts g a = leaf_preimage_parts g b \<or> collides g [leaf_preimage g a] [leaf_preimage g b]"
proof (cases "leaf_preimage g a = leaf_preimage g b")
  case True
  then show ?thesis by (intro disjI1 leaf_preimage_inject [OF assms(4)])
next
  case False
  have "sha256_hex g (leaf_preimage g a) = sha256_hex g (leaf_preimage g b)"
    using leaf_match(1) [OF assms(1)] leaf_match(1) [OF assms(2)] assms(3) by simp
  with False show ?thesis by (auto intro: collidesI)
qed

text \<open>C10. One public-log leaf belongs to one run: if two records pass the leaf check with the same
  anchored leaf hash, and the fields of one that are joined into the leaf hold no dot, which the
  leaf check itself does not ask for, then the leaf has the same form in both, and they have the same envelope id, aer hash and binding hash, the same nonce in every
  form after the first, and the same digests of the pre-anchor table, or of the actor section and scaffold
  flags, in the forms that carry them; or the two leaf preimages collide.\<close>

theorem leaf_names_one_run:
  assumes "lc_Match (verifyLeafBinding g a)" "lc_Match (verifyLeafBinding g b)"
    and "to_lower (ra_leaf_hash (ab_rekor_anchor a)) = to_lower (ra_leaf_hash (ab_rekor_anchor b))"
    and "dot_free_run a"
  shows "lc_Form (verifyLeafBinding g a) = lc_Form (verifyLeafBinding g b)
      \<and> env_envelope_id (ab_envelope a) = env_envelope_id (ab_envelope b)
      \<and> sr_sealed_hash (aer_seal (ab_aer a)) = sr_sealed_hash (aer_seal (ab_aer b))
      \<and> sr_sealed_hash (zk_seal (ab_zksp_binding a)) = sr_sealed_hash (zk_seal (ab_zksp_binding b))
      \<and> leaf_preimage_parts g a = leaf_preimage_parts g b
      \<and> (lc_Form (verifyLeafBinding g a) \<noteq> leafDomainV1 \<longrightarrow>
           ra_input_nonce (ab_rekor_anchor a) = ra_input_nonce (ab_rekor_anchor b))
      \<and> (lc_Form (verifyLeafBinding g a) \<in> {leafDomainV5, leafDomainV6, leafDomainV7} \<longrightarrow>
           ComputePreAnchorDigestForTable g (ab_pre_anchor a) = ComputePreAnchorDigestForTable g (ab_pre_anchor b))
      \<and> (lc_Form (verifyLeafBinding g a) = leafDomainV3 \<longrightarrow>
           NrepSection_SectionHash g (ab_nrep a) = NrepSection_SectionHash g (ab_nrep b))
    \<or> collides g [leaf_preimage g a] [leaf_preimage g b]"
proof -
  from same_leaf_parts [OF assms] show ?thesis
  proof
    assume "leaf_preimage_parts g a = leaf_preimage_parts g b"
    with leaf_parts_fields [OF this] leaf_form [OF assms(1)] leaf_form [OF assms(2)] show ?thesis by simp
  qed (rule disjI2)
qed

definition anchored_sample :: "string \<Rightarrow> audit_bundle" where
  "anchored_sample status = zero_audit_bundle\<lparr>
     ab_status := status,
     ab_envelope := zero_envelope\<lparr>env_envelope_id := ''env-1''\<rparr>,
     ab_aer := zero_aer\<lparr>aer_seal := zero_seal_reference\<lparr>sr_sealed_hash := ''aa''\<rparr>\<rparr>,
     ab_zksp_binding := zero_zksp_binding\<lparr>zk_seal := zero_seal_reference\<lparr>sr_sealed_hash := ''bb''\<rparr>\<rparr>,
     ab_rekor_anchor := zero_rekor_anchor\<lparr>ra_backend := ''rekor'', ra_input_nonce := 5,
       ra_leaf_hash := sha256_hex toy_lib (join dot [leafDomainV2, ''env-1'', ''aa'', ''bb'', ''5''])\<rparr>\<rparr>"

lemma anchored_sample_parts:
  "leaf_preimage_parts toy_lib (anchored_sample s) = [leafDomainV2, ''env-1'', ''aa'', ''bb'', ''5'']"
proof -
  have "int_str 5 = ''5''" by code_simp
  then show ?thesis
    by (simp add: leaf_preimage_parts_def anchored_sample_def zero_defs TableSealsAnchoringWindow_def
        TableRequiresCompleteRecordAnchor_def)
qed

lemma anchored_sample_match: "lc_Match (verifyLeafBinding toy_lib (anchored_sample s))"
proof -
  have b: "ra_backend (ab_rekor_anchor (anchored_sample s)) = ''rekor''"
    and l: "ra_leaf_hash (ab_rekor_anchor (anchored_sample s))
      = sha256_hex toy_lib (join dot [leafDomainV2, ''env-1'', ''aa'', ''bb'', ''5''])"
    and n: "ra_leaf_hash (ab_rekor_anchor (anchored_sample s)) \<noteq> []"
    by (simp_all add: anchored_sample_def sha256_hex_def toy_lib_def toy_digest_def leaf_domains)
  have m: "missing_inputs (anchored_sample s) = []"
    using n by (simp add: missing_inputs_def) (simp add: anchored_sample_def)
  show ?thesis
    by (simp add: verifyLeafBinding_def b m Let_def anchored_sample_parts l joinLeafParts_def)
qed

text \<open>Two records of one run that differ in a field outside the leaf.\<close>

lemma leaf_names_one_run_witness:
  "env_envelope_id (ab_envelope (anchored_sample ''completed'')) = env_envelope_id (ab_envelope (anchored_sample ''other''))
    \<or> collides toy_lib [leaf_preimage toy_lib (anchored_sample ''completed'')]
        [leaf_preimage toy_lib (anchored_sample ''other'')]"
proof -
  have "dot_free_run (anchored_sample ''completed'')" by (simp add: dot_free_run_def anchored_sample_def)
  moreover have "ra_leaf_hash (ab_rekor_anchor (anchored_sample ''completed''))
      = ra_leaf_hash (ab_rekor_anchor (anchored_sample ''other''))"
    by (simp add: anchored_sample_def)
  ultimately show ?thesis
    using leaf_names_one_run [OF anchored_sample_match anchored_sample_match, of "''completed''" "''other''"] by auto
qed

text \<open>The dot matters: the leaf check accepts any text as the hashes it joins, so two records whose
  aer and binding hashes hold the same text, cut at another dot, pass it with one leaf.\<close>

definition dotted_sample :: "string \<Rightarrow> string \<Rightarrow> audit_bundle" where
  "dotted_sample aer binding = zero_audit_bundle\<lparr>
     ab_envelope := zero_envelope\<lparr>env_envelope_id := ''env-1''\<rparr>,
     ab_aer := zero_aer\<lparr>aer_seal := zero_seal_reference\<lparr>sr_sealed_hash := aer\<rparr>\<rparr>,
     ab_zksp_binding := zero_zksp_binding\<lparr>zk_seal := zero_seal_reference\<lparr>sr_sealed_hash := binding\<rparr>\<rparr>,
     ab_rekor_anchor := zero_rekor_anchor\<lparr>ra_backend := ''rekor'', ra_input_nonce := 5,
       ra_leaf_hash := sha256_hex toy_lib (join dot [leafDomainV2, ''env-1'', ''aa.bb'', ''cc'', ''5''])\<rparr>\<rparr>"

lemma dotted_sample_parts:
  "leaf_preimage_parts g (dotted_sample a c) = [leafDomainV2, ''env-1'', a, c, ''5'']"
proof -
  have "int_str 5 = ''5''" by code_simp
  then show ?thesis
    by (simp add: leaf_preimage_parts_def dotted_sample_def zero_defs TableSealsAnchoringWindow_def
        TableRequiresCompleteRecordAnchor_def)
qed

lemma dotted_runs_share_leaf:
  "lc_Match (verifyLeafBinding toy_lib (dotted_sample ''aa.bb'' ''cc''))"
  "lc_Match (verifyLeafBinding toy_lib (dotted_sample ''aa'' ''bb.cc''))"
  "leaf_preimage g (dotted_sample ''aa.bb'' ''cc'') = leaf_preimage g (dotted_sample ''aa'' ''bb.cc'')"
proof -
  have same: "join dot [leafDomainV2, ''env-1'', ''aa'', ''bb.cc'', ''5''] = join dot [leafDomainV2, ''env-1'', ''aa.bb'', ''cc'', ''5'']"
    by simp
  have m: "lc_Match (verifyLeafBinding toy_lib (dotted_sample a c))"
    if "a \<noteq> []" "c \<noteq> []" "join dot [leafDomainV2, ''env-1'', a, c, ''5''] = join dot [leafDomainV2, ''env-1'', ''aa.bb'', ''cc'', ''5'']" for a c
  proof -
    have b: "ra_backend (ab_rekor_anchor (dotted_sample a c)) = ''rekor''"
      and l: "ra_leaf_hash (ab_rekor_anchor (dotted_sample a c))
        = sha256_hex toy_lib (join dot [leafDomainV2, ''env-1'', ''aa.bb'', ''cc'', ''5''])"
      and n: "ra_leaf_hash (ab_rekor_anchor (dotted_sample a c)) \<noteq> []"
      by (simp_all add: dotted_sample_def sha256_hex_def toy_lib_def toy_digest_def leaf_domains)
    have "missing_inputs (dotted_sample a c) = []"
      using n that(1,2) by (simp add: missing_inputs_def) (simp add: dotted_sample_def)
    then show ?thesis
      using that(3) by (simp only: verifyLeafBinding_def b Let_def dotted_sample_parts l joinLeafParts_def) simp
  qed
  show "lc_Match (verifyLeafBinding toy_lib (dotted_sample ''aa.bb'' ''cc''))"
    "lc_Match (verifyLeafBinding toy_lib (dotted_sample ''aa'' ''bb.cc''))"
    by (rule m; simp)+
  show "leaf_preimage g (dotted_sample ''aa.bb'' ''cc'') = leaf_preimage g (dotted_sample ''aa'' ''bb.cc'')"
    using same by (simp only: leaf_preimage_def joinLeafParts_def dotted_sample_parts)
qed

section \<open>Run leaves and record leaves\<close>

text \<open>C12. A run's leaf is never a record's leaf: no leaf preimage of a run, whatever its fields,
  is the preimage of a bundle leaf, so the second public-log entry of a record cannot be a copy
  of a first entry without a collision.\<close>

theorem run_and_record_leaves_differ:
  "joinLeafParts (leaf_preimage_parts g b) \<noteq> BundleLeafPreimage envelopeID digest"
proof
  assume eq: "joinLeafParts (leaf_preimage_parts g b) = BundleLeafPreimage envelopeID digest"
  note b = leaf_parts_shape [of g b]
  obtain v where v: "split_on dot (hd (leaf_preimage_parts g b)) = [''verdifax'', ''ledger'', ''input'', v]"
    using split_domain b by blast
  have "concat (map (split_on dot) (leaf_preimage_parts g b))
      = concat (map (split_on dot) [BundleLeafDomain, envelopeID, digest])"
    using eq b by (intro join_component) (auto simp: joinLeafParts_def BundleLeafPreimage_def)
  moreover have "split_on dot BundleLeafDomain = [''verdifax'', ''ledger'', ''bundle'', ''v1'']"
    by (simp add: BundleLeafDomain_def)
  moreover have "concat (map (split_on dot) (leaf_preimage_parts g b))
      = [''verdifax'', ''ledger'', ''input'', v] @ concat (map (split_on dot) (tl (leaf_preimage_parts g b)))"
    using b v by (metis concat.simps(2) list.simps(9))
  ultimately show False by simp
qed

end
