(* ===== verification/Merkle.thy ===== *)
theory Merkle
  imports Golib
begin

text \<open>
  The inclusion-proof walk of internal/rekorverify/verify.go, against the Merkle tree of
  RFC 6962. The walk follows the indices of the tree level by level; the specification
  splits the leaves at the largest power of two. The results: the path of a leaf walks to
  the tree's root, and any path that walks from a value to that root starts from the leaf at
  that index, or two node preimages collide.
\<close>

section \<open>The walk\<close>

definition hashChildren :: "golib \<Rightarrow> bytes \<Rightarrow> bytes \<Rightarrow> bytes" where
  "hashChildren g l r = gl_sha256 g (CHR 0x01 # l @ r)"

datatype walk_error = IndexOutOfRange | TreeSizeZero | PathTooShort | PathTooLong

text \<open>The inner loop: both indices are halved until the first is odd or zero.\<close>

function strip_even :: "nat \<Rightarrow> nat \<Rightarrow> nat \<times> nat" where
  "strip_even fn sn = (if even fn \<and> fn \<noteq> 0 then strip_even (fn div 2) (sn div 2) else (fn, sn))"
  by pat_completeness auto
termination by (relation "measure fst") auto

declare strip_even.simps [simp del]

text \<open>The loop takes one sibling per round while the last index of the level is positive.\<close>

fun walk :: "golib \<Rightarrow> nat \<Rightarrow> nat \<Rightarrow> bytes \<Rightarrow> bytes list \<Rightarrow> walk_error + bytes" where
  "walk g fn sn hash [] = (if 0 < sn then Inl PathTooShort else Inr hash)"
| "walk g fn sn hash (sibling # rest) =
     (if 0 < sn then
        (if odd fn \<or> fn = sn then
           (let (fn', sn') = strip_even fn sn
            in walk g (fn' div 2) (sn' div 2) (hashChildren g sibling hash) rest)
         else walk g (fn div 2) (sn div 2) (hashChildren g hash sibling) rest)
      else Inl PathTooLong)"

text \<open>
  At an odd index the inner loop leaves the indices as they are, so one definition of the
  right-child case covers both of its conditions.
\<close>

definition recomputeRootRFC6962 :: "golib \<Rightarrow> bytes \<Rightarrow> int \<Rightarrow> int \<Rightarrow> bytes list \<Rightarrow> walk_error + bytes" where
  "recomputeRootRFC6962 g leafHash logIndex treeSize siblings =
     (if logIndex < 0 \<or> treeSize \<le> logIndex then Inl IndexOutOfRange
      else if treeSize = 0 then Inl TreeSizeZero
      else walk g (nat logIndex) (nat (treeSize - 1)) leafHash siblings)"

section \<open>The tree\<close>

text \<open>MTH of RFC 6962 over leaf hashes: the split is at the largest power of two below the size.\<close>

function split_point :: "nat \<Rightarrow> nat \<Rightarrow> nat" where
  "split_point k n = (if 0 < k \<and> 2 * k < n then split_point (2 * k) n else k)"
  by pat_completeness auto
termination by (relation "measure (\<lambda>(k, n). n - k)") auto

declare split_point.simps [simp del]

lemma split_point_bound: "0 < k \<Longrightarrow> k < n \<Longrightarrow> 0 < split_point k n \<and> split_point k n < n"
  by (induction k n rule: split_point.induct) (subst (1 2) split_point.simps, auto)

function MTH :: "golib \<Rightarrow> bytes list \<Rightarrow> bytes" where
  "MTH g xs =
     (if xs = [] then gl_sha256 g []
      else if length xs = 1 then hd xs
      else let k = split_point 1 (length xs)
        in hashChildren g (MTH g (take k xs)) (MTH g (drop k xs)))"
  by pat_completeness auto
termination
proof (relation "measure (\<lambda>(g, xs). length xs)")
  fix g :: golib and xs :: "bytes list" and k
  assume "xs \<noteq> []" "length xs \<noteq> 1" "k = split_point 1 (length xs)"
  then have "0 < k \<and> k < length xs" using split_point_bound [of 1 "length xs"] by (cases xs) auto
  then show "((g, take k xs), g, xs) \<in> measure (\<lambda>(g, xs). length xs)"
    "((g, drop k xs), g, xs) \<in> measure (\<lambda>(g, xs). length xs)" by auto
qed simp

declare MTH.simps [simp del]

text \<open>One level up: adjacent nodes are paired and an odd last node is promoted.\<close>

fun next_level :: "golib \<Rightarrow> bytes list \<Rightarrow> bytes list" where
  "next_level g (x # y # r) = hashChildren g x y # next_level g r"
| "next_level g xs = xs"

lemma length_next_level [simp]: "length (next_level g xs) = (length xs + 1) div 2"
  by (induction g xs rule: next_level.induct) simp_all

lemma next_level_nth:
  "i < length (next_level g xs) \<Longrightarrow> next_level g xs ! i =
     (if 2 * i + 1 < length xs then hashChildren g (xs ! (2 * i)) (xs ! (2 * i + 1)) else xs ! (2 * i))"
proof (induction g xs arbitrary: i rule: next_level.induct)
  case (1 g x y r)
  then show ?case by (cases i) simp_all
qed simp_all

function tree_root :: "golib \<Rightarrow> bytes list \<Rightarrow> bytes" where
  "tree_root g xs = (if length xs \<le> 1 then hd xs else tree_root g (next_level g xs))"
  by pat_completeness auto
termination by (relation "measure (\<lambda>(g, xs). length xs)") auto

declare tree_root.simps [simp del]

function tree_path :: "golib \<Rightarrow> nat \<Rightarrow> bytes list \<Rightarrow> bytes list" where
  "tree_path g m xs =
     (if length xs \<le> 1 then []
      else if odd m then xs ! (m - 1) # tree_path g (m div 2) (next_level g xs)
      else if m + 1 < length xs then xs ! (m + 1) # tree_path g (m div 2) (next_level g xs)
      else tree_path g (m div 2) (next_level g xs))"
  by pat_completeness auto
termination by (relation "measure (\<lambda>(g, m, xs). length xs)") auto

declare tree_path.simps [simp del]

section \<open>A leaf's path walks to the root\<close>

lemma walk_promote:
  assumes "0 < sn" "even sn"
  shows "walk g sn sn h p = walk g (sn div 2) (sn div 2) h p"
proof (cases p)
  case (Cons s r)
  have s: "strip_even sn sn = strip_even (sn div 2) (sn div 2)"
    using assms by (simp add: strip_even.simps [of sn])
  show ?thesis using assms by (auto simp: Cons s)
qed (use assms in auto)

lemma strip_odd: "odd fn \<Longrightarrow> strip_even fn sn = (fn, sn)"
  by (simp add: strip_even.simps)

lemma walk_path:
  "m < length xs \<Longrightarrow> walk g m (length xs - 1) (xs ! m) (tree_path g m xs) = Inr (tree_root g xs)"
proof (induction g m xs rule: tree_path.induct)
  case (1 g m xs)
  show ?case
  proof (cases "length xs \<le> 1")
    case True
    with "1.prems" show ?thesis by (cases xs) (auto simp: tree_path.simps tree_root.simps)
  next
    case False
    let ?up = "next_level g xs"
    have up: "m div 2 < length ?up" "length ?up - Suc 0 = (length xs - Suc 0) div 2"
      using "1.prems" False by auto
    have root: "tree_root g xs = tree_root g ?up" using False by (simp add: tree_root.simps [of g xs])
    show ?thesis
    proof (cases "odd m")
      case True
      then have h: "?up ! (m div 2) = hashChildren g (xs ! (m - 1)) (xs ! m)"
        using next_level_nth [OF up(1)] "1.prems" by (auto elim!: oddE)
      have "walk g (m div 2) (length ?up - 1) (?up ! (m div 2)) (tree_path g (m div 2) ?up) = Inr (tree_root g ?up)"
        by (rule "1.IH"(1)) (use False True up in auto)
      with True False h root show ?thesis
        by (subst tree_path.simps) (simp add: strip_odd up(2) del: length_next_level)
    next
      case even: False
      show ?thesis
      proof (cases "m + 1 < length xs")
        case True
        then have h: "?up ! (m div 2) = hashChildren g (xs ! m) (xs ! (m + 1))"
          using next_level_nth [OF up(1)] even by auto
        have "walk g (m div 2) (length ?up - 1) (?up ! (m div 2)) (tree_path g (m div 2) ?up) = Inr (tree_root g ?up)"
          by (rule "1.IH"(2)) (use False even True up in auto)
        moreover have "m \<noteq> length xs - 1" using True by simp
        ultimately show ?thesis using True False even h root
          by (subst tree_path.simps) (simp add: up(2) del: length_next_level)
      next
        case last: False
        with "1.prems" have m: "m = length xs - 1" by simp
        have h: "?up ! (m div 2) = xs ! m"
          using next_level_nth [OF up(1)] even last by auto
        have "walk g (m div 2) (length ?up - 1) (?up ! (m div 2)) (tree_path g (m div 2) ?up) = Inr (tree_root g ?up)"
          by (rule "1.IH"(3)) (use False even last up in auto)
        then have "walk g m m (xs ! m) (tree_path g (m div 2) ?up) = Inr (tree_root g ?up)"
          using walk_promote [of m] m even False h up(2) by (simp del: length_next_level)
        with False even last m root show ?thesis by (subst tree_path.simps) simp
      qed
    qed
  qed
qed

section \<open>Any path to the root starts at the leaf\<close>

text \<open>The preimages of the nodes a walk computes.\<close>

fun walk_nodes :: "golib \<Rightarrow> nat \<Rightarrow> nat \<Rightarrow> bytes \<Rightarrow> bytes list \<Rightarrow> bytes list" where
  "walk_nodes g fn sn hash [] = []"
| "walk_nodes g fn sn hash (sibling # rest) =
     (if odd fn \<or> fn = sn then
        (let (fn', sn') = strip_even fn sn
         in (CHR 0x01 # sibling @ hash) # walk_nodes g (fn' div 2) (sn' div 2) (hashChildren g sibling hash) rest)
      else (CHR 0x01 # hash @ sibling) # walk_nodes g (fn div 2) (sn div 2) (hashChildren g hash sibling) rest)"

lemma node_inject:
  assumes "length h = 32" "length h' = 32" "length s = 32" "length s' = 32"
    and "hashChildren g s h = hashChildren g s' h'"
  shows "(s = s' \<and> h = h') \<or> collides g [CHR 0x01 # s @ h] [CHR 0x01 # s' @ h']"
  using assms by (auto simp: hashChildren_def collides_def)

lemma walk_binds:
  assumes "digest32 g" "length h = 32" "length h' = 32" "list_all (\<lambda>s. length s = 32) p" "list_all (\<lambda>s. length s = 32) q"
    and "walk g fn sn h p = Inr r" "walk g fn sn h' q = Inr r"
  shows "(h = h' \<and> p = q) \<or> collides g (walk_nodes g fn sn h p) (walk_nodes g fn sn h' q)"
  using assms
proof (induction p arbitrary: fn sn h h' q)
  case Nil
  then show ?case by (cases q) (auto split: if_splits prod.splits)
next
  case (Cons s p)
  have sn: "0 < sn" using Cons.prems(6) by (auto split: if_splits)
  with Cons.prems(7) obtain t u where q: "q = t # u" by (cases q) auto
  have d32: "length (hashChildren g a b) = 32" for a b
    using Cons.prems(1) by (simp add: digest32_def hashChildren_def)
  show ?case
  proof (cases "odd fn \<or> fn = sn")
    case True
    obtain fn' sn' where st: "strip_even fn sn = (fn', sn')" by fastforce
    have "(hashChildren g s h = hashChildren g t h' \<and> p = u)
        \<or> collides g (walk_nodes g (fn' div 2) (sn' div 2) (hashChildren g s h) p)
                     (walk_nodes g (fn' div 2) (sn' div 2) (hashChildren g t h') u)"
      by (rule Cons.IH) (use Cons.prems sn q True st d32 in auto)
    moreover have "hashChildren g s h = hashChildren g t h' \<Longrightarrow>
        (s = t \<and> h = h') \<or> collides g [CHR 0x01 # s @ h] [CHR 0x01 # t @ h']"
      by (rule node_inject) (use Cons.prems q in auto)
    ultimately show ?thesis using True st q collides_Cons by auto
  next
    case False
    have "(hashChildren g h s = hashChildren g h' t \<and> p = u)
        \<or> collides g (walk_nodes g (fn div 2) (sn div 2) (hashChildren g h s) p)
                     (walk_nodes g (fn div 2) (sn div 2) (hashChildren g h' t) u)"
      by (rule Cons.IH) (use Cons.prems sn q False d32 in auto)
    moreover have "hashChildren g h s = hashChildren g h' t \<Longrightarrow>
        (h = h' \<and> s = t) \<or> collides g [CHR 0x01 # h @ s] [CHR 0x01 # h' @ t]"
      by (rule node_inject) (use Cons.prems q in auto)
    ultimately show ?thesis using False q collides_Cons by auto
  qed
qed

section \<open>The level tree is RFC 6962's\<close>

lemma next_level_append: "even (length xs) \<Longrightarrow> next_level g (xs @ ys) = next_level g xs @ next_level g ys"
  by (induction g xs rule: next_level.induct) simp_all

text \<open>At the largest power of two below the size, the tree splits in two.\<close>

lemma tree_root_next: "tree_root g xs = tree_root g (next_level g xs)"
proof (cases "length xs \<le> 1")
  case True
  then show ?thesis by (cases "(g, xs)" rule: next_level.cases) auto
next
  case False
  then show ?thesis by (subst tree_root.simps) simp
qed

lemma tree_root_split:
  "2 ^ j < length xs \<Longrightarrow> length xs \<le> 2 * 2 ^ j \<Longrightarrow>
     tree_root g xs = hashChildren g (tree_root g (take (2 ^ j) xs)) (tree_root g (drop (2 ^ j) xs))"
proof (induction j arbitrary: xs)
  case 0
  then obtain a b where "xs = [a, b]"
    by (cases "(g, xs)" rule: next_level.cases) (auto simp: le_Suc_eq)
  then show ?case by (simp add: tree_root.simps)
next
  case (Suc j)
  let ?k = "2 ^ Suc j" and ?up = "next_level g xs"
  let ?l = "take ?k xs" and ?r = "drop ?k xs"
  have up: "?up = next_level g ?l @ next_level g ?r"
    using next_level_append [of ?l g ?r] Suc.prems by simp
  have len: "length (next_level g ?l) = 2 ^ j" using Suc.prems by simp
  have low: "take (2 ^ j) ?up = next_level g ?l" and high: "drop (2 ^ j) ?up = next_level g ?r"
    using up len by simp_all
  have "tree_root g xs = tree_root g ?up" by (rule tree_root_next)
  also have "\<dots> = hashChildren g (tree_root g (take (2 ^ j) ?up)) (tree_root g (drop (2 ^ j) ?up))"
    by (rule Suc.IH) (use Suc.prems in auto)
  finally show ?case by (simp only: low high tree_root_next [of g ?l] tree_root_next [of g ?r])
qed

lemma split_point_power:
  "2 ^ i < n \<Longrightarrow> \<exists>j. split_point (2 ^ i) n = 2 ^ j \<and> 2 ^ j < n \<and> n \<le> 2 * 2 ^ j"
proof (induction "n - 2 ^ i" arbitrary: i rule: less_induct)
  case less
  show ?case
  proof (cases "2 * 2 ^ i < n")
    case True
    have "\<exists>j. split_point (2 ^ Suc i) n = 2 ^ j \<and> 2 ^ j < n \<and> n \<le> 2 * 2 ^ j"
    proof (rule less.hyps)
      have "(2 :: nat) ^ i < 2 ^ Suc i" by simp
      with True show "n - 2 ^ Suc i < n - 2 ^ i" by (simp only: power_Suc)
    next
      from True show "2 ^ Suc i < n" by simp
    qed
    with True show ?thesis by (subst split_point.simps) simp
  next
    case False
    with less.prems show ?thesis by (subst split_point.simps) (auto intro: exI [of _ i])
  qed
qed

lemma tree_root_MTH: "xs \<noteq> [] \<Longrightarrow> tree_root g xs = MTH g xs"
proof (induction g xs rule: MTH.induct)
  case (1 g xs)
  show ?case
  proof (cases "length xs = 1")
    case True
    then show ?thesis using "1.prems" by (simp add: MTH.simps tree_root.simps)
  next
    case False
    with "1.prems" have "2 ^ 0 < length xs" by (cases xs) auto
    then obtain j where j: "split_point 1 (length xs) = 2 ^ j" "2 ^ j < length xs" "length xs \<le> 2 * 2 ^ j"
      using split_point_power [of 0 "length xs"] by auto
    have "tree_root g (take (2 ^ j) xs) = MTH g (take (2 ^ j) xs)"
      by (rule "1.IH"(1)) (use "1.prems" False j in auto)
    moreover have "tree_root g (drop (2 ^ j) xs) = MTH g (drop (2 ^ j) xs)"
      by (rule "1.IH"(2)) (use "1.prems" False j in auto)
    ultimately show ?thesis
      using tree_root_split [OF j(2,3)] "1.prems" False j(1) by (subst MTH.simps) (simp add: Let_def)
  qed
qed

section \<open>Soundness and completeness\<close>

lemma recompute_walk:
  "0 \<le> i \<Longrightarrow> i < int n \<Longrightarrow> recomputeRootRFC6962 g h i (int n) p = walk g (nat i) (n - 1) h p"
  by (auto simp: recomputeRootRFC6962_def nat_diff_distrib)

lemma inclusion_complete_aux:
  assumes "i < length leaves"
  shows "recomputeRootRFC6962 g (leaves ! i) (int i) (int (length leaves)) (tree_path g i leaves)
    = Inr (MTH g leaves)"
proof -
  have "leaves \<noteq> []" using assms by auto
  with assms show ?thesis by (simp add: recompute_walk walk_path tree_root_MTH flip: One_nat_def)
qed

lemma next_level_width:
  "digest32 g \<Longrightarrow> list_all (\<lambda>x. length x = 32) xs \<Longrightarrow> list_all (\<lambda>x. length x = 32) (next_level g xs)"
  by (induction g xs rule: next_level.induct) (auto simp: digest32_def hashChildren_def)

lemma tree_path_width:
  "digest32 g \<Longrightarrow> list_all (\<lambda>x. length x = 32) xs \<Longrightarrow> m < length xs \<Longrightarrow>
     list_all (\<lambda>x. length x = 32) (tree_path g m xs)"
proof (induction g m xs rule: tree_path.induct)
  case (1 g m xs)
  have up: "m div 2 < length (next_level g xs)" using "1.prems"(3) by auto
  have el: "i < length xs \<Longrightarrow> length (xs ! i) = 32" for i using "1.prems"(2) by (simp add: list_all_length)
  show ?case using "1.prems" next_level_width [of g xs] up "1.IH" el
    by (subst tree_path.simps) (auto simp del: length_next_level)
qed

text \<open>C5. A genuine inclusion proof is accepted: for every tree and every index, the audit path
  of the leaf at that index recomputes to the RFC 6962 root of the tree.\<close>

theorem inclusion_complete:
  assumes "i < length leaves"
  shows "recomputeRootRFC6962 g (leaves ! i) (int i) (int (length leaves)) (tree_path g i leaves)
    = Inr (MTH g leaves)"
  by (rule inclusion_complete_aux [OF assms])

lemma inclusion_complete_witness:
  "recomputeRootRFC6962 toy_lib ([''a'', ''b'', ''c''] ! 2) (int 2) (int 3) (tree_path toy_lib 2 [''a'', ''b'', ''c''])
    = Inr (MTH toy_lib [''a'', ''b'', ''c''])"
  using inclusion_complete [of 2 "[''a'', ''b'', ''c'']" toy_lib] by simp

lemma inclusion_sound_aux:
  assumes "digest32 g" "leaves \<noteq> []" "list_all (\<lambda>x. length x = 32) leaves"
    and "length h = 32" "list_all (\<lambda>x. length x = 32) path"
    and acc: "recomputeRootRFC6962 g h index (int (length leaves)) path = Inr (MTH g leaves)"
  shows "0 \<le> index \<and> index < int (length leaves)
    \<and> (h = leaves ! nat index \<and> path = tree_path g (nat index) leaves
      \<or> collides g (walk_nodes g (nat index) (length leaves - 1) h path)
          (walk_nodes g (nat index) (length leaves - 1) (leaves ! nat index) (tree_path g (nat index) leaves)))"
proof -
  have range: "0 \<le> index" "index < int (length leaves)"
    using acc by (auto simp: recomputeRootRFC6962_def split: if_splits)
  let ?i = "nat index"
  have i: "?i < length leaves" using range by simp
  have "walk g ?i (length leaves - 1) h path = Inr (MTH g leaves)"
    using acc range by (simp add: recompute_walk)
  moreover have "walk g ?i (length leaves - 1) (leaves ! ?i) (tree_path g ?i leaves) = Inr (MTH g leaves)"
    using walk_path [OF i, of g] assms(2) by (simp add: tree_root_MTH)
  moreover have "list_all (\<lambda>x. length x = 32) (tree_path g ?i leaves)"
    by (rule tree_path_width) (use assms i in auto)
  moreover have "length (leaves ! ?i) = 32" using assms(3) i by (simp add: list_all_length)
  ultimately show ?thesis using walk_binds [of g h "leaves ! ?i" path] assms(1,4,5) range by blast
qed

text \<open>C6. An accepted inclusion proof is genuine: if a hash and a path recompute to the root of a
  tree at some index, the index is in the tree, the hash is the leaf at that index and the
  path is that leaf's audit path, or two node preimages on the two paths collide.\<close>

theorem inclusion_sound:
  assumes "digest32 g" "leaves \<noteq> []" "list_all (\<lambda>x. length x = 32) leaves"
    and "length h = 32" "list_all (\<lambda>x. length x = 32) path"
    and acc: "recomputeRootRFC6962 g h index (int (length leaves)) path = Inr (MTH g leaves)"
  shows "0 \<le> index \<and> index < int (length leaves)
    \<and> (h = leaves ! nat index \<and> path = tree_path g (nat index) leaves
      \<or> collides g (walk_nodes g (nat index) (length leaves - 1) h path)
          (walk_nodes g (nat index) (length leaves - 1) (leaves ! nat index) (tree_path g (nat index) leaves)))"
  by (rule inclusion_sound_aux [OF assms])

lemma inclusion_sound_witness:
  defines "leaf c \<equiv> replicate 32 c"
  defines "tree \<equiv> [leaf (CHR ''a''), leaf (CHR ''b''), leaf (CHR ''c'')]"
  shows "recomputeRootRFC6962 toy_lib (tree ! 2) 2 3 (tree_path toy_lib 2 tree) = Inr (MTH toy_lib tree)
    \<and> (0 :: int) \<le> 2 \<and> (2 :: int) < 3"
proof -
  note d = toy_digest32
  have acc: "recomputeRootRFC6962 toy_lib (tree ! 2) 2 (int (length tree)) (tree_path toy_lib 2 tree) = Inr (MTH toy_lib tree)"
    using inclusion_complete_aux [of 2 tree toy_lib] by (simp add: tree_def)
  have w: "list_all (\<lambda>x. length x = 32) tree" by (simp add: tree_def leaf_def)
  then have "list_all (\<lambda>x. length x = 32) (tree_path toy_lib 2 tree)"
    by (intro tree_path_width) (auto simp: d tree_def)
  then show ?thesis
    using inclusion_sound [OF d _ w _ _ acc] acc w by (simp add: tree_def leaf_def)
qed

end
