(* ===== verification/Rekor.thy ===== *)
theory Rekor
  imports Merkle Canonical
begin

text \<open>
  internal/rekorverify/verify.go: the offline check of one public-log entry. The entry body
  must name the claimed leaf, the Merkle walk must reach the claimed root, the signed
  checkpoint must commit to that root and size under the log key, the log id must be the
  key's, and the signed entry timestamp must cover the body, the time and the global index.
  Every error of the code is a constructor of \<open>anchor_error\<close>.
\<close>

section \<open>Input and errors\<close>

record anchor_input =
  in_LeafHashHex :: string
  in_EntryBody :: string
  in_LogIndex :: int
  in_TreeSize :: int
  in_RootHashHex :: string
  in_InclusionPath :: "string list"
  in_Checkpoint :: string
  in_LogID :: string
  in_LogEntryID :: string
  in_IntegratedTime :: int
  in_SignedEntryTimestamp :: string

datatype input_error =
    LeafHashEmpty | RootHashEmpty | TreeSizeNotPositive int | LogIndexNegative int
  | LogIndexBeyond int int | CheckpointEmpty | LogIDEmpty

datatype checkpoint_error =
    NoSeparator | UnexpectedLine string | NoSignatureLines
  | FewerThanThreeLines | SizeUnreadable | SizeMismatch int int | RootUnreadable | RootMismatch string
  | KeyHintFailed | SignatureFails | NoMatchingLine

datatype entry_error =
    NotRekorJson | NotHashedRekord string | NotSha256 string | OtherLeaf string

datatype signer_error =
    SignerBody | KeyNotBase64 | KeyNotPem | KeyUnparsed | KeyNotP256 | EntryHashMalformed
  | EntrySignatureNotBase64 | EntrySignatureFails

datatype anchor_error =
    InvalidInput input_error
  | KeyUnavailable
  | NoLogKey
  | NoEntryBody
  | EntryBodyNotBase64
  | EntryRefused entry_error
  | RootNotHex
  | SiblingNotHex nat
  | WalkFailed walk_error
  | MerkleRootMismatch
  | CheckpointRefused checkpoint_error
  | LogIdUncomputed
  | LogIdMismatch
  | NoSignedEntryTimestamp
  | EntryIndexUnreadable
  | TimestampNotBase64
  | SignedEntryTimestampMismatch

definition validateInput :: "anchor_input \<Rightarrow> input_error option" where
  "validateInput i =
     (if in_LeafHashHex i = [] then Some LeafHashEmpty
      else if in_RootHashHex i = [] then Some RootHashEmpty
      else if in_TreeSize i \<le> 0 then Some (TreeSizeNotPositive (in_TreeSize i))
      else if in_LogIndex i < 0 then Some (LogIndexNegative (in_LogIndex i))
      else if in_TreeSize i \<le> in_LogIndex i then Some (LogIndexBeyond (in_LogIndex i) (in_TreeSize i))
      else if in_Checkpoint i = [] then Some CheckpointEmpty
      else if in_LogID i = [] then Some LogIDEmpty
      else None)"

section \<open>The entry body\<close>

text \<open>
  json.Unmarshal into a struct: a member sets the field of that exact name, else the field
  whose name is equal under case folding, and is otherwise skipped. A later member sets the
  field again; null leaves it as it is; any other value of the wrong type is an error. The
  two letters outside ASCII that fold to ASCII letters are the long s and the Kelvin sign.
\<close>

fun fold_name :: "string \<Rightarrow> string" where
  "fold_name [] = []"
| "fold_name (c # s) =
     (if take 2 (c # s) = [CHR 0xC5, CHR 0xBF] then CHR ''s'' # fold_name (drop 1 s)
      else if take 3 (c # s) = [CHR 0xE2, CHR 0x84, CHR 0xAA] then CHR ''k'' # fold_name (drop 2 s)
      else lower_char c # fold_name s)"

definition field_setter :: "(string \<times> 'f) list \<Rightarrow> string \<Rightarrow> 'f option" where
  "field_setter fs k = (case map_of fs k of
     Some f \<Rightarrow> Some f
   | None \<Rightarrow> map_of (map (\<lambda>(n, f). (fold_name n, f)) fs) (fold_name k))"

fun set_members :: "(string \<times> (json \<Rightarrow> 's \<Rightarrow> 's option)) list \<Rightarrow> (string \<times> json) list \<Rightarrow> 's \<Rightarrow> 's option" where
  "set_members fs [] s = Some s"
| "set_members fs ((k, v) # r) s =
     (case field_setter fs k of
        None \<Rightarrow> set_members fs r s
      | Some f \<Rightarrow> (case f v s of None \<Rightarrow> None | Some s' \<Rightarrow> set_members fs r s'))"

definition set_struct :: "(string \<times> (json \<Rightarrow> 's \<Rightarrow> 's option)) list \<Rightarrow> json \<Rightarrow> 's \<Rightarrow> 's option" where
  "set_struct fs v s = (case v of JObj ms \<Rightarrow> set_members fs ms s | JNull \<Rightarrow> Some s | _ \<Rightarrow> None)"

definition set_string :: "(string \<Rightarrow> 's \<Rightarrow> 's) \<Rightarrow> json \<Rightarrow> 's \<Rightarrow> 's option" where
  "set_string upd v s = (case v of JStr x \<Rightarrow> Some (upd x s) | JNull \<Rightarrow> Some s | _ \<Rightarrow> None)"

record hashed_rekord =
  hr_kind :: string
  hr_algorithm :: string
  hr_value :: string
  hr_signature :: string
  hr_public_key :: string

definition hashed_rekord_fields :: "(string \<times> (json \<Rightarrow> hashed_rekord \<Rightarrow> hashed_rekord option)) list" where
  "hashed_rekord_fields =
    [(''kind'', set_string (\<lambda>x. hr_kind_update (\<lambda>_. x))),
     (''spec'', set_struct
       [(''data'', set_struct
          [(''hash'', set_struct
             [(''algorithm'', set_string (\<lambda>x. hr_algorithm_update (\<lambda>_. x))),
              (''value'', set_string (\<lambda>x. hr_value_update (\<lambda>_. x)))])]),
        (''signature'', set_struct
          [(''content'', set_string (\<lambda>x. hr_signature_update (\<lambda>_. x))),
           (''publicKey'', set_struct
             [(''content'', set_string (\<lambda>x. hr_public_key_update (\<lambda>_. x)))])])])]"

definition hashedRekordBody :: "bytes \<Rightarrow> hashed_rekord option" where
  "hashedRekordBody body = (case json_parse body of
     None \<Rightarrow> None
   | Some v \<Rightarrow> set_struct hashed_rekord_fields v
       \<lparr>hr_kind = [], hr_algorithm = [], hr_value = [], hr_signature = [], hr_public_key = []\<rparr>)"

text \<open>strings.EqualFold as far as ASCII letters go: against a leaf hash of hexadecimal digits, which no other
  character folds to, it is Go's comparison; against another text it may refuse what Go accepts.\<close>

definition EntryBodyNamesLeaf :: "bytes \<Rightarrow> string \<Rightarrow> entry_error option" where
  "EntryBodyNamesLeaf body leafHashHex = (case hashedRekordBody body of
     None \<Rightarrow> Some NotRekorJson
   | Some e \<Rightarrow>
       if hr_kind e \<noteq> ''hashedrekord'' then Some (NotHashedRekord (hr_kind e))
       else if hr_algorithm e \<noteq> ''sha256'' then Some (NotSha256 (hr_algorithm e))
       else if hr_value e = [] \<or> \<not> equal_fold (hr_value e) leafHashHex then Some (OtherLeaf (hr_value e))
       else None)"

definition EntrySigner :: "golib \<Rightarrow> bytes \<Rightarrow> signer_error + string" where
  "EntrySigner g body = (case hashedRekordBody body of
     None \<Rightarrow> Inl SignerBody
   | Some e \<Rightarrow>
      (case base64_decode (hr_public_key e) of
         None \<Rightarrow> Inl KeyNotBase64
       | Some pemBytes \<Rightarrow>
          (case gl_pem_decode g pemBytes of
             None \<Rightarrow> Inl KeyNotPem
           | Some (block, _) \<Rightarrow>
              if pem_type block \<noteq> ''PUBLIC KEY'' then Inl KeyNotPem
              else (case gl_parse_pkix g (pem_bytes block) of
                 None \<Rightarrow> Inl KeyUnparsed
               | Some PkOther \<Rightarrow> Inl KeyNotP256
               | Some (PkEcdsa pub) \<Rightarrow>
                  if \<not> ek_p256 pub then Inl KeyNotP256
                  else (case hex_decode (hr_value e) of
                     None \<Rightarrow> Inl EntryHashMalformed
                   | Some digest \<Rightarrow>
                      if length digest \<noteq> 32 then Inl EntryHashMalformed
                      else (case base64_decode (hr_signature e) of
                         None \<Rightarrow> Inl EntrySignatureNotBase64
                       | Some sig \<Rightarrow>
                          if \<not> gl_ecdsa_verify_asn1 g pub digest sig then Inl EntrySignatureFails
                          else Inr (sha256_hex g (pem_bytes block))))))))"

section \<open>The signed checkpoint\<close>

abbreviation newline :: char where "newline \<equiv> CHR 0x0A"

definition em_dash_space :: string where
  "em_dash_space = [CHR 0xE2, CHR 0x80, CHR 0x94, CHR '' '']"

fun normalize_newlines :: "string \<Rightarrow> string" where
  "normalize_newlines (a # b # r) =
     (if a = CHR 0x0D \<and> b = newline then newline # normalize_newlines r
      else a # normalize_newlines (b # r))"
| "normalize_newlines s = s"

text \<open>The text up to and with the first of two newlines in a row, and what follows the second.\<close>

fun cut_blank_line :: "string \<Rightarrow> (string \<times> string) option" where
  "cut_blank_line (a # b # r) =
     (if a = newline \<and> b = newline then Some ([newline], r)
      else map_option (\<lambda>(x, y). (a # x, y)) (cut_blank_line (b # r)))"
| "cut_blank_line _ = None"

definition trim_right :: "char \<Rightarrow> string \<Rightarrow> string" where
  "trim_right c s = rev (dropWhile (\<lambda>x. x = c) (rev s))"

definition has_prefix :: "string \<Rightarrow> string \<Rightarrow> bool" where
  "has_prefix p s \<longleftrightarrow> take (length p) s = p"

fun signature_lines :: "string list \<Rightarrow> checkpoint_error + string list" where
  "signature_lines [] = Inr []"
| "signature_lines (line # r) =
     (if line = [] then signature_lines r
      else if \<not> has_prefix em_dash_space line then Inl (UnexpectedLine line)
      else case signature_lines r of Inl e \<Rightarrow> Inl e | Inr ls \<Rightarrow> Inr (line # ls))"

definition splitCheckpoint :: "string \<Rightarrow> checkpoint_error + string \<times> string list" where
  "splitCheckpoint checkpoint = (case cut_blank_line (normalize_newlines checkpoint) of
     None \<Rightarrow> Inl NoSeparator
   | Some (body, tail) \<Rightarrow>
      (case signature_lines (split_on newline (trim_right newline tail)) of
         Inl e \<Rightarrow> Inl e
       | Inr sigs \<Rightarrow> if sigs = [] then Inl NoSignatureLines else Inr (body, sigs)))"

definition validateCheckpointBody :: "string \<Rightarrow> string \<Rightarrow> int \<Rightarrow> checkpoint_error option" where
  "validateCheckpointBody body expectedRootHashHex expectedTreeSize = (case split_on newline body of
     _ # sizeLine # rootLine # _ \<Rightarrow>
       (case parse_int64 (trim_space sizeLine) of
          None \<Rightarrow> Some SizeUnreadable
        | Some gotSize \<Rightarrow>
           if gotSize \<noteq> expectedTreeSize then Some (SizeMismatch gotSize expectedTreeSize)
           else (case base64_decode (trim_space rootLine) of
              None \<Rightarrow> Some RootUnreadable
            | Some rootBytes \<Rightarrow>
               if \<not> equal_fold (hex_encode rootBytes) expectedRootHashHex
               then Some (RootMismatch (hex_encode rootBytes)) else None))
   | _ \<Rightarrow> Some FewerThanThreeLines)"

definition after_space :: "string \<Rightarrow> string option" where
  "after_space s = (case dropWhile (\<lambda>c. c \<noteq> CHR '' '') s of [] \<Rightarrow> None | _ # r \<Rightarrow> Some r)"

text \<open>The signature of a line whose key hint matches; any other line is skipped by the caller.\<close>

definition decodeCheckpointSignatureLine :: "string \<Rightarrow> bytes \<Rightarrow> bytes option" where
  "decodeCheckpointSignatureLine line keyHint =
     (if \<not> has_prefix em_dash_space line then None
      else case after_space (drop (length em_dash_space) line) of
        None \<Rightarrow> None
      | Some blob \<Rightarrow>
         (case base64_decode (trim_space blob) of
            None \<Rightarrow> None
          | Some raw \<Rightarrow>
             if length raw < 4 then None
             else if take 4 raw \<noteq> keyHint then None
             else Some (drop 4 raw)))"

definition rekorKeyHint :: "golib \<Rightarrow> ecdsa_key \<Rightarrow> bytes option" where
  "rekorKeyHint g key = map_option (\<lambda>der. take 4 (gl_sha256 g der)) (gl_marshal_pkix g key)"

fun first_matching :: "golib \<Rightarrow> ecdsa_key \<Rightarrow> bytes \<Rightarrow> bytes \<Rightarrow> string list \<Rightarrow> checkpoint_error option" where
  "first_matching g key keyHint digest [] = Some NoMatchingLine"
| "first_matching g key keyHint digest (line # r) =
     (case decodeCheckpointSignatureLine line keyHint of
        None \<Rightarrow> first_matching g key keyHint digest r
      | Some sig \<Rightarrow> if gl_ecdsa_verify_asn1 g key digest sig then None else Some SignatureFails)"

definition verifySignedCheckpoint :: "golib \<Rightarrow> string \<Rightarrow> string \<Rightarrow> int \<Rightarrow> ecdsa_key \<Rightarrow> checkpoint_error option" where
  "verifySignedCheckpoint g checkpoint expectedRootHashHex expectedTreeSize key =
     (case splitCheckpoint checkpoint of
        Inl e \<Rightarrow> Some e
      | Inr (body, signatures) \<Rightarrow>
         (case validateCheckpointBody body expectedRootHashHex expectedTreeSize of
            Some e \<Rightarrow> Some e
          | None \<Rightarrow>
             (case rekorKeyHint g key of
                None \<Rightarrow> Some KeyHintFailed
              | Some keyHint \<Rightarrow> first_matching g key keyHint (gl_sha256 g body) signatures)))"

section \<open>The signed entry timestamp\<close>

definition computeRekorLogID :: "golib \<Rightarrow> ecdsa_key \<Rightarrow> string option" where
  "computeRekorLogID g key = map_option (sha256_hex g) (gl_marshal_pkix g key)"

definition setPayload :: "string \<Rightarrow> int \<Rightarrow> string \<Rightarrow> int \<Rightarrow> json" where
  "setPayload body integratedTime logID logIndex = mk_obj [
    (''body'', js body),
    (''integratedTime'', ji integratedTime),
    (''logID'', js logID),
    (''logIndex'', ji logIndex)]"

definition verifySignedEntryTimestamp :: "golib \<Rightarrow> anchor_input \<Rightarrow> string \<Rightarrow> ecdsa_key \<Rightarrow> anchor_error option" where
  "verifySignedEntryTimestamp g i logIDHex key =
     (if in_SignedEntryTimestamp i = [] then Some NoSignedEntryTimestamp
      else case parse_int64 (trim_space (in_LogEntryID i)) of
        None \<Rightarrow> Some EntryIndexUnreadable
      | Some globalIndex \<Rightarrow>
         if globalIndex < 0 then Some EntryIndexUnreadable
         else (case base64_decode (in_SignedEntryTimestamp i) of
            None \<Rightarrow> Some TimestampNotBase64
          | Some sig \<Rightarrow>
             if gl_ecdsa_verify_asn1 g key
                  (gl_sha256 g (json_write (setPayload (in_EntryBody i) (in_IntegratedTime i) (to_lower logIDHex) globalIndex)))
                  sig
             then None else Some SignedEntryTimestampMismatch))"

section \<open>The anchor\<close>

fun decode_siblings :: "nat \<Rightarrow> string list \<Rightarrow> anchor_error + bytes list" where
  "decode_siblings i [] = Inr []"
| "decode_siblings i (h # r) = (case hex_decode h of
     None \<Rightarrow> Inl (SiblingNotHex i)
   | Some raw \<Rightarrow>
      if length raw \<noteq> 32 then Inl (SiblingNotHex i)
      else (case decode_siblings (Suc i) r of Inl e \<Rightarrow> Inl e | Inr rs \<Rightarrow> Inr (raw # rs)))"

definition leaf_hash :: "golib \<Rightarrow> bytes \<Rightarrow> bytes" where
  "leaf_hash g body = gl_sha256 g (CHR 0x00 # body)"

text \<open>Steps 3 to 6, once the leaf, the claimed root and the siblings are decoded.\<close>

definition verify_proof ::
  "golib \<Rightarrow> anchor_input \<Rightarrow> ecdsa_key \<Rightarrow> bytes \<Rightarrow> bytes \<Rightarrow> bytes list \<Rightarrow> anchor_error option" where
  "verify_proof g i key leafHash claimedRoot siblings =
     (case recomputeRootRFC6962 g leafHash (in_LogIndex i) (in_TreeSize i) siblings of
        Inl e \<Rightarrow> Some (WalkFailed e)
      | Inr computedRoot \<Rightarrow>
         if computedRoot \<noteq> claimedRoot then Some MerkleRootMismatch
         else (case verifySignedCheckpoint g (in_Checkpoint i) (in_RootHashHex i) (in_TreeSize i) key of
            Some e \<Rightarrow> Some (CheckpointRefused e)
          | None \<Rightarrow>
             (case computeRekorLogID g key of
                None \<Rightarrow> Some LogIdUncomputed
              | Some expectedLogID \<Rightarrow>
                 if \<not> equal_fold (in_LogID i) expectedLogID then Some LogIdMismatch
                 else verifySignedEntryTimestamp g i expectedLogID key)))"

definition VerifyAnchorWithKey :: "golib \<Rightarrow> anchor_input \<Rightarrow> ecdsa_key option \<Rightarrow> anchor_error option" where
  "VerifyAnchorWithKey g i rekorPubKey = (case validateInput i of
     Some e \<Rightarrow> Some (InvalidInput e)
   | None \<Rightarrow>
      (case rekorPubKey of
         None \<Rightarrow> Some NoLogKey
       | Some key \<Rightarrow>
          if in_EntryBody i = [] then Some NoEntryBody
          else (case base64_decode (in_EntryBody i) of
             None \<Rightarrow> Some EntryBodyNotBase64
           | Some body \<Rightarrow>
              (case EntryBodyNamesLeaf body (in_LeafHashHex i) of
                 Some e \<Rightarrow> Some (EntryRefused e)
               | None \<Rightarrow>
                  (case hex_decode (in_RootHashHex i) of
                     None \<Rightarrow> Some RootNotHex
                   | Some claimedRoot \<Rightarrow>
                      if length claimedRoot \<noteq> 32 then Some RootNotHex
                      else (case decode_siblings 0 (in_InclusionPath i) of
                         Inl e \<Rightarrow> Some e
                       | Inr siblings \<Rightarrow> verify_proof g i key (leaf_hash g body) claimedRoot siblings))))))"

definition RekorPublicKeyPEM :: string where
  "RekorPublicKeyPEM = join newline [
    ''-----BEGIN PUBLIC KEY-----'',
    ''MFkwEwYHKoZIzj0CAQYIKoZIzj0DAQcDQgAE2G2Y+2tabdTV5BcGiBIx0a9fAFwr'',
    ''kBbmLSGtks4L3qX6yYY0zufBnhC8Ur/iy55GhWP/9A/bY2LhC30M9+RYtw=='',
    ''-----END PUBLIC KEY-----'', []]"

definition loadRekorPublicKey :: "golib \<Rightarrow> ecdsa_key option" where
  "loadRekorPublicKey g =
     (if trim_space RekorPublicKeyPEM = [] then None
      else case gl_pem_decode g RekorPublicKeyPEM of
        None \<Rightarrow> None
      | Some (block, _) \<Rightarrow>
         (case gl_parse_pkix g (pem_bytes block) of
            Some (PkEcdsa pub) \<Rightarrow> Some pub
          | _ \<Rightarrow> None))"

definition VerifyAnchor :: "golib \<Rightarrow> anchor_input \<Rightarrow> anchor_error option" where
  "VerifyAnchor g i = (case loadRekorPublicKey g of
     None \<Rightarrow> (case validateInput i of Some e \<Rightarrow> Some (InvalidInput e) | None \<Rightarrow> Some KeyUnavailable)
   | Some key \<Rightarrow> VerifyAnchorWithKey g i (Some key))"

section \<open>What an accepted anchor establishes\<close>

lemma first_matching_None:
  "first_matching g key keyHint digest ls = None \<Longrightarrow>
     \<exists>l \<in> set ls. \<exists>sig. decodeCheckpointSignatureLine l keyHint = Some sig \<and> gl_ecdsa_verify_asn1 g key digest sig"
  by (induction ls) (auto split: option.splits if_splits)

text \<open>The two numbers a checkpoint body commits to, as validateCheckpointBody reads them.\<close>

definition body_commits :: "string \<Rightarrow> int \<Rightarrow> bytes \<Rightarrow> bool" where
  "body_commits body n root = (case split_on newline body of
     _ # sizeLine # rootLine # _ \<Rightarrow>
       parse_int64 (trim_space sizeLine) = Some n \<and> base64_decode (trim_space rootLine) = Some root
   | _ \<Rightarrow> False)"

lemma hex_digit_code: "v < 16 \<Longrightarrow> of_char (hex_digit v) = (if v < 10 then 48 + v else 87 + v :: nat)"
  by (erule hex_digit_cases) (simp_all add: hex_digit_def)

lemma hex_lower:
  assumes "hex_value c = Some v"
  shows "v < 16 \<and> lower_char c = hex_digit v"
proof -
  let ?n = "of_char c :: nat"
  consider "48 \<le> ?n" "?n \<le> 57" "v = ?n - 48" | "97 \<le> ?n" "?n \<le> 102" "v = ?n - 87"
    | "65 \<le> ?n" "?n \<le> 70" "v = ?n - 55"
    using assms by (auto simp: hex_value_def Let_def split: if_splits)
  then have "v < 16 \<and> of_char (lower_char c) = (of_char (hex_digit v) :: nat)"
    by cases (auto simp: hex_digit_code lower_char_def Let_def)
  then show ?thesis by simp
qed

lemma hex_decode_lower: "hex_decode h = Some bs \<Longrightarrow> to_lower h = hex_encode bs"
proof (induction h arbitrary: bs rule: hex_decode.induct)
  case (3 c d s)
  then obtain x y r where v: "hex_value c = Some x" "hex_value d = Some y" "hex_decode s = Some r"
    "bs = char_of (16 * x + y) # r"
    by (auto split: option.splits)
  have "to_lower s = hex_encode r" by (rule "3.IH") (use v in auto)
  with v show ?case
    using hex_lower [OF v(1)] hex_lower [OF v(2)] by (simp add: to_lower_def)
qed (auto simp: to_lower_def)

lemma validate_commits:
  assumes "validateCheckpointBody body rootHex n = None" "hex_decode rootHex = Some root"
  shows "body_commits body n root"
  using assms hex_decode_lower [OF assms(2)]
  by (auto simp: validateCheckpointBody_def body_commits_def equal_fold_def split: list.splits option.splits if_splits)

text \<open>
  An accepted anchor, check by check: the entry body decodes and names the leaf, the walk
  reaches the claimed root, the checkpoint's signed text commits to that root and size, and
  the timestamp's signed payload holds the entry body, its time and its global index.
\<close>

definition anchor_checks :: "golib \<Rightarrow> anchor_input \<Rightarrow> ecdsa_key \<Rightarrow> bytes \<Rightarrow> bytes \<Rightarrow> bytes list \<Rightarrow> string \<Rightarrow> int \<Rightarrow> bool" where
  "anchor_checks g i key body root siblings cpbody globalIndex \<longleftrightarrow>
     validateInput i = None \<and>
     base64_decode (in_EntryBody i) = Some body \<and> EntryBodyNamesLeaf body (in_LeafHashHex i) = None \<and>
     hex_decode (in_RootHashHex i) = Some root \<and> length root = 32 \<and>
     decode_siblings 0 (in_InclusionPath i) = Inr siblings \<and>
     recomputeRootRFC6962 g (leaf_hash g body) (in_LogIndex i) (in_TreeSize i) siblings = Inr root \<and>
     body_commits cpbody (in_TreeSize i) root \<and>
     (\<exists>sig. gl_ecdsa_verify_asn1 g key (gl_sha256 g cpbody) sig) \<and>
     parse_int64 (trim_space (in_LogEntryID i)) = Some globalIndex \<and> 0 \<le> globalIndex \<and>
     (\<exists>logID. computeRekorLogID g key = Some logID \<and> equal_fold (in_LogID i) logID \<and>
        (\<exists>sig. gl_ecdsa_verify_asn1 g key
           (gl_sha256 g (json_write (setPayload (in_EntryBody i) (in_IntegratedTime i) (to_lower logID) globalIndex))) sig))"

lemma checkpoint_accepted:
  assumes "verifySignedCheckpoint g cp rootHex n key = None" "hex_decode rootHex = Some root"
  obtains cpbody sig where "body_commits cpbody n root" "gl_ecdsa_verify_asn1 g key (gl_sha256 g cpbody) sig"
proof -
  obtain cpbody sigs h where s: "splitCheckpoint cp = Inr (cpbody, sigs)" "validateCheckpointBody cpbody rootHex n = None"
    "first_matching g key h (gl_sha256 g cpbody) sigs = None"
    using assms(1) by (auto simp: verifySignedCheckpoint_def split: sum.splits option.splits)
  show thesis using first_matching_None [OF s(3)] validate_commits [OF s(2) assms(2)] that by blast
qed

lemma timestamp_accepted:
  assumes "verifySignedEntryTimestamp g i logID key = None"
  obtains n sig where "parse_int64 (trim_space (in_LogEntryID i)) = Some n" "0 \<le> n"
    "gl_ecdsa_verify_asn1 g key
       (gl_sha256 g (json_write (setPayload (in_EntryBody i) (in_IntegratedTime i) (to_lower logID) n))) sig"
  using assms that
  by (fastforce simp: verifySignedEntryTimestamp_def not_less split: if_splits option.splits)

lemma anchor_accepted:
  assumes "VerifyAnchorWithKey g i (Some key) = None"
  obtains body root siblings cpbody n where "anchor_checks g i key body root siblings cpbody n"
proof -
  obtain body root siblings where
    a: "validateInput i = None" "base64_decode (in_EntryBody i) = Some body"
      "EntryBodyNamesLeaf body (in_LeafHashHex i) = None" "hex_decode (in_RootHashHex i) = Some root"
      "length root = 32" "decode_siblings 0 (in_InclusionPath i) = Inr siblings"
      "verify_proof g i key (leaf_hash g body) root siblings = None"
    using assms
    by (auto simp: VerifyAnchorWithKey_def split: option.splits if_splits sum.splits)
  obtain logID where
    b: "recomputeRootRFC6962 g (leaf_hash g body) (in_LogIndex i) (in_TreeSize i) siblings = Inr root"
      "verifySignedCheckpoint g (in_Checkpoint i) (in_RootHashHex i) (in_TreeSize i) key = None"
      "computeRekorLogID g key = Some logID" "equal_fold (in_LogID i) logID"
      "verifySignedEntryTimestamp g i logID key = None"
    using a(7) by (auto simp: verify_proof_def split: sum.splits option.splits if_splits)
  obtain cpbody sig where c: "body_commits cpbody (in_TreeSize i) root" "gl_ecdsa_verify_asn1 g key (gl_sha256 g cpbody) sig"
    using checkpoint_accepted [OF b(2) a(4)] .
  obtain n sig' where d: "parse_int64 (trim_space (in_LogEntryID i)) = Some n" "0 \<le> n"
    "gl_ecdsa_verify_asn1 g key
       (gl_sha256 g (json_write (setPayload (in_EntryBody i) (in_IntegratedTime i) (to_lower logID) n))) sig'"
    using timestamp_accepted [OF b(5)] .
  show thesis using that [of body root siblings cpbody n] a b c d unfolding anchor_checks_def by blast
qed

lemma decode_siblings_width: "decode_siblings i hs = Inr ss \<Longrightarrow> list_all (\<lambda>x. length x = 32) ss"
  by (induction i hs arbitrary: ss rule: decode_siblings.induct) (auto split: option.splits if_splits sum.splits)

text \<open>
  What the log key stands for: every digest it verifies is that of a payload the log signed.
\<close>

definition log_signed :: "golib \<Rightarrow> ecdsa_key \<Rightarrow> bytes list \<Rightarrow> bool" where
  "log_signed g key payloads \<longleftrightarrow>
     (\<forall>d sig. gl_ecdsa_verify_asn1 g key d sig \<longrightarrow> d \<in> gl_sha256 g ` set payloads)"

lemma signed_payload:
  assumes "log_signed g key payloads" "gl_ecdsa_verify_asn1 g key (gl_sha256 g p) sig"
  shows "p \<in> set payloads \<or> collides g [p] payloads"
proof -
  obtain q where "q \<in> set payloads" "gl_sha256 g p = gl_sha256 g q"
    using assms by (auto simp: log_signed_def)
  then show ?thesis by (cases "p = q") (auto intro: collidesI)
qed

text \<open>C7. What one accepted public-log anchor establishes. If the log key signed only the given
  payloads, an anchor that VerifyAnchorWithKey accepts has a signed note committing to its
  tree size and root, a signed timestamp payload over its entry body, time and global index,
  and an entry body that names the claimed leaf hash and is the entry of the tree at the claimed
  index, for every tree with the signed root; or two explicit preimages collide.\<close>

theorem anchor_accepted_genuine:
  assumes acc: "VerifyAnchorWithKey g i (Some key) = None"
    and log: "digest32 g" "log_signed g key payloads"
  shows "\<exists>body root siblings cpbody n. anchor_checks g i key body root siblings cpbody n
    \<and> (cpbody \<in> set payloads \<or> collides g [cpbody] payloads)
    \<and> (\<exists>logID. computeRekorLogID g key = Some logID \<and>
        (let p = json_write (setPayload (in_EntryBody i) (in_IntegratedTime i) (to_lower logID) n)
         in p \<in> set payloads \<or> collides g [p] payloads))
    \<and> (\<forall>entries. int (length entries) = in_TreeSize i \<and> MTH g (map (leaf_hash g) entries) = root \<longrightarrow>
        body = entries ! nat (in_LogIndex i)
        \<or> collides g ((CHR 0x00 # body) # walk_nodes g (nat (in_LogIndex i)) (length entries - 1) (leaf_hash g body) siblings)
            ((CHR 0x00 # entries ! nat (in_LogIndex i)) #
             walk_nodes g (nat (in_LogIndex i)) (length entries - 1) (leaf_hash g (entries ! nat (in_LogIndex i)))
               (tree_path g (nat (in_LogIndex i)) (map (leaf_hash g) entries))))"
proof -
  obtain body root siblings cpbody n where c: "anchor_checks g i key body root siblings cpbody n"
    using anchor_accepted [OF acc] .
  have w: "length (leaf_hash g b) = 32" for b using log(1) by (simp add: digest32_def leaf_hash_def)
  have tree: "body = entries ! nat (in_LogIndex i)
        \<or> collides g ((CHR 0x00 # body) # walk_nodes g (nat (in_LogIndex i)) (length entries - 1) (leaf_hash g body) siblings)
            ((CHR 0x00 # entries ! nat (in_LogIndex i)) #
             walk_nodes g (nat (in_LogIndex i)) (length entries - 1) (leaf_hash g (entries ! nat (in_LogIndex i)))
               (tree_path g (nat (in_LogIndex i)) (map (leaf_hash g) entries)))"
    if e: "int (length entries) = in_TreeSize i" "MTH g (map (leaf_hash g) entries) = root" for entries
  proof -
    let ?ls = "map (leaf_hash g) entries" and ?k = "nat (in_LogIndex i)"
    have acc: "recomputeRootRFC6962 g (leaf_hash g body) (in_LogIndex i) (int (length ?ls)) siblings = Inr (MTH g ?ls)"
      using c e unfolding anchor_checks_def by simp
    have range: "0 \<le> in_LogIndex i" "in_LogIndex i < int (length ?ls)"
      using acc by (auto simp: recomputeRootRFC6962_def split: if_splits)
    have k: "?k < length entries" using range by simp
    have ne: "?ls \<noteq> []" using k by auto
    have "list_all (\<lambda>x. length x = 32) siblings"
      using c decode_siblings_width unfolding anchor_checks_def by blast
    then have "leaf_hash g body = ?ls ! ?k
        \<or> collides g (walk_nodes g ?k (length ?ls - 1) (leaf_hash g body) siblings)
            (walk_nodes g ?k (length ?ls - 1) (?ls ! ?k) (tree_path g ?k ?ls))"
      using inclusion_sound_aux [OF log(1) ne _ w _ acc] w by (auto simp: list_all_iff)
    moreover have "leaf_hash g body = leaf_hash g (entries ! ?k) \<Longrightarrow>
        body = entries ! ?k \<or> collides g [CHR 0x00 # body] [CHR 0x00 # entries ! ?k]"
      by (auto simp: leaf_hash_def intro: collidesI)
    ultimately show ?thesis using k collides_Cons by (auto simp del: One_nat_def)
  qed
  have "cpbody \<in> set payloads \<or> collides g [cpbody] payloads"
    using c signed_payload [OF log(2)] unfolding anchor_checks_def by blast
  moreover have "\<exists>logID. computeRekorLogID g key = Some logID \<and>
        (let p = json_write (setPayload (in_EntryBody i) (in_IntegratedTime i) (to_lower logID) n)
         in p \<in> set payloads \<or> collides g [p] payloads)"
    using c signed_payload [OF log(2)] unfolding anchor_checks_def Let_def by blast
  ultimately show ?thesis
    using c tree
    by (rule_tac exI [of _ body], rule_tac exI [of _ root], rule_tac exI [of _ siblings],
        rule_tac exI [of _ cpbody], rule_tac exI [of _ n]) blast
qed

text \<open>A log of two entries whose second is anchored; the log key vouches for two payloads.\<close>

definition sample_body :: string where
  "sample_body = json_write (JObj [(''kind'', JStr ''hashedrekord''),
     (''spec'', JObj [(''data'', JObj [(''hash'', JObj [(''algorithm'', JStr ''sha256''),
       (''value'', JStr (replicate 64 (CHR ''a'')))])])])])"

definition sample_root :: bytes where
  "sample_root = hashChildren toy_lib (replicate 32 (CHR ''1'')) (leaf_hash toy_lib sample_body)"

definition sample_note :: string where
  "sample_note = join newline [''log'', ''2'', base64_encode sample_root, []]"

definition sample_line :: string where
  "sample_line = em_dash_space @ ''log '' @ base64_encode (take 4 (toy_digest ''log key'') @ ''sig'')"

definition sample_anchor :: anchor_input where
  "sample_anchor = \<lparr>in_LeafHashHex = replicate 64 (CHR ''a''), in_EntryBody = base64_encode sample_body,
     in_LogIndex = 1, in_TreeSize = 2, in_RootHashHex = hex_encode sample_root,
     in_InclusionPath = [hex_encode (replicate 32 (CHR ''1''))],
     in_Checkpoint = sample_note @ [newline] @ sample_line @ [newline],
     in_LogID = sha256_hex toy_lib ''log key'', in_LogEntryID = ''7'', in_IntegratedTime = 5,
     in_SignedEntryTimestamp = base64_encode ''sig''\<rparr>"

definition sample_log :: golib where
  "sample_log = toy_lib\<lparr>gl_ecdsa_verify_asn1 := \<lambda>key d sig.
     d = toy_digest sample_note \<or>
     d = toy_digest (json_write (setPayload (base64_encode sample_body) 5 (sha256_hex toy_lib ''log key'') 7))\<rparr>"

definition sample_key :: ecdsa_key where
  "sample_key = \<lparr>ek_p256 = True, ek_point = ''log key''\<rparr>"

lemma sample_log_digest [simp]: "gl_sha256 sample_log = toy_digest" "gl_marshal_pkix sample_log k = Some (ek_point k)"
  by (simp_all add: sample_log_def toy_lib_def)

lemma base64_encode_Nil: "base64_encode x = [] \<longleftrightarrow> x = []"
  by (cases x rule: base64_encode.cases) (simp_all add: Let_def)

lemma sample_names_leaf: "EntryBodyNamesLeaf sample_body (replicate 64 (CHR ''a'')) = None"
  by code_simp

lemma sample_split:
  "splitCheckpoint (in_Checkpoint sample_anchor) =
     Inr (sample_note, [sample_line])"
  by code_simp

lemma sample_validate: "validateCheckpointBody sample_note (hex_encode sample_root) 2 = None"
  by code_simp

lemma sample_line_signature:
  "decodeCheckpointSignatureLine sample_line
     (take 4 (toy_digest ''log key'')) = Some ''sig''"
  by code_simp

lemma sample_walk:
  "recomputeRootRFC6962 sample_log (leaf_hash sample_log sample_body) 1 2 [replicate 32 (CHR ''1'')] = Inr sample_root"
  by (simp add: recomputeRootRFC6962_def strip_odd sample_root_def hashChildren_def leaf_hash_def toy_lib_def)

lemma sample_key_id:
  "computeRekorLogID sample_log sample_key = Some (sha256_hex toy_lib ''log key'')"
  "rekorKeyHint sample_log sample_key = Some (take 4 (toy_digest ''log key''))"
  by (simp_all add: computeRekorLogID_def rekorKeyHint_def sample_key_def sha256_hex_def toy_lib_def)

lemma sample_checkpoint:
  "verifySignedCheckpoint sample_log (in_Checkpoint sample_anchor) (hex_encode sample_root) 2 sample_key = None"
  by (simp add: verifySignedCheckpoint_def sample_split sample_validate sample_key_id sample_line_signature)
    (simp add: sample_log_def)

lemma sample_timestamp:
  "verifySignedEntryTimestamp sample_log sample_anchor (sha256_hex toy_lib ''log key'') sample_key = None"
proof -
  have n: "parse_int64 (trim_space (in_LogEntryID sample_anchor)) = Some 7" by code_simp
  have a: "in_SignedEntryTimestamp sample_anchor = base64_encode ''sig''" "base64_encode ''sig'' \<noteq> []"
    "in_EntryBody sample_anchor = base64_encode sample_body" "in_IntegratedTime sample_anchor = 5"
    by (simp_all add: sample_anchor_def)
  have "gl_ecdsa_verify_asn1 sample_log sample_key (toy_digest (json_write (setPayload (base64_encode sample_body) 5
      (sha256_hex toy_lib ''log key'') 7))) ''sig''"
    by (simp add: sample_log_def)
  then show ?thesis
    by (simp add: verifySignedEntryTimestamp_def n a base64_round_trip del: base64_encode.simps)
qed

lemma sample_accepted: "VerifyAnchorWithKey sample_log sample_anchor (Some sample_key) = None"
proof -
  have l: "length sample_root = 32"
    using toy_digest32 by (simp add: sample_root_def hashChildren_def digest32_def)
  have ne: "hex_encode sample_root \<noteq> []"
    using length_hex_encode [of sample_root] l by (metis list.size(3) mult_is_0 zero_neq_numeral)
  moreover have "sha256_hex toy_lib ''log key'' \<noteq> []" "sample_line \<noteq> []"
    by (auto simp: sha256_hex_def toy_lib_def toy_digest_def sample_line_def em_dash_space_def)
  ultimately have v: "validateInput sample_anchor = None"
    by (simp add: validateInput_def sample_anchor_def)
  have e: "base64_encode sample_body \<noteq> []" by (simp add: sample_body_def base64_encode_Nil)
  have b: "in_EntryBody sample_anchor = base64_encode sample_body"
    "in_LeafHashHex sample_anchor = replicate 64 (CHR ''a'')" "in_RootHashHex sample_anchor = hex_encode sample_root"
    "in_InclusionPath sample_anchor = [hex_encode (replicate 32 (CHR ''1''))]" "in_LogIndex sample_anchor = 1"
    "in_TreeSize sample_anchor = 2" "in_LogID sample_anchor = sha256_hex toy_lib ''log key''"
    by (simp_all add: sample_anchor_def)
  have s: "decode_siblings 0 [hex_encode x] = Inr [x]" if "length x = 32" for x
    using that by (simp add: hex_decode_encode)
  have p: "verify_proof sample_log sample_anchor sample_key (leaf_hash sample_log sample_body) sample_root
      [replicate 32 (CHR ''1'')] = None"
    unfolding verify_proof_def b sample_walk sum.case sample_checkpoint sample_key_id option.case sample_timestamp
    by (simp add: equal_fold_def)
  show ?thesis
    unfolding VerifyAnchorWithKey_def v option.case b(1-4) base64_round_trip sample_names_leaf hex_decode_encode
      s [OF length_replicate] sum.case p
    using e l by simp
qed

lemma anchor_accepted_genuine_witness:
  "\<exists>body root siblings cpbody n. anchor_checks sample_log sample_anchor sample_key body root siblings cpbody n"
proof -
  have "digest32 sample_log" using toy_digest32 by (simp add: digest32_def toy_lib_def)
  moreover have "log_signed sample_log sample_key [sample_note,
      json_write (setPayload (base64_encode sample_body) 5 (sha256_hex toy_lib ''log key'') 7)]"
    by (simp add: log_signed_def) (simp add: sample_log_def)
  ultimately show ?thesis using anchor_accepted_genuine [OF sample_accepted] by blast
qed

end
