(* ===== verification/GoTime.thy ===== *)
theory GoTime
  imports Prelude Complex_Main
begin

text \<open>
  time.Parse with the RFC 3339 layouts and the float64 arithmetic on times. A parsed time is
  its Unix seconds and nanoseconds. float64 values are the rationals they denote, and each
  operation rounds its exact result to 53 significant bits, ties to even; every value here
  is far from overflow and from the subnormal range.
\<close>

section \<open>Reading a time\<close>

record go_time =
  gt_seconds :: int
  gt_nanos :: int

definition leap_year :: "int \<Rightarrow> bool" where
  "leap_year y \<longleftrightarrow> 4 dvd y \<and> (\<not> 100 dvd y \<or> 400 dvd y)"

definition days_in :: "int \<Rightarrow> nat \<Rightarrow> int" where
  "days_in y m = (if m = 2 then (if leap_year y then 29 else 28)
     else if m \<in> {4, 6, 9, 11} then 30 else 31)"

text \<open>Days from the first of January 1970, in the proleptic Gregorian calendar.\<close>

definition days_before_year :: "int \<Rightarrow> int" where
  "days_before_year y = 365 * (y - 1970) + ((y - 1) div 4 - 1969 div 4)
     - ((y - 1) div 100 - 1969 div 100) + ((y - 1) div 400 - 1969 div 400)"

fun days_before_month :: "int \<Rightarrow> nat \<Rightarrow> int" where
  "days_before_month y m = (if m \<le> 1 then 0 else days_before_month y (m - 1) + days_in y (m - 1))"

declare days_before_month.simps [simp del]

definition unix_seconds :: "int \<Rightarrow> nat \<Rightarrow> nat \<Rightarrow> nat \<Rightarrow> nat \<Rightarrow> nat \<Rightarrow> int" where
  "unix_seconds y m d h mi s =
     86400 * (days_before_year y + days_before_month y m + int d - 1) + 3600 * int h + 60 * int mi + int s"

text \<open>getnum: two digits, or one when a single digit is allowed and no second one follows.\<close>

definition getnum :: "bool \<Rightarrow> string \<Rightarrow> (nat \<times> string) option" where
  "getnum fixed s = (case s of [] \<Rightarrow> None | a # r \<Rightarrow>
     (case digit_value a of None \<Rightarrow> None
      | Some x \<Rightarrow>
         (case (case r of [] \<Rightarrow> None | b # r' \<Rightarrow> map_option (\<lambda>y. (y, r')) (digit_value b)) of
            None \<Rightarrow> if fixed then None else Some (x, r)
          | Some (y, r') \<Rightarrow> Some (10 * x + y, r'))))"

definition expect :: "char \<Rightarrow> string \<Rightarrow> string option" where
  "expect c s = (case s of a # r \<Rightarrow> if a = c then Some r else None | [] \<Rightarrow> None)"

text \<open>A fraction of a second: a dot or a comma and digits, the first nine of which count.\<close>

definition is_dec :: "char \<Rightarrow> bool" where
  "is_dec c \<longleftrightarrow> digit_value c \<noteq> None"

definition fraction :: "string \<Rightarrow> int \<times> string" where
  "fraction s = (case s of
     p # d # r \<Rightarrow>
       if (p = CHR ''.'' \<or> p = CHR '','') \<and> is_dec d then
         (let ds = takeWhile is_dec (d # r); rest = dropWhile is_dec (d # r); nine = take 9 ds
          in (case digits_value 0 nine of
                Some v \<Rightarrow> (int v * 10 ^ (9 - length nine), rest)
              | None \<Rightarrow> (0, rest)))
       else (0, s)
   | _ \<Rightarrow> (0, s))"

text \<open>A zone: Z, or a sign, hours up to 24 and minutes up to 60.\<close>

definition zone :: "string \<Rightarrow> (int \<times> string) option" where
  "zone s = (case s of
     [] \<Rightarrow> None
   | c # r \<Rightarrow>
      if c = CHR ''Z'' then Some (0, r)
      else if length s < 6 \<or> s ! 3 \<noteq> CHR '':'' then None
      else (case (getnum True (take 2 r), getnum True (take 2 (drop 3 r))) of
         (Some (h, _), Some (m, _)) \<Rightarrow>
           if 24 < h \<or> 60 < m then None
           else if c = CHR ''+'' then Some (60 * (60 * int h + int m), drop 5 r)
           else if c = CHR ''-'' then Some (- (60 * (60 * int h + int m)), drop 5 r)
           else None
       | _ \<Rightarrow> None))"

definition parse_rfc3339 :: "string \<Rightarrow> go_time option" where
  "parse_rfc3339 s =
     (if length s < 4 then None
      else case digits_value 0 (take 4 s) of None \<Rightarrow> None | Some y \<Rightarrow>
      (case expect (CHR ''-'') (drop 4 s) of None \<Rightarrow> None | Some s1 \<Rightarrow>
      (case getnum True s1 of None \<Rightarrow> None | Some (m, s2) \<Rightarrow>
      if m < 1 \<or> 12 < m then None else
      (case expect (CHR ''-'') s2 of None \<Rightarrow> None | Some s3 \<Rightarrow>
      (case getnum True s3 of None \<Rightarrow> None | Some (d, s4) \<Rightarrow>
      (case expect (CHR ''T'') s4 of None \<Rightarrow> None | Some s5 \<Rightarrow>
      (case getnum False s5 of None \<Rightarrow> None | Some (h, s6) \<Rightarrow>
      if 24 \<le> h then None else
      (case expect (CHR '':'') s6 of None \<Rightarrow> None | Some s7 \<Rightarrow>
      (case getnum True s7 of None \<Rightarrow> None | Some (mi, s8) \<Rightarrow>
      if 60 \<le> mi then None else
      (case expect (CHR '':'') s8 of None \<Rightarrow> None | Some s9 \<Rightarrow>
      (case getnum True s9 of None \<Rightarrow> None | Some (sec, s10) \<Rightarrow>
      if 60 \<le> sec then None else
      (let (ns, s11) = fraction s10
       in (case zone s11 of None \<Rightarrow> None | Some (offset, rest) \<Rightarrow>
           if rest \<noteq> [] then None
           else if d < 1 \<or> days_in (int y) m < int d then None
           else Some \<lparr>gt_seconds = unix_seconds (int y) m d h mi sec - offset, gt_nanos = ns\<rparr>)))))))))))))"

text \<open>UnixNano wraps around outside the years an int64 of nanoseconds can hold.\<close>

definition unix_nano :: "go_time \<Rightarrow> int" where
  "unix_nano t = signed_take_bit 63 (gt_seconds t * 1000000000 + gt_nanos t)"

section \<open>float64 arithmetic\<close>

definition round_even :: "rat \<Rightarrow> int" where
  "round_even q = (let f = \<lfloor>q\<rfloor>; r = q - of_int f in
     if r < 1 / 2 then f else if 1 / 2 < r then f + 1 else if even f then f else f + 1)"

fun bit_size :: "nat \<Rightarrow> nat" where
  "bit_size n = (if n = 0 then 0 else Suc (bit_size (n div 2)))"

declare bit_size.simps [simp del]

text \<open>The exponent of a positive value: the power of two at or below it.\<close>

definition exponent :: "rat \<Rightarrow> int" where
  "exponent q = (case quotient_of q of (a, b) \<Rightarrow>
     let k = int (bit_size (nat a)) - int (bit_size (nat b)) in if 2 powi k \<le> q then k else k - 1)"

definition f64_round :: "rat \<Rightarrow> rat" where
  "f64_round q = (if q = 0 then 0 else
     let e = exponent \<bar>q\<bar> in of_int (round_even (q * 2 powi (52 - e))) * 2 powi (e - 52))"

text \<open>int64(x) of a float64 drops the fraction.\<close>

definition f64_to_int :: "rat \<Rightarrow> int" where
  "f64_to_int x = (if 0 \<le> x then \<lfloor>x\<rfloor> else \<lceil>x\<rceil>)"

definition f64_of_int :: "int \<Rightarrow> rat" where "f64_of_int n = f64_round (of_int n)"
definition f64_div :: "rat \<Rightarrow> rat \<Rightarrow> rat" where "f64_div a b = f64_round (a / b)"
definition f64_sub :: "rat \<Rightarrow> rat \<Rightarrow> rat" where "f64_sub a b = f64_round (a - b)"

lemma bit_size_bounds: "0 < n \<Longrightarrow> 2 ^ (bit_size n - 1) \<le> n \<and> n < 2 ^ bit_size n"
proof (induction n rule: bit_size.induct)
  case (1 n)
  show ?case
  proof (cases "n = 1")
    case True
    then show ?thesis by (simp add: bit_size.simps)
  next
    case False
    with "1.prems" have "2 ^ (bit_size (n div 2) - 1) \<le> n div 2 \<and> n div 2 < 2 ^ bit_size (n div 2)"
      by (intro "1.IH") auto
    moreover have "bit_size (n div 2) \<noteq> 0" using False "1.prems" by (subst bit_size.simps) auto
    ultimately show ?thesis using "1.prems"
      by (subst (1 2) bit_size.simps) (cases "bit_size (n div 2)"; auto)
  qed
qed

lemma exponent_bounds:
  assumes "0 < q"
  shows "2 powi exponent q \<le> q \<and> q < 2 powi (exponent q + 1)"
proof -
  obtain a b where ab: "quotient_of q = (a, b)" by fastforce
  then have q: "q = of_int a / of_int b" and b: "0 < b" by (rule quotient_of_div, rule quotient_of_denom_pos)
  have a: "0 < a" using assms b by (simp add: q zero_less_divide_iff)
  define i where "i = bit_size (nat a)"
  define j where "j = bit_size (nat b)"
  have scale: "(2 :: rat) ^ (bit_size (nat c) - 1) \<le> of_int c \<and> of_int c < (2 :: rat) ^ bit_size (nat c)
      \<and> 0 < bit_size (nat c)" if "0 < c" for c
  proof -
    have n: "2 ^ (bit_size (nat c) - 1) \<le> nat c \<and> nat c < 2 ^ bit_size (nat c)"
      using that by (intro bit_size_bounds) simp
    have c: "of_int c = (of_nat (nat c) :: rat)" using that by simp
    have "(2 :: rat) ^ m = of_nat (2 ^ m)" for m by simp
    moreover have "bit_size (nat c) \<noteq> 0" using that by (subst bit_size.simps) auto
    ultimately show ?thesis using n unfolding c by (metis neq0_conv of_nat_le_iff of_nat_less_iff)
  qed
  have ia: "(2 :: rat) ^ (i - 1) \<le> of_int a" "of_int a < (2 :: rat) ^ i" "0 < i"
    and jb: "(2 :: rat) ^ (j - 1) \<le> of_int b" "of_int b < (2 :: rat) ^ j" "0 < j"
    using scale [OF a] scale [OF b] by (simp_all add: i_def j_def)
  have pw: "(2 :: rat) powi (int m - int n) = 2 ^ m / 2 ^ n" for m n by (simp add: power_int_diff)
  have "q < 2 ^ i / 2 ^ (j - 1)"
    unfolding q using ia jb a b by (intro frac_less) auto
  also have "2 ^ i / 2 ^ (j - 1) = (2 :: rat) powi (int i - int j + 1)"
    using pw [of i "j - 1"] jb(3) by (simp add: algebra_simps)
  finally have up: "q < 2 powi (int i - int j + 1)" .
  have "(2 :: rat) powi (int i - int j - 1) = 2 ^ (i - 1) / 2 ^ j"
    using pw [of "i - 1" j] ia(3) by (simp add: algebra_simps)
  also have "\<dots> \<le> q"
    unfolding q using ia jb a b by (intro frac_le) auto
  finally have lo: "2 powi (int i - int j - 1) \<le> q" .
  show ?thesis
    using up lo by (auto simp: exponent_def ab Let_def not_le simp flip: i_def j_def)
qed

lemma round_even_int [simp]: "round_even (of_int n) = n"
  by (simp add: round_even_def Let_def)

text \<open>A value with at most 53 significant bits is its own rounding.\<close>

lemma f64_round_exact:
  assumes "\<bar>m\<bar> < 2 ^ 53"
  shows "f64_round (of_int m * 2 powi k) = of_int m * 2 powi k"
proof (cases "m = 0")
  case True
  then show ?thesis by (simp add: f64_round_def)
next
  case False
  let ?q = "of_int m * 2 powi k :: rat"
  define e where "e = exponent \<bar>?q\<bar>"
  have p2: "(0 :: rat) < 2 powi n" for n by simp
  have abs: "\<bar>?q\<bar> = of_int \<bar>m\<bar> * 2 powi k" using p2 [of k] by (simp add: abs_mult)
  have pos: "0 < \<bar>?q\<bar>" using False p2 [of k] by simp
  have "of_int \<bar>m\<bar> < (2 :: rat) ^ 53" using assms of_int_less_iff [of "\<bar>m\<bar>" "2 ^ 53"] by simp
  then have "\<bar>?q\<bar> < 2 ^ 53 * 2 powi k" unfolding abs using p2 [of k] by simp
  also have "\<dots> = (2 :: rat) powi (k + 53)" by (simp add: power_int_add)
  finally have "2 powi e < (2 :: rat) powi (k + 53)"
    using exponent_bounds [OF pos] by (simp add: e_def)
  then have "e < k + 53" using power_int_le_imp_less_exp [of "2 :: rat" e "k + 53"]
    by (metis one_less_numeral_iff power_int_increasing less_imp_le linorder_not_le semiring_norm(76))
  then obtain n where n: "k + (52 - e) = int n" using nonneg_int_cases [of "k + (52 - e)"] by auto
  have "?q * 2 powi (52 - e) = of_int m * 2 powi (k + (52 - e))" by (simp add: power_int_add)
  also have "\<dots> = of_int (m * 2 ^ n)" by (simp add: n)
  finally have "round_even (?q * 2 powi (52 - e)) = m * 2 ^ n" by (simp only: round_even_int)
  moreover have "of_int (m * 2 ^ n) * 2 powi (e - 52) = (?q :: rat)"
  proof -
    have "of_int (m * 2 ^ n) * 2 powi (e - 52) = of_int m * ((2 :: rat) powi int n * 2 powi (e - 52))" by simp
    also have "\<dots> = of_int m * 2 powi (int n + (e - 52))" by (simp add: power_int_add)
    also have "int n + (e - 52) = k" using n by simp
    finally show ?thesis .
  qed
  ultimately show ?thesis using pos by (simp add: f64_round_def Let_def flip: e_def)
qed

lemma f64_of_int_exact: "\<bar>n\<bar> < 2 ^ 53 \<Longrightarrow> f64_of_int n = of_int n"
  using f64_round_exact [of n 0] by (simp add: f64_of_int_def)

text \<open>The seconds of a whole-second clock, through nanoseconds and back, until the year 2115.\<close>

lemma f64_clock_exact:
  assumes "\<bar>s\<bar> < 4600000000"
  shows "f64_div (f64_of_int (s * 1000000000)) 1000000000 = of_int s"
proof -
  have "\<bar>s * 1953125\<bar> < 2 ^ 53" using assms by (simp add: abs_mult)
  then have "f64_round (of_int (s * 1953125) * 2 powi 9) = of_int (s * 1953125) * 2 powi 9" by (rule f64_round_exact)
  then have "f64_of_int (s * 1000000000) = of_int s * 1000000000"
    by (simp add: f64_of_int_def mult.commute)
  moreover have "f64_round (of_int s * 2 powi 0) = of_int s * 2 powi 0" by (rule f64_round_exact) (use assms in auto)
  ultimately show ?thesis by (simp add: f64_div_def)
qed

end
