(* ===== verification/EntryAuth.thy ===== *)
theory EntryAuth
  imports LeafBinding Rekor GoTime
begin

text \<open>
  entryauth.go: who logged the two public-log entries of a run and when. The signer of the
  first entry must be a pinned key inside its period, the second entry must have the same
  signer and may not predate the first, and when the anchored table seals a window both
  entries must fall inside it. The check runs after both anchors were verified, so whether
  each of them was is an argument.
\<close>

section \<open>Pinned keys\<close>

record pinned_signer =
  ps_Name :: string
  ps_PEM :: string
  ps_NotBefore :: int
  ps_NotAfter :: int

definition verdifaxLogSigningKey1Fingerprint :: string where
  "verdifaxLogSigningKey1Fingerprint = ''0822255b6c085f394088d1ce4142dc927941789be75faf084d163059551000b7''"
definition verdifaxLogSigningKey2Fingerprint :: string where
  "verdifaxLogSigningKey2Fingerprint = ''16349c23103f9bd5fd59f0be45e199540e430ab02587e497f96856817d47fe0a''"
definition verdifaxLogSigningKey3Fingerprint :: string where
  "verdifaxLogSigningKey3Fingerprint = ''df009371c140e355d6c9dd46b29ed7fb37ff835bf94192a1f13bded66c92a54f''"
definition keySwitchUnix :: int where "keySwitchUnix = 1792857559"

definition pem_text :: "string list \<Rightarrow> string" where
  "pem_text ls = join newline ([''-----BEGIN PUBLIC KEY-----''] @ ls @ [''-----END PUBLIC KEY-----'', []])"

definition pinnedEntrySigners :: "(string \<times> pinned_signer) list" where
  "pinnedEntrySigners = [
    (verdifaxLogSigningKey1Fingerprint,
     \<lparr>ps_Name = ''Verdifax log-signing key 1'',
      ps_PEM = pem_text [''MFkwEwYHKoZIzj0CAQYIKoZIzj0DAQcDQgAEsgyMROAY9glbF1VAFeKzSG7xN2Vg'',
        ''pIA8djKUggfjIOOLQ25gtyrQNUk2JLbDvOM015SmWZyoB8cPG0LdO/0SSA==''],
      ps_NotBefore = 0, ps_NotAfter = keySwitchUnix\<rparr>),
    (verdifaxLogSigningKey2Fingerprint,
     \<lparr>ps_Name = ''Verdifax log-signing key 2 (October 2026 hardware evidence run)'',
      ps_PEM = pem_text [''MFkwEwYHKoZIzj0CAQYIKoZIzj0DAQcDQgAEtn//E+NR9JsyD5ssGshpIceKCMBo'',
        ''SjGPIXP3UGH1hTsdwx+uYHNJ5a0b6nsdiIf+Z0a4L5LWvfEQF1p8kev6Sw==''],
      ps_NotBefore = 1791039647 - 3600, ps_NotAfter = 1791039647 + 3600\<rparr>),
    (verdifaxLogSigningKey3Fingerprint,
     \<lparr>ps_Name = ''Verdifax log-signing key 3 (AWS KMS)'',
      ps_PEM = pem_text [''MFkwEwYHKoZIzj0CAQYIKoZIzj0DAQcDQgAErfGSv8mLyB/dzWBfrf8K2EuO7Z1g'',
        ''gK6+Bq6yDgRDbbisjdAwHGmcT6Mo/7xNFNuOlr1Z/SJzkU5xvpFPieYj2A==''],
      ps_NotBefore = keySwitchUnix, ps_NotAfter = 0\<rparr>)]"

definition signerAcceptsAt :: "pinned_signer \<Rightarrow> int \<Rightarrow> bool" where
  "signerAcceptsAt k t \<longleftrightarrow>
     (ps_NotBefore k = 0 \<or> t \<ge> ps_NotBefore k) \<and> (ps_NotAfter k = 0 \<or> t < ps_NotAfter k)"

text \<open>The build check of the package's init: every pinned key parses and has its fingerprint.\<close>

definition pinned_keys_ok :: "golib \<Rightarrow> bool" where
  "pinned_keys_ok g \<longleftrightarrow> list_all (\<lambda>(fp, k).
     case gl_pem_decode g (ps_PEM k) of
       None \<Rightarrow> False
     | Some (block, _) \<Rightarrow>
         gl_parse_pkix g (pem_bytes block) \<noteq> None \<and> sha256_hex g (pem_bytes block) = fp) pinnedEntrySigners"

section \<open>The check\<close>

definition maxAnchoringWindowSeconds :: int where "maxAnchoringWindowSeconds = 3600"
definition anchoringClockSkewSeconds :: int where "anchoringClockSkewSeconds = 300"

datatype window_error = NotWholeSeconds | WindowOutside int

definition parseAnchoringWindow :: "string \<Rightarrow> window_error + int" where
  "parseAnchoringWindow v = (case parse_int64 v of
     None \<Rightarrow> Inl NotWholeSeconds
   | Some n \<Rightarrow>
      if int_str n \<noteq> v then Inl NotWholeSeconds
      else if n \<le> 0 \<or> n > maxAnchoringWindowSeconds then Inl (WindowOutside maxAnchoringWindowSeconds)
      else Inr n)"

datatype entry_signer_error = EntryNotBase64 | EntrySignerError signer_error

definition entrySignerOf :: "golib \<Rightarrow> string \<Rightarrow> entry_signer_error + string" where
  "entrySignerOf g entryBodyB64 = (case base64_decode entryBodyB64 of
     None \<Rightarrow> Inl EntryNotBase64
   | Some body \<Rightarrow> (case EntrySigner g body of Inl e \<Rightarrow> Inl (EntrySignerError e) | Inr fp \<Rightarrow> Inr fp))"

fun preAnchorValue :: "table \<Rightarrow> string \<Rightarrow> string option" where
  "preAnchorValue [] name = None"
| "preAnchorValue (e # r) name = (if pe_name e = name then Some (pe_value e) else preAnchorValue r name)"

datatype entry_auth_reason =
    RunSignerInvalid entry_signer_error
  | RunSignerNotPinned string
  | RunOutsidePeriod
  | RecordSignerInvalid entry_signer_error
  | RecordSignerDiffers string
  | RecordOutsidePeriod
  | RecordPredatesRun
  | ClockUnreadable string
  | WindowUnreadable window_error
  | WindowWithoutClock
  | RunOutsideWindow
  | RecordOutsideWindow

text \<open>The two anchoring times are kept as Unix seconds; the report shows them in RFC 3339.\<close>

record entry_auth_check =
  ea_Performed :: bool
  ea_Match :: bool
  ea_SignerFingerprint :: string
  ea_SignerName :: string
  ea_RunAnchoredAt :: "int option"
  ea_RecordAnchoredAt :: "int option"
  ea_ClockEpoch :: string
  ea_GapSeconds :: "int option"
  ea_WindowSealed :: bool
  ea_WindowSeconds :: int
  ea_Reason :: "entry_auth_reason option"

definition entry_auth_none :: entry_auth_check where
  "entry_auth_none = \<lparr>ea_Performed = False, ea_Match = False, ea_SignerFingerprint = [], ea_SignerName = [],
     ea_RunAnchoredAt = None, ea_RecordAnchoredAt = None, ea_ClockEpoch = [], ea_GapSeconds = None,
     ea_WindowSealed = False, ea_WindowSeconds = 0, ea_Reason = None\<rparr>"

definition ea_fail :: "entry_auth_check \<Rightarrow> entry_auth_reason \<Rightarrow> entry_auth_check" where
  "ea_fail out r = out\<lparr>ea_Match := False, ea_Reason := Some r\<rparr>"

definition within_window :: "rat \<Rightarrow> int \<Rightarrow> int \<Rightarrow> bool" where
  "within_window clockUnix window it = (let d = f64_sub (f64_of_int it) clockUnix
     in - of_int anchoringClockSkewSeconds \<le> d \<and> d \<le> f64_of_int window)"

definition clock_unix :: "go_time \<Rightarrow> rat" where
  "clock_unix t = f64_div (f64_of_int (unix_nano t)) 1000000000"

text \<open>The record entry, when it is on the public log; an error ends the check.\<close>

definition check_record_entry ::
  "golib \<Rightarrow> rekor_anchor \<Rightarrow> string \<Rightarrow> pinned_signer \<Rightarrow> bundle_anchor option \<Rightarrow> bool \<Rightarrow> entry_auth_check
    \<Rightarrow> entry_auth_check + entry_auth_check" where
  "check_record_entry g ra runSigner key ba recordOnLog out =
     (if \<not> recordOnLog then Inr out
      else case ba of None \<Rightarrow> Inr out
      | Some ba \<Rightarrow>
        (let out = out\<lparr>ea_RecordAnchoredAt := Some (ba_integrated_time ba)\<rparr>
         in (case entrySignerOf g (ba_entry_body ba) of
               Inl e \<Rightarrow> Inl (ea_fail out (RecordSignerInvalid e))
             | Inr recordSigner \<Rightarrow>
                 if recordSigner \<noteq> runSigner then Inl (ea_fail out (RecordSignerDiffers recordSigner))
                 else if \<not> signerAcceptsAt key (ba_integrated_time ba) then Inl (ea_fail out RecordOutsidePeriod)
                 else if ba_integrated_time ba < ra_integrated_time ra then Inl (ea_fail out RecordPredatesRun)
                 else Inr out)))"

definition check_clock :: "audit_bundle \<Rightarrow> entry_auth_check \<Rightarrow> entry_auth_check + entry_auth_check \<times> rat option" where
  "check_clock b out = (case preAnchorValue (ab_pre_anchor b) ''clock_epoch'' of
     None \<Rightarrow> Inr (out, None)
   | Some clock \<Rightarrow>
      (let out = out\<lparr>ea_ClockEpoch := clock\<rparr>
       in (case parse_rfc3339 clock of
             None \<Rightarrow> Inl (ea_fail out (ClockUnreadable clock))
           | Some t \<Rightarrow> Inr (out\<lparr>ea_GapSeconds := Some (f64_to_int
                 (f64_sub (f64_of_int (ra_integrated_time (ab_rekor_anchor b))) (clock_unix t)))\<rparr>,
               Some (clock_unix t)))))"

definition check_window ::
  "audit_bundle \<Rightarrow> bool \<Rightarrow> rat option \<Rightarrow> entry_auth_check \<Rightarrow> entry_auth_check" where
  "check_window b recordOnLog clockUnix out = (case preAnchorValue (ab_pre_anchor b) AnchoringWindowRow of
     None \<Rightarrow> out\<lparr>ea_Match := True\<rparr>
   | Some raw \<Rightarrow>
      (case parseAnchoringWindow raw of
         Inl e \<Rightarrow> ea_fail out (WindowUnreadable e)
       | Inr window \<Rightarrow>
          (let out = out\<lparr>ea_WindowSealed := True, ea_WindowSeconds := window\<rparr>
           in (case clockUnix of
                 None \<Rightarrow> ea_fail out WindowWithoutClock
               | Some clock \<Rightarrow>
                   if \<not> within_window clock window (ra_integrated_time (ab_rekor_anchor b))
                   then ea_fail out RunOutsideWindow
                   else if recordOnLog \<and>
                     (case ab_bundle_anchor b of None \<Rightarrow> False
                      | Some ba \<Rightarrow> \<not> within_window clock window (ba_integrated_time ba))
                   then ea_fail out RecordOutsideWindow
                   else out\<lparr>ea_Match := True\<rparr>))))"

definition verifyEntryAuthentication ::
  "golib \<Rightarrow> (string \<times> pinned_signer) list \<Rightarrow> audit_bundle \<Rightarrow> bool \<Rightarrow> bool \<Rightarrow> entry_auth_check" where
  "verifyEntryAuthentication g pins b runVerified recordVerified =
     (let ra = ab_rekor_anchor b; ba = ab_bundle_anchor b in
      if ra_backend ra \<noteq> ''rekor'' \<or> \<not> runVerified then entry_auth_none
      else
        (let out = entry_auth_none\<lparr>ea_Performed := True, ea_RunAnchoredAt := Some (ra_integrated_time ra)\<rparr>
         in (case entrySignerOf g (ra_entry_body ra) of
               Inl e \<Rightarrow> ea_fail out (RunSignerInvalid e)
             | Inr runSigner \<Rightarrow>
                (let out = out\<lparr>ea_SignerFingerprint := runSigner\<rparr>
                 in (case map_of pins runSigner of
                       None \<Rightarrow> ea_fail out (RunSignerNotPinned runSigner)
                     | Some key \<Rightarrow>
                        (let out = out\<lparr>ea_SignerName := ps_Name key\<rparr>;
                             recordOnLog = (case ba of None \<Rightarrow> False
                               | Some a \<Rightarrow> ba_backend a = ''rekor'' \<and> recordVerified)
                         in if \<not> signerAcceptsAt key (ra_integrated_time ra) then ea_fail out RunOutsidePeriod
                            else (case check_record_entry g ra runSigner key ba recordOnLog out of
                               Inl failed \<Rightarrow> failed
                             | Inr out \<Rightarrow>
                                (case check_clock b out of
                                   Inl failed \<Rightarrow> failed
                                 | Inr (out, clockUnix) \<Rightarrow> check_window b recordOnLog clockUnix out))))))))"

section \<open>The window row\<close>

lemma window_iff: "parseAnchoringWindow v = Inr n \<longleftrightarrow> v = int_str n \<and> 1 \<le> n \<and> n \<le> 3600"
proof -
  have "parse_int64 (int_str n) = Some n" if "1 \<le> n" "n \<le> 3600"
    by (rule parse_int64_str) (use that in \<open>simp add: int64_range_def\<close>)
  then show ?thesis
    by (auto simp: parseAnchoringWindow_def maxAnchoringWindowSeconds_def split: option.splits if_splits)
qed

text \<open>C13. A sealed window is read in one way: parseAnchoringWindow accepts exactly the decimal
  spelling, without sign, space or leading zero, of a number from 1 to 3600, and returns that
  number; everything else is an error.\<close>

theorem parse_window_spec:
  "parseAnchoringWindow v = Inr n \<longleftrightarrow> v = int_str n \<and> 1 \<le> n \<and> n \<le> 3600"
  by (rule window_iff)

section \<open>Key periods\<close>

definition pinned :: "string \<Rightarrow> pinned_signer" where
  "pinned fp = the (map_of pinnedEntrySigners fp)"

lemma fingerprints_distinct:
  "verdifaxLogSigningKey1Fingerprint \<noteq> verdifaxLogSigningKey2Fingerprint"
  "verdifaxLogSigningKey1Fingerprint \<noteq> verdifaxLogSigningKey3Fingerprint"
  "verdifaxLogSigningKey2Fingerprint \<noteq> verdifaxLogSigningKey3Fingerprint"
  by (simp_all add: verdifaxLogSigningKey1Fingerprint_def verdifaxLogSigningKey2Fingerprint_def
      verdifaxLogSigningKey3Fingerprint_def)

text \<open>Keys 1 and 3 hand over at one moment: at every time exactly one of them is accepted, and
  key 2 is accepted only within an hour of its single entry, a time at which key 1 is too.\<close>

lemma production_keys_hand_over:
  "signerAcceptsAt (pinned verdifaxLogSigningKey1Fingerprint) t
     \<noteq> signerAcceptsAt (pinned verdifaxLogSigningKey3Fingerprint) t
   \<and> (signerAcceptsAt (pinned verdifaxLogSigningKey1Fingerprint) t \<longleftrightarrow> t < 1792857559)
   \<and> (signerAcceptsAt (pinned verdifaxLogSigningKey2Fingerprint) t \<longleftrightarrow> 1791036047 \<le> t \<and> t < 1791043247)"
  using fingerprints_distinct
  by (auto simp: pinned_def pinnedEntrySigners_def signerAcceptsAt_def keySwitchUnix_def)

section \<open>What an accepted check establishes\<close>

lemma unix_nano_whole:
  assumes "gt_nanos t = 0" "\<bar>gt_seconds t\<bar> < 4600000000"
  shows "unix_nano t = gt_seconds t * 1000000000"
  unfolding unix_nano_def using assms by (simp add: signed_take_bit_int_eq_self)

lemma within_window_exact:
  assumes t: "gt_nanos t = 0" "\<bar>gt_seconds t\<bar> < 4600000000" and it: "\<bar>it\<bar> < 4600000000"
    and w: "0 \<le> window" "window \<le> 3600"
  shows "within_window (clock_unix t) window it \<longleftrightarrow> - 300 \<le> it - gt_seconds t \<and> it - gt_seconds t \<le> window"
proof -
  have c: "clock_unix t = of_int (gt_seconds t)"
    by (simp add: clock_unix_def unix_nano_whole [OF t] f64_clock_exact [OF t(2)])
  have i: "f64_of_int it = of_int it" and wd: "f64_of_int window = of_int window"
    using it w by (auto intro!: f64_of_int_exact)
  have "f64_sub (of_int it) (of_int (gt_seconds t)) = f64_round (of_int (it - gt_seconds t) * 2 powi 0)"
    by (simp add: f64_sub_def)
  also have "\<dots> = of_int (it - gt_seconds t)"
    using f64_round_exact [of "it - gt_seconds t" 0] it t(2) by simp
  finally have d: "f64_sub (of_int it) (of_int (gt_seconds t)) = of_int (it - gt_seconds t)" .
  have "(- of_int 300 :: rat) \<le> of_int (it - gt_seconds t) \<longleftrightarrow> - 300 \<le> it - gt_seconds t"
    by (metis of_int_le_iff of_int_minus)
  then show ?thesis
    by (simp only: within_window_def Let_def c i wd d anchoringClockSkewSeconds_def of_int_le_iff)
qed

definition record_entry_ok :: "golib \<Rightarrow> audit_bundle \<Rightarrow> string \<Rightarrow> pinned_signer \<Rightarrow> bundle_anchor \<Rightarrow> bool" where
  "record_entry_ok g b fp key a \<longleftrightarrow> entrySignerOf g (ba_entry_body a) = Inr fp
     \<and> signerAcceptsAt key (ba_integrated_time a)
     \<and> ra_integrated_time (ab_rekor_anchor b) \<le> ba_integrated_time a"

lemma check_record_entry_Inr:
  "check_record_entry g ra fp key ba onLog out = Inr out' \<Longrightarrow> onLog \<Longrightarrow> ba = Some a \<Longrightarrow>
     entrySignerOf g (ba_entry_body a) = Inr fp \<and> signerAcceptsAt key (ba_integrated_time a)
     \<and> ra_integrated_time ra \<le> ba_integrated_time a"
  by (auto simp: check_record_entry_def Let_def split: sum.splits if_splits)

lemma check_record_entry_Match:
  "check_record_entry g ra fp key ba onLog out = Inl out' \<Longrightarrow> \<not> ea_Match out'"
  "check_record_entry g ra fp key ba onLog out = Inr out' \<Longrightarrow> ea_Match out' = ea_Match out"
  by (auto simp: check_record_entry_def ea_fail_def Let_def split: sum.splits if_splits option.splits)

lemma check_clock_facts:
  "check_clock b out = Inl out' \<Longrightarrow> \<not> ea_Match out'"
  "check_clock b out = Inr (out', c) \<Longrightarrow>
     (case c of None \<Rightarrow> preAnchorValue (ab_pre_anchor b) ''clock_epoch'' = None
      | Some x \<Rightarrow> \<exists>clock t. preAnchorValue (ab_pre_anchor b) ''clock_epoch'' = Some clock
          \<and> parse_rfc3339 clock = Some t \<and> x = clock_unix t)"
  by (auto simp: check_clock_def ea_fail_def Let_def split: option.splits)

lemma check_window_Match:
  assumes "ea_Match (check_window b onLog c out)"
  shows "preAnchorValue (ab_pre_anchor b) AnchoringWindowRow = None
    \<or> (\<exists>window x. preAnchorValue (ab_pre_anchor b) AnchoringWindowRow = Some (int_str window)
        \<and> 1 \<le> window \<and> window \<le> 3600 \<and> c = Some x
        \<and> within_window x window (ra_integrated_time (ab_rekor_anchor b))
        \<and> (onLog \<longrightarrow> (\<forall>a. ab_bundle_anchor b = Some a \<longrightarrow> within_window x window (ba_integrated_time a))))"
  using assms window_iff
  by (auto simp: check_window_def ea_fail_def Let_def split: option.splits sum.splits if_splits)

text \<open>C11. An accepted entry authentication: the run's entry was signed by a pinned key inside its
  period; a verified record entry has the same signer, lies in the key's period and does not
  predate the run's entry; and if the table seals a window, it seals one of 1 to 3600 seconds and a readable clock, and
  for a clock of whole seconds both entries were logged at most 300 seconds before and at
  most the window after it.\<close>

theorem entry_auth_accepted:
  assumes acc: "ea_Match (verifyEntryAuthentication g pins b runVerified recordVerified)"
  defines "onLog \<equiv> \<lambda>a. ab_bundle_anchor b = Some a \<and> ba_backend a = ''rekor'' \<and> recordVerified"
  shows "\<exists>fp key. runVerified
    \<and> entrySignerOf g (ra_entry_body (ab_rekor_anchor b)) = Inr fp \<and> map_of pins fp = Some key
    \<and> signerAcceptsAt key (ra_integrated_time (ab_rekor_anchor b))
    \<and> (\<forall>a. onLog a \<longrightarrow> record_entry_ok g b fp key a)
    \<and> (\<forall>raw. preAnchorValue (ab_pre_anchor b) AnchoringWindowRow = Some raw \<longrightarrow>
        (\<exists>window clock t. raw = int_str window \<and> 1 \<le> window \<and> window \<le> 3600
          \<and> preAnchorValue (ab_pre_anchor b) ''clock_epoch'' = Some clock \<and> parse_rfc3339 clock = Some t
          \<and> (\<forall>it. it = ra_integrated_time (ab_rekor_anchor b) \<or> (\<exists>a. onLog a \<and> it = ba_integrated_time a) \<longrightarrow>
               within_window (clock_unix t) window it
               \<and> (gt_nanos t = 0 \<and> \<bar>gt_seconds t\<bar> < 4600000000 \<and> \<bar>it\<bar> < 4600000000 \<longrightarrow>
                    - 300 \<le> it - gt_seconds t \<and> it - gt_seconds t \<le> window))))"
proof -
  let ?ra = "ab_rekor_anchor b"
  let ?onLog = "case ab_bundle_anchor b of None \<Rightarrow> False | Some a \<Rightarrow> ba_backend a = ''rekor'' \<and> recordVerified"
  from acc obtain fp key o1 o2 c out where run: "runVerified"
      and signer: "entrySignerOf g (ra_entry_body ?ra) = Inr fp" and key: "map_of pins fp = Some key"
      and at: "signerAcceptsAt key (ra_integrated_time ?ra)"
      and rec: "check_record_entry g ?ra fp key (ab_bundle_anchor b) ?onLog out = Inr o1"
      and clock: "check_clock b o1 = Inr (o2, c)"
      and win: "ea_Match (check_window b ?onLog c o2)"
    by (auto simp: verifyEntryAuthentication_def Let_def ea_fail_def entry_auth_none_def
        dest: check_record_entry_Match check_clock_facts(1) split: if_splits sum.splits option.splits)
  have record_entry: "record_entry_ok g b fp key a" if "onLog a" for a
    using check_record_entry_Inr [OF rec] that by (simp add: onLog_def record_entry_ok_def)
  have window: "\<exists>window clock t. raw = int_str window \<and> 1 \<le> window \<and> window \<le> 3600
      \<and> preAnchorValue (ab_pre_anchor b) ''clock_epoch'' = Some clock \<and> parse_rfc3339 clock = Some t
      \<and> (\<forall>it. it = ra_integrated_time ?ra \<or> (\<exists>a. onLog a \<and> it = ba_integrated_time a) \<longrightarrow>
           within_window (clock_unix t) window it
           \<and> (gt_nanos t = 0 \<and> \<bar>gt_seconds t\<bar> < 4600000000 \<and> \<bar>it\<bar> < 4600000000 \<longrightarrow>
                - 300 \<le> it - gt_seconds t \<and> it - gt_seconds t \<le> window))"
    if raw: "preAnchorValue (ab_pre_anchor b) AnchoringWindowRow = Some raw" for raw
  proof -
    from check_window_Match [OF win] raw obtain window x
      where w: "raw = int_str window" "1 \<le> window" "window \<le> 3600" and cx: "c = Some x"
        and inw: "within_window x window (ra_integrated_time ?ra)"
        and rin: "?onLog \<longrightarrow> (\<forall>a. ab_bundle_anchor b = Some a \<longrightarrow> within_window x window (ba_integrated_time a))"
      by auto
    from check_clock_facts(2) [OF clock] cx obtain cl t
      where ct: "preAnchorValue (ab_pre_anchor b) ''clock_epoch'' = Some cl" "parse_rfc3339 cl = Some t"
        "x = clock_unix t" by auto
    have exact: "within_window (clock_unix t) window it
        \<and> (gt_nanos t = 0 \<and> \<bar>gt_seconds t\<bar> < 4600000000 \<and> \<bar>it\<bar> < 4600000000 \<longrightarrow>
             - 300 \<le> it - gt_seconds t \<and> it - gt_seconds t \<le> window)"
      if "it = ra_integrated_time ?ra \<or> (\<exists>a. onLog a \<and> it = ba_integrated_time a)" for it
    proof -
      have "within_window (clock_unix t) window it"
        using that inw rin ct(3) by (auto simp: onLog_def)
      then show ?thesis using within_window_exact [of t it window] w(2,3) by simp
    qed
    show ?thesis
      by (intro exI [of _ window] exI [of _ cl] exI [of _ t] conjI w ct(1,2) allI impI) (use exact in simp_all)
  qed
  show ?thesis
    using run signer key at record_entry window by blast
qed

text \<open>A run and its record logged 60 and 65 seconds after the sealed clock, in a window of 900.\<close>

definition signed_body :: string where
  "signed_body = json_write (JObj [(''kind'', JStr ''hashedrekord''),
     (''spec'', JObj [
       (''data'', JObj [(''hash'', JObj [(''algorithm'', JStr ''sha256''), (''value'', JStr (replicate 64 (CHR ''a'')))])]),
       (''signature'', JObj [(''content'', JStr (base64_encode ''sig'')),
         (''publicKey'', JObj [(''content'', JStr (base64_encode ''pem''))])])])])"

definition windowed_anchor :: bundle_anchor where
  "windowed_anchor = \<lparr>ba_kind = BundleAnchorKind, ba_digest_form = BundleAnchorDigestForm, ba_anchored_digest = [],
     ba_backend = ''rekor'', ba_log_entry_id = ''7'', ba_log_id = [], ba_leaf_hash = [], ba_log_index = 1, ba_tree_size = 2,
     ba_root_hash = [], ba_inclusion_path = None, ba_checkpoint = [], ba_signed_entry_timestamp = [],
     ba_integrated_time = 1793534465, ba_entry_body = base64_encode signed_body\<rparr>"

definition windowed_bundle :: audit_bundle where
  "windowed_bundle = zero_audit_bundle\<lparr>
     ab_rekor_anchor := zero_rekor_anchor\<lparr>ra_backend := ''rekor'', ra_integrated_time := 1793534460,
       ra_entry_body := base64_encode signed_body\<rparr>,
     ab_pre_anchor := [\<lparr>pe_name = ''clock_epoch'', pe_value = ''2026-11-01T12:00:00Z''\<rparr>,
       \<lparr>pe_name = AnchoringWindowRow, pe_value = ''900''\<rparr>],
     ab_bundle_anchor := Some windowed_anchor\<rparr>"

definition sample_pin :: pinned_signer where
  "sample_pin = \<lparr>ps_Name = ''key'', ps_PEM = ''pem'', ps_NotBefore = 0, ps_NotAfter = 0\<rparr>"

lemma signed_entry:
  "hashedRekordBody signed_body = Some \<lparr>hr_kind = ''hashedrekord'', hr_algorithm = ''sha256'',
     hr_value = replicate 64 (CHR ''a''), hr_signature = base64_encode ''sig'', hr_public_key = base64_encode ''pem''\<rparr>"
proof -
  let ?v = "JObj [(''kind'', JStr ''hashedrekord''),
     (''spec'', JObj [
       (''data'', JObj [(''hash'', JObj [(''algorithm'', JStr ''sha256''), (''value'', JStr (replicate 64 (CHR ''a'')))])]),
       (''signature'', JObj [(''content'', JStr (base64_encode ''sig'')),
         (''publicKey'', JObj [(''content'', JStr (base64_encode ''pem''))])])])]"
  have "wf_json ?v" "json_depth ?v \<le> max_depth" by code_simp+
  from json_parse_write [OF this] have p: "json_parse signed_body = Some ?v" by (simp only: signed_body_def)
  have "set_struct hashed_rekord_fields ?v
      \<lparr>hr_kind = [], hr_algorithm = [], hr_value = [], hr_signature = [], hr_public_key = []\<rparr>
    = Some \<lparr>hr_kind = ''hashedrekord'', hr_algorithm = ''sha256'',
     hr_value = replicate 64 (CHR ''a''), hr_signature = base64_encode ''sig'', hr_public_key = base64_encode ''pem''\<rparr>"
    by code_simp
  then show ?thesis by (simp only: hashedRekordBody_def p option.case)
qed

lemma windowed_signer: "entrySignerOf toy_lib (base64_encode signed_body) = Inr (sha256_hex toy_lib ''pem'')"
proof -
  have "hex_decode (replicate 64 (CHR ''a'')) = Some (replicate 32 (CHR 0xAA))" by code_simp
  then have "EntrySigner toy_lib signed_body = Inr (sha256_hex toy_lib ''pem'')"
    by (simp add: EntrySigner_def signed_entry base64_round_trip toy_lib_def sha256_hex_def del: base64_encode.simps)
  then show ?thesis by (simp add: entrySignerOf_def base64_round_trip del: base64_encode.simps)
qed

lemma windowed_clock: "parse_rfc3339 ''2026-11-01T12:00:00Z'' = Some \<lparr>gt_seconds = 1793534400, gt_nanos = 0\<rparr>"
  by code_simp

lemma windowed_fields:
  "ra_backend (ab_rekor_anchor windowed_bundle) = ''rekor''"
  "ra_integrated_time (ab_rekor_anchor windowed_bundle) = 1793534460"
  "ra_entry_body (ab_rekor_anchor windowed_bundle) = base64_encode signed_body"
  "preAnchorValue (ab_pre_anchor windowed_bundle) ''clock_epoch'' = Some ''2026-11-01T12:00:00Z''"
  "preAnchorValue (ab_pre_anchor windowed_bundle) AnchoringWindowRow = Some ''900''"
  "ab_bundle_anchor windowed_bundle = Some windowed_anchor"
  "ba_backend windowed_anchor = ''rekor''" "ba_integrated_time windowed_anchor = 1793534465"
  "ba_entry_body windowed_anchor = base64_encode signed_body"
  by (simp_all add: windowed_bundle_def windowed_anchor_def AnchoringWindowRow_def)

lemma windowed_match:
  "ea_Match (verifyEntryAuthentication toy_lib [(sha256_hex toy_lib ''pem'', sample_pin)] windowed_bundle True True)"
proof -
  have "int_str 900 = ''900''" by code_simp
  then have w: "parseAnchoringWindow ''900'' = Inr 900" using window_iff [of "''900''" 900] by simp
  have i: "within_window (clock_unix \<lparr>gt_seconds = 1793534400, gt_nanos = 0\<rparr>) 900 it"
    if "1793534400 \<le> it" "it \<le> 1793535300" for it
    using within_window_exact [of "\<lparr>gt_seconds = 1793534400, gt_nanos = 0\<rparr>" it 900] that by simp
  note i = i [of 1793534460, simplified] i [of 1793534465, simplified]
  show ?thesis
    by (simp add: verifyEntryAuthentication_def windowed_fields windowed_signer sample_pin_def signerAcceptsAt_def
        check_record_entry_def check_clock_def check_window_def windowed_clock w i Let_def)
qed

lemma entry_auth_accepted_witness:
  "\<exists>fp key. map_of [(sha256_hex toy_lib ''pem'', sample_pin)] fp = Some key
    \<and> record_entry_ok toy_lib windowed_bundle fp key windowed_anchor"
  using entry_auth_accepted [OF windowed_match] windowed_fields(6,7) by blast

end
