(* ===== verification/PreAnchor.thy ===== *)
theory PreAnchor
  imports EntryAuth
begin

text \<open>
  preanchor.go: the record against its own anchored table. The table must have the frozen
  names of its form in order, readable values in the rows a later form adds, the stored
  digest, and, row by row, the value the record displays. A pass is characterised exactly,
  and combined with the leaf it fixes every displayed value of a run.
\<close>

section \<open>The check\<close>

definition safePrefix :: "string \<Rightarrow> string" where
  "safePrefix s = (if length s > 16 then take 16 s @ ''...'' else s)"

datatype pre_anchor_failure =
    RowCount nat nat
  | RowNamed nat string string
  | RequirementValue string
  | WindowValue string window_error
  | TableDigestDiffers string string
  | RowDisplays string string string string

record pre_anchor_check =
  pc_Performed :: bool
  pc_Match :: bool
  pc_Form :: string
  pc_Rows :: nat
  pc_Failures :: "pre_anchor_failure list"

record preAnchorRow =
  row_name :: string
  row_displayed :: string
  row_where :: string

text \<open>The Go map filled from the rows in order, so that a repeated name keeps its last value.\<close>

definition table_map :: "table \<Rightarrow> string \<rightharpoonup> string" where
  "table_map t = map_of (rev (map (\<lambda>e. (pe_name e, pe_value e)) t))"

definition map_get :: "(string \<rightharpoonup> string) \<Rightarrow> string \<Rightarrow> string" where
  "map_get m k = (case m k of None \<Rightarrow> [] | Some v \<Rightarrow> v)"

definition preAnchorDisplayedRows :: "golib \<Rightarrow> audit_bundle \<Rightarrow> (string \<rightharpoonup> string) \<Rightarrow> preAnchorRow list" where
  "preAnchorDisplayedRows g b m =
     (let row = (\<lambda>n v w. \<lparr>row_name = n, row_displayed = v, row_where = w\<rparr>); hash = sr_sealed_hash in
      [row ''program_id'' (env_program_id (ab_envelope b)) ''envelope.program_id'',
       row ''route_id'' (env_route_id (ab_envelope b)) ''envelope.route_id'',
       row ''registry_record_hash'' (env_registry_record_hash (ab_envelope b)) ''envelope.registry_record_hash'',
       row ''envelope_id'' (env_envelope_id (ab_envelope b)) ''envelope.envelope_id'',
       row ''input_hash'' (pl_content_hash (ab_payload b)) ''payload.content_hash'',
       row ''envelope_hash'' (hash (env_seal (ab_envelope b))) ''envelope.seal'',
       row ''transport_hash'' (hash (tr_seal (ab_transport b))) ''transport.seal'',
       row ''epa_hash'' (hash (epa_seal (ab_epa b))) ''epa.seal'',
       row ''efa_hash'' (hash (efa_seal (ab_efa b))) ''efa.seal'',
       row ''aer_hash'' (hash (aer_seal (ab_aer b))) ''aer.seal'',
       row ''execution_ids'' (join (CHR '','') (slice (aer_execution_ids (ab_aer b)))) ''aer.execution_ids'',
       row ''aivp_outcome'' (ai_outcome (ab_aivp_t4 b)) ''aivp_t4.outcome'',
       row ''aivp_adapter_id'' (ai_adapter_id (ab_aivp_t4 b)) ''aivp_t4.adapter_id'',
       row ''aivp_pia_hash'' (ai_pia_hash (ab_aivp_t4 b)) ''aivp_t4.pia_hash'',
       row ''aivp_ai_output_hash'' (ai_ai_output_hash (ab_aivp_t4 b)) ''aivp_t4.ai_output_hash'',
       row ''aivp_halt_receipt_hash'' (ai_halt_receipt_hash (ab_aivp_t4 b)) ''aivp_t4.halt_receipt_hash'',
       row ''deny_receipt_hash'' [] ''a sealed run, which carries no deny receipt'',
       row ''transcript_hash'' (hash (ts_seal (ab_transcript b))) ''transcript.seal'',
       row ''hardware_attestation_hash'' (hash (hw_seal (ab_hardware_attestation b))) ''hardware_attestation.seal'',
       row ''leakage_bundle_hash'' (hash (lb_seal (ab_leakage_bundle b))) ''leakage_bundle.seal'',
       row ''zksp_binding_hash'' (hash (zk_seal (ab_zksp_binding b))) ''zksp_binding.seal'',
       row ''formal_verifier_status'' (zk_verification_status (ab_zksp_binding b)) ''zksp_binding.verification_status'',
       row ''migration_token_hash'' (hash (mt_seal (ab_migration_token b))) ''migration_token.seal'',
       row ''replay_fingerprint'' (hash (rf_seal (ab_replay_fingerprint b))) ''replay_fingerprint.seal'',
       row ''nrep_actor_id'' (nr_actor_id (ab_nrep b)) ''nrep.actor_id'',
       row ''nrep_public_key'' (nr_public_key (ab_nrep b)) ''nrep.public_key'',
       row ''nrep_signature'' (nr_signature (ab_nrep b)) ''nrep.signature'',
       row ''nrep_signed_at'' (nr_signed_at (ab_nrep b)) ''nrep.signed_at'',
       row ''attested_digest'' (ComputeAttestedContextDigest g (epa_attested_context (ab_epa b)))
         ''epa.attested_context (recomputed digest)'',
       row ''scaffold_flags_hash'' (ComputeScaffoldFlagsHash g
           (sn_is_scaffold (ts_scaffold (ab_transcript b)))
           (sn_is_scaffold (hw_scaffold (ab_hardware_attestation b)))
           (sn_is_scaffold (zk_scaffold (ab_zksp_binding b)))
           (sn_is_scaffold (lb_scaffold (ab_leakage_bundle b))))
         ''the four scaffold flags (recomputed digest)''] @
      (if map_get m ''nrep_signed_at'' \<noteq> [] then [row ''clock_epoch'' (nr_signed_at (ab_nrep b)) ''nrep.signed_at''] else []) @
      (case epa_policy_gate (ab_epa b) of
         None \<Rightarrow> []
       | Some pg \<Rightarrow> [row ''pepg_outcome'' (pg_outcome pg) ''epa.policy_gate.outcome'']))"

definition shape_failures :: "table \<Rightarrow> string list \<Rightarrow> pre_anchor_failure list" where
  "shape_failures t names =
     (if length t \<noteq> length names then [RowCount (length t) (length names)]
      else concat (map (\<lambda>(i, name). if pe_name (t ! i) \<noteq> name then [RowNamed i (pe_name (t ! i)) name] else [])
             (enumerate 0 names)))"

definition value_failures :: "(string \<rightharpoonup> string) \<Rightarrow> pre_anchor_failure list" where
  "value_failures m =
     (case m CompleteRecordAnchorRow of
        Some v \<Rightarrow> if v \<noteq> CompleteRecordAnchorRequired then [RequirementValue (safePrefix v)] else []
      | None \<Rightarrow> []) @
     (case m AnchoringWindowRow of
        Some v \<Rightarrow> (case parseAnchoringWindow v of Inl e \<Rightarrow> [WindowValue (safePrefix v) e] | Inr _ \<Rightarrow> [])
      | None \<Rightarrow> [])"

definition display_failures :: "(string \<rightharpoonup> string) \<Rightarrow> preAnchorRow list \<Rightarrow> pre_anchor_failure list" where
  "display_failures m rows = concat (map (\<lambda>row.
     case m (row_name row) of
       None \<Rightarrow> []
     | Some v \<Rightarrow>
        if v \<noteq> row_displayed row
        then [RowDisplays (row_name row) (safePrefix v) (row_where row) (safePrefix (row_displayed row))] else []) rows)"

definition verifyPreAnchor :: "golib \<Rightarrow> audit_bundle \<Rightarrow> pre_anchor_check" where
  "verifyPreAnchor g b =
     (if ab_pre_anchor b = [] \<and> ab_pre_anchor_digest b = []
      then \<lparr>pc_Performed = False, pc_Match = False, pc_Form = [], pc_Rows = 0, pc_Failures = []\<rparr>
      else
       (let form = PreAnchorTableForm (ab_pre_anchor b);
            names = (if form = PreAnchorFormV3 then PreAnchorNamesV3
                     else if form = PreAnchorFormV2 then PreAnchorNamesV2 else PreAnchorNames);
            m = table_map (ab_pre_anchor b);
            early = shape_failures (ab_pre_anchor b) names @ value_failures m;
            recomputed = ComputePreAnchorDigestForTable g (ab_pre_anchor b);
            digest = (if early = [] \<and> recomputed \<noteq> ab_pre_anchor_digest b
                      then [TableDigestDiffers (take 16 recomputed) (safePrefix (ab_pre_anchor_digest b))] else []);
            failures = early @ digest @ display_failures m (preAnchorDisplayedRows g b m)
        in \<lparr>pc_Performed = True, pc_Match = (failures = []), pc_Form = form,
            pc_Rows = length (ab_pre_anchor b), pc_Failures = failures\<rparr>))"

text \<open>The checks of every generation of records: the payload is the one the record executed on.\<close>

datatype cross_failure = PayloadNotExecuted

definition verifyCrossGeneration :: "audit_bundle \<Rightarrow> cross_failure list" where
  "verifyCrossGeneration b = (case ab_execution_record b of
     None \<Rightarrow> []
   | Some er \<Rightarrow>
      if pl_content_hash (ab_payload b) \<noteq> [] \<and> er_input_hash er \<noteq> pl_content_hash (ab_payload b)
      then [PayloadNotExecuted] else [])"

section \<open>What a pass means\<close>

lemma shape_iff: "shape_failures t names = [] \<longleftrightarrow> map pe_name t = names"
proof (cases "length t = length names")
  case True
  have "shape_failures t names = [] \<longleftrightarrow> (\<forall>(i, n) \<in> set (enumerate 0 names). pe_name (t ! i) = n)"
    using True by (auto simp: shape_failures_def split_beta)
  also have "\<dots> \<longleftrightarrow> (\<forall>i < length names. pe_name (t ! i) = names ! i)"
    by (simp add: all_set_conv_all_nth nth_enumerate_eq)
  also have "\<dots> \<longleftrightarrow> map pe_name t = names"
    using True by (subst list_eq_iff_nth_eq) simp
  finally show ?thesis .
next
  case False
  then show ?thesis by (auto simp: shape_failures_def)
qed

lemma distinct_frozen: "distinct (frozen_names form)"
proof -
  have "distinct PreAnchorNames" "distinct PreAnchorNamesV2" "distinct PreAnchorNamesV3" by code_simp+
  then show ?thesis by (simp add: frozen_names_def)
qed

lemma value_of_map: "preAnchorValue t n = map_of (map (\<lambda>e. (pe_name e, pe_value e)) t) n"
  by (induction t) auto

lemma table_map_value: "distinct (map pe_name t) \<Longrightarrow> table_map t = preAnchorValue t"
proof -
  assume "distinct (map pe_name t)"
  then have d: "distinct (map fst (map (\<lambda>e. (pe_name e, pe_value e)) t))" by (simp add: comp_def)
  then have "table_map t = map_of (map (\<lambda>e. (pe_name e, pe_value e)) t)"
    unfolding table_map_def by (subst map_of_inject_set) (simp_all add: rev_map [symmetric] distinct_map)
  then show ?thesis by (simp add: value_of_map fun_eq_iff)
qed

lemma value_named: "preAnchorValue t n \<noteq> None \<longleftrightarrow> n \<in> set (map pe_name t)"
  by (induction t) auto

lemma display_iff:
  "display_failures m rows = [] \<longleftrightarrow>
     (\<forall>row \<in> set rows. m (row_name row) = None \<or> m (row_name row) = Some (row_displayed row))"
  by (induction rows) (auto simp: display_failures_def split: option.splits)

lemma names_v2: "PreAnchorNamesV2 = PreAnchorNames @ [CompleteRecordAnchorRow]"
  by (simp add: PreAnchorNamesV2_def PreAnchorNames_def)

lemma frozen_mono: "set PreAnchorNames \<subseteq> set (frozen_names form)"
  by (auto simp: frozen_names_def PreAnchorNamesV3_def names_v2)

lemma added_rows: "CompleteRecordAnchorRow \<notin> set PreAnchorNames" "AnchoringWindowRow \<notin> set PreAnchorNames"
  by code_simp+

definition displayed_names :: "string list" where
  "displayed_names =
    [''program_id'', ''route_id'', ''registry_record_hash'', ''envelope_id'', ''input_hash'', ''envelope_hash'',
     ''transport_hash'', ''epa_hash'', ''efa_hash'', ''aer_hash'', ''execution_ids'', ''aivp_outcome'',
     ''aivp_adapter_id'', ''aivp_pia_hash'', ''aivp_ai_output_hash'', ''aivp_halt_receipt_hash'', ''deny_receipt_hash'',
     ''transcript_hash'', ''hardware_attestation_hash'', ''leakage_bundle_hash'', ''zksp_binding_hash'',
     ''formal_verifier_status'', ''migration_token_hash'', ''replay_fingerprint'', ''nrep_actor_id'', ''nrep_public_key'',
     ''nrep_signature'', ''nrep_signed_at'', ''attested_digest'', ''scaffold_flags_hash'']"

lemma row_names:
  "map row_name (preAnchorDisplayedRows g b m) = displayed_names
     @ (if map_get m ''nrep_signed_at'' \<noteq> [] then [''clock_epoch''] else [])
     @ (case epa_policy_gate (ab_epa b) of None \<Rightarrow> [] | Some _ \<Rightarrow> [''pepg_outcome''])"
  by (simp add: preAnchorDisplayedRows_def displayed_names_def Let_def split: option.splits)

lemma displayed_names: "row \<in> set (preAnchorDisplayedRows g b m) \<Longrightarrow> row_name row \<in> set PreAnchorNames"
proof -
  assume "row \<in> set (preAnchorDisplayedRows g b m)"
  then have "row_name row \<in> set (map row_name (preAnchorDisplayedRows g b m))" by simp
  then have "row_name row \<in> set (displayed_names @ [''clock_epoch'', ''pepg_outcome''])"
    unfolding row_names by (auto split: if_splits option.splits)
  moreover have "list_all (\<lambda>n. n \<in> set PreAnchorNames) (displayed_names @ [''clock_epoch'', ''pepg_outcome''])"
    by code_simp
  ultimately show ?thesis unfolding list_all_iff by blast
qed

lemma frozen_rows:
  "CompleteRecordAnchorRow \<in> set (frozen_names (PreAnchorTableForm t)) \<longleftrightarrow>
     PreAnchorTableForm t \<noteq> PreAnchorFormV1"
  "AnchoringWindowRow \<in> set (frozen_names (PreAnchorTableForm t)) \<longleftrightarrow> PreAnchorTableForm t = PreAnchorFormV3"
  by (auto simp: frozen_names_def PreAnchorNamesV3_def PreAnchorNamesV2_def PreAnchorNames_def PreAnchorTableForm_def
      PreAnchorFormV1_def PreAnchorFormV2_def PreAnchorFormV3_def CompleteRecordAnchorRow_def AnchoringWindowRow_def)

definition table_readable :: "table \<Rightarrow> bool" where
  "table_readable t \<longleftrightarrow>
     preAnchorValue t CompleteRecordAnchorRow
       = (if PreAnchorTableForm t = PreAnchorFormV1 then None else Some CompleteRecordAnchorRequired)
     \<and> (if PreAnchorTableForm t = PreAnchorFormV3
         then \<exists>n \<in> {1..3600}. preAnchorValue t AnchoringWindowRow = Some (int_str n)
         else preAnchorValue t AnchoringWindowRow = None)"

lemma values_iff:
  assumes "map pe_name t = frozen_names (PreAnchorTableForm t)"
  shows "value_failures (preAnchorValue t) = [] \<longleftrightarrow> table_readable t"
proof -
  have r: "preAnchorValue t CompleteRecordAnchorRow \<noteq> None \<longleftrightarrow> PreAnchorTableForm t \<noteq> PreAnchorFormV1"
    "preAnchorValue t AnchoringWindowRow \<noteq> None \<longleftrightarrow> PreAnchorTableForm t = PreAnchorFormV3"
    unfolding value_named assms frozen_rows by (rule refl)+
  have w: "(\<exists>n. parseAnchoringWindow v = Inr n) \<longleftrightarrow> (\<exists>n \<in> {1..3600}. v = int_str n)" for v
    by (auto simp: window_iff)
  have p: "(case parseAnchoringWindow v of Inl e \<Rightarrow> [WindowValue (safePrefix v) e] | Inr _ \<Rightarrow> []) = []
      \<longleftrightarrow> (\<exists>n \<in> {1..3600}. v = int_str n)" for v
    unfolding w [symmetric] by (cases "parseAnchoringWindow v") auto
  show ?thesis
    unfolding value_failures_def table_readable_def r(1) [symmetric] append_is_Nil_conv
    using r p by (cases "preAnchorValue t CompleteRecordAnchorRow"; cases "preAnchorValue t AnchoringWindowRow")
      (auto simp: PreAnchorFormV1_def PreAnchorFormV3_def)
qed

lemma match_iff:
  defines "t \<equiv> \<lambda>b. ab_pre_anchor b"
  shows "pc_Match (verifyPreAnchor g b) \<longleftrightarrow>
     map pe_name (t b) = frozen_names (PreAnchorTableForm (t b)) \<and> table_readable (t b)
     \<and> ab_pre_anchor_digest b = ComputePreAnchorDigestForTable g (t b)
     \<and> (\<forall>row \<in> set (preAnchorDisplayedRows g b (preAnchorValue (t b))).
          preAnchorValue (t b) (row_name row) = Some (row_displayed row))"
proof (cases "map pe_name (t b) = frozen_names (PreAnchorTableForm (t b))")
  case False
  then show ?thesis
    by (auto simp: verifyPreAnchor_def Let_def frozen_names_def [symmetric] shape_iff t_def)
next
  case True
  have ne: "ab_pre_anchor b \<noteq> []" using True frozen_names_cons unfolding t_def by (metis list.map_disc_iff)
  have m: "table_map (ab_pre_anchor b) = preAnchorValue (ab_pre_anchor b)"
    by (rule table_map_value) (use True distinct_frozen in \<open>simp add: t_def\<close>)
  have "preAnchorValue (t b) (row_name row) \<noteq> None" if "row \<in> set (preAnchorDisplayedRows g b x)" for row x
    using displayed_names [OF that] frozen_mono True value_named by (metis subsetD)
  then have d: "display_failures (preAnchorValue (t b)) (preAnchorDisplayedRows g b (preAnchorValue (t b))) = []
      \<longleftrightarrow> (\<forall>row \<in> set (preAnchorDisplayedRows g b (preAnchorValue (t b))).
            preAnchorValue (t b) (row_name row) = Some (row_displayed row))"
    unfolding display_iff by blast
  show ?thesis
    using True ne values_iff [OF True] d
    by (auto simp: verifyPreAnchor_def Let_def frozen_names_def [symmetric] shape_iff m t_def)
qed

text \<open>The table check, exactly: it passes if and only if the rows carry the frozen names of the
  table's form in order, the requirement row of a later form says required and its window row
  is a number from 1 to 3600 in decimal, the stored digest is the digest of the table, and every
  row the verifier compares holds the value the record displays for it.\<close>

lemma pre_anchor_exact:
  defines "t \<equiv> \<lambda>b. ab_pre_anchor b"
  shows "pc_Match (verifyPreAnchor g b) \<longleftrightarrow>
     map pe_name (t b) = frozen_names (PreAnchorTableForm (t b)) \<and> table_readable (t b)
     \<and> ab_pre_anchor_digest b = ComputePreAnchorDigestForTable g (t b)
     \<and> (\<forall>row \<in> set (preAnchorDisplayedRows g b (preAnchorValue (t b))).
          preAnchorValue (t b) (row_name row) = Some (row_displayed row))"
  unfolding t_def by (rule match_iff)

section \<open>What the leaf fixes\<close>

lemma match_facts:
  assumes "pc_Match (verifyPreAnchor g b)"
  shows "map pe_name (ab_pre_anchor b) = frozen_names (PreAnchorTableForm (ab_pre_anchor b))" (is ?A)
    and "\<forall>row \<in> set (preAnchorDisplayedRows g b (preAnchorValue (ab_pre_anchor b))).
          preAnchorValue (ab_pre_anchor b) (row_name row) = Some (row_displayed row)"
    and "ab_pre_anchor b \<noteq> []"
proof -
  show A: ?A using assms
    by (auto simp: verifyPreAnchor_def Let_def frozen_names_def [symmetric] shape_iff split: if_splits)
  show ne: "ab_pre_anchor b \<noteq> []" using A frozen_names_cons by (metis list.map_disc_iff)
  have m: "table_map (ab_pre_anchor b) = preAnchorValue (ab_pre_anchor b)"
    by (rule table_map_value) (simp only: A distinct_frozen)
  have "display_failures (preAnchorValue (ab_pre_anchor b))
      (preAnchorDisplayedRows g b (preAnchorValue (ab_pre_anchor b))) = []"
    using assms ne by (simp add: verifyPreAnchor_def Let_def m)
  then show "\<forall>row \<in> set (preAnchorDisplayedRows g b (preAnchorValue (ab_pre_anchor b))).
      preAnchorValue (ab_pre_anchor b) (row_name row) = Some (row_displayed row)"
    unfolding display_iff using displayed_names frozen_mono A value_named by (metis (no_types, lifting) subsetD)
qed

text \<open>The rows every record displays, as a function of the record.\<close>

definition displayed :: "golib \<Rightarrow> audit_bundle \<Rightarrow> (string \<times> string) list" where
  "displayed g b = map (\<lambda>r. (row_name r, row_displayed r)) (take 30 (preAnchorDisplayedRows g b Map.empty))"

lemma displayed_take:
  "displayed g b = map (\<lambda>r. (row_name r, row_displayed r)) (take 30 (preAnchorDisplayedRows g b m))"
  by (simp add: displayed_def preAnchorDisplayedRows_def Let_def)

lemma displayed_values:
  assumes "pc_Match (verifyPreAnchor g b)"
  shows "\<forall>(n, v) \<in> set (displayed g b). preAnchorValue (ab_pre_anchor b) n = Some v"
  using match_facts(2) [OF assms]
  by (auto simp: displayed_take [of g b "preAnchorValue (ab_pre_anchor b)"] dest!: in_set_takeD)

lemma displayed_name_list: "map fst (displayed g a) = map fst (displayed g b)"
  by (simp add: displayed_def preAnchorDisplayedRows_def Let_def)

lemma same_table_displayed:
  assumes "pc_Match (verifyPreAnchor g a)" "pc_Match (verifyPreAnchor g b)" "ab_pre_anchor a = ab_pre_anchor b"
  shows "displayed g a = displayed g b"
proof (rule nth_equalityI)
  show len: "length (displayed g a) = length (displayed g b)"
    using displayed_name_list [of g a b] by (metis length_map)
  fix i assume i: "i < length (displayed g a)"
  then have n: "fst (displayed g a ! i) = fst (displayed g b ! i)"
    using displayed_name_list [of g a b] len by (metis nth_map)
  moreover have "snd (displayed g a ! i) = snd (displayed g b ! i)"
    using displayed_values [OF assms(1)] displayed_values [OF assms(2)] i len n assms(3)
    by (metis (mono_tags, lifting) case_prodE nth_mem option.inject prod.sel)
  ultimately show "displayed g a ! i = displayed g b ! i" by (rule prod_eqI)
qed

definition table_preimage :: "table \<Rightarrow> bytes" where
  "table_preimage t = null_join (PreAnchorTableForm t # table_parts t)"

lemma same_parts_table:
  assumes parts: "leaf_preimage_parts g a = leaf_preimage_parts g b"
    and a: "pc_Match (verifyPreAnchor g a)" and b: "pc_Match (verifyPreAnchor g b)"
    and free: "nul_free (map pe_value (ab_pre_anchor a))"
  shows "ab_pre_anchor a = ab_pre_anchor b
    \<or> collides g [table_preimage (ab_pre_anchor a)] [table_preimage (ab_pre_anchor b)]"
proof -
  have "hd (leaf_preimage_parts g a) \<in> {leafDomainV5, leafDomainV6, leafDomainV7}"
    using match_facts(3) [OF a] by (simp add: leaf_preimage_parts_def Let_def)
  then have "ComputePreAnchorDigestForTable g (ab_pre_anchor a) = ComputePreAnchorDigestForTable g (ab_pre_anchor b)"
    by (rule leaf_parts_fields(5) [OF parts])
  from table_digest_binds [OF match_facts(1) [OF a] free match_facts(1) [OF b] this]
  show ?thesis by (simp add: table_preimage_def)
qed

text \<open>C9. The leaf fixes what a record displays: if two records pass the leaf check with one
  anchored leaf hash and both pass the table check, then they have the same table and display the same
  thirty values (the identifiers, the payload's content hash, the sealed hash of every
  section, the governance values, the actor's key, signature and clock, the digests of the
  attested block and of the scaffold flags), or a leaf or a table of the two collides. Only
  the first record's fields have to be free of separators.\<close>

theorem leaf_fixes_display:
  assumes "lc_Match (verifyLeafBinding g a)" "lc_Match (verifyLeafBinding g b)"
    and "to_lower (ra_leaf_hash (ab_rekor_anchor a)) = to_lower (ra_leaf_hash (ab_rekor_anchor b))"
    and "dot_free_run a" "nul_free (map pe_value (ab_pre_anchor a))"
    and "pc_Match (verifyPreAnchor g a)" "pc_Match (verifyPreAnchor g b)"
  shows "ab_pre_anchor a = ab_pre_anchor b \<and> displayed g a = displayed g b
      \<and> env_program_id (ab_envelope a) = env_program_id (ab_envelope b)
      \<and> pl_content_hash (ab_payload a) = pl_content_hash (ab_payload b)
      \<and> ai_outcome (ab_aivp_t4 a) = ai_outcome (ab_aivp_t4 b)
      \<and> nr_actor_id (ab_nrep a) = nr_actor_id (ab_nrep b)
    \<or> collides g [leaf_preimage g a, table_preimage (ab_pre_anchor a)]
                  [leaf_preimage g b, table_preimage (ab_pre_anchor b)]"
proof -
  from same_leaf_parts [OF assms(1-4)] show ?thesis
  proof
    assume "leaf_preimage_parts g a = leaf_preimage_parts g b"
    from same_parts_table [OF this assms(6,7,5)] show ?thesis
    proof
      assume t: "ab_pre_anchor a = ab_pre_anchor b"
      note d = same_table_displayed [OF assms(6,7) t]
      then have "env_program_id (ab_envelope a) = env_program_id (ab_envelope b)"
        "pl_content_hash (ab_payload a) = pl_content_hash (ab_payload b)"
        "ai_outcome (ab_aivp_t4 a) = ai_outcome (ab_aivp_t4 b)" "nr_actor_id (ab_nrep a) = nr_actor_id (ab_nrep b)"
        by (simp_all add: displayed_def preAnchorDisplayedRows_def Let_def)
      with t d show ?thesis by simp
    next
      assume "collides g [table_preimage (ab_pre_anchor a)] [table_preimage (ab_pre_anchor b)]"
      then show ?thesis by (intro disjI2, elim collides_mono) auto
    qed
  next
    assume "collides g [leaf_preimage g a] [leaf_preimage g b]"
    then show ?thesis by (intro disjI2, elim collides_mono) auto
  qed
qed

text \<open>
  Sealing a record: the table filled with what the record displays, then the leaf hash. A
  record sealed so passes both checks.
\<close>

definition table_for :: "golib \<Rightarrow> string list \<Rightarrow> audit_bundle \<Rightarrow> table" where
  "table_for g names b = map (\<lambda>n. \<lparr>pe_name = n, pe_value =
     (if n = CompleteRecordAnchorRow then CompleteRecordAnchorRequired
      else map_get (map_of (displayed g b)) n)\<rparr>) names"

definition with_table :: "golib \<Rightarrow> audit_bundle \<Rightarrow> audit_bundle" where
  "with_table g b = (let t = table_for g PreAnchorNamesV2 b in
     b\<lparr>ab_pre_anchor := t, ab_pre_anchor_digest := ComputePreAnchorDigestForTable g t\<rparr>)"

definition with_leaf :: "golib \<Rightarrow> audit_bundle \<Rightarrow> audit_bundle" where
  "with_leaf g b = b\<lparr>ab_rekor_anchor := (ab_rekor_anchor b)\<lparr>ra_leaf_hash := sha256_hex g (leaf_preimage g b)\<rparr>\<rparr>"

lemma table_for_names: "map pe_name (table_for g names b) = names"
  by (simp add: table_for_def comp_def)

lemma table_for_value:
  "preAnchorValue (table_for g names b) n =
     (if n \<in> set names then Some (if n = CompleteRecordAnchorRow then CompleteRecordAnchorRequired
        else map_get (map_of (displayed g b)) n) else None)"
  by (induction names) (auto simp: table_for_def)

lemma table_for_flags:
  "\<not> TableSealsAnchoringWindow (table_for g PreAnchorNamesV2 b)"
  "TableRequiresCompleteRecordAnchor (table_for g PreAnchorNamesV2 b)"
  by (simp_all add: TableSealsAnchoringWindow_def TableRequiresCompleteRecordAnchor_def table_for_def
      PreAnchorNamesV2_def CompleteRecordAnchorRow_def AnchoringWindowRow_def)

lemma table_for_form: "PreAnchorTableForm (table_for g PreAnchorNamesV2 b) = PreAnchorFormV2"
  by (simp add: PreAnchorTableForm_def table_for_flags)

lemma table_for_free:
  assumes "nul_free (map snd (displayed g b))"
  shows "nul_free (map pe_value (table_for g names b))"
proof -
  have "NUL \<notin> set (map_get (map_of (displayed g b)) n)" for n
  proof (cases "map_of (displayed g b) n")
    case (Some v)
    then have "v \<in> set (map snd (displayed g b))" by (force dest: map_of_SomeD)
    then show ?thesis using assms Some by (auto simp: map_get_def nul_free_def list_all_iff)
  qed (simp add: map_get_def)
  then show ?thesis by (auto simp: table_for_def nul_free_def list_all_iff CompleteRecordAnchorRequired_def)
qed

lemma displayed_distinct: "distinct (map fst (displayed g b))"
  by (simp add: displayed_def preAnchorDisplayedRows_def Let_def)

lemma unsigned_rows:
  assumes "epa_policy_gate (ab_epa b) = None" "map_get m ''nrep_signed_at'' = []"
  shows "map (\<lambda>r. (row_name r, row_displayed r)) (preAnchorDisplayedRows g b m) = displayed g b"
  using assms by (simp add: displayed_def preAnchorDisplayedRows_def Let_def map_get_def)

lemma displayed_with_table [simp]: "displayed g (with_table g b) = displayed g b"
  by (simp add: displayed_def preAnchorDisplayedRows_def with_table_def Let_def)

lemma signed_at_value: "map_of (displayed g b) ''nrep_signed_at'' = Some (nr_signed_at (ab_nrep b))"
  by (simp add: displayed_def preAnchorDisplayedRows_def Let_def)

lemma with_table_match:
  assumes "epa_policy_gate (ab_epa b) = None" "nr_signed_at (ab_nrep b) = []"
  shows "pc_Match (verifyPreAnchor g (with_table g b))"
proof -
  let ?t = "table_for g PreAnchorNamesV2 b" and ?b = "with_table g b"
  have e: "ab_epa ?b = ab_epa b" by (simp add: with_table_def Let_def)
  have t: "ab_pre_anchor ?b = ?t" "ab_pre_anchor_digest ?b = ComputePreAnchorDigestForTable g ?t"
    by (simp_all add: with_table_def Let_def)
  have v2: "frozen_names PreAnchorFormV2 = PreAnchorNamesV2"
    by (simp add: frozen_names_def PreAnchorFormV2_def PreAnchorFormV3_def)
  have "''nrep_signed_at'' \<in> set PreAnchorNames" "AnchoringWindowRow \<noteq> CompleteRecordAnchorRow" by code_simp+
  then have names: "set PreAnchorNames \<subseteq> set PreAnchorNamesV2" "CompleteRecordAnchorRow \<notin> set PreAnchorNames"
    "''nrep_signed_at'' \<in> set PreAnchorNamesV2" "CompleteRecordAnchorRow \<in> set PreAnchorNamesV2"
    "AnchoringWindowRow \<notin> set PreAnchorNamesV2"
    using added_rows by (auto simp: names_v2)
  have "map_get (preAnchorValue ?t) ''nrep_signed_at'' = []"
    using names(3) by (simp add: map_get_def table_for_value signed_at_value assms(2) CompleteRecordAnchorRow_def)
  then have rows: "map (\<lambda>r. (row_name r, row_displayed r)) (preAnchorDisplayedRows g ?b (preAnchorValue ?t)) = displayed g b"
    using unsigned_rows [of ?b "preAnchorValue ?t" g] assms(1) e by simp
  have "preAnchorValue ?t (row_name r) = Some (row_displayed r)"
    if r: "r \<in> set (preAnchorDisplayedRows g ?b (preAnchorValue ?t))" for r
  proof -
    have "(row_name r, row_displayed r) \<in> set (displayed g b)" unfolding rows [symmetric] using r by force
    then have "map_of (displayed g b) (row_name r) = Some (row_displayed r)"
      using displayed_distinct by simp
    then show ?thesis using displayed_names [OF r] names(1,2) by (auto simp: table_for_value map_get_def)
  qed
  moreover have "table_readable ?t"
    using names(4,5) by (simp add: table_readable_def table_for_form table_for_value PreAnchorFormV1_def PreAnchorFormV2_def
        PreAnchorFormV3_def)
  ultimately show ?thesis
    unfolding match_iff t by (simp add: table_for_names table_for_form v2)
qed

lemma with_leaf_parts: "leaf_preimage_parts h (with_leaf g b) = leaf_preimage_parts h b"
  by (simp add: leaf_preimage_parts_def with_leaf_def Let_def cong: if_cong)

lemma with_leaf_match:
  assumes "ra_backend (ab_rekor_anchor b) = ''rekor''" "missing_inputs (with_leaf g b) = []"
  shows "lc_Match (verifyLeafBinding g (with_leaf g b))"
  using assms
  by (simp add: verifyLeafBinding_def with_leaf_parts Let_def) (simp add: with_leaf_def leaf_preimage_def)

text \<open>The two samples differ in their status.\<close>

definition tabled_sample :: "string \<Rightarrow> audit_bundle" where
  "tabled_sample s = with_leaf toy_lib (with_table toy_lib (anchored_sample s))"

lemma tabled_match:
  "lc_Match (verifyLeafBinding toy_lib (tabled_sample s))" "pc_Match (verifyPreAnchor toy_lib (tabled_sample s))"
proof -
  let ?b = "with_table toy_lib (anchored_sample s)"
  have f: "env_envelope_id (ab_envelope ?b) = ''env-1''" "sr_sealed_hash (aer_seal (ab_aer ?b)) = ''aa''"
    "sr_sealed_hash (zk_seal (ab_zksp_binding ?b)) = ''bb''" "ra_backend (ab_rekor_anchor ?b) = ''rekor''"
    by (simp_all add: with_table_def anchored_sample_def Let_def)
  have h: "sha256_hex g p \<noteq> []" if "digest32 g" for g p
    using that by (auto simp: sha256_hex_def digest32_def dest!: spec [of _ p] arg_cong [of _ _ length])
  show "lc_Match (verifyLeafBinding toy_lib (tabled_sample s))"
    unfolding tabled_sample_def using f h [OF toy_digest32]
    by (intro with_leaf_match) (simp_all add: missing_inputs_def with_leaf_def)
  have "pc_Match (verifyPreAnchor toy_lib ?b)"
    by (rule with_table_match) (simp_all add: anchored_sample_def zero_audit_bundle_def zero_epa_def zero_nrep_section_def)
  moreover have "verifyPreAnchor toy_lib (with_leaf toy_lib ?b) = verifyPreAnchor toy_lib ?b"
  proof -
    have "preAnchorDisplayedRows toy_lib (with_leaf toy_lib ?b) = preAnchorDisplayedRows toy_lib ?b"
      by (simp add: preAnchorDisplayedRows_def with_leaf_def fun_eq_iff Let_def)
    moreover have "ab_pre_anchor (with_leaf toy_lib ?b) = ab_pre_anchor ?b"
      "ab_pre_anchor_digest (with_leaf toy_lib ?b) = ab_pre_anchor_digest ?b" by (simp_all add: with_leaf_def)
    ultimately show ?thesis by (simp only: verifyPreAnchor_def)
  qed
  ultimately show "pc_Match (verifyPreAnchor toy_lib (tabled_sample s))" by (simp add: tabled_sample_def)
qed

lemma tabled_facts:
  "to_lower (ra_leaf_hash (ab_rekor_anchor (tabled_sample ''completed'')))
     = to_lower (ra_leaf_hash (ab_rekor_anchor (tabled_sample ''other'')))"
  "dot_free_run (tabled_sample ''completed'')" "nul_free (map pe_value (ab_pre_anchor (tabled_sample ''completed'')))"
proof -
  have d: "displayed toy_lib (anchored_sample ''other'') = displayed toy_lib (anchored_sample ''completed'')"
    by (simp add: displayed_def preAnchorDisplayedRows_def anchored_sample_def Let_def)
  have t: "ab_pre_anchor (tabled_sample s) = table_for toy_lib PreAnchorNamesV2 (anchored_sample s)" for s
    by (simp add: tabled_sample_def with_leaf_def with_table_def Let_def)
  have same: "table_for toy_lib PreAnchorNamesV2 (anchored_sample ''other'')
      = table_for toy_lib PreAnchorNamesV2 (anchored_sample ''completed'')"
    by (simp only: table_for_def d)
  have "leaf_preimage_parts toy_lib (tabled_sample s) = [leafDomainV6, ''env-1'', ''aa'', ''bb'', int_str 5,
      ComputePreAnchorDigestV2FromTable toy_lib (table_for toy_lib PreAnchorNamesV2 (anchored_sample s))]" for s
    unfolding leaf_preimage_parts_def Let_def t using table_for_flags
    by simp (simp add: tabled_sample_def with_leaf_def with_table_def anchored_sample_def Let_def)
  then have "leaf_preimage toy_lib (tabled_sample ''other'') = leaf_preimage toy_lib (tabled_sample ''completed'')"
    by (simp only: leaf_preimage_def same)
  then show "to_lower (ra_leaf_hash (ab_rekor_anchor (tabled_sample ''completed'')))
      = to_lower (ra_leaf_hash (ab_rekor_anchor (tabled_sample ''other'')))"
    using leaf_match(1) [OF tabled_match(1)] by metis
  show "dot_free_run (tabled_sample ''completed'')"
    by (simp add: dot_free_run_def tabled_sample_def with_leaf_def with_table_def anchored_sample_def Let_def)
  show "nul_free (map pe_value (ab_pre_anchor (tabled_sample ''completed'')))"
  proof -
    have "nul_free (map snd (displayed toy_lib (anchored_sample ''completed'')))"
      by (simp add: displayed_def preAnchorDisplayedRows_def anchored_sample_def zero_defs nul_free_def slice_def
          ComputeAttestedContextDigest_def ComputeScaffoldFlagsHash_def nullJoinHash_def sha256_hex_free is_lower_hex_def
          Let_def)
    then show ?thesis unfolding t by (rule table_for_free)
  qed
qed

lemma leaf_fixes_display_witness:
  "displayed toy_lib (tabled_sample ''completed'') = displayed toy_lib (tabled_sample ''other'')
    \<or> collides toy_lib
        [leaf_preimage toy_lib (tabled_sample ''completed''), table_preimage (ab_pre_anchor (tabled_sample ''completed''))]
        [leaf_preimage toy_lib (tabled_sample ''other''), table_preimage (ab_pre_anchor (tabled_sample ''other''))]"
  using leaf_fixes_display [OF tabled_match(1) tabled_match(1) tabled_facts tabled_match(2) tabled_match(2)] by blast

lemma pre_anchor_exact_witness:
  "map pe_name (ab_pre_anchor (tabled_sample ''completed''))
     = frozen_names (PreAnchorTableForm (ab_pre_anchor (tabled_sample ''completed'')))
   \<and> ab_pre_anchor_digest (tabled_sample ''completed'')
     = ComputePreAnchorDigestForTable toy_lib (ab_pre_anchor (tabled_sample ''completed''))"
  using tabled_match(2) [of "''completed''"] pre_anchor_exact [of toy_lib "tabled_sample ''completed''"] by blast

end
