(* ===== verification/BundleAnchor.thy ===== *)
theory BundleAnchor
  imports PreAnchor
begin

text \<open>
  bundleanchor.go, the first entry's check in main.go and staleIndexReason in entryauth.go:
  the two public-log entries of a record. The second entry must be over the digest
  recomputed from the record's own contents; a record whose anchored table requires one
  fails without it. The verifier of an entry is an argument, as it is a variable in the code.
\<close>

section \<open>The first entry\<close>

definition rekor_anchor_input :: "rekor_anchor \<Rightarrow> anchor_input" where
  "rekor_anchor_input a = \<lparr>
     in_LeafHashHex = ra_leaf_hash a, in_EntryBody = ra_entry_body a, in_LogIndex = ra_log_index a,
     in_TreeSize = ra_tree_size a, in_RootHashHex = ra_root_hash a, in_InclusionPath = slice (ra_inclusion_path a),
     in_Checkpoint = ra_checkpoint a, in_LogID = ra_log_id a, in_LogEntryID = ra_log_entry_id a,
     in_IntegratedTime = ra_integrated_time a, in_SignedEntryTimestamp = ra_signed_entry_timestamp a\<rparr>"

definition bundle_anchor_input :: "bundle_anchor \<Rightarrow> anchor_input" where
  "bundle_anchor_input a = \<lparr>
     in_LeafHashHex = ba_leaf_hash a, in_EntryBody = ba_entry_body a, in_LogIndex = ba_log_index a,
     in_TreeSize = ba_tree_size a, in_RootHashHex = ba_root_hash a, in_InclusionPath = slice (ba_inclusion_path a),
     in_Checkpoint = ba_checkpoint a, in_LogID = ba_log_id a, in_LogEntryID = ba_log_entry_id a,
     in_IntegratedTime = ba_integrated_time a, in_SignedEntryTimestamp = ba_signed_entry_timestamp a\<rparr>"

text \<open>A copy that stores the shard position as its entry number; the reason is the number.\<close>

definition staleIndexReason :: "anchor_error \<Rightarrow> string \<Rightarrow> int \<Rightarrow> int option" where
  "staleIndexReason e logEntryID logIndex =
     (if e \<noteq> SignedEntryTimestampMismatch \<or> logEntryID \<noteq> int_str logIndex then None else Some logIndex)"

definition isNoEntryBody :: "anchor_error option \<Rightarrow> bool" where
  "isNoEntryBody e \<longleftrightarrow> e = Some NoEntryBody"

datatype entry_reason = EntryError anchor_error | StaleEntry int

record rekor_anchor_check =
  rk_Performed :: bool
  rk_Backend :: string
  rk_LogIndex :: int
  rk_Match :: bool
  rk_Reason :: "entry_reason option"
  rk_Unverifiable :: bool
  rk_StaleEntryNumber :: bool

definition verifyRekorAnchor :: "(anchor_input \<Rightarrow> anchor_error option) \<Rightarrow> rekor_anchor \<Rightarrow> rekor_anchor_check" where
  "verifyRekorAnchor rekorAnchorVerifier a =
     (if ra_backend a \<noteq> ''rekor'' then
        \<lparr>rk_Performed = False, rk_Backend = ra_backend a, rk_LogIndex = 0, rk_Match = False, rk_Reason = None,
         rk_Unverifiable = False, rk_StaleEntryNumber = False\<rparr>
      else
        (let err = rekorAnchorVerifier (rekor_anchor_input a)
         in if isNoEntryBody err then
              \<lparr>rk_Performed = False, rk_Backend = ra_backend a, rk_LogIndex = ra_log_index a, rk_Match = False,
               rk_Reason = Some (EntryError NoEntryBody), rk_Unverifiable = True, rk_StaleEntryNumber = False\<rparr>
            else (case err of
              Some e \<Rightarrow>
                (let stale = staleIndexReason e (ra_log_entry_id a) (ra_log_index a)
                 in \<lparr>rk_Performed = True, rk_Backend = ra_backend a, rk_LogIndex = ra_log_index a, rk_Match = False,
                     rk_Reason = Some (case stale of Some n \<Rightarrow> StaleEntry n | None \<Rightarrow> EntryError e),
                     rk_Unverifiable = False, rk_StaleEntryNumber = (stale \<noteq> None)\<rparr>)
            | None \<Rightarrow>
                \<lparr>rk_Performed = True, rk_Backend = ra_backend a, rk_LogIndex = ra_log_index a, rk_Match = True,
                 rk_Reason = None, rk_Unverifiable = False, rk_StaleEntryNumber = False\<rparr>)))"

section \<open>The second entry\<close>

datatype bundle_anchor_reason =
    AnchorAbsent
  | AnchorKindUnknown string string
  | AnchorFields bundle_leaf_error
  | ContentsChanged
  | LeafNotRebuilt
  | AnchorNotPublic string
  | AnchorEntryError entry_reason

record bundle_anchor_check =
  bc_Present :: bool
  bc_Performed :: bool
  bc_Match :: bool
  bc_Backend :: string
  bc_LogEntryID :: string
  bc_LogIndex :: int
  bc_RecordedDigest :: string
  bc_ComputedDigest :: string
  bc_RecordedLeaf :: string
  bc_ComputedLeaf :: string
  bc_Reason :: "bundle_anchor_reason option"
  bc_StaleEntryNumber :: bool

definition bc_fail :: "bundle_anchor_check \<Rightarrow> bundle_anchor_reason \<Rightarrow> bundle_anchor_check" where
  "bc_fail out r = out\<lparr>bc_Match := False, bc_Reason := Some r\<rparr>"

definition bundle_anchor_absent :: bundle_anchor_check where
  "bundle_anchor_absent = \<lparr>bc_Present = False, bc_Performed = False, bc_Match = False, bc_Backend = [], bc_LogEntryID = [],
     bc_LogIndex = 0, bc_RecordedDigest = [], bc_ComputedDigest = [], bc_RecordedLeaf = [], bc_ComputedLeaf = [],
     bc_Reason = Some AnchorAbsent, bc_StaleEntryNumber = False\<rparr>"

definition verifyBundleAnchor ::
  "golib \<Rightarrow> (anchor_input \<Rightarrow> anchor_error option) \<Rightarrow> audit_bundle \<Rightarrow> bundle_anchor_check" where
  "verifyBundleAnchor g rekorAnchorVerifier b = (case ab_bundle_anchor b of
     None \<Rightarrow> bundle_anchor_absent
   | Some a \<Rightarrow>
      (let out = bundle_anchor_absent\<lparr>bc_Present := True, bc_Backend := ba_backend a, bc_LogEntryID := ba_log_entry_id a,
             bc_LogIndex := ba_log_index a, bc_RecordedDigest := ba_anchored_digest a,
             bc_RecordedLeaf := to_lower (ba_leaf_hash a), bc_Reason := None\<rparr>;
           digest = ComputeAnchoredRecordDigest g b;
           leaf = ComputeBundleLeafHash g (env_envelope_id (ab_envelope b)) digest;
           digested = out\<lparr>bc_ComputedDigest := digest\<rparr>;
           leafed = digested\<lparr>bc_ComputedLeaf := leaf\<rparr>
       in if ba_kind a \<noteq> BundleAnchorKind \<or> ba_digest_form a \<noteq> BundleAnchorDigestForm
          then bc_fail out (AnchorKindUnknown (ba_kind a) (ba_digest_form a))
          else (case ValidateBundleLeafFields (env_envelope_id (ab_envelope b)) digest of
            Some e \<Rightarrow> bc_fail digested (AnchorFields e)
          | None \<Rightarrow>
              if digest \<noteq> ba_anchored_digest a then bc_fail leafed ContentsChanged
              else if leaf \<noteq> bc_RecordedLeaf out then bc_fail leafed LeafNotRebuilt
              else if ba_backend a \<noteq> ''rekor''
                   then leafed\<lparr>bc_Match := True, bc_Reason := Some (AnchorNotPublic (ba_backend a))\<rparr>
              else (let performed = leafed\<lparr>bc_Performed := True\<rparr>
                in (case rekorAnchorVerifier (bundle_anchor_input a) of
                      Some e \<Rightarrow>
                        (case staleIndexReason e (ba_log_entry_id a) (ba_log_index a) of
                           Some n \<Rightarrow> bc_fail (performed\<lparr>bc_StaleEntryNumber := True\<rparr>) (AnchorEntryError (StaleEntry n))
                         | None \<Rightarrow> bc_fail performed (AnchorEntryError (EntryError e)))
                    | None \<Rightarrow> performed\<lparr>bc_Match := True\<rparr>)))))"

section \<open>The sealed requirement\<close>

datatype requirement_reason =
    NoRequirementNoTable
  | NoRequirementOldTable
  | RequiredMissing
  | RequiredDoesNotHold "bundle_anchor_reason option"
  | RequiredNotPublic string

record complete_record_check =
  cr_Sealed :: bool
  cr_Satisfied :: bool
  cr_Reason :: "requirement_reason option"

definition verifyCompleteRecordRequirement :: "audit_bundle \<Rightarrow> bundle_anchor_check \<Rightarrow> complete_record_check" where
  "verifyCompleteRecordRequirement b ba =
     (if \<not> TableRequiresCompleteRecordAnchor (ab_pre_anchor b) then
        \<lparr>cr_Sealed = False, cr_Satisfied = False,
         cr_Reason = Some (if ab_pre_anchor b \<noteq> [] then NoRequirementOldTable else NoRequirementNoTable)\<rparr>
      else if \<not> bc_Present ba then
        \<lparr>cr_Sealed = True, cr_Satisfied = False, cr_Reason = Some RequiredMissing\<rparr>
      else if \<not> bc_Match ba then
        \<lparr>cr_Sealed = True, cr_Satisfied = False, cr_Reason = Some (RequiredDoesNotHold (bc_Reason ba))\<rparr>
      else if ra_backend (ab_rekor_anchor b) = ''rekor'' \<and> \<not> bc_Performed ba then
        \<lparr>cr_Sealed = True, cr_Satisfied = False, cr_Reason = Some (RequiredNotPublic (bc_Backend ba))\<rparr>
      else \<lparr>cr_Sealed = True, cr_Satisfied = True, cr_Reason = None\<rparr>)"

section \<open>What the second entry fixes\<close>

text \<open>A leaf of checked fields is a dot-separated list of three.\<close>

lemma valid_leaf_fields:
  "ValidateBundleLeafFields e d = None \<Longrightarrow> CHR ''.'' \<notin> set e \<and> CHR ''.'' \<notin> set d"
  by (auto simp: ValidateBundleLeafFields_def is_lower_hex_def list_all_iff in_range_def split: if_splits)

interpretation bundle_leaf: commitment "\<lambda>(e, d). BundleLeafPreimage e d"
  "\<lambda>(e, d). ValidateBundleLeafFields e d = None" "\<lambda>_. True"
proof unfold_locales
  fix x y :: "string \<times> string"
  assume v: "(\<lambda>(e, d). ValidateBundleLeafFields e d = None) x"
    and eq: "(\<lambda>(e, d). BundleLeafPreimage e d) x = (\<lambda>(e, d). BundleLeafPreimage e d) y"
  obtain e d e' d' where xy: "x = (e, d)" "y = (e', d')" by (cases x; cases y)
  have "join (CHR ''.'') [e, d] = join (CHR ''.'') [e', d']"
    using eq by (simp add: xy BundleLeafPreimage_def)
  then have "[e, d] = [e', d']"
    by (intro join_inject [of "CHR ''.''"]) (use valid_leaf_fields [of e d] v xy in auto)
  then show "x = y" by (simp add: xy)
qed

lemma anchor_match:
  assumes "bc_Match (verifyBundleAnchor g ver b)"
  obtains x where "ab_bundle_anchor b = Some x"
    "ba_kind x = BundleAnchorKind" "ba_digest_form x = BundleAnchorDigestForm"
    "ba_anchored_digest x = ComputeAnchoredRecordDigest g b"
    "ValidateBundleLeafFields (env_envelope_id (ab_envelope b)) (ComputeAnchoredRecordDigest g b) = None"
    "to_lower (ba_leaf_hash x) = sha256_hex g (BundleLeafPreimage (env_envelope_id (ab_envelope b)) (ComputeAnchoredRecordDigest g b))"
    "bc_Performed (verifyBundleAnchor g ver b) \<longleftrightarrow> ba_backend x = ''rekor''"
    "ba_backend x = ''rekor'' \<Longrightarrow> ver (bundle_anchor_input x) = None"
  using assms
  by (auto simp: verifyBundleAnchor_def bundle_anchor_absent_def bc_fail_def ComputeBundleLeafHash_def Let_def
      split: option.splits if_splits)

lemma match_present: "bc_Match (verifyBundleAnchor g ver b) \<Longrightarrow> bc_Present (verifyBundleAnchor g ver b)"
  by (auto simp: verifyBundleAnchor_def bundle_anchor_absent_def bc_fail_def Let_def split: option.splits if_splits)

definition bundle_leaf_preimage :: "golib \<Rightarrow> audit_bundle \<Rightarrow> bytes" where
  "bundle_leaf_preimage g b = BundleLeafPreimage (env_envelope_id (ab_envelope b)) (ComputeAnchoredRecordDigest g b)"

definition recorded_leaf :: "audit_bundle \<Rightarrow> string option" where
  "recorded_leaf b = map_option (\<lambda>a. to_lower (ba_leaf_hash a)) (ab_bundle_anchor b)"

definition content_preimages :: "golib \<Rightarrow> audit_bundle \<Rightarrow> bytes list" where
  "content_preimages g b = bundle_leaf_preimage g b # record_preimages g b @ bundle_preimages g b"

lemma same_bundle_leaf:
  assumes "bc_Match (verifyBundleAnchor g va a)" "bc_Match (verifyBundleAnchor g vb b)" "recorded_leaf a = recorded_leaf b"
  shows "env_envelope_id (ab_envelope a) = env_envelope_id (ab_envelope b)
      \<and> ComputeAnchoredRecordDigest g a = ComputeAnchoredRecordDigest g b
    \<or> collides g [bundle_leaf_preimage g a] [bundle_leaf_preimage g b]"
proof -
  from anchor_match [OF assms(1)] obtain x where x: "ab_bundle_anchor a = Some x"
    "ValidateBundleLeafFields (env_envelope_id (ab_envelope a)) (ComputeAnchoredRecordDigest g a) = None"
    "to_lower (ba_leaf_hash x) = sha256_hex g (bundle_leaf_preimage g a)"
    unfolding bundle_leaf_preimage_def by metis
  from anchor_match [OF assms(2)] obtain y where y: "ab_bundle_anchor b = Some y"
    "to_lower (ba_leaf_hash y) = sha256_hex g (bundle_leaf_preimage g b)"
    unfolding bundle_leaf_preimage_def by metis
  have "sha256_hex g (bundle_leaf_preimage g a) = sha256_hex g (bundle_leaf_preimage g b)"
    using x y assms(3) by (simp add: recorded_leaf_def)
  then show ?thesis
    using bundle_leaf.binds [where x = "(env_envelope_id (ab_envelope a), ComputeAnchoredRecordDigest g a)"
        and y = "(env_envelope_id (ab_envelope b), ComputeAnchoredRecordDigest g b)" and g = g] x(2)
    by (simp add: bundle_leaf_preimage_def)
qed

lemma requirement_iff:
  "cr_Sealed (verifyCompleteRecordRequirement b c) \<longleftrightarrow> TableRequiresCompleteRecordAnchor (ab_pre_anchor b)"
  "cr_Satisfied (verifyCompleteRecordRequirement b c) \<longleftrightarrow>
     TableRequiresCompleteRecordAnchor (ab_pre_anchor b) \<and> bc_Present c \<and> bc_Match c
     \<and> (ra_backend (ab_rekor_anchor b) = ''rekor'' \<longrightarrow> bc_Performed c)"
  by (auto simp: verifyCompleteRecordRequirement_def)

text \<open>One second entry, one record: if two records whose section hashes recompute both carry a
  record anchor that passes over the same leaf hash, they have the same envelope identifier and
  the same content (the decision, the policy gates, the payload, the program, the clock, the
  table, the governance section, the execution record, the timings, the seals, the metadata
  and every section), or two of their preimages collide. The verifier of the entry plays no part.\<close>

lemma record_entry_fixes_content:
  assumes "bc_Match (verifyBundleAnchor g va a)" "bc_Match (verifyBundleAnchor g vb b)" "recorded_leaf a = recorded_leaf b"
    and "bundle_wf g a" "bundle_wf g b" "record_wf g a" "record_wf g b"
    and "stored_hashes a = recomputed_hashes g a" "stored_hashes b = recomputed_hashes g b"
  shows "env_envelope_id (ab_envelope a) = env_envelope_id (ab_envelope b) \<and> same_content g a b
    \<or> collides g (content_preimages g a) (content_preimages g b)"
proof -
  from same_bundle_leaf [OF assms(1-3)] show ?thesis
  proof
    assume eq: "env_envelope_id (ab_envelope a) = env_envelope_id (ab_envelope b)
      \<and> ComputeAnchoredRecordDigest g a = ComputeAnchoredRecordDigest g b"
    then have "same_content g a b
        \<or> collides g (record_preimages g a @ bundle_preimages g a) (record_preimages g b @ bundle_preimages g b)"
      by (intro content_determined assms) simp
    then show ?thesis unfolding content_preimages_def using eq collides_Cons by blast
  next
    assume "collides g [bundle_leaf_preimage g a] [bundle_leaf_preimage g b]"
    then show ?thesis unfolding content_preimages_def using collides_Cons by blast
  qed
qed

text \<open>C8. Deleting the second entry is detected: take a record that passes the leaf and table
  checks and whose table requires a complete-record anchor. Any record that shows the same
  public-log leaf, passes both checks and does not fail the requirement carries a record
  anchor on the public log that the verifier accepts, over the digest of its own
  contents and the leaf rebuilt from it; or a leaf or a table of the two records collides.\<close>

theorem deleted_anchor_detected:
  assumes "lc_Match (verifyLeafBinding g a)" "lc_Match (verifyLeafBinding g b)"
    and "to_lower (ra_leaf_hash (ab_rekor_anchor a)) = to_lower (ra_leaf_hash (ab_rekor_anchor b))"
    and "dot_free_run a" "nul_free (map pe_value (ab_pre_anchor a))"
    and "pc_Match (verifyPreAnchor g a)" "pc_Match (verifyPreAnchor g b)"
    and req: "TableRequiresCompleteRecordAnchor (ab_pre_anchor a)"
    and ok: "cr_Sealed (verifyCompleteRecordRequirement b (verifyBundleAnchor g ver b)) \<Longrightarrow>
      cr_Satisfied (verifyCompleteRecordRequirement b (verifyBundleAnchor g ver b))"
  shows "(\<exists>x. ab_bundle_anchor b = Some x \<and> ba_backend x = ''rekor'' \<and> ver (bundle_anchor_input x) = None
        \<and> ba_anchored_digest x = ComputeAnchoredRecordDigest g b
        \<and> to_lower (ba_leaf_hash x) = sha256_hex g (bundle_leaf_preimage g b))
    \<or> collides g [leaf_preimage g a, table_preimage (ab_pre_anchor a)]
                  [leaf_preimage g b, table_preimage (ab_pre_anchor b)]"
proof -
  from same_leaf_parts [OF assms(1-4)] show ?thesis
  proof
    assume "leaf_preimage_parts g a = leaf_preimage_parts g b"
    from same_parts_table [OF this assms(6,7,5)] show ?thesis
    proof
      assume "ab_pre_anchor a = ab_pre_anchor b"
      then have r: "TableRequiresCompleteRecordAnchor (ab_pre_anchor b)" using req by simp
      have "bc_Match (verifyBundleAnchor g ver b)" and p: "bc_Performed (verifyBundleAnchor g ver b)"
        using ok r leaf_match(2) [OF assms(2)] by (simp_all add: requirement_iff)
      from this(1) show ?thesis using p
        by (elim anchor_match) (simp add: bundle_leaf_preimage_def)
    next
      assume "collides g [table_preimage (ab_pre_anchor a)] [table_preimage (ab_pre_anchor b)]"
      then show ?thesis by (intro disjI2, elim collides_mono) auto
    qed
  next
    assume "collides g [leaf_preimage g a] [leaf_preimage g b]"
    then show ?thesis by (intro disjI2, elim collides_mono) auto
  qed
qed

section \<open>A complete sealed record\<close>

definition with_anchor :: "golib \<Rightarrow> audit_bundle \<Rightarrow> audit_bundle" where
  "with_anchor g b = b\<lparr>ab_bundle_anchor := Some \<lparr>
     ba_kind = BundleAnchorKind, ba_digest_form = BundleAnchorDigestForm,
     ba_anchored_digest = ComputeAnchoredRecordDigest g b, ba_backend = ''rekor'', ba_log_entry_id = ''7'', ba_log_id = [],
     ba_leaf_hash = sha256_hex g (bundle_leaf_preimage g b), ba_log_index = 1, ba_tree_size = 2, ba_root_hash = [],
     ba_inclusion_path = None, ba_checkpoint = [], ba_signed_entry_timestamp = [], ba_integrated_time = 0,
     ba_entry_body = []\<rparr>\<rparr>"

lemma with_anchor_sources [simp]:
  "record_sources g (with_anchor g b) = record_sources g b" "section_sources g (with_anchor g b) = section_sources g b"
  "audit_bundle_preimage (with_anchor g b) = audit_bundle_preimage b"
  "stored_hashes (with_anchor g b) = stored_hashes b" "ab_envelope (with_anchor g b) = ab_envelope b"
  "ab_pre_anchor (with_anchor g b) = ab_pre_anchor b" "ab_rekor_anchor (with_anchor g b) = ab_rekor_anchor b"
  by (simp_all add: with_anchor_def section_sources_def record_sources_def stored_hashes_def
        audit_bundle_preimage_def scaffold_notes_preimage_def seal_references_preimage_def named_seals_def
        section_residue_preimage_def record_metadata_preimage_def)

lemma with_anchor_digest [simp]: "ComputeAnchoredRecordDigest g (with_anchor g b) = ComputeAnchoredRecordDigest g b"
  by (simp add: ComputeAnchoredRecordDigest_def anchored_pairs_pre)

lemma with_anchor_match:
  assumes "ValidateBundleLeafFields (env_envelope_id (ab_envelope b)) (ComputeAnchoredRecordDigest g b) = None"
    and "\<And>i. ver i = None"
  shows "bc_Match (verifyBundleAnchor g ver (with_anchor g b))" "bc_Performed (verifyBundleAnchor g ver (with_anchor g b))"
proof -
  have "ab_bundle_anchor (with_anchor g b) = Some x \<longleftrightarrow> x = the (ab_bundle_anchor (with_anchor g b))" for x
    by (auto simp: with_anchor_def)
  show "bc_Match (verifyBundleAnchor g ver (with_anchor g b))" "bc_Performed (verifyBundleAnchor g ver (with_anchor g b))"
    using assms unfolding verifyBundleAnchor_def with_anchor_digest with_anchor_sources
    by (simp_all add: with_anchor_def Let_def ComputeBundleLeafHash_def bundle_leaf_preimage_def bundle_anchor_absent_def)
qed

lemma sample_leaf_fields:
  assumes "digest32 g" "env_envelope_id (ab_envelope b) = ''env-1''"
  shows "ValidateBundleLeafFields (env_envelope_id (ab_envelope b)) (ComputeAnchoredRecordDigest g b) = None"
  using sha256_hex64 [OF assms(1)] assms(2)
  by (simp add: ValidateBundleLeafFields_def ComputeAnchoredRecordDigest_def is_hex64_def sha256_hex_chars)

definition complete_sample :: audit_bundle where
  "complete_sample = with_anchor toy_lib sample_bundle"

lemma complete_sample_wf:
  "bundle_wf toy_lib complete_sample" "record_wf toy_lib complete_sample"
  "stored_hashes complete_sample = recomputed_hashes toy_lib complete_sample"
  "bc_Match (verifyBundleAnchor toy_lib (\<lambda>_. None) complete_sample)"
proof -
  show "bundle_wf toy_lib complete_sample" "record_wf toy_lib complete_sample"
    "stored_hashes complete_sample = recomputed_hashes toy_lib complete_sample"
    using sample_wf by (simp_all add: complete_sample_def bundle_wf_def record_wf_def recomputed_pre)
  have "env_envelope_id (ab_envelope sample_bundle) = ''env-1''"
    by (simp add: sample_bundle_def fill_hashes_def named_zero_def)
  then show "bc_Match (verifyBundleAnchor toy_lib (\<lambda>_. None) complete_sample)"
    unfolding complete_sample_def by (intro with_anchor_match sample_leaf_fields toy_digest32) simp_all
qed

text \<open>A copy with another first entry.\<close>

lemma record_entry_fixes_content_witness:
  defines "other \<equiv> complete_sample\<lparr>ab_rekor_anchor := zero_rekor_anchor\<lparr>ra_backend := ''rekor''\<rparr>\<rparr>"
  shows "same_content toy_lib complete_sample other
    \<or> collides toy_lib (content_preimages toy_lib complete_sample) (content_preimages toy_lib other)"
proof -
  have same: "section_sources toy_lib other = section_sources toy_lib complete_sample"
    "record_sources toy_lib other = record_sources toy_lib complete_sample"
    "stored_hashes other = stored_hashes complete_sample"
    "audit_bundle_preimage other = audit_bundle_preimage complete_sample"
    "ab_bundle_anchor other = ab_bundle_anchor complete_sample" "ab_envelope other = ab_envelope complete_sample"
    by (simp_all add: other_def section_sources_def record_sources_def stored_hashes_def
        audit_bundle_preimage_def scaffold_notes_preimage_def seal_references_preimage_def named_seals_def
        section_residue_preimage_def record_metadata_preimage_def)
  then have d: "ComputeAnchoredRecordDigest toy_lib other = ComputeAnchoredRecordDigest toy_lib complete_sample"
    by (simp add: ComputeAnchoredRecordDigest_def anchored_pairs_pre)
  have m: "bc_Match (verifyBundleAnchor toy_lib (\<lambda>_. None) other)"
    using complete_sample_wf(4) unfolding verifyBundleAnchor_def d same .
  show ?thesis
    using record_entry_fixes_content [OF complete_sample_wf(4) m] complete_sample_wf(1-3)
    by (simp add: same bundle_wf_def record_wf_def recomputed_pre recorded_leaf_def)
qed

lemma leaf_check_ignores_anchor: "verifyLeafBinding g (with_anchor h b) = verifyLeafBinding g b"
proof -
  have "leaf_preimage_parts g (with_anchor h b) = leaf_preimage_parts g b" "missing_inputs (with_anchor h b) = missing_inputs b"
    by (simp_all add: leaf_preimage_parts_def missing_inputs_def with_anchor_def Let_def cong: if_cong)
  then show ?thesis by (simp add: verifyLeafBinding_def)
qed

lemma table_check_ignores_anchor: "verifyPreAnchor g (with_anchor h b) = verifyPreAnchor g b"
proof -
  have "preAnchorDisplayedRows g (with_anchor h b) = preAnchorDisplayedRows g b"
    by (simp add: preAnchorDisplayedRows_def with_anchor_def fun_eq_iff Let_def)
  moreover have "ab_pre_anchor_digest (with_anchor h b) = ab_pre_anchor_digest b" by (simp add: with_anchor_def)
  ultimately show ?thesis by (simp only: verifyPreAnchor_def with_anchor_sources)
qed

lemma deleted_anchor_detected_witness:
  defines "b \<equiv> with_anchor toy_lib (tabled_sample ''other'')"
  shows "(\<exists>x. ab_bundle_anchor b = Some x \<and> ba_backend x = ''rekor'')
    \<or> collides toy_lib
        [leaf_preimage toy_lib (tabled_sample ''completed''), table_preimage (ab_pre_anchor (tabled_sample ''completed''))]
        [leaf_preimage toy_lib b, table_preimage (ab_pre_anchor b)]"
proof -
  have e: "env_envelope_id (ab_envelope (tabled_sample ''other'')) = ''env-1''"
    and t: "ab_pre_anchor (tabled_sample s) = table_for toy_lib PreAnchorNamesV2 (anchored_sample s)" for s
    by (simp_all add: tabled_sample_def with_leaf_def with_table_def anchored_sample_def Let_def)
  note m = with_anchor_match [OF sample_leaf_fields [OF toy_digest32 e], of "\<lambda>_. None", OF refl]
  have l: "lc_Match (verifyLeafBinding toy_lib b)" "pc_Match (verifyPreAnchor toy_lib b)"
    by (simp_all add: b_def leaf_check_ignores_anchor table_check_ignores_anchor tabled_match)
  have r: "TableRequiresCompleteRecordAnchor (ab_pre_anchor (tabled_sample ''completed''))"
    by (simp add: t table_for_flags)
  have f: "to_lower (ra_leaf_hash (ab_rekor_anchor (tabled_sample ''completed''))) = to_lower (ra_leaf_hash (ab_rekor_anchor b))"
    using tabled_facts(1) by (simp add: b_def)
  have p: "bc_Present (verifyBundleAnchor toy_lib (\<lambda>_. None) b)"
    using m(1) unfolding b_def by (rule match_present)
  have "cr_Satisfied (verifyCompleteRecordRequirement b (verifyBundleAnchor toy_lib (\<lambda>_. None) b))"
    using m p by (simp add: requirement_iff b_def t table_for_flags)
  then show ?thesis
    using deleted_anchor_detected [OF tabled_match(1) l(1) f tabled_facts(2,3) tabled_match(2) l(2) r] by blast
qed

end
