(* ===== verification/Actor.thy ===== *)
theory Actor
  imports BundleAnchor "HOL-Library.List_Lexorder" "HOL-Library.Char_ord"
begin

text \<open>
  nrep.go, requestsig.go, recordidentity.go, timing.go and the job block of job.go: who
  signed and who requested a run, what kind of record it is, and its measured times. Go
  compares strings byte by byte, which is the lexicographic order of the library on the
  character codes.
\<close>

section \<open>The job block\<close>

definition MaxJobPrevious :: nat where "MaxJobPrevious = 64"
definition MaxJobExternal :: nat where "MaxJobExternal = 16"

definition job_char :: "char \<Rightarrow> bool" where
  "job_char c \<longleftrightarrow> in_range c 65 90 \<or> in_range c 97 122 \<or> in_range c 48 57 \<or> c \<in> set ''._:-''"

definition jobNamePattern :: "string \<Rightarrow> bool" where
  "jobNamePattern s \<longleftrightarrow> 1 \<le> length s \<and> length s \<le> 128 \<and> list_all job_char s"

datatype job_list = PreviousRecordHashes | ExternalPrevious
datatype job_error =
    JobEmpty | JobIdMalformed | StepIdMalformed
  | HashesTooMany job_list nat nat
  | HashMalformed job_list nat
  | HashesUnsorted job_list

fun validate_hashes :: "job_list \<Rightarrow> nat \<Rightarrow> string option \<Rightarrow> string list \<Rightarrow> job_error option" where
  "validate_hashes name i prev [] = None"
| "validate_hashes name i prev (h # hs) =
     (if \<not> is_hex64 h then Some (HashMalformed name i)
      else if (case prev of None \<Rightarrow> False | Some p \<Rightarrow> p \<ge> h) then Some (HashesUnsorted name)
      else validate_hashes name (Suc i) (Some h) hs)"

definition validateHashList :: "job_list \<Rightarrow> string list \<Rightarrow> nat \<Rightarrow> job_error option" where
  "validateHashList name hashes limit =
     (if length hashes > limit then Some (HashesTooMany name (length hashes) limit)
      else validate_hashes name 0 None hashes)"

definition JobLink_Validate :: "job_link option \<Rightarrow> job_error option" where
  "JobLink_Validate j = (case j of
     None \<Rightarrow> Some JobEmpty
   | Some j \<Rightarrow>
      if \<not> jobNamePattern (jl_job_id j) then Some JobIdMalformed
      else if \<not> jobNamePattern (jl_step_id j) then Some StepIdMalformed
      else (case validateHashList PreviousRecordHashes (jl_previous_record_hashes j) MaxJobPrevious of
          Some e \<Rightarrow> Some e
        | None \<Rightarrow> validateHashList ExternalPrevious (jl_external_previous j) MaxJobExternal))"

section \<open>The actor signature\<close>

definition nrepPreimageVersion :: string where "nrepPreimageVersion = ''verdifax.nrep.v1''"

text \<open>The buffer loop writes the parts with a null byte before each but the first.\<close>

definition nrepPreimage :: "string \<Rightarrow> string \<Rightarrow> string \<Rightarrow> string \<Rightarrow> bytes" where
  "nrepPreimage envelopeID aerHash actorID runClock =
     null_join [nrepPreimageVersion, envelopeID, aerHash, actorID, runClock]"

datatype nrep_reason =
    NoActorClaimed | PartlyPopulated | NoSignedAt
  | ActorKeyNotBase64 | ActorKeyLength nat | ActorSignatureNotBase64 | ActorSignatureLength nat | ActorSignatureFails

record nrep_check =
  nc_Performed :: bool
  nc_Match :: bool
  nc_ActorID :: string
  nc_Reason :: "nrep_reason option"
  nc_KeyPinned :: bool
  nc_Sealed :: bool

definition nc_fail :: "string \<Rightarrow> nrep_reason \<Rightarrow> nrep_check" where
  "nc_fail actor r = \<lparr>nc_Performed = True, nc_Match = False, nc_ActorID = actor, nc_Reason = Some r,
     nc_KeyPinned = False, nc_Sealed = False\<rparr>"

definition verifyNrepSignature :: "golib \<Rightarrow> audit_bundle \<Rightarrow> leaf_binding_check \<Rightarrow> nrep_check" where
  "verifyNrepSignature g b leaf =
     (let sec = ab_nrep b; actor = nr_actor_id sec in
      if actor = [] \<and> nr_public_key sec = [] \<and> nr_signature sec = [] then
        \<lparr>nc_Performed = False, nc_Match = False, nc_ActorID = [], nc_Reason = Some NoActorClaimed,
         nc_KeyPinned = False, nc_Sealed = False\<rparr>
      else if actor = [] \<or> nr_public_key sec = [] \<or> nr_signature sec = [] then nc_fail actor PartlyPopulated
      else if nr_signed_at sec = [] then
        \<lparr>nc_Performed = False, nc_Match = False, nc_ActorID = actor, nc_Reason = Some NoSignedAt,
         nc_KeyPinned = False, nc_Sealed = False\<rparr>
      else (case base64_decode (nr_public_key sec) of
        None \<Rightarrow> nc_fail actor ActorKeyNotBase64
      | Some pub \<Rightarrow>
         if length pub \<noteq> 32 then nc_fail actor (ActorKeyLength (length pub))
         else (case base64_decode (nr_signature sec) of
           None \<Rightarrow> nc_fail actor ActorSignatureNotBase64
         | Some sig \<Rightarrow>
            if length sig \<noteq> 64 then nc_fail actor (ActorSignatureLength (length sig))
            else if \<not> gl_ed25519_verify g pub (nrepPreimage (env_envelope_id (ab_envelope b))
                (vf_aer_hash (ab_final_vfa b)) actor (nr_signed_at sec)) sig
            then nc_fail actor ActorSignatureFails
            else \<lparr>nc_Performed = True, nc_Match = True, nc_ActorID = actor, nc_Reason = None, nc_KeyPinned = False,
                  nc_Sealed = (lc_Performed leaf \<and> lc_Match leaf \<and> lc_Form leaf = leafDomainV3)\<rparr>)))"

definition sealedByPreAnchor :: "nrep_check \<Rightarrow> leaf_binding_check \<Rightarrow> pre_anchor_check \<Rightarrow> nrep_check" where
  "sealedByPreAnchor c leaf pre =
     (if nc_Sealed c \<or> \<not> nc_Performed c \<or> \<not> nc_Match c then c
      else if \<not> lc_Performed leaf \<or> \<not> lc_Match leaf then c
      else if lc_Form leaf \<notin> {leafDomainV5, leafDomainV6, leafDomainV7} then c
      else if \<not> pc_Performed pre \<or> \<not> pc_Match pre then c
      else c\<lparr>nc_Sealed := True\<rparr>)"

definition sealedOnlyWhenLogged :: "nrep_check \<Rightarrow> rekor_anchor_check \<Rightarrow> entry_auth_check \<Rightarrow> nrep_check" where
  "sealedOnlyWhenLogged c anchor auth =
     (if nc_Sealed c \<and> \<not> (rk_Performed anchor \<and> rk_Match anchor \<and> ea_Performed auth \<and> ea_Match auth)
      then c\<lparr>nc_Sealed := False\<rparr> else c)"

section \<open>The request signature\<close>

record sealed_request_fields =
  srf_PayloadHash :: string
  srf_ProgramID :: string
  srf_RouteID :: string
  srf_RegistryRecordHash :: string
  srf_AiOutputHash :: string

definition RequestSignatureVersion2 :: string where "RequestSignatureVersion2 = ''2''"

definition RequestSignaturePreimage ::
  "string \<Rightarrow> string \<Rightarrow> string \<Rightarrow> string \<Rightarrow> string \<Rightarrow> string \<Rightarrow> bytes" where
  "RequestSignaturePreimage payloadHash programID routeID registryRecordHash signedAt nonce =
     null_join [''verdifax.request.v1'', payloadHash, programID, routeID, registryRecordHash, signedAt, nonce]"

definition RequestSignaturePreimageV2 ::
  "string \<Rightarrow> sealed_request_fields \<Rightarrow> job_link option \<Rightarrow> string \<Rightarrow> string \<Rightarrow> bytes" where
  "RequestSignaturePreimageV2 bodyHash f job signedAt nonce =
     null_join ([''verdifax.request.v2'', bodyHash, srf_PayloadHash f, srf_ProgramID f, srf_RouteID f,
       srf_RegistryRecordHash f, srf_AiOutputHash f] @ job_link_fields job @ [signedAt, nonce])"

datatype request_reason =
    NoRequestSignature | RequestKeyMalformed | RequestSignatureMalformed | SignedAtMalformed | NonceMalformed
  | BodyHashLength | OtherAiOutput | UnknownRequestVersion string | RequestSignatureFails
  | RequestNeedsSignature | RequestNeedsVersion2 | OtherRequest | SignerNeedsSignature | OtherSigner
  | RequestJob job_error

record request_check =
  qc_Performed :: bool
  qc_Match :: bool
  qc_PublicKey :: string
  qc_KeyPinned :: bool
  qc_Reason :: "request_reason option"
  qc_BodyHash :: string
  qc_RequestMatched :: bool

definition requestSignatureFailure :: "string \<Rightarrow> request_reason \<Rightarrow> request_check" where
  "requestSignatureFailure key r = \<lparr>qc_Performed = True, qc_Match = False, qc_PublicKey = key, qc_KeyPinned = False,
     qc_Reason = Some r, qc_BodyHash = [], qc_RequestMatched = False\<rparr>"

text \<open>The signed bytes the record's own values give, or the reason there are none.\<close>

definition request_preimage ::
  "request_signature \<Rightarrow> sealed_request_fields \<Rightarrow> job_link option \<Rightarrow> request_reason + bytes" where
  "request_preimage sig f job =
     (if rs_version sig = [] then
        Inr (RequestSignaturePreimage (srf_PayloadHash f) (srf_ProgramID f) (srf_RouteID f) (srf_RegistryRecordHash f)
          (rs_signed_at sig) (rs_nonce sig))
      else if rs_version sig = RequestSignatureVersion2 then
        (if length (rs_body_hash sig) \<noteq> 64 then Inl BodyHashLength
         else if rs_ai_output_hash sig \<noteq> srf_AiOutputHash f then Inl OtherAiOutput
         else Inr (RequestSignaturePreimageV2 (rs_body_hash sig) f job (rs_signed_at sig) (rs_nonce sig)))
      else Inl (UnknownRequestVersion (rs_version sig)))"

definition checkRequestSignature ::
  "golib \<Rightarrow> request_signature \<Rightarrow> sealed_request_fields \<Rightarrow> job_link option \<Rightarrow> request_check" where
  "checkRequestSignature g sig f job =
     (let fail = requestSignatureFailure (rs_public_key sig) in
      case base64_decode (rs_public_key sig) of
        None \<Rightarrow> fail RequestKeyMalformed
      | Some pub \<Rightarrow>
         if length pub \<noteq> 32 then fail RequestKeyMalformed
         else (case base64_decode (rs_signature sig) of
           None \<Rightarrow> fail RequestSignatureMalformed
         | Some raw \<Rightarrow>
            if length raw \<noteq> 64 then fail RequestSignatureMalformed
            else if parse_rfc3339 (rs_signed_at sig) = None then fail SignedAtMalformed
            else if (case hex_decode (rs_nonce sig) of None \<Rightarrow> True | Some n \<Rightarrow> length n \<noteq> 16) then fail NonceMalformed
            else (case request_preimage sig f job of
              Inl r \<Rightarrow> fail r
            | Inr preimage \<Rightarrow>
               if \<not> gl_ed25519_verify g pub preimage raw then fail RequestSignatureFails
               else \<lparr>qc_Performed = True, qc_Match = True, qc_PublicKey = rs_public_key sig, qc_KeyPinned = False,
                     qc_Reason = None, qc_BodyHash = rs_body_hash sig, qc_RequestMatched = False\<rparr>)))"

definition sealed_fields_of :: "audit_bundle \<Rightarrow> sealed_request_fields" where
  "sealed_fields_of b = (let e = ab_envelope b in
     \<lparr>srf_PayloadHash = env_payload_hash e, srf_ProgramID = env_program_id e, srf_RouteID = env_route_id e,
      srf_RegistryRecordHash = env_registry_record_hash e, srf_AiOutputHash = ai_ai_output_hash (ab_aivp_t4 b)\<rparr>)"

definition verifyRequestSignature :: "golib \<Rightarrow> audit_bundle \<Rightarrow> request_check" where
  "verifyRequestSignature g b = (case nr_request_signature (ab_nrep b) of
     None \<Rightarrow> \<lparr>qc_Performed = False, qc_Match = False, qc_PublicKey = [], qc_KeyPinned = False,
       qc_Reason = Some NoRequestSignature, qc_BodyHash = [], qc_RequestMatched = False\<rparr>
   | Some sig \<Rightarrow> checkRequestSignature g sig (sealed_fields_of b) (nr_job (ab_nrep b)))"

definition applyRequestFile :: "golib \<Rightarrow> request_check \<Rightarrow> bytes \<Rightarrow> request_check" where
  "applyRequestFile g c signedBytes =
     (if \<not> qc_Performed c \<or> \<not> qc_Match c
      then c\<lparr>qc_Match := False, qc_Performed := True, qc_Reason := Some RequestNeedsSignature\<rparr>
      else if qc_BodyHash c = [] then c\<lparr>qc_Match := False, qc_Reason := Some RequestNeedsVersion2\<rparr>
      else if sha256_hex g signedBytes \<noteq> qc_BodyHash c then c\<lparr>qc_Match := False, qc_Reason := Some OtherRequest\<rparr>
      else c\<lparr>qc_RequestMatched := True\<rparr>)"

text \<open>The pinned key; the second component is what AllPassed becomes.\<close>

definition applySignerKey :: "request_check \<Rightarrow> bool \<Rightarrow> string \<Rightarrow> request_check \<times> bool" where
  "applySignerKey c allPassed want =
     (if \<not> qc_Performed c then (requestSignatureFailure [] SignerNeedsSignature, False)
      else if qc_Match c \<and> qc_PublicKey c = want then (c\<lparr>qc_KeyPinned := True\<rparr>, allPassed)
      else if qc_Match c then (c\<lparr>qc_Match := False, qc_Reason := Some OtherSigner\<rparr>, False)
      else (c, allPassed))"

section \<open>The identity of a record\<close>

datatype identity_reason = NotRunEnvelope string | PreTableLeaf string

record record_identity_check =
  ri_Performed :: bool
  ri_Match :: bool
  ri_Reason :: "identity_reason option"

definition runEnvelopeID :: "string \<Rightarrow> bool" where
  "runEnvelopeID s \<longleftrightarrow> take 4 s = ''env-'' \<and> length s = 20 \<and> list_all is_lower_hex (drop 4 s)"

definition preTableLeafCutover :: int where
  "preTableLeafCutover = unix_seconds 2026 10 15 19 51 6"

text \<open>time.Unix counts seconds from the year 1 in an int64, so it wraps around for a huge argument.\<close>

definition time_unix :: "int \<Rightarrow> int" where
  "time_unix s = signed_take_bit 63 (s + 62135596800)"

definition verifyRecordIdentity :: "audit_bundle \<Rightarrow> leaf_binding_check \<Rightarrow> record_identity_check" where
  "verifyRecordIdentity b leaf =
     (let it = ra_integrated_time (ab_rekor_anchor b) in
      if ra_backend (ab_rekor_anchor b) \<noteq> ''rekor''
      then \<lparr>ri_Performed = False, ri_Match = False, ri_Reason = None\<rparr>
      else if \<not> runEnvelopeID (env_envelope_id (ab_envelope b))
      then \<lparr>ri_Performed = True, ri_Match = False, ri_Reason = Some (NotRunEnvelope (safePrefix (env_envelope_id (ab_envelope b))))\<rparr>
      else if lc_Form leaf \<in> {leafDomainV1, leafDomainV2, leafDomainV3}
          \<and> it \<noteq> 0 \<and> \<not> time_unix it < time_unix preTableLeafCutover
      then \<lparr>ri_Performed = True, ri_Match = False, ri_Reason = Some (PreTableLeaf (lc_Form leaf))\<rparr>
      else \<lparr>ri_Performed = True, ri_Match = True, ri_Reason = None\<rparr>)"

section \<open>Measured times\<close>

record timing_check =
  tc_Performed :: bool
  tc_Match :: bool
  tc_Stages :: nat

definition verifyRuntimeTiming :: "golib \<Rightarrow> audit_bundle \<Rightarrow> timing_check" where
  "verifyRuntimeTiming g b =
     (if ab_runtime_timing_hash b = [] \<and> ab_runtime_timing b = []
      then \<lparr>tc_Performed = False, tc_Match = False, tc_Stages = 0\<rparr>
      else if ComputeRuntimeTimingHash g (ab_runtime_timing b) \<noteq> ab_runtime_timing_hash b
      then \<lparr>tc_Performed = True, tc_Match = False, tc_Stages = length (ab_runtime_timing b)\<rparr>
      else \<lparr>tc_Performed = True, tc_Match = True, tc_Stages = length (ab_runtime_timing b)\<rparr>)"

section \<open>One form per job\<close>

lemma validate_hashes_sorted:
  "validate_hashes name i prev hs = None \<longleftrightarrow>
     list_all is_hex64 hs \<and> sorted_wrt (<) hs \<and> (case (prev, hs) of (Some p, h # _) \<Rightarrow> p < h | _ \<Rightarrow> True)"
proof (induction hs arbitrary: i prev)
  case (Cons h hs)
  have "(\<forall>x \<in> set hs. h < x) \<longleftrightarrow> (case hs of [] \<Rightarrow> True | x # _ \<Rightarrow> h < x)" if "sorted_wrt (<) hs"
    using that by (cases hs) (auto dest: order.strict_trans)
  then show ?case
    by (auto simp: Cons.IH not_le split: option.splits list.splits)
qed (simp split: option.splits)

lemma hash_list_valid:
  "validateHashList name hs limit = None \<longleftrightarrow> length hs \<le> limit \<and> list_all is_hex64 hs \<and> sorted_wrt (<) hs"
  by (auto simp: validateHashList_def validate_hashes_sorted)

lemma hex64_no_comma: "is_hex64 h \<Longrightarrow> CHR '','' \<notin> set h \<and> h \<noteq> []"
  by (auto simp: is_hex64_def list_all_iff is_lower_hex_def)

lemma hash_join_inject:
  assumes "list_all is_hex64 xs" "list_all is_hex64 ys" "join (CHR '','') xs = join (CHR '','') ys"
  shows "xs = ys"
proof -
  have free: "\<forall>x \<in> set zs. CHR '','' \<notin> set x" if "list_all is_hex64 zs" for zs
    using that hex64_no_comma by (auto simp: list_all_iff)
  have ne: "join (CHR '','') zs = [] \<Longrightarrow> zs = []" if "list_all is_hex64 zs" for zs
    using that hex64_no_comma by (cases zs rule: remdups_adj.cases) (auto simp: join_Cons)
  show ?thesis
  proof (cases "xs = [] \<or> ys = []")
    case True
    then show ?thesis using ne [OF assms(1)] ne [OF assms(2)] assms(3) by force
  next
    case False
    then have "concat (map (split_on (CHR '','')) xs) = concat (map (split_on (CHR '','')) ys)"
      by (intro join_component [OF assms(3)]) auto
    then show ?thesis using concat_split_free [OF free] assms by metis
  qed
qed

text \<open>C16. A job block has one hashed form: two job blocks that pass Validate and have the same
  fields, as they enter the section hash and the signed bytes, are the same block. Without
  Validate this fails, since the hash lists are joined with commas.\<close>

theorem valid_job_one_form:
  assumes "JobLink_Validate (Some j) = None" "JobLink_Validate (Some k) = None"
    and "job_link_fields (Some j) = job_link_fields (Some k)"
  shows "j = k \<and> sorted_wrt (<) (jl_previous_record_hashes j) \<and> sorted_wrt (<) (jl_external_previous j)"
proof -
  have v: "list_all is_hex64 (jl_previous_record_hashes x) \<and> list_all is_hex64 (jl_external_previous x)
      \<and> sorted_wrt (<) (jl_previous_record_hashes x) \<and> sorted_wrt (<) (jl_external_previous x)"
    if "JobLink_Validate (Some x) = None" for x
    using that by (auto simp: JobLink_Validate_def hash_list_valid split: if_splits option.splits)
  note j = v [OF assms(1)] and k = v [OF assms(2)]
  have e: "jl_job_id j = jl_job_id k" "jl_step_id j = jl_step_id k" "jl_final j = jl_final k"
    "join (CHR '','') (jl_previous_record_hashes j) = join (CHR '','') (jl_previous_record_hashes k)"
    "join (CHR '','') (jl_external_previous j) = join (CHR '','') (jl_external_previous k)"
    using assms(3) by (auto simp: job_link_fields_def split: if_splits)
  then have "jl_previous_record_hashes j = jl_previous_record_hashes k" "jl_external_previous j = jl_external_previous k"
    using hash_join_inject j k by blast+
  then show ?thesis using e j by (cases j; cases k) simp
qed

lemma valid_job_one_form_witness:
  defines "j \<equiv> \<lparr>jl_job_id = ''job'', jl_step_id = ''s1'', jl_previous_record_hashes = [replicate 64 (CHR ''a''), replicate 64 (CHR ''b'')],
     jl_external_previous = [], jl_final = False\<rparr>"
  shows "j = j \<and> sorted_wrt (<) (jl_previous_record_hashes j)"
proof -
  have "JobLink_Validate (Some j) = None" unfolding j_def by code_simp
  from valid_job_one_form [OF this this refl] show ?thesis by blast
qed

section \<open>Who requested a run\<close>

definition request_parts :: "request_signature \<Rightarrow> sealed_request_fields \<Rightarrow> job_link option \<Rightarrow> string list" where
  "request_parts sig f job =
     (if rs_version sig = [] then
        [''verdifax.request.v1'', srf_PayloadHash f, srf_ProgramID f, srf_RouteID f, srf_RegistryRecordHash f,
         rs_signed_at sig, rs_nonce sig]
      else [''verdifax.request.v2'', rs_body_hash sig, srf_PayloadHash f, srf_ProgramID f, srf_RouteID f,
         srf_RegistryRecordHash f, srf_AiOutputHash f] @ job_link_fields job @ [rs_signed_at sig, rs_nonce sig])"

lemma request_preimage_parts: "request_preimage sig f job = Inr m \<Longrightarrow> m = null_join (request_parts sig f job)"
  by (auto simp: request_preimage_def request_parts_def RequestSignaturePreimage_def RequestSignaturePreimageV2_def
      split: if_splits)

lemma length_job_fields: "length (job_link_fields j) = 6"
  by (simp add: job_link_fields_def split: option.splits)

definition request_tag :: "request_signature \<Rightarrow> string" where
  "request_tag s = (if rs_version s = [] then ''verdifax.request.v1'' else ''verdifax.request.v2'')"

lemma request_parts_tag:
  "request_parts s f j = request_tag s # tl (request_parts s f j)" "tl (request_parts s f j) \<noteq> []"
  by (simp_all add: request_parts_def request_tag_def)

lemma request_tags: "NUL \<notin> set (request_tag s)" "request_tag s = request_tag t \<longleftrightarrow> (rs_version s = [] \<longleftrightarrow> rs_version t = [])"
  by (simp_all add: request_tag_def)

lemma request_parts_inject:
  assumes "nul_free (request_parts s f j)" "null_join (request_parts s f j) = null_join (request_parts t h k)"
  shows "request_parts s f j = request_parts t h k"
proof -
  have "join NUL (request_tag s # tl (request_parts s f j)) = join NUL (request_tag t # tl (request_parts t h k))"
    using assms(2) request_parts_tag(1) [of s f j] request_parts_tag(1) [of t h k] unfolding null_join_def by argo
  then have "request_tag s = request_tag t"
    using join_head [OF request_tags(1) request_tags(1) request_parts_tag(2) request_parts_tag(2)] by blast
  then have "length (request_parts s f j) = length (request_parts t h k)"
    by (simp add: request_parts_def length_job_fields request_tags)
  then show ?thesis by (rule null_join_inject [OF assms(1) _ assms(2)])
qed

text \<open>The requests a key holder signed, as the list of the values each signature covers.\<close>

definition requests_signed ::
  "golib \<Rightarrow> bytes \<Rightarrow> (request_signature \<times> sealed_request_fields \<times> job_link option) list \<Rightarrow> bool" where
  "requests_signed g pub R \<longleftrightarrow>
     (\<forall>m s. gl_ed25519_verify g pub m s \<longrightarrow> (\<exists>(sig, f, job) \<in> set R. request_preimage sig f job = Inr m))
     \<and> (\<forall>(sig, f, job) \<in> set R. nul_free (request_parts sig f job))"

lemma request_match:
  assumes "qc_Match (checkRequestSignature g sig f job)"
  obtains pub raw m where "base64_decode (rs_public_key sig) = Some pub" "request_preimage sig f job = Inr m"
    "gl_ed25519_verify g pub m raw" "qc_PublicKey (checkRequestSignature g sig f job) = rs_public_key sig"
  using assms
  by (auto simp: checkRequestSignature_def requestSignatureFailure_def Let_def split: option.splits if_splits sum.splits)

text \<open>C15. A request signature names the request: when the holder of the key in a record signed only the
  requests of a list, whose values hold no null byte, a record whose request signature passes shows
  the payload hash, program, route, registry record, time and nonce of one of them, of the
  same version, and under version 2 also its body hash, AI output and job.\<close>

theorem request_names_signed:
  assumes "nr_request_signature (ab_nrep b) = Some sig" "qc_Match (verifyRequestSignature g b)"
    and "base64_decode (rs_public_key sig) = Some pub" "requests_signed g pub R"
  shows "\<exists>(t, f, job) \<in> set R.
      env_payload_hash (ab_envelope b) = srf_PayloadHash f \<and> env_program_id (ab_envelope b) = srf_ProgramID f
      \<and> env_route_id (ab_envelope b) = srf_RouteID f
      \<and> env_registry_record_hash (ab_envelope b) = srf_RegistryRecordHash f
      \<and> rs_signed_at sig = rs_signed_at t \<and> rs_nonce sig = rs_nonce t
      \<and> (rs_version sig = [] \<longleftrightarrow> rs_version t = [])
      \<and> (rs_version sig \<noteq> [] \<longrightarrow> rs_body_hash sig = rs_body_hash t
           \<and> ai_ai_output_hash (ab_aivp_t4 b) = srf_AiOutputHash f
           \<and> job_link_fields (nr_job (ab_nrep b)) = job_link_fields job)"
proof -
  let ?f = "sealed_fields_of b" and ?j = "nr_job (ab_nrep b)"
  have "qc_Match (checkRequestSignature g sig ?f ?j)" using assms(1,2) by (simp add: verifyRequestSignature_def)
  then obtain pub' raw m where k: "base64_decode (rs_public_key sig) = Some pub'"
    and m: "request_preimage sig ?f ?j = Inr m" and v: "gl_ed25519_verify g pub' m raw"
    by (rule request_match)
  have v: "gl_ed25519_verify g pub m raw" using k v assms(3) by simp
  from assms(4) v obtain x where x: "x \<in> set R" "case x of (t, f, job) \<Rightarrow> request_preimage t f job = Inr m"
    and free: "case x of (t, f, job) \<Rightarrow> nul_free (request_parts t f job)"
    unfolding requests_signed_def by blast
  obtain t f job where tfj: "x = (t, f, job)" by (rule prod_cases3)
  with x free have t: "(t, f, job) \<in> set R" "request_preimage t f job = Inr m" "nul_free (request_parts t f job)"
    by simp_all
  have "request_parts t f job = request_parts sig ?f ?j"
    using request_parts_inject [OF t(3)] request_preimage_parts [OF t(2)] request_preimage_parts [OF m] by metis
  then have "env_payload_hash (ab_envelope b) = srf_PayloadHash f \<and> env_program_id (ab_envelope b) = srf_ProgramID f
      \<and> env_route_id (ab_envelope b) = srf_RouteID f
      \<and> env_registry_record_hash (ab_envelope b) = srf_RegistryRecordHash f
      \<and> rs_signed_at sig = rs_signed_at t \<and> rs_nonce sig = rs_nonce t
      \<and> (rs_version sig = [] \<longleftrightarrow> rs_version t = [])
      \<and> (rs_version sig \<noteq> [] \<longrightarrow> rs_body_hash sig = rs_body_hash t
           \<and> ai_ai_output_hash (ab_aivp_t4 b) = srf_AiOutputHash f \<and> job_link_fields ?j = job_link_fields job)"
    by (auto simp: request_parts_def sealed_fields_of_def Let_def length_job_fields split: if_splits)
  with t(1) show ?thesis by blast
qed

text \<open>A version 1 request, its signature and a key that signed nothing else.\<close>

definition sample_request :: request_signature where
  "sample_request = \<lparr>rs_public_key = base64_encode (replicate 32 (CHR ''k'')), rs_signature = base64_encode (replicate 64 (CHR ''s'')),
     rs_signed_at = ''2026-11-01T12:00:00Z'', rs_nonce = replicate 32 (CHR ''0''), rs_version = [], rs_body_hash = [],
     rs_ai_output_hash = []\<rparr>"

definition requested_sample :: audit_bundle where
  "requested_sample = zero_audit_bundle\<lparr>ab_nrep := zero_nrep_section\<lparr>nr_request_signature := Some sample_request\<rparr>,
     ab_envelope := zero_envelope\<lparr>env_program_id := ''program''\<rparr>\<rparr>"

definition request_lib :: golib where
  "request_lib = toy_lib\<lparr>gl_ed25519_verify := \<lambda>k m s.
     m = null_join (request_parts sample_request (sealed_fields_of requested_sample) None)\<rparr>"

lemma sample_request_parses:
  "parse_rfc3339 (rs_signed_at sample_request) = Some \<lparr>gt_seconds = 1793534400, gt_nanos = 0\<rparr>"
  "hex_decode (rs_nonce sample_request) = Some (replicate 16 (CHR 0x00))"
proof -
  have "hex_decode (replicate 32 (CHR ''0'')) = Some (replicate 16 (CHR 0x00))" by code_simp
  then show "parse_rfc3339 (rs_signed_at sample_request) = Some \<lparr>gt_seconds = 1793534400, gt_nanos = 0\<rparr>"
    "hex_decode (rs_nonce sample_request) = Some (replicate 16 (CHR 0x00))"
    using windowed_clock by (simp_all only: sample_request_def request_signature.simps)
qed

lemma sample_request_match: "qc_Match (verifyRequestSignature request_lib requested_sample)"
proof -
  have r: "nr_request_signature (ab_nrep requested_sample) = Some sample_request" "nr_job (ab_nrep requested_sample) = None"
    by (simp_all add: requested_sample_def zero_nrep_section_def)
  have f: "rs_version sample_request = []" "rs_public_key sample_request = base64_encode (replicate 32 (CHR ''k''))"
    "rs_signature sample_request = base64_encode (replicate 64 (CHR ''s''))" by (simp_all add: sample_request_def)
  have p: "request_preimage sample_request (sealed_fields_of requested_sample) None
      = Inr (null_join (request_parts sample_request (sealed_fields_of requested_sample) None))"
    by (simp add: request_preimage_def request_parts_def RequestSignaturePreimage_def f)
  show ?thesis
    by (simp add: verifyRequestSignature_def r checkRequestSignature_def f base64_round_trip p sample_request_parses Let_def
        del: base64_encode.simps) (simp add: request_lib_def)
qed

lemma request_names_signed_witness:
  "env_program_id (ab_envelope requested_sample) = ''program''
   \<and> (\<exists>(t, f, job) \<in> set [(sample_request, sealed_fields_of requested_sample, None)].
        env_program_id (ab_envelope requested_sample) = srf_ProgramID f)"
proof -
  have r: "nr_request_signature (ab_nrep requested_sample) = Some sample_request"
    by (simp add: requested_sample_def)
  have k: "base64_decode (rs_public_key sample_request) = Some (replicate 32 (CHR ''k''))"
    by (simp add: sample_request_def base64_round_trip del: base64_encode.simps)
  have "requests_signed request_lib (replicate 32 (CHR ''k'')) [(sample_request, sealed_fields_of requested_sample, None)]"
    by (simp add: requests_signed_def request_lib_def request_parts_def request_preimage_def RequestSignaturePreimage_def
        nul_free_def RequestSignatureVersion2_def)
      (simp add: sample_request_def requested_sample_def sealed_fields_of_def zero_envelope_def)
  from request_names_signed [OF r sample_request_match k this] show ?thesis
    by (auto simp: requested_sample_def)
qed

section \<open>The request file\<close>

definition with_body_hash :: "string \<Rightarrow> audit_bundle \<Rightarrow> audit_bundle" where
  "with_body_hash h b = b\<lparr>ab_nrep := (ab_nrep b)\<lparr>nr_request_signature :=
     map_option (\<lambda>s. s\<lparr>rs_body_hash := h\<rparr>) (nr_request_signature (ab_nrep b))\<rparr>\<rparr>"

text \<open>A version 1 signature does not protect the body hash that the request file is compared with.
  Take any record with a passing version 1 request signature and any file. The record with the
  file's hash written into body_hash has the same section hash and the same complete-record
  digest, its request signature still passes, and the check of the request file then
  reports the file as the request the signature covers.\<close>

lemma version1_body_hash_unprotected:
  fixes anyFile :: bytes
  assumes "nr_request_signature (ab_nrep b) = Some sig" "rs_version sig = []"
    and "qc_Match (verifyRequestSignature g b)" "digest32 g"
  defines "forged \<equiv> with_body_hash (sha256_hex g anyFile) b"
  shows "qc_Match (verifyRequestSignature g forged)
    \<and> qc_RequestMatched (applyRequestFile g (verifyRequestSignature g forged) anyFile)
    \<and> NrepSection_SectionHash g (ab_nrep forged) = NrepSection_SectionHash g (ab_nrep b)
    \<and> ComputeAnchoredRecordDigest g forged = ComputeAnchoredRecordDigest g b"
proof -
  let ?s = "sig\<lparr>rs_body_hash := sha256_hex g anyFile\<rparr>"
  have r: "nr_request_signature (ab_nrep forged) = Some ?s" "nr_job (ab_nrep forged) = nr_job (ab_nrep b)"
    "sealed_fields_of forged = sealed_fields_of b"
    by (simp_all add: forged_def with_body_hash_def assms(1) sealed_fields_of_def)
  have p: "request_preimage ?s f j = request_preimage sig f j" for f j
    using assms(2) by (simp add: request_preimage_def)
  have "qc_Match (checkRequestSignature g sig (sealed_fields_of b) (nr_job (ab_nrep b)))"
    using assms(1,3) by (simp add: verifyRequestSignature_def)
  then have m: "qc_Match (verifyRequestSignature g forged) \<and> qc_Performed (verifyRequestSignature g forged)
      \<and> qc_BodyHash (verifyRequestSignature g forged) = sha256_hex g anyFile"
    by (auto simp: verifyRequestSignature_def r checkRequestSignature_def requestSignatureFailure_def p Let_def
        split: option.splits if_splits sum.splits)
  have "sha256_hex g anyFile \<noteq> []"
    using sha256_hex64 [OF assms(4), of anyFile] by (auto simp: is_hex64_def)
  then have a: "qc_RequestMatched (applyRequestFile g (verifyRequestSignature g forged) anyFile)"
    using m by (simp add: applyRequestFile_def)
  have n: "nrep_section_fields (ab_nrep forged) = nrep_section_fields (ab_nrep b)"
    using assms(1,2) by (simp add: nrep_section_fields_def forged_def with_body_hash_def request_signature_fields_def)
  have "record_sources g forged = record_sources g b"
    unfolding record_sources_def n
    by (simp add: forged_def with_body_hash_def audit_bundle_preimage_def scaffold_notes_preimage_def
        seal_references_preimage_def named_seals_def section_residue_preimage_def record_metadata_preimage_def)
  then have "ComputeAnchoredRecordDigest g forged = ComputeAnchoredRecordDigest g b"
    by (simp add: ComputeAnchoredRecordDigest_def anchored_pairs_pre)
  with m a show ?thesis by (simp add: nrep_hash_fields n)
qed

lemma version1_body_hash_unprotected_witness:
  "qc_RequestMatched (applyRequestFile request_lib
     (verifyRequestSignature request_lib (with_body_hash (sha256_hex request_lib ''another request'') requested_sample))
     ''another request'')"
proof -
  have r: "nr_request_signature (ab_nrep requested_sample) = Some sample_request" "rs_version sample_request = []"
    by (simp_all add: requested_sample_def sample_request_def)
  have "digest32 request_lib" using toy_digest32 by (simp add: digest32_def request_lib_def)
  from version1_body_hash_unprotected [OF r sample_request_match this] show ?thesis by blast
qed

section \<open>A sealed actor\<close>

text \<open>The check in the three steps of verify.\<close>

definition actor_check :: "golib \<Rightarrow> rekor_anchor_check \<Rightarrow> entry_auth_check \<Rightarrow> audit_bundle \<Rightarrow> nrep_check" where
  "actor_check g anchor auth b = sealedOnlyWhenLogged
     (sealedByPreAnchor (verifyNrepSignature g b (verifyLeafBinding g b)) (verifyLeafBinding g b) (verifyPreAnchor g b))
     anchor auth"

lemma actor_signed:
  assumes "nc_Match (verifyNrepSignature g b leaf)"
  shows "\<exists>pub sig. base64_decode (nr_public_key (ab_nrep b)) = Some pub
    \<and> base64_decode (nr_signature (ab_nrep b)) = Some sig
    \<and> gl_ed25519_verify g pub (nrepPreimage (env_envelope_id (ab_envelope b)) (vf_aer_hash (ab_final_vfa b))
         (nr_actor_id (ab_nrep b)) (nr_signed_at (ab_nrep b))) sig"
  using assms by (auto simp: verifyNrepSignature_def nc_fail_def Let_def split: if_splits option.splits)

lemma actor_sealed:
  assumes "nc_Sealed (actor_check g anchor auth b)"
  shows "lc_Match (verifyLeafBinding g b)" "rk_Match anchor" "ea_Match auth"
    "nc_Match (verifyNrepSignature g b (verifyLeafBinding g b))"
    "lc_Form (verifyLeafBinding g b) = leafDomainV3
     \<or> lc_Form (verifyLeafBinding g b) \<in> {leafDomainV5, leafDomainV6, leafDomainV7} \<and> pc_Match (verifyPreAnchor g b)"
  using assms
  by (auto simp: actor_check_def sealedOnlyWhenLogged_def sealedByPreAnchor_def verifyNrepSignature_def nc_fail_def Let_def
      split: if_splits option.splits)

definition actor_preimages :: "golib \<Rightarrow> audit_bundle \<Rightarrow> bytes list" where
  "actor_preimages g b = [leaf_preimage g b, table_preimage (ab_pre_anchor b),
     null_join (nrepSectionDomain # nrep_section_fields (ab_nrep b))]"

lemma same_section:
  assumes "NrepSection_SectionHash g m = NrepSection_SectionHash g n"
    and "nul_free (nrep_section_fields m)" "nul_free (nrep_section_fields n)"
  shows "nrep_section_fields m = nrep_section_fields n
    \<or> collides g [null_join (nrepSectionDomain # nrep_section_fields m)] [null_join (nrepSectionDomain # nrep_section_fields n)]"
proof -
  have "nul_free (nrepSectionDomain # fs)" if "nul_free fs" for fs
    using that by (simp add: nul_free_def nrepSectionDomain_def)
  then have "null_join (nrepSectionDomain # nrep_section_fields m) = null_join (nrepSectionDomain # nrep_section_fields n)
      \<Longrightarrow> nrep_section_fields m = nrep_section_fields n"
    using null_join_free [of "nrepSectionDomain # nrep_section_fields m" "nrepSectionDomain # nrep_section_fields n"] assms(2,3)
    by simp
  then show ?thesis using assms(1) by (auto simp: nrep_hash_fields nullJoinHash_def intro!: collidesI)
qed

lemma actor_values:
  "map_of (displayed g b) ''nrep_actor_id'' = Some (nr_actor_id (ab_nrep b))"
  "map_of (displayed g b) ''nrep_public_key'' = Some (nr_public_key (ab_nrep b))"
  "map_of (displayed g b) ''nrep_signature'' = Some (nr_signature (ab_nrep b))"
  "map_of (displayed g b) ''nrep_signed_at'' = Some (nr_signed_at (ab_nrep b))"
  by (simp_all add: displayed_def preAnchorDisplayedRows_def Let_def)

text \<open>C14. A sealed actor cannot be replaced: if two records with one anchored leaf are both reported with
  a sealed actor section, then the second carries a signature that verifies under the key it shows over its own
  envelope identifier, record hash, actor and clock, and the two show the same actor, key,
  signature and clock, or a leaf, a table or an actor section of the two collides.\<close>

theorem sealed_actor_fixed:
  assumes "nc_Sealed (actor_check g rka eaa a)" "nc_Sealed (actor_check g rkb eab b)"
    and "to_lower (ra_leaf_hash (ab_rekor_anchor a)) = to_lower (ra_leaf_hash (ab_rekor_anchor b))"
    and "dot_free_run a" "nul_free (map pe_value (ab_pre_anchor a))"
    and "nul_free (nrep_section_fields (ab_nrep a))" "nul_free (nrep_section_fields (ab_nrep b))"
  shows "(\<exists>pub sig. base64_decode (nr_public_key (ab_nrep b)) = Some pub
        \<and> gl_ed25519_verify g pub (nrepPreimage (env_envelope_id (ab_envelope b)) (vf_aer_hash (ab_final_vfa b))
             (nr_actor_id (ab_nrep b)) (nr_signed_at (ab_nrep b))) sig)
    \<and> (nr_actor_id (ab_nrep a) = nr_actor_id (ab_nrep b) \<and> nr_public_key (ab_nrep a) = nr_public_key (ab_nrep b)
         \<and> nr_signature (ab_nrep a) = nr_signature (ab_nrep b) \<and> nr_signed_at (ab_nrep a) = nr_signed_at (ab_nrep b)
       \<or> collides g (actor_preimages g a) (actor_preimages g b))"
    (is "?signed \<and> (?same \<or> ?coll)")
proof
  note A = actor_sealed [OF assms(1)] and B = actor_sealed [OF assms(2)]
  show ?signed using actor_signed [OF B(4)] by blast
  have coll: "collides g [p] [q] \<Longrightarrow> p \<in> set (actor_preimages g a) \<Longrightarrow> q \<in> set (actor_preimages g b) \<Longrightarrow> ?coll" for p q
    by (erule collides_mono) simp_all
  from same_leaf_parts [OF A(1) B(1) assms(3,4)] show "?same \<or> ?coll"
  proof
    assume parts: "leaf_preimage_parts g a = leaf_preimage_parts g b"
    have form: "lc_Form (verifyLeafBinding g a) = hd (leaf_preimage_parts g a)"
      "lc_Form (verifyLeafBinding g b) = hd (leaf_preimage_parts g a)"
      using leaf_form [OF A(1)] leaf_form [OF B(1)] parts by simp_all
    show ?thesis
    proof (cases "hd (leaf_preimage_parts g a) = leafDomainV3")
      case True
      from same_section [OF leaf_parts_fields(6) [OF parts True] assms(6,7)] show ?thesis
      proof
        assume "nrep_section_fields (ab_nrep a) = nrep_section_fields (ab_nrep b)"
        then show ?thesis using nrep_fields_first4 by blast
      next
        assume "collides g [null_join (nrepSectionDomain # nrep_section_fields (ab_nrep a))]
          [null_join (nrepSectionDomain # nrep_section_fields (ab_nrep b))]"
        then show ?thesis by (intro disjI2, elim coll) (simp_all add: actor_preimages_def)
      qed
    next
      case False
      then have pa: "pc_Match (verifyPreAnchor g a)" and pb: "pc_Match (verifyPreAnchor g b)"
        using A(5) B(5) form by auto
      from same_parts_table [OF parts pa pb assms(5)] show ?thesis
      proof
        assume "ab_pre_anchor a = ab_pre_anchor b"
        then have "displayed g a = displayed g b" by (rule same_table_displayed [OF pa pb])
        then have ?same using actor_values [of g a] actor_values [of g b] by simp
        then show ?thesis ..
      next
        assume "collides g [table_preimage (ab_pre_anchor a)] [table_preimage (ab_pre_anchor b)]"
        then show ?thesis by (intro disjI2, elim coll) (simp_all add: actor_preimages_def)
      qed
    qed
  next
    assume "collides g [leaf_preimage g a] [leaf_preimage g b]"
    then show ?thesis by (intro disjI2, elim coll) (simp_all add: actor_preimages_def)
  qed
qed

definition unleafed_actor :: "string \<Rightarrow> audit_bundle" where
  "unleafed_actor s = (anchored_sample s)\<lparr>
     ab_nrep := zero_nrep_section\<lparr>nr_actor_id := ''actor'', nr_public_key := base64_encode (replicate 32 (CHR ''k'')),
       nr_signature := base64_encode (replicate 64 (CHR ''s'')), nr_signed_at := ''2026-11-01T12:00:00Z''\<rparr>,
     ab_nrep_section_hash := ''sealed''\<rparr>"

definition actor_sample :: "string \<Rightarrow> audit_bundle" where
  "actor_sample s = with_leaf toy_lib (unleafed_actor s)"

lemma leaf_ignores_status: "leaf_preimage_parts g (b\<lparr>ab_status := s\<rparr>) = leaf_preimage_parts g b"
  by (simp add: leaf_preimage_parts_def Let_def cong: if_cong)

definition any_sig_lib :: golib where
  "any_sig_lib = toy_lib\<lparr>gl_ed25519_verify := \<lambda>k m s. True\<rparr>"

definition logged :: rekor_anchor_check where
  "logged = \<lparr>rk_Performed = True, rk_Backend = ''rekor'', rk_LogIndex = 1, rk_Match = True, rk_Reason = None,
     rk_Unverifiable = False, rk_StaleEntryNumber = False\<rparr>"

lemma same_digest_leaf: "gl_sha256 g = gl_sha256 h \<Longrightarrow> verifyLeafBinding g b = verifyLeafBinding h b"
  by (simp add: verifyLeafBinding_def leaf_preimage_parts_def ComputePreAnchorDigestFromTable_def
      ComputePreAnchorDigestV2FromTable_def ComputePreAnchorDigestV3FromTable_def nullJoinHashParts_def nullJoinHash_def
      NrepSection_SectionHash_def ComputeNrepSectionHash_def ComputeScaffoldFlagsHash_def sha256_hex_def Let_def)

lemma actor_sample_sealed: "nc_Sealed (actor_check any_sig_lib logged (entry_auth_none\<lparr>ea_Performed := True, ea_Match := True\<rparr>)
    (actor_sample s))"
proof -
  let ?b = "actor_sample s" and ?l = "verifyLeafBinding any_sig_lib (actor_sample s)"
  have l: "verifyLeafBinding any_sig_lib ?b = verifyLeafBinding toy_lib ?b"
    by (rule same_digest_leaf) (simp add: any_sig_lib_def)
  have f: "ra_backend (ab_rekor_anchor ?b) = ''rekor''" "ab_pre_anchor ?b = []" "ab_pre_anchor_digest ?b = []"
    "ab_nrep_section_hash ?b = ''sealed''"
    by (simp_all add: actor_sample_def unleafed_actor_def with_leaf_def anchored_sample_def zero_audit_bundle_def)
  have h: "sha256_hex toy_lib p \<noteq> []" for p
    using sha256_hex64 [OF toy_digest32, of p] by (auto simp: is_hex64_def)
  have m: "lc_Match ?l" unfolding l unfolding actor_sample_def
    by (rule with_leaf_match) (simp_all add: missing_inputs_def with_leaf_def unleafed_actor_def anchored_sample_def h)
  have form: "lc_Form ?l = leafDomainV3"
    using leaf_form [OF m] by (simp add: leaf_preimage_parts_def f TableSealsAnchoringWindow_def
        TableRequiresCompleteRecordAnchor_def Let_def)
  have p: "lc_Performed ?l" using m by (auto simp: verifyLeafBinding_def Let_def split: if_splits)
  have n: "nr_actor_id (ab_nrep ?b) = ''actor''" "nr_public_key (ab_nrep ?b) = base64_encode (replicate 32 (CHR ''k''))"
    "nr_signature (ab_nrep ?b) = base64_encode (replicate 64 (CHR ''s''))" "nr_signed_at (ab_nrep ?b) = ''2026-11-01T12:00:00Z''"
    by (simp_all add: actor_sample_def unleafed_actor_def with_leaf_def anchored_sample_def zero_audit_bundle_def zero_nrep_section_def)
  have "verifyNrepSignature any_sig_lib ?b ?l = \<lparr>nc_Performed = True, nc_Match = True, nc_ActorID = ''actor'',
      nc_Reason = None, nc_KeyPinned = False, nc_Sealed = True\<rparr>"
    by (simp add: verifyNrepSignature_def n base64_round_trip base64_encode_Nil m p form Let_def
        del: base64_encode.simps) (simp add: any_sig_lib_def)
  then show ?thesis
    by (simp add: actor_check_def sealedByPreAnchor_def sealedOnlyWhenLogged_def logged_def)
qed

lemma sealed_actor_fixed_witness:
  "nr_actor_id (ab_nrep (actor_sample ''completed'')) = nr_actor_id (ab_nrep (actor_sample ''other''))
    \<or> collides any_sig_lib (actor_preimages any_sig_lib (actor_sample ''completed'')) (actor_preimages any_sig_lib (actor_sample ''other''))"
proof -
  have "leaf_preimage_parts toy_lib (actor_sample ''completed'') = leaf_preimage_parts toy_lib (actor_sample ''other'')"
  proof -
    have "unleafed_actor ''other'' = (unleafed_actor ''completed'')\<lparr>ab_status := ''other''\<rparr>"
      by (simp add: unleafed_actor_def anchored_sample_def)
    then show ?thesis by (simp only: actor_sample_def with_leaf_parts leaf_ignores_status)
  qed
  moreover have "ra_leaf_hash (ab_rekor_anchor (actor_sample s)) = sha256_hex toy_lib (leaf_preimage toy_lib (actor_sample s))" for s
    by (simp add: actor_sample_def leaf_preimage_def with_leaf_parts) (simp add: with_leaf_def leaf_preimage_def)
  ultimately have r: "to_lower (ra_leaf_hash (ab_rekor_anchor (actor_sample ''completed'')))
      = to_lower (ra_leaf_hash (ab_rekor_anchor (actor_sample ''other'')))"
    by (simp add: leaf_preimage_def)
  have s: "nul_free (nrep_section_fields (ab_nrep (actor_sample s)))" for s
  proof -
    have "NUL \<notin> set (base64_encode x)" for x by (rule base64_free) (simp_all add: b64_value_def)
    then show ?thesis
      by (simp add: actor_sample_def unleafed_actor_def with_leaf_def anchored_sample_def nrep_section_fields_def zero_nrep_section_def nul_free_def
          del: base64_encode.simps)
  qed
  have "dot_free_run (actor_sample ''completed'')" "nul_free (map pe_value (ab_pre_anchor (actor_sample ''completed'')))"
    by (simp_all add: dot_free_run_def actor_sample_def unleafed_actor_def with_leaf_def anchored_sample_def zero_audit_bundle_def nul_free_def)
  from sealed_actor_fixed [OF actor_sample_sealed actor_sample_sealed r this s s] show ?thesis by blast
qed

section \<open>Which records can be a run's\<close>

lemma cutover: "preTableLeafCutover = 1792093866"
  unfolding preTableLeafCutover_def by code_simp

lemma time_unix_small: "int64_range s \<Longrightarrow> s \<le> 9223371974719179007 \<Longrightarrow> time_unix s = s + 62135596800"
  unfolding time_unix_def by (rule signed_take_bit_int_eq_self) (auto simp: int64_range_def)

lemma time_unix_wraps:
  assumes "int64_range s" "9223371974719179007 < s"
  shows "time_unix s = s + 62135596800 - 2 ^ 64"
proof -
  have "signed_take_bit 63 (s + 62135596800) = signed_take_bit 63 (s + 62135596800 - 2 ^ 64)"
    by (rule signed_take_bit_eq_iff_take_bit_eq [THEN iffD2]) (simp add: take_bit_eq_mod mod_eq_dvd_iff)
  also have "\<dots> = s + 62135596800 - 2 ^ 64"
    by (rule signed_take_bit_int_eq_self) (use assms in \<open>auto simp: int64_range_def\<close>)
  finally show ?thesis by (simp add: time_unix_def)
qed

lemma run_envelope_iff:
  "runEnvelopeID s \<longleftrightarrow> (\<exists>h. s = ''env-'' @ h \<and> length h = 16 \<and> list_all is_lower_hex h)"
proof
  assume "runEnvelopeID s"
  then show "\<exists>h. s = ''env-'' @ h \<and> length h = 16 \<and> list_all is_lower_hex h"
    by (intro exI [of _ "drop 4 s"]) (use append_take_drop_id [of 4 s] in \<open>auto simp: runEnvelopeID_def\<close>)
qed (auto simp: runEnvelopeID_def)

text \<open>Which anchored records can be a run's, exactly: the envelope identifier is env- and sixteen
  lowercase hex digits, and a leaf form without a table is accepted only with no logged time or
  one before 1792093866, the first entry of run 236. The comparison of times wraps around, so the
  last two thousand years of an int64 of seconds also count as before.\<close>

lemma record_identity_exact:
  assumes "ra_backend (ab_rekor_anchor b) = ''rekor''" "int64_range (ra_integrated_time (ab_rekor_anchor b))"
  shows "ri_Match (verifyRecordIdentity b leaf) \<longleftrightarrow>
    (\<exists>h. env_envelope_id (ab_envelope b) = ''env-'' @ h \<and> length h = 16 \<and> list_all is_lower_hex h)
    \<and> (lc_Form leaf \<notin> {leafDomainV1, leafDomainV2, leafDomainV3}
       \<or> ra_integrated_time (ab_rekor_anchor b) = 0
       \<or> ra_integrated_time (ab_rekor_anchor b) < 1792093866
       \<or> ra_integrated_time (ab_rekor_anchor b) > 9223371974719179007)"
proof -
  have c: "time_unix preTableLeafCutover = 1792093866 + 62135596800"
    by (simp add: cutover time_unix_small int64_range_def)
  have "time_unix it < time_unix preTableLeafCutover \<longleftrightarrow> it < 1792093866 \<or> it > 9223371974719179007"
    if "int64_range it" for it
  proof (cases "it \<le> 9223371974719179007")
    case True
    then show ?thesis using time_unix_small [OF that] c by auto
  next
    case False
    then show ?thesis using time_unix_wraps [OF that] that c by (auto simp: int64_range_def)
  qed
  then show ?thesis using assms by (auto simp: verifyRecordIdentity_def run_envelope_iff Let_def)
qed

lemma record_identity_exact_witness:
  defines "b \<equiv> zero_audit_bundle\<lparr>ab_rekor_anchor := zero_rekor_anchor\<lparr>ra_backend := ''rekor'', ra_integrated_time := 1792093865\<rparr>,
    ab_envelope := zero_envelope\<lparr>env_envelope_id := ''env-'' @ replicate 16 (CHR ''0'')\<rparr>\<rparr>"
  shows "ri_Match (verifyRecordIdentity b (verifyLeafBinding toy_lib b))"
proof -
  have "list_all is_lower_hex (replicate 16 (CHR ''0''))" by code_simp
  then show ?thesis
    using record_identity_exact [of b "verifyLeafBinding toy_lib b"]
    by (auto simp: b_def int64_range_def)
qed

end
