(* ===== verification/StrictJson.thy ===== *)
theory StrictJson
  imports Json
begin

text \<open>
  internal/artifacts/strictjson.go: the reading a bundle, a receipt or a policy document must
  pass before encoding/json decodes it. The walk reads the text token by token against a
  Go type, as the code does with json.Decoder, and refuses a key that is not a modelled
  field, two keys of one object that are equal under case folding, and a number not written
  in its canonical form; a scan refuses text and escapes that readers decode differently.
  The lemmas say that the walk accepts exactly the texts encoding/json's grammar accepts
  whose tree meets those rules, and that after the scan every decoded string is valid UTF-8
  without a NUL.
\<close>

section \<open>Go types\<close>

text \<open>
  What the walk looks at in a reflect.Type: a struct's exact JSON keys, a map's and a slice's
  element. Every other kind, and every type with its own UnmarshalJSON, is walked for
  duplicates and numbers only. Pointers are looked through.
\<close>

datatype go_type =
    GStruct "(string \<times> go_type) list"
  | GMap go_type
  | GSlice go_type
  | GOther

definition elem_type :: "go_type \<Rightarrow> go_type" where
  "elem_type t = (case t of GSlice e \<Rightarrow> e | _ \<Rightarrow> GOther)"

text \<open>The type of a member, or None for a key the struct does not model.\<close>

definition member_type :: "go_type \<Rightarrow> string \<Rightarrow> go_type option" where
  "member_type t key = (case t of
     GStruct fs \<Rightarrow> map_of fs key
   | GMap e \<Rightarrow> Some e
   | _ \<Rightarrow> Some GOther)"

section \<open>Numbers\<close>

datatype strict_error =
    Malformed
  | FoldEqualKeys string string
  | NotModelled string
  | MinusZero
  | IntegerOutOfRange string
  | NumberUnparsed string
  | NumberNotCanonical string string
  | NotUtf8
  | NulInString
  | UnpairedLow nat
  | UnpairedHigh nat
  | TrailingData

text \<open>^-?(0|[1-9][0-9]*)$, on a text that starts as a JSON number does.\<close>

definition integerLiteral :: "string \<Rightarrow> bool" where
  "integerLiteral t =
     (let ds = (case t of c # r \<Rightarrow> if c = CHR ''-'' then r else t | [] \<Rightarrow> t)
      in ds = ''0'' \<or> (case ds of d # r \<Rightarrow> is_digit d \<and> d \<noteq> CHR ''0'' \<and> list_all is_digit r | [] \<Rightarrow> False))"

text \<open>strconv.ParseUint with base 10 and 64 bits.\<close>

definition parse_uint64 :: "string \<Rightarrow> nat option" where
  "parse_uint64 t = (if t = [] then None else
     (case digits_value 0 t of Some n \<Rightarrow> if n < 2 ^ 64 then Some n else None | None \<Rightarrow> None))"

definition checkCanonicalNumber :: "golib \<Rightarrow> string \<Rightarrow> strict_error option" where
  "checkCanonicalNumber g text =
     (if integerLiteral text then
        (if text = ''-0'' then Some MinusZero
         else if parse_int64 text = None \<and> parse_uint64 text = None then Some (IntegerOutOfRange text)
         else None)
      else (case gl_parse_float g text of
         None \<Rightarrow> Some (NumberUnparsed text)
       | Some value \<Rightarrow>
          if gl_json_float g value \<noteq> text then Some (NumberNotCanonical text (gl_json_float g value))
          else None))"

section \<open>The walk\<close>

definition fold_prior :: "golib \<Rightarrow> string list \<Rightarrow> string \<Rightarrow> string option" where
  "fold_prior g seen key = find (\<lambda>prior. gl_equal_fold g prior key) seen"

text \<open>The rest of a token the grammar accepts, or the refusal.\<close>

definition or_malformed :: "string option \<Rightarrow> strict_error + string" where
  "or_malformed x = (case x of None \<Rightarrow> Inl Malformed | Some r \<Rightarrow> Inr r)"

text \<open>
  The first argument is fuel: each call consumes at least one byte, so twice the length of
  the text is enough. The decoder's token reader has no limit on the depth.
\<close>

fun walkStrict :: "golib \<Rightarrow> nat \<Rightarrow> go_type \<Rightarrow> string \<Rightarrow> strict_error + string"
  and walk_elems :: "golib \<Rightarrow> nat \<Rightarrow> go_type \<Rightarrow> string \<Rightarrow> strict_error + string"
  and walk_members :: "golib \<Rightarrow> nat \<Rightarrow> go_type \<Rightarrow> string list \<Rightarrow> string \<Rightarrow> strict_error + string" where
  "walkStrict g 0 t s = Inl Malformed"
| "walkStrict g (Suc n) t s =
     (case skip_ws s of [] \<Rightarrow> Inl Malformed | c # u \<Rightarrow>
        if c = CHR ''{'' then
          (case skip_ws u of
             x # r \<Rightarrow> if x = CHR ''}'' then Inr r else walk_members g n t [] (x # r)
           | [] \<Rightarrow> Inl Malformed)
        else if c = CHR ''['' then
          (case skip_ws u of
             x # r \<Rightarrow> if x = CHR '']'' then Inr r else walk_elems g n (elem_type t) (x # r)
           | [] \<Rightarrow> Inl Malformed)
        else if c = quote_char then or_malformed (map_option snd (unquote u))
        else if c = CHR ''t'' then or_malformed (strip_prefix ''true'' (c # u))
        else if c = CHR ''f'' then or_malformed (strip_prefix ''false'' (c # u))
        else if c = CHR ''n'' then or_malformed (strip_prefix ''null'' (c # u))
        else (case parse_number (c # u) of
           None \<Rightarrow> Inl Malformed
         | Some (text, r) \<Rightarrow>
            (case checkCanonicalNumber g text of Some e \<Rightarrow> Inl e | None \<Rightarrow> Inr r)))"
| "walk_elems g 0 t s = Inl Malformed"
| "walk_elems g (Suc n) t s =
     (case walkStrict g n t s of Inl e \<Rightarrow> Inl e | Inr r \<Rightarrow>
        (case skip_ws r of [] \<Rightarrow> Inl Malformed | c # u \<Rightarrow>
           if c = CHR 0x2C then walk_elems g n t u
           else if c = CHR '']'' then Inr u else Inl Malformed))"
| "walk_members g 0 t seen s = Inl Malformed"
| "walk_members g (Suc n) t seen s =
     (case skip_ws s of [] \<Rightarrow> Inl Malformed | q # u \<Rightarrow>
        if q \<noteq> quote_char then Inl Malformed
        else (case unquote u of None \<Rightarrow> Inl Malformed | Some (key, r) \<Rightarrow>
          (case fold_prior g seen key of Some prior \<Rightarrow> Inl (FoldEqualKeys prior key) | None \<Rightarrow>
          (case member_type t key of None \<Rightarrow> Inl (NotModelled key) | Some next \<Rightarrow>
          (case skip_ws r of [] \<Rightarrow> Inl Malformed | x # v \<Rightarrow>
             if x \<noteq> CHR '':'' then Inl Malformed
             else (case walkStrict g n next v of Inl e \<Rightarrow> Inl e | Inr w \<Rightarrow>
               (case skip_ws w of [] \<Rightarrow> Inl Malformed | c # y \<Rightarrow>
                  if c = CHR 0x2C then walk_members g n t (seen @ [key]) y
                  else if c = CHR ''}'' then Inr y else Inl Malformed)))))))"

section \<open>The text of the strings\<close>

text \<open>
  checkStringText after utf8.Valid: the flag says whether the position is inside a string.
  A truncated or malformed escape ends the scan; the decoder reports it.
\<close>

function scan_strings :: "bool \<Rightarrow> string \<Rightarrow> strict_error option" where
  "scan_strings inString [] = None"
| "scan_strings False (c # s) = scan_strings (c = quote_char) s"
| "scan_strings True (c # s) =
     (if c = quote_char then scan_strings False s
      else if c = backslash then
        (case s of [] \<Rightarrow> None | e # t \<Rightarrow>
           if e \<noteq> CHR ''u'' then scan_strings True t
           else (case hex4 t of
              None \<Rightarrow> None
            | Some (v, r) \<Rightarrow>
               if v = 0 then Some NulInString
               else if 0xDC00 \<le> v \<and> v \<le> 0xDFFF then Some (UnpairedLow v)
               else if 0xD800 \<le> v \<and> v \<le> 0xDBFF then
                 (case low_half r of None \<Rightarrow> Some (UnpairedHigh v) | Some (w, r') \<Rightarrow> scan_strings True r')
               else scan_strings True r))
      else scan_strings True s)"
  by pat_completeness auto
termination
  by (relation "measure (\<lambda>(b, s). length s)") (auto dest!: hex4_length low_half_length)

declare scan_strings.simps(3) [simp del]

definition checkStringText :: "string \<Rightarrow> strict_error option" where
  "checkStringText data = (if \<not> valid_utf8 data then Some NotUtf8 else scan_strings False data)"

section \<open>The strict reading\<close>

definition CheckStrict :: "golib \<Rightarrow> go_type \<Rightarrow> string \<Rightarrow> strict_error option" where
  "CheckStrict g t data =
     (case checkStringText data of Some e \<Rightarrow> Some e | None \<Rightarrow>
      (case walkStrict g (2 * length data + 2) t data of
         Inl e \<Rightarrow> Some e
       | Inr rest \<Rightarrow> if skip_ws rest \<noteq> [] then Some TrailingData else None))"

section \<open>What the walk accepts\<close>

text \<open>The same rules on the tree a JSON reader builds.\<close>

fun strict_tree :: "golib \<Rightarrow> go_type \<Rightarrow> json \<Rightarrow> bool"
  and strict_elems :: "golib \<Rightarrow> go_type \<Rightarrow> json list \<Rightarrow> bool"
  and strict_members :: "golib \<Rightarrow> go_type \<Rightarrow> string list \<Rightarrow> (string \<times> json) list \<Rightarrow> bool" where
  "strict_tree g t JNull \<longleftrightarrow> True"
| "strict_tree g t (JBool b) \<longleftrightarrow> True"
| "strict_tree g t (JNum x) \<longleftrightarrow> checkCanonicalNumber g x = None"
| "strict_tree g t (JStr s) \<longleftrightarrow> True"
| "strict_tree g t (JArr xs) \<longleftrightarrow> strict_elems g (elem_type t) xs"
| "strict_tree g t (JObj ms) \<longleftrightarrow> strict_members g t [] ms"
| "strict_elems g t [] \<longleftrightarrow> True"
| "strict_elems g t (x # xs) \<longleftrightarrow> strict_tree g t x \<and> strict_elems g t xs"
| "strict_members g t seen [] \<longleftrightarrow> True"
| "strict_members g t seen ((k, v) # ms) \<longleftrightarrow>
     fold_prior g seen k = None
   \<and> (case member_type t k of None \<Rightarrow> False | Some e \<Rightarrow> strict_tree g e v)
   \<and> strict_members g t (seen @ [k]) ms"

definition accepts :: "('e + string) \<Rightarrow> ('v \<times> string) option \<Rightarrow> ('v \<Rightarrow> bool) \<Rightarrow> bool" where
  "accepts w p P \<longleftrightarrow> (\<forall>r. w = Inr r \<longleftrightarrow> (\<exists>v. p = Some (v, r) \<and> P v))"

lemma accepts_Inl [simp]: "accepts (Inl e) None P"
  "accepts (Inl e) (Some (v, r)) P \<longleftrightarrow> \<not> P v"
  by (auto simp: accepts_def)

lemma accepts_Inr [simp]: "accepts (Inr r) (Some (v, r')) P \<longleftrightarrow> r = r' \<and> P v" "\<not> accepts (Inr r) None P"
  by (auto simp: accepts_def)

lemma acceptsE:
  assumes "accepts w p P"
  obtains (no) e where "w = Inl e" "\<And>v r. p = Some (v, r) \<Longrightarrow> \<not> P v"
    | (yes) v r where "w = Inr r" "p = Some (v, r)" "P v"
  using assms by (cases w; cases p) (auto simp: accepts_def)

lemma walk_accepts:
  "n \<le> d \<Longrightarrow> accepts (walkStrict g n t s) (parse_value n d s) (strict_tree g t)"
  "n \<le> d \<Longrightarrow> accepts (walk_elems g n t s) (parse_elems n d s) (strict_elems g t)"
  "n \<le> d \<Longrightarrow> accepts (walk_members g n t seen s) (parse_members n d s) (strict_members g t seen)"
proof (induction n arbitrary: d t s seen)
  case 0
  {
    case 1 then show ?case by simp
  next
    case 2 then show ?case by simp
  next
    case 3 then show ?case by simp
  }
next
  case (Suc n)
  {
    case 1
    then obtain d' where d: "d = Suc d'" "n \<le> d'" by (cases d) auto
    show ?case
    proof (cases "skip_ws s")
      case (Cons c u)
      consider "c = CHR ''{''" | "c = CHR ''[''" | "c \<noteq> CHR ''{''" "c \<noteq> CHR ''[''" by blast
      then show ?thesis
      proof cases
        case 1
        show ?thesis
        proof (cases "skip_ws u")
          case (Cons x r)
          from Suc.IH(3) [OF d(2), of t "[]" "x # r"] show ?thesis
            using \<open>skip_ws s = c # u\<close> 1 d Cons by (cases rule: acceptsE) (auto simp: accepts_def)
        qed (use \<open>skip_ws s = c # u\<close> 1 d in simp)
      next
        case 2
        show ?thesis
        proof (cases "skip_ws u")
          case (Cons x r)
          from Suc.IH(2) [OF d(2), of "elem_type t" "x # r"] show ?thesis
            using \<open>skip_ws s = c # u\<close> 2 d Cons by (cases rule: acceptsE) (auto simp: accepts_def)
        qed (use \<open>skip_ws s = c # u\<close> 2 d in simp)
      next
        case 3
        then show ?thesis using Cons
          by (auto simp: or_malformed_def accepts_def split: option.splits)
      qed
    qed simp
  next
    case 2
    then have "n \<le> d" by simp
    from Suc.IH(1) [OF this, of t s] show ?case
    proof (cases rule: acceptsE)
      case (yes v r)
      show ?thesis
      proof (cases "skip_ws r")
        case (Cons c u)
        from Suc.IH(2) [OF \<open>n \<le> d\<close>, of t u] show ?thesis
          using yes Cons by (cases rule: acceptsE) (auto simp: accepts_def)
      qed (use yes in simp)
    qed (auto simp: accepts_def split: option.splits list.splits if_splits)
  next
    case 3
    then have "n \<le> d" by simp
    show ?case
    proof (cases "skip_ws s")
      case (Cons q u)
      show ?thesis
      proof (cases "q = quote_char \<and> unquote u \<noteq> None")
        case True
        then obtain key r where key: "unquote u = Some (key, r)" by auto
        show ?thesis
        proof (cases "fold_prior g seen key = None \<and> member_type t key \<noteq> None")
          case True
          then obtain nt where nt: "fold_prior g seen key = None" "member_type t key = Some nt" by auto
          show ?thesis
          proof (cases "skip_ws r")
            case (Cons x v)
            from Suc.IH(1) [OF \<open>n \<le> d\<close>, of nt v] show ?thesis
            proof (cases rule: acceptsE)
              case no
              then show ?thesis using \<open>skip_ws s = _\<close> \<open>q = _ \<and> _\<close> key nt Cons
                by (auto simp: accepts_def split: option.splits list.splits if_splits)
            next
              case (yes val w)
              show ?thesis
              proof (cases "skip_ws w")
                case (Cons c y)
                from Suc.IH(3) [OF \<open>n \<le> d\<close>, of t "seen @ [key]" y] show ?thesis
                  using \<open>skip_ws s = _\<close> \<open>q = _ \<and> _\<close> key nt \<open>skip_ws r = _\<close> yes Cons
                  by (cases rule: acceptsE) (auto simp: accepts_def)
              qed (use \<open>skip_ws s = _\<close> \<open>q = _ \<and> _\<close> key nt Cons yes in simp)
            qed
          qed (use \<open>skip_ws s = _\<close> \<open>q = _ \<and> _\<close> key nt in simp)
        next
          case False
          then show ?thesis using \<open>skip_ws s = _\<close> \<open>q = _ \<and> _\<close> key
            by (auto simp: accepts_def split: option.splits list.splits if_splits)
        qed
      qed (use Cons in \<open>cases "unquote u"; auto\<close>)
    qed simp
  }
qed

section \<open>What the scan shows\<close>

definition clean_text :: "string \<Rightarrow> bool" where
  "clean_text s \<longleftrightarrow> valid_utf8 s \<and> CHR 0x00 \<notin> set s"

lemma clean_Nil [simp]: "clean_text []"
  by (simp add: clean_text_def)

lemma valid_ascii: "in_range c 0 0x7F \<Longrightarrow> valid_utf8 (c # s) \<longleftrightarrow> valid_utf8 s"
  by (simp add: rune_size_def)

definition whole_rune :: "string \<Rightarrow> bool" where
  "whole_rune p \<longleftrightarrow> p \<noteq> [] \<and> rune_size p = length p"

lemma whole_rune_append: "whole_rune p \<Longrightarrow> valid_utf8 (p @ s) \<longleftrightarrow> valid_utf8 s"
proof -
  assume p: "whole_rune p"
  then obtain a t where a: "p = a # t" by (cases p) (auto simp: whole_rune_def)
  have "rune_size (p @ s) = rune_size p"
    using rune_size_prefix [of p s] p by (simp add: whole_rune_def)
  then show ?thesis using p a by (simp add: whole_rune_def)
qed

lemma clean_prepend: "whole_rune p \<Longrightarrow> CHR 0x00 \<notin> set p \<Longrightarrow> clean_text (p @ s) \<longleftrightarrow> clean_text s"
  by (simp add: clean_text_def whole_rune_append)

lemma whole_rune_take: "0 < rune_size s \<Longrightarrow> whole_rune (take (rune_size s) s)"
  using rune_size_prefix [of s "[]"] rune_size_le [of s] by (auto simp: whole_rune_def)

lemma rune_bytes:
  assumes "0 < rune_size s" "\<not> in_range (hd s) 0 0x7F"
  shows "list_all (\<lambda>c. in_range c 0x80 0xFF) (take (rune_size s) s)"
  using assms(1)
proof (cases rule: rune_size_cases)
  case (one a t)
  with assms(2) show ?thesis by simp
next
  case (two a b t)
  then show ?thesis by (simp add: rune_size_def) (auto simp: in_range_def cont_byte_def)
next
  case (three a b c t)
  then show ?thesis by (simp add: rune_size_def) (auto simp: in_range_def cont_byte_def split: if_splits)
next
  case (four a b c d t)
  then show ?thesis by (simp add: rune_size_def) (auto simp: in_range_def cont_byte_def split: if_splits)
qed

lemma scan_skip:
  "list_all (\<lambda>c. c \<noteq> quote_char \<and> c \<noteq> backslash) p \<Longrightarrow> scan_strings True (p @ s) = scan_strings True s"
  by (induction p) (simp_all add: scan_strings.simps(3))

lemma scan_out_skip: "list_all (\<lambda>c. c \<noteq> quote_char) p \<Longrightarrow> scan_strings False (p @ s) = scan_strings False s"
  by (induction p) simp_all

lemma hex_value_ascii: "hex_value c = Some n \<Longrightarrow> in_range c 0 0x7F \<and> n < 16 \<and> c \<noteq> quote_char"
  by (auto simp: hex_value_def Let_def in_range_def split: if_splits)

lemma hex4_valid: "hex4 s = Some (v, r) \<Longrightarrow> v < 65536 \<and> (valid_utf8 s \<longleftrightarrow> valid_utf8 r)"
  by (cases s rule: hex4.cases)
     (auto split: option.splits dest!: hex_value_ascii simp: valid_ascii simp del: valid_utf8.simps(2))

lemma low_half_valid: "low_half s = Some (v, r) \<Longrightarrow> 0xDC00 \<le> v \<and> v \<le> 0xDFFF \<and> (valid_utf8 s \<longleftrightarrow> valid_utf8 r)"
  by (auto simp: low_half_def in_range_def valid_ascii dest!: hex4_valid simp del: valid_utf8.simps(2)
      split: list.splits if_splits option.splits)

lemma byte_char: "n < 256 \<Longrightarrow> of_char (char_of n :: char) = (n :: nat)"
  by simp

lemma enc_two: "(2 :: nat) \<le> a \<Longrightarrow> a < 32 \<Longrightarrow> b < (64 :: nat) \<Longrightarrow> whole_rune [char_of (0xC0 + a), char_of (0x80 + b)]"
  by (simp add: whole_rune_def rune_size_def in_range_def cont_byte_def)

lemma enc_three: "a < (16 :: nat) \<Longrightarrow> b < (64 :: nat) \<Longrightarrow> c < (64 :: nat) \<Longrightarrow> a = 0 \<longrightarrow> 32 \<le> b \<Longrightarrow> a = 13 \<longrightarrow> b < 32
    \<Longrightarrow> whole_rune [char_of (0xE0 + a), char_of (0x80 + b), char_of (0x80 + c)]"
  by (simp add: whole_rune_def rune_size_def in_range_def cont_byte_def) auto

lemma enc_four: "a < (5 :: nat) \<Longrightarrow> b < (64 :: nat) \<Longrightarrow> c < (64 :: nat) \<Longrightarrow> d < (64 :: nat) \<Longrightarrow> a = 0 \<longrightarrow> 16 \<le> b \<Longrightarrow> a = 4 \<longrightarrow> b < 16
    \<Longrightarrow> whole_rune [char_of (0xF0 + a), char_of (0x80 + b), char_of (0x80 + c), char_of (0x80 + d)]"
  by (simp add: whole_rune_def rune_size_def in_range_def cont_byte_def) auto

lemma enc_nonzero: "0 < (n :: nat) \<Longrightarrow> n < 256 \<Longrightarrow> CHR 0x00 \<noteq> char_of n"
  by (auto dest!: arg_cong [where f = "of_char :: char \<Rightarrow> nat"])

lemma utf8_enc_rune:
  assumes "v < 0x110000" "v < 0xD800 \<or> 0xDFFF < v"
  shows "whole_rune (utf8_enc v) \<and> (0 < v \<longrightarrow> CHR 0x00 \<notin> set (utf8_enc v))"
proof -
  consider (1) "v < 0x80" | (2) "0x80 \<le> v" "v < 0x800" | (3) "0x800 \<le> v" "v < 0x10000" | (4) "0x10000 \<le> v"
    by linarith
  then show ?thesis
  proof cases
    case 1
    then show ?thesis
      using enc_nonzero [of v] by (auto simp: utf8_enc_def whole_rune_def rune_size_def in_range_def)
  next
    case 2
    then have "utf8_enc v = [char_of (0xC0 + v div 64), char_of (0x80 + v mod 64)]" by (simp add: utf8_enc_def)
    moreover have "2 \<le> v div 64" "v div 64 < 32" "v mod 64 < 64" using 2 by simp_all
    ultimately show ?thesis
      using enc_two [of "v div 64" "v mod 64"] enc_nonzero [of "0xC0 + v div 64"] enc_nonzero [of "0x80 + v mod 64"]
      by auto
  next
    case 3
    define a b where "a = v div 4096" and "b = v div 64 mod 64"
    have e: "utf8_enc v = [char_of (0xE0 + a), char_of (0x80 + b), char_of (0x80 + v mod 64)]"
      using 3 by (simp add: utf8_enc_def a_def b_def)
    have v: "v div 64 = a * 64 + b"
      unfolding a_def b_def using div_mult_mod_eq [of "v div 64" 64] by (simp add: div_mult2_eq [symmetric])
    have b: "a < 16" "b < 64" "v mod 64 < 64" using 3 by (simp_all add: a_def b_def)
    have "32 \<le> v div 64" using 3 by simp
    moreover have "v div 64 < 864 \<or> 895 < v div 64" using assms(2) by auto
    ultimately have "a = 0 \<longrightarrow> 32 \<le> b" "a = 13 \<longrightarrow> b < 32" using v b by auto
    then show ?thesis
      using e b enc_three [of a b "v mod 64"] enc_nonzero [of "0xE0 + a"] enc_nonzero [of "0x80 + b"]
        enc_nonzero [of "0x80 + v mod 64"] by auto
  next
    case 4
    define a b c where "a = v div 262144" and "b = v div 4096 mod 64" and "c = v div 64 mod 64"
    have e: "utf8_enc v = [char_of (0xF0 + a), char_of (0x80 + b), char_of (0x80 + c), char_of (0x80 + v mod 64)]"
      using 4 by (simp add: utf8_enc_def a_def b_def c_def)
    have v: "v div 4096 = a * 64 + b"
      unfolding a_def b_def using div_mult_mod_eq [of "v div 4096" 64] by (simp add: div_mult2_eq [symmetric])
    have b: "a < 5" "b < 64" "c < 64" "v mod 64 < 64" using assms(1) by (simp_all add: a_def b_def c_def)
    have "16 \<le> v div 4096" "v div 4096 < 272" using 4 assms(1) by simp_all
    then have "a = 0 \<longrightarrow> 16 \<le> b" "a = 4 \<longrightarrow> b < 16" using v b by auto
    then show ?thesis
      using e b enc_four [of a b c "v mod 64"] enc_nonzero [of "0xF0 + a"] enc_nonzero [of "0x80 + b"]
        enc_nonzero [of "0x80 + c"] enc_nonzero [of "0x80 + v mod 64"] by auto
  qed
qed

lemma clean_char: "in_range c 1 0x7F \<Longrightarrow> clean_text (c # s) \<longleftrightarrow> clean_text s"
  by (auto simp: clean_text_def rune_size_def in_range_def)

lemma simple_escape_range: "simple_escape e = Some d \<Longrightarrow> in_range e 0 0x7F \<and> e \<noteq> CHR ''u'' \<and> in_range d 1 0x7F"
  by (auto simp: simple_escape_def in_range_def split: if_splits)

lemma prepend_Some: "prepend p x = Some (y, r) \<Longrightarrow> \<exists>z. x = Some (z, r) \<and> y = p @ z"
  by (auto simp: prepend_def)

lemma unquote_clean:
  "valid_utf8 s \<Longrightarrow> scan_strings True s = None \<Longrightarrow> unquote s = Some (x, r)
    \<Longrightarrow> clean_text x \<and> valid_utf8 r \<and> scan_strings False r = None"
proof (induction s arbitrary: x r rule: measure_induct_rule [of length])
  case (less s0)
  obtain c s where s0: "s0 = c # s" using less.prems(3) by (cases s0) auto
  note valid = less.prems(1) [unfolded s0] and scan = less.prems(2) [unfolded s0]
    and read = less.prems(3) [unfolded s0]
  have IH: "length y < length (c # s) \<Longrightarrow> valid_utf8 y \<Longrightarrow> scan_strings True y = None \<Longrightarrow> unquote y = Some (z, r)
    \<Longrightarrow> clean_text z \<and> valid_utf8 r \<and> scan_strings False r = None" for y z
    using less.IH [of y z r] by (simp add: s0)
  consider (quote) "c = quote_char" | (esc) "c = backslash"
    | (plain) "c \<noteq> quote_char" "c \<noteq> backslash" "\<not> in_range c 0 0x1F" "in_range c 0 0x7F"
    | (control) "c \<noteq> quote_char" "c \<noteq> backslash" "in_range c 0 0x1F"
    | (multi) "c \<noteq> quote_char" "c \<noteq> backslash" "\<not> in_range c 0 0x7F" "\<not> in_range c 0 0x1F"
    by blast
  then show ?case
  proof cases
    case quote
    then have "x = []" "r = s" "valid_utf8 s" "scan_strings False s = None"
      using valid scan read by (simp_all add: unquote.simps(2) scan_strings.simps(3) rune_size_def in_range_def)
    then show ?thesis by simp
  next
    case plain
    then obtain z where z: "unquote s = Some (z, r)" "x = c # z"
      using read by (auto simp: unquote.simps(2) dest!: prepend_Some)
    have "valid_utf8 s" "scan_strings True s = None"
      using plain valid scan by (simp_all add: scan_strings.simps(3) valid_ascii del: valid_utf8.simps(2))
    with IH [of s z] z have "clean_text z \<and> valid_utf8 r \<and> scan_strings False r = None" by simp
    moreover have "in_range c 1 0x7F" using plain by (auto simp: in_range_def)
    ultimately show ?thesis using z by (simp add: clean_char)
  next
    case control
    then show ?thesis using read by (simp add: unquote.simps(2))
  next
    case multi
    let ?k = "rune_size (c # s)"
    have k: "0 < ?k" and d: "valid_utf8 (drop (?k - 1) s)" using valid by (simp_all add: Let_def)
    obtain z where z: "unquote (drop (?k - 1) s) = Some (z, r)" "x = take ?k (c # s) @ z"
      using read multi k by (auto simp: unquote.simps(2) Let_def dest!: prepend_Some)
    have high: "list_all (\<lambda>c. in_range c 0x80 0xFF) (take ?k (c # s))" using rune_bytes [OF k] multi by simp
    then have "list_all (\<lambda>c. c \<noteq> quote_char \<and> c \<noteq> backslash) (take ?k (c # s))"
      by (auto simp: list_all_iff in_range_def)
    then have "scan_strings True (take ?k (c # s) @ drop (?k - 1) s) = scan_strings True (drop (?k - 1) s)"
      by (rule scan_skip)
    moreover have split: "take ?k (c # s) @ drop (?k - 1) s = c # s" using k by (cases ?k) auto
    ultimately have "scan_strings True (drop (?k - 1) s) = None" using scan by simp
    with IH [of "drop (?k - 1) s" z] d z have "clean_text z \<and> valid_utf8 r \<and> scan_strings False r = None" by simp
    moreover have "CHR 0x00 \<notin> set (take ?k (c # s))" using high by (auto simp: list_all_iff in_range_def)
    ultimately show ?thesis using z whole_rune_take [OF k] by (simp add: clean_prepend)
  next
    case esc
    then obtain e t where s: "s = e # t" using read by (cases s) (simp_all add: unquote.simps(2))
    show ?thesis
    proof (cases "simple_escape e")
      case (Some d)
      note d = simple_escape_range [OF Some]
      obtain z where z: "unquote t = Some (z, r)" "x = d # z"
        using read esc s Some by (auto simp: unquote.simps(2) dest!: prepend_Some)
      have "valid_utf8 t" "scan_strings True t = None"
        using esc s d valid scan by (simp_all add: scan_strings.simps(3) valid_ascii in_range_def del: valid_utf8.simps(2))
      with IH [of t z] s z have "clean_text z \<and> valid_utf8 r \<and> scan_strings False r = None" by simp
      then show ?thesis using z d by (simp add: clean_char)
    next
      case None
      then have e: "e = CHR ''u''" using read esc s by (auto simp: unquote.simps(2) split: if_splits)
      then obtain v q where h: "hex4 t = Some (v, q)" using read esc s None
        by (auto simp: unquote.simps(2) split: option.splits)
      note v = hex4_valid [OF h]
      have tq: "valid_utf8 q" using valid esc s e v by (simp add: valid_ascii in_range_def del: valid_utf8.simps(2))
      have nz: "v \<noteq> 0" "\<not> (0xDC00 \<le> v \<and> v \<le> 0xDFFF)"
        using scan esc s e h by (auto simp: scan_strings.simps(3) split: if_splits)
      show ?thesis
      proof (cases "0xD800 \<le> v \<and> v \<le> 0xDBFF")
        case True
        then obtain w q' where w: "low_half q = Some (w, q')" "scan_strings True q' = None"
          using scan esc s e h nz by (auto simp: scan_strings.simps(3) split: if_splits option.splits)
        note lw = low_half_valid [OF w(1)]
        let ?u = "0x10000 + (v - 0xD800) * 1024 + (w - 0xDC00)"
        obtain z where z: "unquote q' = Some (z, r)" "x = utf8_enc ?u @ z"
          using read esc s None e h True w by (auto simp: unquote.simps(2) dest!: prepend_Some)
        have "clean_text z \<and> valid_utf8 r \<and> scan_strings False r = None"
          using IH [of q' z] hex4_length [OF h] low_half_length [OF w(1)] s w lw tq z by simp
        moreover have "?u < 0x110000" "0xDFFF < ?u" using True lw by auto
        ultimately show ?thesis using z utf8_enc_rune [of ?u] by (simp add: clean_prepend)
      next
        case False
        then obtain z where z: "unquote q = Some (z, r)" "x = utf8_enc v @ z" "scan_strings True q = None"
          using read scan esc s None e h nz
          by (auto simp: unquote.simps(2) scan_strings.simps(3) dest!: prepend_Some split: if_splits)
        have "clean_text z \<and> valid_utf8 r \<and> scan_strings False r = None"
          using IH [of q z] hex4_length [OF h] s tq z by simp
        moreover have "v < 0xD800 \<or> 0xDFFF < v" using False nz by auto
        ultimately show ?thesis using z v nz utf8_enc_rune [of v] by (simp add: clean_prepend)
      qed
    qed
  qed
qed

text \<open>The part of the text outside strings is plain.\<close>

definition plain :: "char \<Rightarrow> bool" where
  "plain c \<longleftrightarrow> in_range c 0 0x7F \<and> c \<noteq> quote_char"

definition scanned :: "string \<Rightarrow> bool" where
  "scanned s \<longleftrightarrow> valid_utf8 s \<and> scan_strings False s = None"

lemma scanned_plain: "plain c \<Longrightarrow> scanned (c # s) \<longleftrightarrow> scanned s"
  by (simp add: scanned_def plain_def valid_ascii del: valid_utf8.simps(2))

lemma scanned_append: "list_all plain p \<Longrightarrow> scanned (p @ s) \<longleftrightarrow> scanned s"
  by (induction p) (simp_all add: scanned_plain)

lemma scanned_ws: "scanned (skip_ws s) \<longleftrightarrow> scanned s"
proof -
  have "list_all plain (takeWhile json_space s)"
    by (auto simp: list_all_iff plain_def json_space_def in_range_def dest!: set_takeWhileD)
  then show ?thesis using scanned_append [of "takeWhile json_space s" "dropWhile json_space s"]
    by (simp add: skip_ws_def)
qed

lemma scanned_quote: "scanned (quote_char # s) \<Longrightarrow> unquote s = Some (x, r) \<Longrightarrow> clean_text x \<and> scanned r"
  using unquote_clean [of s x r] by (simp add: scanned_def valid_ascii in_range_def del: valid_utf8.simps(2))

lemma digit_plain: "is_digit c \<Longrightarrow> plain c"
  by (auto simp: is_digit_def plain_def in_range_def)

lemma plain_lits:
  "plain (CHR ''{'')" "plain (CHR ''}'')" "plain (CHR ''['')" "plain (CHR '']'')" "plain (CHR 0x2C)" "plain (CHR '':'')"
  "plain (CHR ''e'')" "plain (CHR ''E'')" "plain (CHR ''+'')" "plain (CHR ''-'')" "plain (CHR ''.'')" "plain (CHR ''0'')"
  by (simp_all add: plain_def in_range_def)

lemma plain_words: "list_all plain ''true''" "list_all plain ''false''" "list_all plain ''null''"
  by (simp_all add: plain_def in_range_def)

lemma digits_plain: "list_all plain (takeWhile is_digit s)"
  by (auto simp: list_all_iff digit_plain dest!: set_takeWhileD)

lemma exp_part_split: "exp_part s = Some (x, r) \<Longrightarrow> s = x @ r \<and> list_all plain x"
proof (cases s)
  case (Cons e u)
  assume "exp_part s = Some (x, r)"
  moreover have "c \<in> set (takeWhile is_digit v) \<Longrightarrow> plain c" for c v
    using digits_plain [of v] by (simp add: list_all_iff)
  ultimately show ?thesis using Cons
    by (auto simp: Let_def plain_lits digit_plain list_all_iff split: if_splits list.splits)
qed simp

lemma frac_part_split: "frac_part s = Some (x, r) \<Longrightarrow> s = x @ r \<and> list_all plain x"
proof (cases s)
  case (Cons c t)
  assume f: "frac_part s = Some (x, r)"
  show ?thesis
  proof (cases "c = CHR ''.''")
    case True
    then obtain z where "exp_part (dropWhile is_digit t) = Some (z, r)" "x = c # takeWhile is_digit t @ z"
      using f Cons by (auto split: if_splits dest!: prepend_Some)
    then show ?thesis using Cons True exp_part_split [of "dropWhile is_digit t" z r] digits_plain [of t]
      by (simp add: plain_lits) (metis takeWhile_dropWhile_id)
  next
    case False
    then show ?thesis using f Cons exp_part_split [of "c # t" x r] by (simp del: exp_part.simps)
  qed
qed simp

lemma unsigned_number_split: "unsigned_number s = Some (x, r) \<Longrightarrow> s = x @ r \<and> list_all plain x"
proof (cases s)
  case (Cons c t)
  assume u: "unsigned_number s = Some (x, r)"
  show ?thesis
  proof (cases "c = CHR ''0''")
    case True
    then show ?thesis using u Cons
      by (auto simp: unsigned_number_def plain_lits dest!: prepend_Some frac_part_split)
  next
    case False
    then obtain z where "frac_part (dropWhile is_digit t) = Some (z, r)" "x = c # takeWhile is_digit t @ z" "is_digit c"
      using u Cons by (auto simp: unsigned_number_def split: if_splits dest!: prepend_Some)
    then show ?thesis using Cons frac_part_split [of "dropWhile is_digit t" z r] digits_plain [of t] digit_plain [of c]
      by simp (metis takeWhile_dropWhile_id)
  qed
qed (simp add: unsigned_number_def)

lemma parse_number_split: "parse_number s = Some (x, r) \<Longrightarrow> s = x @ r \<and> list_all plain x"
  by (auto simp: parse_number_def plain_lits split: list.splits if_splits
      dest!: prepend_Some unsigned_number_split)

lemma scanned_number: "parse_number s = Some (x, r) \<Longrightarrow> scanned s \<longleftrightarrow> scanned r"
  using parse_number_split [of s x r] scanned_append by blast

lemma scanned_literal: "strip_prefix p s = Some r \<Longrightarrow> list_all plain p \<Longrightarrow> scanned s \<longleftrightarrow> scanned r"
  using scanned_append [of p r] by (auto simp: strip_prefix_def split: if_splits) (metis append_take_drop_id)+

fun clean_json :: "json \<Rightarrow> bool"
  and clean_elems :: "json list \<Rightarrow> bool"
  and clean_members :: "(string \<times> json) list \<Rightarrow> bool" where
  "clean_json JNull \<longleftrightarrow> True"
| "clean_json (JBool b) \<longleftrightarrow> True"
| "clean_json (JNum x) \<longleftrightarrow> True"
| "clean_json (JStr s) \<longleftrightarrow> clean_text s"
| "clean_json (JArr xs) \<longleftrightarrow> clean_elems xs"
| "clean_json (JObj ms) \<longleftrightarrow> clean_members ms"
| "clean_elems [] \<longleftrightarrow> True"
| "clean_elems (x # xs) \<longleftrightarrow> clean_json x \<and> clean_elems xs"
| "clean_members [] \<longleftrightarrow> True"
| "clean_members ((k, v) # ms) \<longleftrightarrow> clean_text k \<and> clean_json v \<and> clean_members ms"

lemma scanned_next: "skip_ws s = c # u \<Longrightarrow> plain c \<Longrightarrow> scanned s \<longleftrightarrow> scanned u"
  using scanned_ws [of s] scanned_plain [of c u] by simp

lemma parse_clean:
  "scanned s \<Longrightarrow> parse_value n d s = Some (v, r) \<Longrightarrow> clean_json v \<and> scanned r"
  "scanned s \<Longrightarrow> parse_elems n d s = Some (vs, r) \<Longrightarrow> clean_elems vs \<and> scanned r"
  "scanned s \<Longrightarrow> parse_members n d s = Some (ms, r) \<Longrightarrow> clean_members ms \<and> scanned r"
proof (induction n arbitrary: d s v vs ms r)
  case 0
  {
    case 1 then show ?case by simp
  next
    case 2 then show ?case by simp
  next
    case 3 then show ?case by simp
  }
next
  case (Suc n)
  {
    case 1
    then obtain c u where s: "skip_ws s = c # u" by (cases "skip_ws s") auto
    consider (obj) "c = CHR ''{''" | (arr) "c = CHR ''[''" | (str) "c = quote_char"
      | (num) "c \<noteq> CHR ''{''" "c \<noteq> CHR ''[''" "c \<noteq> quote_char" by blast
    then show ?case
    proof cases
      case obj
      then have u: "scanned u" using scanned_next [OF s] plain_lits 1 by simp
      obtain x w where x: "skip_ws u = x # w" using 1 s obj by (cases "skip_ws u") (auto split: if_splits)
      show ?thesis
      proof (cases "x = CHR ''}''")
        case True
        then show ?thesis using 1 s obj x scanned_next [OF x] plain_lits u by (auto split: if_splits)
      next
        case False
        then obtain ms where "parse_members n (d - 1) (x # w) = Some (ms, r)" "v = JObj ms"
          using 1 s obj x by (auto split: if_splits)
        then show ?thesis using Suc.IH(3) [of "x # w" "d - 1" ms r] x scanned_ws [of u] u by simp
      qed
    next
      case arr
      then have u: "scanned u" using scanned_next [OF s] plain_lits 1 by simp
      obtain x w where x: "skip_ws u = x # w" using 1 s arr by (cases "skip_ws u") (auto split: if_splits)
      show ?thesis
      proof (cases "x = CHR '']''")
        case True
        then show ?thesis using 1 s arr x scanned_next [OF x] plain_lits u by (auto split: if_splits)
      next
        case False
        then obtain vs where "parse_elems n (d - 1) (x # w) = Some (vs, r)" "v = JArr vs"
          using 1 s arr x by (auto split: if_splits)
        then show ?thesis using Suc.IH(2) [of "x # w" "d - 1" vs r] x scanned_ws [of u] u by simp
      qed
    next
      case str
      then show ?thesis using 1 s scanned_ws [of s] scanned_quote [of u] by auto
    next
      case num
      have cu: "scanned (c # u)" using 1(1) s scanned_ws [of s] by simp
      have "scanned r" if "parse_number (c # u) = Some (x, r)" for x using scanned_number [OF that] cu by simp
      moreover have "scanned r" if "strip_prefix p (c # u) = Some r" "p \<in> {''true'', ''false'', ''null''}" for p
        using scanned_literal [OF that(1)] plain_words that(2) cu by blast
      ultimately show ?thesis using 1(2) s num by (auto split: if_splits)
    qed
  next
    case 2
    then obtain x w where x: "parse_value n d s = Some (x, w)" by (auto split: option.splits)
    with 2 Suc.IH(1) [of s d x w] have w: "clean_json x" "scanned w" by auto
    obtain c u where c: "skip_ws w = c # u" using 2 x by (cases "skip_ws w") auto
    show ?case
    proof (cases "c = CHR 0x2C")
      case True
      then obtain ys where "parse_elems n d u = Some (ys, r)" "vs = x # ys" using 2 x c by auto
      then show ?thesis using Suc.IH(2) [of u d ys r] scanned_next [OF c] True plain_lits w by simp
    next
      case False
      then have "c = CHR '']''" "vs = [x]" "r = u" using 2 x c by (auto split: if_splits)
      then show ?thesis using scanned_next [OF c] plain_lits w by simp
    qed
  next
    case 3
    then obtain t where s: "skip_ws s = quote_char # t" by (cases "skip_ws s") (auto split: if_splits)
    with 3 obtain k w where k: "unquote t = Some (k, w)" by (auto split: option.splits)
    have kw: "clean_text k" "scanned w" using scanned_quote [of t k w] k s 3 scanned_ws [of s] by auto
    obtain a where a: "skip_ws w = CHR '':'' # a" using 3 s k by (cases "skip_ws w") (auto split: if_splits)
    then have "scanned a" using scanned_next [OF a] plain_lits kw by simp
    obtain x b where x: "parse_value n d a = Some (x, b)" using 3 s k a by (auto split: option.splits)
    with Suc.IH(1) [of a d x b] \<open>scanned a\<close> have b: "clean_json x" "scanned b" by auto
    obtain c u where c: "skip_ws b = c # u" using 3 s k a x by (cases "skip_ws b") auto
    show ?case
    proof (cases "c = CHR 0x2C")
      case True
      then obtain ys where "parse_members n d u = Some (ys, r)" "ms = (k, x) # ys" using 3 s k a x c by auto
      then show ?thesis using Suc.IH(3) [of u d ys r] scanned_next [OF c] True plain_lits kw b by simp
    next
      case False
      then have "c = CHR ''}''" "ms = [(k, x)]" "r = u" using 3 s k a x c by (auto split: if_splits)
      then show ?thesis using scanned_next [OF c] plain_lits kw b by simp
    qed
  }
qed

text \<open>The reader without a limit on the depth.\<close>

definition json_read :: "string \<Rightarrow> json option" where
  "json_read s = (case parse_value (2 * length s + 2) (2 * length s + 2) s of
     Some (v, r) \<Rightarrow> if skip_ws r = [] then Some v else None | None \<Rightarrow> None)"

definition extends :: "'a option \<Rightarrow> 'a option \<Rightarrow> bool" where
  "extends x y \<longleftrightarrow> (\<forall>v. x = Some v \<longrightarrow> y = Some v)"

lemma extends_map: "extends x y \<Longrightarrow> extends (map_option f x) (map_option f y)"
  by (auto simp: extends_def)

lemma parse_depth_mono:
  "d \<le> e \<Longrightarrow> extends (parse_value n d s) (parse_value n e s)"
  "d \<le> e \<Longrightarrow> extends (parse_elems n d s) (parse_elems n e s)"
  "d \<le> e \<Longrightarrow> extends (parse_members n d s) (parse_members n e s)"
proof (induction n arbitrary: d e s)
  case 0
  {
    case 1 then show ?case by (simp add: extends_def)
  next
    case 2 then show ?case by (simp add: extends_def)
  next
    case 3 then show ?case by (simp add: extends_def)
  }
next
  case (Suc n)
  {
    case 1
    then have "d - 1 \<le> e - 1" by simp
    note IH = Suc.IH(2,3) [OF this]
    have "d = 0 \<or> e \<noteq> 0" using 1 by auto
    then show ?case using IH
      by (auto simp: extends_def split: list.splits if_splits)
  next
    case 2
    then show ?case using Suc.IH(1,2) [OF 2, of s] Suc.IH(2) [OF 2]
      by (fastforce simp: extends_def split: option.splits list.splits if_splits)
  next
    case 3
    then show ?case using Suc.IH(1,3) [OF 3]
      by (fastforce simp: extends_def split: option.splits list.splits if_splits)
  }
qed

lemma json_parse_read: "json_parse s = Some v \<Longrightarrow> json_read s = Some w \<Longrightarrow> v = w"
proof -
  let ?n = "2 * length s + 2" and ?D = "max max_depth (2 * length s + 2)"
  assume v: "json_parse s = Some v" and w: "json_read s = Some w"
  obtain r where "parse_value ?n max_depth s = Some (v, r)"
    using v by (auto simp: json_parse_def split: option.splits if_splits)
  moreover obtain q where "parse_value ?n ?n s = Some (w, q)"
    using w by (auto simp: json_read_def split: option.splits if_splits)
  ultimately have "parse_value ?n ?D s = Some (v, r)" "parse_value ?n ?D s = Some (w, q)"
    using parse_depth_mono(1) [of max_depth ?D ?n s] parse_depth_mono(1) [of ?n ?D ?n s]
    by (auto simp: extends_def)
  then show ?thesis by simp
qed

text \<open>C18. The strict reading accepts exactly the documents it describes: the text is valid UTF-8 with no
  NUL and no lone surrogate escape, encoding/json's grammar reads it as one value, and in that
  tree every key of a modelled struct is exactly one of its fields, no two keys of an object
  fold to each other and every number is in its canonical spelling. Every string and key
  the document then decodes to is valid UTF-8 without a NUL. A string may still be spelled in
  several ways, with and without escapes.\<close>
theorem strict_reading_exact:
  "CheckStrict g t data = None \<longleftrightarrow>
     checkStringText data = None \<and>
     (\<exists>v. json_read data = Some v \<and> strict_tree g t v \<and> clean_json v)"
proof -
  let ?n = "2 * length data + 2"
  have w: "accepts (walkStrict g ?n t data) (parse_value ?n ?n data) (strict_tree g t)"
    by (rule walk_accepts) simp
  have c: "clean_json v" if "checkStringText data = None" "parse_value ?n ?n data = Some (v, r)" for v r
    using parse_clean(1) [of data ?n ?n v r] that
    by (simp add: scanned_def checkStringText_def split: if_splits)
  from w show ?thesis
  proof (cases rule: acceptsE)
    case (no e)
    then show ?thesis by (auto simp: CheckStrict_def json_read_def split: option.splits if_splits)
  next
    case (yes v r)
    then show ?thesis using c [of v r]
      by (auto simp: CheckStrict_def json_read_def split: option.splits)
  qed
qed

section \<open>Unambiguous documents\<close>

text \<open>No object of the tree has two members with one name.\<close>

fun unambiguous :: "json \<Rightarrow> bool"
  and unambiguous_elems :: "json list \<Rightarrow> bool"
  and unambiguous_members :: "(string \<times> json) list \<Rightarrow> bool" where
  "unambiguous JNull \<longleftrightarrow> True"
| "unambiguous (JBool b) \<longleftrightarrow> True"
| "unambiguous (JNum x) \<longleftrightarrow> True"
| "unambiguous (JStr s) \<longleftrightarrow> True"
| "unambiguous (JArr xs) \<longleftrightarrow> unambiguous_elems xs"
| "unambiguous (JObj ms) \<longleftrightarrow> distinct (map fst ms) \<and> unambiguous_members ms"
| "unambiguous_elems [] \<longleftrightarrow> True"
| "unambiguous_elems (x # xs) \<longleftrightarrow> unambiguous x \<and> unambiguous_elems xs"
| "unambiguous_members [] \<longleftrightarrow> True"
| "unambiguous_members ((k, v) # ms) \<longleftrightarrow> unambiguous v \<and> unambiguous_members ms"

lemma strict_members_keys:
  "strict_members g t seen ms \<Longrightarrow> (\<And>s. gl_equal_fold g s s) \<Longrightarrow>
     distinct (map fst ms) \<and> set seen \<inter> fst ` set ms = {}
     \<and> (\<forall>k \<in> fst ` set ms. member_type t k \<noteq> None)"
proof (induction ms arbitrary: seen)
  case (Cons m ms)
  obtain k v where m: "m = (k, v)" by (cases m)
  with Cons have IH: "distinct (map fst ms)" "set (seen @ [k]) \<inter> fst ` set ms = {}"
      "\<forall>k \<in> fst ` set ms. member_type t k \<noteq> None"
    using Cons.IH [of "seen @ [k]"] by auto
  moreover have "k \<notin> set seen" using Cons.prems m by (auto simp: fold_prior_def find_None_iff)
  ultimately show ?case using Cons.prems m by (auto split: option.splits)
qed simp

lemma strict_unambiguous:
  "\<forall>s. gl_equal_fold g s s \<Longrightarrow> strict_tree g t v \<Longrightarrow> unambiguous v"
  "\<forall>s. gl_equal_fold g s s \<Longrightarrow> strict_elems g t vs \<Longrightarrow> unambiguous_elems vs"
  "\<forall>s. gl_equal_fold g s s \<Longrightarrow> strict_members g t seen ms \<Longrightarrow> unambiguous_members ms"
proof (induction g t v and g t vs and g t seen ms rule: strict_tree_strict_elems_strict_members.induct)
  case (6 g t ms)
  then show ?case using strict_members_keys [of g t "[]" ms] by simp
qed (auto split: option.splits)

lemma strict_read: "CheckStrict g t data = None \<Longrightarrow> json_parse data = Some v \<Longrightarrow> strict_tree g t v \<and> clean_json v"
proof -
  assume c: "CheckStrict g t data = None" and v: "json_parse data = Some v"
  let ?n = "2 * length data + 2"
  obtain r where w: "walkStrict g ?n t data = Inr r" "skip_ws r = []" and s: "scanned data"
    using c by (auto simp: CheckStrict_def checkStringText_def scanned_def split: option.splits sum.splits if_splits)
  have "accepts (walkStrict g ?n t data) (parse_value ?n ?n data) (strict_tree g t)" by (rule walk_accepts) simp
  then obtain x where x: "parse_value ?n ?n data = Some (x, r)" "strict_tree g t x"
    using w by (auto simp: accepts_def)
  then have "json_read data = Some x" using w by (simp add: json_read_def)
  then have "v = x" using json_parse_read v by blast
  then show ?thesis using x parse_clean(1) [OF s x(1)] by simp
qed

text \<open>What encoding/json decodes from a document that passed the strict reading is what was
  checked, and it is the same for every reader: the tree it builds has no two members of one
  name in any object, names only modelled fields, holds every number in its canonical
  spelling, and all its text is valid UTF-8 without a NUL.\<close>
lemma strict_document_unambiguous:
  assumes "CheckStrict g t data = None" and "json_parse data = Some v"
    and "\<forall>s. gl_equal_fold g s s"
  shows "strict_tree g t v \<and> clean_json v \<and> unambiguous v"
  using strict_read [OF assms(1,2)] strict_unambiguous(1) [of g t v] assms(3) by blast

definition sample_type :: go_type where
  "sample_type = GStruct [(''a'', GOther), (''b'', GSlice GOther)]"

definition sample_text :: string where
  "sample_text = [CHR ''{'', quote_char, CHR ''a'', quote_char, CHR '':'', CHR ''1'', CHR 0x2C,
     quote_char, CHR ''b'', quote_char, CHR '':'', CHR ''['', quote_char, CHR ''x'', quote_char, CHR '']'', CHR ''}'']"

lemma sample_strict: "CheckStrict toy_lib sample_type sample_text = None"
  by code_simp

lemma sample_parses: "json_parse sample_text = Some (JObj [(''a'', JNum ''1''), (''b'', JArr [JStr ''x''])])"
  by code_simp

lemma strict_document_unambiguous_witness:
  "unambiguous (JObj [(''a'', JNum ''1''), (''b'', JArr [JStr ''x''])])"
  using strict_document_unambiguous [OF sample_strict sample_parses] by (simp add: toy_lib_def)

end
