(* ===== verification/PolicyEval.thy ===== *)
theory PolicyEval
  imports GoTime Canonical "HOL-Library.Sublist"
begin

text \<open>
  internal/psleval: which policy rule fires. The rules, the matchers, the conditions and the
  decision, with every value kept as the text the policy or the record carries. The lemmas
  relate each operator to its meaning on texts, the time windows to distances on the clock
  face, and the decision to the first rule whose meaning holds, on values that could all be
  read.
\<close>

section \<open>The policy language (types.go)\<close>

record psl_matcher =
  mt_operator :: string
  mt_value :: string
  mt_values :: "string list"

record psl_subject =
  su_type :: string
  su_id_match :: psl_matcher
  su_role_match :: "psl_matcher option"

record psl_verb =
  ve_match :: psl_matcher

record psl_object =
  ob_type :: string
  ob_id_match :: psl_matcher
  ob_classification_max :: string
  ob_classification_min :: string

record psl_condition =
  co_type :: string
  co_max_per_window :: int
  co_window_seconds :: int
  co_start_utc :: string
  co_end_utc :: string
  co_required :: bool
  co_seconds :: int
  co_role :: string

record psl_rule =
  ru_rule_id :: string
  ru_rule_name :: string
  ru_effect :: string
  ru_subject :: psl_subject
  ru_verb :: psl_verb
  ru_object :: psl_object
  ru_conditions :: "psl_condition list"
  ru_priority :: int
  ru_reason_code :: string

definition EffectAllow :: string where "EffectAllow = ''allow''"
definition EffectDeny :: string where "EffectDeny = ''deny''"
definition ReasonRuleAllowed :: string where "ReasonRuleAllowed = ''RULE_ALLOWED''"
definition ReasonRuleDenied :: string where "ReasonRuleDenied = ''RULE_DENIED''"
definition ReasonDefaultEffectApplied :: string where "ReasonDefaultEffectApplied = ''DEFAULT_EFFECT_APPLIED''"
definition DefaultRuleID :: string where "DefaultRuleID = ''default''"

section \<open>What a decision reads (inputs.go)\<close>

record evaluation_context =
  cx_SubjectID :: string
  cx_SubjectType :: string
  cx_SubjectRole :: string
  cx_Verb :: string
  cx_ObjectType :: string
  cx_ObjectID :: string
  cx_Classification :: string
  cx_MFASatisfied :: bool
  cx_SessionAgeSeconds :: int
  cx_ClockEpoch :: string
  cx_EnvelopeID :: string
  cx_EnvelopeHash :: string
  cx_RateCounts :: "(string \<times> int) list"

record policy_eval_inputs =
  pe_SubjectID :: string
  pe_SubjectType :: string
  pe_SubjectRole :: string
  pe_Verb :: string
  pe_ObjectType :: string
  pe_ObjectID :: string
  pe_Classification :: string
  pe_MFASatisfied :: bool
  pe_SessionAgeSeconds :: int
  pe_EvaluatedAt :: string
  pe_RateCounts :: "(string \<times> int) list"

definition InputsOf :: "evaluation_context \<Rightarrow> policy_eval_inputs" where
  "InputsOf ctx = \<lparr>pe_SubjectID = cx_SubjectID ctx, pe_SubjectType = cx_SubjectType ctx,
     pe_SubjectRole = cx_SubjectRole ctx, pe_Verb = cx_Verb ctx, pe_ObjectType = cx_ObjectType ctx,
     pe_ObjectID = cx_ObjectID ctx, pe_Classification = cx_Classification ctx,
     pe_MFASatisfied = cx_MFASatisfied ctx, pe_SessionAgeSeconds = cx_SessionAgeSeconds ctx,
     pe_EvaluatedAt = cx_ClockEpoch ctx, pe_RateCounts = cx_RateCounts ctx\<rparr>"

definition Inputs_Context :: "policy_eval_inputs \<Rightarrow> evaluation_context" where
  "Inputs_Context i = \<lparr>cx_SubjectID = pe_SubjectID i, cx_SubjectType = pe_SubjectType i,
     cx_SubjectRole = pe_SubjectRole i, cx_Verb = pe_Verb i, cx_ObjectType = pe_ObjectType i,
     cx_ObjectID = pe_ObjectID i, cx_Classification = pe_Classification i,
     cx_MFASatisfied = pe_MFASatisfied i, cx_SessionAgeSeconds = pe_SessionAgeSeconds i,
     cx_ClockEpoch = pe_EvaluatedAt i, cx_EnvelopeID = [], cx_EnvelopeHash = [],
     cx_RateCounts = pe_RateCounts i\<rparr>"

section \<open>Operators (operators.go)\<close>

definition hasPrefix :: "string \<Rightarrow> string \<Rightarrow> bool" where
  "hasPrefix s p \<longleftrightarrow> (if length s < length p then False else take (length p) s = p)"

definition hasSuffix :: "string \<Rightarrow> string \<Rightarrow> bool" where
  "hasSuffix s p \<longleftrightarrow> (if length s < length p then False else drop (length s - length p) s = p)"

function contains_from :: "string \<Rightarrow> string \<Rightarrow> nat \<Rightarrow> bool" where
  "contains_from s p i =
     (if i + length p \<le> length s then
        (if take (length p) (drop i s) = p then True else contains_from s p (i + 1))
      else False)"
  by pat_completeness auto
termination by (relation "measure (\<lambda>(s, p, i). Suc (length s) - i)") auto

declare contains_from.simps [simp del]

definition contains :: "string \<Rightarrow> string \<Rightarrow> bool" where
  "contains s p \<longleftrightarrow> (if p = [] then True else if length s < length p then False else contains_from s p 0)"

fun inSet :: "string \<Rightarrow> string list \<Rightarrow> bool" where
  "inSet value [] \<longleftrightarrow> False"
| "inSet value (v # vs) \<longleftrightarrow> (if v = value then True else inSet value vs)"

definition Match :: "psl_matcher \<Rightarrow> string \<Rightarrow> bool" where
  "Match m value =
     (if mt_operator m = ''any'' then True
      else if mt_operator m = ''exact'' then value = mt_value m
      else if mt_operator m = ''prefix'' then hasPrefix value (mt_value m)
      else if mt_operator m = ''suffix'' then hasSuffix value (mt_value m)
      else if mt_operator m = ''substring'' then contains value (mt_value m)
      else if mt_operator m = ''in'' then inSet value (mt_values m)
      else if mt_operator m = ''not_in'' then \<not> inSet value (mt_values m)
      else False)"

definition knownOperator :: "string \<Rightarrow> bool" where
  "knownOperator opr \<longleftrightarrow> opr \<in> {''any'', ''exact'', ''prefix'', ''suffix'', ''substring'', ''in'', ''not_in''}"

definition classificationRank :: "string \<Rightarrow> int option" where
  "classificationRank c =
     (if c = ''PUBLIC'' then Some 0
      else if c = ''INTERNAL'' then Some 1
      else if c = ''CONFIDENTIAL'' then Some 2
      else if c = ''RESTRICTED'' then Some 3
      else if c = ''TOP_SECRET'' then Some 4
      else if c = ''TS_SCI'' then Some 5
      else None)"

definition CompareClassification :: "string \<Rightarrow> string \<Rightarrow> int option" where
  "CompareClassification a b = (case (classificationRank a, classificationRank b) of
     (Some rankA, Some rankB) \<Rightarrow> Some (if rankA < rankB then - 1 else if rankB < rankA then 1 else 0)
   | _ \<Rightarrow> None)"

definition KnownClassification :: "string \<Rightarrow> bool" where
  "KnownClassification c \<longleftrightarrow> classificationRank c \<noteq> None"

section \<open>The decision (decide.go)\<close>

datatype unreadable =
    UnknownOperator string string
  | UnreadableClassification string string string
  | UnreadableWindow string string string string
  | UnknownCondition string string

record decision_result =
  de_Outcome :: string
  de_FiredRuleID :: string
  de_ReasonCode :: string

record psl_document =
  do_default_effect :: string
  do_rules :: "psl_rule list"

text \<open>A 24-hour HH:MM as minutes since midnight.\<close>

definition ParseHHMM :: "string \<Rightarrow> int option" where
  "ParseHHMM s =
     (case s of [a, b, c, d, e] \<Rightarrow>
        if c \<noteq> CHR '':'' then None
        else (case (digit_value a, digit_value b, digit_value d, digit_value e) of
            (Some h1, Some h0, Some m1, Some m0) \<Rightarrow>
              (let h = int h1 * 10 + int h0; m = int m1 * 10 + int m0
               in if h > 23 \<or> m > 59 then None else Some (h * 60 + m))
          | _ \<Rightarrow> None)
      | _ \<Rightarrow> None)"

text \<open>Hour and Minute of the time in UTC.\<close>

definition minutesOfDay :: "string \<Rightarrow> int option" where
  "minutesOfDay s = (case parse_rfc3339 s of
     None \<Rightarrow> None
   | Some t \<Rightarrow> Some (gt_seconds t mod 86400 div 3600 * 60 + gt_seconds t mod 3600 div 60))"

definition or_zero :: "int option \<Rightarrow> int" where
  "or_zero x = (case x of Some n \<Rightarrow> n | None \<Rightarrow> 0)"

definition inTimeWindow :: "string \<Rightarrow> string \<Rightarrow> string \<Rightarrow> bool" where
  "inTimeWindow startUTC endUTC clock =
     (let start = or_zero (ParseHHMM startUTC); stop = or_zero (ParseHHMM endUTC);
          now = or_zero (minutesOfDay clock)
      in if start \<le> stop then start \<le> now \<and> now \<le> stop
         else start \<le> now \<or> now \<le> stop)"

definition checkCondition :: "string \<Rightarrow> psl_condition \<Rightarrow> evaluation_context \<Rightarrow> unreadable option" where
  "checkCondition ruleID c ctx =
     (if co_type c \<in> {''mfa_required'', ''min_session_age'', ''requires_role'', ''rate_limit''} then None
      else if co_type c = ''time_window'' then
        (if ParseHHMM (co_start_utc c) \<noteq> None \<and> ParseHHMM (co_end_utc c) \<noteq> None
            \<and> minutesOfDay (cx_ClockEpoch ctx) \<noteq> None then None
         else Some (UnreadableWindow ruleID (co_start_utc c) (co_end_utc c) (cx_ClockEpoch ctx)))
      else Some (UnknownCondition ruleID (co_type c)))"

text \<open>The first problem a loop meets.\<close>

fun first_problem :: "('a \<Rightarrow> unreadable option) \<Rightarrow> 'a list \<Rightarrow> unreadable option" where
  "first_problem f [] = None"
| "first_problem f (x # xs) = (case f x of Some e \<Rightarrow> Some e | None \<Rightarrow> first_problem f xs)"

definition check_matchers :: "psl_rule \<Rightarrow> unreadable option" where
  "check_matchers rule = first_problem
     (\<lambda>m. if knownOperator (mt_operator m) then None
          else Some (UnknownOperator (ru_rule_id rule) (mt_operator m)))
     ([su_id_match (ru_subject rule), ve_match (ru_verb rule), ob_id_match (ru_object rule)]
      @ (case su_role_match (ru_subject rule) of None \<Rightarrow> [] | Some m \<Rightarrow> [m]))"

definition check_bounds :: "evaluation_context \<Rightarrow> psl_rule \<Rightarrow> unreadable option" where
  "check_bounds ctx rule = first_problem
     (\<lambda>bound. if bound = [] then None
          else if \<not> KnownClassification bound \<or> \<not> KnownClassification (cx_Classification ctx)
          then Some (UnreadableClassification (ru_rule_id rule) (cx_Classification ctx) bound)
          else None)
     [ob_classification_max (ru_object rule), ob_classification_min (ru_object rule)]"

definition check_rule :: "evaluation_context \<Rightarrow> psl_rule \<Rightarrow> unreadable option" where
  "check_rule ctx rule =
     (case check_matchers rule of Some e \<Rightarrow> Some e
      | None \<Rightarrow> (case check_bounds ctx rule of Some e \<Rightarrow> Some e
         | None \<Rightarrow> first_problem (\<lambda>c. checkCondition (ru_rule_id rule) c ctx) (ru_conditions rule)))"

definition checkReadable :: "psl_rule list \<Rightarrow> evaluation_context \<Rightarrow> unreadable option" where
  "checkReadable rules ctx = first_problem (check_rule ctx) rules"

definition matchSubject :: "psl_subject \<Rightarrow> evaluation_context \<Rightarrow> bool" where
  "matchSubject s ctx =
     (if su_type s \<noteq> ''any'' \<and> su_type s \<noteq> cx_SubjectType ctx then False
      else if \<not> Match (su_id_match s) (cx_SubjectID ctx) then False
      else (case su_role_match s of None \<Rightarrow> True | Some m \<Rightarrow> Match m (cx_SubjectRole ctx)))"

definition matchVerb :: "psl_verb \<Rightarrow> evaluation_context \<Rightarrow> bool" where
  "matchVerb v ctx = Match (ve_match v) (cx_Verb ctx)"

definition matchObject :: "psl_object \<Rightarrow> evaluation_context \<Rightarrow> bool" where
  "matchObject x ctx =
     (if ob_type x \<noteq> ''any'' \<and> ob_type x \<noteq> cx_ObjectType ctx then False
      else if \<not> Match (ob_id_match x) (cx_ObjectID ctx) then False
      else if ob_classification_max x \<noteq> []
              \<and> (case CompareClassification (cx_Classification ctx) (ob_classification_max x) of
                   None \<Rightarrow> True | Some cmp \<Rightarrow> cmp > 0) then False
      else if ob_classification_min x \<noteq> []
              \<and> (case CompareClassification (cx_Classification ctx) (ob_classification_min x) of
                   None \<Rightarrow> True | Some cmp \<Rightarrow> cmp < 0) then False
      else True)"

text \<open>A missing key of a Go map reads as zero.\<close>

definition rate_count :: "(string \<times> int) list \<Rightarrow> string \<Rightarrow> int" where
  "rate_count m k = or_zero (map_of m k)"

definition matchOneCondition :: "string \<Rightarrow> psl_condition \<Rightarrow> evaluation_context \<Rightarrow> bool" where
  "matchOneCondition ruleID c ctx =
     (if co_type c = ''mfa_required'' then \<not> co_required c \<or> cx_MFASatisfied ctx
      else if co_type c = ''min_session_age'' then cx_SessionAgeSeconds ctx \<ge> co_seconds c
      else if co_type c = ''requires_role'' then cx_SubjectRole ctx = co_role c
      else if co_type c = ''time_window'' then inTimeWindow (co_start_utc c) (co_end_utc c) (cx_ClockEpoch ctx)
      else if co_type c = ''rate_limit'' then rate_count (cx_RateCounts ctx) ruleID < co_max_per_window c
      else False)"

fun matchConditions :: "string \<Rightarrow> psl_condition list \<Rightarrow> evaluation_context \<Rightarrow> bool" where
  "matchConditions ruleID [] ctx = True"
| "matchConditions ruleID (c # cs) ctx =
     (if \<not> matchOneCondition ruleID c ctx then False else matchConditions ruleID cs ctx)"

definition reasonFor :: "string \<Rightarrow> string" where
  "reasonFor e = (if e = EffectAllow then ReasonRuleAllowed
     else if e = EffectDeny then ReasonRuleDenied else [])"

text \<open>The loop over the rules, after every rule was read.\<close>

fun decide_rules :: "psl_rule list \<Rightarrow> string \<Rightarrow> evaluation_context \<Rightarrow> decision_result" where
  "decide_rules [] defaultEffect ctx =
     \<lparr>de_Outcome = defaultEffect, de_FiredRuleID = DefaultRuleID, de_ReasonCode = ReasonDefaultEffectApplied\<rparr>"
| "decide_rules (rule # rules) defaultEffect ctx =
     (if \<not> matchSubject (ru_subject rule) ctx \<or> \<not> matchVerb (ru_verb rule) ctx
         \<or> \<not> matchObject (ru_object rule) ctx
         \<or> \<not> matchConditions (ru_rule_id rule) (ru_conditions rule) ctx
      then decide_rules rules defaultEffect ctx
      else \<lparr>de_Outcome = ru_effect rule, de_FiredRuleID = ru_rule_id rule,
            de_ReasonCode = (if ru_reason_code rule \<noteq> [] then ru_reason_code rule
                             else reasonFor (ru_effect rule))\<rparr>)"

definition Decide :: "psl_rule list \<Rightarrow> string \<Rightarrow> evaluation_context \<Rightarrow> unreadable + decision_result" where
  "Decide rules defaultEffect ctx = (case checkReadable rules ctx of
     Some e \<Rightarrow> Inl e
   | None \<Rightarrow> Inr (decide_rules rules defaultEffect ctx))"

section \<open>What the operators mean\<close>

lemma hasPrefix_iff: "hasPrefix s p \<longleftrightarrow> prefix p s"
  by (auto simp: hasPrefix_def prefix_def) (metis append_take_drop_id)

lemma hasSuffix_iff: "hasSuffix s p \<longleftrightarrow> suffix p s"
  by (auto simp: hasSuffix_def suffix_def) (metis append_take_drop_id)

lemma contains_from_iff: "contains_from s p i \<longleftrightarrow> (\<exists>j \<ge> i. j + length p \<le> length s \<and> take (length p) (drop j s) = p)"
proof (induction s p i rule: contains_from.induct)
  case (1 s p i)
  show ?case
  proof (cases "i + length p \<le> length s \<and> take (length p) (drop i s) \<noteq> p")
    case True
    then have "contains_from s p i \<longleftrightarrow> contains_from s p (i + 1)" by (subst contains_from.simps) simp
    also have "\<dots> \<longleftrightarrow> (\<exists>j \<ge> i + 1. j + length p \<le> length s \<and> take (length p) (drop j s) = p)"
      using 1 True by blast
    also have "\<dots> \<longleftrightarrow> (\<exists>j \<ge> i. j + length p \<le> length s \<and> take (length p) (drop j s) = p)"
      using True by (metis Suc_eq_plus1 Suc_le_eq le_neq_implies_less less_imp_le)
    finally show ?thesis .
  next
    case False
    then show ?thesis by (subst contains_from.simps) auto
  qed
qed

lemma contains_iff: "contains s p \<longleftrightarrow> sublist p s"
proof -
  have "contains s p \<longleftrightarrow> (\<exists>j. j + length p \<le> length s \<and> take (length p) (drop j s) = p)"
    by (auto simp: contains_def contains_from_iff)
  also have "\<dots> \<longleftrightarrow> sublist p s"
    unfolding sublist_def
    by (metis (no_types, opaque_lifting) append_eq_conv_conj append_take_drop_id le_add1
        length_append nat_add_left_cancel_le)
  finally show ?thesis .
qed

lemma inSet_iff: "inSet value vs \<longleftrightarrow> value \<in> set vs"
  by (induction vs) auto

text \<open>The documented meaning of each operator.\<close>

definition matcher_means :: "psl_matcher \<Rightarrow> string \<Rightarrow> bool" where
  "matcher_means m value \<longleftrightarrow>
     mt_operator m = ''any''
   \<or> mt_operator m = ''exact'' \<and> value = mt_value m
   \<or> mt_operator m = ''prefix'' \<and> prefix (mt_value m) value
   \<or> mt_operator m = ''suffix'' \<and> suffix (mt_value m) value
   \<or> mt_operator m = ''substring'' \<and> sublist (mt_value m) value
   \<or> mt_operator m = ''in'' \<and> value \<in> set (mt_values m)
   \<or> mt_operator m = ''not_in'' \<and> value \<notin> set (mt_values m)"

lemma Match_means: "Match m value \<longleftrightarrow> matcher_means m value"
  by (simp add: Match_def matcher_means_def hasPrefix_iff hasSuffix_iff contains_iff inSet_iff)

section \<open>The clock\<close>

lemma digit_value_range: "digit_value c = Some n \<Longrightarrow> n < 10"
  by (auto simp: digit_value_def Let_def split: if_splits)

lemma ParseHHMM_range: "ParseHHMM s = Some n \<Longrightarrow> 0 \<le> n \<and> n < 1440"
  by (auto simp: ParseHHMM_def Let_def split: list.splits if_splits option.splits)

lemma minutes_div: "t mod 86400 div 3600 * 60 + t mod 3600 div 60 = t mod 86400 div (60 :: int)"
proof -
  define r where "r = t mod 86400"
  have "t mod 3600 = r mod 3600" by (simp add: r_def mod_mod_cancel)
  moreover have "r = r mod 3600 + 60 * (60 * (r div 3600))"
    using mult_div_mod_eq [of 3600 r] by linarith
  then have "r div 60 = 60 * (r div 3600) + r mod 3600 div 60"
    by (metis div_mult_self2 zero_neq_numeral)
  ultimately show ?thesis by (simp add: r_def)
qed

lemma minutesOfDay_range: "minutesOfDay s = Some n \<Longrightarrow> 0 \<le> n \<and> n < 1440"
proof -
  have "0 \<le> t mod 86400 div 60 \<and> t mod 86400 div 60 < 1440" for t :: int
  proof -
    have "0 \<le> t mod 86400" "t mod 86400 < 86400" by simp_all
    then show ?thesis by linarith
  qed
  then show "minutesOfDay s = Some n \<Longrightarrow> 0 \<le> n \<and> n < 1440"
    by (auto simp: minutesOfDay_def minutes_div split: option.splits)
qed

text \<open>A time lies in a window when it is no further from the start than the end is, going forward.\<close>

definition on_arc :: "int \<Rightarrow> int \<Rightarrow> int \<Rightarrow> bool" where
  "on_arc start stop now \<longleftrightarrow> (now - start) mod 1440 \<le> (stop - start) mod 1440"

lemma forward_mod: "0 \<le> a \<Longrightarrow> a < 1440 \<Longrightarrow> 0 \<le> b \<Longrightarrow> b < 1440 \<Longrightarrow>
    (b - a) mod 1440 = (if a \<le> b then b - a else b - a + (1440 :: int))"
proof (cases "a \<le> b")
  case False
  assume "0 \<le> a" "a < 1440" "0 \<le> b" "b < 1440"
  have "(b - a) mod 1440 = (b - a + 1440) mod 1440" by simp
  also have "\<dots> = b - a + 1440" using False \<open>a < 1440\<close> \<open>0 \<le> b\<close> by (intro mod_pos_pos_trivial) auto
  finally show ?thesis using False by simp
qed simp

lemma window_arc:
  assumes "ParseHHMM s = Some start" "ParseHHMM e = Some stop" "minutesOfDay c = Some now"
  shows "inTimeWindow s e c \<longleftrightarrow> on_arc start stop now"
  using assms ParseHHMM_range [OF assms(1)] ParseHHMM_range [OF assms(2)] minutesOfDay_range [OF assms(3)]
  by (simp add: inTimeWindow_def or_zero_def on_arc_def forward_mod)

section \<open>What a rule means\<close>

text \<open>
  A rule as a reader of the policy understands it: every operator by its meaning, a
  classification by its place in the order, a time window by the clock face. Nothing is
  defined for a text that cannot be read.
\<close>

definition level_within :: "(int \<Rightarrow> int \<Rightarrow> bool) \<Rightarrow> string \<Rightarrow> string \<Rightarrow> bool" where
  "level_within cmp level bound \<longleftrightarrow> (case (classificationRank level, classificationRank bound) of
     (Some a, Some b) \<Rightarrow> cmp a b | _ \<Rightarrow> False)"

definition object_means :: "psl_object \<Rightarrow> evaluation_context \<Rightarrow> bool" where
  "object_means x ctx \<longleftrightarrow>
     (ob_type x = ''any'' \<or> ob_type x = cx_ObjectType ctx)
   \<and> matcher_means (ob_id_match x) (cx_ObjectID ctx)
   \<and> (ob_classification_max x = [] \<or> level_within (\<le>) (cx_Classification ctx) (ob_classification_max x))
   \<and> (ob_classification_min x = [] \<or> level_within (\<ge>) (cx_Classification ctx) (ob_classification_min x))"

definition window_means :: "string \<Rightarrow> string \<Rightarrow> string \<Rightarrow> bool" where
  "window_means s e c \<longleftrightarrow> (case (ParseHHMM s, ParseHHMM e, minutesOfDay c) of
     (Some start, Some stop, Some now) \<Rightarrow> on_arc start stop now | _ \<Rightarrow> False)"

definition condition_means :: "string \<Rightarrow> psl_condition \<Rightarrow> evaluation_context \<Rightarrow> bool" where
  "condition_means ruleID c ctx \<longleftrightarrow>
     co_type c = ''mfa_required'' \<and> (co_required c \<longrightarrow> cx_MFASatisfied ctx)
   \<or> co_type c = ''min_session_age'' \<and> co_seconds c \<le> cx_SessionAgeSeconds ctx
   \<or> co_type c = ''requires_role'' \<and> cx_SubjectRole ctx = co_role c
   \<or> co_type c = ''time_window'' \<and> window_means (co_start_utc c) (co_end_utc c) (cx_ClockEpoch ctx)
   \<or> co_type c = ''rate_limit'' \<and> rate_count (cx_RateCounts ctx) ruleID < co_max_per_window c"

definition rule_means :: "evaluation_context \<Rightarrow> psl_rule \<Rightarrow> bool" where
  "rule_means ctx rule \<longleftrightarrow>
     (su_type (ru_subject rule) = ''any'' \<or> su_type (ru_subject rule) = cx_SubjectType ctx)
   \<and> matcher_means (su_id_match (ru_subject rule)) (cx_SubjectID ctx)
   \<and> (case su_role_match (ru_subject rule) of None \<Rightarrow> True | Some m \<Rightarrow> matcher_means m (cx_SubjectRole ctx))
   \<and> matcher_means (ve_match (ru_verb rule)) (cx_Verb ctx)
   \<and> object_means (ru_object rule) ctx
   \<and> (\<forall>c \<in> set (ru_conditions rule). condition_means (ru_rule_id rule) c ctx)"

text \<open>What must be readable for the rule to have that meaning.\<close>

definition readable_matchers :: "psl_rule \<Rightarrow> psl_matcher list" where
  "readable_matchers rule =
     [su_id_match (ru_subject rule), ve_match (ru_verb rule), ob_id_match (ru_object rule)]
     @ (case su_role_match (ru_subject rule) of None \<Rightarrow> [] | Some m \<Rightarrow> [m])"

definition condition_readable :: "evaluation_context \<Rightarrow> psl_condition \<Rightarrow> bool" where
  "condition_readable ctx c \<longleftrightarrow>
     co_type c \<in> {''mfa_required'', ''min_session_age'', ''requires_role'', ''rate_limit''}
   \<or> co_type c = ''time_window'' \<and> ParseHHMM (co_start_utc c) \<noteq> None \<and> ParseHHMM (co_end_utc c) \<noteq> None
      \<and> minutesOfDay (cx_ClockEpoch ctx) \<noteq> None"

definition rule_readable :: "evaluation_context \<Rightarrow> psl_rule \<Rightarrow> bool" where
  "rule_readable ctx rule \<longleftrightarrow>
     list_all (\<lambda>m. knownOperator (mt_operator m)) (readable_matchers rule)
   \<and> list_all (\<lambda>bound. bound = [] \<or> KnownClassification bound \<and> KnownClassification (cx_Classification ctx))
       [ob_classification_max (ru_object rule), ob_classification_min (ru_object rule)]
   \<and> list_all (condition_readable ctx) (ru_conditions rule)"

lemma first_problem_None: "first_problem f xs = None \<longleftrightarrow> list_all (\<lambda>x. f x = None) xs"
  by (induction xs) (auto split: option.splits)

lemma checkCondition_None: "checkCondition r c ctx = None \<longleftrightarrow> condition_readable ctx c"
  by (auto simp: checkCondition_def condition_readable_def)

lemma check_rule_None: "check_rule ctx rule = None \<longleftrightarrow> rule_readable ctx rule"
  by (auto simp: check_rule_def check_matchers_def check_bounds_def rule_readable_def readable_matchers_def
      first_problem_None checkCondition_None list_all_iff split: option.splits if_splits)

lemma checkReadable_None: "checkReadable rules ctx = None \<longleftrightarrow> list_all (rule_readable ctx) rules"
  by (simp add: checkReadable_def first_problem_None check_rule_None)

lemma compare_iff:
  "CompareClassification a b = (case (classificationRank a, classificationRank b) of
     (Some x, Some y) \<Rightarrow> Some (sgn (x - y)) | _ \<Rightarrow> None)"
  by (auto simp: CompareClassification_def sgn_if split: option.splits)

lemma matchObject_means: "matchObject x ctx \<longleftrightarrow> object_means x ctx"
  by (auto simp: matchObject_def object_means_def Match_means compare_iff level_within_def sgn_if
      split: option.splits if_splits)

lemma matchSubject_means: "matchSubject s ctx \<longleftrightarrow>
    (su_type s = ''any'' \<or> su_type s = cx_SubjectType ctx) \<and> matcher_means (su_id_match s) (cx_SubjectID ctx)
    \<and> (case su_role_match s of None \<Rightarrow> True | Some m \<Rightarrow> matcher_means m (cx_SubjectRole ctx))"
  by (auto simp: matchSubject_def Match_means split: option.splits)

lemma window_readable:
  "ParseHHMM s \<noteq> None \<Longrightarrow> ParseHHMM e \<noteq> None \<Longrightarrow> minutesOfDay c \<noteq> None
    \<Longrightarrow> inTimeWindow s e c \<longleftrightarrow> window_means s e c"
  by (auto simp: window_means_def window_arc)

lemma condition_means_iff: "condition_readable ctx c \<Longrightarrow> matchOneCondition r c ctx \<longleftrightarrow> condition_means r c ctx"
  by (auto simp: condition_readable_def matchOneCondition_def condition_means_def window_readable)

lemma conditions_means_iff:
  "list_all (condition_readable ctx) cs \<Longrightarrow> matchConditions r cs ctx \<longleftrightarrow> (\<forall>c \<in> set cs. condition_means r c ctx)"
  by (induction cs) (simp_all add: condition_means_iff)

definition fires :: "psl_rule \<Rightarrow> decision_result" where
  "fires rule = \<lparr>de_Outcome = ru_effect rule, de_FiredRuleID = ru_rule_id rule,
     de_ReasonCode = (if ru_reason_code rule \<noteq> [] then ru_reason_code rule else reasonFor (ru_effect rule))\<rparr>"

definition no_rule :: "string \<Rightarrow> decision_result" where
  "no_rule defaultEffect = \<lparr>de_Outcome = defaultEffect, de_FiredRuleID = DefaultRuleID,
     de_ReasonCode = ReasonDefaultEffectApplied\<rparr>"

text \<open>The decision a reader reaches: the first rule whose meaning holds, else the default.\<close>

definition decision_means :: "psl_rule list \<Rightarrow> string \<Rightarrow> evaluation_context \<Rightarrow> decision_result" where
  "decision_means rules defaultEffect ctx = (case find (rule_means ctx) rules of
     Some rule \<Rightarrow> fires rule | None \<Rightarrow> no_rule defaultEffect)"

lemma decide_rules_means:
  "list_all (rule_readable ctx) rules \<Longrightarrow> decide_rules rules d ctx = decision_means rules d ctx"
  by (induction rules) (auto simp: decision_means_def rule_means_def matchSubject_means matchVerb_def
      Match_means matchObject_means conditions_means_iff rule_readable_def fires_def no_rule_def)

lemma Decide_iff:
  "Decide rules d ctx = (if list_all (rule_readable ctx) rules then Inr (decision_means rules d ctx)
     else Inl (the (checkReadable rules ctx)))"
  using checkReadable_None [of rules ctx] by (auto simp: Decide_def decide_rules_means split: option.splits)

text \<open>C17. The decision means what the policy says: Decide answers exactly when every rule of the policy
  can be read against the sealed values, the rules after the one that fires included, and
  its answer is then that of the first rule, in the order of the policy's list, whose documented
  meaning holds, or of the default effect when none does; the priority a rule carries is never
  read. Prefixes, suffixes and substrings of the text, a classification by its rank, a time
  window as an arc of the clock face that may pass midnight are what a rule means. No time or
  level that does not parse ever reaches a comparison.\<close>

theorem decide_means:
  "Decide rules defaultEffect ctx = Inr res \<longleftrightarrow>
     (\<forall>rule \<in> set rules. rule_readable ctx rule) \<and> res = decision_means rules defaultEffect ctx"
  by (auto simp: Decide_iff list_all_iff)

definition any_matcher :: psl_matcher where
  "any_matcher = \<lparr>mt_operator = ''any'', mt_value = [], mt_values = []\<rparr>"

definition night_rule :: psl_rule where
  "night_rule = \<lparr>ru_rule_id = ''night'', ru_rule_name = [], ru_effect = ''deny'',
     ru_subject = \<lparr>su_type = ''any'', su_id_match = any_matcher, su_role_match = None\<rparr>,
     ru_verb = \<lparr>ve_match = any_matcher\<lparr>mt_operator := ''prefix'', mt_value := ''transfer''\<rparr>\<rparr>,
     ru_object = \<lparr>ob_type = ''any'', ob_id_match = any_matcher, ob_classification_max = ''INTERNAL'',
       ob_classification_min = []\<rparr>,
     ru_conditions = [\<lparr>co_type = ''time_window'', co_max_per_window = 0, co_window_seconds = 0,
       co_start_utc = ''22:00'', co_end_utc = ''05:30'', co_required = False, co_seconds = 0, co_role = []\<rparr>],
     ru_priority = 0, ru_reason_code = []\<rparr>"

definition night_context :: evaluation_context where
  "night_context = \<lparr>cx_SubjectID = ''a'', cx_SubjectType = ''agent'', cx_SubjectRole = [],
     cx_Verb = ''transfer.large'', cx_ObjectType = ''data'', cx_ObjectID = ''x'',
     cx_Classification = ''PUBLIC'', cx_MFASatisfied = False, cx_SessionAgeSeconds = 0,
     cx_ClockEpoch = ''2026-11-01T23:59:10-05:00'', cx_EnvelopeID = [], cx_EnvelopeHash = [],
     cx_RateCounts = []\<rparr>"

lemma night_readable: "rule_readable night_context night_rule"
  by code_simp

lemma night_applies: "decision_means [night_rule] ''allow'' night_context = fires night_rule"
  by code_simp

lemma night_fires: "fires night_rule = \<lparr>de_Outcome = ''deny'', de_FiredRuleID = ''night'', de_ReasonCode = ''RULE_DENIED''\<rparr>"
  by code_simp

lemma decide_means_witness:
  "Decide [night_rule] ''allow'' night_context
     = Inr \<lparr>de_Outcome = ''deny'', de_FiredRuleID = ''night'', de_ReasonCode = ''RULE_DENIED''\<rparr>"
  by (rule decide_means [THEN iffD2]) (simp add: night_readable night_applies night_fires)

text \<open>Two decimal digits.\<close>

definition two_digits :: "nat \<Rightarrow> string" where
  "two_digits n = [digit_char (n div 10), digit_char (n mod 10)]"

lemma digit_char_value: "digit_value c = Some n \<Longrightarrow> c = digit_char n"
  by (auto simp: digit_value_def digit_char_def Let_def split: if_splits)

lemma two_digits_iff:
  "(\<exists>x y. digit_value a = Some x \<and> digit_value b = Some y \<and> n = 10 * x + y)
     \<longleftrightarrow> n < 100 \<and> [a, b] = two_digits n"
proof
  assume "\<exists>x y. digit_value a = Some x \<and> digit_value b = Some y \<and> n = 10 * x + y"
  then obtain x y where "digit_value a = Some x" "digit_value b = Some y" "n = 10 * x + y" by blast
  moreover from this have "x < 10" "y < 10" by (simp_all add: digit_value_range)
  ultimately show "n < 100 \<and> [a, b] = two_digits n"
    by (auto simp: two_digits_def dest: digit_char_value)
next
  assume "n < 100 \<and> [a, b] = two_digits n"
  then show "\<exists>x y. digit_value a = Some x \<and> digit_value b = Some y \<and> n = 10 * x + y"
    by (intro exI [of _ "n div 10"] exI [of _ "n mod 10"]) (auto simp: two_digits_def)
qed

text \<open>ParseHHMM reads exactly the texts HH:MM of the 1440 minutes of a day, each as its minute:
  two digits each, hours up to 23, minutes up to 59, and nothing else.\<close>
lemma parse_hhmm_exact:
  "ParseHHMM s = Some n \<longleftrightarrow>
     (\<exists>h m. h \<le> 23 \<and> m \<le> 59 \<and> n = int (h * 60 + m) \<and> s = two_digits h @ '':'' @ two_digits m)"
proof
  assume "ParseHHMM s = Some n"
  then obtain a b d e h1 h0 m1 m0 where p:
    "s = [a, b, CHR '':'', d, e]" "digit_value a = Some h1" "digit_value b = Some h0"
    "digit_value d = Some m1" "digit_value e = Some m0"
    "h1 * 10 + h0 \<le> 23" "m1 * 10 + m0 \<le> 59" "n = int ((h1 * 10 + h0) * 60 + (m1 * 10 + m0))"
    by (auto simp: ParseHHMM_def Let_def split: list.splits if_splits option.splits)
  moreover have "[a, b] = two_digits (h1 * 10 + h0)" "[d, e] = two_digits (m1 * 10 + m0)"
    using two_digits_iff [of a b "h1 * 10 + h0"] two_digits_iff [of d e "m1 * 10 + m0"] p by auto
  ultimately show "\<exists>h m. h \<le> 23 \<and> m \<le> 59 \<and> n = int (h * 60 + m) \<and> s = two_digits h @ '':'' @ two_digits m"
    by (metis append_Cons append_Nil)
next
  assume "\<exists>h m. h \<le> 23 \<and> m \<le> 59 \<and> n = int (h * 60 + m) \<and> s = two_digits h @ '':'' @ two_digits m"
  then obtain h m where "h \<le> 23" "m \<le> 59" "n = int (h * 60 + m)" "s = two_digits h @ '':'' @ two_digits m"
    by blast
  moreover have "int (k div 10) * 10 + int (k mod 10) = int k" for k :: nat
    by (metis of_nat_add of_nat_mult of_nat_numeral div_mult_mod_eq)
  ultimately show "ParseHHMM s = Some n"
    by (simp add: ParseHHMM_def two_digits_def Let_def)
qed

text \<open>The sealed inputs carry everything a decision reads.\<close>

lemma inputs_context_fields [simp]:
  "cx_SubjectID (Inputs_Context (InputsOf c)) = cx_SubjectID c"
  "cx_SubjectType (Inputs_Context (InputsOf c)) = cx_SubjectType c"
  "cx_SubjectRole (Inputs_Context (InputsOf c)) = cx_SubjectRole c"
  "cx_Verb (Inputs_Context (InputsOf c)) = cx_Verb c"
  "cx_ObjectType (Inputs_Context (InputsOf c)) = cx_ObjectType c"
  "cx_ObjectID (Inputs_Context (InputsOf c)) = cx_ObjectID c"
  "cx_Classification (Inputs_Context (InputsOf c)) = cx_Classification c"
  "cx_MFASatisfied (Inputs_Context (InputsOf c)) = cx_MFASatisfied c"
  "cx_SessionAgeSeconds (Inputs_Context (InputsOf c)) = cx_SessionAgeSeconds c"
  "cx_ClockEpoch (Inputs_Context (InputsOf c)) = cx_ClockEpoch c"
  "cx_RateCounts (Inputs_Context (InputsOf c)) = cx_RateCounts c"
  by (simp_all add: Inputs_Context_def InputsOf_def)

lemma decide_from_inputs: "Decide rules d (Inputs_Context (InputsOf ctx)) = Decide rules d ctx"
proof -
  let ?c = "Inputs_Context (InputsOf ctx)"
  have "checkCondition r c ?c = checkCondition r c ctx" for r c by (simp add: checkCondition_def)
  then have "check_rule ?c = check_rule ctx" by (simp add: fun_eq_iff check_rule_def check_bounds_def cong: option.case_cong)
  then have "checkReadable rules ?c = checkReadable rules ctx" by (simp add: checkReadable_def)
  have "matchConditions i cs ?c = matchConditions i cs ctx" for i cs
    by (induction cs) (simp_all add: matchOneCondition_def)
  moreover have "matchSubject s ?c = matchSubject s ctx" "matchVerb v ?c = matchVerb v ctx"
    "matchObject x ?c = matchObject x ctx" for s v x
    by (simp_all add: matchSubject_def matchVerb_def matchObject_def cong: option.case_cong)
  ultimately have "decide_rules rules d ?c = decide_rules rules d ctx" by (induction rules) simp_all
  with \<open>checkReadable rules ?c = _\<close> show ?thesis by (simp add: Decide_def cong: option.case_cong)
qed

end
