(* ===== verification/PolicyDoc.thy ===== *)
theory PolicyDoc
  imports StrictJson PolicyEval Rekor "HOL-Library.List_Lexorder" "HOL-Library.Char_ord"
begin

text \<open>
  internal/policyhash: reading a policy document strictly, validating it and hashing its
  substance; and ReadDocument of internal/psleval, which reads the rules of the same text.
  The two packages declare the rule types twice, field for field; they are the records of
  PolicyEval. The main theorem says what the hash binds: two documents with one policy hash
  decide every request alike, or their preimages are a SHA-256 collision.
\<close>

section \<open>encoding/json into the policy types\<close>

text \<open>
  Decoding starts from the zero value. A document reaches these definitions after the strict
  reading, so a field is set at most once and an element of a slice is decoded into a zero
  element. null leaves a scalar and a struct as they are and empties a slice or a pointer.
\<close>

definition set_int :: "(int \<Rightarrow> 's \<Rightarrow> 's) \<Rightarrow> json \<Rightarrow> 's \<Rightarrow> 's option" where
  "set_int upd v s = (case v of
     JNum x \<Rightarrow> map_option (\<lambda>n. upd n s) (parse_int64 x) | JNull \<Rightarrow> Some s | _ \<Rightarrow> None)"

definition set_bool :: "(bool \<Rightarrow> 's \<Rightarrow> 's) \<Rightarrow> json \<Rightarrow> 's \<Rightarrow> 's option" where
  "set_bool upd v s = (case v of JBool b \<Rightarrow> Some (upd b s) | JNull \<Rightarrow> Some s | _ \<Rightarrow> None)"

definition set_slice :: "(json \<Rightarrow> 'e option) \<Rightarrow> ('e list \<Rightarrow> 's \<Rightarrow> 's) \<Rightarrow> json \<Rightarrow> 's \<Rightarrow> 's option" where
  "set_slice dec upd v s = (case v of
     JArr xs \<Rightarrow> map_option (\<lambda>l. upd l s) (those (map dec xs)) | JNull \<Rightarrow> Some (upd [] s) | _ \<Rightarrow> None)"

definition set_pointer :: "(json \<Rightarrow> 'e option) \<Rightarrow> ('e option \<Rightarrow> 's \<Rightarrow> 's) \<Rightarrow> json \<Rightarrow> 's \<Rightarrow> 's option" where
  "set_pointer dec upd v s = (if v = JNull then Some (upd None s)
     else map_option (\<lambda>x. upd (Some x) s) (dec v))"

definition set_inner :: "(json \<Rightarrow> 'e option) \<Rightarrow> ('e \<Rightarrow> 's \<Rightarrow> 's) \<Rightarrow> json \<Rightarrow> 's \<Rightarrow> 's option" where
  "set_inner dec upd v s = map_option (\<lambda>x. upd x s) (dec v)"

definition decode_string :: "json \<Rightarrow> string option" where
  "decode_string v = set_string (\<lambda>x _. x) v []"

definition decode_matcher :: "json \<Rightarrow> psl_matcher option" where
  "decode_matcher v = set_struct
     [(''operator'', set_string (\<lambda>x. mt_operator_update (\<lambda>_. x))),
      (''value'', set_string (\<lambda>x. mt_value_update (\<lambda>_. x))),
      (''values'', set_slice decode_string (\<lambda>x. mt_values_update (\<lambda>_. x)))]
     v \<lparr>mt_operator = [], mt_value = [], mt_values = []\<rparr>"

definition zero_matcher :: psl_matcher where
  "zero_matcher = \<lparr>mt_operator = [], mt_value = [], mt_values = []\<rparr>"

definition decode_subject :: "json \<Rightarrow> psl_subject option" where
  "decode_subject v = set_struct
     [(''type'', set_string (\<lambda>x. su_type_update (\<lambda>_. x))),
      (''id_match'', set_inner decode_matcher (\<lambda>x. su_id_match_update (\<lambda>_. x))),
      (''role_match'', set_pointer decode_matcher (\<lambda>x. su_role_match_update (\<lambda>_. x)))]
     v \<lparr>su_type = [], su_id_match = zero_matcher, su_role_match = None\<rparr>"

definition decode_verb :: "json \<Rightarrow> psl_verb option" where
  "decode_verb v = set_struct
     [(''match'', set_inner decode_matcher (\<lambda>x. ve_match_update (\<lambda>_. x)))]
     v \<lparr>ve_match = zero_matcher\<rparr>"

definition decode_object :: "json \<Rightarrow> psl_object option" where
  "decode_object v = set_struct
     [(''type'', set_string (\<lambda>x. ob_type_update (\<lambda>_. x))),
      (''id_match'', set_inner decode_matcher (\<lambda>x. ob_id_match_update (\<lambda>_. x))),
      (''classification_max'', set_string (\<lambda>x. ob_classification_max_update (\<lambda>_. x))),
      (''classification_min'', set_string (\<lambda>x. ob_classification_min_update (\<lambda>_. x)))]
     v \<lparr>ob_type = [], ob_id_match = zero_matcher, ob_classification_max = [], ob_classification_min = []\<rparr>"

definition zero_condition :: psl_condition where
  "zero_condition = \<lparr>co_type = [], co_max_per_window = 0, co_window_seconds = 0, co_start_utc = [],
     co_end_utc = [], co_required = False, co_seconds = 0, co_role = []\<rparr>"

definition decode_condition :: "json \<Rightarrow> psl_condition option" where
  "decode_condition v = set_struct
     [(''type'', set_string (\<lambda>x. co_type_update (\<lambda>_. x))),
      (''max_per_window'', set_int (\<lambda>x. co_max_per_window_update (\<lambda>_. x))),
      (''window_seconds'', set_int (\<lambda>x. co_window_seconds_update (\<lambda>_. x))),
      (''start_utc'', set_string (\<lambda>x. co_start_utc_update (\<lambda>_. x))),
      (''end_utc'', set_string (\<lambda>x. co_end_utc_update (\<lambda>_. x))),
      (''required'', set_bool (\<lambda>x. co_required_update (\<lambda>_. x))),
      (''seconds'', set_int (\<lambda>x. co_seconds_update (\<lambda>_. x))),
      (''role'', set_string (\<lambda>x. co_role_update (\<lambda>_. x)))]
     v zero_condition"

definition decode_rule :: "json \<Rightarrow> psl_rule option" where
  "decode_rule v = set_struct
     [(''rule_id'', set_string (\<lambda>x. ru_rule_id_update (\<lambda>_. x))),
      (''rule_name'', set_string (\<lambda>x. ru_rule_name_update (\<lambda>_. x))),
      (''effect'', set_string (\<lambda>x. ru_effect_update (\<lambda>_. x))),
      (''subject'', set_inner decode_subject (\<lambda>x. ru_subject_update (\<lambda>_. x))),
      (''verb'', set_inner decode_verb (\<lambda>x. ru_verb_update (\<lambda>_. x))),
      (''object'', set_inner decode_object (\<lambda>x. ru_object_update (\<lambda>_. x))),
      (''conditions'', set_slice decode_condition (\<lambda>x. ru_conditions_update (\<lambda>_. x))),
      (''priority'', set_int (\<lambda>x. ru_priority_update (\<lambda>_. x))),
      (''reason_code'', set_string (\<lambda>x. ru_reason_code_update (\<lambda>_. x)))]
     v \<lparr>ru_rule_id = [], ru_rule_name = [], ru_effect = [],
        ru_subject = \<lparr>su_type = [], su_id_match = zero_matcher, su_role_match = None\<rparr>,
        ru_verb = \<lparr>ve_match = zero_matcher\<rparr>,
        ru_object = \<lparr>ob_type = [], ob_id_match = zero_matcher, ob_classification_max = [],
          ob_classification_min = []\<rparr>,
        ru_conditions = [], ru_priority = 0, ru_reason_code = []\<rparr>"

text \<open>ReadDocument of psleval (decide.go).\<close>

definition document_fields :: "(string \<times> (json \<Rightarrow> psl_document \<Rightarrow> psl_document option)) list" where
  "document_fields =
     [(''default_effect'', set_string (\<lambda>x. do_default_effect_update (\<lambda>_. x))),
      (''rules'', set_slice decode_rule (\<lambda>x. do_rules_update (\<lambda>_. x)))]"

definition ReadDocument :: "string \<Rightarrow> psl_document option" where
  "ReadDocument doc = (case json_parse doc of
     None \<Rightarrow> None
   | Some v \<Rightarrow> set_struct document_fields v \<lparr>do_default_effect = [], do_rules = []\<rparr>)"

section \<open>The policy (policyhash.go)\<close>

record signature_policy =
  spo_type :: string
  spo_threshold :: int
  spo_required :: "string list"

record policy_signature =
  psi_signer_id :: string
  psi_key_algorithm :: string
  psi_key_fingerprint :: string
  psi_signature_base64 :: string
  psi_signed_at :: string

record psl_policy =
  po_schema :: string
  po_policy_id :: string
  po_policy_name :: string
  po_policy_version :: string
  po_effective_at :: string
  po_default_effect :: string
  po_rules :: "psl_rule list"
  po_metadata :: "(string \<times> json) list"
  po_tags :: "string list"
  po_required_attested_fields :: "string list"
  po_required_outcome_fields :: "string list"
  po_profile_tag :: string
  po_signature_policy :: "signature_policy option"
  po_signers :: "policy_signature list"

definition decode_signature_policy :: "json \<Rightarrow> signature_policy option" where
  "decode_signature_policy v = set_struct
     [(''type'', set_string (\<lambda>x. spo_type_update (\<lambda>_. x))),
      (''threshold'', set_int (\<lambda>x. spo_threshold_update (\<lambda>_. x))),
      (''required'', set_slice decode_string (\<lambda>x. spo_required_update (\<lambda>_. x)))]
     v \<lparr>spo_type = [], spo_threshold = 0, spo_required = []\<rparr>"

definition decode_policy_signature :: "json \<Rightarrow> policy_signature option" where
  "decode_policy_signature v = set_struct
     [(''signer_id'', set_string (\<lambda>x. psi_signer_id_update (\<lambda>_. x))),
      (''key_algorithm'', set_string (\<lambda>x. psi_key_algorithm_update (\<lambda>_. x))),
      (''key_fingerprint'', set_string (\<lambda>x. psi_key_fingerprint_update (\<lambda>_. x))),
      (''signature_base64'', set_string (\<lambda>x. psi_signature_base64_update (\<lambda>_. x))),
      (''signed_at'', set_string (\<lambda>x. psi_signed_at_update (\<lambda>_. x)))]
     v \<lparr>psi_signer_id = [], psi_key_algorithm = [], psi_key_fingerprint = [], psi_signature_base64 = [],
        psi_signed_at = []\<rparr>"

text \<open>A map[string]any takes any object whose numbers fit a float64.\<close>

fun any_value :: "golib \<Rightarrow> json \<Rightarrow> bool"
  and any_elems :: "golib \<Rightarrow> json list \<Rightarrow> bool"
  and any_members :: "golib \<Rightarrow> (string \<times> json) list \<Rightarrow> bool" where
  "any_value g (JNum x) \<longleftrightarrow> gl_parse_float g x \<noteq> None"
| "any_value g (JArr xs) \<longleftrightarrow> any_elems g xs"
| "any_value g (JObj ms) \<longleftrightarrow> any_members g ms"
| "any_value g _ \<longleftrightarrow> True"
| "any_elems g [] \<longleftrightarrow> True"
| "any_elems g (x # xs) \<longleftrightarrow> any_value g x \<and> any_elems g xs"
| "any_members g [] \<longleftrightarrow> True"
| "any_members g ((k, v) # ms) \<longleftrightarrow> any_value g v \<and> any_members g ms"

definition set_any_map :: "golib \<Rightarrow> ((string \<times> json) list \<Rightarrow> 's \<Rightarrow> 's) \<Rightarrow> json \<Rightarrow> 's \<Rightarrow> 's option" where
  "set_any_map g upd v s = (case v of
     JObj ms \<Rightarrow> if any_members g ms then Some (upd ms s) else None | JNull \<Rightarrow> Some (upd [] s) | _ \<Rightarrow> None)"

definition policy_fields :: "golib \<Rightarrow> (string \<times> (json \<Rightarrow> psl_policy \<Rightarrow> psl_policy option)) list" where
  "policy_fields g =
     [(''schema'', set_string (\<lambda>x. po_schema_update (\<lambda>_. x))),
      (''policy_id'', set_string (\<lambda>x. po_policy_id_update (\<lambda>_. x))),
      (''policy_name'', set_string (\<lambda>x. po_policy_name_update (\<lambda>_. x))),
      (''policy_version'', set_string (\<lambda>x. po_policy_version_update (\<lambda>_. x))),
      (''effective_at'', set_string (\<lambda>x. po_effective_at_update (\<lambda>_. x))),
      (''default_effect'', set_string (\<lambda>x. po_default_effect_update (\<lambda>_. x))),
      (''rules'', set_slice decode_rule (\<lambda>x. po_rules_update (\<lambda>_. x))),
      (''metadata'', set_any_map g (\<lambda>x. po_metadata_update (\<lambda>_. x))),
      (''tags'', set_slice decode_string (\<lambda>x. po_tags_update (\<lambda>_. x))),
      (''required_attested_fields'', set_slice decode_string (\<lambda>x. po_required_attested_fields_update (\<lambda>_. x))),
      (''required_outcome_fields'', set_slice decode_string (\<lambda>x. po_required_outcome_fields_update (\<lambda>_. x))),
      (''profile_tag'', set_string (\<lambda>x. po_profile_tag_update (\<lambda>_. x))),
      (''signature_policy'', set_pointer decode_signature_policy (\<lambda>x. po_signature_policy_update (\<lambda>_. x))),
      (''signers'', set_slice decode_policy_signature (\<lambda>x. po_signers_update (\<lambda>_. x)))]"

definition decode_policy :: "golib \<Rightarrow> json \<Rightarrow> psl_policy option" where
  "decode_policy g v = set_struct (policy_fields g) v
     \<lparr>po_schema = [], po_policy_id = [], po_policy_name = [], po_policy_version = [], po_effective_at = [],
      po_default_effect = [], po_rules = [], po_metadata = [], po_tags = [], po_required_attested_fields = [],
      po_required_outcome_fields = [], po_profile_tag = [], po_signature_policy = None, po_signers = []\<rparr>"

text \<open>reflect.TypeOf(policy{}), as the strict reading sees it.\<close>

definition matcher_type :: go_type where
  "matcher_type = GStruct [(''operator'', GOther), (''value'', GOther), (''values'', GSlice GOther)]"

definition rule_type :: go_type where
  "rule_type = GStruct
     [(''rule_id'', GOther), (''rule_name'', GOther), (''effect'', GOther),
      (''subject'', GStruct [(''type'', GOther), (''id_match'', matcher_type), (''role_match'', matcher_type)]),
      (''verb'', GStruct [(''match'', matcher_type)]),
      (''object'', GStruct [(''type'', GOther), (''id_match'', matcher_type),
         (''classification_max'', GOther), (''classification_min'', GOther)]),
      (''conditions'', GSlice (GStruct [(''type'', GOther), (''max_per_window'', GOther),
         (''window_seconds'', GOther), (''start_utc'', GOther), (''end_utc'', GOther),
         (''required'', GOther), (''seconds'', GOther), (''role'', GOther)])),
      (''priority'', GOther), (''reason_code'', GOther)]"

definition policy_type :: go_type where
  "policy_type = GStruct
     [(''schema'', GOther), (''policy_id'', GOther), (''policy_name'', GOther), (''policy_version'', GOther),
      (''effective_at'', GOther), (''default_effect'', GOther), (''rules'', GSlice rule_type),
      (''metadata'', GMap GOther), (''tags'', GSlice GOther),
      (''required_attested_fields'', GSlice GOther), (''required_outcome_fields'', GSlice GOther),
      (''profile_tag'', GOther),
      (''signature_policy'', GStruct [(''type'', GOther), (''threshold'', GOther), (''required'', GSlice GOther)]),
      (''signers'', GSlice (GStruct [(''signer_id'', GOther), (''key_algorithm'', GOther),
         (''key_fingerprint'', GOther), (''signature_base64'', GOther), (''signed_at'', GOther)]))]"

section \<open>Validation\<close>

datatype policy_error =
    PolicyNotStrict strict_error
  | PolicyNotJson
  | UnsupportedSchema string
  | NoPolicyID
  | BadDefaultEffect string
  | ReservedPriority string int
  | PolicyNotHashed

fun check_priorities :: "psl_rule list \<Rightarrow> policy_error option" where
  "check_priorities [] = None"
| "check_priorities (r # rs) =
     (if ru_priority r \<noteq> 0 then Some (ReservedPriority (ru_rule_id r) (ru_priority r)) else check_priorities rs)"

definition validate :: "psl_policy \<Rightarrow> policy_error option" where
  "validate p =
     (if po_schema p \<noteq> ''psl.v1'' then Some (UnsupportedSchema (po_schema p))
      else if po_policy_id p = [] then Some NoPolicyID
      else if po_default_effect p \<noteq> ''allow'' \<and> po_default_effect p \<noteq> ''deny''
      then Some (BadDefaultEffect (po_default_effect p))
      else check_priorities (po_rules p))"

section \<open>The preimage\<close>

text \<open>
  A map[string]any, held in the key order in which encoding/json writes it; a key that the
  code adds under a condition is present under that condition.
\<close>

definition mk_map :: "json_field list \<Rightarrow> json" where
  "mk_map fs = JObj (sort_key fst (present_fields fs))"

definition added :: "bool \<Rightarrow> json option \<Rightarrow> json option" where
  "added b x = (if b then x else None)"

definition stringsAsAny :: "string list \<Rightarrow> json" where
  "stringsAsAny l = JArr (map JStr l)"

definition matcherPreimage :: "psl_matcher \<Rightarrow> json" where
  "matcherPreimage m = mk_map
     [(''operator'', js (mt_operator m)),
      (''value'', added (mt_value m \<noteq> []) (js (mt_value m))),
      (''values'', added (mt_values m \<noteq> []) (Some (stringsAsAny (mt_values m))))]"

definition conditionPreimage :: "psl_condition \<Rightarrow> json" where
  "conditionPreimage c = mk_map
     [(''type'', js (co_type c)),
      (''max_per_window'', added (co_type c = ''rate_limit'') (ji (co_max_per_window c))),
      (''window_seconds'', added (co_type c = ''rate_limit'') (ji (co_window_seconds c))),
      (''start_utc'', added (co_type c = ''time_window'') (js (co_start_utc c))),
      (''end_utc'', added (co_type c = ''time_window'') (js (co_end_utc c))),
      (''required'', added (co_type c = ''mfa_required'') (jb (co_required c))),
      (''seconds'', added (co_type c = ''min_session_age'') (ji (co_seconds c))),
      (''role'', added (co_type c = ''requires_role'') (js (co_role c)))]"

definition objectPreimage :: "psl_object \<Rightarrow> json" where
  "objectPreimage x = mk_map
     [(''id_match'', Some (matcherPreimage (ob_id_match x))),
      (''type'', js (ob_type x)),
      (''classification_max'', added (ob_classification_max x \<noteq> []) (js (ob_classification_max x))),
      (''classification_min'', added (ob_classification_min x \<noteq> []) (js (ob_classification_min x)))]"

definition subjectPreimage :: "psl_subject \<Rightarrow> json" where
  "subjectPreimage s = mk_map
     [(''id_match'', Some (matcherPreimage (su_id_match s))),
      (''type'', js (su_type s)),
      (''role_match'', map_option matcherPreimage (su_role_match s))]"

definition verb_preimage :: "psl_verb \<Rightarrow> json" where
  "verb_preimage v = mk_map [(''match'', Some (matcherPreimage (ve_match v)))]"

definition ruleHashPreimage :: "psl_rule \<Rightarrow> json" where
  "ruleHashPreimage r = mk_map
     [(''effect'', js (ru_effect r)),
      (''object'', Some (objectPreimage (ru_object r))),
      (''rule_id'', js (ru_rule_id r)),
      (''subject'', Some (subjectPreimage (ru_subject r))),
      (''verb'', Some (verb_preimage (ru_verb r))),
      (''conditions'', added (ru_conditions r \<noteq> []) (Some (JArr (map conditionPreimage (ru_conditions r))))),
      (''reason_code'', added (ru_reason_code r \<noteq> []) (js (ru_reason_code r)))]"

definition signaturePolicyPreimage :: "signature_policy \<Rightarrow> json" where
  "signaturePolicyPreimage sp = mk_map
     [(''type'', js (spo_type sp)),
      (''threshold'', added (spo_threshold sp > 0) (ji (spo_threshold sp))),
      (''required'', added (spo_required sp \<noteq> []) (Some (stringsAsAny (spo_required sp))))]"

definition signerPreimage :: "policy_signature \<Rightarrow> json" where
  "signerPreimage s = mk_map
     [(''key_algorithm'', js (psi_key_algorithm s)),
      (''key_fingerprint'', js (psi_key_fingerprint s)),
      (''signer_id'', js (psi_signer_id s))]"

definition canonicalPolicyForHash :: "psl_policy \<Rightarrow> json" where
  "canonicalPolicyForHash p = mk_map
     [(''default_effect'', js (po_default_effect p)),
      (''effective_at'', js (po_effective_at p)),
      (''policy_id'', js (po_policy_id p)),
      (''policy_name'', js (po_policy_name p)),
      (''policy_version'', js (po_policy_version p)),
      (''rules'', Some (JArr (map ruleHashPreimage (po_rules p)))),
      (''schema'', js (po_schema p)),
      (''signature_policy'', map_option signaturePolicyPreimage (po_signature_policy p)),
      (''signers'', added (po_signers p \<noteq> []) (Some (JArr (map signerPreimage (po_signers p))))),
      (''required_attested_fields'', added (po_required_attested_fields p \<noteq> [])
         (Some (stringsAsAny (po_required_attested_fields p)))),
      (''required_outcome_fields'', added (po_required_outcome_fields p \<noteq> [])
         (Some (stringsAsAny (po_required_outcome_fields p)))),
      (''profile_tag'', added (po_profile_tag p \<noteq> []) (js (po_profile_tag p)))]"

section \<open>Canonical JSON\<close>

text \<open>The number a float64 denotes, and whether float64(int64(f)) equals it, on amd64.\<close>

definition f64_rat :: "f64 \<Rightarrow> rat" where
  "f64_rat x =
     (let w = f64_bits x; e = unat (take_bit 11 (drop_bit 52 w)); m = unat (take_bit 52 w);
          a = (if e = 0 then of_nat m / 2 ^ 1074 else of_nat (2 ^ 52 + m) * 2 ^ e / 2 ^ 1075)
      in if bit w 63 then - a else a)"

definition whole_float :: "f64 \<Rightarrow> int option" where
  "whole_float x = (let r = f64_rat x; i = \<lfloor>r\<rfloor>
     in if of_int i = r \<and> int64_range i then Some i else None)"

definition writeCanonicalNumber :: "golib \<Rightarrow> string \<Rightarrow> string option" where
  "writeCanonicalNumber g s = (case parse_int64 s of
     Some i \<Rightarrow> Some (int_str i)
   | None \<Rightarrow> (case gl_parse_float g s of
       None \<Rightarrow> None
     | Some f \<Rightarrow> (case whole_float f of Some i \<Rightarrow> Some (int_str i) | None \<Rightarrow> Some (gl_g_float g f))))"

text \<open>The writer, on a tree decoded with UseNumber; None is its error.\<close>

fun writeCanonical :: "golib \<Rightarrow> json \<Rightarrow> string option"
  and canonical_elems :: "golib \<Rightarrow> json list \<Rightarrow> string list option"
  and canonical_members :: "golib \<Rightarrow> (string \<times> json) list \<Rightarrow> (string \<times> string) list option" where
  "writeCanonical g JNull = Some ''null''"
| "writeCanonical g (JBool b) = Some (bool_word b)"
| "writeCanonical g (JNum t) = writeCanonicalNumber g t"
| "writeCanonical g (JStr s) = Some (json_quote s)"
| "writeCanonical g (JArr xs) = map_option (\<lambda>l. CHR ''['' # join (CHR 0x2C) l @ '']'') (canonical_elems g xs)"
| "writeCanonical g (JObj ms) =
     map_option (\<lambda>l. CHR ''{'' # join (CHR 0x2C) (map (\<lambda>(k, t). json_quote k @ CHR '':'' # t) (sort_key fst l)) @ ''}'')
       (canonical_members g ms)"
| "canonical_elems g [] = Some []"
| "canonical_elems g (x # xs) = (case writeCanonical g x of None \<Rightarrow> None
     | Some t \<Rightarrow> map_option ((#) t) (canonical_elems g xs))"
| "canonical_members g [] = Some []"
| "canonical_members g ((k, v) # ms) = (case writeCanonical g v of None \<Rightarrow> None
     | Some t \<Rightarrow> map_option ((#) (k, t)) (canonical_members g ms))"

definition canonicalize :: "golib \<Rightarrow> json \<Rightarrow> string option" where
  "canonicalize g v = (case json_parse (json_write v) of None \<Rightarrow> None | Some w \<Rightarrow> writeCanonical g w)"

definition canonicalSHA256 :: "golib \<Rightarrow> json \<Rightarrow> string option" where
  "canonicalSHA256 g v = map_option (sha256_hex g) (canonicalize g v)"

record policy_result =
  pr_PolicyID :: string
  pr_PolicyName :: string
  pr_PolicyVersion :: string
  pr_PolicyHash :: string

definition FromDocument :: "golib \<Rightarrow> string \<Rightarrow> policy_error + policy_result" where
  "FromDocument g doc =
     (case CheckStrict g policy_type doc of Some e \<Rightarrow> Inl (PolicyNotStrict e) | None \<Rightarrow>
      (case json_parse doc of None \<Rightarrow> Inl PolicyNotJson | Some v \<Rightarrow>
      (case decode_policy g v of None \<Rightarrow> Inl PolicyNotJson | Some p \<Rightarrow>
      (case validate p of Some e \<Rightarrow> Inl e | None \<Rightarrow>
      (case canonicalSHA256 g (canonicalPolicyForHash p) of None \<Rightarrow> Inl PolicyNotHashed | Some h \<Rightarrow>
        Inr \<lparr>pr_PolicyID = po_policy_id p, pr_PolicyName = po_policy_name p,
             pr_PolicyVersion = po_policy_version p, pr_PolicyHash = h\<rparr>)))))"

section \<open>Decoded policies\<close>

text \<open>What a decoder keeps of a state, on values whose text is clean.\<close>

definition keeps :: "('s \<Rightarrow> bool) \<Rightarrow> (json \<Rightarrow> 's \<Rightarrow> 's option) \<Rightarrow> bool" where
  "keeps P f \<longleftrightarrow> (\<forall>v s s'. clean_json v \<longrightarrow> P s \<longrightarrow> f v s = Some s' \<longrightarrow> P s')"

definition decodes :: "('s \<Rightarrow> bool) \<Rightarrow> (json \<Rightarrow> 's option) \<Rightarrow> bool" where
  "decodes P f \<longleftrightarrow> (\<forall>v s. clean_json v \<longrightarrow> f v = Some s \<longrightarrow> P s)"

lemma field_setter_in: "field_setter fs k = Some f \<Longrightarrow> f \<in> snd ` set fs"
  by (auto simp: field_setter_def split: option.splits dest!: map_of_SomeD) force+

lemma keeps_members:
  "list_all (\<lambda>(n, f). keeps P f) fs \<Longrightarrow> clean_members ms \<Longrightarrow> P s \<Longrightarrow> set_members fs ms s = Some s' \<Longrightarrow> P s'"
proof (induction ms arbitrary: s)
  case (Cons m ms)
  obtain k v where m: "m = (k, v)" by (cases m)
  show ?case
  proof (cases "field_setter fs k")
    case None
    with Cons m show ?thesis by simp
  next
    case (Some f)
    then have f: "keeps P f" using field_setter_in Cons.prems(1) by (fastforce simp: list_all_iff)
    obtain t where t: "f v s = Some t" "set_members fs ms t = Some s'"
      using Cons.prems(4) m Some by (auto split: option.splits)
    then have "P t" using f Cons.prems(2,3) m by (auto simp: keeps_def)
    then show ?thesis using Cons.IH [of t] Cons.prems(1,2) m t by simp
  qed
qed simp

lemma decodes_struct: "list_all (\<lambda>(n, f). keeps P f) fs \<Longrightarrow> P z \<Longrightarrow> decodes P (\<lambda>v. set_struct fs v z)"
  using keeps_members [of P fs] by (auto simp: decodes_def set_struct_def split: json.splits)

lemma clean_elems_iff: "clean_elems xs \<longleftrightarrow> list_all clean_json xs"
  by (induction xs) auto

lemma keeps_string: "(\<And>x s. clean_text x \<Longrightarrow> P s \<Longrightarrow> P (upd x s)) \<Longrightarrow> keeps P (set_string upd)"
  by (auto simp: keeps_def set_string_def split: json.splits)

lemma parse_int64_range: "parse_int64 x = Some n \<Longrightarrow> int64_range n"
  by (auto simp: parse_int64_def Let_def split: prod.splits if_splits option.splits)

lemma keeps_int: "(\<And>x s. int64_range x \<Longrightarrow> P s \<Longrightarrow> P (upd x s)) \<Longrightarrow> keeps P (set_int upd)"
  by (auto simp: keeps_def set_int_def parse_int64_range split: json.splits)

lemma keeps_bool: "(\<And>x s. P s \<Longrightarrow> P (upd x s)) \<Longrightarrow> keeps P (set_bool upd)"
  by (auto simp: keeps_def set_bool_def split: json.splits)

lemma those_decodes: "decodes Q dec \<Longrightarrow> list_all clean_json xs \<Longrightarrow> those (map dec xs) = Some l \<Longrightarrow> list_all Q l"
  by (induction xs arbitrary: l) (auto simp: decodes_def split: option.splits)

lemma keeps_slice: "decodes Q dec \<Longrightarrow> (\<And>l s. list_all Q l \<Longrightarrow> P s \<Longrightarrow> P (upd l s)) \<Longrightarrow> keeps P (set_slice dec upd)"
  by (auto simp: keeps_def set_slice_def clean_elems_iff those_decodes split: json.splits)

lemma keeps_pointer: "decodes Q dec \<Longrightarrow> (\<And>x s. pred_option Q x \<Longrightarrow> P s \<Longrightarrow> P (upd x s)) \<Longrightarrow> keeps P (set_pointer dec upd)"
  by (auto simp: keeps_def set_pointer_def decodes_def split: if_splits)

lemma keeps_inner: "decodes Q dec \<Longrightarrow> (\<And>x s. Q x \<Longrightarrow> P s \<Longrightarrow> P (upd x s)) \<Longrightarrow> keeps P (set_inner dec upd)"
  by (auto simp: keeps_def set_inner_def decodes_def)

lemma keeps_any: "(\<And>x s. P s \<Longrightarrow> P (upd x s)) \<Longrightarrow> keeps P (set_any_map g upd)"
  by (auto simp: keeps_def set_any_map_def split: json.splits if_splits)

lemma decode_string_clean: "decodes clean_text decode_string"
  by (auto simp: decodes_def decode_string_def set_string_def split: json.splits)

text \<open>Clean text and 64-bit numbers in everything the hash covers.\<close>

definition matcher_ok :: "psl_matcher \<Rightarrow> bool" where
  "matcher_ok m \<longleftrightarrow> clean_text (mt_operator m) \<and> clean_text (mt_value m) \<and> list_all clean_text (mt_values m)"

definition subject_ok :: "psl_subject \<Rightarrow> bool" where
  "subject_ok s \<longleftrightarrow> clean_text (su_type s) \<and> matcher_ok (su_id_match s) \<and> pred_option matcher_ok (su_role_match s)"

definition object_ok :: "psl_object \<Rightarrow> bool" where
  "object_ok x \<longleftrightarrow> clean_text (ob_type x) \<and> matcher_ok (ob_id_match x) \<and> clean_text (ob_classification_max x)
     \<and> clean_text (ob_classification_min x)"

definition condition_ok :: "psl_condition \<Rightarrow> bool" where
  "condition_ok c \<longleftrightarrow> clean_text (co_type c) \<and> int64_range (co_max_per_window c) \<and> int64_range (co_window_seconds c)
     \<and> clean_text (co_start_utc c) \<and> clean_text (co_end_utc c) \<and> int64_range (co_seconds c) \<and> clean_text (co_role c)"

definition rule_ok :: "psl_rule \<Rightarrow> bool" where
  "rule_ok r \<longleftrightarrow> clean_text (ru_rule_id r) \<and> clean_text (ru_effect r) \<and> subject_ok (ru_subject r)
     \<and> matcher_ok (ve_match (ru_verb r)) \<and> object_ok (ru_object r) \<and> list_all condition_ok (ru_conditions r)
     \<and> clean_text (ru_reason_code r)"

definition signature_policy_ok :: "signature_policy \<Rightarrow> bool" where
  "signature_policy_ok s \<longleftrightarrow> clean_text (spo_type s) \<and> int64_range (spo_threshold s) \<and> list_all clean_text (spo_required s)"

definition signer_ok :: "policy_signature \<Rightarrow> bool" where
  "signer_ok s \<longleftrightarrow> clean_text (psi_signer_id s) \<and> clean_text (psi_key_algorithm s) \<and> clean_text (psi_key_fingerprint s)"

definition policy_ok :: "psl_policy \<Rightarrow> bool" where
  "policy_ok p \<longleftrightarrow> list_all clean_text [po_schema p, po_policy_id p, po_policy_name p, po_policy_version p,
       po_effective_at p, po_default_effect p, po_profile_tag p]
     \<and> list_all rule_ok (po_rules p)
     \<and> list_all clean_text (po_required_attested_fields p) \<and> list_all clean_text (po_required_outcome_fields p)
     \<and> pred_option signature_policy_ok (po_signature_policy p) \<and> list_all signer_ok (po_signers p)"

lemma int64_zero [simp]: "int64_range 0"
  by (simp add: int64_range_def)

lemma zero_matcher_ok [simp]: "matcher_ok zero_matcher"
  by (simp add: matcher_ok_def zero_matcher_def)

lemmas keeps_intros = keeps_string keeps_int keeps_bool keeps_inner keeps_any
  keeps_slice [OF decode_string_clean]

lemma decode_matcher_ok: "decodes matcher_ok decode_matcher"
  unfolding decode_matcher_def
  by (rule decodes_struct) (auto intro!: keeps_intros simp: matcher_ok_def)

lemma decode_subject_ok: "decodes subject_ok decode_subject"
  unfolding decode_subject_def
  by (rule decodes_struct)
     (auto intro!: keeps_intros keeps_inner [OF decode_matcher_ok] keeps_pointer [OF decode_matcher_ok] simp: subject_ok_def)

lemma decode_object_ok: "decodes object_ok decode_object"
  unfolding decode_object_def
  by (rule decodes_struct) (auto intro!: keeps_intros keeps_inner [OF decode_matcher_ok] simp: object_ok_def)

lemma decode_verb_ok: "decodes (\<lambda>v. matcher_ok (ve_match v)) decode_verb"
  unfolding decode_verb_def
  by (rule decodes_struct) (auto intro!: keeps_inner [OF decode_matcher_ok])

lemma decode_condition_ok: "decodes condition_ok decode_condition"
  unfolding decode_condition_def
  by (rule decodes_struct) (auto intro!: keeps_intros simp: condition_ok_def zero_condition_def)

lemma decode_rule_ok: "decodes rule_ok decode_rule"
  unfolding decode_rule_def
  by (rule decodes_struct)
     (auto intro!: keeps_string keeps_int keeps_inner [OF decode_subject_ok] keeps_inner [OF decode_verb_ok]
       keeps_inner [OF decode_object_ok] keeps_slice [OF decode_condition_ok]
       simp: rule_ok_def subject_ok_def object_ok_def)

lemma decode_signature_policy_ok: "decodes signature_policy_ok decode_signature_policy"
  unfolding decode_signature_policy_def
  by (rule decodes_struct) (auto intro!: keeps_intros simp: signature_policy_ok_def)

lemma decode_signer_ok: "decodes signer_ok decode_policy_signature"
  unfolding decode_policy_signature_def
  by (rule decodes_struct) (auto intro!: keeps_intros simp: signer_ok_def)

lemma decode_policy_ok: "decodes policy_ok (decode_policy g)"
  unfolding decode_policy_def policy_fields_def
  by (rule decodes_struct)
     (auto intro!: keeps_string keeps_any keeps_slice [OF decode_string_clean] keeps_slice [OF decode_rule_ok]
       keeps_slice [OF decode_signer_ok] keeps_pointer [OF decode_signature_policy_ok] simp: policy_ok_def)

section \<open>Canonical trees\<close>

text \<open>Keys sorted, numbers in the range of an int64, text valid, and a bound on the depth.\<close>

fun sorted_tree :: "json \<Rightarrow> bool"
  and sorted_elems :: "json list \<Rightarrow> bool"
  and sorted_members :: "(string \<times> json) list \<Rightarrow> bool" where
  "sorted_tree (JNum t) \<longleftrightarrow> (\<exists>i. int64_range i \<and> t = int_str i)"
| "sorted_tree (JArr xs) \<longleftrightarrow> sorted_elems xs"
| "sorted_tree (JObj ms) \<longleftrightarrow> sorted (map fst ms) \<and> sorted_members ms"
| "sorted_tree _ \<longleftrightarrow> True"
| "sorted_elems [] \<longleftrightarrow> True"
| "sorted_elems (x # xs) \<longleftrightarrow> sorted_tree x \<and> sorted_elems xs"
| "sorted_members [] \<longleftrightarrow> True"
| "sorted_members ((k, v) # ms) \<longleftrightarrow> sorted_tree v \<and> sorted_members ms"

lemma sorted_elems_iff: "sorted_elems xs \<longleftrightarrow> list_all sorted_tree xs"
  by (induction xs) auto

lemma sorted_members_iff: "sorted_members ms \<longleftrightarrow> list_all (\<lambda>m. sorted_tree (snd m)) ms"
  by (induction ms) auto

lemma sort_key_sorted: "sorted (map f xs) \<Longrightarrow> sort_key f xs = xs"
  by (induction xs) (auto simp: insort_is_Cons)

lemma write_elems_join: "write_elems xs = join (CHR 0x2C) (map json_write xs)"
  by (induction xs rule: induct_list012) auto

lemma write_members_join:
  "write_members ms = join (CHR 0x2C) (map (\<lambda>(k, v). json_quote k @ CHR '':'' # json_write v) ms)"
  by (induction ms rule: induct_list012) auto

lemma writeCanonical_sorted:
  "sorted_tree v \<Longrightarrow> writeCanonical g v = Some (json_write v)"
  "sorted_elems xs \<Longrightarrow> canonical_elems g xs = Some (map json_write xs)"
  "sorted_members ms \<Longrightarrow> canonical_members g ms = Some (map (\<lambda>(k, v). (k, json_write v)) ms)"
proof (induction v and xs and ms rule: sorted_tree_sorted_elems_sorted_members.induct)
  case (1 t)
  then show ?case by (auto simp: writeCanonicalNumber_def parse_int64_str)
next
  case (3 ms)
  then have "sort_key fst (map (\<lambda>(k, v). (k, json_write v)) ms) = map (\<lambda>(k, v). (k, json_write v)) ms"
    by (intro sort_key_sorted) (simp add: comp_def case_prod_unfold)
  with 3 show ?case by (simp add: write_members_join comp_def case_prod_unfold)
qed (auto simp: write_elems_join)

lemma nat_str_shape: "\<exists>c s. nat_str n = c # s \<and> list_all is_digit (c # s) \<and> (c = CHR ''0'' \<longrightarrow> s = [] \<and> n = 0)"
proof (induction n rule: nat_str.induct)
  case (1 n)
  have d: "is_digit (digit_char k)" if "k < 10" for k
    using digit_char_range [OF that] by (simp add: is_digit_def in_range_def)
  show ?case
  proof (cases "n < 10")
    case True
    have "digit_char n = CHR ''0'' \<Longrightarrow> n = 0"
      using True by (auto simp: digit_char_def dest!: arg_cong [where f = "of_char :: char \<Rightarrow> nat"])
    then show ?thesis using True d [OF True] by (subst nat_str.simps) simp
  next
    case False
    from 1 [OF False] obtain c s where c: "nat_str (n div 10) = c # s" "list_all is_digit (c # s)"
        "c = CHR ''0'' \<longrightarrow> s = [] \<and> n div 10 = 0" by blast
    moreover have "n div 10 \<noteq> 0" using False by simp
    ultimately show ?thesis using False d [of "n mod 10"] by (subst nat_str.simps) simp
  qed
qed

lemma unsigned_nat_str: "unsigned_number (nat_str n) = Some (nat_str n, [])"
proof -
  obtain c s where c: "nat_str n = c # s" "list_all is_digit (c # s)" "c = CHR ''0'' \<longrightarrow> s = []"
    using nat_str_shape [of n] by blast
  then have "takeWhile is_digit s = s" "dropWhile is_digit s = []"
    by (simp_all add: list_all_iff)
  moreover have "is_digit c" using c by simp
  ultimately show ?thesis using c(1,3)
    by (simp add: unsigned_number_def del: takeWhile_eq_all_conv dropWhile_eq_Nil_conv)
qed

lemma wf_num_int_str: "wf_num (int_str i)"
proof (cases "i < 0")
  case True
  then show ?thesis by (simp add: wf_num_def int_str_def parse_number_def unsigned_nat_str)
next
  case False
  obtain c s where c: "nat_str (nat i) = c # s" "c \<noteq> CHR ''-''"
    using nat_str_not_sign [of "nat i"] by (cases "nat_str (nat i)") auto
  then show ?thesis using False unsigned_nat_str [of "nat i"]
    by (simp add: wf_num_def int_str_def parse_number_def)
qed

text \<open>A canonical tree of at most the given depth.\<close>

definition canon :: "nat \<Rightarrow> json \<Rightarrow> bool" where
  "canon n v \<longleftrightarrow> wf_json v \<and> json_depth v \<le> n \<and> sorted_tree v"

lemma canon_mono: "canon m v \<Longrightarrow> m \<le> n \<Longrightarrow> canon n v"
  by (simp add: canon_def)

lemma canon_canonicalize: "canon max_depth v \<Longrightarrow> canonicalize g v = Some (json_write v)"
  by (simp add: canon_def canonicalize_def json_parse_write writeCanonical_sorted)

lemma elems_depth_le: "elems_depth xs \<le> n \<longleftrightarrow> list_all (\<lambda>x. json_depth x \<le> n) xs"
  by (induction xs) auto

lemma members_depth_le: "members_depth ms \<le> n \<longleftrightarrow> list_all (\<lambda>m. json_depth (snd m) \<le> n) ms"
  by (induction ms) auto

lemma canon_arr: "list_all (canon n) xs \<Longrightarrow> canon (Suc n) (JArr xs)"
  by (simp add: canon_def elems_depth_le sorted_elems_iff wf_elems_iff list_all_iff)

definition canon_field :: "nat \<Rightarrow> json option \<Rightarrow> bool" where
  "canon_field n x \<longleftrightarrow> pred_option (canon n) x"

lemma in_present: "(k, v) \<in> set (present_fields fs) \<longleftrightarrow> (k, Some v) \<in> set fs"
  by (induction fs rule: present_fields.induct) auto

lemma canon_map: "list_all (\<lambda>(k, x). ascii_text k \<and> canon_field n x) fs \<Longrightarrow> canon (Suc n) (mk_map fs)"
proof -
  assume f: "list_all (\<lambda>(k, x). ascii_text k \<and> canon_field n x) fs"
  have "ascii_text k \<and> canon n v" if "(k, v) \<in> set (present_fields fs)" for k v
    using f that by (fastforce simp: in_present list_all_iff canon_field_def)
  then show ?thesis
    by (auto simp: canon_def mk_map_def wf_members_iff members_depth_le sorted_members_iff list_all_iff valid_utf8_ascii)
qed

lemma canon_fields:
  "canon_field n None" "canon_field n (Some v) \<longleftrightarrow> canon n v"
  "canon_field n (map_option f y) \<longleftrightarrow> pred_option (\<lambda>a. canon n (f a)) y"
  "canon_field n x \<Longrightarrow> canon_field n (added b x)"
  by (auto simp: canon_field_def added_def option.pred_map comp_def)

lemma canon_values:
  "clean_text s \<Longrightarrow> canon_field n (js s)" "int64_range i \<Longrightarrow> canon_field n (ji i)" "canon_field n (jb b)"
  by (auto simp: canon_field_def canon_def js_def ji_def jb_def clean_text_def wf_num_int_str)

lemma canon_strings: "list_all clean_text l \<Longrightarrow> canon (Suc n) (stringsAsAny l)"
  unfolding stringsAsAny_def by (rule canon_arr) (auto simp: list_all_iff canon_def clean_text_def)

lemma matcher_canon: "matcher_ok m \<Longrightarrow> canon 2 (matcherPreimage m)"
  unfolding matcherPreimage_def numeral_2_eq_2
  by (rule canon_map) (simp add: matcher_ok_def canon_fields canon_values canon_strings ascii_text_def in_range_def)

lemma condition_canon: "condition_ok c \<Longrightarrow> canon (Suc 0) (conditionPreimage c)"
  unfolding conditionPreimage_def
  by (rule canon_map) (simp add: condition_ok_def canon_fields canon_values ascii_text_def in_range_def)

lemma subject_canon: "subject_ok s \<Longrightarrow> canon 3 (subjectPreimage s)"
  unfolding subjectPreimage_def numeral_3_eq_3
  by (rule canon_map) (auto simp: subject_ok_def canon_fields canon_values ascii_text_def in_range_def
      matcher_canon [unfolded numeral_2_eq_2] intro: option.pred_mono_strong)

lemma verb_canon: "matcher_ok (ve_match v) \<Longrightarrow> canon 3 (verb_preimage v)"
  unfolding verb_preimage_def numeral_3_eq_3
  by (rule canon_map) (simp add: canon_fields canon_values ascii_text_def in_range_def
      matcher_canon [unfolded numeral_2_eq_2])

lemma object_canon: "object_ok x \<Longrightarrow> canon 3 (objectPreimage x)"
  unfolding objectPreimage_def numeral_3_eq_3
  by (rule canon_map) (simp add: object_ok_def canon_fields canon_values ascii_text_def in_range_def
      matcher_canon [unfolded numeral_2_eq_2])

lemma rule_canon: "rule_ok r \<Longrightarrow> canon 4 (ruleHashPreimage r)"
proof -
  assume r: "rule_ok r"
  then have "list_all (canon (Suc 0)) (map conditionPreimage (ru_conditions r))"
    by (auto simp: rule_ok_def list_all_iff condition_canon)
  then have "canon (Suc (Suc 0)) (JArr (map conditionPreimage (ru_conditions r)))" by (rule canon_arr)
  then have "canon 3 (JArr (map conditionPreimage (ru_conditions r)))" by (rule canon_mono) simp
  then have "canon (Suc 3) (ruleHashPreimage r)"
    unfolding ruleHashPreimage_def
    by (intro canon_map) (use r in \<open>simp add: rule_ok_def canon_fields canon_values ascii_text_def in_range_def
        subject_canon verb_canon object_canon\<close>)
  then show ?thesis by simp
qed

lemma policy_canon: "policy_ok p \<Longrightarrow> canon max_depth (canonicalPolicyForHash p)"
proof -
  assume p: "policy_ok p"
  have "canon (Suc 4) (JArr (map ruleHashPreimage (po_rules p)))"
    by (rule canon_arr) (use p in \<open>auto simp: policy_ok_def list_all_iff rule_canon\<close>)
  moreover have "canon 4 (signerPreimage s)" if "signer_ok s" for s
  proof -
    have "canon (Suc 3) (signerPreimage s)"
      unfolding signerPreimage_def
      by (rule canon_map) (use that in \<open>simp add: signer_ok_def canon_fields canon_values ascii_text_def in_range_def\<close>)
    then show ?thesis by simp
  qed
  then have "canon (Suc 4) (JArr (map signerPreimage (po_signers p)))"
    by (intro canon_arr) (use p in \<open>auto simp: policy_ok_def list_all_iff\<close>)
  moreover have "canon 5 (signaturePolicyPreimage s)" if "signature_policy_ok s" for s
  proof -
    have "canon (Suc 4) (signaturePolicyPreimage s)"
      unfolding signaturePolicyPreimage_def
      by (rule canon_map) (use that in \<open>simp add: signature_policy_ok_def canon_fields canon_values ascii_text_def
          in_range_def canon_strings [of _ 3, simplified]\<close>)
    then show ?thesis by simp
  qed
  ultimately have "canon (Suc 5) (canonicalPolicyForHash p)"
    unfolding canonicalPolicyForHash_def
    by (intro canon_map) (use p in \<open>auto simp: policy_ok_def canon_fields canon_values ascii_text_def in_range_def
        canon_strings [of _ 4, simplified] intro: option.pred_mono_strong\<close>)
  then show ?thesis by (rule canon_mono) (simp add: max_depth_def)
qed

section \<open>What the preimage determines\<close>

lemma mk_map_inject:
  assumes "map fst fs = map fst gs" "distinct (map fst fs)"
  shows "mk_map fs = mk_map gs \<longleftrightarrow> fs = gs"
proof
  assume "mk_map fs = mk_map gs"
  then have "set (present_fields fs) = set (present_fields gs)"
    unfolding mk_map_def by (metis json.inject(5) set_sort)
  then have eq: "(k, Some v) \<in> set fs \<longleftrightarrow> (k, Some v) \<in> set gs" for k v
    by (metis in_present)
  have "length fs = length gs" using assms(1) by (metis length_map)
  then show "fs = gs"
  proof (rule nth_equalityI)
    fix i assume i: "i < length fs"
    obtain k a where f: "fs ! i = (k, a)" by (cases "fs ! i")
    obtain l b where g: "gs ! i = (l, b)" by (cases "gs ! i")
    have "map fst fs ! i = map fst gs ! i" using assms(1) by simp
    then have kl: "l = k" using i f g \<open>length fs = length gs\<close> by simp
    have dg: "distinct (map fst gs)" using assms by simp
    have mf: "(k, a) \<in> set fs" and mg: "(k, b) \<in> set gs"
      using i f g kl \<open>length fs = length gs\<close> nth_mem by metis+
    have uf: "(k, x) \<in> set fs \<Longrightarrow> x = a" and ug: "(k, x) \<in> set gs \<Longrightarrow> x = b" for x
      using mf mg assms(2) dg by (auto dest: eq_key_imp_eq_value)
    have "a = b"
    proof (cases a)
      case (Some v)
      then show ?thesis using mf eq ug by blast
    next
      case None
      then show ?thesis using mg eq uf by (cases b) (fastforce, blast)
    qed
    then show "fs ! i = gs ! i" using f g kl by simp
  qed
qed simp

lemma added_js [json_inj]: "added (s \<noteq> []) (js s) = added (t \<noteq> []) (js t) \<longleftrightarrow> s = t"
  by (auto simp: added_def js_def)

lemma stringsAsAny_inj [json_inj]: "stringsAsAny l = stringsAsAny m \<longleftrightarrow> l = m"
  by (auto simp: stringsAsAny_def map_inject)

lemma added_strings [json_inj]:
  "added (l \<noteq> []) (Some (stringsAsAny l)) = added (m \<noteq> []) (Some (stringsAsAny m)) \<longleftrightarrow> l = m"
  by (auto simp: added_def json_inj)

lemma matcherPreimage_inj [json_inj]: "matcherPreimage m = matcherPreimage n \<longleftrightarrow> m = n"
  by (cases m; cases n) (simp add: matcherPreimage_def mk_map_inject json_inj)

lemma objectPreimage_inj [json_inj]: "objectPreimage x = objectPreimage y \<longleftrightarrow> x = y"
  by (cases x; cases y) (auto simp: objectPreimage_def mk_map_inject json_inj)

lemma map_option_inj: "(\<And>a b. f a = f b \<longleftrightarrow> a = b) \<Longrightarrow> map_option f x = map_option f y \<longleftrightarrow> x = y"
  by (cases x; cases y) auto

lemma subjectPreimage_inj [json_inj]: "subjectPreimage x = subjectPreimage y \<longleftrightarrow> x = y"
  by (cases x; cases y) (auto simp: subjectPreimage_def mk_map_inject json_inj map_option_inj)

lemma verb_preimage_inj [json_inj]: "verb_preimage x = verb_preimage y \<longleftrightarrow> x = y"
  by (cases x; cases y) (simp add: verb_preimage_def mk_map_inject json_inj)

text \<open>A condition with only the fields its type uses, and a rule with only what is hashed.\<close>

definition core_condition :: "psl_condition \<Rightarrow> psl_condition" where
  "core_condition c = \<lparr>co_type = co_type c,
     co_max_per_window = (if co_type c = ''rate_limit'' then co_max_per_window c else 0),
     co_window_seconds = (if co_type c = ''rate_limit'' then co_window_seconds c else 0),
     co_start_utc = (if co_type c = ''time_window'' then co_start_utc c else []),
     co_end_utc = (if co_type c = ''time_window'' then co_end_utc c else []),
     co_required = (if co_type c = ''mfa_required'' then co_required c else False),
     co_seconds = (if co_type c = ''min_session_age'' then co_seconds c else 0),
     co_role = (if co_type c = ''requires_role'' then co_role c else [])\<rparr>"

definition core_rule :: "psl_rule \<Rightarrow> psl_rule" where
  "core_rule r = r\<lparr>ru_rule_name := [], ru_priority := 0, ru_conditions := map core_condition (ru_conditions r)\<rparr>"

lemma added_values:
  "added b (ji x) = added b (ji y) \<longleftrightarrow> (b \<longrightarrow> x = y)" "added b (js u) = added b (js w) \<longleftrightarrow> (b \<longrightarrow> u = w)"
  "added b (jb p) = added b (jb q) \<longleftrightarrow> (b \<longrightarrow> p = q)"
  by (simp_all add: added_def json_inj)

lemma if_same: "(b \<longrightarrow> x = y) \<Longrightarrow> (if b then x else z) = (if b then y else z)"
  by simp

lemma conditionPreimage_core: "conditionPreimage c = conditionPreimage d \<Longrightarrow> core_condition c = core_condition d"
proof -
  assume e: "conditionPreimage c = conditionPreimage d"
  then have t: "co_type d = co_type c" by (simp add: conditionPreimage_def mk_map_inject json_inj)
  have f: "co_type c = ''rate_limit'' \<longrightarrow> co_max_per_window c = co_max_per_window d"
    "co_type c = ''rate_limit'' \<longrightarrow> co_window_seconds c = co_window_seconds d"
    "co_type c = ''time_window'' \<longrightarrow> co_start_utc c = co_start_utc d"
    "co_type c = ''time_window'' \<longrightarrow> co_end_utc c = co_end_utc d"
    "co_type c = ''mfa_required'' \<longrightarrow> co_required c = co_required d"
    "co_type c = ''min_session_age'' \<longrightarrow> co_seconds c = co_seconds d"
    "co_type c = ''requires_role'' \<longrightarrow> co_role c = co_role d"
    using e unfolding conditionPreimage_def t by (simp_all add: mk_map_inject added_values json_inj)
  show ?thesis unfolding core_condition_def t by (simp only: f [THEN if_same])
qed

lemma map_determines:
  "(\<And>a b. f a = f b \<Longrightarrow> h a = h b) \<Longrightarrow> map f xs = map f ys \<Longrightarrow> map h xs = map h ys"
  unfolding list.rel_eq [symmetric] list.rel_map by (rule list.rel_mono_strong)

lemma conditions_core:
  "added (cs \<noteq> []) (Some (JArr (map conditionPreimage cs))) = added (ds \<noteq> []) (Some (JArr (map conditionPreimage ds)))
    \<Longrightarrow> map core_condition cs = map core_condition ds"
proof -
  assume "added (cs \<noteq> []) (Some (JArr (map conditionPreimage cs))) = added (ds \<noteq> []) (Some (JArr (map conditionPreimage ds)))"
  then have "map conditionPreimage cs = map conditionPreimage ds" by (auto simp: added_def split: if_splits)
  then show ?thesis by (rule map_determines [rotated]) (rule conditionPreimage_core)
qed

lemma ruleHashPreimage_core: "ruleHashPreimage r = ruleHashPreimage q \<Longrightarrow> core_rule r = core_rule q"
proof -
  assume e: "ruleHashPreimage r = ruleHashPreimage q"
  then have "map core_condition (ru_conditions r) = map core_condition (ru_conditions q)"
    by (intro conditions_core) (simp add: ruleHashPreimage_def mk_map_inject)
  moreover have "ru_rule_id r = ru_rule_id q" "ru_effect r = ru_effect q" "ru_subject r = ru_subject q"
    "ru_verb r = ru_verb q" "ru_object r = ru_object q" "ru_reason_code r = ru_reason_code q"
    using e by (simp_all add: ruleHashPreimage_def mk_map_inject json_inj)
  ultimately show ?thesis by (cases r; cases q) (simp add: core_rule_def)
qed

lemma rules_core: "map ruleHashPreimage rs = map ruleHashPreimage qs \<Longrightarrow> map core_rule rs = map core_rule qs"
  by (rule map_determines [rotated], assumption) (rule ruleHashPreimage_core)

text \<open>A decision reads nothing else.\<close>

lemma core_check: "checkCondition i (core_condition c) ctx = checkCondition i c ctx"
  by (auto simp: checkCondition_def core_condition_def)

lemma core_match: "matchOneCondition i (core_condition c) ctx = matchOneCondition i c ctx"
  by (auto simp: matchOneCondition_def core_condition_def)

lemma first_problem_map: "first_problem f (map h xs) = first_problem (f \<circ> h) xs"
  by (induction xs) (simp_all cong: option.case_cong)

lemma core_conditions: "matchConditions i (map core_condition cs) ctx = matchConditions i cs ctx"
  by (induction cs) (simp_all add: core_match)

lemma core_rule_fields [simp]:
  "ru_rule_id (core_rule r) = ru_rule_id r" "ru_effect (core_rule r) = ru_effect r"
  "ru_subject (core_rule r) = ru_subject r" "ru_verb (core_rule r) = ru_verb r"
  "ru_object (core_rule r) = ru_object r" "ru_reason_code (core_rule r) = ru_reason_code r"
  "ru_conditions (core_rule r) = map core_condition (ru_conditions r)"
  by (simp_all add: core_rule_def)

lemma core_rule_check: "check_rule ctx (core_rule r) = check_rule ctx r"
proof -
  have "check_matchers (core_rule r) = check_matchers r"
    unfolding check_matchers_def core_rule_fields by (rule refl)
  moreover have "check_bounds ctx (core_rule r) = check_bounds ctx r"
    unfolding check_bounds_def core_rule_fields by (rule refl)
  ultimately show ?thesis
    by (simp add: check_rule_def first_problem_map comp_def core_check cong: option.case_cong)
qed

lemma core_rules: "decide_rules (map core_rule rs) d ctx = decide_rules rs d ctx"
  by (induction rs) (simp_all add: core_conditions)

lemma Decide_core: "Decide (map core_rule rs) d ctx = Decide rs d ctx"
proof -
  have "check_rule ctx \<circ> core_rule = check_rule ctx" by (simp add: fun_eq_iff core_rule_check)
  then have "checkReadable (map core_rule rs) ctx = checkReadable rs ctx"
    by (simp add: checkReadable_def first_problem_map)
  then show ?thesis by (simp add: Decide_def core_rules cong: option.case_cong)
qed

lemma policy_preimage_core:
  assumes "canonicalPolicyForHash p = canonicalPolicyForHash q"
  shows "Decide (po_rules p) (po_default_effect p) ctx = Decide (po_rules q) (po_default_effect q) ctx"
    and "po_policy_id p = po_policy_id q" and "po_policy_name p = po_policy_name q"
    and "po_policy_version p = po_policy_version q"
proof -
  have e: "map ruleHashPreimage (po_rules p) = map ruleHashPreimage (po_rules q)"
    "po_default_effect p = po_default_effect q" "po_policy_id p = po_policy_id q"
    "po_policy_name p = po_policy_name q" "po_policy_version p = po_policy_version q"
    using assms by (simp_all add: canonicalPolicyForHash_def mk_map_inject json_inj)
  from rules_core [OF e(1)] have "map core_rule (po_rules p) = map core_rule (po_rules q)" .
  then show "Decide (po_rules p) (po_default_effect p) ctx = Decide (po_rules q) (po_default_effect q) ctx"
    using Decide_core [of "po_rules p"] Decide_core [of "po_rules q"] e(2) by metis
  show "po_policy_id p = po_policy_id q" "po_policy_name p = po_policy_name q"
    "po_policy_version p = po_policy_version q" using e by simp_all
qed

section \<open>The two readings of a document agree\<close>

lemma field_setter_fold:
  "list_all (\<lambda>(n, f). fold_name n = n) fs \<Longrightarrow> field_setter fs k = map_of fs (fold_name k)"
proof -
  assume a: "list_all (\<lambda>(n, f). fold_name n = n) fs"
  then have m: "map (\<lambda>(n, f). (fold_name n, f)) fs = fs" by (induction fs) auto
  have "map_of fs k = Some f \<Longrightarrow> fold_name k = k" for f
    using a by (auto dest!: map_of_SomeD simp: list_all_iff)
  then show ?thesis by (auto simp: field_setter_def m split: option.splits)
qed

definition same_rules :: "psl_policy \<Rightarrow> psl_document \<Rightarrow> bool" where
  "same_rules p d \<longleftrightarrow> do_default_effect d = po_default_effect p \<and> do_rules d = po_rules p"

lemma names_folded: "list_all (\<lambda>(n, f). fold_name n = n) (policy_fields g)"
  "list_all (\<lambda>(n, f). fold_name n = n) document_fields"
  by (simp_all add: policy_fields_def document_fields_def lower_char_def)

lemma setters_agree:
  assumes "same_rules p d" "map_of (policy_fields g) n = Some f" "f v p = Some p'"
  shows "case map_of document_fields n of None \<Rightarrow> same_rules p' d
    | Some h \<Rightarrow> (\<exists>d'. h v d = Some d' \<and> same_rules p' d')"
  using assms
  by (auto simp: policy_fields_def document_fields_def same_rules_def set_string_def set_slice_def set_pointer_def
      set_any_map_def split: if_splits json.splits)

lemma setters_none: "map_of (policy_fields g) n = None \<Longrightarrow> map_of document_fields n = None"
  by (simp add: policy_fields_def document_fields_def split: if_splits)

lemma members_agree:
  "same_rules p d \<Longrightarrow> set_members (policy_fields g) ms p = Some p'
    \<Longrightarrow> \<exists>d'. set_members document_fields ms d = Some d' \<and> same_rules p' d'"
proof (induction ms arbitrary: p d)
  case (Cons m ms)
  obtain k v where m: "m = (k, v)" by (cases m)
  note fs = field_setter_fold [OF names_folded(1)] field_setter_fold [OF names_folded(2)]
  show ?case
  proof (cases "map_of (policy_fields g) (fold_name k)")
    case None
    with Cons m setters_none [OF None] show ?thesis by (simp add: fs)
  next
    case (Some f)
    obtain q where q: "f v p = Some q" "set_members (policy_fields g) ms q = Some p'"
      using Cons.prems(2) m Some by (auto simp: fs split: option.splits)
    from setters_agree [OF Cons.prems(1) Some q(1)] Cons.IH [OF _ q(2)] m show ?thesis
      by (auto simp: fs split: option.splits)
  qed
qed simp

lemma read_document:
  "json_parse doc = Some v \<Longrightarrow> decode_policy g v = Some p
    \<Longrightarrow> ReadDocument doc = Some \<lparr>do_default_effect = po_default_effect p, do_rules = po_rules p\<rparr>"
proof -
  assume v: "json_parse doc = Some v" and p: "decode_policy g v = Some p"
  have "\<exists>d. set_struct document_fields v \<lparr>do_default_effect = [], do_rules = []\<rparr> = Some d \<and> same_rules p d"
    using p by (auto simp: decode_policy_def set_struct_def same_rules_def split: json.splits
        dest: members_agree [where d = "\<lparr>do_default_effect = [], do_rules = []\<rparr>", unfolded same_rules_def, rotated])
  then show ?thesis using v by (auto simp: ReadDocument_def same_rules_def)
qed

text \<open>The preimage whose digest FromDocument returns.\<close>

definition policy_preimage :: "golib \<Rightarrow> string \<Rightarrow> bytes" where
  "policy_preimage g doc = (case json_parse doc of None \<Rightarrow> []
     | Some v \<Rightarrow> (case decode_policy g v of None \<Rightarrow> [] | Some p \<Rightarrow> json_write (canonicalPolicyForHash p)))"

lemma from_document:
  assumes "FromDocument g doc = Inr r"
  obtains v p where "json_parse doc = Some v" "decode_policy g v = Some p" "policy_ok p" "validate p = None"
    "r = \<lparr>pr_PolicyID = po_policy_id p, pr_PolicyName = po_policy_name p, pr_PolicyVersion = po_policy_version p,
          pr_PolicyHash = sha256_hex g (json_write (canonicalPolicyForHash p))\<rparr>"
    "policy_preimage g doc = json_write (canonicalPolicyForHash p)"
    "ReadDocument doc = Some \<lparr>do_default_effect = po_default_effect p, do_rules = po_rules p\<rparr>"
proof -
  obtain v p h where d: "CheckStrict g policy_type doc = None" "json_parse doc = Some v"
      "decode_policy g v = Some p" "validate p = None" "canonicalSHA256 g (canonicalPolicyForHash p) = Some h"
      "r = \<lparr>pr_PolicyID = po_policy_id p, pr_PolicyName = po_policy_name p, pr_PolicyVersion = po_policy_version p,
          pr_PolicyHash = h\<rparr>"
    using assms by (auto simp: FromDocument_def split: option.splits)
  have "clean_json v" using strict_read [OF d(1,2)] by simp
  then have ok: "policy_ok p" using decode_policy_ok [of g] d(3) by (simp add: decodes_def)
  then have "h = sha256_hex g (json_write (canonicalPolicyForHash p))"
    using d(5) by (simp add: canonicalSHA256_def canon_canonicalize [OF policy_canon])
  with that ok d read_document [OF d(2,3)] show thesis by (simp add: policy_preimage_def)
qed

text \<open>What two accepted documents with one policy hash share.\<close>

lemma same_hash_decides:
  assumes "FromDocument g a = Inr r" and "FromDocument g b = Inr s" and "pr_PolicyHash r = pr_PolicyHash s"
  obtains "collides g [policy_preimage g a] [policy_preimage g b]"
  | c d where "ReadDocument a = Some c" "ReadDocument b = Some d"
    "\<And>ctx. Decide (do_rules c) (do_default_effect c) ctx = Decide (do_rules d) (do_default_effect d) ctx"
    "pr_PolicyID r = pr_PolicyID s" "pr_PolicyName r = pr_PolicyName s" "pr_PolicyVersion r = pr_PolicyVersion s"
proof -
  obtain p where p: "policy_ok p" "policy_preimage g a = json_write (canonicalPolicyForHash p)"
    "r = \<lparr>pr_PolicyID = po_policy_id p, pr_PolicyName = po_policy_name p, pr_PolicyVersion = po_policy_version p,
          pr_PolicyHash = sha256_hex g (json_write (canonicalPolicyForHash p))\<rparr>"
    "ReadDocument a = Some \<lparr>do_default_effect = po_default_effect p, do_rules = po_rules p\<rparr>"
    using from_document [OF assms(1)] by blast
  obtain q where q: "policy_ok q" "policy_preimage g b = json_write (canonicalPolicyForHash q)"
    "s = \<lparr>pr_PolicyID = po_policy_id q, pr_PolicyName = po_policy_name q, pr_PolicyVersion = po_policy_version q,
          pr_PolicyHash = sha256_hex g (json_write (canonicalPolicyForHash q))\<rparr>"
    "ReadDocument b = Some \<lparr>do_default_effect = po_default_effect q, do_rules = po_rules q\<rparr>"
    using from_document [OF assms(2)] by blast
  have wf: "wf_json (canonicalPolicyForHash p)" "wf_json (canonicalPolicyForHash q)"
    using policy_canon p(1) q(1) by (simp_all add: canon_def)
  have h: "gl_sha256 g (policy_preimage g a) = gl_sha256 g (policy_preimage g b)"
    using assms(3) p q by simp
  show thesis
  proof (cases "policy_preimage g a = policy_preimage g b")
    case True
    then have "canonicalPolicyForHash p = canonicalPolicyForHash q"
      using json_write_inject [OF wf] p q by simp
    from that(2) policy_preimage_core [OF this] p q show ?thesis by simp
  next
    case False
    then show ?thesis using h that(1) by (simp add: collides_def)
  qed
qed

text \<open>C19. The policy hash binds the decision: two policy documents that the verifier accepts and that
  have the same policy hash name the same policy and decide every request in every context
  alike, with the same outcome, rule, reason and refusal to decide, although metadata, tags,
  rule names and unused condition fields may differ; or their two preimages are a SHA-256
  collision.\<close>
theorem policy_hash_binds_decision:
  assumes "FromDocument g a = Inr r" and "FromDocument g b = Inr s" and "pr_PolicyHash r = pr_PolicyHash s"
  shows "(\<exists>c d. ReadDocument a = Some c \<and> ReadDocument b = Some d
      \<and> (\<forall>ctx. Decide (do_rules c) (do_default_effect c) ctx = Decide (do_rules d) (do_default_effect d) ctx)
      \<and> pr_PolicyID r = pr_PolicyID s \<and> pr_PolicyName r = pr_PolicyName s \<and> pr_PolicyVersion r = pr_PolicyVersion s)
    \<or> collides g [policy_preimage g a] [policy_preimage g b]"
  by (rule same_hash_decides [OF assms]) blast+

text \<open>Two documents that differ in their tags only.\<close>

definition plain_policy :: "(string \<times> json) list" where
  "plain_policy = [(''schema'', JStr ''psl.v1''), (''policy_id'', JStr ''p''), (''default_effect'', JStr ''deny''),
     (''rules'', JArr [JObj [(''rule_id'', JStr ''r''), (''effect'', JStr ''allow'')]])]"

definition plain_document :: string where
  "plain_document = json_write (JObj plain_policy)"

definition tagged_document :: string where
  "tagged_document = json_write (JObj (plain_policy @ [(''tags'', JArr [JStr ''x''])]))"

definition plain_result :: policy_result where
  "plain_result = \<lparr>pr_PolicyID = ''p'', pr_PolicyName = [], pr_PolicyVersion = [],
     pr_PolicyHash = sha256_hex toy_lib (policy_preimage toy_lib plain_document)\<rparr>"

lemma from_document_accepts:
  assumes "CheckStrict g policy_type doc = None" "json_parse doc = Some v" "decode_policy g v = Some p" "validate p = None"
  shows "FromDocument g doc = Inr \<lparr>pr_PolicyID = po_policy_id p, pr_PolicyName = po_policy_name p,
    pr_PolicyVersion = po_policy_version p, pr_PolicyHash = sha256_hex g (policy_preimage g doc)\<rparr>"
proof -
  have "clean_json v" using strict_read [OF assms(1,2)] by simp
  then have "policy_ok p" using decode_policy_ok [of g] assms(3) by (simp add: decodes_def)
  then show ?thesis using assms
    by (simp add: FromDocument_def canonicalSHA256_def canon_canonicalize [OF policy_canon] policy_preimage_def)
qed

lemma plain_strict: "CheckStrict toy_lib policy_type plain_document = None"
  by code_simp

lemma tagged_strict: "CheckStrict toy_lib policy_type tagged_document = None"
  by code_simp

lemma samples_parse: "json_parse plain_document = Some (JObj plain_policy)"
  "json_parse tagged_document = Some (JObj (plain_policy @ [(''tags'', JArr [JStr ''x''])]))"
  unfolding plain_document_def tagged_document_def plain_policy_def
  by (rule json_parse_write; simp add: rune_size_def in_range_def max_depth_def)+

definition read_summary :: "psl_policy \<Rightarrow> policy_error option \<times> string \<times> string \<times> string" where
  "read_summary p = (validate p, po_policy_id p, po_policy_name p, po_policy_version p)"

lemma samples_decode:
  "map_option read_summary (decode_policy toy_lib (JObj plain_policy)) = Some (None, ''p'', [], [])"
  "map_option read_summary (decode_policy toy_lib (JObj (plain_policy @ [(''tags'', JArr [JStr ''x''])]))) = Some (None, ''p'', [], [])"
  by code_simp+

lemma plain_preimages: "policy_preimage toy_lib plain_document = policy_preimage toy_lib tagged_document"
  by code_simp

lemma plain_document_read: "FromDocument toy_lib plain_document = Inr plain_result"
  using samples_decode(1) from_document_accepts [OF plain_strict samples_parse(1)]
  by (auto simp: read_summary_def plain_result_def)

lemma tagged_document_read: "FromDocument toy_lib tagged_document = Inr plain_result"
  using samples_decode(2) from_document_accepts [OF tagged_strict samples_parse(2)]
  by (auto simp: read_summary_def plain_result_def plain_preimages)

lemma policy_hash_binds_decision_witness:
  "\<exists>c d. ReadDocument plain_document = Some c \<and> ReadDocument tagged_document = Some d
      \<and> (\<forall>ctx. Decide (do_rules c) (do_default_effect c) ctx = Decide (do_rules d) (do_default_effect d) ctx)"
  using policy_hash_binds_decision [OF plain_document_read tagged_document_read refl] plain_preimages
  by (auto simp: collides_def)

end
