(* ===== verification/PolicyGate.thy ===== *)
theory PolicyGate
  imports PolicyDoc Samples
begin

text \<open>
  policygate.go, accountgate.go and internal/pslbuiltin: what a record seals of a policy
  decision, and what a policy document shows about it. A document that matches has the sealed
  hashes and identity, and where the record seals the inputs, running the document's rules on
  them gives the sealed rule and outcome. Reasons are constructors instead of their wording.
\<close>

section \<open>Built-in policies (internal/pslbuiltin)\<close>

record builtin_policy =
  bp_File :: string
  bp_DocumentHash :: string
  bp_PolicyHash :: string
  bp_Current :: bool
  bp_Document :: bytes

text \<open>The embedded files, line by line.\<close>

definition text_lines :: "string list \<Rightarrow> bytes" where
  "text_lines ls = concat (map (\<lambda>l. l @ [CHR 0x0A]) ls)"

definition q :: "string \<Rightarrow> string" where
  "q s = CHR 0x22 # s @ [CHR 0x22]"

definition builtin_lines :: "string \<Rightarrow> string \<Rightarrow> string \<Rightarrow> string list" where
  "builtin_lines policy_id policy_name rule_id = [
    ''{'',
    ''  '' @ q ''schema'' @ '': '' @ q ''psl.v1'' @ '','',
    ''  '' @ q ''policy_id'' @ '': '' @ q policy_id @ '','',
    ''  '' @ q ''policy_name'' @ '': '' @ q policy_name @ '','',
    ''  '' @ q ''policy_version'' @ '': '' @ q ''1.0.0'' @ '','',
    ''  '' @ q ''effective_at'' @ '': '' @ q ''2026-05-01T00:00:00Z'' @ '','',
    ''  '' @ q ''default_effect'' @ '': '' @ q ''deny'' @ '','',
    ''  '' @ q ''rules'' @ '': ['',
    ''    {'',
    ''      '' @ q ''rule_id'' @ '': '' @ q rule_id @ '','',
    ''      '' @ q ''effect'' @ '': '' @ q ''allow'' @ '','',
    ''      '' @ q ''subject'' @ '': {'',
    ''        '' @ q ''type'' @ '': '' @ q ''any'' @ '','',
    ''        '' @ q ''id_match'' @ '': {'',
    ''          '' @ q ''operator'' @ '': '' @ q ''any'',
    ''        }'',
    ''      },'',
    ''      '' @ q ''verb'' @ '': {'',
    ''        '' @ q ''match'' @ '': {'',
    ''          '' @ q ''operator'' @ '': '' @ q ''any'',
    ''        }'',
    ''      },'',
    ''      '' @ q ''object'' @ '': {'',
    ''        '' @ q ''type'' @ '': '' @ q ''any'' @ '','',
    ''        '' @ q ''id_match'' @ '': {'',
    ''          '' @ q ''operator'' @ '': '' @ q ''any'',
    ''        }'',
    ''      }'',
    ''    }'',
    ''  ]'',
    ''}'']"

definition versions :: "builtin_policy list" where
  "versions = [
    \<lparr>bp_File = ''verdifax-default-allow-all-1.0.0.json'',
     bp_DocumentHash = ''51e935fb0f6169273f980ba25a59fe7878759da2fa2b09c86b50c2bb59d79f7a'',
     bp_PolicyHash = ''0f7c55ca7884039111adc67c9c19f1572c8b48cbdfa50601585eb9acd9f5f042'',
     bp_Current = False, bp_Document = []\<rparr>,
    \<lparr>bp_File = ''verdifax-default-baseline-permit-1.0.0.json'',
     bp_DocumentHash = ''c2395f30f608228a0442c00682326a040e030b895af59b22a41747740a9e4e28'',
     bp_PolicyHash = ''1a090975c0515a14296a0e68bb6840c5de4d76465369c50022e390b3da1e25d0'',
     bp_Current = True, bp_Document = []\<rparr>]"

text \<open>The embedded file system: a file's text by its name.\<close>

definition embedded_files :: "(string \<times> bytes) list" where
  "embedded_files = [
    (''verdifax-default-allow-all-1.0.0.json'',
      text_lines (builtin_lines ''verdifax-default-allow-all'' ''Verdifax Default Allow-All Policy'' ''allow-all'')),
    (''verdifax-default-baseline-permit-1.0.0.json'',
      text_lines (builtin_lines ''verdifax-default-baseline-permit'' ''Verdifax Default Baseline-Permit Policy'' ''baseline-permit''))]"

text \<open>All: every version with its text, or None when a file is missing or changed.\<close>

fun load_versions :: "golib \<Rightarrow> builtin_policy list \<Rightarrow> builtin_policy list option" where
  "load_versions g [] = Some []"
| "load_versions g (v # vs) = (case map_of embedded_files (bp_File v) of
     None \<Rightarrow> None
   | Some t \<Rightarrow> if sha256_hex g t \<noteq> bp_DocumentHash v then None
       else map_option (\<lambda>out. v\<lparr>bp_Document := t\<rparr> # out) (load_versions g vs))"

definition All_policies :: "golib \<Rightarrow> builtin_policy list option" where
  "All_policies g = load_versions g versions"

definition Current_policy :: "golib \<Rightarrow> builtin_policy option" where
  "Current_policy g = (case All_policies g of None \<Rightarrow> None | Some vs \<Rightarrow> find bp_Current vs)"

definition ByDocumentHash :: "golib \<Rightarrow> string \<Rightarrow> builtin_policy option" where
  "ByDocumentHash g documentHash = (case All_policies g of
     None \<Rightarrow> None | Some vs \<Rightarrow> find (\<lambda>v. bp_DocumentHash v = documentHash) vs)"

definition ByPolicyHash :: "golib \<Rightarrow> string \<Rightarrow> builtin_policy option" where
  "ByPolicyHash g policyHash = (case All_policies g of
     None \<Rightarrow> None | Some vs \<Rightarrow> find (\<lambda>v. bp_PolicyHash v = policyHash) vs)"

section \<open>The sealed decision\<close>

definition PolicySourceCustomer :: string where "PolicySourceCustomer = ''customer''"
definition PolicySourceVerdifax :: string where "PolicySourceVerdifax = ''verdifax''"

text \<open>PolicyBinding: what a refused or halted run seals.\<close>

record policy_binding =
  pb_source :: string
  pb_policy_hash :: string
  pb_document_hash :: string
  pb_activation_hash :: string
  pb_outcome :: string
  pb_fired_rule_id :: string
  pb_inputs :: "policy_inputs option"

definition labeledFields :: "golib \<Rightarrow> policy_binding \<Rightarrow> string \<Rightarrow> string list" where
  "labeledFields g b label = [label, pb_source b, pb_policy_hash b, pb_document_hash b, pb_activation_hash b,
     pb_outcome b, pb_fired_rule_id b,
     (case pb_inputs b of None \<Rightarrow> [] | Some i \<Rightarrow> sha256_hex g (json_write (pi_json i)))]"

definition PolicyBinding_fields :: "golib \<Rightarrow> policy_binding \<Rightarrow> string list" where
  "PolicyBinding_fields g b = labeledFields g b ''policy''"

datatype gate_reason =
    NoReason
  | NoGateSealed
  | NoDecisionSealed
  | BuiltInWithActivation string
  | BuiltInNotCarried string
  | UnknownAuthor string
  | NothingToCompare
  | DocumentUnread policy_error
  | PolicyHashDiffers string string
  | IdentityDiffers policy_result
  | TextDiffers string string
  | RulesUnread
  | InputsUnread
  | Undecidable unreadable
  | OtherDecision decision_result
  | NoAccount
  | NotCustomers string
  | NoAccountChange
  | OutcomeUnknown string
  | NoAccountDecision

record policy_gate_check =
  gc_Present :: bool
  gc_PolicyID :: string
  gc_PolicyName :: string
  gc_PolicyVersion :: string
  gc_PolicyHash :: string
  gc_FiredRuleID :: string
  gc_DecisionReasonCode :: string
  gc_Source :: string
  gc_DocumentHash :: string
  gc_ActivationHash :: string
  gc_Outcome :: string
  gc_DocumentChecked :: bool
  gc_DocumentMatch :: bool
  gc_RulesChecked :: bool
  gc_BuiltInFile :: string
  gc_Reason :: gate_reason
  gc_inputs :: "policy_inputs option"
  gc_identitySealed :: bool

definition no_gate :: "gate_reason \<Rightarrow> policy_gate_check" where
  "no_gate r = \<lparr>gc_Present = False, gc_PolicyID = [], gc_PolicyName = [], gc_PolicyVersion = [], gc_PolicyHash = [],
     gc_FiredRuleID = [], gc_DecisionReasonCode = [], gc_Source = [], gc_DocumentHash = [], gc_ActivationHash = [],
     gc_Outcome = [], gc_DocumentChecked = False, gc_DocumentMatch = False, gc_RulesChecked = False,
     gc_BuiltInFile = [], gc_Reason = r, gc_inputs = None, gc_identitySealed = False\<rparr>"

definition gateOf :: "policy_gate \<Rightarrow> policy_gate_check" where
  "gateOf pg = \<lparr>gc_Present = True, gc_PolicyID = pg_policy_id pg, gc_PolicyName = pg_policy_name pg,
     gc_PolicyVersion = pg_policy_version pg, gc_PolicyHash = pg_policy_hash pg, gc_FiredRuleID = pg_fired_rule_id pg,
     gc_DecisionReasonCode = pg_decision_reason_code pg, gc_Source = pg_source pg,
     gc_DocumentHash = pg_document_hash pg, gc_ActivationHash = pg_activation_hash pg, gc_Outcome = EffectAllow,
     gc_DocumentChecked = False, gc_DocumentMatch = False, gc_RulesChecked = False, gc_BuiltInFile = [],
     gc_Reason = NoReason, gc_inputs = pg_inputs pg, gc_identitySealed = True\<rparr>"

definition policyBindingOf :: "policy_binding option \<Rightarrow> policy_gate_check" where
  "policyBindingOf b = (case b of None \<Rightarrow> no_gate NoDecisionSealed | Some b \<Rightarrow>
     (no_gate NoReason)\<lparr>gc_Present := True, gc_PolicyHash := pb_policy_hash b, gc_FiredRuleID := pb_fired_rule_id b,
       gc_Source := pb_source b, gc_DocumentHash := pb_document_hash b, gc_ActivationHash := pb_activation_hash b,
       gc_Outcome := pb_outcome b, gc_inputs := pb_inputs b\<rparr>)"

text \<open>policyGateOf: the decision an allowed run seals.\<close>

definition policyGateOf :: "audit_bundle \<Rightarrow> policy_gate_check" where
  "policyGateOf b = (case epa_policy_gate (ab_epa b) of None \<Rightarrow> no_gate NoGateSealed | Some pg \<Rightarrow> gateOf pg)"

text \<open>policyFailed: a check that ran and did not hold; gate_failed is how a check reports one.\<close>

definition policyFailed :: "policy_gate_check \<Rightarrow> bool" where
  "policyFailed c \<longleftrightarrow> gc_DocumentChecked c \<and> \<not> gc_DocumentMatch c"

definition gate_failed :: "policy_gate_check \<Rightarrow> gate_reason \<Rightarrow> policy_gate_check" where
  "gate_failed c r = c\<lparr>gc_DocumentChecked := True, gc_DocumentMatch := False, gc_Reason := r\<rparr>"

section \<open>The document check\<close>

text \<open>
  sealedInputs: the sealed inputs are written by encoding/json and read back into the decision
  code's own type. A member of a Go map that is null is the zero value, and a later member
  with the same key replaces an earlier one.
\<close>

fun count_members :: "(string \<times> json) list \<Rightarrow> (string \<times> int) list option" where
  "count_members [] = Some []"
| "count_members ((k, v) # ms) = (case set_int (\<lambda>n _. n) v 0 of
     None \<Rightarrow> None
   | Some n \<Rightarrow> map_option (\<lambda>r. if k \<in> fst ` set r then r else (k, n) # r) (count_members ms))"

definition set_count_map :: "((string \<times> int) list \<Rightarrow> 's \<Rightarrow> 's) \<Rightarrow> json \<Rightarrow> 's \<Rightarrow> 's option" where
  "set_count_map upd v s = (case v of
     JObj ms \<Rightarrow> map_option (\<lambda>m. upd m s) (count_members ms) | JNull \<Rightarrow> Some (upd [] s) | _ \<Rightarrow> None)"

definition eval_input_fields :: "(string \<times> (json \<Rightarrow> policy_eval_inputs \<Rightarrow> policy_eval_inputs option)) list" where
  "eval_input_fields =
     [(''subject_id'', set_string (\<lambda>x. pe_SubjectID_update (\<lambda>_. x))),
      (''subject_type'', set_string (\<lambda>x. pe_SubjectType_update (\<lambda>_. x))),
      (''subject_role'', set_string (\<lambda>x. pe_SubjectRole_update (\<lambda>_. x))),
      (''verb'', set_string (\<lambda>x. pe_Verb_update (\<lambda>_. x))),
      (''object_type'', set_string (\<lambda>x. pe_ObjectType_update (\<lambda>_. x))),
      (''object_id'', set_string (\<lambda>x. pe_ObjectID_update (\<lambda>_. x))),
      (''classification'', set_string (\<lambda>x. pe_Classification_update (\<lambda>_. x))),
      (''mfa_satisfied'', set_bool (\<lambda>x. pe_MFASatisfied_update (\<lambda>_. x))),
      (''session_age_seconds'', set_int (\<lambda>x. pe_SessionAgeSeconds_update (\<lambda>_. x))),
      (''evaluated_at'', set_string (\<lambda>x. pe_EvaluatedAt_update (\<lambda>_. x))),
      (''rate_counts'', set_count_map (\<lambda>x. pe_RateCounts_update (\<lambda>_. x)))]"

definition zero_eval_inputs :: policy_eval_inputs where
  "zero_eval_inputs = \<lparr>pe_SubjectID = [], pe_SubjectType = [], pe_SubjectRole = [], pe_Verb = [], pe_ObjectType = [],
     pe_ObjectID = [], pe_Classification = [], pe_MFASatisfied = False, pe_SessionAgeSeconds = 0,
     pe_EvaluatedAt = [], pe_RateCounts = []\<rparr>"

definition sealedInputs :: "policy_inputs \<Rightarrow> policy_eval_inputs option" where
  "sealedInputs i = (case json_parse (json_write (pi_json i)) of
     None \<Rightarrow> None
   | Some v \<Rightarrow> set_struct eval_input_fields v zero_eval_inputs)"

text \<open>rerunRules: None when the rules reach the sealed rule and outcome.\<close>

definition rerunRules :: "policy_gate_check \<Rightarrow> policy_inputs \<Rightarrow> bytes \<Rightarrow> gate_reason option" where
  "rerunRules c inputs doc = (case ReadDocument doc of None \<Rightarrow> Some RulesUnread | Some rules \<Rightarrow>
     (case sealedInputs inputs of None \<Rightarrow> Some InputsUnread | Some i \<Rightarrow>
     (case Decide (do_rules rules) (do_default_effect rules) (Inputs_Context i) of
        Inl e \<Rightarrow> Some (Undecidable e)
      | Inr result \<Rightarrow>
          if de_FiredRuleID result \<noteq> gc_FiredRuleID c \<or> de_Outcome result \<noteq> gc_Outcome c
          then Some (OtherDecision result) else None)))"

definition checkPolicyDocument :: "golib \<Rightarrow> policy_gate_check \<Rightarrow> bytes \<Rightarrow> policy_gate_check" where
  "checkPolicyDocument g c doc = (let c = c\<lparr>gc_DocumentChecked := True\<rparr> in
     if \<not> gc_Present c then c\<lparr>gc_Reason := NothingToCompare\<rparr>
     else case FromDocument g doc of Inl e \<Rightarrow> c\<lparr>gc_Reason := DocumentUnread e\<rparr> | Inr got \<Rightarrow>
      (let documentHash = sha256_hex g doc in
       if pr_PolicyHash got \<noteq> gc_PolicyHash c
       then c\<lparr>gc_Reason := PolicyHashDiffers (pr_PolicyHash got) (gc_PolicyHash c)\<rparr>
       else if gc_identitySealed c \<and> (pr_PolicyID got \<noteq> gc_PolicyID c \<or> pr_PolicyName got \<noteq> gc_PolicyName c
         \<or> pr_PolicyVersion got \<noteq> gc_PolicyVersion c)
       then c\<lparr>gc_Reason := IdentityDiffers got\<rparr>
       else if gc_DocumentHash c \<noteq> [] \<and> documentHash \<noteq> gc_DocumentHash c
       then c\<lparr>gc_Reason := TextDiffers documentHash (gc_DocumentHash c)\<rparr>
       else case gc_inputs c of None \<Rightarrow> c\<lparr>gc_DocumentMatch := True\<rparr>
         | Some inputs \<Rightarrow> (let c = c\<lparr>gc_RulesChecked := True\<rparr> in
             case rerunRules c inputs doc of Some e \<Rightarrow> c\<lparr>gc_Reason := e\<rparr> | None \<Rightarrow> c\<lparr>gc_DocumentMatch := True\<rparr>)))"

definition checkBuiltIn :: "golib \<Rightarrow> policy_gate_check \<Rightarrow> policy_gate_check" where
  "checkBuiltIn g c =
     (if \<not> gc_Present c then c
      else if gc_Source c = PolicySourceCustomer then c
      else if gc_Source c = PolicySourceVerdifax then
        (if gc_ActivationHash c \<noteq> [] then gate_failed c (BuiltInWithActivation (gc_ActivationHash c))
         else case ByDocumentHash g (gc_DocumentHash c) of
           None \<Rightarrow> gate_failed c (BuiltInNotCarried (gc_DocumentHash c))
         | Some published \<Rightarrow> checkPolicyDocument g (c\<lparr>gc_BuiltInFile := bp_File published\<rparr>) (bp_Document published))
      else if gc_Source c = [] then
        (case ByPolicyHash g (gc_PolicyHash c) of
           Some published \<Rightarrow> c\<lparr>gc_BuiltInFile := bp_File published\<rparr> | None \<Rightarrow> c)
      else gate_failed c (UnknownAuthor (gc_Source c)))"

datatype policy_author =
    WrittenByCustomer | BuiltIn string | BuiltInUnknownVersion | AuthorNotRecorded string
  | AuthorNotRecordedOther | AuthorUnknown string

definition policyAuthor :: "policy_gate_check \<Rightarrow> policy_author" where
  "policyAuthor c =
     (if gc_Source c = PolicySourceCustomer then WrittenByCustomer
      else if gc_Source c = PolicySourceVerdifax \<and> gc_BuiltInFile c \<noteq> [] then BuiltIn (gc_BuiltInFile c)
      else if gc_Source c = PolicySourceVerdifax then BuiltInUnknownVersion
      else if gc_Source c = [] \<and> gc_BuiltInFile c \<noteq> [] then AuthorNotRecorded (gc_BuiltInFile c)
      else if gc_Source c = [] then AuthorNotRecordedOther
      else AuthorUnknown (gc_Source c))"

section \<open>The account's policy (accountgate.go)\<close>

text \<open>accountIDForm, with the two-sided anchors of the pattern: account-, then 1 to 19 digits without a leading zero.\<close>

definition accountIDForm :: "string \<Rightarrow> bool" where
  "accountIDForm s \<longleftrightarrow> take 8 s = ''account-'' \<and> (case drop 8 s of
     [] \<Rightarrow> False
   | d # r \<Rightarrow> is_digit d \<and> d \<noteq> CHR ''0'' \<and> list_all is_digit r \<and> length r \<le> 18)"

definition checkAccountID :: "string \<Rightarrow> string option" where
  "checkAccountID i = (if i = [] \<or> accountIDForm i then None else Some i)"

definition checkAccountGate :: "policy_gate_check \<Rightarrow> string \<Rightarrow> policy_gate_check" where
  "checkAccountGate c accountID =
     (if accountID = [] then gate_failed c NoAccount
      else if gc_Source c \<noteq> PolicySourceCustomer then gate_failed c (NotCustomers (gc_Source c))
      else if gc_ActivationHash c = [] then gate_failed c NoAccountChange
      else if gc_Outcome c \<noteq> [] \<and> gc_Outcome c \<noteq> EffectAllow \<and> gc_Outcome c \<noteq> EffectDeny
      then gate_failed c (OutcomeUnknown (gc_Outcome c))
      else c)"

definition accountGateOfBundle :: "audit_bundle \<Rightarrow> policy_gate_check option" where
  "accountGateOfBundle b = map_option (\<lambda>pg. checkAccountGate (gateOf pg) (nr_account_id (ab_nrep b)))
     (epa_account_policy_gate (ab_epa b))"

definition haltedReceiptKinds :: "string list" where
  "haltedReceiptKinds = [''ccv_halt_receipt'', ''macc_halt_receipt'', ''aivp_t4_halt_receipt'']"

text \<open>admittedDecisionError: the label and the outcome it reports.\<close>

definition admittedDecisionError :: "string \<Rightarrow> string \<Rightarrow> policy_gate_check \<Rightarrow> (string \<times> string) option" where
  "admittedDecisionError kind label c =
     (if kind \<notin> set haltedReceiptKinds \<or> \<not> gc_Present c \<or> gc_Outcome c = [] \<or> gc_Outcome c = EffectAllow
      then None else Some (label, gc_Outcome c))"

definition applyAccountPolicyDocument :: "golib \<Rightarrow> policy_gate_check option \<Rightarrow> bytes \<Rightarrow> policy_gate_check option" where
  "applyAccountPolicyDocument g gate doc = (case gate of
     None \<Rightarrow> Some ((no_gate NoAccountDecision)\<lparr>gc_DocumentChecked := True\<rparr>)
   | Some c \<Rightarrow> Some (checkPolicyDocument g c doc))"

section \<open>The inputs survive the way through JSON\<close>

text \<open>What every sealed input is after a strict reading: valid text, integers of the type int, one count per rule.\<close>

definition inputs_ok :: "policy_inputs \<Rightarrow> bool" where
  "inputs_ok i \<longleftrightarrow> list_all valid_utf8 [pi_subject_id i, pi_subject_type i, pi_subject_role i, pi_verb i,
       pi_object_type i, pi_object_id i, pi_classification i, pi_evaluated_at i]
     \<and> int64_range (pi_session_age_seconds i) \<and> distinct (map fst (pi_rate_counts i))
     \<and> list_all (\<lambda>(k, n). valid_utf8 k \<and> int64_range n) (pi_rate_counts i)"

definition eval_inputs_of :: "policy_inputs \<Rightarrow> policy_eval_inputs" where
  "eval_inputs_of i = \<lparr>pe_SubjectID = pi_subject_id i, pe_SubjectType = pi_subject_type i,
     pe_SubjectRole = pi_subject_role i, pe_Verb = pi_verb i, pe_ObjectType = pi_object_type i,
     pe_ObjectID = pi_object_id i, pe_Classification = pi_classification i,
     pe_MFASatisfied = pi_mfa_satisfied i, pe_SessionAgeSeconds = pi_session_age_seconds i,
     pe_EvaluatedAt = pi_evaluated_at i, pe_RateCounts = pi_rate_counts i\<rparr>"

lemma count_members_written:
  "distinct (map fst m) \<Longrightarrow> list_all (\<lambda>(k, n). int64_range n) m
    \<Longrightarrow> count_members (map (\<lambda>(k, n). (k, ji_value n)) m) = Some m"
  by (induction m) (auto simp: ji_value_def set_int_def parse_int64_str image_iff)

lemma counts_written:
  "list_all (\<lambda>(k, n). valid_utf8 k \<and> int64_range n) m \<Longrightarrow> wf_members (map (\<lambda>(k, n). (k, ji_value n)) m)"
  "members_depth (map (\<lambda>(k, n). (k, ji_value n)) m) = 0"
  by (induction m) (auto simp: ji_value_def wf_num_int_str)

lemma pi_json_wf: "inputs_ok i \<Longrightarrow> wf_json (pi_json i) \<and> json_depth (pi_json i) \<le> max_depth"
  by (cases "pi_rate_counts i = []")
    (simp_all add: inputs_ok_def pi_json_def mk_obj_def js_def js_omit_def jb_omit_def jb_def ji_omit_def ji_def jm_omit_def
    counts_written wf_num_int_str rune_size_def in_range_def max_depth_def)

lemma inputs_survive: "inputs_ok i \<Longrightarrow> sealedInputs i = Some (eval_inputs_of i)"
proof -
  assume ok: "inputs_ok i"
  have parsed: "json_parse (json_write (pi_json i)) = Some (pi_json i)"
    using pi_json_wf [OF ok] by (intro json_parse_write) auto
  have counts: "count_members (map (\<lambda>(k, n). (k, ji_value n)) (pi_rate_counts i)) = Some (pi_rate_counts i)"
    using ok by (intro count_members_written) (auto simp: inputs_ok_def list_all_iff)
  have age: "parse_int64 (int_str (pi_session_age_seconds i)) = Some (pi_session_age_seconds i)"
    using ok by (simp add: inputs_ok_def parse_int64_str)
  show ?thesis
    unfolding sealedInputs_def parsed
    by (cases "pi_subject_role i = []"; cases "pi_mfa_satisfied i"; cases "pi_session_age_seconds i = 0";
        cases "pi_rate_counts i = []")
      (simp_all add: pi_json_def mk_obj_def js_def js_omit_def jb_omit_def jb_def ji_omit_def ji_def jm_omit_def
        set_struct_def field_setter_def eval_input_fields_def set_string_def set_bool_def set_int_def set_count_map_def
        zero_eval_inputs_def eval_inputs_of_def counts age)
qed

text \<open>C25. Sealed inputs come back as they were sealed: writing the record's form of the inputs as JSON
  and reading it into the decision's own type gives the same subject, verb, object, session,
  clock and rate counts, whatever fields the writer omits.\<close>

theorem sealed_inputs_round_trip: "inputs_ok i \<Longrightarrow> sealedInputs i = Some (eval_inputs_of i)"
  by (rule inputs_survive)

definition sample_inputs :: policy_inputs where
  "sample_inputs = \<lparr>pi_subject_id = ''u'', pi_subject_type = ''user'', pi_subject_role = [], pi_verb = ''read'',
     pi_object_type = ''doc'', pi_object_id = ''d'', pi_classification = ''public'', pi_mfa_satisfied = True,
     pi_session_age_seconds = 30, pi_evaluated_at = ''2026-10-01T00:00:00Z'', pi_rate_counts = [(''r'', 2)]\<rparr>"

lemma sample_inputs_ok: "inputs_ok sample_inputs"
  by (simp add: inputs_ok_def sample_inputs_def int64_range_def rune_size_def in_range_def)

lemma sealed_inputs_round_trip_witness: "sealedInputs sample_inputs = Some (eval_inputs_of sample_inputs)"
  by (rule sealed_inputs_round_trip [OF sample_inputs_ok])

section \<open>What a document shows\<close>

lemma check_document_match:
  "gc_DocumentMatch (checkPolicyDocument g c doc) \<longleftrightarrow> gc_DocumentMatch c \<or>
     (gc_Present c \<and> (\<exists>got. FromDocument g doc = Inr got \<and> pr_PolicyHash got = gc_PolicyHash c
       \<and> (\<not> gc_identitySealed c \<or> (pr_PolicyID got = gc_PolicyID c \<and> pr_PolicyName got = gc_PolicyName c
           \<and> pr_PolicyVersion got = gc_PolicyVersion c))
       \<and> (gc_DocumentHash c = [] \<or> sha256_hex g doc = gc_DocumentHash c)
       \<and> pred_option (\<lambda>i. rerunRules c i doc = None) (gc_inputs c)))"
proof -
  have rerun: "rerunRules (c\<lparr>gc_DocumentChecked := a, gc_RulesChecked := x\<rparr>) i doc = rerunRules c i doc" for a x i
    by (simp add: rerunRules_def cong: option.case_cong sum.case_cong if_cong)
  show ?thesis
    by (auto simp: checkPolicyDocument_def Let_def rerun split: option.splits sum.splits if_splits)
qed

lemma rerun_agrees:
  "rerunRules c i doc = None \<longleftrightarrow>
     (\<exists>rules e result. ReadDocument doc = Some rules \<and> sealedInputs i = Some e
       \<and> Decide (do_rules rules) (do_default_effect rules) (Inputs_Context e) = Inr result
       \<and> de_FiredRuleID result = gc_FiredRuleID c \<and> de_Outcome result = gc_Outcome c)"
  by (auto simp: rerunRules_def split: option.splits sum.splits if_splits)

lemma check_document_checked [simp]: "gc_DocumentChecked (checkPolicyDocument g c doc)"
  by (simp add: checkPolicyDocument_def Let_def split: option.splits sum.splits)

text \<open>C23. A checked decision does not depend on which text was shown: take a decision with sealed inputs that
  no document has matched yet (an earlier match is kept, whatever is shown next), and one
  document that then passes the check against it. Every other document the verifier accepts and
  hashes to the sealed policy hash, run on the sealed inputs, gives the sealed rule and the
  decision's outcome (the sealed one in a receipt; allow in a record, where gateOf sets it), or
  the two policies' preimages are a SHA-256 collision.\<close>

theorem checked_decision_stands:
  assumes "\<not> gc_DocumentMatch c" and match: "gc_DocumentMatch (checkPolicyDocument g c doc)"
    and inputs: "gc_inputs c = Some i" and other: "FromDocument g other = Inr got" "pr_PolicyHash got = gc_PolicyHash c"
  shows "(\<exists>rules e result. ReadDocument other = Some rules \<and> sealedInputs i = Some e
      \<and> Decide (do_rules rules) (do_default_effect rules) (Inputs_Context e) = Inr result
      \<and> de_FiredRuleID result = gc_FiredRuleID c \<and> de_Outcome result = gc_Outcome c)
    \<or> collides g [policy_preimage g doc] [policy_preimage g other]"
proof -
  obtain r where r: "FromDocument g doc = Inr r" "pr_PolicyHash r = gc_PolicyHash c" "rerunRules c i doc = None"
    using match assms(1) inputs by (auto simp: check_document_match)
  with other(2) have "pr_PolicyHash r = pr_PolicyHash got" by simp
  from same_hash_decides [OF r(1) other(1) this] show ?thesis
  proof cases
    case (2 a b)
    with r(3) show ?thesis by (auto simp: rerun_agrees)
  qed simp
qed

text \<open>C26. A built-in record accepts any document: on a decision whose built-in policy was already
  confirmed, a policy document that does not match it (another policy, or no policy at all)
  does not fail the check, because the earlier match is never withdrawn.\<close>

theorem confirmed_gate_accepts_any_document:
  assumes "gc_DocumentMatch c"
  shows "\<not> policyFailed (checkPolicyDocument g c doc)"
  using assms by (simp add: policyFailed_def check_document_match)

section \<open>Built-in policies and accounts\<close>

lemma load_versions_texts:
  "load_versions g vs = Some out \<Longrightarrow> v \<in> set out \<Longrightarrow>
    map_of embedded_files (bp_File v) = Some (bp_Document v) \<and> sha256_hex g (bp_Document v) = bp_DocumentHash v"
  by (induction vs arbitrary: out) (auto split: option.splits if_splits)

text \<open>A version found by a hash carries the embedded text, and the text has the listed hash.\<close>

lemma by_document_hash:
  "ByDocumentHash g h = Some v \<Longrightarrow> bp_DocumentHash v = h \<and> sha256_hex g (bp_Document v) = h
    \<and> map_of embedded_files (bp_File v) = Some (bp_Document v)"
  using load_versions_texts [of g versions _ v]
  by (auto simp: ByDocumentHash_def All_policies_def find_Some_iff split: option.splits)

lemma first_match:
  assumes "gc_DocumentMatch (checkPolicyDocument g (c\<lparr>gc_BuiltInFile := file\<rparr>) doc)"
  shows "gc_DocumentMatch c
    \<or> (\<exists>got. FromDocument g doc = Inr got \<and> pr_PolicyHash got = gc_PolicyHash c)
      \<and> (\<forall>i. gc_inputs c = Some i \<longrightarrow>
          (\<exists>rules e result. ReadDocument doc = Some rules \<and> sealedInputs i = Some e
            \<and> Decide (do_rules rules) (do_default_effect rules) (Inputs_Context e) = Inr result
            \<and> de_FiredRuleID result = gc_FiredRuleID c \<and> de_Outcome result = gc_Outcome c))"
  using assms by (auto simp: check_document_match rerun_agrees)

text \<open>C24. A decision that names Verdifax as its author and does not fail is held to a policy this
  verifier carries: its sealed text hash is the hash of an embedded file, the decision matches
  that file, and unless it had a match before, the file hashes to the sealed policy hash and,
  where the decision seals its inputs, the file's rules run on them give the sealed rule and the
  decision's outcome (allow, in a record). A decision without sealed inputs is held to the hashes only. An author that is neither the customer,
  nor Verdifax, nor empty always fails.\<close>

theorem builtin_author_held:
  assumes "gc_Present c" and "\<not> gc_DocumentChecked c" and "\<not> policyFailed (checkBuiltIn g c)"
  shows "gc_Source c = PolicySourceCustomer \<or> gc_Source c = [] \<or>
    (gc_Source c = PolicySourceVerdifax \<and> gc_ActivationHash c = [] \<and>
     (\<exists>file text. (file, text) \<in> set embedded_files \<and> sha256_hex g text = gc_DocumentHash c
       \<and> gc_DocumentMatch (checkPolicyDocument g (c\<lparr>gc_BuiltInFile := file\<rparr>) text)
       \<and> (gc_DocumentMatch c
          \<or> (\<exists>got. FromDocument g text = Inr got \<and> pr_PolicyHash got = gc_PolicyHash c)
            \<and> (\<forall>i. gc_inputs c = Some i \<longrightarrow>
                (\<exists>rules e result. ReadDocument text = Some rules \<and> sealedInputs i = Some e
                  \<and> Decide (do_rules rules) (do_default_effect rules) (Inputs_Context e) = Inr result
                  \<and> de_FiredRuleID result = gc_FiredRuleID c \<and> de_Outcome result = gc_Outcome c)))))"
proof -
  consider "gc_Source c = PolicySourceCustomer" | "gc_Source c = []"
    | "gc_Source c = PolicySourceVerdifax" "gc_ActivationHash c = []" "ByDocumentHash g (gc_DocumentHash c) \<noteq> None"
    using assms by (auto simp: checkBuiltIn_def policyFailed_def gate_failed_def split: if_splits option.splits)
  then show ?thesis
  proof cases
    case 3
    then obtain v where v: "ByDocumentHash g (gc_DocumentHash c) = Some v" by auto
    let ?c = "c\<lparr>gc_BuiltInFile := bp_File v\<rparr>"
    have "checkBuiltIn g c = checkPolicyDocument g ?c (bp_Document v)"
      using 3 v assms(1) by (simp add: checkBuiltIn_def PolicySourceCustomer_def PolicySourceVerdifax_def)
    then have m: "gc_DocumentMatch (checkPolicyDocument g ?c (bp_Document v))"
      using assms(3) by (simp add: policyFailed_def)
    have "(bp_File v, bp_Document v) \<in> set embedded_files" "sha256_hex g (bp_Document v) = gc_DocumentHash c"
      using by_document_hash [OF v] by (simp_all add: map_of_SomeD)
    with 3 m first_match [OF m] show ?thesis by blast
  qed auto
qed

section \<open>A built-in decision\<close>

text \<open>A digest under which the embedded files have their listed hashes.\<close>

definition allow_all_text :: bytes where
  "allow_all_text = text_lines (builtin_lines ''verdifax-default-allow-all'' ''Verdifax Default Allow-All Policy'' ''allow-all'')"

definition baseline_text :: bytes where
  "baseline_text = text_lines (builtin_lines ''verdifax-default-baseline-permit'' ''Verdifax Default Baseline-Permit Policy'' ''baseline-permit'')"

definition builtin_lib :: golib where
  "builtin_lib = toy_lib\<lparr>gl_sha256 := (\<lambda>p.
     if p = allow_all_text then the (hex_decode ''51e935fb0f6169273f980ba25a59fe7878759da2fa2b09c86b50c2bb59d79f7a'')
     else if p = baseline_text then the (hex_decode ''c2395f30f608228a0442c00682326a040e030b895af59b22a41747740a9e4e28'')
     else toy_digest p)\<rparr>"

definition builtin_gate :: policy_gate_check where
  "builtin_gate = gateOf \<lparr>pg_policy_id = ''verdifax-default-allow-all'', pg_policy_name = ''Verdifax Default Allow-All Policy'',
     pg_policy_version = ''1.0.0'', pg_policy_hash = sha256_hex builtin_lib (policy_preimage builtin_lib allow_all_text),
     pg_outcome = ''allow'', pg_fired_rule_id = ''allow-all'', pg_decision_reason_code = ''RULE_ALLOWED'',
     pg_evaluation_hash = [], pg_source = ''verdifax'',
     pg_document_hash = ''51e935fb0f6169273f980ba25a59fe7878759da2fa2b09c86b50c2bb59d79f7a'',
     pg_activation_hash = [], pg_inputs = Some sample_inputs\<rparr>"

lemma allow_all_strict: "CheckStrict builtin_lib policy_type allow_all_text = None"
  by code_simp

lemma allow_all_read:
  "(case json_parse allow_all_text of None \<Rightarrow> None | Some v \<Rightarrow>
      map_option (\<lambda>p. (read_summary p, Decide (po_rules p) (po_default_effect p) (Inputs_Context (eval_inputs_of sample_inputs))))
        (decode_policy builtin_lib v))
    = Some ((None, ''verdifax-default-allow-all'', ''Verdifax Default Allow-All Policy'', ''1.0.0''),
        Inr \<lparr>de_Outcome = ''allow'', de_FiredRuleID = ''allow-all'', de_ReasonCode = ''RULE_ALLOWED''\<rparr>)"
  by code_simp

lemma embedded_hashes:
  "sha256_hex builtin_lib allow_all_text = ''51e935fb0f6169273f980ba25a59fe7878759da2fa2b09c86b50c2bb59d79f7a''"
  "allow_all_text \<noteq> baseline_text \<Longrightarrow>
    sha256_hex builtin_lib baseline_text = ''c2395f30f608228a0442c00682326a040e030b895af59b22a41747740a9e4e28''"
  "allow_all_text \<noteq> baseline_text"
proof -
  have h: "hex_encode (the (hex_decode ''51e935fb0f6169273f980ba25a59fe7878759da2fa2b09c86b50c2bb59d79f7a''))
      = ''51e935fb0f6169273f980ba25a59fe7878759da2fa2b09c86b50c2bb59d79f7a''"
    "hex_encode (the (hex_decode ''c2395f30f608228a0442c00682326a040e030b895af59b22a41747740a9e4e28''))
      = ''c2395f30f608228a0442c00682326a040e030b895af59b22a41747740a9e4e28''"
    by code_simp+
  show "sha256_hex builtin_lib allow_all_text = ''51e935fb0f6169273f980ba25a59fe7878759da2fa2b09c86b50c2bb59d79f7a''"
    by (simp add: sha256_hex_def builtin_lib_def h del: hex_decode.simps)
  show "allow_all_text \<noteq> baseline_text \<Longrightarrow>
      sha256_hex builtin_lib baseline_text = ''c2395f30f608228a0442c00682326a040e030b895af59b22a41747740a9e4e28''"
    by (simp add: sha256_hex_def builtin_lib_def h del: hex_decode.simps)
  have "length allow_all_text = 610" "length baseline_text = 628"
    by (simp_all add: allow_all_text_def baseline_text_def text_lines_def builtin_lines_def q_def)
  then show "allow_all_text \<noteq> baseline_text" by auto
qed

lemma allow_all_document:
  obtains r rules where "FromDocument builtin_lib allow_all_text = Inr r"
    "r = \<lparr>pr_PolicyID = ''verdifax-default-allow-all'', pr_PolicyName = ''Verdifax Default Allow-All Policy'',
      pr_PolicyVersion = ''1.0.0'', pr_PolicyHash = sha256_hex builtin_lib (policy_preimage builtin_lib allow_all_text)\<rparr>"
    "ReadDocument allow_all_text = Some rules"
    "Decide (do_rules rules) (do_default_effect rules) (Inputs_Context (eval_inputs_of sample_inputs))
      = Inr \<lparr>de_Outcome = ''allow'', de_FiredRuleID = ''allow-all'', de_ReasonCode = ''RULE_ALLOWED''\<rparr>"
proof -
  obtain v p where v: "json_parse allow_all_text = Some v" and p: "decode_policy builtin_lib v = Some p"
    and s: "read_summary p = (None, ''verdifax-default-allow-all'', ''Verdifax Default Allow-All Policy'', ''1.0.0'')"
    "Decide (po_rules p) (po_default_effect p) (Inputs_Context (eval_inputs_of sample_inputs))
      = Inr \<lparr>de_Outcome = ''allow'', de_FiredRuleID = ''allow-all'', de_ReasonCode = ''RULE_ALLOWED''\<rparr>"
    using allow_all_read by (auto split: option.splits)
  from s(1) have "validate p = None" by (simp add: read_summary_def)
  from from_document_accepts [OF allow_all_strict v p this] read_document [OF v p] s that
  show thesis by (simp add: read_summary_def)
qed

lemma builtin_gate_match:
  "gc_DocumentMatch (checkPolicyDocument builtin_lib (builtin_gate\<lparr>gc_BuiltInFile := file\<rparr>) allow_all_text)"
proof -
  obtain r rules where d: "FromDocument builtin_lib allow_all_text = Inr r"
    "r = \<lparr>pr_PolicyID = ''verdifax-default-allow-all'', pr_PolicyName = ''Verdifax Default Allow-All Policy'',
      pr_PolicyVersion = ''1.0.0'', pr_PolicyHash = sha256_hex builtin_lib (policy_preimage builtin_lib allow_all_text)\<rparr>"
    "ReadDocument allow_all_text = Some rules"
    "Decide (do_rules rules) (do_default_effect rules) (Inputs_Context (eval_inputs_of sample_inputs))
      = Inr \<lparr>de_Outcome = ''allow'', de_FiredRuleID = ''allow-all'', de_ReasonCode = ''RULE_ALLOWED''\<rparr>"
    by (rule allow_all_document)
  have sealed: "sealedInputs sample_inputs = Some (eval_inputs_of sample_inputs)"
    by (rule inputs_survive [OF sample_inputs_ok])
  show ?thesis
    using d sealed
    by (simp add: check_document_match rerun_agrees builtin_gate_def gateOf_def embedded_hashes(1) EffectAllow_def)
qed

lemma builtin_gate_present: "gc_Present builtin_gate" "\<not> gc_DocumentChecked builtin_gate" "\<not> gc_DocumentMatch builtin_gate"
  "gc_inputs builtin_gate = Some sample_inputs" "gc_Source builtin_gate = PolicySourceVerdifax"
  by (simp_all add: builtin_gate_def gateOf_def PolicySourceVerdifax_def)

lemma builtin_gate_held: "checkBuiltIn builtin_lib builtin_gate
    = checkPolicyDocument builtin_lib (builtin_gate\<lparr>gc_BuiltInFile := ''verdifax-default-allow-all-1.0.0.json''\<rparr>) allow_all_text"
proof -
  have files: "embedded_files = [(''verdifax-default-allow-all-1.0.0.json'', allow_all_text),
      (''verdifax-default-baseline-permit-1.0.0.json'', baseline_text)]"
    by (simp add: embedded_files_def allow_all_text_def baseline_text_def)
  let ?first = "(versions ! 0)\<lparr>bp_Document := allow_all_text\<rparr>"
  have "All_policies builtin_lib = Some [?first, (versions ! 1)\<lparr>bp_Document := baseline_text\<rparr>]"
    unfolding All_policies_def versions_def
    by (simp add: files embedded_hashes)
  then have "ByDocumentHash builtin_lib (gc_DocumentHash builtin_gate) = Some ?first"
    by (simp add: ByDocumentHash_def builtin_gate_def gateOf_def versions_def)
  then show ?thesis
    by (simp add: checkBuiltIn_def builtin_gate_present builtin_gate_def gateOf_def PolicySourceCustomer_def
      PolicySourceVerdifax_def versions_def)
qed

lemma builtin_gate_passes: "gc_DocumentMatch (checkBuiltIn builtin_lib builtin_gate)"
  by (simp add: builtin_gate_held builtin_gate_match)

lemma checked_decision_stands_witness:
  "\<exists>rules e result. ReadDocument allow_all_text = Some rules \<and> sealedInputs sample_inputs = Some e
      \<and> Decide (do_rules rules) (do_default_effect rules) (Inputs_Context e) = Inr result
      \<and> de_FiredRuleID result = ''allow-all'' \<and> de_Outcome result = ''allow''"
proof -
  obtain r where r: "FromDocument builtin_lib allow_all_text = Inr r" "pr_PolicyHash r = gc_PolicyHash builtin_gate"
    by (rule allow_all_document) (auto simp: builtin_gate_def gateOf_def)
  have match: "gc_DocumentMatch (checkPolicyDocument builtin_lib builtin_gate allow_all_text)"
    using builtin_gate_match [of "[]"] by (simp add: builtin_gate_def gateOf_def)
  from checked_decision_stands [OF builtin_gate_present(3) match builtin_gate_present(4) r]
  show ?thesis by (simp add: collides_def builtin_gate_def gateOf_def EffectAllow_def)
qed

lemma confirmed_gate_accepts_any_document_witness:
  "\<not> policyFailed (checkPolicyDocument builtin_lib (checkBuiltIn builtin_lib builtin_gate) ''not a policy'')"
  by (rule confirmed_gate_accepts_any_document [OF builtin_gate_passes])

lemma builtin_author_held_witness:
  "\<exists>file text rules e result. (file, text) \<in> set embedded_files \<and> sha256_hex builtin_lib text = gc_DocumentHash builtin_gate
     \<and> gc_DocumentMatch (checkPolicyDocument builtin_lib (builtin_gate\<lparr>gc_BuiltInFile := file\<rparr>) text)
     \<and> ReadDocument text = Some rules \<and> sealedInputs sample_inputs = Some e
     \<and> Decide (do_rules rules) (do_default_effect rules) (Inputs_Context e) = Inr result
     \<and> de_FiredRuleID result = ''allow-all'' \<and> de_Outcome result = ''allow''"
proof -
  have "gc_inputs builtin_gate = Some sample_inputs" "\<not> gc_DocumentMatch builtin_gate"
    "gc_FiredRuleID builtin_gate = ''allow-all''" "gc_Outcome builtin_gate = ''allow''"
    by (simp_all add: builtin_gate_def gateOf_def EffectAllow_def Let_def)
  then show ?thesis
    using builtin_author_held [OF builtin_gate_present(1,2), of builtin_lib] builtin_gate_passes
    by (simp add: policyFailed_def builtin_gate_present(5) PolicySourceVerdifax_def PolicySourceCustomer_def) blast
qed

end
