(* ===== verification/ReceiptLeaf.thy ===== *)
theory ReceiptLeaf
  imports Actor PolicyGate
begin

text \<open>
  internal/artifacts/receipt_anchor.go and the receipt context of job.go: the three leaves a
  receipt's public-log entry can have, and the digest of the context the third one binds. The
  lemmas show that a leaf determines the receipt it was made for, and that the context digest
  determines the context: a job, a policy decision, an account and an account decision cannot be
  read as each other.
\<close>

section \<open>The anchor\<close>

definition ReceiptAnchorKind :: string where "ReceiptAnchorKind = ''verdifax.receipt_anchor.v1''"
definition ReceiptAnchorKindV2 :: string where "ReceiptAnchorKindV2 = ''verdifax.receipt_anchor.v2''"
definition ReceiptAnchorKindV3 :: string where "ReceiptAnchorKindV3 = ''verdifax.receipt_anchor.v3''"
definition ReceiptLeafDomain :: string where "ReceiptLeafDomain = ''verdifax.ledger.receipt.v1''"
definition ReceiptLeafDomainV2 :: string where "ReceiptLeafDomainV2 = ''verdifax.ledger.receipt.v2''"
definition ReceiptLeafDomainV3 :: string where "ReceiptLeafDomainV3 = ''verdifax.ledger.receipt.v3''"
definition ReceiptAnchoringWindowSeconds :: int where "ReceiptAnchoringWindowSeconds = 600"
definition PolicyActivationKind :: string where "PolicyActivationKind = ''policy_activation''"

definition ReceiptKinds :: "string list" where
  "ReceiptKinds = [''deny_receipt'', ''ccv_halt_receipt'', ''macc_halt_receipt'',
     ''aivp_t4_halt_receipt'', ''attestation_gap_receipt'']"

record receipt_anchor =
  rc_kind :: string
  rc_receipt_kind :: string
  rc_receipt_hash :: string
  rc_backend :: string
  rc_log_entry_id :: string
  rc_log_id :: string
  rc_leaf_hash :: string
  rc_log_index :: int
  rc_tree_size :: int
  rc_root_hash :: string
  rc_inclusion_path :: "string list"
  rc_checkpoint :: string
  rc_signed_entry_timestamp :: string
  rc_integrated_time :: int
  rc_entry_body :: string

datatype receipt_leaf_error = UnknownKind string | EnvelopeMalformed | HashLength nat | HashNotHex
  | RunNotPositive int | ContextHashMalformed

definition ValidateReceiptLeafFields :: "string \<Rightarrow> string \<Rightarrow> string \<Rightarrow> receipt_leaf_error option" where
  "ValidateReceiptLeafFields kind envelopeID receiptHash =
     (if \<not> (kind = PolicyActivationKind \<or> kind \<in> set ReceiptKinds) then Some (UnknownKind kind)
      else if envelopeID = [] \<or> CHR ''.'' \<in> set envelopeID then Some EnvelopeMalformed
      else if length receiptHash \<noteq> 64 then Some (HashLength (length receiptHash))
      else if \<not> list_all is_lower_hex receiptHash then Some HashNotHex
      else None)"

definition ValidateReceiptLeafFieldsV2 :: "string \<Rightarrow> string \<Rightarrow> string \<Rightarrow> int \<Rightarrow> receipt_leaf_error option" where
  "ValidateReceiptLeafFieldsV2 kind envelopeID receiptHash runID =
     (case ValidateReceiptLeafFields kind envelopeID receiptHash of Some e \<Rightarrow> Some e
      | None \<Rightarrow> if runID \<le> 0 then Some (RunNotPositive runID) else None)"

definition ValidateReceiptLeafFieldsV3 :: "string \<Rightarrow> string \<Rightarrow> string \<Rightarrow> int \<Rightarrow> string \<Rightarrow> receipt_leaf_error option" where
  "ValidateReceiptLeafFieldsV3 kind envelopeID receiptHash runID contextHash =
     (case ValidateReceiptLeafFieldsV2 kind envelopeID receiptHash runID of Some e \<Rightarrow> Some e
      | None \<Rightarrow> if \<not> is_hex64 contextHash then Some ContextHashMalformed else None)"

definition ReceiptLeafPreimage :: "string \<Rightarrow> string \<Rightarrow> string \<Rightarrow> string" where
  "ReceiptLeafPreimage kind envelopeID receiptHash =
     join (CHR ''.'') [ReceiptLeafDomain, kind, envelopeID, receiptHash]"

definition ReceiptLeafPreimageV2 :: "string \<Rightarrow> string \<Rightarrow> string \<Rightarrow> int \<Rightarrow> string" where
  "ReceiptLeafPreimageV2 kind envelopeID receiptHash runID =
     join (CHR ''.'') [ReceiptLeafDomainV2, kind, envelopeID, receiptHash, int_str runID]"

definition ReceiptLeafPreimageV3 :: "string \<Rightarrow> string \<Rightarrow> string \<Rightarrow> int \<Rightarrow> string \<Rightarrow> string" where
  "ReceiptLeafPreimageV3 kind envelopeID receiptHash runID contextHash =
     join (CHR ''.'') [ReceiptLeafDomainV3, kind, envelopeID, receiptHash, int_str runID, contextHash]"

definition ComputeReceiptLeafHash :: "golib \<Rightarrow> string \<Rightarrow> string \<Rightarrow> string \<Rightarrow> string" where
  "ComputeReceiptLeafHash g kind envelopeID receiptHash = sha256_hex g (ReceiptLeafPreimage kind envelopeID receiptHash)"

definition ComputeReceiptLeafHashV2 :: "golib \<Rightarrow> string \<Rightarrow> string \<Rightarrow> string \<Rightarrow> int \<Rightarrow> string" where
  "ComputeReceiptLeafHashV2 g kind envelopeID receiptHash runID =
     sha256_hex g (ReceiptLeafPreimageV2 kind envelopeID receiptHash runID)"

definition ComputeReceiptLeafHashV3 :: "golib \<Rightarrow> string \<Rightarrow> string \<Rightarrow> string \<Rightarrow> int \<Rightarrow> string \<Rightarrow> string" where
  "ComputeReceiptLeafHashV3 g kind envelopeID receiptHash runID contextHash =
     sha256_hex g (ReceiptLeafPreimageV3 kind envelopeID receiptHash runID contextHash)"

text \<open>The input of the anchor check, as receipt.go and policyhistory.go write it.\<close>

definition receipt_anchor_input :: "receipt_anchor \<Rightarrow> anchor_input" where
  "receipt_anchor_input a = \<lparr>
     in_LeafHashHex = rc_leaf_hash a, in_EntryBody = rc_entry_body a, in_LogIndex = rc_log_index a,
     in_TreeSize = rc_tree_size a, in_RootHashHex = rc_root_hash a, in_InclusionPath = rc_inclusion_path a,
     in_Checkpoint = rc_checkpoint a, in_LogID = rc_log_id a, in_LogEntryID = rc_log_entry_id a,
     in_IntegratedTime = rc_integrated_time a, in_SignedEntryTimestamp = rc_signed_entry_timestamp a\<rparr>"

section \<open>The context\<close>

record receipt_context =
  rx_request :: sealed_request_fields
  rx_request_signature :: "request_signature option"
  rx_job :: "job_link option"
  rx_policy :: "policy_binding option"
  rx_account_id :: string
  rx_account_policy :: "policy_binding option"

definition context_parts :: "golib \<Rightarrow> receipt_context \<Rightarrow> string list" where
  "context_parts g c =
     [''verdifax.receipt-context.v1'', srf_PayloadHash (rx_request c), srf_ProgramID (rx_request c),
      srf_RouteID (rx_request c), srf_RegistryRecordHash (rx_request c), srf_AiOutputHash (rx_request c)] @
     (case rx_request_signature c of None \<Rightarrow> [] | Some s \<Rightarrow> ''request_signature'' # request_signature_fields s) @
     (case rx_job c of None \<Rightarrow> [] | Some j \<Rightarrow> job_link_fields (Some j)) @
     (case rx_policy c of None \<Rightarrow> [] | Some p \<Rightarrow> PolicyBinding_fields g p) @
     (if rx_account_id c \<noteq> [] then [''account'', rx_account_id c] else []) @
     (case rx_account_policy c of None \<Rightarrow> [] | Some p \<Rightarrow> labeledFields g p ''account_policy'')"

definition ReceiptContext_Hash :: "golib \<Rightarrow> receipt_context \<Rightarrow> string" where
  "ReceiptContext_Hash g c = sha256_hex g (join (CHR 0x00) (context_parts g c))"

section \<open>One leaf, one receipt\<close>

text \<open>The three leaves as one value: what the entry binds in each form.\<close>

datatype receipt_leaf =
    LeafV1 string string string
  | LeafV2 string string string int
  | LeafV3 string string string int string

fun receipt_leaf_text :: "receipt_leaf \<Rightarrow> string" where
  "receipt_leaf_text (LeafV1 k e h) = ReceiptLeafPreimage k e h"
| "receipt_leaf_text (LeafV2 k e h r) = ReceiptLeafPreimageV2 k e h r"
| "receipt_leaf_text (LeafV3 k e h r c) = ReceiptLeafPreimageV3 k e h r c"

fun receipt_leaf_ok :: "receipt_leaf \<Rightarrow> bool" where
  "receipt_leaf_ok (LeafV1 k e h) \<longleftrightarrow> ValidateReceiptLeafFields k e h = None"
| "receipt_leaf_ok (LeafV2 k e h r) \<longleftrightarrow> ValidateReceiptLeafFieldsV2 k e h r = None"
| "receipt_leaf_ok (LeafV3 k e h r c) \<longleftrightarrow> ValidateReceiptLeafFieldsV3 k e h r c = None"

text \<open>The parts after the domain, and the domain's version.\<close>

fun receipt_leaf_parts :: "receipt_leaf \<Rightarrow> string \<times> string list" where
  "receipt_leaf_parts (LeafV1 k e h) = (''v1'', [k, e, h])"
| "receipt_leaf_parts (LeafV2 k e h r) = (''v2'', [k, e, h, int_str r])"
| "receipt_leaf_parts (LeafV3 k e h r c) = (''v3'', [k, e, h, int_str r, c])"

lemma receipt_leaf_text_parts:
  "receipt_leaf_text l = join (CHR ''.'') (''verdifax'' # ''ledger'' # ''receipt'' # fst (receipt_leaf_parts l) # snd (receipt_leaf_parts l))"
  by (cases l) (simp_all add: ReceiptLeafPreimage_def ReceiptLeafPreimageV2_def ReceiptLeafPreimageV3_def
      ReceiptLeafDomain_def ReceiptLeafDomainV2_def ReceiptLeafDomainV3_def)

lemma receipt_leaf_parts_inject: "receipt_leaf_parts l = receipt_leaf_parts m \<longleftrightarrow> l = m"
  by (cases l; cases m) (simp_all)

lemma validated_parts:
  assumes "ValidateReceiptLeafFields k e h = None"
  shows "CHR ''.'' \<notin> set k" "CHR ''.'' \<notin> set e" "CHR ''.'' \<notin> set h"
proof -
  show "CHR ''.'' \<notin> set h" using assms
    by (auto simp: ValidateReceiptLeafFields_def list_all_iff is_lower_hex_def split: if_splits)
qed (use assms in \<open>auto simp: ValidateReceiptLeafFields_def ReceiptKinds_def PolicyActivationKind_def split: if_splits\<close>)

lemma receipt_leaf_parts_free:
  assumes "receipt_leaf_ok l"
  shows "\<forall>x \<in> set (''verdifax'' # ''ledger'' # ''receipt'' # fst (receipt_leaf_parts l) # snd (receipt_leaf_parts l)).
    CHR ''.'' \<notin> set x"
proof -
  have n: "CHR ''.'' \<notin> set (int_str i)" for i by (rule int_str_free) simp_all
  have c: "CHR ''.'' \<notin> set x" if "is_hex64 x" for x
    by (rule hex64_free [OF that]) (simp add: is_lower_hex_def)
  show ?thesis using assms validated_parts n c
    by (cases l) (auto simp: ValidateReceiptLeafFieldsV2_def ValidateReceiptLeafFieldsV3_def
        split: option.splits if_splits)
qed

interpretation receipt_leaf: commitment receipt_leaf_text receipt_leaf_ok receipt_leaf_ok
proof
  fix l m assume ok: "receipt_leaf_ok l" "receipt_leaf_ok m" and eq: "receipt_leaf_text l = receipt_leaf_text m"
  let ?p = "\<lambda>l. ''verdifax'' # ''ledger'' # ''receipt'' # fst (receipt_leaf_parts l) # snd (receipt_leaf_parts l)"
  have "concat (map (split_on (CHR ''.'')) (?p l)) = concat (map (split_on (CHR ''.'')) (?p m))"
    by (rule join_component) (use eq in \<open>simp_all only: receipt_leaf_text_parts list.distinct not_False_eq_True\<close>)
  then have "?p l = ?p m"
    by (simp only: concat_split_free [OF receipt_leaf_parts_free [OF ok(1)]]
        concat_split_free [OF receipt_leaf_parts_free [OF ok(2)]])
  then show "l = m" by (simp add: receipt_leaf_parts_inject [symmetric] prod_eq_iff)
qed

section \<open>One digest, one context\<close>

text \<open>Parts of fixed length that open with a tag are found again in a list of parts.\<close>

definition tagged :: "string \<Rightarrow> nat \<Rightarrow> string list \<Rightarrow> bool" where
  "tagged t n xs \<longleftrightarrow> xs = [] \<or> (hd xs = t \<and> length xs = n)"

lemma tagged_append:
  assumes "tagged t n xs" "tagged t n ys" and "r = [] \<or> hd r \<noteq> t" "s = [] \<or> hd s \<noteq> t" and "xs @ r = ys @ s"
  shows "xs = ys \<and> r = s"
proof (cases "xs = []"; cases "ys = []")
  assume "xs = []" "ys \<noteq> []"
  then have "hd r = t" using assms(2,5) by (simp add: tagged_def)
  with \<open>xs = []\<close> \<open>ys \<noteq> []\<close> assms(3,5) show ?thesis by auto
next
  assume "xs \<noteq> []" "ys = []"
  then have "hd s = t" using assms(1) assms(5) [symmetric] by (simp add: tagged_def)
  with \<open>xs \<noteq> []\<close> \<open>ys = []\<close> assms(4,5) show ?thesis by auto
next
  assume "xs \<noteq> []" "ys \<noteq> []"
  with assms(1,2,5) show ?thesis by (simp add: tagged_def)
qed (use assms(5) in simp)


definition signature_part :: "receipt_context \<Rightarrow> string list" where
  "signature_part c = (case rx_request_signature c of None \<Rightarrow> [] | Some s \<Rightarrow> ''request_signature'' # request_signature_fields s)"
definition job_part :: "receipt_context \<Rightarrow> string list" where
  "job_part c = (case rx_job c of None \<Rightarrow> [] | Some j \<Rightarrow> job_link_fields (Some j))"
definition policy_part :: "golib \<Rightarrow> receipt_context \<Rightarrow> string list" where
  "policy_part g c = (case rx_policy c of None \<Rightarrow> [] | Some p \<Rightarrow> labeledFields g p ''policy'')"
definition account_part :: "receipt_context \<Rightarrow> string list" where
  "account_part c = (if rx_account_id c \<noteq> [] then [''account'', rx_account_id c] else [])"
definition account_policy_part :: "golib \<Rightarrow> receipt_context \<Rightarrow> string list" where
  "account_policy_part g c = (case rx_account_policy c of None \<Rightarrow> [] | Some p \<Rightarrow> labeledFields g p ''account_policy'')"

lemma parts_tagged:
  "tagged JobFormat 6 (job_part c)" "tagged ''policy'' 8 (policy_part g c)"
  "tagged ''account'' 2 (account_part c)" "tagged ''account_policy'' 8 (account_policy_part g c)"
  by (simp_all add: tagged_def job_part_def job_link_fields_def policy_part_def account_part_def account_policy_part_def
      PolicyBinding_fields_def labeledFields_def split: option.splits)

lemma tagged_even: "tagged t n xs \<Longrightarrow> even n \<Longrightarrow> even (length xs)"
  by (auto simp: tagged_def)

text \<open>
  A request signature has four values after its tag, or seven when it names a version. The
  parts that follow it have an even length, so the length of the list says which.
\<close>

lemma signature_append:
  assumes "signature_part c @ r = signature_part d @ s" and "even (length r)" "even (length s)"
    and "r = [] \<or> hd r \<noteq> ''request_signature''" "s = [] \<or> hd s \<noteq> ''request_signature''"
  shows "signature_part c = signature_part d \<and> r = s"
proof -
  have len: "length (signature_part c) + length r = length (signature_part d) + length s"
    using assms(1) by (metis length_append)
  show ?thesis
  proof (cases "rx_request_signature c = None \<longleftrightarrow> rx_request_signature d = None")
    case True
    have "even (length (signature_part c)) = even (length (signature_part d))"
      using len assms(2,3) by presburger
    with True len assms(2,3) have "length (signature_part c) = length (signature_part d)"
      by (auto simp: signature_part_def request_signature_fields_def split: option.splits if_splits)
    with assms(1) show ?thesis by simp
  next
    case False
    then show ?thesis using assms(1,4,5)
      by (cases r; cases s) (auto simp: signature_part_def split: option.splits)
  qed
qed

lemma context_parts_eq:
  assumes "context_parts g c = context_parts g d"
  shows "rx_request c = rx_request d" "signature_part c = signature_part d" "job_part c = job_part d"
    "policy_part g c = policy_part g d" "account_part c = account_part d"
    "account_policy_part g c = account_policy_part g d"
proof -
  let ?rest = "\<lambda>c. job_part c @ policy_part g c @ account_part c @ account_policy_part g c"
  have parts: "context_parts g c = [''verdifax.receipt-context.v1'', srf_PayloadHash (rx_request c), srf_ProgramID (rx_request c),
      srf_RouteID (rx_request c), srf_RegistryRecordHash (rx_request c), srf_AiOutputHash (rx_request c)]
      @ signature_part c @ ?rest c" for c
    by (simp add: context_parts_def signature_part_def job_part_def policy_part_def account_part_def account_policy_part_def
        PolicyBinding_fields_def cong: option.case_cong)
  show "rx_request c = rx_request d"
    using assms unfolding parts by (cases "rx_request c"; cases "rx_request d") simp
  have tail: "signature_part c @ ?rest c = signature_part d @ ?rest d"
    using assms unfolding parts by simp
  have hd_append: "hd (xs @ ys) = (if xs = [] then hd ys else hd xs)" for xs ys :: "string list" by simp
  have first: "?rest c = [] \<or> hd (?rest c) \<in> {JobFormat, ''policy'', ''account'', ''account_policy''}"
    "policy_part g c @ account_part c @ account_policy_part g c = []
      \<or> hd (policy_part g c @ account_part c @ account_policy_part g c) \<in> {''policy'', ''account'', ''account_policy''}"
    "account_part c @ account_policy_part g c = []
      \<or> hd (account_part c @ account_policy_part g c) \<in> {''account'', ''account_policy''}"
    "account_policy_part g c = [] \<or> hd (account_policy_part g c) \<in> {''account_policy''}" for c
    using parts_tagged(1,3) [of c] parts_tagged(2,4) [of g c] by (auto simp: tagged_def hd_append)
  have ev: "even (length (?rest c))" for c
    using parts_tagged(1,3) [of c] parts_tagged(2,4) [of g c] by (simp add: tagged_even)
  have sg: "signature_part c = signature_part d \<and> ?rest c = ?rest d"
    by (rule signature_append [OF tail ev ev]) (use first(1) [of c] first(1) [of d] in \<open>auto simp: JobFormat_def\<close>)
  from sg show "signature_part c = signature_part d" by simp
  from sg have r1: "?rest c = ?rest d" by simp
  have jb: "job_part c = job_part d \<and> policy_part g c @ account_part c @ account_policy_part g c
      = policy_part g d @ account_part d @ account_policy_part g d"
    by (rule tagged_append [OF parts_tagged(1) parts_tagged(1) _ _ r1]) (use first(2) [of c] first(2) [of d] in \<open>auto simp: JobFormat_def\<close>)
  from jb show "job_part c = job_part d" by simp
  from jb have r2: "policy_part g c @ account_part c @ account_policy_part g c
      = policy_part g d @ account_part d @ account_policy_part g d" by simp
  have po: "policy_part g c = policy_part g d \<and> account_part c @ account_policy_part g c
      = account_part d @ account_policy_part g d"
    by (rule tagged_append [OF parts_tagged(2) parts_tagged(2) _ _ r2]) (use first(3) [of c] first(3) [of d] in auto)
  from po show "policy_part g c = policy_part g d" by simp
  from po have r3: "account_part c @ account_policy_part g c = account_part d @ account_policy_part g d" by simp
  have "account_part c = account_part d \<and> account_policy_part g c = account_policy_part g d"
    by (rule tagged_append [OF parts_tagged(3) parts_tagged(3) _ _ r3]) (use first(4) [of c] first(4) [of d] in auto)
  then show "account_part c = account_part d" "account_policy_part g c = account_policy_part g d" by simp_all
qed


text \<open>
  What the digest says of a context: everything, up to the values of an unversioned request
  signature that its hash does not cover and the way a job block writes its lists, which is
  unique for a valid block.
\<close>

definition covered_signature :: "request_signature \<Rightarrow> request_signature" where
  "covered_signature s = (if rs_version s = [] then s\<lparr>rs_body_hash := [], rs_ai_output_hash := []\<rparr> else s)"

definition covered_job :: "job_link \<Rightarrow> string list" where
  "covered_job j = job_link_fields (Some j)"

definition same_context :: "receipt_context \<Rightarrow> receipt_context \<Rightarrow> bool" where
  "same_context c d \<longleftrightarrow> rx_request c = rx_request d
     \<and> map_option covered_signature (rx_request_signature c) = map_option covered_signature (rx_request_signature d)
     \<and> map_option covered_job (rx_job c) = map_option covered_job (rx_job d)
     \<and> rx_policy c = rx_policy d \<and> rx_account_id c = rx_account_id d \<and> rx_account_policy c = rx_account_policy d"

text \<open>A context as strict reading leaves it: valid UTF-8 and no zero byte in any string.\<close>

definition clean_inputs :: "policy_binding option \<Rightarrow> bool" where
  "clean_inputs p \<longleftrightarrow> pred_option (\<lambda>b. pred_option (\<lambda>i. wf_json (pi_json i)) (pb_inputs b)) p"

definition clean_context :: "golib \<Rightarrow> receipt_context \<Rightarrow> bool" where
  "clean_context g c \<longleftrightarrow> nul_free (context_parts g c) \<and> clean_inputs (rx_policy c) \<and> clean_inputs (rx_account_policy c)"

definition input_texts :: "policy_binding option \<Rightarrow> bytes list" where
  "input_texts p = (case p of None \<Rightarrow> [] | Some b \<Rightarrow> (case pb_inputs b of None \<Rightarrow> [] | Some i \<Rightarrow> [json_write (pi_json i)]))"

definition context_preimages :: "golib \<Rightarrow> receipt_context \<Rightarrow> bytes list" where
  "context_preimages g c = join (CHR 0x00) (context_parts g c) # input_texts (rx_policy c) @ input_texts (rx_account_policy c)"

lemma signature_fields_covered:
  "request_signature_fields s = request_signature_fields t \<longleftrightarrow> covered_signature s = covered_signature t"
  by (cases s; cases t) (auto simp: request_signature_fields_def covered_signature_def)

lemma binding_fields_bind:
  assumes g: "digest32 g" and clean: "clean_inputs (Some p)" "clean_inputs (Some r)"
    and eq: "labeledFields g p l = labeledFields g r l"
  shows "p = r \<or> collides g (input_texts (Some p)) (input_texts (Some r))"
proof -
  have ne: "sha256_hex g t \<noteq> []" for t
    using sha256_hex64 [OF g, of t] by (auto simp: is_hex64_def)
  have inputs: "pb_inputs p = pb_inputs r \<or> collides g (input_texts (Some p)) (input_texts (Some r))"
  proof (cases "pb_inputs p"; cases "pb_inputs r")
    fix i j assume "pb_inputs p = Some i" "pb_inputs r = Some j"
    then show ?thesis
      using eq clean json_text.binds [of "pi_json i" "pi_json j" g]
      by (auto simp: labeledFields_def clean_inputs_def input_texts_def pi_json_inj)
  qed (use eq ne ne [symmetric] in \<open>auto simp: labeledFields_def\<close>)
  have "pb_inputs p = pb_inputs r \<Longrightarrow> p = r"
    using eq by (cases p; cases r) (simp add: labeledFields_def)
  with inputs show ?thesis by blast
qed

lemma option_binding:
  assumes "digest32 g" "clean_inputs x" "clean_inputs y"
    and "(case x of None \<Rightarrow> [] | Some p \<Rightarrow> labeledFields g p l) = (case y of None \<Rightarrow> [] | Some p \<Rightarrow> labeledFields g p l)"
  shows "x = y \<or> collides g (input_texts x) (input_texts y)"
proof (cases x; cases y)
  fix p r assume "x = Some p" "y = Some r"
  with binding_fields_bind [of g p r l] assms show ?thesis by simp
qed (use assms in \<open>auto simp: labeledFields_def\<close>)

lemma context_binds:
  assumes g: "digest32 g" and clean: "clean_context g c" "clean_context g d"
    and eq: "ReceiptContext_Hash g c = ReceiptContext_Hash g d"
  shows "same_context c d \<or> collides g (context_preimages g c) (context_preimages g d)"
proof (cases "join (CHR 0x00) (context_parts g c) = join (CHR 0x00) (context_parts g d)")
  case False
  with eq show ?thesis
    by (intro disjI2 collidesI [of "join (CHR 0x00) (context_parts g c)" _ "join (CHR 0x00) (context_parts g d)"])
      (auto simp: ReceiptContext_Hash_def context_preimages_def)
next
  case True
  have "context_parts g c = context_parts g d"
    by (rule null_join_free) (use clean True in \<open>auto simp: clean_context_def null_join_def context_parts_def\<close>)
  note parts = context_parts_eq [OF this]
  have sg: "map_option covered_signature (rx_request_signature c) = map_option covered_signature (rx_request_signature d)"
    using parts(2) by (cases "rx_request_signature c"; cases "rx_request_signature d")
      (simp_all add: signature_part_def signature_fields_covered)
  have ne: "job_link_fields x \<noteq> []" for x by (simp add: job_link_fields_def split: option.split)
  have jb: "map_option covered_job (rx_job c) = map_option covered_job (rx_job d)"
    using parts(3) ne ne [symmetric] by (cases "rx_job c"; cases "rx_job d") (simp_all add: job_part_def covered_job_def)
  have ac: "rx_account_id c = rx_account_id d"
    using parts(5) by (auto simp: account_part_def split: if_splits)
  have po: "rx_policy c = rx_policy d \<or> collides g (input_texts (rx_policy c)) (input_texts (rx_policy d))"
    by (rule option_binding [OF g, where l = "''policy''"])
      (use clean parts(4) in \<open>auto simp: clean_context_def policy_part_def PolicyBinding_fields_def\<close>)
  have ap: "rx_account_policy c = rx_account_policy d
      \<or> collides g (input_texts (rx_account_policy c)) (input_texts (rx_account_policy d))"
    by (rule option_binding [OF g, where l = "''account_policy''"])
      (use clean parts(6) in \<open>auto simp: clean_context_def account_policy_part_def\<close>)
  have mono: "collides g (input_texts (rx_policy c)) (input_texts (rx_policy d)) \<Longrightarrow> collides g (context_preimages g c) (context_preimages g d)"
    "collides g (input_texts (rx_account_policy c)) (input_texts (rx_account_policy d)) \<Longrightarrow> collides g (context_preimages g c) (context_preimages g d)"
    by (erule collides_mono; auto simp: context_preimages_def)+
  show ?thesis
    using parts(1) sg jb ac po ap mono by (auto simp: same_context_def)
qed

end
