(* ===== verification/BoundCopies.thy ===== *)
theory BoundCopies
  imports Samples GoTime
begin

text \<open>
  boundcopies.go: a record stores some values in several places, and all copies of one value
  must be equal. A group names the places and reads them; a gate names a condition under which
  a group compares nothing. The gates' explanations (why) are documentation and are left out.
\<close>

section \<open>Groups and gates\<close>

record copy_gate =
  gate_path :: string
  gate_off :: string
  gate_deleted :: bool
  gate_active :: "audit_bundle \<Rightarrow> bool"

record bound_copy_group =
  bg_paths :: "string list"
  bg_value :: "audit_bundle \<Rightarrow> string option list"
  bg_gates :: "copy_gate list"

definition whenCarried :: "bool \<Rightarrow> string \<Rightarrow> string option" where
  "whenCarried carried s = (if \<not> carried then None else Some s)"

definition listItem :: "string list \<Rightarrow> nat \<Rightarrow> string option" where
  "listItem l i = (if length l \<le> i then None else Some (l ! i))"

definition rekorAnchored :: "audit_bundle \<Rightarrow> bool" where
  "rekorAnchored b \<longleftrightarrow> ra_backend (ab_rekor_anchor b) = ''rekor''"

definition aivpRan :: "audit_bundle \<Rightarrow> bool" where
  "aivpRan b \<longleftrightarrow> ai_outcome (ab_aivp_t4 b) \<noteq> [] \<and> ai_outcome (ab_aivp_t4 b) \<noteq> ''skipped''"

record anchoring_window =
  aw_from :: int
  aw_to :: int

definition poteLedgerDiffers :: "anchoring_window list" where
  "poteLedgerDiffers = [\<lparr>aw_from = 1778023116, aw_to = 1780000083\<rparr>]"

definition poteCheckpointDiffers :: "anchoring_window list" where
  "poteCheckpointDiffers = [\<lparr>aw_from = 1778023116, aw_to = 1780063957\<rparr>, \<lparr>aw_from = 1780472400, aw_to = 1780507561\<rparr>]"

definition piaDiffers :: "anchoring_window list" where
  "piaDiffers = [\<lparr>aw_from = 1778060455, aw_to = 1790958346\<rparr>]"

fun outside_windows :: "int \<Rightarrow> anchoring_window list \<Rightarrow> bool" where
  "outside_windows t [] = True"
| "outside_windows t (w # ws) = (if aw_from w \<le> t \<and> t \<le> aw_to w then False else outside_windows t ws)"

definition anchoredOutside :: "anchoring_window list \<Rightarrow> audit_bundle \<Rightarrow> bool" where
  "anchoredOutside windows b =
     (if \<not> rekorAnchored b then False else outside_windows (ra_integrated_time (ab_rekor_anchor b)) windows)"

definition piaInExecutionIDs :: "audit_bundle \<Rightarrow> bool" where
  "piaInExecutionIDs b \<longleftrightarrow> aivpRan b \<and> anchoredOutside piaDiffers b"

definition sevSnp :: "audit_bundle \<Rightarrow> bool" where
  "sevSnp b \<longleftrightarrow> hw_attestation_mode (ab_hardware_attestation b) = ''sev_snp''"

definition hasVerificationBlock :: "audit_bundle \<Rightarrow> bool" where
  "hasVerificationBlock b \<longleftrightarrow> sevSnp b \<and> hw_verification (ab_hardware_attestation b) \<noteq> None"

definition hasExecutionRecord :: "audit_bundle \<Rightarrow> bool" where
  "hasExecutionRecord b \<longleftrightarrow> ab_execution_record b \<noteq> None"

definition transcriptProofSourceSince :: string where
  "transcriptProofSourceSince = ''2026-10-18T14:13:04.127240866Z''"

definition recordClock :: "audit_bundle \<Rightarrow> string" where
  "recordClock b = (case find (\<lambda>row. pe_name row = ''clock_epoch'') (ab_pre_anchor b) of
     Some row \<Rightarrow> pe_value row
   | None \<Rightarrow> env_timestamp (ab_envelope b))"

text \<open>Time.Before. A time that does not parse is the zero time, the first of January of year one.\<close>

definition time_before :: "go_time \<Rightarrow> go_time \<Rightarrow> bool" where
  "time_before s t \<longleftrightarrow> gt_seconds s < gt_seconds t \<or> (gt_seconds s = gt_seconds t \<and> gt_nanos s < gt_nanos t)"

definition zero_time :: go_time where
  "zero_time = \<lparr>gt_seconds = unix_seconds 1 1 1 0 0 0, gt_nanos = 0\<rparr>"

definition transcriptFromProof :: "audit_bundle \<Rightarrow> bool" where
  "transcriptFromProof b = (case parse_rfc3339 (recordClock b) of
     None \<Rightarrow> False
   | Some clock \<Rightarrow> \<not> time_before clock
       (case parse_rfc3339 transcriptProofSourceSince of Some t \<Rightarrow> t | None \<Rightarrow> zero_time))"

definition rekorGate :: copy_gate where
  "rekorGate = \<lparr>gate_path = ''rekor_anchor.backend'', gate_off = ''mock'', gate_deleted = False,
     gate_active = rekorAnchored\<rparr>"
definition aivpGate :: copy_gate where
  "aivpGate = \<lparr>gate_path = ''aivp_t4.outcome'', gate_off = ''skipped'', gate_deleted = False,
     gate_active = piaInExecutionIDs\<rparr>"
definition sevGate :: copy_gate where
  "sevGate = \<lparr>gate_path = ''hardware_attestation.attestation_mode'', gate_off = ''policy_scaffold'',
     gate_deleted = False, gate_active = sevSnp\<rparr>"
definition verificationGate :: copy_gate where
  "verificationGate = \<lparr>gate_path = ''hardware_attestation.verification'', gate_off = [], gate_deleted = True,
     gate_active = hasVerificationBlock\<rparr>"
definition hostedGate :: copy_gate where
  "hostedGate = \<lparr>gate_path = ''hardware_attestation.attestation_mode'', gate_off = ''sev_snp'',
     gate_deleted = False, gate_active = (\<lambda>b. \<not> sevSnp b)\<rparr>"
definition ledgerGenerationGate :: copy_gate where
  "ledgerGenerationGate = \<lparr>gate_path = ''rekor_anchor.integrated_time'', gate_off = ''1779000000'',
     gate_deleted = False, gate_active = anchoredOutside poteLedgerDiffers\<rparr>"
definition checkpointGenerationGate :: copy_gate where
  "checkpointGenerationGate = \<lparr>gate_path = ''rekor_anchor.integrated_time'', gate_off = ''1779000000'',
     gate_deleted = False, gate_active = anchoredOutside poteCheckpointDiffers\<rparr>"
definition piaGenerationGate :: copy_gate where
  "piaGenerationGate = \<lparr>gate_path = ''rekor_anchor.integrated_time'', gate_off = ''1779000000'',
     gate_deleted = False, gate_active = anchoredOutside piaDiffers\<rparr>"
definition executionRecordGate :: copy_gate where
  "executionRecordGate = \<lparr>gate_path = ''execution_record'', gate_off = [], gate_deleted = True,
     gate_active = hasExecutionRecord\<rparr>"
definition clockGate :: copy_gate where
  "clockGate = \<lparr>gate_path = ''envelope.timestamp'', gate_off = ''2026-10-17T00:00:00Z'',
     gate_deleted = False, gate_active = transcriptFromProof\<rparr>"

definition execRecordField :: "audit_bundle \<Rightarrow> string \<Rightarrow> string option" where
  "execRecordField b field = (case ab_execution_record b of None \<Rightarrow> None | Some r \<Rightarrow>
     if field = ''aer_hash'' then Some (er_aer_hash r)
     else if field = ''transport_hash'' then Some (er_transport_hash r)
     else if field = ''program_hash'' then Some (er_program_hash r)
     else if field = ''input_hash'' then Some (er_input_hash r)
     else None)"

text \<open>The kernel output ids of the execution record; a record without one has none.\<close>

definition record_kernels :: "audit_bundle \<Rightarrow> string list" where
  "record_kernels b = (case ab_execution_record b of None \<Rightarrow> [] | Some r \<Rightarrow> slice (er_kernel_output_ids r))"

text \<open>The list of groups, in the source's order: the groups of the first version, then those added
  by later rounds.\<close>

definition sealed_copy_groups :: "bound_copy_group list" where
  "sealed_copy_groups = [
   \<lparr>bg_paths = [''envelope.envelope_id'',
       ''transport.envelope_id'',
       ''aer.envelope_id''],
     bg_value = (\<lambda>b. [Some (env_envelope_id (ab_envelope b)),
       Some (tr_envelope_id (ab_transport b)),
       Some (aer_envelope_id (ab_aer b))]),
     bg_gates = []\<rparr>,
   \<lparr>bg_paths = [''envelope.seal.sealed_hash'',
       ''transport.envelope_hash'',
       ''final_vfa.envelope_hash''],
     bg_value = (\<lambda>b. [Some (sr_sealed_hash (env_seal (ab_envelope b))),
       Some (tr_envelope_hash (ab_transport b)),
       Some (vf_envelope_hash (ab_final_vfa b))]),
     bg_gates = []\<rparr>,
   \<lparr>bg_paths = [''aer.seal.sealed_hash'',
       ''final_vfa.aer_hash'',
       ''pote_proof.execution_trace_hash'',
       ''execution_record.aer_hash''],
     bg_value = (\<lambda>b. [Some (sr_sealed_hash (aer_seal (ab_aer b))),
       Some (vf_aer_hash (ab_final_vfa b)),
       Some (pp_execution_trace_hash (ab_pote_proof b)),
       execRecordField b ''aer_hash'']),
     bg_gates = []\<rparr>,
   \<lparr>bg_paths = [''execution_record.transport_hash'',
       ''transport.seal.sealed_hash'',
       ''final_vfa.transport_hash''],
     bg_value = (\<lambda>b. [execRecordField b ''transport_hash'',
       Some (sr_sealed_hash (tr_seal (ab_transport b))),
       Some (vf_transport_hash (ab_final_vfa b))]),
     bg_gates = []\<rparr>,
   \<lparr>bg_paths = [''execution_record.program_hash'',
       ''envelope.registry_record_hash''],
     bg_value = (\<lambda>b. [execRecordField b ''program_hash'',
       Some (env_registry_record_hash (ab_envelope b))]),
     bg_gates = [executionRecordGate]\<rparr>,
   \<lparr>bg_paths = [''execution_record.input_hash'',
       ''payload.content_hash'',
       ''envelope.payload_hash''],
     bg_value = (\<lambda>b. [execRecordField b ''input_hash'',
       Some (pl_content_hash (ab_payload b)),
       Some (env_payload_hash (ab_envelope b))]),
     bg_gates = []\<rparr>,
   \<lparr>bg_paths = [''zksp_binding.seal.sealed_hash'',
       ''final_vfa.zksp_binding_hash''],
     bg_value = (\<lambda>b. [Some (sr_sealed_hash (zk_seal (ab_zksp_binding b))),
       Some (vf_zksp_binding_hash (ab_final_vfa b))]),
     bg_gates = []\<rparr>,
   \<lparr>bg_paths = [''epa.seal.sealed_hash'',
       ''final_vfa.epa_hash''],
     bg_value = (\<lambda>b. [Some (sr_sealed_hash (epa_seal (ab_epa b))),
       Some (vf_epa_hash (ab_final_vfa b))]),
     bg_gates = []\<rparr>,
   \<lparr>bg_paths = [''efa.seal.sealed_hash'',
       ''final_vfa.efa_hash''],
     bg_value = (\<lambda>b. [Some (sr_sealed_hash (efa_seal (ab_efa b))),
       Some (vf_efa_hash (ab_final_vfa b))]),
     bg_gates = []\<rparr>,
   \<lparr>bg_paths = [''transcript.seal.sealed_hash'',
       ''final_vfa.transcript_hash'',
       ''transcript.transcript_hash''],
     bg_value = (\<lambda>b. [Some (sr_sealed_hash (ts_seal (ab_transcript b))),
       Some (vf_transcript_hash (ab_final_vfa b)),
       Some (ts_transcript_hash (ab_transcript b))]),
     bg_gates = []\<rparr>,
   \<lparr>bg_paths = [''hardware_attestation.seal.sealed_hash'',
       ''final_vfa.hardware_attestation_hash''],
     bg_value = (\<lambda>b. [Some (sr_sealed_hash (hw_seal (ab_hardware_attestation b))),
       Some (vf_hardware_attestation_hash (ab_final_vfa b))]),
     bg_gates = []\<rparr>,
   \<lparr>bg_paths = [''leakage_bundle.seal.sealed_hash'',
       ''final_vfa.leakage_bundle_hash''],
     bg_value = (\<lambda>b. [Some (sr_sealed_hash (lb_seal (ab_leakage_bundle b))),
       Some (vf_leakage_bundle_hash (ab_final_vfa b))]),
     bg_gates = []\<rparr>,
   \<lparr>bg_paths = [''migration_token.seal.sealed_hash'',
       ''final_vfa.migration_token_hash'',
       ''migration_token.state_hash''],
     bg_value = (\<lambda>b. [Some (sr_sealed_hash (mt_seal (ab_migration_token b))),
       Some (vf_migration_token_hash (ab_final_vfa b)),
       Some (mt_state_hash (ab_migration_token b))]),
     bg_gates = []\<rparr>,
   \<lparr>bg_paths = [''replay_fingerprint.seal.sealed_hash'',
       ''final_vfa.replay_fingerprint''],
     bg_value = (\<lambda>b. [Some (sr_sealed_hash (rf_seal (ab_replay_fingerprint b))),
       Some (vf_replay_fingerprint (ab_final_vfa b))]),
     bg_gates = []\<rparr>,
   \<lparr>bg_paths = [''pote_proof.seal.sealed_hash'',
       ''final_vfa.pote_proof_hash''],
     bg_value = (\<lambda>b. [Some (sr_sealed_hash (pp_seal (ab_pote_proof b))),
       Some (vf_pote_proof_hash (ab_final_vfa b))]),
     bg_gates = []\<rparr>]"

definition later_copy_groups :: "bound_copy_group list" where
  "later_copy_groups = [
   \<lparr>bg_paths = [''aivp_t4.pia_hash'',
       ''aer.execution_ids[4]'',
       ''efa.steps[4].execution_id'',
       ''execution_record.kernel_output_ids[4]''],
     bg_value = (\<lambda>b. if \<not> piaInExecutionIDs b then [None, None, None, None]
       else [Some (ai_pia_hash (ab_aivp_t4 b)),
         listItem (slice (aer_execution_ids (ab_aer b))) 4,
         (if 4 < length (slice (efa_steps (ab_efa b))) then Some (st_execution_id (slice (efa_steps (ab_efa b)) ! 4)) else None),
         listItem (record_kernels b) 4]),
     bg_gates = [aivpGate, piaGenerationGate]\<rparr>,
   \<lparr>bg_paths = [''rekor_anchor.backend'',
       ''pote_proof.ledger_backend''],
     bg_value = (\<lambda>b. [whenCarried (anchoredOutside poteLedgerDiffers b) (ra_backend (ab_rekor_anchor b)), whenCarried (anchoredOutside poteLedgerDiffers b) (pp_ledger_backend (ab_pote_proof b))]),
     bg_gates = [rekorGate, ledgerGenerationGate]\<rparr>,
   \<lparr>bg_paths = [''rekor_anchor.log_entry_id'',
       ''pote_proof.log_entry_id''],
     bg_value = (\<lambda>b. [whenCarried (rekorAnchored b) (ra_log_entry_id (ab_rekor_anchor b)), whenCarried (rekorAnchored b) (pp_log_entry_id (ab_pote_proof b))]),
     bg_gates = [rekorGate]\<rparr>,
   \<lparr>bg_paths = [''rekor_anchor.integrated_time'',
       ''pote_proof.integrated_time''],
     bg_value = (\<lambda>b. [whenCarried (anchoredOutside poteLedgerDiffers b) (int_str (ra_integrated_time (ab_rekor_anchor b))), whenCarried (anchoredOutside poteLedgerDiffers b) (int_str (pp_integrated_time (ab_pote_proof b)))]),
     bg_gates = [rekorGate, ledgerGenerationGate]\<rparr>,
   \<lparr>bg_paths = [''rekor_anchor.checkpoint'',
       ''pote_proof.ledger_checkpoint''],
     bg_value = (\<lambda>b. [whenCarried (anchoredOutside poteCheckpointDiffers b) (ra_checkpoint (ab_rekor_anchor b)), whenCarried (anchoredOutside poteCheckpointDiffers b) (pp_ledger_checkpoint (ab_pote_proof b))]),
     bg_gates = [rekorGate, checkpointGenerationGate]\<rparr>,
   \<lparr>bg_paths = [''transcript.proof_hash_input'',
       ''execution_record.proof_hash'',
       ''aer.seal.sealed_hash''],
     bg_value = (\<lambda>b. if \<not> transcriptFromProof b
       then [Some (ts_proof_hash_input (ab_transcript b)), None, Some (sr_sealed_hash (aer_seal (ab_aer b)))]
       else [Some (ts_proof_hash_input (ab_transcript b)), map_option er_proof_hash (ab_execution_record b), None]),
     bg_gates = [clockGate, executionRecordGate]\<rparr>,
   \<lparr>bg_paths = [''hardware_attestation.verification.measurement_hex'',
       ''hardware_attestation.enclave_measurement''],
     bg_value = (\<lambda>b. if \<not> hasVerificationBlock b then [None, None]
       else [map_option vc_measurement_hex (hw_verification (ab_hardware_attestation b)), Some (hw_enclave_measurement (ab_hardware_attestation b))]),
     bg_gates = [sevGate, verificationGate]\<rparr>,
   \<lparr>bg_paths = [''hardware_attestation.seal.sealed_hash'',
       ''hardware_attestation.enclave_measurement''],
     bg_value = (\<lambda>b. if sevSnp b then [None, None]
       else [Some (sr_sealed_hash (hw_seal (ab_hardware_attestation b))), Some (hw_enclave_measurement (ab_hardware_attestation b))]),
     bg_gates = [hostedGate]\<rparr>,
   \<lparr>bg_paths = [''hardware_attestation.verification.platform'',
       ''hardware_attestation.platform''],
     bg_value = (\<lambda>b. if \<not> hasVerificationBlock b then [None, None]
       else [map_option vc_platform (hw_verification (ab_hardware_attestation b)), Some (hw_platform (ab_hardware_attestation b))]),
     bg_gates = [sevGate, verificationGate]\<rparr>,
   \<lparr>bg_paths = [''hardware_attestation.verification.report_data_hex'',
       ''hardware_attestation.report_data_hex''],
     bg_value = (\<lambda>b. if \<not> hasVerificationBlock b then [None, None]
       else [map_option vc_report_data_hex (hw_verification (ab_hardware_attestation b)), Some (hw_report_data_hex (ab_hardware_attestation b))]),
     bg_gates = [sevGate, verificationGate]\<rparr>,
   \<lparr>bg_paths = [''transport.sequence_id'',
       ''aer.sequence_id''],
     bg_value = (\<lambda>b. [Some (tr_sequence_id (ab_transport b)),
       Some (aer_sequence_id (ab_aer b))]),
     bg_gates = []\<rparr>,
   \<lparr>bg_paths = [''envelope.timestamp'',
       ''generated_at'',
       ''epa.environment_snapshot.time''],
     bg_value = (\<lambda>b. [Some (env_timestamp (ab_envelope b)),
       Some (ab_generated_at b),
       Some (es_time (epa_environment_snapshot (ab_epa b)))]),
     bg_gates = []\<rparr>,
   \<lparr>bg_paths = [''manifest_hash'',
       ''replay_fingerprint.expected_output_hash''],
     bg_value = (\<lambda>b. [Some (ab_manifest_hash b),
       Some (rf_expected_output_hash (ab_replay_fingerprint b))]),
     bg_gates = []\<rparr>,
   \<lparr>bg_paths = [''system_provenance.orchestrator_git_sha'',
       ''system_provenance.build_provenance.source_commit_sha''],
     bg_value = (\<lambda>b. [Some (sp_orchestrator_git_sha (ab_system_provenance b)),
       Some (bp_source_commit_sha (sp_build_provenance (ab_system_provenance b)))]),
     bg_gates = []\<rparr>,
   \<lparr>bg_paths = [''aer.decision.kind'',
       ''epa.attested_context.decision_kind''],
     bg_value = (\<lambda>b. [Some (dr_kind (aer_decision (ab_aer b))),
       Some (ac_decision_kind (epa_attested_context (ab_epa b)))]),
     bg_gates = []\<rparr>,
   \<lparr>bg_paths = [''aer.decision.result'',
       ''epa.attested_context.decision_result''],
     bg_value = (\<lambda>b. [Some (dr_result (aer_decision (ab_aer b))),
       Some (ac_decision_result (epa_attested_context (ab_epa b)))]),
     bg_gates = []\<rparr>,
   \<lparr>bg_paths = [''aer.decision.note'',
       ''epa.attested_context.decision_note''],
     bg_value = (\<lambda>b. [Some (dr_note (aer_decision (ab_aer b))),
       Some (ac_decision_note (epa_attested_context (ab_epa b)))]),
     bg_gates = []\<rparr>,
   \<lparr>bg_paths = [''request_substance.hash'',
       ''request_substance.seal.sealed_hash''],
     bg_value = (\<lambda>b. [Some (rq_hash (ab_request_substance b)),
       Some (sr_sealed_hash (rq_seal (ab_request_substance b)))]),
     bg_gates = []\<rparr>,
   \<lparr>bg_paths = [''authorization_chain.hash'',
       ''authorization_chain.seal.sealed_hash''],
     bg_value = (\<lambda>b. [Some (az_hash (ab_authorization_chain b)),
       Some (sr_sealed_hash (az_seal (ab_authorization_chain b)))]),
     bg_gates = []\<rparr>,
   \<lparr>bg_paths = [''regulatory_scaffolding.hash'',
       ''regulatory_scaffolding.seal.sealed_hash''],
     bg_value = (\<lambda>b. [Some (rg_hash (ab_regulatory_scaffolding b)),
       Some (sr_sealed_hash (rg_seal (ab_regulatory_scaffolding b)))]),
     bg_gates = []\<rparr>,
   \<lparr>bg_paths = [''causal_graph.hash'',
       ''causal_graph.seal.sealed_hash''],
     bg_value = (\<lambda>b. [Some (cg_hash (ab_causal_graph b)),
       Some (sr_sealed_hash (cg_seal (ab_causal_graph b)))]),
     bg_gates = []\<rparr>,
   \<lparr>bg_paths = [''system_provenance.hash'',
       ''system_provenance.seal.sealed_hash''],
     bg_value = (\<lambda>b. [Some (sp_hash (ab_system_provenance b)),
       Some (sr_sealed_hash (sp_seal (ab_system_provenance b)))]),
     bg_gates = []\<rparr>]"

definition boundCopyGroups :: "bound_copy_group list" where
  "boundCopyGroups = sealed_copy_groups @ later_copy_groups"

section \<open>Lists\<close>

record bound_list_group =
  lg_paths :: "string list"
  lg_value :: "audit_bundle \<Rightarrow> string list list"
  lg_extras :: "(int \<times> string list) list"

definition boundListGroups :: "bound_list_group list" where
  "boundListGroups = [
   \<lparr>lg_paths = [''execution_record.kernel_output_ids[]'', ''aer.execution_ids[]'', ''efa.steps[].execution_id''],
     lg_value = (\<lambda>b. [record_kernels b, slice (aer_execution_ids (ab_aer b)),
       map st_execution_id (slice (efa_steps (ab_efa b)))]),
     lg_extras = [(4, [''aivp_t4.pia_hash''])]\<rparr>]"

definition boundCopyGroupOf :: "string \<Rightarrow> bound_copy_group option" where
  "boundCopyGroupOf path = find (\<lambda>G. path \<in> set (bg_paths G)) boundCopyGroups"

definition add_peers :: "string \<Rightarrow> string list \<Rightarrow> string list \<Rightarrow> string list" where
  "add_peers path = foldl (\<lambda>peers p. if p \<noteq> path \<and> p \<notin> set peers then peers @ [p] else peers)"

definition boundCopyPeers :: "string \<Rightarrow> string list" where
  "boundCopyPeers path = foldl (\<lambda>peers G. if path \<notin> set (bg_paths G) then peers else add_peers path peers (bg_paths G))
     [] boundCopyGroups"

section \<open>The check\<close>

text \<open>
  The scan of one group: the first carried copy is the reference, and every later carried copy
  that differs from it is reported. A failure is the paths that differ and the reference's path.
\<close>

record copy_failure =
  cf_differ :: "string list"
  cf_first :: string

fun scan_copies :: "(string \<times> 'a) option \<Rightarrow> string list \<Rightarrow> (string \<times> 'a option) list \<Rightarrow> string list \<times> (string \<times> 'a) option" where
  "scan_copies first differ [] = (differ, first)"
| "scan_copies first differ ((p, None) # r) = scan_copies first differ r"
| "scan_copies None differ ((p, Some v) # r) = scan_copies (Some (p, v)) differ r"
| "scan_copies (Some (q, w)) differ ((p, Some v) # r) =
     scan_copies (Some (q, w)) (if v \<noteq> w then differ @ [p] else differ) r"

definition group_failure :: "(string \<times> 'a option) list \<Rightarrow> copy_failure option" where
  "group_failure copies = (case scan_copies None [] copies of (differ, first) \<Rightarrow>
     if differ = [] then None
     else Some \<lparr>cf_differ = differ, cf_first = (case first of None \<Rightarrow> [] | Some (p, v) \<Rightarrow> p)\<rparr>)"

text \<open>A list of a record without an execution record is not one of its copies.\<close>

definition list_copies :: "bound_list_group \<Rightarrow> audit_bundle \<Rightarrow> (string \<times> string list option) list" where
  "list_copies G b = map (\<lambda>(p, v). (p, if ab_execution_record b = None \<and> take 17 p = ''execution_record.''
     then None else Some v)) (zip (lg_paths G) (lg_value G b))"

definition verifyBoundCopies :: "audit_bundle \<Rightarrow> copy_failure list" where
  "verifyBoundCopies b =
     List.map_filter (\<lambda>G. group_failure (zip (bg_paths G) (bg_value G b))) boundCopyGroups
     @ List.map_filter (\<lambda>G. group_failure (list_copies G b)) boundListGroups"

section \<open>What no failure means\<close>

text \<open>All carried values of a list are one value.\<close>

fun agree :: "'a option list \<Rightarrow> bool" where
  "agree [] = True"
| "agree (None # r) = agree r"
| "agree (Some v # r) = list_all (pred_option (\<lambda>w. w = v)) r"

lemma scan_Some: "fst (scan_copies (Some (q, w)) differ copies) = []
    \<longleftrightarrow> differ = [] \<and> list_all (pred_option (\<lambda>v. v = w)) (map snd copies)"
  by (induction "Some (q, w)" differ copies rule: scan_copies.induct) auto

lemma scan_None: "fst (scan_copies None [] copies) = [] \<longleftrightarrow> agree (map snd copies)"
proof (induction copies)
  case (Cons c r)
  obtain p x where "c = (p, x)" by fastforce
  with Cons scan_Some [of p _ "[]" r] show ?case by (cases x) simp_all
qed simp

lemma group_failure_None: "group_failure copies = None \<longleftrightarrow> agree (map snd copies)"
  using scan_None [of copies] by (auto simp: group_failure_def split: prod.splits)

lemma map_filter_Nil: "List.map_filter f xs = [] \<longleftrightarrow> list_all (\<lambda>x. f x = None) xs"
  by (induction xs) (auto split: option.splits)

lemma no_copy_failure:
  "verifyBoundCopies b = [] \<longleftrightarrow>
     list_all (\<lambda>G. agree (map snd (zip (bg_paths G) (bg_value G b)))) boundCopyGroups
     \<and> list_all (\<lambda>G. agree (map snd (list_copies G b))) boundListGroups"
  by (simp add: verifyBoundCopies_def map_filter_Nil group_failure_None del: map_filter_simps)

lemma listItem_case: "listItem l i = None \<longleftrightarrow> length l \<le> i" "listItem l i = Some v \<longleftrightarrow> i < length l \<and> l ! i = v"
  by (auto simp: listItem_def)

text \<open>The values the sections of a record repeat whatever its generation.\<close>

definition section_copies_agree :: "audit_bundle \<Rightarrow> bool" where
  "section_copies_agree b \<longleftrightarrow>
     list_all (\<lambda>(x, y). x = y) [
       (tr_envelope_id (ab_transport b), env_envelope_id (ab_envelope b)),
       (aer_envelope_id (ab_aer b), env_envelope_id (ab_envelope b)),
       (tr_envelope_hash (ab_transport b), sr_sealed_hash (env_seal (ab_envelope b))),
       (vf_envelope_hash (ab_final_vfa b), sr_sealed_hash (env_seal (ab_envelope b))),
       (vf_aer_hash (ab_final_vfa b), sr_sealed_hash (aer_seal (ab_aer b))),
       (pp_execution_trace_hash (ab_pote_proof b), sr_sealed_hash (aer_seal (ab_aer b))),
       (vf_transport_hash (ab_final_vfa b), sr_sealed_hash (tr_seal (ab_transport b))),
       (env_payload_hash (ab_envelope b), pl_content_hash (ab_payload b)),
       (vf_zksp_binding_hash (ab_final_vfa b), sr_sealed_hash (zk_seal (ab_zksp_binding b))),
       (vf_epa_hash (ab_final_vfa b), sr_sealed_hash (epa_seal (ab_epa b))),
       (vf_efa_hash (ab_final_vfa b), sr_sealed_hash (efa_seal (ab_efa b))),
       (vf_transcript_hash (ab_final_vfa b), sr_sealed_hash (ts_seal (ab_transcript b))),
       (ts_transcript_hash (ab_transcript b), sr_sealed_hash (ts_seal (ab_transcript b))),
       (vf_hardware_attestation_hash (ab_final_vfa b), sr_sealed_hash (hw_seal (ab_hardware_attestation b))),
       (vf_leakage_bundle_hash (ab_final_vfa b), sr_sealed_hash (lb_seal (ab_leakage_bundle b))),
       (vf_migration_token_hash (ab_final_vfa b), sr_sealed_hash (mt_seal (ab_migration_token b))),
       (mt_state_hash (ab_migration_token b), sr_sealed_hash (mt_seal (ab_migration_token b))),
       (vf_replay_fingerprint (ab_final_vfa b), sr_sealed_hash (rf_seal (ab_replay_fingerprint b))),
       (vf_pote_proof_hash (ab_final_vfa b), sr_sealed_hash (pp_seal (ab_pote_proof b))),
       (aer_sequence_id (ab_aer b), tr_sequence_id (ab_transport b)),
       (ab_generated_at b, env_timestamp (ab_envelope b)),
       (es_time (epa_environment_snapshot (ab_epa b)), env_timestamp (ab_envelope b)),
       (rf_expected_output_hash (ab_replay_fingerprint b), ab_manifest_hash b),
       (bp_source_commit_sha (sp_build_provenance (ab_system_provenance b)), sp_orchestrator_git_sha (ab_system_provenance b)),
       (ac_decision_kind (epa_attested_context (ab_epa b)), dr_kind (aer_decision (ab_aer b))),
       (ac_decision_result (epa_attested_context (ab_epa b)), dr_result (aer_decision (ab_aer b))),
       (ac_decision_note (epa_attested_context (ab_epa b)), dr_note (aer_decision (ab_aer b))),
       (sr_sealed_hash (rq_seal (ab_request_substance b)), rq_hash (ab_request_substance b)),
       (sr_sealed_hash (az_seal (ab_authorization_chain b)), az_hash (ab_authorization_chain b)),
       (sr_sealed_hash (rg_seal (ab_regulatory_scaffolding b)), rg_hash (ab_regulatory_scaffolding b)),
       (sr_sealed_hash (cg_seal (ab_causal_graph b)), cg_hash (ab_causal_graph b)),
       (sr_sealed_hash (sp_seal (ab_system_provenance b)), sp_hash (ab_system_provenance b))]"

text \<open>What an execution record repeats, and whose proof the transcript names.\<close>

definition record_copies_agree :: "audit_bundle \<Rightarrow> bool" where
  "record_copies_agree b \<longleftrightarrow> (let ids = slice (aer_execution_ids (ab_aer b));
       steps = map st_execution_id (slice (efa_steps (ab_efa b)));
       aer_sealed = sr_sealed_hash (aer_seal (ab_aer b));
       input = ts_proof_hash_input (ab_transcript b)
     in case ab_execution_record b of
          None \<Rightarrow> steps = ids \<and> (if transcriptFromProof b then True else aer_sealed = input)
        | Some r \<Rightarrow> ids = slice (er_kernel_output_ids r) \<and> steps = slice (er_kernel_output_ids r)
            \<and> er_aer_hash r = aer_sealed
            \<and> sr_sealed_hash (tr_seal (ab_transport b)) = er_transport_hash r
            \<and> env_registry_record_hash (ab_envelope b) = er_program_hash r
            \<and> pl_content_hash (ab_payload b) = er_input_hash r
            \<and> (if transcriptFromProof b then er_proof_hash r = input else aer_sealed = input))"

text \<open>What the proof section and the hardware section repeat.\<close>

definition anchor_copies_agree :: "audit_bundle \<Rightarrow> bool" where
  "anchor_copies_agree b \<longleftrightarrow> (let a = ab_rekor_anchor b; p = ab_pote_proof b in
     (if rekorAnchored b then pp_log_entry_id p = ra_log_entry_id a else True)
     \<and> (if anchoredOutside poteLedgerDiffers b
        then pp_ledger_backend p = ra_backend a \<and> pp_integrated_time p = ra_integrated_time a else True)
     \<and> (if anchoredOutside poteCheckpointDiffers b then pp_ledger_checkpoint p = ra_checkpoint a else True)
)"

text \<open>Wherever the fifth execution id is listed, it is the AI review's hash.\<close>

definition review_copies_agree :: "audit_bundle \<Rightarrow> bool" where
  "review_copies_agree b \<longleftrightarrow> (if piaInExecutionIDs b
     then list_all (\<lambda>ids. pred_option (\<lambda>x. x = ai_pia_hash (ab_aivp_t4 b)) (listItem ids 4))
       [slice (aer_execution_ids (ab_aer b)), map st_execution_id (slice (efa_steps (ab_efa b))), record_kernels b]
     else True)"

definition hardware_copies_agree :: "audit_bundle \<Rightarrow> bool" where
  "hardware_copies_agree b \<longleftrightarrow> (let h = ab_hardware_attestation b in
     (if sevSnp b then True else hw_enclave_measurement h = sr_sealed_hash (hw_seal h))
     \<and> (case hw_verification h of None \<Rightarrow> True
        | Some v \<Rightarrow> (if sevSnp b then hw_enclave_measurement h = vc_measurement_hex v
            \<and> hw_platform h = vc_platform v \<and> hw_report_data_hex h = vc_report_data_hex v else True)))"

lemmas copy_defs = boundCopyGroups_def sealed_copy_groups_def later_copy_groups_def boundListGroups_def
  list_copies_def section_copies_agree_def record_copies_agree_def anchor_copies_agree_def
  review_copies_agree_def hardware_copies_agree_def hasVerificationBlock_def Let_def

lemma if_True_imp: "(if c then P else True) = (c \<longrightarrow> P)" "(if c then True else P) = (\<not> c \<longrightarrow> P)"
  by auto

lemma step_item: "(if 4 < length steps then Some (f (steps ! 4)) else None) = listItem (map f steps) 4"
  by (simp add: listItem_def)

lemma agree_if [simp]: "agree (map snd (zip ps (if c then xs else ys))) \<longleftrightarrow>
    (c \<longrightarrow> agree (map snd (zip ps xs))) \<and> (\<not> c \<longrightarrow> agree (map snd (zip ps ys)))"
  "agree (if c then vs else ws) \<longleftrightarrow> (c \<longrightarrow> agree vs) \<and> (\<not> c \<longrightarrow> agree ws)"
  by simp_all

lemma agree_when [simp]: "agree [whenCarried c x, whenCarried c y] \<longleftrightarrow> (if c then y = x else True)"
  by (simp add: whenCarried_def)

lemma copies_parts:
  "verifyBoundCopies b = [] \<longleftrightarrow>
     section_copies_agree b \<and> record_copies_agree b \<and> anchor_copies_agree b
     \<and> review_copies_agree b \<and> hardware_copies_agree b"
proof -
  note unfold = no_copy_failure copy_defs execRecordField_def record_kernels_def if_True_imp step_item
  show ?thesis
    by (cases "ab_execution_record b"; cases "hw_verification (ab_hardware_attestation b)";
      simp add: unfold split del: if_split; rule iffI; elim conjE; intro conjI; (assumption | simp))
qed

text \<open>C22. A record passes the copy check exactly when it tells one story: every value its sections
  repeat is one value, its execution record repeats the sections' hashes and the same kernel
  ids, the transcript names the source its generation prescribes, and the proof and hardware
  sections repeat the anchor and the report (in the generations and modes that compare them).\<close>

theorem bound_copies_exact:
  "verifyBoundCopies b = [] \<longleftrightarrow>
     section_copies_agree b \<and> record_copies_agree b \<and> anchor_copies_agree b
     \<and> review_copies_agree b \<and> hardware_copies_agree b"
  by (rule copies_parts)

text \<open>No copy escapes silently: a group that declares no gate compares every one of its paths in
  every record; the only copies it leaves out are those of an execution record the record does
  not carry.\<close>

lemma ungated_groups_compare:
  "list_all (\<lambda>G. map (\<lambda>v. v = None) (bg_value G b)
       = map (\<lambda>p. take 17 p = ''execution_record.'' \<and> ab_execution_record b = None) (bg_paths G))
     (filter (\<lambda>G. bg_gates G = []) boundCopyGroups)"
  by (cases "ab_execution_record b") (simp_all add: copy_defs execRecordField_def)

lemma add_peers_set: "set (add_peers path peers ps) = set peers \<union> (set ps - {path})"
  "distinct peers \<Longrightarrow> distinct (add_peers path peers ps)"
  by (induction ps arbitrary: peers) (auto simp: add_peers_def)

text \<open>The peers of a path are the other paths of the groups that hold it, each once.\<close>

lemma bound_copy_peers:
  "set (boundCopyPeers path) = (\<Union>G \<in> {G \<in> set boundCopyGroups. path \<in> set (bg_paths G)}. set (bg_paths G)) - {path}"
  "distinct (boundCopyPeers path)"
proof -
  have "set (foldl (\<lambda>peers G. if path \<notin> set (bg_paths G) then peers else add_peers path peers (bg_paths G)) ps Gs)
      = set ps \<union> ((\<Union>G \<in> {G \<in> set Gs. path \<in> set (bg_paths G)}. set (bg_paths G)) - {path})"
    and "distinct ps \<Longrightarrow>
      distinct (foldl (\<lambda>peers G. if path \<notin> set (bg_paths G) then peers else add_peers path peers (bg_paths G)) ps Gs)"
    for ps and Gs :: "bound_copy_group list"
    by (induction Gs arbitrary: ps) (auto simp: add_peers_set)
  then show "set (boundCopyPeers path) = (\<Union>G \<in> {G \<in> set boundCopyGroups. path \<in> set (bg_paths G)}. set (bg_paths G)) - {path}"
    and "distinct (boundCopyPeers path)"
    by (simp_all add: boundCopyPeers_def)
qed

end
