(* ===== verification/PolicyHistory.thy ===== *)
theory PolicyHistory
  imports ReceiptLeaf BoundCopies
begin

text \<open>
  internal/artifacts/policy_activation.go, policyhistory.go and the account history of
  accountgate.go: a chain of policy changes, each linked to the one before by its hash, signed
  or not, and anchored on the public log. The check is one pass over the list with the previous
  hash and time as its state; the step relation states what one accepted change is, and the
  lemmas show that a passing list is a run of it, and that a passing list can only be extended.
\<close>

section \<open>An activation\<close>

definition PolicyActivationFormat :: string where "PolicyActivationFormat = ''verdifax.policy.activation.v1''"
definition PolicyActivationSignatureForm :: string where "PolicyActivationSignatureForm = ''verdifax.policy-activation.v1''"
definition NoPreviousActivation :: string where
  "NoPreviousActivation = ''0000000000000000000000000000000000000000000000000000000000000000''"

record policy_activation_signature =
  ps_public_key :: string
  ps_signature :: string
  ps_signed_at :: string
  ps_nonce :: string

record policy_activation =
  pa_format :: string
  pa_chain_id :: string
  pa_sequence :: int
  pa_previous_activation_hash :: string
  pa_policy_id :: string
  pa_policy_version :: string
  pa_policy_hash :: string
  pa_document_hash :: string
  pa_activated_at :: string
  pa_signature :: "policy_activation_signature option"
  pa_activation_hash :: string
  pa_anchor :: "receipt_anchor option"

definition PolicyActivationPreimage :: "string \<Rightarrow> string \<Rightarrow> string \<Rightarrow> string \<Rightarrow> string \<Rightarrow> bytes" where
  "PolicyActivationPreimage chainID documentHash previousHash signedAt nonce =
     null_join [PolicyActivationSignatureForm, chainID, documentHash, previousHash, signedAt, nonce]"

definition activation_fields :: "policy_activation \<Rightarrow> string list" where
  "activation_fields a =
     [pa_format a, pa_chain_id a, int_str (pa_sequence a), pa_previous_activation_hash a,
      pa_policy_id a, pa_policy_version a, pa_policy_hash a, pa_document_hash a, pa_activated_at a] @
     (case pa_signature a of None \<Rightarrow> []
      | Some s \<Rightarrow> [ps_public_key s, ps_signature s, ps_signed_at s, ps_nonce s])"

text \<open>A field with its length before it.\<close>

definition prefixed :: "string \<Rightarrow> bytes" where
  "prefixed f = nat_str (length f) @ CHR '':'' # f"

definition PolicyActivation_ComputeHash :: "golib \<Rightarrow> policy_activation \<Rightarrow> string" where
  "PolicyActivation_ComputeHash g a = sha256_hex g (concat (map prefixed (activation_fields a)))"

datatype activation_error =
    UnknownFormat | ChainMalformed | SequenceNotPositive | PreviousMalformed | PolicyHashesMalformed | HashMalformed
  | OutOfOrder int
  | NotLinked
  | HashDiffers string string
  | TimeUnreadable string
  | DatedBefore
  | SignatureMalformed
  | SignatureWrong
  | NoEntry
  | EntryOffLog string
  | EntryOfAnotherRecord
  | EntryUnverified anchor_error
  | EntrySignerInvalid entry_signer_error
  | EntrySignerUnknown string
  | EntryOutsidePeriod
  | EntryOutsideWindow

definition PolicyActivation_Validate :: "policy_activation \<Rightarrow> activation_error option" where
  "PolicyActivation_Validate a =
     (if pa_format a \<noteq> PolicyActivationFormat then Some UnknownFormat
      else if pa_chain_id a = [] \<or> CHR ''.'' \<in> set (pa_chain_id a) then Some ChainMalformed
      else if pa_sequence a \<le> 0 then Some SequenceNotPositive
      else if \<not> is_hex64 (pa_previous_activation_hash a) then Some PreviousMalformed
      else if \<not> is_hex64 (pa_policy_hash a) \<or> \<not> is_hex64 (pa_document_hash a) then Some PolicyHashesMalformed
      else if \<not> is_hex64 (pa_activation_hash a) then Some HashMalformed
      else None)"

definition PolicyActivation_LeafHash :: "golib \<Rightarrow> policy_activation \<Rightarrow> string" where
  "PolicyActivation_LeafHash g a = ComputeReceiptLeafHashV3 g PolicyActivationKind (pa_chain_id a)
     (pa_activation_hash a) (pa_sequence a) (pa_previous_activation_hash a)"

section \<open>One change (policyhistory.go)\<close>

definition checkActivationSignature :: "golib \<Rightarrow> policy_activation \<Rightarrow> activation_error option" where
  "checkActivationSignature g a = (case pa_signature a of None \<Rightarrow> None | Some s \<Rightarrow>
     (case (base64_decode (ps_public_key s), base64_decode (ps_signature s)) of
        (Some pub, Some sig) \<Rightarrow>
          if length pub \<noteq> 32 \<or> length sig \<noteq> 64 then Some SignatureMalformed
          else if \<not> gl_ed25519_verify g pub (PolicyActivationPreimage (pa_chain_id a) (pa_document_hash a)
              (pa_previous_activation_hash a) (ps_signed_at s) (ps_nonce s)) sig
          then Some SignatureWrong else None
      | _ \<Rightarrow> Some SignatureMalformed))"

definition checkActivationEntry ::
  "golib \<Rightarrow> (anchor_input \<Rightarrow> anchor_error option) \<Rightarrow> (string \<times> pinned_signer) list \<Rightarrow> policy_activation \<Rightarrow> go_time
    \<Rightarrow> activation_error option" where
  "checkActivationEntry g rekorAnchorVerifier pins a made = (case pa_anchor a of None \<Rightarrow> Some NoEntry
   | Some entry \<Rightarrow>
      if rc_backend entry \<noteq> ''rekor'' then Some (EntryOffLog (rc_backend entry))
      else if rc_receipt_kind entry \<noteq> PolicyActivationKind \<or> rc_receipt_hash entry \<noteq> pa_activation_hash a
        \<or> \<not> equal_fold (rc_leaf_hash entry) (PolicyActivation_LeafHash g a) then Some EntryOfAnotherRecord
      else (case rekorAnchorVerifier (receipt_anchor_input entry) of
         Some e \<Rightarrow> Some (EntryUnverified e)
       | None \<Rightarrow>
          (case entrySignerOf g (rc_entry_body entry) of
             Inl e \<Rightarrow> Some (EntrySignerInvalid e)
           | Inr signer \<Rightarrow>
              (case map_of pins signer of
                 None \<Rightarrow> Some (EntrySignerUnknown signer)
               | Some key \<Rightarrow>
                  if \<not> signerAcceptsAt key (rc_integrated_time entry) then Some EntryOutsidePeriod
                  else
                    (let gap = f64_sub (f64_of_int (rc_integrated_time entry)) (clock_unix made)
                     in if gap < - of_int anchoringClockSkewSeconds \<or> gap > f64_of_int ReceiptAnchoringWindowSeconds
                        then Some EntryOutsideWindow else None)))))"

definition checkActivation ::
  "golib \<Rightarrow> (anchor_input \<Rightarrow> anchor_error option) \<Rightarrow> (string \<times> pinned_signer) list \<Rightarrow> policy_activation \<Rightarrow> int \<Rightarrow> string
    \<Rightarrow> go_time \<Rightarrow> activation_error + go_time" where
  "checkActivation g rekorAnchorVerifier pins a sequence previous previousAt =
     (case PolicyActivation_Validate a of Some e \<Rightarrow> Inl e | None \<Rightarrow>
      if pa_sequence a \<noteq> sequence then Inl (OutOfOrder (pa_sequence a))
      else if pa_previous_activation_hash a \<noteq> previous then Inl NotLinked
      else if PolicyActivation_ComputeHash g a \<noteq> pa_activation_hash a
        then Inl (HashDiffers (PolicyActivation_ComputeHash g a) (pa_activation_hash a))
      else (case parse_rfc3339 (pa_activated_at a) of
         None \<Rightarrow> Inl (TimeUnreadable (pa_activated_at a))
       | Some made \<Rightarrow>
          if time_before made previousAt then Inl DatedBefore
          else (case checkActivationSignature g a of Some e \<Rightarrow> Inl e | None \<Rightarrow>
            (case checkActivationEntry g rekorAnchorVerifier pins a made of Some e \<Rightarrow> Inl e | None \<Rightarrow> Inr made))))"

section \<open>The chain\<close>

record history_entry =
  he_Sequence :: int
  he_ChainID :: string
  he_PolicyID :: string
  he_PolicyVersion :: string
  he_PolicyHash :: string
  he_ActivatedAt :: string
  he_ActivationHash :: string
  he_SignedBy :: string
  he_LogEntry :: string

datatype history_reason =
    HistoryNotStrict strict_error
  | HistoryUnread
  | HistoryEmpty
  | ChangeFails nat activation_error
  | RecordNamesNoChange
  | ChangeNotInHistory
  | RecordNamesNoAccount
  | NotAnAccount string
  | ChangeOfAnother int string
  | HistoryOfAnother string string
  | NoAccountDecisionSealed

record policy_history_check =
  hk_Checked :: bool
  hk_OK :: bool
  hk_Entries :: "history_entry list"
  hk_RecordInChain :: bool
  hk_Reason :: "history_reason option"

definition history_entry_of :: "policy_activation \<Rightarrow> history_entry" where
  "history_entry_of a = \<lparr>he_Sequence = pa_sequence a, he_ChainID = pa_chain_id a, he_PolicyID = pa_policy_id a,
     he_PolicyVersion = pa_policy_version a, he_PolicyHash = pa_policy_hash a, he_ActivatedAt = pa_activated_at a,
     he_ActivationHash = pa_activation_hash a,
     he_SignedBy = (case pa_signature a of None \<Rightarrow> [] | Some s \<Rightarrow> ps_public_key s),
     he_LogEntry = (case pa_anchor a of None \<Rightarrow> [] | Some e \<Rightarrow> rc_log_entry_id e)\<rparr>"

text \<open>
  The loop: the position of the change, the previous hash and time. It returns the entries
  listed so far and, when it stops, the change that failed, counted from one.
\<close>

fun check_changes ::
  "golib \<Rightarrow> (anchor_input \<Rightarrow> anchor_error option) \<Rightarrow> (string \<times> pinned_signer) list \<Rightarrow> nat \<Rightarrow> string \<Rightarrow> go_time
    \<Rightarrow> policy_activation list \<Rightarrow> history_entry list \<times> (nat \<times> activation_error) option" where
  "check_changes g rv pins i previous previousAt [] = ([], None)"
| "check_changes g rv pins i previous previousAt (a # chain) =
     (case checkActivation g rv pins a (int (Suc i)) previous previousAt of
        Inl e \<Rightarrow> ([], Some (Suc i, e))
      | Inr made \<Rightarrow>
          (let (entries, failed) = check_changes g rv pins (Suc i) (pa_activation_hash a) made chain
           in (history_entry_of a # entries, failed)))"

definition activation_signature_fields :: "(string \<times> (json \<Rightarrow> policy_activation_signature \<Rightarrow> policy_activation_signature option)) list" where
  "activation_signature_fields =
     [(''public_key'', set_string (\<lambda>x. ps_public_key_update (\<lambda>_. x))),
      (''signature'', set_string (\<lambda>x. ps_signature_update (\<lambda>_. x))),
      (''signed_at'', set_string (\<lambda>x. ps_signed_at_update (\<lambda>_. x))),
      (''nonce'', set_string (\<lambda>x. ps_nonce_update (\<lambda>_. x)))]"

definition decode_activation_signature :: "json \<Rightarrow> policy_activation_signature option" where
  "decode_activation_signature v = set_struct activation_signature_fields v
     \<lparr>ps_public_key = [], ps_signature = [], ps_signed_at = [], ps_nonce = []\<rparr>"

definition receipt_anchor_fields :: "(string \<times> (json \<Rightarrow> receipt_anchor \<Rightarrow> receipt_anchor option)) list" where
  "receipt_anchor_fields =
     [(''kind'', set_string (\<lambda>x. rc_kind_update (\<lambda>_. x))),
      (''receipt_kind'', set_string (\<lambda>x. rc_receipt_kind_update (\<lambda>_. x))),
      (''receipt_hash'', set_string (\<lambda>x. rc_receipt_hash_update (\<lambda>_. x))),
      (''backend'', set_string (\<lambda>x. rc_backend_update (\<lambda>_. x))),
      (''log_entry_id'', set_string (\<lambda>x. rc_log_entry_id_update (\<lambda>_. x))),
      (''log_id'', set_string (\<lambda>x. rc_log_id_update (\<lambda>_. x))),
      (''leaf_hash'', set_string (\<lambda>x. rc_leaf_hash_update (\<lambda>_. x))),
      (''log_index'', set_int (\<lambda>x. rc_log_index_update (\<lambda>_. x))),
      (''tree_size'', set_int (\<lambda>x. rc_tree_size_update (\<lambda>_. x))),
      (''root_hash'', set_string (\<lambda>x. rc_root_hash_update (\<lambda>_. x))),
      (''inclusion_path'', set_slice decode_string (\<lambda>x. rc_inclusion_path_update (\<lambda>_. x))),
      (''checkpoint'', set_string (\<lambda>x. rc_checkpoint_update (\<lambda>_. x))),
      (''signed_entry_timestamp'', set_string (\<lambda>x. rc_signed_entry_timestamp_update (\<lambda>_. x))),
      (''integrated_time'', set_int (\<lambda>x. rc_integrated_time_update (\<lambda>_. x))),
      (''entry_body'', set_string (\<lambda>x. rc_entry_body_update (\<lambda>_. x)))]"

definition decode_receipt_anchor :: "json \<Rightarrow> receipt_anchor option" where
  "decode_receipt_anchor v = set_struct receipt_anchor_fields v
     \<lparr>rc_kind = [], rc_receipt_kind = [], rc_receipt_hash = [], rc_backend = [], rc_log_entry_id = [], rc_log_id = [],
      rc_leaf_hash = [], rc_log_index = 0, rc_tree_size = 0, rc_root_hash = [], rc_inclusion_path = [],
      rc_checkpoint = [], rc_signed_entry_timestamp = [], rc_integrated_time = 0, rc_entry_body = []\<rparr>"

definition activation_json_fields :: "(string \<times> (json \<Rightarrow> policy_activation \<Rightarrow> policy_activation option)) list" where
  "activation_json_fields =
     [(''format'', set_string (\<lambda>x. pa_format_update (\<lambda>_. x))),
      (''chain_id'', set_string (\<lambda>x. pa_chain_id_update (\<lambda>_. x))),
      (''sequence'', set_int (\<lambda>x. pa_sequence_update (\<lambda>_. x))),
      (''previous_activation_hash'', set_string (\<lambda>x. pa_previous_activation_hash_update (\<lambda>_. x))),
      (''policy_id'', set_string (\<lambda>x. pa_policy_id_update (\<lambda>_. x))),
      (''policy_version'', set_string (\<lambda>x. pa_policy_version_update (\<lambda>_. x))),
      (''policy_hash'', set_string (\<lambda>x. pa_policy_hash_update (\<lambda>_. x))),
      (''document_hash'', set_string (\<lambda>x. pa_document_hash_update (\<lambda>_. x))),
      (''activated_at'', set_string (\<lambda>x. pa_activated_at_update (\<lambda>_. x))),
      (''signature'', set_pointer decode_activation_signature (\<lambda>x. pa_signature_update (\<lambda>_. x))),
      (''activation_hash'', set_string (\<lambda>x. pa_activation_hash_update (\<lambda>_. x))),
      (''anchor'', set_pointer decode_receipt_anchor (\<lambda>x. pa_anchor_update (\<lambda>_. x)))]"

definition decode_activation :: "json \<Rightarrow> policy_activation option" where
  "decode_activation v = set_struct activation_json_fields v
     \<lparr>pa_format = [], pa_chain_id = [], pa_sequence = 0, pa_previous_activation_hash = [], pa_policy_id = [],
      pa_policy_version = [], pa_policy_hash = [], pa_document_hash = [], pa_activated_at = [], pa_signature = None,
      pa_activation_hash = [], pa_anchor = None\<rparr>"

definition reflectActivationList :: go_type where
  "reflectActivationList = GSlice (GStruct
     ((''signature'', GStruct (map (\<lambda>(k, _). (k, GOther)) activation_signature_fields)) #
      (''anchor'', GStruct (map (\<lambda>(k, _). (k, if k = ''inclusion_path'' then GSlice GOther else GOther)) receipt_anchor_fields)) #
      map (\<lambda>(k, _). (k, GOther)) activation_json_fields))"

definition decode_history :: "bytes \<Rightarrow> policy_activation list option" where
  "decode_history data = (case json_parse data of None \<Rightarrow> None
     | Some v \<Rightarrow> set_slice decode_activation (\<lambda>l _. l) v [])"

definition history_failed :: "history_entry list \<Rightarrow> history_reason \<Rightarrow> policy_history_check" where
  "history_failed entries r = \<lparr>hk_Checked = True, hk_OK = False, hk_Entries = entries, hk_RecordInChain = False, hk_Reason = Some r\<rparr>"

definition checkPolicyHistory ::
  "golib \<Rightarrow> (anchor_input \<Rightarrow> anchor_error option) \<Rightarrow> (string \<times> pinned_signer) list \<Rightarrow> bytes \<Rightarrow> policy_history_check" where
  "checkPolicyHistory g rekorAnchorVerifier pins data =
     (case CheckStrict g reflectActivationList data of Some e \<Rightarrow> history_failed [] (HistoryNotStrict e) | None \<Rightarrow>
     (case decode_history data of None \<Rightarrow> history_failed [] HistoryUnread | Some chain \<Rightarrow>
      if chain = [] then history_failed [] HistoryEmpty
      else (case check_changes g rekorAnchorVerifier pins 0 NoPreviousActivation zero_time chain of
         (entries, Some (i, e)) \<Rightarrow> history_failed entries (ChangeFails i e)
       | (entries, None) \<Rightarrow>
          \<lparr>hk_Checked = True, hk_OK = True, hk_Entries = entries, hk_RecordInChain = False, hk_Reason = None\<rparr>)))"

definition recordInChain :: "policy_history_check \<Rightarrow> string \<Rightarrow> policy_history_check" where
  "recordInChain c activationHash =
     (if \<not> hk_OK c then c
      else if activationHash = [] then c\<lparr>hk_OK := False, hk_Reason := Some RecordNamesNoChange\<rparr>
      else if list_ex (\<lambda>e. he_ActivationHash e = activationHash) (hk_Entries c) then c\<lparr>hk_RecordInChain := True\<rparr>
      else c\<lparr>hk_OK := False, hk_Reason := Some ChangeNotInHistory\<rparr>)"

definition loadPolicyHistory ::
  "golib \<Rightarrow> (anchor_input \<Rightarrow> anchor_error option) \<Rightarrow> (string \<times> pinned_signer) list \<Rightarrow> bytes \<Rightarrow> string \<Rightarrow> policy_history_check" where
  "loadPolicyHistory g rekorAnchorVerifier pins data activationHash =
     recordInChain (checkPolicyHistory g rekorAnchorVerifier pins data) activationHash"

section \<open>The account's chain (accountgate.go)\<close>

definition checkAccountChain :: "policy_history_check \<Rightarrow> policy_history_check" where
  "checkAccountChain c =
     (if \<not> hk_OK c then c
      else case hk_Entries c of [] \<Rightarrow> c
      | first # _ \<Rightarrow>
         (let account = he_ChainID first in
          if \<not> accountIDForm account then c\<lparr>hk_OK := False, hk_Reason := Some (NotAnAccount (safePrefix account))\<rparr>
          else case find (\<lambda>e. he_ChainID e \<noteq> account) (hk_Entries c) of
            None \<Rightarrow> c
          | Some e \<Rightarrow> c\<lparr>hk_OK := False, hk_Reason := Some (ChangeOfAnother (he_Sequence e) (safePrefix (he_ChainID e)))\<rparr>))"

definition loadAccountPolicyHistory ::
  "golib \<Rightarrow> (anchor_input \<Rightarrow> anchor_error option) \<Rightarrow> (string \<times> pinned_signer) list \<Rightarrow> bytes \<Rightarrow> string
    \<Rightarrow> policy_gate_check option \<Rightarrow> policy_history_check" where
  "loadAccountPolicyHistory g rekorAnchorVerifier pins data accountID gate =
     (let c = checkPolicyHistory g rekorAnchorVerifier pins data in
      if hk_OK c \<and> accountID = [] then c\<lparr>hk_OK := False, hk_Reason := Some RecordNamesNoAccount\<rparr>
      else
        (let c = checkAccountChain c;
             c = (case hk_Entries c of
                first # _ \<Rightarrow> if hk_OK c \<and> he_ChainID first \<noteq> accountID
                  then c\<lparr>hk_OK := False, hk_Reason := Some (HistoryOfAnother (he_ChainID first) accountID)\<rparr> else c
              | [] \<Rightarrow> c);
             activation = (case gate of None \<Rightarrow> [] | Some gt \<Rightarrow> gc_ActivationHash gt)
         in if hk_OK c \<and> activation = [] then c\<lparr>hk_OK := False, hk_Reason := Some NoAccountDecisionSealed\<rparr>
            else recordInChain c activation))"

definition accountFailed :: "policy_gate_check option \<Rightarrow> policy_history_check option \<Rightarrow> bool" where
  "accountFailed gate history \<longleftrightarrow>
     (case gate of None \<Rightarrow> False | Some c \<Rightarrow> policyFailed c) \<or> (case history of None \<Rightarrow> False | Some h \<Rightarrow> \<not> hk_OK h)"

datatype account_failure = GateFailure gate_reason | HistoryFailure "history_reason option" | NoFailure

definition accountFailureReason :: "policy_gate_check option \<Rightarrow> policy_history_check option \<Rightarrow> account_failure" where
  "accountFailureReason gate history = (case gate of
     Some c \<Rightarrow> if policyFailed c then GateFailure (gc_Reason c)
       else (case history of Some h \<Rightarrow> if \<not> hk_OK h then HistoryFailure (hk_Reason h) else NoFailure | None \<Rightarrow> NoFailure)
   | None \<Rightarrow> (case history of Some h \<Rightarrow> if \<not> hk_OK h then HistoryFailure (hk_Reason h) else NoFailure | None \<Rightarrow> NoFailure))"


section \<open>An accepted chain\<close>

text \<open>
  One accepted change as a step: the state is the number of changes so far, the hash and the
  time of the last one. A passing list is a run of steps from the state before any change.
\<close>

type_synonym chain_state = "nat \<times> string \<times> go_time"

inductive change_step ::
  "golib \<Rightarrow> (anchor_input \<Rightarrow> anchor_error option) \<Rightarrow> (string \<times> pinned_signer) list \<Rightarrow> chain_state \<Rightarrow> policy_activation
    \<Rightarrow> chain_state \<Rightarrow> bool" for g rv pins where
  accept: "checkActivation g rv pins a (int (Suc i)) previous previousAt = Inr made \<Longrightarrow>
    change_step g rv pins (i, previous, previousAt) a (Suc i, pa_activation_hash a, made)"

inductive chain_run ::
  "golib \<Rightarrow> (anchor_input \<Rightarrow> anchor_error option) \<Rightarrow> (string \<times> pinned_signer) list \<Rightarrow> chain_state \<Rightarrow> policy_activation list
    \<Rightarrow> chain_state \<Rightarrow> bool" for g rv pins where
  stay: "chain_run g rv pins s [] s"
| change: "change_step g rv pins s a t \<Longrightarrow> chain_run g rv pins t as u \<Longrightarrow> chain_run g rv pins s (a # as) u"

inductive_simps chain_run_Nil: "chain_run g rv pins s [] u"
inductive_simps chain_run_Cons: "chain_run g rv pins s (a # as) u"
inductive_cases change_stepE: "change_step g rv pins s a t"

definition no_change :: chain_state where
  "no_change = (0, NoPreviousActivation, zero_time)"

lemma step_accepts:
  "checkActivation g rv pins a (int (Suc i)) previous previousAt = Inr made \<Longrightarrow>
     change_step g rv pins (i, previous, previousAt) a t \<longleftrightarrow> t = (Suc i, pa_activation_hash a, made)"
  by (auto intro: accept elim: change_stepE)

lemma check_changes_run:
  "snd (check_changes g rv pins i previous previousAt as) = None
     \<longleftrightarrow> (\<exists>u. chain_run g rv pins (i, previous, previousAt) as u)"
proof (induction as arbitrary: i previous previousAt)
  case Nil
  then show ?case by (auto simp: chain_run_Nil)
next
  case (Cons a as)
  show ?case
  proof (cases "checkActivation g rv pins a (int (Suc i)) previous previousAt")
    case (Inl e)
    then show ?thesis by (auto simp: chain_run_Cons elim: change_stepE)
  next
    case (Inr made)
    then show ?thesis
      by (simp add: chain_run_Cons step_accepts [OF Inr] Cons.IH case_prod_unfold Let_def del: of_nat_Suc)
  qed
qed

lemma check_changes_entries:
  "snd (check_changes g rv pins i previous previousAt as) = None \<Longrightarrow>
     fst (check_changes g rv pins i previous previousAt as) = map history_entry_of as"
  by (induction as arbitrary: i previous previousAt) (auto simp: case_prod_unfold Let_def split: sum.splits)

lemma history_ok:
  "hk_OK (checkPolicyHistory g rv pins data) \<longleftrightarrow> CheckStrict g reflectActivationList data = None
     \<and> (\<exists>as u. decode_history data = Some as \<and> as \<noteq> [] \<and> chain_run g rv pins no_change as u
        \<and> hk_Entries (checkPolicyHistory g rv pins data) = map history_entry_of as)"
proof (cases "CheckStrict g reflectActivationList data = None \<and> decode_history data \<noteq> None")
  case True
  then obtain as where d: "CheckStrict g reflectActivationList data = None" "decode_history data = Some as" by auto
  obtain es x where c: "check_changes g rv pins 0 NoPreviousActivation zero_time as = (es, x)" by fastforce
  then have "(x = None) = (\<exists>u. chain_run g rv pins no_change as u)" "x = None \<Longrightarrow> es = map history_entry_of as"
    using check_changes_run [of g rv pins 0 NoPreviousActivation zero_time as]
      check_changes_entries [of g rv pins 0 NoPreviousActivation zero_time as]
    by (simp_all add: no_change_def)
  with c d show ?thesis by (cases x) (auto simp: checkPolicyHistory_def history_failed_def)
qed (auto simp: checkPolicyHistory_def history_failed_def split: option.splits)

text \<open>What an accepted change has been checked for.\<close>

lemma step_facts:
  assumes "change_step g rv pins (i, previous, previousAt) a (j, h, made)"
  shows "j = Suc i" "h = pa_activation_hash a" "pa_sequence a = int (Suc i)" "pa_previous_activation_hash a = previous"
    "PolicyActivation_ComputeHash g a = pa_activation_hash a" "parse_rfc3339 (pa_activated_at a) = Some made"
    "\<not> time_before made previousAt" "checkActivationSignature g a = None" "checkActivationEntry g rv pins a made = None"
    "PolicyActivation_Validate a = None"
  using assms by (auto elim!: change_stepE simp: checkActivation_def split: option.splits if_splits)

section \<open>The order of a chain\<close>

lemma time_before_trans: "\<not> time_before t s \<Longrightarrow> \<not> time_before u t \<Longrightarrow> \<not> time_before u s"
  by (auto simp: time_before_def)

text \<open>
  The changes of a run: numbered from the state's position on, each one linked to the one
  before, with its own hash, and dated no earlier than the one before.
\<close>

fun in_order :: "golib \<Rightarrow> nat \<Rightarrow> string \<Rightarrow> go_time \<Rightarrow> policy_activation list \<Rightarrow> bool" where
  "in_order g i previous previousAt [] \<longleftrightarrow> True"
| "in_order g i previous previousAt (a # as) \<longleftrightarrow> pa_sequence a = int (Suc i) \<and> pa_previous_activation_hash a = previous
     \<and> pa_activation_hash a = PolicyActivation_ComputeHash g a
     \<and> (case parse_rfc3339 (pa_activated_at a) of None \<Rightarrow> False
        | Some made \<Rightarrow> \<not> time_before made previousAt \<and> in_order g (Suc i) (pa_activation_hash a) made as)"

lemma run_in_order:
  "chain_run g rv pins (i, previous, previousAt) as u \<Longrightarrow> in_order g i previous previousAt as
     \<and> (as \<noteq> [] \<longrightarrow> fst u = i + length as \<and> fst (snd u) = pa_activation_hash (last as))"
proof (induction "(i, previous, previousAt)" as u arbitrary: i previous previousAt rule: chain_run.induct)
  case (change a t as u)
  obtain j h made where t: "t = (j, h, made)" by (cases t)
  note f = step_facts [OF change.hyps(1) [unfolded t]]
  have "as = [] \<Longrightarrow> u = (j, h, made)" using change.hyps(2) t by (auto simp: chain_run_Nil)
  with change.hyps(3) [OF t] f show ?case by (cases "as = []") auto
qed simp

lemma in_order_nth:
  assumes "in_order g i previous previousAt as" "k < length as"
  shows "pa_sequence (as ! k) = int (i + Suc k)" "pa_activation_hash (as ! k) = PolicyActivation_ComputeHash g (as ! k)"
    "pa_previous_activation_hash (as ! k) = (if k = 0 then previous else pa_activation_hash (as ! (k - 1)))"
  using assms
proof (induction as arbitrary: i previous previousAt k)
  case (Cons a as)
  { case 1 then show ?case using Cons.IH(1) by (cases k) (fastforce split: option.splits)+ }
  { case 2 then show ?case using Cons.IH(2) by (cases k) (fastforce split: option.splits)+ }
  { case 3
    show ?case
    proof (cases k)
      case (Suc m)
      with 3 Cons.IH(3) [of "Suc i" "pa_activation_hash a" _ m] show ?thesis
        by (cases m) (auto split: option.splits)
    qed (use 3 in \<open>auto split: option.splits\<close>) }
qed simp_all


section \<open>A chain only grows\<close>

text \<open>A text of length-prefixed fields is read back in one way.\<close>

lemma prefixed_append:
  assumes "prefixed f @ r = prefixed h @ s"
  shows "f = h \<and> r = s"
proof -
  have free: "CHR '':'' \<notin> set (nat_str n)" for n
    using int_str_free [of "CHR '':''" "int n"] by (simp add: int_str_def)
  have split: "takeWhile (\<lambda>c. c \<noteq> CHR '':'') (prefixed x @ t) = nat_str (length x)"
    "dropWhile (\<lambda>c. c \<noteq> CHR '':'') (prefixed x @ t) = CHR '':'' # x @ t" for x t
    using free [of "length x"] by (auto simp: prefixed_def takeWhile_append dropWhile_append)
  have "nat_str (length f) = nat_str (length h)" using split(1) [of f r] split(1) [of h s] assms by simp
  moreover have "f @ r = h @ s" using split(2) [of f r] split(2) [of h s] assms by simp
  ultimately show ?thesis by (simp add: nat_str_inject)
qed

lemma prefixed_inject: "concat (map prefixed xs) = concat (map prefixed ys) \<Longrightarrow> xs = ys"
proof (induction xs arbitrary: ys)
  case Nil
  then show ?case by (cases ys) (auto simp: prefixed_def)
next
  case (Cons x xs)
  then obtain y zs where "ys = y # zs" by (cases ys) (auto simp: prefixed_def)
  with Cons prefixed_append [of x "concat (map prefixed xs)" y "concat (map prefixed zs)"] show ?case by simp
qed

interpretation length_prefixed: commitment "\<lambda>fs. concat (map prefixed fs)" "\<lambda>_. True" "\<lambda>_. True"
  by unfold_locales (rule prefixed_inject)

definition activation_text :: "policy_activation \<Rightarrow> bytes" where
  "activation_text a = concat (map prefixed (activation_fields a))"

text \<open>What the hash covers: everything but the anchor.\<close>

definition covered_change :: "policy_activation \<Rightarrow> policy_activation" where
  "covered_change a = a\<lparr>pa_anchor := None\<rparr>"

lemma fields_cover:
  assumes "activation_fields a = activation_fields b" "pa_activation_hash a = pa_activation_hash b"
  shows "covered_change a = covered_change b"
  using assms
  by (cases a; cases b) (auto simp: activation_fields_def covered_change_def intro: policy_activation_signature.equality split: option.splits)

lemma covered_links:
  "covered_change a = covered_change b \<Longrightarrow>
    pa_sequence a = pa_sequence b \<and> pa_previous_activation_hash a = pa_previous_activation_hash b"
  by (cases a; cases b) (simp add: covered_change_def)

lemma same_hash_same_change:
  assumes "PolicyActivation_ComputeHash g a = pa_activation_hash a" "PolicyActivation_ComputeHash g b = pa_activation_hash b"
    and "pa_activation_hash a = pa_activation_hash b"
    and "activation_text a \<in> set P" "activation_text b \<in> set Q"
  shows "covered_change a = covered_change b \<or> collides g P Q"
proof -
  have "sha256_hex g (concat (map prefixed (activation_fields a))) = sha256_hex g (concat (map prefixed (activation_fields b)))"
    using assms(1-3) unfolding PolicyActivation_ComputeHash_def by metis
  from length_prefixed.binds_in [OF TrueI TrueI this] assms(4,5) fields_cover [OF _ assms(3)]
  show ?thesis by (auto simp: activation_text_def)
qed

lemma same_hash_same_prefix:
  assumes xs: "in_order g 0 NoPreviousActivation zero_time xs" and ys: "in_order g 0 NoPreviousActivation zero_time ys"
    and "k < length xs" "m < length ys" "pa_activation_hash (xs ! k) = pa_activation_hash (ys ! m)"
  shows "(k = m \<and> (\<forall>j \<le> k. covered_change (xs ! j) = covered_change (ys ! j)))
    \<or> collides g (map activation_text xs) (map activation_text ys)"
  using assms(3-5)
proof (induction k arbitrary: m)
  case (0 m)
  have "covered_change (xs ! 0) = covered_change (ys ! m) \<or> collides g (map activation_text xs) (map activation_text ys)"
    by (rule same_hash_same_change) (use 0 in_order_nth(2) [OF xs] in_order_nth(2) [OF ys] in auto)
  then show ?case
  proof
    assume same: "covered_change (xs ! 0) = covered_change (ys ! m)"
    have "m = 0" using covered_links [OF same] in_order_nth(1) [OF xs 0(1)] in_order_nth(1) [OF ys 0(2)] by simp
    with same show ?thesis by auto
  qed simp
next
  case (Suc k m)
  have "covered_change (xs ! Suc k) = covered_change (ys ! m) \<or> collides g (map activation_text xs) (map activation_text ys)"
    by (rule same_hash_same_change) (use Suc.prems in_order_nth(2) [OF xs] in_order_nth(2) [OF ys] in auto)
  then show ?case
  proof
    assume same: "covered_change (xs ! Suc k) = covered_change (ys ! m)"
    note links = covered_links [OF same]
    have m: "m = Suc k" using links in_order_nth(1) [OF xs Suc.prems(1)] in_order_nth(1) [OF ys Suc.prems(2)] by simp
    have "pa_activation_hash (xs ! k) = pa_activation_hash (ys ! k)"
      using links in_order_nth(3) [OF xs Suc.prems(1)] in_order_nth(3) [OF ys Suc.prems(2)] m by simp
    from Suc.IH [OF _ _ this] Suc.prems m same show ?thesis by (auto simp: le_Suc_eq)
  qed simp
qed


text \<open>C27. A policy history can only grow. When two lists of changes pass the check and the last
  change of the first appears in the second, the first list is the beginning of the second: the
  same changes in the same order, with the same policies, texts, times, signatures and links.
  No change before a shared one was removed, added, reordered or altered, or two change records
  are a SHA-256 collision.\<close>

theorem history_only_grows:
  assumes "snd (check_changes g rv pins 0 NoPreviousActivation zero_time xs) = None"
    and "snd (check_changes g rv pins 0 NoPreviousActivation zero_time ys) = None"
    and "xs \<noteq> []" "pa_activation_hash (last xs) \<in> pa_activation_hash ` set ys"
  shows "map covered_change xs = take (length xs) (map covered_change ys)
    \<or> collides g (map activation_text xs) (map activation_text ys)"
proof -
  have o: "in_order g 0 NoPreviousActivation zero_time xs" "in_order g 0 NoPreviousActivation zero_time ys"
    using assms(1,2) run_in_order by (metis check_changes_run)+
  obtain m where m: "m < length ys" "pa_activation_hash (last xs) = pa_activation_hash (ys ! m)"
    using assms(4) by (auto simp: in_set_conv_nth)
  from same_hash_same_prefix [OF o, of "length xs - 1" m] m assms(3)
  have "length xs - 1 = m \<and> (\<forall>j \<le> length xs - 1. covered_change (xs ! j) = covered_change (ys ! j))
      \<or> collides g (map activation_text xs) (map activation_text ys)"
    by (simp add: last_conv_nth)
  with m(1) assms(3) show ?thesis by (auto intro!: nth_equalityI)
qed

text \<open>What is asked of every change beside its place in the chain.\<close>

definition sound_change ::
  "golib \<Rightarrow> (anchor_input \<Rightarrow> anchor_error option) \<Rightarrow> (string \<times> pinned_signer) list \<Rightarrow> policy_activation \<Rightarrow> bool" where
  "sound_change g rv pins a \<longleftrightarrow> PolicyActivation_Validate a = None \<and> checkActivationSignature g a = None
     \<and> (case parse_rfc3339 (pa_activated_at a) of None \<Rightarrow> False
        | Some made \<Rightarrow> checkActivationEntry g rv pins a made = None)"

lemma step_iff:
  "change_step g rv pins (i, previous, previousAt) a t \<longleftrightarrow>
     (\<exists>made. t = (Suc i, pa_activation_hash a, made) \<and> parse_rfc3339 (pa_activated_at a) = Some made
       \<and> pa_sequence a = int (Suc i) \<and> pa_previous_activation_hash a = previous
       \<and> PolicyActivation_ComputeHash g a = pa_activation_hash a \<and> \<not> time_before made previousAt
       \<and> sound_change g rv pins a)" (is "?step \<longleftrightarrow> ?facts")
proof
  assume ?step
  obtain j h made where t: "t = (j, h, made)" by (cases t)
  from step_facts [OF \<open>?step\<close> [unfolded t]] show ?facts by (simp add: t sound_change_def)
next
  assume ?facts
  then show ?step by (auto intro!: accept simp: checkActivation_def sound_change_def)
qed

lemma run_iff:
  "(\<exists>u. chain_run g rv pins (i, previous, previousAt) as u) \<longleftrightarrow>
     in_order g i previous previousAt as \<and> list_all (sound_change g rv pins) as"
proof (induction as arbitrary: i previous previousAt)
  case (Cons a as)
  have "(\<exists>u. chain_run g rv pins (i, previous, previousAt) (a # as) u) \<longleftrightarrow>
      (\<exists>t. change_step g rv pins (i, previous, previousAt) a t \<and> (\<exists>u. chain_run g rv pins t as u))"
    unfolding chain_run_Cons split_paired_Ex by blast
  also have "\<dots> \<longleftrightarrow> in_order g i previous previousAt (a # as) \<and> list_all (sound_change g rv pins) (a # as)"
    unfolding step_iff by (auto simp: Cons.IH sound_change_def [of g rv pins a] simp del: split_paired_Ex split: option.splits)
  finally show ?case .
qed (simp add: chain_run_Nil)

text \<open>C28. What a passing chain is, exactly: the changes are numbered from one, each links to the
  hash of the one before (the first to sixty-four zeros), has the hash of its own fields and is
  dated no earlier than the one before, and every one is well formed, has no signature or a
  valid one over its chain, text and predecessor, and has a public-log entry that binds it.\<close>

theorem chain_check_exact:
  "snd (check_changes g rv pins 0 NoPreviousActivation zero_time xs) = None \<longleftrightarrow>
     in_order g 0 NoPreviousActivation zero_time xs \<and> list_all (sound_change g rv pins) xs"
  by (simp only: check_changes_run run_iff)

section \<open>An account's history\<close>

lemma entries_nonempty: "hk_OK (checkPolicyHistory g rv pins data) \<Longrightarrow> hk_Entries (checkPolicyHistory g rv pins data) \<noteq> []"
  by (auto simp: history_ok)

lemma record_in_chain_ok:
  "hk_OK (recordInChain c h) \<longleftrightarrow> hk_OK c \<and> h \<noteq> [] \<and> h \<in> he_ActivationHash ` set (hk_Entries c)"
  by (auto simp: recordInChain_def list_ex_iff)

lemma account_chain_ok:
  "hk_Entries c = e # es \<Longrightarrow> hk_OK (checkAccountChain c) \<longleftrightarrow>
     hk_OK c \<and> accountIDForm (he_ChainID e) \<and> list_all (\<lambda>f. he_ChainID f = he_ChainID e) es"
  by (auto simp: checkAccountChain_def Let_def find_None_iff find_Some_iff list_all_iff split: option.splits)

lemma account_chain_entries [simp]: "hk_Entries (checkAccountChain c) = hk_Entries c"
  by (auto simp: checkAccountChain_def Let_def split: list.splits option.splits)

text \<open>An account's policy history passes exactly when its chain passes, every change in it
  belongs to the account the record names, that name has the form of an account, and the change
  the record's account decision was made under is in it.\<close>

lemma account_history_exact:
  "hk_OK (loadAccountPolicyHistory g rv pins data accountID gate) \<longleftrightarrow>
     hk_OK (checkPolicyHistory g rv pins data) \<and> accountIDForm accountID
     \<and> list_all (\<lambda>e. he_ChainID e = accountID) (hk_Entries (checkPolicyHistory g rv pins data))
     \<and> (\<exists>gt. gate = Some gt \<and> gc_ActivationHash gt \<noteq> []
          \<and> gc_ActivationHash gt \<in> he_ActivationHash ` set (hk_Entries (checkPolicyHistory g rv pins data)))"
proof (cases "hk_OK (checkPolicyHistory g rv pins data)")
  case True
  let ?c = "checkPolicyHistory g rv pins data"
  obtain e es where e: "hk_Entries ?c = e # es" using entries_nonempty [OF True] by (cases "hk_Entries ?c") auto
  have empty: "\<not> accountIDForm []" by (simp add: accountIDForm_def)
  show ?thesis
    using account_chain_ok [OF e] True empty
    by (cases gate) (auto simp: loadAccountPolicyHistory_def Let_def record_in_chain_ok e list_all_iff)
next
  case False
  then have "\<not> hk_OK (checkAccountChain (checkPolicyHistory g rv pins data))" by (simp add: checkAccountChain_def)
  with False show ?thesis
    by (auto simp: loadAccountPolicyHistory_def Let_def record_in_chain_ok split: list.splits)
qed


section \<open>A chain of two changes\<close>

definition sample_change :: "int \<Rightarrow> string \<Rightarrow> policy_activation" where
  "sample_change n previous =
     (let a = \<lparr>pa_format = PolicyActivationFormat, pa_chain_id = ''account-7'', pa_sequence = n,
            pa_previous_activation_hash = previous, pa_policy_id = ''p'', pa_policy_version = ''1'',
            pa_policy_hash = replicate 64 (CHR ''a''), pa_document_hash = replicate 64 (CHR ''b''),
            pa_activated_at = ''2026-11-01T12:00:00Z'', pa_signature = None, pa_activation_hash = [], pa_anchor = None\<rparr>;
          h = PolicyActivation_ComputeHash toy_lib a;
          sealed = a\<lparr>pa_activation_hash := h\<rparr>
      in sealed\<lparr>pa_anchor := Some \<lparr>rc_kind = ReceiptAnchorKindV3, rc_receipt_kind = PolicyActivationKind,
           rc_receipt_hash = h, rc_backend = ''rekor'', rc_log_entry_id = ''7'', rc_log_id = [],
           rc_leaf_hash = PolicyActivation_LeafHash toy_lib sealed, rc_log_index = 1, rc_tree_size = 2,
           rc_root_hash = [], rc_inclusion_path = [], rc_checkpoint = [], rc_signed_entry_timestamp = [],
           rc_integrated_time = 1793534460, rc_entry_body = base64_encode signed_body\<rparr>\<rparr>)"

definition sample_pins :: "(string \<times> pinned_signer) list" where
  "sample_pins = [(sha256_hex toy_lib ''pem'', sample_pin)]"

definition sample_made :: go_time where
  "sample_made = \<lparr>gt_seconds = 1793534400, gt_nanos = 0\<rparr>"

definition first_change :: policy_activation where
  "first_change = sample_change 1 NoPreviousActivation"
definition second_change :: policy_activation where
  "second_change = sample_change 2 (pa_activation_hash first_change)"

lemma sample_change_accepted:
  assumes "is_hex64 previous" "0 < n" "\<not> time_before sample_made previousAt"
  shows "checkActivation toy_lib (\<lambda>_. None) sample_pins (sample_change n previous) n previous previousAt = Inr sample_made"
proof -
  let ?a = "sample_change n previous"
  have hash: "PolicyActivation_ComputeHash toy_lib ?a = pa_activation_hash ?a"
    by (simp add: sample_change_def Let_def PolicyActivation_ComputeHash_def activation_fields_def)
  have "is_hex64 (pa_activation_hash ?a)"
    unfolding hash [symmetric] PolicyActivation_ComputeHash_def by (rule sha256_hex64 [OF toy_digest32])
  then have shape: "PolicyActivation_Validate ?a = None"
    using assms(1,2) by (simp add: PolicyActivation_Validate_def sample_change_def Let_def is_hex64_def list_all_length is_lower_hex_def)
  have window: "within_window (clock_unix sample_made) 600 1793534460"
    using within_window_exact [of sample_made 1793534460 600] by (simp add: sample_made_def)
  have gap: "\<not> (f64_sub (f64_of_int 1793534460) (clock_unix sample_made) < - of_int anchoringClockSkewSeconds
      \<or> f64_sub (f64_of_int 1793534460) (clock_unix sample_made) > f64_of_int ReceiptAnchoringWindowSeconds)"
    using window by (simp add: within_window_def Let_def ReceiptAnchoringWindowSeconds_def not_less)
  have entry: "checkActivationEntry toy_lib (\<lambda>_. None) sample_pins ?a sample_made = None"
    using gap by (simp add: checkActivationEntry_def sample_change_def Let_def PolicyActivation_LeafHash_def equal_fold_def
        windowed_signer sample_pins_def sample_pin_def signerAcceptsAt_def del: base64_encode.simps)
  have clock: "parse_rfc3339 (pa_activated_at ?a) = Some sample_made"
    using windowed_clock by (simp add: sample_change_def Let_def sample_made_def)
  have "pa_sequence ?a = n" "pa_previous_activation_hash ?a = previous" "checkActivationSignature toy_lib ?a = None"
    by (simp_all add: sample_change_def Let_def checkActivationSignature_def)
  with shape hash entry clock assms(3) show ?thesis by (simp add: checkActivation_def)
qed

lemma sample_chain_passes:
  "snd (check_changes toy_lib (\<lambda>_. None) sample_pins 0 NoPreviousActivation zero_time [first_change]) = None"
  "snd (check_changes toy_lib (\<lambda>_. None) sample_pins 0 NoPreviousActivation zero_time [first_change, second_change]) = None"
proof -
  have zeros: "is_hex64 NoPreviousActivation" by code_simp
  have after: "\<not> time_before sample_made zero_time" "\<not> time_before sample_made sample_made" by code_simp+
  have first: "checkActivation toy_lib (\<lambda>_. None) sample_pins first_change 1 NoPreviousActivation zero_time = Inr sample_made"
    unfolding first_change_def by (rule sample_change_accepted [OF zeros _ after(1)]) simp
  have "PolicyActivation_ComputeHash toy_lib first_change = pa_activation_hash first_change"
    by (simp add: first_change_def sample_change_def Let_def PolicyActivation_ComputeHash_def activation_fields_def)
  then have "is_hex64 (pa_activation_hash first_change)"
    using sha256_hex64 [OF toy_digest32] by (metis PolicyActivation_ComputeHash_def)
  then have second: "checkActivation toy_lib (\<lambda>_. None) sample_pins second_change 2 (pa_activation_hash first_change) sample_made
      = Inr sample_made"
    unfolding second_change_def by (rule sample_change_accepted [OF _ _ after(2)]) simp
  show "snd (check_changes toy_lib (\<lambda>_. None) sample_pins 0 NoPreviousActivation zero_time [first_change]) = None"
    "snd (check_changes toy_lib (\<lambda>_. None) sample_pins 0 NoPreviousActivation zero_time [first_change, second_change]) = None"
    by (simp_all add: first second)
qed

lemma history_only_grows_witness:
  "map covered_change [first_change] = take 1 (map covered_change [first_change, second_change])
     \<or> collides toy_lib [activation_text first_change] [activation_text first_change, activation_text second_change]"
  using history_only_grows [OF sample_chain_passes] by simp

end
