(* ===== verification/Receipts.thy ===== *)
theory Receipts
  imports SealedArtifacts PolicyHistory
begin

text \<open>
  receipt.go: the receipt document of a refused or halted run. The check recomputes the
  receipt's hash, applies the dates since when a receipt must seal or carry an anchor, rebuilds
  the leaf of its public-log entry from the receipt, the run and the context, and checks the
  entry, its signer and its time. The lemmas show what a verified receipt is, and that one
  public-log leaf belongs to one receipt.
\<close>

section \<open>The document\<close>

record receipt_document =
  rd_ok :: bool
  rd_run_id :: int
  rd_deny_receipt :: "deny_receipt option"
  rd_ccv_halt_receipt :: "ccv_halt_receipt option"
  rd_macc_halt_receipt :: "macc_halt_receipt option"
  rd_aivp_t4_halt_receipt :: "aivp_t4_halt_receipt option"
  rd_attestation_gap_receipt :: "attestation_gap_receipt option"
  rd_receipt_anchor :: "receipt_anchor option"
  rd_receipt_context :: "receipt_context option"

text \<open>The kind-independent view of one receipt.\<close>

record receipt_facts =
  fa_kind :: string
  fa_envelopeID :: string
  fa_clock :: string
  fa_hash :: string
  fa_hashErr :: "artifact_error option"
  fa_summary :: "(string \<times> string) list"

definition deny_facts :: "golib \<Rightarrow> deny_receipt \<Rightarrow> receipt_facts" where
  "deny_facts g r = \<lparr>fa_kind = ''deny_receipt'', fa_envelopeID = dr_envelope_id r, fa_clock = dr_deny_clock r,
     fa_hash = dr_hash r, fa_hashErr = VerifyDenyReceiptHash g r,
     fa_summary = [(''fired_rule_id'', dr_fired_rule_id r), (''decision_reason_code'', dr_decision_reason_code r),
       (''policy_hash'', dr_policy_hash r)]\<rparr>"

definition ccv_facts :: "golib \<Rightarrow> ccv_halt_receipt \<Rightarrow> receipt_facts" where
  "ccv_facts g r = \<lparr>fa_kind = ''ccv_halt_receipt'', fa_envelopeID = cv_envelope_id r, fa_clock = cv_halt_clock r,
     fa_hash = cv_hash r, fa_hashErr = VerifyCCVHaltReceiptHash g r,
     fa_summary = [(''halt_reason_code'', cv_halt_reason_code r), (''budget_hash'', cv_budget_hash r)]\<rparr>"

definition macc_facts :: "golib \<Rightarrow> macc_halt_receipt \<Rightarrow> receipt_facts" where
  "macc_facts g r = \<lparr>fa_kind = ''macc_halt_receipt'', fa_envelopeID = mc_envelope_id r, fa_clock = mc_halt_clock r,
     fa_hash = mc_hash r, fa_hashErr = VerifyMACCHaltReceiptHash g r,
     fa_summary = [(''halt_reason_code'', mc_halt_reason_code r), (''budget_hash'', mc_budget_hash r)]\<rparr>"

definition aivp_facts :: "golib \<Rightarrow> aivp_t4_halt_receipt \<Rightarrow> receipt_facts" where
  "aivp_facts g r = \<lparr>fa_kind = ''aivp_t4_halt_receipt'', fa_envelopeID = at_envelope_id r, fa_clock = at_halt_clock r,
     fa_hash = at_hash r, fa_hashErr = VerifyAivpT4HaltReceiptHash g r,
     fa_summary = [(''halt_reason_code'', at_halt_reason_code r), (''pia_hash'', at_pia_hash r),
       (''ai_output_hash'', at_ai_output_hash r)]\<rparr>"

definition gap_facts :: "golib \<Rightarrow> attestation_gap_receipt \<Rightarrow> receipt_facts" where
  "gap_facts g r = \<lparr>fa_kind = ''attestation_gap_receipt'', fa_envelopeID = gr_envelope_id r, fa_clock = gr_gap_clock r,
     fa_hash = gr_hash r, fa_hashErr = VerifyAttestationGapReceiptHash g r,
     fa_summary = [(''decision_reason_code'', gr_decision_reason_code r), (''policy_hash'', gr_policy_hash r)]\<rparr>"

text \<open>factsOf: the facts of the one receipt, or how many the document carries.\<close>

definition receipt_facts_list :: "golib \<Rightarrow> receipt_document \<Rightarrow> receipt_facts list" where
  "receipt_facts_list g d =
     (case rd_deny_receipt d of None \<Rightarrow> [] | Some r \<Rightarrow> [deny_facts g r]) @
     (case rd_ccv_halt_receipt d of None \<Rightarrow> [] | Some r \<Rightarrow> [ccv_facts g r]) @
     (case rd_macc_halt_receipt d of None \<Rightarrow> [] | Some r \<Rightarrow> [macc_facts g r]) @
     (case rd_aivp_t4_halt_receipt d of None \<Rightarrow> [] | Some r \<Rightarrow> [aivp_facts g r]) @
     (case rd_attestation_gap_receipt d of None \<Rightarrow> [] | Some r \<Rightarrow> [gap_facts g r])"

definition factsOf :: "golib \<Rightarrow> receipt_document \<Rightarrow> nat + receipt_facts" where
  "factsOf g d = (case receipt_facts_list g d of [f] \<Rightarrow> Inr f | all \<Rightarrow> Inl (length all))"

text \<open>receiptHashes: the recorded hash and the hash of the receipt's own fields.\<close>

definition receiptHashes :: "golib \<Rightarrow> receipt_document \<Rightarrow> (string \<times> string) option" where
  "receiptHashes g d =
     (case rd_deny_receipt d of Some r \<Rightarrow> Some (dr_hash r, fst (BuildDenyReceiptHash g (r\<lparr>dr_hash := []\<rparr>))) | None \<Rightarrow>
     (case rd_ccv_halt_receipt d of Some r \<Rightarrow> Some (cv_hash r, fst (BuildCCVHaltReceiptHash g (r\<lparr>cv_hash := []\<rparr>))) | None \<Rightarrow>
     (case rd_macc_halt_receipt d of Some r \<Rightarrow> Some (mc_hash r, fst (BuildMACCHaltReceiptHash g (r\<lparr>mc_hash := []\<rparr>))) | None \<Rightarrow>
     (case rd_aivp_t4_halt_receipt d of Some r \<Rightarrow> Some (at_hash r, fst (BuildAivpT4HaltReceiptHash g (r\<lparr>at_hash := []\<rparr>))) | None \<Rightarrow>
     (case rd_attestation_gap_receipt d of
        Some r \<Rightarrow> Some (gr_hash r, fst (BuildAttestationGapReceiptHash g (r\<lparr>gr_hash := []\<rparr>)))
      | None \<Rightarrow> None)))))"

definition anchorRequiredOf :: "receipt_document \<Rightarrow> bool" where
  "anchorRequiredOf d =
     (case rd_deny_receipt d of Some r \<Rightarrow> dr_anchor_required r | None \<Rightarrow>
     (case rd_ccv_halt_receipt d of Some r \<Rightarrow> cv_anchor_required r | None \<Rightarrow>
     (case rd_macc_halt_receipt d of Some r \<Rightarrow> mc_anchor_required r | None \<Rightarrow>
     (case rd_aivp_t4_halt_receipt d of Some r \<Rightarrow> at_anchor_required r | None \<Rightarrow>
     (case rd_attestation_gap_receipt d of Some r \<Rightarrow> gr_anchor_required r | None \<Rightarrow> False)))))"

section \<open>The report\<close>

datatype catch_group = CatchNothing | CatchFirstEntry | CatchCompleteEntry | CatchReceiptEntry | CatchEntrySigner
  | CatchActor | CatchAMD | CatchDecode | CatchInternal | CatchConsistency

datatype receipt_reason =
    NotOneReceipt nat
  | NotServed
  | ReceiptHashWrong artifact_error
  | ReceiptClockUnreadable string
  | AnchorFieldMissing string
  | AnchorRemoved
  | AnchorExpected string
  | NothingShowsWho
  | AnchorKindIsUnknown string
  | AnchorOfOldForm string
  | ContextMissing
  | ContextUnbound
  | AnchorOfAnotherKind string string
  | AnchorOfAnotherReceipt string string
  | ContextJob job_error
  | PolicyDecisionFails gate_reason
  | AccountIDMalformed string
  | AccountDecisionFails gate_reason
  | DecisionNotAdmitted "string \<times> string"
  | ContextSignature "request_reason option"
  | LeafFields receipt_leaf_error
  | ReceiptLeafDiffers string string
  | AnchorOffLogRequired string
  | AnchorOffLogExpected string string
  | AnchorOffLog string
  | ReceiptEntryStale int
  | ReceiptEntryUnverified anchor_error
  | ReceiptSignerInvalid entry_signer_error
  | ReceiptSignerUnknown string
  | ReceiptOutsidePeriod
  | ReceiptOutsideWindow
  | HistoryFails account_failure
  | SignerKeyFails "request_reason option"

record receipt_report =
  rr_RequestSignature :: request_check
  rr_PolicyGate :: policy_gate_check
  rr_PolicyHistory :: "policy_history_check option"
  rr_AccountID :: string
  rr_AccountPolicyGate :: "policy_gate_check option"
  rr_AccountPolicyHistory :: "policy_history_check option"
  rr_ReceiptKind :: string
  rr_RunID :: int
  rr_EnvelopeID :: string
  rr_ReceiptClock :: string
  rr_ReceiptHash :: string
  rr_HashOK :: bool
  rr_RunIDBound :: bool
  rr_AnchorRequired :: bool
  rr_Summary :: "(string \<times> string) list"
  rr_AnchorPresent :: bool
  rr_Anchored :: bool
  rr_AnchorLogEntry :: string
  rr_SignerName :: string
  rr_SignerFP :: string
  rr_AnchoredAt :: "int option"
  rr_GapSeconds :: "int option"
  rr_WindowSeconds :: int
  rr_AllPassed :: bool
  rr_VerdictTier :: string
  rr_Reason :: "receipt_reason option"
  rr_StaleEntryNumber :: bool
  rr_caught :: catch_group

definition zero_request_check :: request_check where
  "zero_request_check = \<lparr>qc_Performed = False, qc_Match = False, qc_PublicKey = [], qc_KeyPinned = False,
     qc_Reason = None, qc_BodyHash = [], qc_RequestMatched = False\<rparr>"

definition empty_report :: "receipt_document \<Rightarrow> receipt_report" where
  "empty_report d = \<lparr>rr_RequestSignature = zero_request_check, rr_PolicyGate = no_gate NoReason, rr_PolicyHistory = None,
     rr_AccountID = [], rr_AccountPolicyGate = None, rr_AccountPolicyHistory = None, rr_ReceiptKind = [],
     rr_RunID = rd_run_id d, rr_EnvelopeID = [], rr_ReceiptClock = [], rr_ReceiptHash = [], rr_HashOK = False,
     rr_RunIDBound = False, rr_AnchorRequired = False, rr_Summary = [], rr_AnchorPresent = False, rr_Anchored = False,
     rr_AnchorLogEntry = [], rr_SignerName = [], rr_SignerFP = [], rr_AnchoredAt = None, rr_GapSeconds = None,
     rr_WindowSeconds = 0, rr_AllPassed = False, rr_VerdictTier = ''FAILED'', rr_Reason = None,
     rr_StaleEntryNumber = False, rr_caught = CatchNothing\<rparr>"

text \<open>fail and failBy: the report ends here, with the check group that failed.\<close>

definition rr_fail :: "receipt_report \<Rightarrow> catch_group \<Rightarrow> receipt_reason \<Rightarrow> receipt_report" where
  "rr_fail rep grp r = rep\<lparr>rr_AllPassed := False, rr_VerdictTier := ''FAILED'', rr_Reason := Some r, rr_caught := grp\<rparr>"

text \<open>A consistent receipt that is not on the public log.\<close>

definition self_consistent :: "receipt_report \<Rightarrow> receipt_reason \<Rightarrow> receipt_report" where
  "self_consistent rep r = rep\<lparr>rr_AllPassed := True, rr_VerdictTier := ''SELF_CONSISTENT_NOT_ANCHORED'',
     rr_caught := CatchReceiptEntry, rr_Reason := Some r\<rparr>"

section \<open>The check\<close>

definition receiptAnchorRequiredSince :: string where "receiptAnchorRequiredSince = ''2026-10-16T23:48:35.104252967Z''"
definition receiptAnchorExpectedSince :: string where "receiptAnchorExpectedSince = ''2026-10-16T23:11:17.94873898Z''"

text \<open>issuedAtOrAfter: None when one of the two times does not parse.\<close>

definition issuedAtOrAfter :: "string \<Rightarrow> string \<Rightarrow> bool option" where
  "issuedAtOrAfter clock sinceText = (case parse_rfc3339 clock of None \<Rightarrow> None
   | Some t \<Rightarrow> (case parse_rfc3339 sinceText of None \<Rightarrow> None
     | Some since \<Rightarrow> Some (\<not> time_before t since)))"

definition validateContextJob :: "receipt_context \<Rightarrow> job_error option" where
  "validateContextJob c = (case rx_job c of None \<Rightarrow> None | Some j \<Rightarrow> JobLink_Validate (Some j))"

definition accountGateOfReceipt :: "receipt_context option \<Rightarrow> policy_gate_check option" where
  "accountGateOfReceipt ctx = (case ctx of None \<Rightarrow> None
   | Some c \<Rightarrow> (case rx_account_policy c of None \<Rightarrow> None
     | Some p \<Rightarrow> Some (checkAccountGate (policyBindingOf (Some p)) (rx_account_id c))))"

text \<open>
  The two cutovers: whether an anchor is expected by the receipt's date, or why the receipt
  fails. A reader who knows the receipt is self-hosted is exempt.
\<close>

definition receipt_dates :: "bool \<Rightarrow> bool \<Rightarrow> string \<Rightarrow> receipt_reason + bool" where
  "receipt_dates selfHosted required clock =
     (if selfHosted then Inr False
      else case issuedAtOrAfter clock receiptAnchorExpectedSince of
        None \<Rightarrow> Inl (ReceiptClockUnreadable (safePrefix clock))
      | Some expected \<Rightarrow>
         if required then Inr expected
         else (case issuedAtOrAfter clock receiptAnchorRequiredSince of
            None \<Rightarrow> Inl (ReceiptClockUnreadable (safePrefix clock))
          | Some afterCutover \<Rightarrow> if afterCutover then Inl (AnchorFieldMissing clock) else Inr expected))"

text \<open>Whether the anchor is one of the known kinds and names this receipt.\<close>

definition anchor_mismatch :: "bool \<Rightarrow> receipt_document \<Rightarrow> receipt_facts \<Rightarrow> receipt_anchor \<Rightarrow> receipt_reason option" where
  "anchor_mismatch required d f a =
     (let v3 = (rc_kind a = ReceiptAnchorKindV3); v2 = (rc_kind a = ReceiptAnchorKindV2 \<or> v3) in
      if rc_kind a \<noteq> ReceiptAnchorKind \<and> \<not> v2 then Some (AnchorKindIsUnknown (rc_kind a))
      else if required \<and> \<not> v2 then Some (AnchorOfOldForm (rc_kind a))
      else if v3 \<and> rd_receipt_context d = None then Some ContextMissing
      else if \<not> v3 \<and> rd_receipt_context d \<noteq> None then Some ContextUnbound
      else if rc_receipt_kind a \<noteq> fa_kind f then Some (AnchorOfAnotherKind (rc_receipt_kind a) (fa_kind f))
      else if rc_receipt_hash a \<noteq> fa_hash f then Some (AnchorOfAnotherReceipt (rc_receipt_hash a) (fa_hash f))
      else None)"

text \<open>The leaf the document gives, with the anchor's form.\<close>

definition document_leaf :: "golib \<Rightarrow> receipt_document \<Rightarrow> receipt_facts \<Rightarrow> receipt_anchor \<Rightarrow> receipt_leaf" where
  "document_leaf g d f a =
     (case rd_receipt_context d of
        Some c \<Rightarrow> if rc_kind a = ReceiptAnchorKindV3
          then LeafV3 (fa_kind f) (fa_envelopeID f) (fa_hash f) (rd_run_id d) (ReceiptContext_Hash g c)
          else if rc_kind a = ReceiptAnchorKindV2 then LeafV2 (fa_kind f) (fa_envelopeID f) (fa_hash f) (rd_run_id d)
          else LeafV1 (fa_kind f) (fa_envelopeID f) (fa_hash f)
      | None \<Rightarrow> if rc_kind a = ReceiptAnchorKindV2 then LeafV2 (fa_kind f) (fa_envelopeID f) (fa_hash f) (rd_run_id d)
          else LeafV1 (fa_kind f) (fa_envelopeID f) (fa_hash f))"

fun leaf_error :: "receipt_leaf \<Rightarrow> receipt_leaf_error option" where
  "leaf_error (LeafV1 k e h) = ValidateReceiptLeafFields k e h"
| "leaf_error (LeafV2 k e h r) = ValidateReceiptLeafFieldsV2 k e h r"
| "leaf_error (LeafV3 k e h r c) = ValidateReceiptLeafFieldsV3 k e h r c"

fun leaf_hash_of :: "golib \<Rightarrow> receipt_leaf \<Rightarrow> string" where
  "leaf_hash_of g (LeafV1 k e h) = ComputeReceiptLeafHash g k e h"
| "leaf_hash_of g (LeafV2 k e h r) = ComputeReceiptLeafHashV2 g k e h r"
| "leaf_hash_of g (LeafV3 k e h r c) = ComputeReceiptLeafHashV3 g k e h r c"

text \<open>The values a context seals, checked in the code's order; the report carries what was read.\<close>

definition check_context ::
  "golib \<Rightarrow> receipt_report \<Rightarrow> string \<Rightarrow> receipt_context \<Rightarrow> receipt_report \<times> receipt_reason option" where
  "check_context g rep kind c =
     (case validateContextJob c of Some e \<Rightarrow> (rep, Some (ContextJob e)) | None \<Rightarrow>
      (let gate = checkBuiltIn g (policyBindingOf (rx_policy c)); rep = rep\<lparr>rr_PolicyGate := gate\<rparr> in
       if policyFailed gate then (rep, Some (PolicyDecisionFails (gc_Reason gate)))
       else
         (let rep = rep\<lparr>rr_AccountID := rx_account_id c\<rparr> in
          case checkAccountID (rx_account_id c) of Some i \<Rightarrow> (rep, Some (AccountIDMalformed i)) | None \<Rightarrow>
          (let account = accountGateOfReceipt (Some c); rep = rep\<lparr>rr_AccountPolicyGate := account\<rparr> in
           if accountFailed account None
           then (rep, Some (AccountDecisionFails (case account of None \<Rightarrow> NoReason | Some x \<Rightarrow> gc_Reason x)))
           else (case admittedDecisionError kind ''policy'' gate of Some e \<Rightarrow> (rep, Some (DecisionNotAdmitted e)) | None \<Rightarrow>
            (case (case account of None \<Rightarrow> None | Some x \<Rightarrow> admittedDecisionError kind ''account policy'' x) of
               Some e \<Rightarrow> (rep, Some (DecisionNotAdmitted e))
             | None \<Rightarrow>
                (case rx_request_signature c of None \<Rightarrow> (rep, None)
                 | Some sig \<Rightarrow>
                    (let q1 = checkRequestSignature g sig (rx_request c) (rx_job c); rep = rep\<lparr>rr_RequestSignature := q1\<rparr> in
                     if \<not> qc_Match q1 then (rep, Some (ContextSignature (qc_Reason q1))) else (rep, None)))))))))"

text \<open>The public-log entry, its signer and its time; the gap is whole seconds, rounded toward zero.\<close>

definition check_receipt_entry ::
  "golib \<Rightarrow> (anchor_input \<Rightarrow> anchor_error option) \<Rightarrow> (string \<times> pinned_signer) list \<Rightarrow> receipt_facts \<Rightarrow> receipt_anchor
    \<Rightarrow> receipt_report \<Rightarrow> receipt_report" where
  "check_receipt_entry g rekorAnchorVerifier pins f a rep =
     (case rekorAnchorVerifier (receipt_anchor_input a) of
        Some e \<Rightarrow> (case staleIndexReason e (rc_log_entry_id a) (rc_log_index a) of
            Some n \<Rightarrow> rr_fail (rep\<lparr>rr_StaleEntryNumber := True\<rparr>) CatchReceiptEntry (ReceiptEntryStale n)
          | None \<Rightarrow> rr_fail rep CatchReceiptEntry (ReceiptEntryUnverified e))
      | None \<Rightarrow>
        (case entrySignerOf g (rc_entry_body a) of
           Inl e \<Rightarrow> rr_fail rep CatchEntrySigner (ReceiptSignerInvalid e)
         | Inr signer \<Rightarrow>
            (let rep = rep\<lparr>rr_SignerFP := signer\<rparr> in
             case map_of pins signer of
               None \<Rightarrow> rr_fail rep CatchEntrySigner (ReceiptSignerUnknown signer)
             | Some key \<Rightarrow>
                (let rep = rep\<lparr>rr_SignerName := ps_Name key, rr_AnchoredAt := Some (rc_integrated_time a)\<rparr> in
                 if \<not> signerAcceptsAt key (rc_integrated_time a) then rr_fail rep CatchEntrySigner ReceiptOutsidePeriod
                 else (case parse_rfc3339 (fa_clock f) of
                    None \<Rightarrow> rr_fail rep CatchConsistency (ReceiptClockUnreadable (safePrefix (fa_clock f)))
                  | Some clock \<Rightarrow>
                     (let gap = f64_to_int (f64_sub (f64_of_int (rc_integrated_time a)) (clock_unix clock));
                          rep = rep\<lparr>rr_GapSeconds := Some gap, rr_WindowSeconds := ReceiptAnchoringWindowSeconds\<rparr>
                      in if f64_of_int gap < - of_int anchoringClockSkewSeconds \<or> gap > ReceiptAnchoringWindowSeconds
                         then rr_fail rep CatchEntrySigner ReceiptOutsideWindow
                         else rep\<lparr>rr_Anchored := True, rr_AllPassed := True, rr_VerdictTier := ''VERIFIED_ANCHORED'',
                                rr_RunIDBound := (rc_kind a = ReceiptAnchorKindV2 \<or> rc_kind a = ReceiptAnchorKindV3)\<rparr>))))))"

definition check_receipt_anchor ::
  "golib \<Rightarrow> (anchor_input \<Rightarrow> anchor_error option) \<Rightarrow> (string \<times> pinned_signer) list \<Rightarrow> receipt_document \<Rightarrow> bool \<Rightarrow> bool
    \<Rightarrow> receipt_facts \<Rightarrow> receipt_anchor \<Rightarrow> receipt_report \<Rightarrow> receipt_report" where
  "check_receipt_anchor g rekorAnchorVerifier pins d required anchorExpected f a rep =
     (let rep = rep\<lparr>rr_AnchorPresent := True, rr_AnchorLogEntry := rc_log_entry_id a\<rparr> in
      case anchor_mismatch required d f a of Some e \<Rightarrow> rr_fail rep CatchReceiptEntry e | None \<Rightarrow>
      (case (case rd_receipt_context d of
               Some c \<Rightarrow> if rc_kind a = ReceiptAnchorKindV3 then check_context g rep (fa_kind f) c else (rep, None)
             | None \<Rightarrow> (rep, None)) of
         (rep, Some e) \<Rightarrow> rr_fail rep CatchReceiptEntry e
       | (rep, None) \<Rightarrow>
          (let leaf = document_leaf g d f a; want = leaf_hash_of g leaf in
           case leaf_error leaf of Some e \<Rightarrow> rr_fail rep CatchReceiptEntry (LeafFields e) | None \<Rightarrow>
           if \<not> equal_fold (rc_leaf_hash a) want
           then rr_fail rep CatchReceiptEntry (ReceiptLeafDiffers want (rc_leaf_hash a))
           else if rc_backend a \<noteq> ''rekor'' then
             (if required then rr_fail rep CatchReceiptEntry (AnchorOffLogRequired (rc_backend a))
              else if anchorExpected then rr_fail rep CatchReceiptEntry (AnchorOffLogExpected (fa_clock f) (rc_backend a))
              else self_consistent rep (AnchorOffLog (rc_backend a)))
           else check_receipt_entry g rekorAnchorVerifier pins f a rep)))"

definition verifyReceiptDocumentWith ::
  "golib \<Rightarrow> (anchor_input \<Rightarrow> anchor_error option) \<Rightarrow> (string \<times> pinned_signer) list \<Rightarrow> bool \<Rightarrow> receipt_document
    \<Rightarrow> receipt_report" where
  "verifyReceiptDocumentWith g rekorAnchorVerifier pins selfHosted d =
     (let rep = empty_report d in
      case factsOf g d of Inl n \<Rightarrow> rr_fail rep CatchDecode (NotOneReceipt n)
      | Inr f \<Rightarrow>
         (let rep = rep\<lparr>rr_ReceiptKind := fa_kind f, rr_EnvelopeID := fa_envelopeID f, rr_ReceiptClock := fa_clock f,
                rr_ReceiptHash := fa_hash f, rr_Summary := fa_summary f\<rparr> in
          if \<not> rd_ok d then rr_fail rep CatchDecode NotServed
          else (case fa_hashErr f of Some e \<Rightarrow> rr_fail rep CatchInternal (ReceiptHashWrong e) | None \<Rightarrow>
            (let required = anchorRequiredOf d; rep = rep\<lparr>rr_HashOK := True, rr_AnchorRequired := required\<rparr> in
             case receipt_dates selfHosted required (fa_clock f) of
               Inl e \<Rightarrow> rr_fail rep CatchConsistency e
             | Inr anchorExpected \<Rightarrow>
                (case rd_receipt_anchor d of
                   None \<Rightarrow>
                     if required then rr_fail rep CatchReceiptEntry AnchorRemoved
                     else if anchorExpected then rr_fail rep CatchReceiptEntry (AnchorExpected (fa_clock f))
                     else self_consistent rep NothingShowsWho
                 | Some a \<Rightarrow> check_receipt_anchor g rekorAnchorVerifier pins d required anchorExpected f a rep)))))"

definition verifyReceiptDocument ::
  "golib \<Rightarrow> (anchor_input \<Rightarrow> anchor_error option) \<Rightarrow> (string \<times> pinned_signer) list \<Rightarrow> receipt_document \<Rightarrow> receipt_report" where
  "verifyReceiptDocument g rekorAnchorVerifier pins d = verifyReceiptDocumentWith g rekorAnchorVerifier pins False d"

definition receiptExitShouldFail :: "receipt_report \<Rightarrow> bool \<Rightarrow> bool" where
  "receiptExitShouldFail r allowUnanchored =
     (if rr_VerdictTier r = ''VERIFIED_ANCHORED'' then False
      else if rr_VerdictTier r = ''SELF_CONSISTENT_NOT_ANCHORED'' then \<not> allowUnanchored
      else True)"

text \<open>receiptEntryBinds: the tamper test's question whether the entry still binds the receipt.\<close>

definition receiptEntryBinds :: "golib \<Rightarrow> (anchor_input \<Rightarrow> anchor_error option) \<Rightarrow> receipt_document \<Rightarrow> bool" where
  "receiptEntryBinds g rekorAnchorVerifier d = (case rd_receipt_anchor d of None \<Rightarrow> False
   | Some a \<Rightarrow>
      if rc_backend a \<noteq> ''rekor'' then False
      else (case factsOf g d of Inl _ \<Rightarrow> False
       | Inr f \<Rightarrow>
          if rc_kind a = ReceiptAnchorKindV3 \<and> rd_receipt_context d = None then False
          else if rc_receipt_kind a \<noteq> fa_kind f \<or> rc_receipt_hash a \<noteq> fa_hash f
            \<or> \<not> equal_fold (rc_leaf_hash a) (leaf_hash_of g (document_leaf g d f a)) then False
          else rekorAnchorVerifier (receipt_anchor_input a) = None))"

section \<open>Flags on a receipt\<close>

definition applyReceiptPolicyDocument :: "golib \<Rightarrow> receipt_report \<Rightarrow> bytes \<Rightarrow> receipt_report" where
  "applyReceiptPolicyDocument g r doc =
     (let gate = checkPolicyDocument g (rr_PolicyGate r) doc; r = r\<lparr>rr_PolicyGate := gate\<rparr> in
      if policyFailed gate
      then r\<lparr>rr_VerdictTier := ''FAILED'', rr_AllPassed := False, rr_Reason := Some (PolicyDecisionFails (gc_Reason gate))\<rparr>
      else r)"

definition applyReceiptSignerKey :: "receipt_report \<Rightarrow> string \<Rightarrow> receipt_report" where
  "applyReceiptSignerKey r want =
     (let (c, passed) = applySignerKey (rr_RequestSignature r) True want; r = r\<lparr>rr_RequestSignature := c\<rparr> in
      if \<not> passed
      then r\<lparr>rr_AllPassed := False, rr_VerdictTier := ''FAILED'', rr_Reason := Some (SignerKeyFails (qc_Reason c))\<rparr>
      else r)"

text \<open>The account flags: the text of the account's policy and the account's history, when given.\<close>

definition applyReceiptAccountFlags ::
  "golib \<Rightarrow> (anchor_input \<Rightarrow> anchor_error option) \<Rightarrow> (string \<times> pinned_signer) list \<Rightarrow> receipt_report \<Rightarrow> bytes option
    \<Rightarrow> bytes option \<Rightarrow> receipt_report" where
  "applyReceiptAccountFlags g rekorAnchorVerifier pins r policy history =
     (let r = (case policy of None \<Rightarrow> r
            | Some doc \<Rightarrow> r\<lparr>rr_AccountPolicyGate := applyAccountPolicyDocument g (rr_AccountPolicyGate r) doc\<rparr>);
          r = (case history of None \<Rightarrow> r
            | Some data \<Rightarrow> r\<lparr>rr_AccountPolicyHistory :=
                Some (loadAccountPolicyHistory g rekorAnchorVerifier pins data (rr_AccountID r) (rr_AccountPolicyGate r))\<rparr>)
      in if accountFailed (rr_AccountPolicyGate r) (rr_AccountPolicyHistory r)
         then r\<lparr>rr_VerdictTier := ''FAILED'', rr_AllPassed := False,
                rr_Reason := Some (HistoryFails (accountFailureReason (rr_AccountPolicyGate r) (rr_AccountPolicyHistory r)))\<rparr>
         else r)"


section \<open>The one receipt\<close>

text \<open>The receipt of a document as one value, with what each kind contributes.\<close>

datatype sealed_receipt = SealedDeny deny_receipt | SealedCcv ccv_halt_receipt | SealedMacc macc_halt_receipt
  | SealedAivp aivp_t4_halt_receipt | SealedGap attestation_gap_receipt

fun sealed_facts :: "golib \<Rightarrow> sealed_receipt \<Rightarrow> receipt_facts" where
  "sealed_facts g (SealedDeny r) = deny_facts g r"
| "sealed_facts g (SealedCcv r) = ccv_facts g r"
| "sealed_facts g (SealedMacc r) = macc_facts g r"
| "sealed_facts g (SealedAivp r) = aivp_facts g r"
| "sealed_facts g (SealedGap r) = gap_facts g r"

fun sealed_json :: "sealed_receipt \<Rightarrow> json" where
  "sealed_json (SealedDeny r) = deny_receipt_preimage r"
| "sealed_json (SealedCcv r) = ccv_halt_receipt_preimage r"
| "sealed_json (SealedMacc r) = macc_halt_receipt_preimage r"
| "sealed_json (SealedAivp r) = aivp_t4_halt_receipt_preimage r"
| "sealed_json (SealedGap r) = attestation_gap_receipt_preimage r"

text \<open>A receipt up to the order of an attestation gap's two lists, which the hash sorts.\<close>

fun sorted_lists :: "sealed_receipt \<Rightarrow> sealed_receipt" where
  "sorted_lists (SealedGap r) = SealedGap (r\<lparr>gr_missing_fields := sorted_copy (gr_missing_fields r),
     gr_required_fields := sorted_copy (gr_required_fields r)\<rparr>)"
| "sorted_lists r = r"

definition document_receipts :: "receipt_document \<Rightarrow> sealed_receipt list" where
  "document_receipts d =
     (case rd_deny_receipt d of None \<Rightarrow> [] | Some r \<Rightarrow> [SealedDeny r]) @
     (case rd_ccv_halt_receipt d of None \<Rightarrow> [] | Some r \<Rightarrow> [SealedCcv r]) @
     (case rd_macc_halt_receipt d of None \<Rightarrow> [] | Some r \<Rightarrow> [SealedMacc r]) @
     (case rd_aivp_t4_halt_receipt d of None \<Rightarrow> [] | Some r \<Rightarrow> [SealedAivp r]) @
     (case rd_attestation_gap_receipt d of None \<Rightarrow> [] | Some r \<Rightarrow> [SealedGap r])"

lemma facts_of_receipts: "receipt_facts_list g d = map (sealed_facts g) (document_receipts d)"
  by (simp add: receipt_facts_list_def document_receipts_def option.case_distrib [of "map (sealed_facts g)"] cong: option.case_cong)

lemma factsOf_iff: "factsOf g d = Inr f \<longleftrightarrow> (\<exists>r. document_receipts d = [r] \<and> f = sealed_facts g r)"
  by (auto simp: factsOf_def facts_of_receipts split: list.splits)

lemma document_receipts_inject:
  "document_receipts d = document_receipts e \<Longrightarrow>
     rd_deny_receipt d = rd_deny_receipt e \<and> rd_ccv_halt_receipt d = rd_ccv_halt_receipt e
     \<and> rd_macc_halt_receipt d = rd_macc_halt_receipt e \<and> rd_aivp_t4_halt_receipt d = rd_aivp_t4_halt_receipt e
     \<and> rd_attestation_gap_receipt d = rd_attestation_gap_receipt e"
  by (auto simp: document_receipts_def split: option.splits)

text \<open>Two receipts of one kind and hash are the same receipt, or their texts collide.\<close>

lemma sealed_receipts_bind:
  assumes "fa_kind (sealed_facts g r) = fa_kind (sealed_facts g s)" "fa_hash (sealed_facts g r) = fa_hash (sealed_facts g s)"
    and "fa_hashErr (sealed_facts g r) = None" "fa_hashErr (sealed_facts g s) = None"
    and "wf_json (sealed_json r)" "wf_json (sealed_json s)"
  shows "sorted_lists r = sorted_lists s \<or> collides g [json_write (sealed_json r)] [json_write (sealed_json s)]"
proof (cases r; cases s)
  fix x y assume "r = SealedDeny x" "s = SealedDeny y"
  with deny.seal_binds [of g x y] assms show ?thesis by (cases x; cases y) (simp add: deny_facts_def)
next
  fix x y assume "r = SealedCcv x" "s = SealedCcv y"
  with ccv_halt.seal_binds [of g x y] assms show ?thesis by (cases x; cases y) (simp add: ccv_facts_def)
next
  fix x y assume "r = SealedMacc x" "s = SealedMacc y"
  with macc_halt.seal_binds [of g x y] assms show ?thesis by (cases x; cases y) (simp add: macc_facts_def)
next
  fix x y assume "r = SealedAivp x" "s = SealedAivp y"
  with aivp_halt.seal_binds [of g x y] assms show ?thesis by (cases x; cases y) (simp add: aivp_facts_def)
next
  fix x y assume "r = SealedGap x" "s = SealedGap y"
  with gap.seal_binds [of g x y] assms show ?thesis by (cases x; cases y) (simp add: gap_facts_def)
qed (use assms(1) in \<open>simp_all add: deny_facts_def ccv_facts_def macc_facts_def aivp_facts_def gap_facts_def\<close>)

section \<open>A verified receipt\<close>

lemma rr_fail_tier [simp]: "rr_VerdictTier (rr_fail rep c r) = ''FAILED''" "rr_AllPassed (rr_fail rep c r) = False"
  by (simp_all add: rr_fail_def)

lemma self_consistent_tier [simp]:
  "rr_VerdictTier (self_consistent rep r) = ''SELF_CONSISTENT_NOT_ANCHORED''" "rr_AllPassed (self_consistent rep r)"
  by (simp_all add: self_consistent_def)

lemma leaf_error_ok: "leaf_error l = None \<longleftrightarrow> receipt_leaf_ok l"
  by (cases l) simp_all

lemma leaf_hash_text: "leaf_hash_of g l = sha256_hex g (receipt_leaf_text l)"
  by (cases l) (simp_all add: ComputeReceiptLeafHash_def ComputeReceiptLeafHashV2_def ComputeReceiptLeafHashV3_def)

definition receipt_on_log ::
  "golib \<Rightarrow> (anchor_input \<Rightarrow> anchor_error option) \<Rightarrow> (string \<times> pinned_signer) list \<Rightarrow> string \<Rightarrow> receipt_anchor \<Rightarrow> bool" where
  "receipt_on_log g rv pins clock a \<longleftrightarrow> rv (receipt_anchor_input a) = None
     \<and> (\<exists>signer key t. entrySignerOf g (rc_entry_body a) = Inr signer \<and> map_of pins signer = Some key
        \<and> signerAcceptsAt key (rc_integrated_time a) \<and> parse_rfc3339 clock = Some t
        \<and> (let gap = f64_to_int (f64_sub (f64_of_int (rc_integrated_time a)) (clock_unix t))
           in - of_int anchoringClockSkewSeconds \<le> f64_of_int gap \<and> gap \<le> ReceiptAnchoringWindowSeconds))"

lemma check_receipt_entry_tier:
  "rr_VerdictTier (check_receipt_entry g rv pins f a rep) =
     (if receipt_on_log g rv pins (fa_clock f) a then ''VERIFIED_ANCHORED'' else ''FAILED'')"
  by (auto simp: check_receipt_entry_def receipt_on_log_def Let_def not_less split: option.splits sum.splits if_splits)

text \<open>What the context must be when the anchor binds one.\<close>

definition context_checked :: "golib \<Rightarrow> receipt_document \<Rightarrow> receipt_facts \<Rightarrow> receipt_anchor \<Rightarrow> receipt_report \<Rightarrow> bool" where
  "context_checked g d f a rep \<longleftrightarrow> (case rd_receipt_context d of None \<Rightarrow> True
     | Some c \<Rightarrow> rc_kind a \<noteq> ReceiptAnchorKindV3 \<or> snd (check_context g rep (fa_kind f) c) = None)"

definition anchor_binds :: "golib \<Rightarrow> receipt_document \<Rightarrow> receipt_facts \<Rightarrow> receipt_anchor \<Rightarrow> bool" where
  "anchor_binds g d f a \<longleftrightarrow> receipt_leaf_ok (document_leaf g d f a)
     \<and> to_lower (rc_leaf_hash a) = sha256_hex g (receipt_leaf_text (document_leaf g d f a))"

lemma check_receipt_anchor_tier:
  "rr_VerdictTier (check_receipt_anchor g rv pins d required expected f a rep) =
     (if anchor_mismatch required d f a = None
        \<and> context_checked g d f a (rep\<lparr>rr_AnchorPresent := True, rr_AnchorLogEntry := rc_log_entry_id a\<rparr>)
        \<and> anchor_binds g d f a
      then if rc_backend a = ''rekor''
        then if receipt_on_log g rv pins (fa_clock f) a then ''VERIFIED_ANCHORED'' else ''FAILED''
        else if required \<or> expected then ''FAILED'' else ''SELF_CONSISTENT_NOT_ANCHORED''
      else ''FAILED'')"
proof (cases "anchor_mismatch required d f a")
  case None
  let ?rep = "rep\<lparr>rr_AnchorPresent := True, rr_AnchorLogEntry := rc_log_entry_id a\<rparr>"
  let ?ctx = "case rd_receipt_context d of
      Some c \<Rightarrow> if rc_kind a = ReceiptAnchorKindV3 then check_context g ?rep (fa_kind f) c else (?rep, None)
    | None \<Rightarrow> (?rep, None)"
  obtain rep' x where ctx: "?ctx = (rep', x)" by fastforce
  then have checked: "context_checked g d f a ?rep \<longleftrightarrow> x = None"
    by (auto simp: context_checked_def split: option.splits if_splits)
  have binds: "anchor_binds g d f a \<longleftrightarrow> leaf_error (document_leaf g d f a) = None
      \<and> equal_fold (rc_leaf_hash a) (leaf_hash_of g (document_leaf g d f a))"
    by (simp add: anchor_binds_def leaf_error_ok leaf_hash_text equal_fold_def)
  show ?thesis
    unfolding check_receipt_anchor_def Let_def None ctx checked binds
    by (cases x; cases "leaf_error (document_leaf g d f a)") (simp_all add: check_receipt_entry_tier)
next
  case (Some e)
  then show ?thesis by (simp add: check_receipt_anchor_def Let_def)
qed


definition sound_context :: "golib \<Rightarrow> string \<Rightarrow> receipt_context \<Rightarrow> bool" where
  "sound_context g kind c \<longleftrightarrow> validateContextJob c = None
     \<and> \<not> policyFailed (checkBuiltIn g (policyBindingOf (rx_policy c)))
     \<and> checkAccountID (rx_account_id c) = None
     \<and> \<not> accountFailed (accountGateOfReceipt (Some c)) None
     \<and> admittedDecisionError kind ''policy'' (checkBuiltIn g (policyBindingOf (rx_policy c))) = None
     \<and> (case accountGateOfReceipt (Some c) of None \<Rightarrow> True | Some x \<Rightarrow> admittedDecisionError kind ''account policy'' x = None)
     \<and> (case rx_request_signature c of None \<Rightarrow> True
        | Some sig \<Rightarrow> qc_Match (checkRequestSignature g sig (rx_request c) (rx_job c)))"

lemma check_context_ok: "snd (check_context g rep kind c) = None \<longleftrightarrow> sound_context g kind c"
proof -
  define gate where "gate = checkBuiltIn g (policyBindingOf (rx_policy c))"
  define account where "account = accountGateOfReceipt (Some c)"
  show ?thesis
    unfolding check_context_def sound_context_def Let_def gate_def [symmetric] account_def [symmetric]
    by (cases "validateContextJob c"; cases "checkAccountID (rx_account_id c)"; cases account;
        cases "admittedDecisionError kind ''policy'' gate"; cases "rx_request_signature c")
      (simp_all split: option.split)
qed

lemma context_checked_iff:
  "context_checked g d f a rep \<longleftrightarrow> (case rd_receipt_context d of None \<Rightarrow> True
     | Some c \<Rightarrow> rc_kind a \<noteq> ReceiptAnchorKindV3 \<or> sound_context g (fa_kind f) c)"
  by (simp add: context_checked_def check_context_ok cong: option.case_cong)

text \<open>The three verdicts as conditions on the document.\<close>

definition receipt_anchored ::
  "golib \<Rightarrow> (anchor_input \<Rightarrow> anchor_error option) \<Rightarrow> (string \<times> pinned_signer) list \<Rightarrow> receipt_document \<Rightarrow> receipt_facts
    \<Rightarrow> receipt_anchor \<Rightarrow> bool" where
  "receipt_anchored g rv pins d f a \<longleftrightarrow> anchor_mismatch (anchorRequiredOf d) d f a = None
     \<and> (case rd_receipt_context d of None \<Rightarrow> True | Some c \<Rightarrow> sound_context g (fa_kind f) c)
     \<and> anchor_binds g d f a \<and> (rc_backend a = ''rekor'' \<longrightarrow> receipt_on_log g rv pins (fa_clock f) a)"

lemma mismatch_context:
  "anchor_mismatch required d f a = None \<Longrightarrow> rd_receipt_context d \<noteq> None \<longleftrightarrow> rc_kind a = ReceiptAnchorKindV3"
  by (auto simp: anchor_mismatch_def Let_def split: if_splits)

lemma receipt_tier:
  "rr_VerdictTier (verifyReceiptDocumentWith g rv pins selfHosted d) =
     (case factsOf g d of Inl _ \<Rightarrow> ''FAILED''
      | Inr f \<Rightarrow> if \<not> rd_ok d \<or> fa_hashErr f \<noteq> None then ''FAILED''
        else (case receipt_dates selfHosted (anchorRequiredOf d) (fa_clock f) of Inl _ \<Rightarrow> ''FAILED''
        | Inr expected \<Rightarrow> (case rd_receipt_anchor d of
             None \<Rightarrow> if anchorRequiredOf d \<or> expected then ''FAILED'' else ''SELF_CONSISTENT_NOT_ANCHORED''
           | Some a \<Rightarrow> if \<not> receipt_anchored g rv pins d f a then ''FAILED''
               else if rc_backend a = ''rekor'' then ''VERIFIED_ANCHORED''
               else if anchorRequiredOf d \<or> expected then ''FAILED'' else ''SELF_CONSISTENT_NOT_ANCHORED'')))"
proof (cases "factsOf g d")
  case (Inr f)
  have anchor: "rr_VerdictTier (check_receipt_anchor g rv pins d (anchorRequiredOf d) expected f a rep) =
      (if \<not> receipt_anchored g rv pins d f a then ''FAILED''
       else if rc_backend a = ''rekor'' then ''VERIFIED_ANCHORED''
       else if anchorRequiredOf d \<or> expected then ''FAILED'' else ''SELF_CONSISTENT_NOT_ANCHORED'')" for a expected rep
  proof (cases "anchor_mismatch (anchorRequiredOf d) d f a")
    case None
    have "context_checked g d f a r \<longleftrightarrow> (case rd_receipt_context d of None \<Rightarrow> True | Some c \<Rightarrow> sound_context g (fa_kind f) c)" for r
      using mismatch_context [OF None] by (cases "rd_receipt_context d") (simp_all add: context_checked_iff)
    with None show ?thesis by (auto simp: check_receipt_anchor_tier receipt_anchored_def)
  qed (simp add: check_receipt_anchor_tier receipt_anchored_def)
  show ?thesis
    unfolding verifyReceiptDocumentWith_def Let_def Inr
    by (cases "fa_hashErr f"; cases "receipt_dates selfHosted (anchorRequiredOf d) (fa_clock f)"; cases "rd_receipt_anchor d")
      (simp_all add: anchor)
qed (simp add: verifyReceiptDocumentWith_def Let_def)

lemma receipt_verified:
  "rr_VerdictTier (verifyReceiptDocumentWith g rv pins selfHosted d) = ''VERIFIED_ANCHORED'' \<longleftrightarrow>
     (\<exists>r a expected. document_receipts d = [r] \<and> rd_ok d \<and> fa_hashErr (sealed_facts g r) = None
        \<and> receipt_dates selfHosted (anchorRequiredOf d) (fa_clock (sealed_facts g r)) = Inr expected
        \<and> rd_receipt_anchor d = Some a \<and> rc_backend a = ''rekor'' \<and> receipt_anchored g rv pins d (sealed_facts g r) a)"
proof (cases "factsOf g d")
  case (Inl n)
  then have "document_receipts d \<noteq> [r]" for r by (auto simp: factsOf_def facts_of_receipts)
  with Inl show ?thesis by (simp add: receipt_tier)
next
  case (Inr f)
  then obtain r where r: "document_receipts d = [r]" "f = sealed_facts g r" by (auto simp: factsOf_iff)
  show ?thesis
    unfolding receipt_tier Inr sum.case r(2)
    by (cases "receipt_dates selfHosted (anchorRequiredOf d) (fa_clock (sealed_facts g r))"; cases "rd_receipt_anchor d")
      (auto simp: r(1))
qed


section \<open>One leaf, one receipt\<close>

definition document_leaf_text :: "golib \<Rightarrow> receipt_document \<Rightarrow> bytes list" where
  "document_leaf_text g d = (case (document_receipts d, rd_receipt_anchor d) of
     ([r], Some a) \<Rightarrow> [receipt_leaf_text (document_leaf g d (sealed_facts g r) a)] | _ \<Rightarrow> [])"

definition receipt_preimages :: "golib \<Rightarrow> receipt_document \<Rightarrow> bytes list" where
  "receipt_preimages g d = document_leaf_text g d @ map (\<lambda>r. json_write (sealed_json r)) (document_receipts d)
     @ (case rd_receipt_context d of None \<Rightarrow> [] | Some c \<Rightarrow> context_preimages g c)"

text \<open>What strict reading leaves of a document: valid UTF-8 and no zero byte in any text.\<close>

definition clean_document :: "golib \<Rightarrow> receipt_document \<Rightarrow> bool" where
  "clean_document g d \<longleftrightarrow> list_all (\<lambda>r. wf_json (sealed_json r)) (document_receipts d)
     \<and> pred_option (clean_context g) (rd_receipt_context d)"

definition same_receipt :: "receipt_document \<Rightarrow> receipt_document \<Rightarrow> bool" where
  "same_receipt d e \<longleftrightarrow> map sorted_lists (document_receipts d) = map sorted_lists (document_receipts e)
     \<and> rel_option same_context (rd_receipt_context d) (rd_receipt_context e)"

lemma document_leaf_facts:
  assumes "document_leaf g d f a = document_leaf g e h b"
  shows "fa_kind f = fa_kind h" "fa_hash f = fa_hash h"
  using assms by (auto simp: document_leaf_def split: option.splits if_splits)

lemma document_leaf_context:
  assumes "document_leaf g d f a = document_leaf g e h b"
    and "rd_receipt_context d \<noteq> None \<longleftrightarrow> rc_kind a = ReceiptAnchorKindV3"
    and "rd_receipt_context e \<noteq> None \<longleftrightarrow> rc_kind b = ReceiptAnchorKindV3"
  shows "rel_option (\<lambda>c k. ReceiptContext_Hash g c = ReceiptContext_Hash g k) (rd_receipt_context d) (rd_receipt_context e)"
    and "rc_kind a = ReceiptAnchorKindV2 \<or> rc_kind a = ReceiptAnchorKindV3 \<Longrightarrow> rd_run_id d = rd_run_id e"
  using assms by (auto simp: document_leaf_def ReceiptAnchorKindV2_def ReceiptAnchorKindV3_def split: option.splits if_splits)

lemma verified_receipts_same:
  assumes g: "digest32 g" and clean: "clean_document g d" "clean_document g e"
    and d: "document_receipts d = [r]" "fa_hashErr (sealed_facts g r) = None" "rd_receipt_anchor d = Some a"
      "receipt_anchored g rv pins d (sealed_facts g r) a"
    and e: "document_receipts e = [s]" "fa_hashErr (sealed_facts g s) = None" "rd_receipt_anchor e = Some b"
      "receipt_anchored g rv' pins' e (sealed_facts g s) b"
    and leaf: "to_lower (rc_leaf_hash a) = to_lower (rc_leaf_hash b)"
  shows "(same_receipt d e
      \<and> (rc_kind a = ReceiptAnchorKindV2 \<or> rc_kind a = ReceiptAnchorKindV3 \<longrightarrow> rd_run_id d = rd_run_id e))
    \<or> collides g (receipt_preimages g d) (receipt_preimages g e)"
proof (cases "collides g (receipt_preimages g d) (receipt_preimages g e)")
  case False
  let ?l = "document_leaf g d (sealed_facts g r) a" and ?m = "document_leaf g e (sealed_facts g s) b"
  have bind: "receipt_leaf_ok ?l" "receipt_leaf_ok ?m"
    "sha256_hex g (receipt_leaf_text ?l) = sha256_hex g (receipt_leaf_text ?m)"
    using d(4) e(4) leaf by (simp_all add: receipt_anchored_def anchor_binds_def)
  have ctx: "rd_receipt_context d \<noteq> None \<longleftrightarrow> rc_kind a = ReceiptAnchorKindV3"
    "rd_receipt_context e \<noteq> None \<longleftrightarrow> rc_kind b = ReceiptAnchorKindV3"
    using d(4) e(4) mismatch_context [of "anchorRequiredOf d" d "sealed_facts g r" a]
      mismatch_context [of "anchorRequiredOf e" e "sealed_facts g s" b] by (simp_all add: receipt_anchored_def)
  have same: "?l = ?m"
    using receipt_leaf.binds_in [OF bind, of "receipt_preimages g d" "receipt_preimages g e"] False d(1,3) e(1,3)
    by (auto simp: receipt_preimages_def document_leaf_text_def)
  note kh = document_leaf_facts [OF same] and ch = document_leaf_context [OF same ctx]
  have "sorted_lists r = sorted_lists s"
  proof -
    have "wf_json (sealed_json r)" "wf_json (sealed_json s)"
      using clean d(1) e(1) by (simp_all add: clean_document_def)
    from sealed_receipts_bind [OF kh d(2) e(2) this]
    show ?thesis
      using False collides_mono [of g "[json_write (sealed_json r)]" "[json_write (sealed_json s)]"] d(1) e(1)
      by (auto simp: receipt_preimages_def)
  qed
  moreover have "rel_option same_context (rd_receipt_context d) (rd_receipt_context e)"
  proof (cases "rd_receipt_context d"; cases "rd_receipt_context e")
    fix c k assume c: "rd_receipt_context d = Some c" "rd_receipt_context e = Some k"
    then have "ReceiptContext_Hash g c = ReceiptContext_Hash g k" using ch(1) by simp
    moreover have "clean_context g c" "clean_context g k" using clean c by (simp_all add: clean_document_def)
    moreover have "\<not> collides g (context_preimages g c) (context_preimages g k)"
      using False c
      by (auto simp: receipt_preimages_def
          dest: collides_mono [of g _ _ "receipt_preimages g d" "receipt_preimages g e", unfolded receipt_preimages_def])
    ultimately show ?thesis using context_binds [OF g, of c k] c by simp
  qed (use ch(1) in auto)
  ultimately show ?thesis using ch(2) d(1) e(1) by (simp add: same_receipt_def)
qed simp


text \<open>C29. One public-log leaf belongs to one receipt. When two receipt documents, with valid texts as the
  strict reading leaves them and a 32-byte digest, verify as anchored with the same leaf hash,
  they carry the same receipt, field by field (the lists of an attestation gap in sorted order)
  and, where there is a context, the same context in all its hash covers: the same request,
  request signature (a version 1 signature without its body hash), job as its fields are hashed,
  policy decision with its inputs, account and account decision. The run number is the same when
  the anchor is of the second or third kind; a leaf of the first kind does not bind it. Or two of the hashed
  texts collide.\<close>

theorem leaf_names_one_receipt:
  assumes "digest32 g" and "clean_document g d" "clean_document g e"
    and "rr_VerdictTier (verifyReceiptDocumentWith g rv pins self d) = ''VERIFIED_ANCHORED''"
    and "rr_VerdictTier (verifyReceiptDocumentWith g rv' pins' self' e) = ''VERIFIED_ANCHORED''"
    and "rd_receipt_anchor d = Some a" "rd_receipt_anchor e = Some b"
    and "to_lower (rc_leaf_hash a) = to_lower (rc_leaf_hash b)"
  shows "(same_receipt d e
      \<and> (rc_kind a = ReceiptAnchorKindV2 \<or> rc_kind a = ReceiptAnchorKindV3 \<longrightarrow> rd_run_id d = rd_run_id e))
    \<or> collides g (receipt_preimages g d) (receipt_preimages g e)"
  using assms(4,5) unfolding receipt_verified
  using verified_receipts_same [OF assms(1-3) _ _ assms(6) _ _ _ assms(7) _ assms(8)] assms(6,7) by auto

text \<open>C30. A receipt's anchor cannot be taken away. A receipt whose own hash says an anchor is required, or,
  unless the reader exempts self-hosted receipts, one dated since the first one the API
  anchored (run 241), passes only as anchored, even when the reader allows unanchored receipts;
  the one that seals the field passes only with an anchor that binds its run number, and without
  that exemption one dated since run 242 passes only with the field.\<close>

theorem recent_receipt_passes_only_anchored:
  assumes passes: "\<not> receiptExitShouldFail (verifyReceiptDocumentWith g rv pins selfHosted d) True"
    and facts: "factsOf g d = Inr f"
    and recent: "anchorRequiredOf d \<or> (\<not> selfHosted \<and> issuedAtOrAfter (fa_clock f) receiptAnchorExpectedSince = Some True)"
  shows "rr_VerdictTier (verifyReceiptDocumentWith g rv pins selfHosted d) = ''VERIFIED_ANCHORED''
    \<and> (\<exists>a. rd_receipt_anchor d = Some a \<and> rc_backend a = ''rekor''
         \<and> (anchorRequiredOf d \<longrightarrow> rc_kind a = ReceiptAnchorKindV2 \<or> rc_kind a = ReceiptAnchorKindV3))
    \<and> (\<not> selfHosted \<and> issuedAtOrAfter (fa_clock f) receiptAnchorRequiredSince = Some True \<longrightarrow> anchorRequiredOf d)"
proof -
  let ?tier = "rr_VerdictTier (verifyReceiptDocumentWith g rv pins selfHosted d)"
  have tier: "?tier \<noteq> ''FAILED''" using passes by (auto simp: receiptExitShouldFail_def split: if_splits)
  then obtain expected where dates: "receipt_dates selfHosted (anchorRequiredOf d) (fa_clock f) = Inr expected"
    by (auto simp: receipt_tier facts split: if_splits sum.splits)
  have need: "anchorRequiredOf d \<or> expected"
    using dates recent by (auto simp: receipt_dates_def split: if_splits option.splits)
  have verified: "?tier = ''VERIFIED_ANCHORED''"
    using tier need unfolding receipt_tier facts sum.case dates by (auto split: if_splits option.splits)
  then obtain a where a: "rd_receipt_anchor d = Some a" "rc_backend a = ''rekor''" "anchor_mismatch (anchorRequiredOf d) d f a = None"
    unfolding receipt_tier facts sum.case dates by (auto simp: receipt_anchored_def split: if_splits option.splits)
  have "anchorRequiredOf d \<Longrightarrow> rc_kind a = ReceiptAnchorKindV2 \<or> rc_kind a = ReceiptAnchorKindV3"
    using a(3) by (auto simp: anchor_mismatch_def Let_def split: if_splits)
  moreover have "\<not> selfHosted \<Longrightarrow> issuedAtOrAfter (fa_clock f) receiptAnchorRequiredSince = Some True \<Longrightarrow> anchorRequiredOf d"
    using dates by (auto simp: receipt_dates_def split: if_splits option.splits)
  ultimately show ?thesis using verified a by blast
qed

section \<open>A verified receipt\<close>

definition sample_deny :: deny_receipt where
  "sample_deny = (let r = \<lparr>dr_anchor_required = True, dr_decision_reason_code = ''RULE_DENIED'',
       dr_deny_clock = ''2026-11-01T12:00:00Z'', dr_envelope_id = ''env-1'', dr_evaluation_hash = [],
       dr_evaluator_version = ''pepg-1'', dr_fired_rule_id = ''r1'', dr_mcd_finding_hash = [], dr_policy_hash = [],
       dr_version = ''vfa.deny_receipt.v1'', dr_hash = []\<rparr>
     in snd (BuildDenyReceiptHash toy_lib r))"

definition sample_receipt_anchor :: receipt_anchor where
  "sample_receipt_anchor = \<lparr>rc_kind = ReceiptAnchorKindV2, rc_receipt_kind = ''deny_receipt'',
     rc_receipt_hash = dr_hash sample_deny, rc_backend = ''rekor'', rc_log_entry_id = ''7'', rc_log_id = [],
     rc_leaf_hash = ComputeReceiptLeafHashV2 toy_lib ''deny_receipt'' ''env-1'' (dr_hash sample_deny) 242,
     rc_log_index = 1, rc_tree_size = 2, rc_root_hash = [], rc_inclusion_path = [], rc_checkpoint = [],
     rc_signed_entry_timestamp = [], rc_integrated_time = 1793534460, rc_entry_body = base64_encode signed_body\<rparr>"

definition sample_document :: "bool \<Rightarrow> receipt_document" where
  "sample_document anchored = \<lparr>rd_ok = True, rd_run_id = 242, rd_deny_receipt = Some sample_deny, rd_ccv_halt_receipt = None,
     rd_macc_halt_receipt = None, rd_aivp_t4_halt_receipt = None, rd_attestation_gap_receipt = None,
     rd_receipt_anchor = (if anchored then Some sample_receipt_anchor else None), rd_receipt_context = None\<rparr>"

lemma sample_deny_hash: "VerifyDenyReceiptHash toy_lib sample_deny = None" "is_hex64 (dr_hash sample_deny)"
proof -
  show "VerifyDenyReceiptHash toy_lib sample_deny = None"
    unfolding sample_deny_def Let_def by (rule deny.build_verifies)
  show "is_hex64 (dr_hash sample_deny)"
    by (simp add: sample_deny_def Let_def BuildDenyReceiptHash_def MustCanonicalHash_def sha256_hex64 [OF toy_digest32])
qed

lemma sample_deny_fields:
  "dr_anchor_required sample_deny" "dr_deny_clock sample_deny = ''2026-11-01T12:00:00Z''" "dr_envelope_id sample_deny = ''env-1''"
  by (simp_all add: sample_deny_def Let_def BuildDenyReceiptHash_def)

lemma sample_facts:
  "document_receipts (sample_document x) = [SealedDeny sample_deny]" "anchorRequiredOf (sample_document x)"
  "factsOf toy_lib (sample_document x) = Inr (deny_facts toy_lib sample_deny)"
  "fa_clock (deny_facts toy_lib sample_deny) = ''2026-11-01T12:00:00Z''"
  by (simp_all add: document_receipts_def sample_document_def anchorRequiredOf_def sample_deny_fields factsOf_def
      receipt_facts_list_def deny_facts_def)

lemma receipt_sample_fields:
  "rd_ok (sample_document x)" "rd_receipt_context (sample_document x) = None"
  "rd_receipt_anchor (sample_document True) = Some sample_receipt_anchor" "rc_backend sample_receipt_anchor = ''rekor''"
  by (simp_all add: sample_document_def sample_receipt_anchor_def)

text \<open>For a clock of whole seconds the float64 gap is the difference of the two times.\<close>

lemma receipt_gap_exact:
  assumes t: "gt_nanos t = 0" "\<bar>gt_seconds t\<bar> < 4600000000" and it: "\<bar>it\<bar> < 4600000000"
  shows "f64_to_int (f64_sub (f64_of_int it) (clock_unix t)) = it - gt_seconds t"
proof -
  have c: "clock_unix t = of_int (gt_seconds t)"
    by (simp add: clock_unix_def unix_nano_whole [OF t] f64_clock_exact [OF t(2)])
  have i: "f64_of_int it = of_int it" using it by (auto intro!: f64_of_int_exact)
  have "f64_sub (of_int it) (of_int (gt_seconds t)) = f64_round (of_int (it - gt_seconds t) * 2 powi 0)"
    by (simp add: f64_sub_def)
  also have "\<dots> = of_int (it - gt_seconds t)"
    using f64_round_exact [of "it - gt_seconds t" 0] it t(2) by simp
  finally have "f64_sub (of_int it) (of_int (gt_seconds t)) = (of_int (it - gt_seconds t) :: rat)" .
  moreover have "f64_to_int (of_int n) = n" for n by (simp add: f64_to_int_def)
  ultimately show ?thesis by (simp only: i c)
qed

lemma sample_on_log: "receipt_on_log toy_lib (\<lambda>_. None) sample_pins ''2026-11-01T12:00:00Z'' sample_receipt_anchor"
proof -
  have gap: "f64_to_int (f64_sub (f64_of_int 1793534460) (clock_unix \<lparr>gt_seconds = 1793534400, gt_nanos = 0\<rparr>)) = 60"
    by (subst receipt_gap_exact) simp_all
  have "f64_of_int 60 = 60" using f64_of_int_exact [of 60] by simp
  with gap show ?thesis
    by (simp add: receipt_on_log_def windowed_clock sample_receipt_anchor_def windowed_signer sample_pins_def sample_pin_def
        signerAcceptsAt_def ReceiptAnchoringWindowSeconds_def anchoringClockSkewSeconds_def del: base64_encode.simps)
qed

lemma sample_anchored:
  "receipt_anchored toy_lib (\<lambda>_. None) sample_pins (sample_document True) (deny_facts toy_lib sample_deny) sample_receipt_anchor"
proof -
  have leaf: "document_leaf toy_lib (sample_document True) (deny_facts toy_lib sample_deny) sample_receipt_anchor
      = LeafV2 ''deny_receipt'' ''env-1'' (dr_hash sample_deny) 242"
    by (simp add: document_leaf_def sample_document_def sample_receipt_anchor_def deny_facts_def sample_deny_fields)
  have "receipt_leaf_ok (LeafV2 ''deny_receipt'' ''env-1'' (dr_hash sample_deny) 242)"
    using sample_deny_hash(2)
    by (simp add: ValidateReceiptLeafFieldsV2_def ValidateReceiptLeafFields_def ReceiptKinds_def is_hex64_def)
  moreover have "rc_leaf_hash sample_receipt_anchor
      = sha256_hex toy_lib (ReceiptLeafPreimageV2 ''deny_receipt'' ''env-1'' (dr_hash sample_deny) 242)"
    by (simp add: sample_receipt_anchor_def ComputeReceiptLeafHashV2_def)
  ultimately have "anchor_binds toy_lib (sample_document True) (deny_facts toy_lib sample_deny) sample_receipt_anchor"
    by (simp add: anchor_binds_def leaf)
  moreover have "anchor_mismatch True (sample_document True) (deny_facts toy_lib sample_deny) sample_receipt_anchor = None"
    by (simp add: anchor_mismatch_def Let_def sample_receipt_anchor_def sample_document_def deny_facts_def
        ReceiptAnchorKind_def ReceiptAnchorKindV2_def ReceiptAnchorKindV3_def)
  ultimately show ?thesis
    using sample_on_log by (simp add: receipt_anchored_def sample_facts receipt_sample_fields)
qed

lemma sample_verified:
  "rr_VerdictTier (verifyReceiptDocumentWith toy_lib (\<lambda>_. None) sample_pins True (sample_document True)) = ''VERIFIED_ANCHORED''"
  unfolding receipt_verified
  by (intro exI [of _ "SealedDeny sample_deny"] exI [of _ sample_receipt_anchor] exI [of _ False] conjI)
    (use sample_anchored sample_deny_hash(1) in
      \<open>simp_all add: sample_facts receipt_sample_fields receipt_dates_def deny_facts_def\<close>)


lemma sample_clean: "clean_document toy_lib (sample_document x)"
proof -
  have "wf_json (deny_receipt_preimage sample_deny)"
    by (simp add: sample_deny_def Let_def BuildDenyReceiptHash_def deny_receipt_preimage_def mk_obj_def js_def jb_omit_def jb_def
        rune_size_def in_range_def)
  then show ?thesis by (simp add: clean_document_def sample_facts receipt_sample_fields)
qed

lemma leaf_names_one_receipt_witness:
  "same_receipt (sample_document True) (sample_document True)
     \<or> collides toy_lib (receipt_preimages toy_lib (sample_document True)) (receipt_preimages toy_lib (sample_document True))"
  using leaf_names_one_receipt [OF toy_digest32 sample_clean sample_clean sample_verified sample_verified
      receipt_sample_fields(3) receipt_sample_fields(3) refl] by blast

lemma recent_receipt_passes_only_anchored_witness:
  "\<exists>a. rd_receipt_anchor (sample_document True) = Some a \<and> rc_kind a \<in> {ReceiptAnchorKindV2, ReceiptAnchorKindV3}"
proof -
  have "\<not> receiptExitShouldFail (verifyReceiptDocumentWith toy_lib (\<lambda>_. None) sample_pins True (sample_document True)) True"
    by (simp add: receiptExitShouldFail_def sample_verified)
  from recent_receipt_passes_only_anchored [OF this sample_facts(3)] sample_facts(2) show ?thesis by auto
qed

end
