(* ===== verification/Hardware.thy ===== *)
theory Hardware
  imports ExecutionRecord
begin

text \<open>
  internal/sevsnp/sevsnp.go and verifySevSnpQuote of main.go: the AMD SEV-SNP report of a
  record is verified again from its raw bytes against the pinned AMD chain, must carry the
  report data this record's hashes give, and every value the record states about it must be
  the report's own. The rows a check reports (HashCheck, mk) and the execution record's rows
  (verifyExecutionRecord) are here too, because the execution record and the quote name each
  other.
\<close>

section \<open>Numbers in a report\<close>

text \<open>Little-endian and big-endian numbers; a byte is its code.\<close>

fun le_nat :: "bytes \<Rightarrow> nat" where
  "le_nat [] = 0"
| "le_nat (b # bs) = of_char b + 256 * le_nat bs"

definition be_nat :: "bytes \<Rightarrow> nat" where
  "be_nat bs = foldl (\<lambda>a c. 256 * a + of_char c) 0 bs"

definition le_uint32 :: "bytes \<Rightarrow> nat \<Rightarrow> nat" where
  "le_uint32 raw off = le_nat (take 4 (drop off raw))"

definition le_uint64 :: "bytes \<Rightarrow> nat \<Rightarrow> nat" where
  "le_uint64 raw off = le_nat (take 8 (drop off raw))"

text \<open>The last k hexadecimal digits; the verb percent-016x of a 64-bit number is 16 of them.\<close>

fun hex_pad :: "nat \<Rightarrow> nat \<Rightarrow> string" where
  "hex_pad 0 n = []"
| "hex_pad (Suc k) n = hex_pad k (n div 16) @ [hex_digit (n mod 16)]"

definition byte_range :: "bytes \<Rightarrow> nat \<Rightarrow> nat \<Rightarrow> bytes" where
  "byte_range raw lo hi = take (hi - lo) (drop lo raw)"

section \<open>Certificates\<close>

definition ARKMilanRootSHA256 :: string where
  "ARKMilanRootSHA256 = ''69d063b45344d26a2e94e1f4210de49ef555308287d4c174445c95639a540bcd''"
definition SEVVLEKMilanIntermediateSHA256 :: string where
  "SEVVLEKMilanIntermediateSHA256 = ''c5e081f59b7efab1fe2f8b505e159704e72f29cab7ef7cf628a05a42439082f5''"
definition reportBodyLen :: nat where "reportBodyLen = 0x2A0"
definition reportLen :: nat where "reportLen = 1184"
definition bindingDomain :: string where "bindingDomain = ''verdifax.sevsnp.report_data.v1''"

datatype cert_error = CertUnparsed | OuterAsn1 | ZeroSerialNotFound | TbsOffsetNotFound | NoCertificates
  | CertCount nat | CertOutOfFuel

text \<open>bytes.Index.\<close>

fun index_of :: "bytes \<Rightarrow> bytes \<Rightarrow> nat option" where
  "index_of s p = (if take (length p) s = p then Some 0
     else (case s of [] \<Rightarrow> None | _ # t \<Rightarrow> map_option Suc (index_of t p)))"

declare index_of.simps [simp del]

definition patchZeroSerial :: "golib \<Rightarrow> bytes \<Rightarrow> cert_error + bytes" where
  "patchZeroSerial g der = (case gl_certificate_tbs g der of
     None \<Rightarrow> Inl OuterAsn1
   | Some tbs \<Rightarrow>
      (let limit = (if length tbs < 24 then length tbs else 24)
       in case index_of (take limit tbs) [CHR 0x02, CHR 0x01, CHR 0x00] of
          None \<Rightarrow> Inl ZeroSerialNotFound
        | Some idx \<Rightarrow>
           (case index_of der tbs of
              None \<Rightarrow> Inl TbsOffsetNotFound
            | Some base \<Rightarrow> Inr (der[base + idx + 2 := CHR 0x01]))))"

definition parseCertLenientSerial :: "golib \<Rightarrow> bytes \<Rightarrow> cert_error + x509_cert" where
  "parseCertLenientSerial g der = (case patchZeroSerial g der of
     Inl e \<Rightarrow> Inl e
   | Inr patched \<Rightarrow>
      (case gl_parse_certificate g patched of
         None \<Rightarrow> Inl CertUnparsed
       | Some c \<Rightarrow>
          (case gl_certificate_tbs g der of
             None \<Rightarrow> Inl OuterAsn1
           | Some tbs \<Rightarrow> Inr (c\<lparr>xc_raw := der, xc_raw_tbs := tbs\<rparr>))))"

definition parse_block :: "golib \<Rightarrow> bytes \<Rightarrow> cert_error + x509_cert" where
  "parse_block g der = (case gl_parse_certificate g der of
     Some c \<Rightarrow> Inr c
   | None \<Rightarrow> parseCertLenientSerial g der)"

text \<open>The loop of parseCerts, with fuel for the rounds and the certificates read so far.\<close>

fun parse_loop :: "golib \<Rightarrow> nat \<Rightarrow> x509_cert list \<Rightarrow> bytes \<Rightarrow> cert_error + x509_cert list" where
  "parse_loop g 0 out rest = Inl CertOutOfFuel"
| "parse_loop g (Suc n) out rest = (case gl_pem_decode g rest of
     None \<Rightarrow> Inr out
   | Some (block, rest') \<Rightarrow>
      if pem_type block \<noteq> ''CERTIFICATE'' then parse_loop g n out rest'
      else (case parse_block g (pem_bytes block) of
         Inl e \<Rightarrow> Inl e
       | Inr c \<Rightarrow> parse_loop g n (out @ [c]) rest'))"

definition parseCerts :: "golib \<Rightarrow> bytes \<Rightarrow> cert_error + x509_cert list" where
  "parseCerts g pemBytes = (case parse_loop g (Suc (length pemBytes)) [] pemBytes of
     Inl e \<Rightarrow> Inl e
   | Inr out \<Rightarrow> if out = [] then Inl NoCertificates else Inr out)"

definition parseSingleCert :: "golib \<Rightarrow> bytes \<Rightarrow> cert_error + x509_cert" where
  "parseSingleCert g pemBytes = (case parseCerts g pemBytes of
     Inl e \<Rightarrow> Inl e
   | Inr certs \<Rightarrow> (case certs of [c] \<Rightarrow> Inr c | _ \<Rightarrow> Inl (CertCount (length certs))))"

definition fingerprint :: "golib \<Rightarrow> x509_cert \<Rightarrow> string" where
  "fingerprint g c = sha256_hex g (xc_raw c)"

section \<open>The report\<close>

datatype sevsnp_error =
    ReportLength nat
  | UnsupportedSignatureAlgorithm nat
  | UnknownSigningKeyType nat
  | LeafCertificate cert_error
  | ChainCertificates cert_error
  | ChainCount nat
  | RootNotPinned string
  | IntermediateNotPinned string
  | RootSelfSignature
  | IntermediateNotSigned
  | LeafNotSigned
  | LeafKeyNotECDSA
  | ReportSignatureInvalid
  | ReportDataNotBound

record sevsnp_result =
  sv_ChainVerified :: bool
  sv_SignatureVerified :: bool
  sv_ReportDataBound :: bool
  sv_MeasurementHex :: string
  sv_ReportIDHex :: string
  sv_ReportVersion :: nat
  sv_ReportDataHex :: string
  sv_CurrentTCBHex :: string
  sv_ReportedTCBHex :: string
  sv_SigningKeyType :: string
  sv_RootFingerprintSHA256 :: string
  sv_VLEKLeafSHA256 :: string

definition BindingReportData :: "golib \<Rightarrow> string \<Rightarrow> string \<Rightarrow> bytes" where
  "BindingReportData g envelopeHash aerHash =
     gl_sha512 g (bindingDomain @ '':'' @ envelopeHash @ '':'' @ aerHash)"

definition PreRecordReportData :: "golib \<Rightarrow> string \<Rightarrow> string \<Rightarrow> string \<Rightarrow> string \<Rightarrow> string list \<Rightarrow> bytes" where
  "PreRecordReportData g inputHash transportHash controlHash programHash kernels =
     gl_sha512 g (join (CHR '':'') ([''verdifax.sevsnp.report_data.prerecord.v1'', inputHash, transportHash,
       controlHash, programHash] @ kernels))"

definition key_type_bits :: "bytes \<Rightarrow> nat" where
  "key_type_bits raw = le_uint32 raw 0x48 div 4 mod 8"

definition sev_verify :: "golib \<Rightarrow> bytes \<Rightarrow> bytes \<Rightarrow> bytes \<Rightarrow> bytes \<Rightarrow> sevsnp_error + sevsnp_result" where
  "sev_verify g raw vlekPEM chainPEM expected =
     (if length raw \<noteq> reportLen then Inl (ReportLength (length raw))
      else if le_uint32 raw 0x34 \<noteq> 1 then Inl (UnsupportedSignatureAlgorithm (le_uint32 raw 0x34))
      else if key_type_bits raw \<noteq> 0 \<and> key_type_bits raw \<noteq> 1 then Inl (UnknownSigningKeyType (key_type_bits raw))
      else case parseSingleCert g vlekPEM of Inl e \<Rightarrow> Inl (LeafCertificate e) | Inr leaf \<Rightarrow>
      (case parseCerts g chainPEM of Inl e \<Rightarrow> Inl (ChainCertificates e) | Inr chain \<Rightarrow>
      (case chain of [intermediate, root] \<Rightarrow>
        if fingerprint g root \<noteq> ARKMilanRootSHA256 then Inl (RootNotPinned (fingerprint g root))
        else if fingerprint g intermediate \<noteq> SEVVLEKMilanIntermediateSHA256
        then Inl (IntermediateNotPinned (fingerprint g intermediate))
        else if \<not> gl_check_signature_from g root root then Inl RootSelfSignature
        else if \<not> gl_check_signature_from g intermediate root then Inl IntermediateNotSigned
        else if \<not> gl_check_signature_from g leaf intermediate then Inl LeafNotSigned
        else (case xc_ecdsa leaf of None \<Rightarrow> Inl LeafKeyNotECDSA | Some pub \<Rightarrow>
          (let sig = drop reportBodyLen raw;
               r = be_nat (rev (take 72 sig));
               s = be_nat (rev (take 72 (drop 72 sig)));
               digest = gl_sha384 g (take reportBodyLen raw)
           in if \<not> gl_ecdsa_verify g pub digest r s then Inl ReportSignatureInvalid
              else if byte_range raw 0x50 0x90 \<noteq> expected then Inl ReportDataNotBound
              else Inr \<lparr>sv_ChainVerified = True, sv_SignatureVerified = True, sv_ReportDataBound = True,
                sv_MeasurementHex = hex_encode (byte_range raw 0x90 0xC0),
                sv_ReportIDHex = hex_encode (byte_range raw 0x140 0x160),
                sv_ReportVersion = le_uint32 raw 0,
                sv_ReportDataHex = hex_encode (byte_range raw 0x50 0x90),
                sv_CurrentTCBHex = hex_pad 16 (le_uint64 raw 0x38),
                sv_ReportedTCBHex = hex_pad 16 (le_uint64 raw 0x180),
                sv_SigningKeyType = (if key_type_bits raw = 0 then ''vcek'' else ''vlek''),
                sv_RootFingerprintSHA256 = fingerprint g root,
                sv_VLEKLeafSHA256 = fingerprint g leaf\<rparr>))
      | _ \<Rightarrow> Inl (ChainCount (length chain)))))"

section \<open>Rows\<close>

text \<open>
  One recompute-and-compare verdict (HashCheck of main.go). A computed text that names a
  failure of the quote is the failure itself instead of its wording; it is never equal to a
  recorded text.
\<close>

datatype quote_failure =
    QuoteEvidenceMissing
  | QuoteUndecoded
  | QuoteBindingMissing
  | QuoteRefused sevsnp_error
  | QuoteNoVerification
  | QuoteDiffers "string list"

datatype computed_text = Computed string | QuoteFailed quote_failure

record hash_check =
  hc_Name :: string
  hc_Recorded :: string
  hc_Computed :: computed_text
  hc_Match :: bool
  hc_Scaffold :: bool

definition mk :: "string \<Rightarrow> string \<Rightarrow> string \<Rightarrow> bool \<Rightarrow> hash_check" where
  "mk name recorded computed scaffold = \<lparr>hc_Name = name, hc_Recorded = recorded,
     hc_Computed = Computed computed, hc_Match = (recorded = computed), hc_Scaffold = scaffold\<rparr>"

section \<open>The quote of a record (main.go)\<close>

definition quote_name :: string where "quote_name = ''hardware_attestation_sevsnp_quote''"

definition quote_fail :: "quote_failure \<Rightarrow> hash_check" where
  "quote_fail e = \<lparr>hc_Name = quote_name, hc_Recorded = ''verified'', hc_Computed = QuoteFailed e,
     hc_Match = False, hc_Scaffold = False\<rparr>"

text \<open>The report data this record's own hashes give, if it carries them.\<close>

definition quote_binding :: "golib \<Rightarrow> audit_bundle \<Rightarrow> bytes option" where
  "quote_binding g b =
     (case ab_execution_record b of
        Some r \<Rightarrow> if er_hardware_attested r
          then Some (PreRecordReportData g (er_input_hash r) (er_transport_hash r) (er_execution_control_hash r)
            (er_program_hash r) (slice (er_kernel_output_ids r)))
          else if vf_envelope_hash (ab_final_vfa b) = [] \<or> vf_aer_hash (ab_final_vfa b) = [] then None
          else Some (BindingReportData g (vf_envelope_hash (ab_final_vfa b)) (vf_aer_hash (ab_final_vfa b)))
      | None \<Rightarrow> if vf_envelope_hash (ab_final_vfa b) = [] \<or> vf_aer_hash (ab_final_vfa b) = [] then None
          else Some (BindingReportData g (vf_envelope_hash (ab_final_vfa b)) (vf_aer_hash (ab_final_vfa b))))"

definition differing :: "(string \<times> string \<times> string) list \<Rightarrow> string list" where
  "differing rows = map fst (filter (\<lambda>(field, recorded, fromReport). recorded \<noteq> fromReport) rows)"

definition stated_rows :: "hardware_attestation \<Rightarrow> sevsnp_claim \<Rightarrow> sevsnp_result \<Rightarrow> (string \<times> string \<times> string) list" where
  "stated_rows h v res =
     [(''verification.report_version'', int_str (vc_report_version v), nat_str (sv_ReportVersion res)),
      (''verification.measurement_hex'', vc_measurement_hex v, sv_MeasurementHex res),
      (''verification.report_id_hex'', vc_report_id_hex v, sv_ReportIDHex res),
      (''verification.current_tcb_hex'', vc_current_tcb_hex v, sv_CurrentTCBHex res),
      (''verification.reported_tcb_hex'', vc_reported_tcb_hex v, sv_ReportedTCBHex res),
      (''verification.report_data_hex'', vc_report_data_hex v, sv_ReportDataHex res),
      (''verification.signing_key_type'', vc_signing_key_type v, sv_SigningKeyType res),
      (''verification.root_fingerprint_sha256'', vc_root_fingerprint_sha256 v, sv_RootFingerprintSHA256 res),
      (''verification.vlek_leaf_sha256'', vc_vlek_leaf_sha256 v, sv_VLEKLeafSHA256 res),
      (''enclave_measurement'', hw_enclave_measurement h, sv_MeasurementHex res),
      (''report_data_hex'', hw_report_data_hex h, sv_ReportDataHex res)]"

definition verifySevSnpQuote :: "golib \<Rightarrow> audit_bundle \<Rightarrow> hash_check" where
  "verifySevSnpQuote g b = (let hwa = ab_hardware_attestation b in
     if hw_quote_b64 hwa = [] \<or> hw_vlek_cert_pem hwa = [] \<or> hw_cert_chain_pem hwa = []
     then quote_fail QuoteEvidenceMissing
     else case base64_decode (hw_quote_b64 hwa) of None \<Rightarrow> quote_fail QuoteUndecoded | Some raw \<Rightarrow>
     (case quote_binding g b of None \<Rightarrow> quote_fail QuoteBindingMissing | Some binding \<Rightarrow>
     (case sev_verify g raw (hw_vlek_cert_pem hwa) (hw_cert_chain_pem hwa) binding of
        Inl e \<Rightarrow> quote_fail (QuoteRefused e)
      | Inr res \<Rightarrow>
         (case hw_verification hwa of None \<Rightarrow> quote_fail QuoteNoVerification | Some v \<Rightarrow>
           (let differs = differing (stated_rows hwa v res)
              @ (if \<not> vc_chain_verified v \<or> \<not> vc_signature_verified v \<or> \<not> vc_report_data_bound v
                 then [''verification.chain_verified, signature_verified and report_data_bound''] else [])
            in if differs \<noteq> [] then quote_fail (QuoteDiffers differs)
               else \<lparr>hc_Name = quote_name, hc_Recorded = ''verified'', hc_Computed = Computed ''verified'',
                 hc_Match = True, hc_Scaffold = False\<rparr>)))))"

section \<open>The execution record's rows (main.go)\<close>

text \<open>
  The text of each error. A malformed field is always one the record formula refuses: the
  proof is computed over a digest of the record formula and a field it has accepted. \<open>b64\<close> is
  the decoder's own text for the quote it could not decode.
\<close>

fun record_error_text :: "golib \<Rightarrow> string \<Rightarrow> record_error \<Rightarrow> string" where
  "record_error_text g b64 NoKernelIds = ''aer.v1: at least one kernel output id is required''"
| "record_error_text g b64 (NotHex64 name) = ''aer.v1: '' @ name @ '' must be 64 lowercase hex characters''"
| "record_error_text g b64 (UnknownRecordKind k) = ''execution record: unknown kind '' @ gl_quote g k"
| "record_error_text g b64 (UnknownFormula f) = ''execution record: unknown formula '' @ gl_quote g f"
| "record_error_text g b64 NoHardwareQuote = ''record claims hardware but the bundle carries no sev_snp quote''"
| "record_error_text g b64 QuoteUndecodable = ''quote_b64 undecodable: '' @ b64"

definition error_text :: "golib \<Rightarrow> audit_bundle \<Rightarrow> record_error \<Rightarrow> string" where
  "error_text g b e = ''error: '' @ record_error_text g (gl_base64_error g (hw_quote_b64 (ab_hardware_attestation b))) e"

definition verifyExecutionRecord :: "golib \<Rightarrow> audit_bundle \<Rightarrow> execution_record \<Rightarrow> hash_check list" where
  "verifyExecutionRecord g b r =
     (let (aer, proof_hash) = (case RecomputeExecutionRecord g r of
            Inl e \<Rightarrow> (error_text g b e, error_text g b e)
          | Inr (a, p) \<Rightarrow> (a, p));
          noHardware = (er_hardware_attestation_hash r = NoHardwareAttestationHash g);
          hardware = (if er_hardware_attested r then
              mk ''execution_record_hardware'' (er_hardware_attestation_hash r)
                (case ExecutionRecordHardwareHash g b of Inl e \<Rightarrow> error_text g b e | Inr h \<Rightarrow> h) False
            else mk ''execution_record_hardware'' (''hardware_attested='' @ bool_word (er_hardware_attested r))
              (''hardware_attested='' @ bool_word (\<not> noHardware)) noHardware)
      in [mk ''execution_record'' (er_aer_hash r) aer False,
          mk ''execution_record_proof'' (er_proof_hash r) proof_hash False,
          mk ''execution_record_binding'' (vf_aer_hash (ab_final_vfa b)) (er_aer_hash r) False,
          mk ''execution_record_kernel_ids'' (join (CHR 0x2C) (slice (aer_execution_ids (ab_aer b))))
            (join (CHR 0x2C) (slice (er_kernel_output_ids r))) False,
          hardware])"

section \<open>What a verified quote binds\<close>

lemma differing_Nil: "differing rows = [] \<longleftrightarrow> list_all (\<lambda>(field, recorded, fromReport). recorded = fromReport) rows"
  by (auto simp: differing_def filter_empty_conv list_all_iff)

lemma mk_sel [simp]: "hc_Match (mk n a c sc) = (a = c)" "hc_Name (mk n a c sc) = n" "hc_Scaffold (mk n a c sc) = sc"
  by (simp_all add: mk_def)

lemma quote_fail_match [simp]: "\<not> hc_Match (quote_fail e)"
  by (simp add: quote_fail_def)

text \<open>The chain and signature a report passes with, and what is then read from it.\<close>

definition report_signed :: "golib \<Rightarrow> bytes \<Rightarrow> bytes \<Rightarrow> bytes \<Rightarrow> x509_cert \<Rightarrow> bool" where
  "report_signed g raw vlekPEM chainPEM leaf \<longleftrightarrow>
     (\<exists>intermediate root pub. parseCerts g vlekPEM = Inr [leaf] \<and> parseCerts g chainPEM = Inr [intermediate, root]
       \<and> fingerprint g root = ARKMilanRootSHA256 \<and> fingerprint g intermediate = SEVVLEKMilanIntermediateSHA256
       \<and> gl_check_signature_from g root root \<and> gl_check_signature_from g intermediate root
       \<and> gl_check_signature_from g leaf intermediate \<and> xc_ecdsa leaf = Some pub
       \<and> gl_ecdsa_verify g pub (gl_sha384 g (take reportBodyLen raw))
           (be_nat (rev (take 72 (drop reportBodyLen raw)))) (be_nat (rev (take 72 (drop 72 (drop reportBodyLen raw))))))"

definition report_read :: "golib \<Rightarrow> bytes \<Rightarrow> x509_cert \<Rightarrow> sevsnp_result" where
  "report_read g raw leaf = \<lparr>sv_ChainVerified = True, sv_SignatureVerified = True, sv_ReportDataBound = True,
     sv_MeasurementHex = hex_encode (byte_range raw 0x90 0xC0),
     sv_ReportIDHex = hex_encode (byte_range raw 0x140 0x160),
     sv_ReportVersion = le_uint32 raw 0,
     sv_ReportDataHex = hex_encode (byte_range raw 0x50 0x90),
     sv_CurrentTCBHex = hex_pad 16 (le_uint64 raw 0x38),
     sv_ReportedTCBHex = hex_pad 16 (le_uint64 raw 0x180),
     sv_SigningKeyType = (if key_type_bits raw = 0 then ''vcek'' else ''vlek''),
     sv_RootFingerprintSHA256 = ARKMilanRootSHA256,
     sv_VLEKLeafSHA256 = fingerprint g leaf\<rparr>"

lemma parseSingleCert_Inr: "parseSingleCert g p = Inr leaf \<longleftrightarrow> parseCerts g p = Inr [leaf]"
  by (auto simp: parseSingleCert_def split: sum.splits list.splits)

lemma sev_verify_Inr:
  "sev_verify g raw vlekPEM chainPEM expected = Inr res \<longleftrightarrow>
     length raw = reportLen \<and> le_uint32 raw 0x34 = 1 \<and> key_type_bits raw \<le> 1
     \<and> byte_range raw 0x50 0x90 = expected
     \<and> (\<exists>leaf. report_signed g raw vlekPEM chainPEM leaf \<and> res = report_read g raw leaf)"
proof (cases "parseSingleCert g vlekPEM")
  case (Inl e)
  then have "\<not> report_signed g raw vlekPEM chainPEM leaf" for leaf
    using parseSingleCert_Inr [of g vlekPEM leaf] by (simp add: report_signed_def)
  with Inl show ?thesis by (simp add: sev_verify_def)
next
  case (Inr leaf)
  then have single: "parseCerts g vlekPEM = Inr [leaf]" by (simp add: parseSingleCert_Inr)
  have bits: "key_type_bits raw \<le> 1 \<longleftrightarrow> key_type_bits raw = 0 \<or> key_type_bits raw = 1" by linarith
  show ?thesis
  proof (cases "\<exists>intermediate root. parseCerts g chainPEM = Inr [intermediate, root]")
    case True
    then obtain intermediate root where "parseCerts g chainPEM = Inr [intermediate, root]" by blast
    with Inr single show ?thesis
      by (auto simp: sev_verify_def report_signed_def report_read_def bits Let_def split: option.splits)
  next
    case False
    then have "\<not> report_signed g raw vlekPEM chainPEM leaf'" for leaf'
      by (simp add: report_signed_def)
    with False Inr show ?thesis
      by (auto simp: sev_verify_def split: sum.splits list.splits if_splits)
  qed
qed

text \<open>The values a record states about its report are the report's own.\<close>

definition states_report :: "hardware_attestation \<Rightarrow> sevsnp_claim \<Rightarrow> sevsnp_result \<Rightarrow> bool" where
  "states_report h v res \<longleftrightarrow> list_all (\<lambda>(field, recorded, fromReport). recorded = fromReport) (stated_rows h v res)
     \<and> vc_chain_verified v \<and> vc_signature_verified v \<and> vc_report_data_bound v"

lemma sev_quote_exact:
  "hc_Match (verifySevSnpQuote g b) \<longleftrightarrow>
     (let h = ab_hardware_attestation b in
      hw_quote_b64 h \<noteq> [] \<and> hw_vlek_cert_pem h \<noteq> [] \<and> hw_cert_chain_pem h \<noteq> []
      \<and> (\<exists>raw leaf v. base64_decode (hw_quote_b64 h) = Some raw \<and> length raw = reportLen
          \<and> le_uint32 raw 0x34 = 1 \<and> key_type_bits raw \<le> 1
          \<and> quote_binding g b = Some (byte_range raw 0x50 0x90)
          \<and> report_signed g raw (hw_vlek_cert_pem h) (hw_cert_chain_pem h) leaf
          \<and> hw_verification h = Some v \<and> states_report h v (report_read g raw leaf)))"
  (is "?match \<longleftrightarrow> ?spec")
proof -
  let ?h = "ab_hardware_attestation b"
  let ?verify = "\<lambda>raw binding. sev_verify g raw (hw_vlek_cert_pem ?h) (hw_cert_chain_pem ?h) binding"
  have "?match \<longleftrightarrow> hw_quote_b64 ?h \<noteq> [] \<and> hw_vlek_cert_pem ?h \<noteq> [] \<and> hw_cert_chain_pem ?h \<noteq> []
      \<and> (\<exists>raw binding res v. base64_decode (hw_quote_b64 ?h) = Some raw \<and> quote_binding g b = Some binding
          \<and> ?verify raw binding = Inr res \<and> hw_verification ?h = Some v \<and> states_report ?h v res)"
    by (auto simp: verifySevSnpQuote_def Let_def states_report_def differing_Nil split: option.splits sum.splits)
  also have "\<dots> \<longleftrightarrow> ?spec"
    unfolding Let_def sev_verify_Inr by blast
  finally show ?thesis .
qed

text \<open>The parts of this record whose hash a report must carry as its report data.\<close>

definition quoted_run :: "audit_bundle \<Rightarrow> string list option" where
  "quoted_run b = (case ab_execution_record b of
     Some r \<Rightarrow> if er_hardware_attested r
       then Some ([''verdifax.sevsnp.report_data.prerecord.v1'', er_input_hash r, er_transport_hash r,
         er_execution_control_hash r, er_program_hash r] @ slice (er_kernel_output_ids r))
       else if vf_envelope_hash (ab_final_vfa b) = [] \<or> vf_aer_hash (ab_final_vfa b) = [] then None
       else Some [bindingDomain, vf_envelope_hash (ab_final_vfa b), vf_aer_hash (ab_final_vfa b)]
   | None \<Rightarrow> if vf_envelope_hash (ab_final_vfa b) = [] \<or> vf_aer_hash (ab_final_vfa b) = [] then None
       else Some [bindingDomain, vf_envelope_hash (ab_final_vfa b), vf_aer_hash (ab_final_vfa b)])"

lemma quote_binding_parts:
  "quote_binding g b = map_option (\<lambda>ps. gl_sha512 g (join (CHR '':'') ps)) (quoted_run b)"
  by (simp add: quote_binding_def quoted_run_def PreRecordReportData_def BindingReportData_def split: option.splits)

lemma quoted_run_free:
  assumes "quoted_run b = Some ps" and "\<forall>p \<in> set (tl ps). CHR '':'' \<notin> set p"
  shows "ps \<noteq> []" and "\<forall>p \<in> set ps. CHR '':'' \<notin> set p"
  using assms by (auto simp: quoted_run_def bindingDomain_def split: option.splits if_splits)

text \<open>Two lists of kernel ids that join to one text have one binding, whatever the record.\<close>

lemma colon_kernels_share_quote:
  assumes "er_hardware_attested r"
  shows "quote_binding g (b\<lparr>ab_execution_record := Some (r\<lparr>er_kernel_output_ids := Some [''a:b'']\<rparr>)\<rparr>)
    = quote_binding g (b\<lparr>ab_execution_record := Some (r\<lparr>er_kernel_output_ids := Some [''a'', ''b'']\<rparr>)\<rparr>)"
  using assms by (simp add: quote_binding_def PreRecordReportData_def slice_def)

text \<open>C20. A hardware quote cannot be moved to another run: when the same quote verifies in two
  records, and no run hash or kernel id of either holds a colon, both records name the same
  run (the same form of binding, the same hashes and kernel ids in the same order and number),
  or the two binding texts are a SHA-512 collision. This holds across the two binding forms. The
  check of the quote does not ask for texts without a colon (colon_kernels_share_quote); the
  formula of an execution record does, which takes only 64 lowercase hexadecimal characters.\<close>

theorem quote_binds_run:
  assumes "hc_Match (verifySevSnpQuote g b)" and "hc_Match (verifySevSnpQuote g b')"
    and quote: "hw_quote_b64 (ab_hardware_attestation b) = hw_quote_b64 (ab_hardware_attestation b')"
    and run: "quoted_run b = Some ps" "quoted_run b' = Some qs"
    and free: "\<forall>p \<in> set (tl ps). CHR '':'' \<notin> set p" "\<forall>p \<in> set (tl qs). CHR '':'' \<notin> set p"
  shows "ps = qs \<or> (join (CHR '':'') ps \<noteq> join (CHR '':'') qs
    \<and> gl_sha512 g (join (CHR '':'') ps) = gl_sha512 g (join (CHR '':'') qs))"
proof -
  have "quote_binding g b = quote_binding g b'"
    using assms(1,2) quote by (auto simp: sev_quote_exact Let_def)
  then have digest: "gl_sha512 g (join (CHR '':'') ps) = gl_sha512 g (join (CHR '':'') qs)"
    by (simp add: quote_binding_parts run)
  note ps = quoted_run_free [OF run(1) free(1)] and qs = quoted_run_free [OF run(2) free(2)]
  have "ps = qs" if "join (CHR '':'') ps = join (CHR '':'') qs"
    using join_component [OF that ps(1) qs(1)] concat_split_free [OF ps(2)] concat_split_free [OF qs(2)]
    by simp
  with digest show ?thesis by blast
qed

text \<open>A chain of three certificates of one byte each, and a report whose signature is zero.\<close>

definition quote_lib :: golib where
  "quote_lib = toy_lib\<lparr>gl_pem_decode := (\<lambda>p. case p of [] \<Rightarrow> None
       | c # r \<Rightarrow> Some (\<lparr>pem_type = ''CERTIFICATE'', pem_bytes = [c]\<rparr>, r)),
     gl_sha512 := (\<lambda>p. replicate 64 (CHR ''d'')),
     gl_sha256 := (\<lambda>d. if d = ''R'' then the (hex_decode ARKMilanRootSHA256)
       else if d = ''I'' then the (hex_decode SEVVLEKMilanIntermediateSHA256) else toy_digest d)\<rparr>"

definition sample_report :: bytes where
  "sample_report = replicate 52 (CHR 0x00) @ [CHR 0x01] @ replicate 19 (CHR 0x00) @ [CHR 0x04]
     @ replicate 7 (CHR 0x00) @ replicate 64 (CHR ''d'') @ replicate 1040 (CHR 0x00)"

definition sample_leaf :: x509_cert where
  "sample_leaf = \<lparr>xc_raw = ''L'', xc_raw_tbs = ''L'',
     xc_ecdsa = Some \<lparr>ek_p256 = False, ek_point = ''L''\<rparr>, xc_rest = []\<rparr>"

definition sample_claim :: sevsnp_claim where
  "sample_claim = \<lparr>vc_platform = [], vc_root_fingerprint_sha256 = ARKMilanRootSHA256,
     vc_chain_verified = True, vc_signature_verified = True, vc_report_data_bound = True,
     vc_signing_key_type = ''vlek'', vc_report_version = 0,
     vc_measurement_hex = hex_encode (replicate 48 (CHR 0x00)),
     vc_report_id_hex = hex_encode (replicate 32 (CHR 0x00)),
     vc_current_tcb_hex = replicate 16 (CHR ''0''), vc_reported_tcb_hex = replicate 16 (CHR ''0''),
     vc_report_data_hex = hex_encode (replicate 64 (CHR ''d'')),
     vc_vlek_leaf_sha256 = fingerprint quote_lib sample_leaf\<rparr>"

definition quoted_sample :: "string \<Rightarrow> audit_bundle" where
  "quoted_sample job = zero_audit_bundle\<lparr>
     ab_envelope := zero_envelope\<lparr>env_envelope_id := job\<rparr>,
     ab_final_vfa := zero_final_vfa\<lparr>vf_envelope_hash := replicate 64 (CHR ''a''),
       vf_aer_hash := replicate 64 (CHR ''b'')\<rparr>,
     ab_hardware_attestation := zero_hardware_attestation\<lparr>
       hw_quote_b64 := base64_encode sample_report, hw_vlek_cert_pem := ''L'', hw_cert_chain_pem := ''IR'',
       hw_enclave_measurement := hex_encode (replicate 48 (CHR 0x00)),
       hw_report_data_hex := hex_encode (replicate 64 (CHR ''d'')),
       hw_verification := Some sample_claim\<rparr>\<rparr>"

lemma sample_chain:
  "parseCerts quote_lib ''L'' = Inr [sample_leaf]"
  "parseCerts quote_lib ''IR'' = Inr [sample_leaf\<lparr>xc_raw := ''I'', xc_raw_tbs := ''I'', xc_ecdsa := Some \<lparr>ek_p256 = False, ek_point = ''I''\<rparr>\<rparr>,
     sample_leaf\<lparr>xc_raw := ''R'', xc_raw_tbs := ''R'', xc_ecdsa := Some \<lparr>ek_p256 = False, ek_point = ''R''\<rparr>\<rparr>]"
  by (simp_all add: parseCerts_def parse_block_def quote_lib_def toy_lib_def sample_leaf_def)

lemma pinned_bytes:
  "hex_encode (the (hex_decode ARKMilanRootSHA256)) = ARKMilanRootSHA256"
  "hex_encode (the (hex_decode SEVVLEKMilanIntermediateSHA256)) = SEVVLEKMilanIntermediateSHA256"
  by code_simp+

lemma le_nat_zeros: "le_nat (replicate n (CHR 0x00)) = 0"
  by (induction n) simp_all

lemma sample_fields:
  "length sample_report = reportLen" "le_uint32 sample_report 0x34 = 1" "key_type_bits sample_report = 1"
  "byte_range sample_report 0x50 0x90 = replicate 64 (CHR ''d'')"
  "byte_range sample_report 0x90 0xC0 = replicate 48 (CHR 0x00)"
  "byte_range sample_report 0x140 0x160 = replicate 32 (CHR 0x00)"
  "le_uint32 sample_report 0 = 0" "le_uint64 sample_report 0x38 = 0" "le_uint64 sample_report 0x180 = 0"
  "take 144 (drop reportBodyLen sample_report) = replicate 144 (CHR 0x00)"
  by (simp_all add: sample_report_def byte_range_def le_uint32_def le_uint64_def key_type_bits_def reportLen_def
    reportBodyLen_def take_Cons' drop_Cons' le_nat_zeros)

lemma be_nat_zeros: "be_nat (rev (replicate n (CHR 0x00))) = 0"
  by (induction n) (simp_all add: be_nat_def)

lemma sample_signed: "report_signed quote_lib sample_report ''L'' ''IR'' sample_leaf"
proof -
  have sig: "take 72 (drop reportBodyLen sample_report) = replicate 72 (CHR 0x00)"
    "take 72 (drop 72 (drop reportBodyLen sample_report)) = replicate 72 (CHR 0x00)"
    using arg_cong [OF sample_fields(10), of "take 72"] arg_cong [OF sample_fields(10), of "drop 72"]
    by (simp_all add: drop_take)
  show ?thesis
    unfolding report_signed_def sig be_nat_zeros sample_chain
    by (simp add: quote_lib_def toy_lib_def sample_leaf_def fingerprint_def sha256_hex_def pinned_bytes)
qed

lemma hex_zero: "hex_pad 16 0 = replicate 16 (CHR ''0'')"
  by code_simp

lemma quoted_sample_match: "hc_Match (verifySevSnpQuote quote_lib (quoted_sample job))"
proof -
  have states: "states_report (ab_hardware_attestation (quoted_sample job)) sample_claim
      (report_read quote_lib sample_report sample_leaf)"
    by (simp add: states_report_def stated_rows_def report_read_def sample_fields quoted_sample_def sample_claim_def
      int_str_def hex_zero)
  have binding: "quote_binding quote_lib (quoted_sample job) = Some (replicate 64 (CHR ''d''))"
    by (simp add: quote_binding_def quoted_sample_def zero_defs BindingReportData_def quote_lib_def)
  have "hw_quote_b64 (ab_hardware_attestation (quoted_sample job)) = base64_encode sample_report"
    "base64_encode sample_report \<noteq> []"
    using base64_round_trip [of sample_report] by (auto simp: quoted_sample_def sample_report_def base64_decode_def)
  then show ?thesis
    unfolding sev_quote_exact Let_def
    using states binding sample_signed
    by (auto simp: base64_round_trip sample_fields quoted_sample_def)
qed

lemma quote_binds_run_witness:
  defines "run \<equiv> [bindingDomain, replicate 64 (CHR ''a''), replicate 64 (CHR ''b'')]"
  shows "hc_Match (verifySevSnpQuote quote_lib (quoted_sample ''job-1''))
    \<and> hc_Match (verifySevSnpQuote quote_lib (quoted_sample ''job-2''))
    \<and> (run = run \<or> (join (CHR '':'') run \<noteq> join (CHR '':'') run
        \<and> gl_sha512 quote_lib (join (CHR '':'') run) = gl_sha512 quote_lib (join (CHR '':'') run)))"
proof -
  have run: "quoted_run (quoted_sample j) = Some run" for j
    by (simp add: quoted_run_def quoted_sample_def zero_defs run_def)
  have quote: "hw_quote_b64 (ab_hardware_attestation (quoted_sample ''job-1'')) = hw_quote_b64 (ab_hardware_attestation (quoted_sample ''job-2''))"
    by (simp add: quoted_sample_def)
  have free: "\<forall>p \<in> set (tl run). CHR '':'' \<notin> set p"
    by (simp add: run_def)
  from quote_binds_run [OF quoted_sample_match quoted_sample_match quote run run free free]
  show ?thesis using quoted_sample_match by blast
qed

section \<open>What the execution record's rows say\<close>

text \<open>The rows of an execution record are exactly these facts: the section's record hash is
  the one the final VFA seals, its kernel ids are the execution artifact's, its hardware slot
  is the hash of the bundle's quote (or the no-hardware constant when it claims none), and its
  record and proof hashes are the recomputed ones. Where a recomputation fails, the row compares
  with the text of the error instead.\<close>

lemma execution_rows_exact:
  "list_all hc_Match (verifyExecutionRecord g b r) \<longleftrightarrow>
     (case RecomputeExecutionRecord g r of
        Inr (a, p) \<Rightarrow> er_aer_hash r = a \<and> er_proof_hash r = p
      | Inl e \<Rightarrow> er_aer_hash r = error_text g b e \<and> er_proof_hash r = error_text g b e)
     \<and> vf_aer_hash (ab_final_vfa b) = er_aer_hash r
     \<and> join (CHR 0x2C) (slice (aer_execution_ids (ab_aer b))) = join (CHR 0x2C) (slice (er_kernel_output_ids r))
     \<and> (if er_hardware_attested r
        then er_hardware_attestation_hash r
          = (case ExecutionRecordHardwareHash g b of Inr h \<Rightarrow> h | Inl e \<Rightarrow> error_text g b e)
        else er_hardware_attestation_hash r = NoHardwareAttestationHash g)"
  by (auto simp: verifyExecutionRecord_def Let_def split: sum.splits prod.splits)

text \<open>A record without kernels, which no formula accepts, whose hashes are the error's text.\<close>

definition no_kernel_text :: string where
  "no_kernel_text = ''error: aer.v1: at least one kernel output id is required''"

definition unproved_record :: "golib \<Rightarrow> execution_record" where
  "unproved_record g = \<lparr>er_kind = ExecutionRecordKind, er_formula = AerFormulaV1, er_input_hash = [],
     er_transport_hash = [], er_execution_control_hash = [], er_program_hash = [], er_kernel_output_ids = None,
     er_hardware_attestation_hash = NoHardwareAttestationHash g, er_hardware_attested = False,
     er_aer_hash = no_kernel_text, er_proof_hash = no_kernel_text\<rparr>"

definition unproved_bundle :: "golib \<Rightarrow> audit_bundle" where
  "unproved_bundle g = zero_audit_bundle\<lparr>ab_execution_record := Some (unproved_record g),
     ab_final_vfa := zero_final_vfa\<lparr>vf_aer_hash := no_kernel_text\<rparr>\<rparr>"

text \<open>An execution record that cannot be recomputed can still pass every one of its rows: the
  text of the recomputation's error stands in for the computed hash, and a record whose two
  hashes are that text agrees with it.\<close>

lemma execution_record_error_passes:
  "RecomputeExecutionRecord g (unproved_record g) = Inl NoKernelIds
     \<and> list_all hc_Match (verifyExecutionRecord g (unproved_bundle g) (unproved_record g))"
  by (simp add: verifyExecutionRecord_def RecomputeExecutionRecord_def ComputeAerV1_def unproved_record_def
    unproved_bundle_def error_text_def no_kernel_text_def zero_defs slice_def)

section \<open>What a certificate file reads as\<close>

text \<open>The blocks of a file, one after the other, until the decoder finds no more.\<close>

inductive pem_blocks :: "golib \<Rightarrow> bytes \<Rightarrow> pem_block list \<Rightarrow> bool" for g where
  no_block: "gl_pem_decode g p = None \<Longrightarrow> pem_blocks g p []"
| next_block: "gl_pem_decode g p = Some (b, r) \<Longrightarrow> pem_blocks g r bs \<Longrightarrow> pem_blocks g p (b # bs)"

inductive_simps pem_blocks_simps: "pem_blocks g p bs"

text \<open>The contents of the blocks that are certificates.\<close>

definition cert_ders :: "pem_block list \<Rightarrow> bytes list" where
  "cert_ders bs = map pem_bytes (filter (\<lambda>b. pem_type b = ''CERTIFICATE'') bs)"

text \<open>The first place a text stands at in another.\<close>

definition first_at :: "bytes \<Rightarrow> bytes \<Rightarrow> nat \<Rightarrow> bool" where
  "first_at s p i \<longleftrightarrow> take (length p) (drop i s) = p \<and> (\<forall>j < i. take (length p) (drop j s) \<noteq> p)"

text \<open>How a certificate reads: as the parser reads it; or, when the parser refuses it, as the
  parser reads the copy whose zero serial number, which stands among the first 24 bytes of the
  signed part, is one, with the original bytes kept for the fingerprint and for the
  signature.\<close>

definition cert_reading :: "golib \<Rightarrow> bytes \<Rightarrow> x509_cert \<Rightarrow> bool" where
  "cert_reading g der c \<longleftrightarrow> gl_parse_certificate g der = Some c
     \<or> (gl_parse_certificate g der = None
        \<and> (\<exists>tbs k i patched. gl_certificate_tbs g der = Some tbs
             \<and> first_at der tbs k \<and> first_at (take 24 tbs) [CHR 0x02, CHR 0x01, CHR 0x00] i
             \<and> gl_parse_certificate g (der[k + i + 2 := CHR 0x01]) = Some patched
             \<and> c = patched\<lparr>xc_raw := der, xc_raw_tbs := tbs\<rparr>))"

definition first_refused :: "golib \<Rightarrow> bytes list \<Rightarrow> cert_error \<Rightarrow> bool" where
  "first_refused g ders e \<longleftrightarrow> (\<exists>pre der post. ders = pre @ der # post
     \<and> (\<forall>d \<in> set pre. \<exists>c. cert_reading g d c) \<and> parse_block g der = Inl e)"

lemma index_of_iff: "index_of s p = Some i \<longleftrightarrow> first_at s p i"
proof (induction s arbitrary: i)
  case Nil
  show ?case by (auto simp: index_of.simps first_at_def)
next
  case (Cons x t)
  show ?case
    using Cons.IH by (cases i) (auto simp: index_of.simps [of "x # t"] first_at_def less_Suc_eq_0_disj)
qed

lemma parse_block_reads: "parse_block g der = Inr c \<longleftrightarrow> cert_reading g der c"
proof -
  have limit: "take (if length t < 24 then length t else 24) t = take 24 t" for t :: bytes by simp
  show ?thesis
    by (auto simp: parse_block_def parseCertLenientSerial_def patchZeroSerial_def cert_reading_def Let_def limit
        index_of_iff [symmetric] split: option.splits sum.splits)
qed

lemma parse_block_fuel: "parse_block g d \<noteq> Inl CertOutOfFuel"
  by (auto simp: parse_block_def parseCertLenientSerial_def patchZeroSerial_def Let_def
    split: option.splits sum.splits if_splits)

lemma first_refused_simps [simp]:
  "\<not> first_refused g [] e"
  "first_refused g (d # ds) e \<longleftrightarrow> parse_block g d = Inl e \<or> ((\<exists>c. cert_reading g d c) \<and> first_refused g ds e)"
    (is "?l \<longleftrightarrow> ?r")
proof -
  show "\<not> first_refused g [] e" by (simp add: first_refused_def)
  show "?l \<longleftrightarrow> ?r"
  proof
    assume ?l
    then obtain pre der post where d: "d # ds = pre @ der # post" "\<forall>x \<in> set pre. \<exists>c. cert_reading g x c" "parse_block g der = Inl e"
      unfolding first_refused_def by blast
    then show ?r by (cases pre) (auto simp: first_refused_def)
  next
    assume ?r
    then show ?l
    proof
      assume "parse_block g d = Inl e"
      then have "d # ds = [] @ d # ds \<and> (\<forall>x \<in> set []. \<exists>c. cert_reading g x c) \<and> parse_block g d = Inl e" by simp
      then show ?l unfolding first_refused_def by blast
    next
      assume "(\<exists>c. cert_reading g d c) \<and> first_refused g ds e"
      then obtain pre der post where "d # ds = (d # pre) @ der # post" "\<forall>x \<in> set (d # pre). \<exists>c. cert_reading g x c" "parse_block g der = Inl e"
        unfolding first_refused_def by auto
      then show ?l unfolding first_refused_def by blast
    qed
  qed
qed

text \<open>A decoder that takes a block off the front of its input leaves fewer bytes each round, so a
  file has at most as many blocks as bytes.\<close>

definition pem_shrinks :: "golib \<Rightarrow> bool" where
  "pem_shrinks g \<longleftrightarrow> (\<forall>p blk r. gl_pem_decode g p = Some (blk, r) \<longrightarrow> length r < length p)"

lemma blocks_bounded:
  assumes "pem_shrinks g"
  shows "\<exists>bs. pem_blocks g p bs \<and> length bs \<le> length p"
proof (induction p rule: length_induct)
  case (1 p)
  show ?case
  proof (cases "gl_pem_decode g p")
    case None
    then show ?thesis by (auto intro: no_block)
  next
    case (Some d)
    then obtain b r where d: "gl_pem_decode g p = Some (b, r)" by (cases d) auto
    obtain bs where "pem_blocks g r bs" "length bs \<le> length r" using 1 assms d unfolding pem_shrinks_def by blast
    moreover have "length r < length p" using assms d by (simp add: pem_shrinks_def)
    ultimately show ?thesis by (intro exI [of _ "b # bs"]) (simp add: next_block [OF d])
  qed
qed

lemma parse_loop_exact:
  assumes "pem_blocks g p bs" and "length bs < n"
  shows "(parse_loop g n out p = Inr cs \<longleftrightarrow> (\<exists>ds. cs = out @ ds \<and> list_all2 (cert_reading g) (cert_ders bs) ds))
    \<and> (parse_loop g n out p = Inl e \<longleftrightarrow> first_refused g (cert_ders bs) e)"
  using assms
proof (induction arbitrary: n out rule: pem_blocks.induct)
  case (no_block p)
  then show ?case by (cases n) (auto simp: cert_ders_def)
next
  case (next_block p b r bs)
  then obtain m where m: "n = Suc m" "length bs < m" by (cases n) auto
  show ?case
  proof (cases "pem_type b = ''CERTIFICATE''")
    case False
    then show ?thesis using next_block.IH [OF m(2)] next_block.hyps(1) m(1) by (simp add: cert_ders_def)
  next
    case True
    then have ders: "cert_ders (b # bs) = pem_bytes b # cert_ders bs" by (simp add: cert_ders_def)
    show ?thesis
    proof (cases "parse_block g (pem_bytes b)")
      case (Inl e')
      then have "\<not> cert_reading g (pem_bytes b) c" for c using parse_block_reads [of g "pem_bytes b" c] by simp
      then show ?thesis using Inl True next_block.hyps(1) m(1) by (auto simp: ders list_all2_Cons1)
    next
      case (Inr c)
      then have "cert_reading g (pem_bytes b) d \<longleftrightarrow> d = c" for d using parse_block_reads [of g "pem_bytes b" d] by auto
      then show ?thesis
        using Inr True next_block.hyps(1) m(1) next_block.IH [OF m(2), of "out @ [c]"]
        by (auto simp: ders list_all2_Cons1)
    qed
  qed
qed

text \<open>C21. Reading a certificate file ends, and reads what the file holds. The one law is that of a decoder
  which takes a block off the front of its input (encoding/pem): a block it returns leaves fewer
  bytes. Then the file has a list of blocks, at most one for each byte, and the loop, whose fuel
  of one round for each byte and one more never runs out, gives the certificates of
  all its CERTIFICATE blocks in their order, whatever other blocks stand between them, each as
  cert_reading says; it fails with the error of the first block that cannot be read, or because
  no block is a certificate, and never otherwise.\<close>

theorem parseCerts_exact:
  assumes "pem_shrinks g"
  shows "\<exists>bs. pem_blocks g pem bs \<and> length bs \<le> length pem
    \<and> (\<forall>cs. parseCerts g pem = Inr cs \<longleftrightarrow> cs \<noteq> [] \<and> list_all2 (cert_reading g) (cert_ders bs) cs)
    \<and> (\<forall>e. parseCerts g pem = Inl e \<longleftrightarrow> cert_ders bs = [] \<and> e = NoCertificates \<or> first_refused g (cert_ders bs) e)
    \<and> parseCerts g pem \<noteq> Inl CertOutOfFuel"
proof -
  obtain bs where bs: "pem_blocks g pem bs" "length bs \<le> length pem" using blocks_bounded [OF assms] by blast
  let ?ders = "cert_ders bs" and ?loop = "parse_loop g (Suc (length pem)) [] pem"
  have ok: "?loop = Inr cs \<longleftrightarrow> list_all2 (cert_reading g) ?ders cs" for cs
    using parse_loop_exact [OF bs(1), of "Suc (length pem)" "[]" cs] bs(2) by simp
  have err: "?loop = Inl e \<longleftrightarrow> first_refused g ?ders e" for e
    using parse_loop_exact [OF bs(1), of "Suc (length pem)" "[]"] bs(2) by simp
  have fuel: "\<not> first_refused g ?ders CertOutOfFuel" by (simp add: first_refused_def parse_block_fuel)
  show ?thesis
  proof (cases ?loop)
    case (Inl e)
    then show ?thesis using bs ok err fuel by (intro exI [of _ bs]) (auto simp: parseCerts_def)
  next
    case (Inr cs)
    then have "list_all2 (cert_reading g) ?ders cs" by (simp only: ok)
    moreover from this have "cs = [] \<longleftrightarrow> ?ders = []" by auto
    ultimately show ?thesis using Inr bs ok err fuel by (intro exI [of _ bs]) (auto simp: parseCerts_def)
  qed
qed

text \<open>A file of two certificates.\<close>

lemma parseCerts_exact_witness:
  "\<exists>bs. pem_blocks quote_lib ''IR'' bs \<and> length (cert_ders bs) = 2"
proof -
  have "pem_shrinks quote_lib" by (auto simp: pem_shrinks_def quote_lib_def toy_lib_def split: list.splits)
  from parseCerts_exact [OF this, of "''IR''"]
  obtain bs where "pem_blocks quote_lib ''IR'' bs"
    and "\<And>cs. parseCerts quote_lib ''IR'' = Inr cs \<Longrightarrow> list_all2 (cert_reading quote_lib) (cert_ders bs) cs" by blast
  with list_all2_lengthD [OF this(2) [OF sample_chain(2)]] show ?thesis by auto
qed

end
