(* ===== verification/RunSample.thy ===== *)
theory RunSample
  imports Actor BoundCopies PolicyGate
begin

text \<open>
  A record that passes every check: a run sealed as the builder seals one, with its section
  hashes, the seals over them, the bundle hash, the pre-anchor table, the leaf of its entry on the
  public log and the second entry over the complete record. Its job block is a parameter, since
  no check of an unsigned record reads it, and so is the root hash of its entry, which only the log's
  verifier reads. The properties of the whole verdict are applied to it.
\<close>

definition run_id :: string where "run_id = ''env-0123456789abcdef''"

definition run_seal :: "string \<Rightarrow> seal_reference" where
  "run_seal h = zero_seal_reference\<lparr>sr_manifest_hash := ''manifest'', sr_sealed_hash := h\<rparr>"

definition run_nrep :: "job_link option \<Rightarrow> nrep_section" where
  "run_nrep j = zero_nrep_section\<lparr>nr_job := j\<rparr>"

definition run_base :: "job_link option \<Rightarrow> string \<Rightarrow> audit_bundle" where
  "run_base j r = zero_audit_bundle\<lparr>ab_kind := ''verdifax.bundle'', ab_manifest_hash := ''manifest'',
     ab_envelope := zero_envelope\<lparr>env_envelope_id := run_id, env_seal := run_seal []\<rparr>,
     ab_transport := zero_transport\<lparr>tr_envelope_id := run_id, tr_seal := run_seal []\<rparr>,
     ab_epa := zero_epa\<lparr>epa_seal := run_seal []\<rparr>, ab_efa := zero_efa\<lparr>efa_seal := run_seal []\<rparr>,
     ab_aer := zero_aer\<lparr>aer_envelope_id := run_id, aer_seal := run_seal ''aa''\<rparr>,
     ab_transcript := zero_transcript\<lparr>ts_proof_hash_input := ''aa'', ts_seal := run_seal []\<rparr>,
     ab_hardware_attestation := zero_hardware_attestation\<lparr>hw_seal := run_seal []\<rparr>,
     ab_leakage_bundle := zero_leakage_bundle\<lparr>lb_seal := run_seal []\<rparr>,
     ab_zksp_binding := zero_zksp_binding\<lparr>zk_seal := run_seal ''bb''\<rparr>,
     ab_migration_token := zero_migration_token\<lparr>mt_seal := run_seal []\<rparr>,
     ab_replay_fingerprint := zero_replay_fingerprint\<lparr>rf_expected_output_hash := ''manifest'', rf_seal := run_seal []\<rparr>,
     ab_pote_proof := zero_pote_proof\<lparr>pp_execution_trace_hash := ''aa'', pp_ledger_backend := ''rekor'',
       pp_integrated_time := 1793534460, pp_seal := run_seal []\<rparr>,
     ab_final_vfa := zero_final_vfa\<lparr>vf_aer_hash := ''aa'', vf_zksp_binding_hash := ''bb'', vf_seal := run_seal []\<rparr>,
     ab_nrep := run_nrep j,
     ab_rekor_anchor := zero_rekor_anchor\<lparr>ra_backend := ''rekor'', ra_input_nonce := 5, ra_integrated_time := 1793534460,
       ra_root_hash := r, ra_entry_body := base64_encode signed_body\<rparr>\<rparr>"

text \<open>The five sections whose seal names the section's own hash.\<close>

definition with_seals :: "audit_bundle \<Rightarrow> audit_bundle" where
  "with_seals b = b\<lparr>
     ab_request_substance := (ab_request_substance b)\<lparr>rq_seal := run_seal (rq_hash (ab_request_substance b))\<rparr>,
     ab_authorization_chain := (ab_authorization_chain b)\<lparr>az_seal := run_seal (az_hash (ab_authorization_chain b))\<rparr>,
     ab_regulatory_scaffolding := (ab_regulatory_scaffolding b)\<lparr>rg_seal := run_seal (rg_hash (ab_regulatory_scaffolding b))\<rparr>,
     ab_causal_graph := (ab_causal_graph b)\<lparr>cg_seal := run_seal (cg_hash (ab_causal_graph b))\<rparr>,
     ab_system_provenance := (ab_system_provenance b)\<lparr>sp_seal := run_seal (sp_hash (ab_system_provenance b))\<rparr>\<rparr>"

text \<open>The table states the run's clock, which an unsigned record does not display.\<close>

definition run_clock :: string where "run_clock = ''2026-11-01T12:00:00Z''"

definition run_table :: "golib \<Rightarrow> audit_bundle \<Rightarrow> table" where
  "run_table g b = map (\<lambda>n. \<lparr>pe_name = n, pe_value =
     (if n = CompleteRecordAnchorRow then CompleteRecordAnchorRequired
      else if n = ''clock_epoch'' then run_clock
      else map_get (map_of (displayed g b)) n)\<rparr>) PreAnchorNamesV2"

definition with_run_table :: "golib \<Rightarrow> audit_bundle \<Rightarrow> audit_bundle" where
  "with_run_table g b = b\<lparr>ab_pre_anchor := run_table g b,
     ab_pre_anchor_digest := ComputePreAnchorDigestForTable g (run_table g b)\<rparr>"

definition with_bundle_hash :: "golib \<Rightarrow> audit_bundle \<Rightarrow> audit_bundle" where
  "with_bundle_hash g b = b\<lparr>ab_bundle_hash := RecomputeBundleHash g b\<rparr>"

text \<open>The second entry, logged five seconds after the first by the same signer.\<close>

definition with_entry :: "golib \<Rightarrow> audit_bundle \<Rightarrow> audit_bundle" where
  "with_entry g b = (with_anchor g b)\<lparr>ab_bundle_anchor := map_option
     (\<lambda>a. a\<lparr>ba_integrated_time := 1793534465, ba_entry_body := base64_encode signed_body\<rparr>)
     (ab_bundle_anchor (with_anchor g b))\<rparr>"

definition run_tabled :: "job_link option \<Rightarrow> string \<Rightarrow> audit_bundle" where
  "run_tabled j r = with_run_table toy_lib (with_bundle_hash toy_lib (with_seals (fill_hashes toy_lib (run_base j r))))"

definition run_sample :: "job_link option \<Rightarrow> string \<Rightarrow> audit_bundle" where
  "run_sample j r = with_entry toy_lib (with_leaf toy_lib (run_tabled j r))"

definition run_pins :: "(string \<times> pinned_signer) list" where
  "run_pins = [(sha256_hex toy_lib ''pem'', sample_pin)]"

lemmas run_defs = run_sample_def run_tabled_def with_entry_def with_anchor_def with_leaf_def with_run_table_def with_bundle_hash_def
  with_seals_def fill_hashes_def run_base_def zero_audit_bundle_def

section \<open>The hashes\<close>

lemma seals_unhashed: "section_sources g (with_seals b) = section_sources g b" "stored_hashes (with_seals b) = stored_hashes b"
  by (simp_all add: section_sources_def with_seals_def preimage_defs stored_hashes_def)

lemma run_sources:
  "section_sources toy_lib (run_sample j r) = section_sources toy_lib (run_base j r)"
  "stored_hashes (run_sample j r) = recomputed_hashes toy_lib (run_sample j r)"
proof -
  have t: "section_sources g (run_sample j r) = section_sources g (with_seals (fill_hashes toy_lib (run_base j r)))"
    "stored_hashes (run_sample j r) = stored_hashes (with_seals (fill_hashes toy_lib (run_base j r)))" for g
    by (simp_all add: run_sample_def run_tabled_def with_entry_def with_anchor_def with_leaf_def with_run_table_def
        with_bundle_hash_def section_sources_def stored_hashes_def)
  show s: "section_sources toy_lib (run_sample j r) = section_sources toy_lib (run_base j r)"
    by (simp only: t seals_unhashed fill_sources)
  show "stored_hashes (run_sample j r) = recomputed_hashes toy_lib (run_sample j r)"
    by (simp add: t(2) recomputed_pre seals_unhashed s)
qed

lemma run_bundle_hash: "ab_bundle_hash (run_sample j r) = RecomputeBundleHash toy_lib (run_sample j r)"
proof -
  let ?b = "with_seals (fill_hashes toy_lib (run_base j r))"
  have "audit_bundle_preimage (run_sample j r) = audit_bundle_preimage ?b"
    "ab_bundle_hash (run_sample j r) = RecomputeBundleHash toy_lib ?b"
    by (simp_all add: run_sample_def run_tabled_def with_entry_def with_anchor_def with_leaf_def with_run_table_def
        with_bundle_hash_def audit_bundle_preimage_def)
  then show ?thesis by (simp add: RecomputeBundleHash_def)
qed

section \<open>Fields\<close>

lemma run_sections:
  "ab_payload (run_sample j r) = (ab_payload (run_base j r))\<lparr>pl_hash := RecomputePayloadHash toy_lib (ab_payload (run_base j r))\<rparr>"
  "ab_envelope (run_sample j r) = (ab_envelope (run_base j r))\<lparr>env_hash := RecomputeEnvelopeHash toy_lib (ab_envelope (run_base j r))\<rparr>"
  "ab_transport (run_sample j r) = (ab_transport (run_base j r))\<lparr>tr_hash := RecomputeTransportHash toy_lib (ab_transport (run_base j r))\<rparr>"
  "ab_epa (run_sample j r) = (ab_epa (run_base j r))\<lparr>epa_hash := RecomputeEPAHash toy_lib (ab_epa (run_base j r))\<rparr>"
  "ab_efa (run_sample j r) = (ab_efa (run_base j r))\<lparr>efa_hash := RecomputeEFAHash toy_lib (ab_efa (run_base j r))\<rparr>"
  "ab_aer (run_sample j r) = (ab_aer (run_base j r))\<lparr>aer_hash := RecomputeAERHash toy_lib (ab_aer (run_base j r))\<rparr>"
  "ab_transcript (run_sample j r) = (ab_transcript (run_base j r))\<lparr>ts_hash := RecomputeTranscriptHash toy_lib (ab_transcript (run_base j r))\<rparr>"
  "ab_hardware_attestation (run_sample j r) = (ab_hardware_attestation (run_base j r))\<lparr>hw_hash := RecomputeHardwareAttestationHash toy_lib (ab_hardware_attestation (run_base j r))\<rparr>"
  "ab_leakage_bundle (run_sample j r) = (ab_leakage_bundle (run_base j r))\<lparr>lb_hash := RecomputeLeakageBundleHash toy_lib (ab_leakage_bundle (run_base j r))\<rparr>"
  "ab_zksp_binding (run_sample j r) = (ab_zksp_binding (run_base j r))\<lparr>zk_hash := RecomputeZkspBindingHash toy_lib (ab_zksp_binding (run_base j r))\<rparr>"
  "ab_migration_token (run_sample j r) = (ab_migration_token (run_base j r))\<lparr>mt_hash := RecomputeMigrationTokenHash toy_lib (ab_migration_token (run_base j r))\<rparr>"
  "ab_replay_fingerprint (run_sample j r) = (ab_replay_fingerprint (run_base j r))\<lparr>rf_hash := RecomputeReplayFingerprintHash toy_lib (ab_replay_fingerprint (run_base j r))\<rparr>"
  "ab_pote_proof (run_sample j r) = (ab_pote_proof (run_base j r))\<lparr>pp_hash := RecomputePoteProofHash toy_lib (ab_pote_proof (run_base j r))\<rparr>"
  "ab_final_vfa (run_sample j r) = (ab_final_vfa (run_base j r))\<lparr>vf_hash := RecomputeFinalVFAHash toy_lib (ab_final_vfa (run_base j r))\<rparr>"
  "ab_reproducibility_context (run_sample j r) = (ab_reproducibility_context (run_base j r))\<lparr>rc_hash := RecomputeReproducibilityContextHash toy_lib (ab_reproducibility_context (run_base j r))\<rparr>"
  "ab_request_substance (run_sample j r) = (ab_request_substance (run_base j r))\<lparr>rq_hash := RecomputeRequestSubstanceHash toy_lib (ab_request_substance (run_base j r)),
     rq_seal := run_seal (RecomputeRequestSubstanceHash toy_lib (ab_request_substance (run_base j r)))\<rparr>"
  "ab_authorization_chain (run_sample j r) = (ab_authorization_chain (run_base j r))\<lparr>az_hash := RecomputeAuthorizationChainHash toy_lib (ab_authorization_chain (run_base j r)),
     az_seal := run_seal (RecomputeAuthorizationChainHash toy_lib (ab_authorization_chain (run_base j r)))\<rparr>"
  "ab_regulatory_scaffolding (run_sample j r) = (ab_regulatory_scaffolding (run_base j r))\<lparr>rg_hash := RecomputeRegulatoryScaffoldingHash toy_lib (ab_regulatory_scaffolding (run_base j r)),
     rg_seal := run_seal (RecomputeRegulatoryScaffoldingHash toy_lib (ab_regulatory_scaffolding (run_base j r)))\<rparr>"
  "ab_causal_graph (run_sample j r) = (ab_causal_graph (run_base j r))\<lparr>cg_hash := RecomputeCausalGraphHash toy_lib (ab_causal_graph (run_base j r)),
     cg_seal := run_seal (RecomputeCausalGraphHash toy_lib (ab_causal_graph (run_base j r)))\<rparr>"
  "ab_system_provenance (run_sample j r) = (ab_system_provenance (run_base j r))\<lparr>sp_hash := RecomputeSystemProvenanceHash toy_lib (ab_system_provenance (run_base j r)),
     sp_seal := run_seal (RecomputeSystemProvenanceHash toy_lib (ab_system_provenance (run_base j r)))\<rparr>"
  "ab_generated_at (run_sample j r) = ab_generated_at (run_base j r)"
  "ab_aivp_t4 (run_sample j r) = ab_aivp_t4 (run_base j r)"
  "ab_status (run_sample j r) = ab_status (run_base j r)"
  "ab_run_id (run_sample j r) = ab_run_id (run_base j r)"
  "ab_nrep (run_sample j r) = ab_nrep (run_base j r)"
  "ab_runtime_timing (run_sample j r) = ab_runtime_timing (run_base j r)"
  "ab_runtime_timing_hash (run_sample j r) = ab_runtime_timing_hash (run_base j r)"
  "ab_formal_verification (run_sample j r) = ab_formal_verification (run_base j r)"
  "ab_execution_record (run_sample j r) = ab_execution_record (run_base j r)"
  "ab_kind (run_sample j r) = ab_kind (run_base j r)"
  "ab_schema_version (run_sample j r) = ab_schema_version (run_base j r)"
  "ab_manifest_hash (run_sample j r) = ab_manifest_hash (run_base j r)"
  "ab_nrep_section_hash (run_sample j r) = ab_nrep_section_hash (run_base j r)"
  "ab_scaffold_flags_hash (run_sample j r) = ab_scaffold_flags_hash (run_base j r)"
  "ab_attested_digest (run_sample j r) = ab_attested_digest (run_base j r)"
  by (simp_all add: run_sample_def run_tabled_def with_entry_def with_anchor_def with_leaf_def with_run_table_def
      with_bundle_hash_def with_seals_def fill_hashes_def)

lemma run_anchor_field: "ab_rekor_anchor (run_sample j r) = (ab_rekor_anchor (run_base j r))
    \<lparr>ra_leaf_hash := sha256_hex toy_lib (leaf_preimage toy_lib (run_tabled j r))\<rparr>"
  by (simp add: run_sample_def run_tabled_def with_entry_def with_anchor_def with_leaf_def with_run_table_def
      with_bundle_hash_def with_seals_def fill_hashes_def)

lemma run_table_field: "ab_pre_anchor (run_sample j r)
    = run_table toy_lib (with_bundle_hash toy_lib (with_seals (fill_hashes toy_lib (run_base j r))))"
  by (simp add: run_sample_def run_tabled_def with_entry_def with_anchor_def with_leaf_def with_run_table_def)

lemmas run_projections = run_sections run_anchor_field run_base_def zero_audit_bundle_def

lemma run_fields:
  "ab_manifest_hash (run_sample j r) = ''manifest''" "ab_formal_verification (run_sample j r) = zero_formal_verification"
  "ab_execution_record (run_sample j r) = None" "ab_nrep (run_sample j r) = run_nrep j"
  "ab_runtime_timing_hash (run_sample j r) = []" "ab_runtime_timing (run_sample j r) = []"
  "hw_attestation_mode (ab_hardware_attestation (run_sample j r)) = []"
  "ra_backend (ab_rekor_anchor (run_sample j r)) = ''rekor''" "ra_integrated_time (ab_rekor_anchor (run_sample j r)) = 1793534460"
  "ra_entry_body (ab_rekor_anchor (run_sample j r)) = base64_encode signed_body"
  "env_envelope_id (ab_envelope (run_sample j r)) = run_id"
  "epa_policy_gate (ab_epa (run_sample j r)) = None" "epa_account_policy_gate (ab_epa (run_sample j r)) = None"
  by (simp_all add: run_projections zero_hardware_attestation_def zero_epa_def)

lemma run_values:
  "tr_envelope_id (ab_transport (run_sample j r)) = run_id"
  "aer_envelope_id (ab_aer (run_sample j r)) = run_id"
  "tr_envelope_hash (ab_transport (run_sample j r)) = []"
  "env_seal (ab_envelope (run_sample j r)) = run_seal []"
  "vf_envelope_hash (ab_final_vfa (run_sample j r)) = []"
  "aer_seal (ab_aer (run_sample j r)) = run_seal ''aa''"
  "vf_aer_hash (ab_final_vfa (run_sample j r)) = ''aa''"
  "pp_execution_trace_hash (ab_pote_proof (run_sample j r)) = ''aa''"
  "tr_seal (ab_transport (run_sample j r)) = run_seal []"
  "vf_transport_hash (ab_final_vfa (run_sample j r)) = []"
  "env_registry_record_hash (ab_envelope (run_sample j r)) = []"
  "pl_content_hash (ab_payload (run_sample j r)) = []"
  "env_payload_hash (ab_envelope (run_sample j r)) = []"
  "zk_seal (ab_zksp_binding (run_sample j r)) = run_seal ''bb''"
  "vf_zksp_binding_hash (ab_final_vfa (run_sample j r)) = ''bb''"
  "epa_seal (ab_epa (run_sample j r)) = run_seal []"
  "vf_epa_hash (ab_final_vfa (run_sample j r)) = []"
  "efa_seal (ab_efa (run_sample j r)) = run_seal []"
  "vf_efa_hash (ab_final_vfa (run_sample j r)) = []"
  "ts_seal (ab_transcript (run_sample j r)) = run_seal []"
  "vf_transcript_hash (ab_final_vfa (run_sample j r)) = []"
  "ts_transcript_hash (ab_transcript (run_sample j r)) = []"
  "hw_seal (ab_hardware_attestation (run_sample j r)) = run_seal []"
  "vf_hardware_attestation_hash (ab_final_vfa (run_sample j r)) = []"
  "hw_enclave_measurement (ab_hardware_attestation (run_sample j r)) = []"
  "hw_verification (ab_hardware_attestation (run_sample j r)) = None"
  "lb_seal (ab_leakage_bundle (run_sample j r)) = run_seal []"
  "vf_leakage_bundle_hash (ab_final_vfa (run_sample j r)) = []"
  "mt_seal (ab_migration_token (run_sample j r)) = run_seal []"
  "vf_migration_token_hash (ab_final_vfa (run_sample j r)) = []"
  "mt_state_hash (ab_migration_token (run_sample j r)) = []"
  "rf_seal (ab_replay_fingerprint (run_sample j r)) = run_seal []"
  "vf_replay_fingerprint (ab_final_vfa (run_sample j r)) = []"
  "rf_expected_output_hash (ab_replay_fingerprint (run_sample j r)) = ''manifest''"
  "pp_seal (ab_pote_proof (run_sample j r)) = run_seal []"
  "vf_pote_proof_hash (ab_final_vfa (run_sample j r)) = []"
  "vf_seal (ab_final_vfa (run_sample j r)) = run_seal []"
  "ai_outcome (ab_aivp_t4 (run_sample j r)) = []"
  "pp_ledger_backend (ab_pote_proof (run_sample j r)) = ''rekor''"
  "ra_log_entry_id (ab_rekor_anchor (run_sample j r)) = []"
  "pp_log_entry_id (ab_pote_proof (run_sample j r)) = []"
  "pp_integrated_time (ab_pote_proof (run_sample j r)) = 1793534460"
  "ra_checkpoint (ab_rekor_anchor (run_sample j r)) = []"
  "pp_ledger_checkpoint (ab_pote_proof (run_sample j r)) = []"
  "ts_proof_hash_input (ab_transcript (run_sample j r)) = ''aa''"
  "tr_sequence_id (ab_transport (run_sample j r)) = []"
  "aer_sequence_id (ab_aer (run_sample j r)) = []"
  "env_timestamp (ab_envelope (run_sample j r)) = []"
  "ab_generated_at (run_sample j r) = []"
  "epa_environment_snapshot (ab_epa (run_sample j r)) = zero_env_snapshot"
  "sp_orchestrator_git_sha (ab_system_provenance (run_sample j r)) = []"
  "sp_build_provenance (ab_system_provenance (run_sample j r)) = zero_build_provenance"
  "aer_decision (ab_aer (run_sample j r)) = zero_decision_record"
  "epa_attested_context (ab_epa (run_sample j r)) = zero_attested_context"
  "rq_seal (ab_request_substance (run_sample j r)) = run_seal (rq_hash (ab_request_substance (run_sample j r)))"
  "az_seal (ab_authorization_chain (run_sample j r)) = run_seal (az_hash (ab_authorization_chain (run_sample j r)))"
  "rg_seal (ab_regulatory_scaffolding (run_sample j r)) = run_seal (rg_hash (ab_regulatory_scaffolding (run_sample j r)))"
  "cg_seal (ab_causal_graph (run_sample j r)) = run_seal (cg_hash (ab_causal_graph (run_sample j r)))"
  "sp_seal (ab_system_provenance (run_sample j r)) = run_seal (sp_hash (ab_system_provenance (run_sample j r)))"
  "aer_execution_ids (ab_aer (run_sample j r)) = None"
  "efa_steps (ab_efa (run_sample j r)) = None"
  by (simp_all add: run_projections zero_transport_def zero_aer_def zero_final_vfa_def zero_pote_proof_def zero_envelope_def zero_payload_def
      zero_transcript_def zero_hardware_attestation_def zero_migration_token_def zero_replay_fingerprint_def zero_aivp_t4_section_def
      zero_rekor_anchor_def zero_epa_def zero_efa_def zero_system_provenance_def zero_zksp_binding_def zero_leakage_bundle_def
      zero_request_substance_def zero_authorization_chain_def zero_regulatory_scaffolding_def zero_causal_graph_def)

lemma run_seal_fields: "sr_manifest_hash (run_seal h) = ''manifest''" "sr_sealed_hash (run_seal h) = h"
  by (simp_all add: run_seal_def)

lemma run_copies: "verifyBoundCopies (run_sample j r) = []"
proof -
  have "rekorAnchored (run_sample j r)" "\<not> aivpRan (run_sample j r)" "\<not> sevSnp (run_sample j r)"
    by (simp_all add: rekorAnchored_def aivpRan_def sevSnp_def run_fields run_values)
  then show ?thesis
    unfolding no_copy_failure
    by (simp add: copy_defs execRecordField_def record_kernels_def listItem_def piaInExecutionIDs_def slice_def
        run_fields run_values run_seal_fields zero_env_snapshot_def zero_build_provenance_def zero_decision_record_def
        zero_attested_context_def)
qed

section \<open>The table and the leaf\<close>

lemma table_lookup:
  "preAnchorValue (map (\<lambda>n. \<lparr>pe_name = n, pe_value = f n\<rparr>) names) n = (if n \<in> set names then Some (f n) else None)"
  by (induction names) auto

lemma run_table_value: "preAnchorValue (run_table g b) n = (if n \<in> set PreAnchorNamesV2 then
    Some (if n = CompleteRecordAnchorRow then CompleteRecordAnchorRequired
      else if n = ''clock_epoch'' then run_clock else map_get (map_of (displayed g b)) n) else None)"
  by (simp add: run_table_def table_lookup)

lemma run_table_names: "map pe_name (run_table g b) = PreAnchorNamesV2"
  by (simp add: run_table_def comp_def)

lemma run_table_form: "PreAnchorTableForm (run_table g b) = PreAnchorFormV2"
  "\<not> TableSealsAnchoringWindow (run_table g b)" "TableRequiresCompleteRecordAnchor (run_table g b)"
  by (simp_all add: PreAnchorTableForm_def TableSealsAnchoringWindow_def TableRequiresCompleteRecordAnchor_def run_table_def
      PreAnchorNamesV2_def CompleteRecordAnchorRow_def AnchoringWindowRow_def)

lemma clock_row: "''clock_epoch'' \<in> set PreAnchorNamesV2" "''clock_epoch'' \<noteq> CompleteRecordAnchorRow"
  "AnchoringWindowRow \<notin> set PreAnchorNamesV2" "CompleteRecordAnchorRow \<in> set PreAnchorNamesV2"
  "''nrep_signed_at'' \<in> set PreAnchorNamesV2" "CompleteRecordAnchorRow \<noteq> ''nrep_signed_at''"
  by code_simp+

lemma run_table_match:
  assumes "epa_policy_gate (ab_epa b) = None" "nr_signed_at (ab_nrep b) = []"
  shows "pc_Match (verifyPreAnchor g (with_run_table g b))"
proof -
  let ?t = "run_table g b" and ?b = "with_run_table g b"
  have t: "ab_pre_anchor ?b = ?t" "ab_pre_anchor_digest ?b = ComputePreAnchorDigestForTable g ?t"
    "ab_epa ?b = ab_epa b" by (simp_all add: with_run_table_def)
  have v2: "frozen_names PreAnchorFormV2 = PreAnchorNamesV2"
    by (simp add: frozen_names_def PreAnchorFormV2_def PreAnchorFormV3_def)
  have s: "map_get (preAnchorValue ?t) ''nrep_signed_at'' = []"
    using clock_row by (simp add: map_get_def run_table_value signed_at_value assms(2))
  have d: "displayed g ?b = displayed g b"
    by (simp add: displayed_def preAnchorDisplayedRows_def with_run_table_def Let_def)
  have rows: "map (\<lambda>r. (row_name r, row_displayed r)) (preAnchorDisplayedRows g ?b (preAnchorValue ?t)) = displayed g b"
    using unsigned_rows [of ?b "preAnchorValue ?t" g] assms(1) s d t by simp
  have c: "map_of (displayed g b) ''clock_epoch'' = None" "map_of (displayed g b) CompleteRecordAnchorRow = None"
    by (simp_all add: displayed_def preAnchorDisplayedRows_def Let_def CompleteRecordAnchorRow_def)
  have "preAnchorValue ?t (row_name r) = Some (row_displayed r)"
    if r: "r \<in> set (preAnchorDisplayedRows g ?b (preAnchorValue ?t))" for r
  proof -
    have "(row_name r, row_displayed r) \<in> set (displayed g b)" unfolding rows [symmetric] using r by force
    then have m: "map_of (displayed g b) (row_name r) = Some (row_displayed r)"
      using displayed_distinct by simp
    moreover have "row_name r \<in> set PreAnchorNamesV2" using displayed_names [OF r] by (auto simp: names_v2)
    ultimately show ?thesis using c by (auto simp: run_table_value map_get_def)
  qed
  moreover have "table_readable ?t"
    using clock_row by (simp add: table_readable_def run_table_form run_table_value PreAnchorFormV1_def
        PreAnchorFormV2_def PreAnchorFormV3_def)
  ultimately show ?thesis
    unfolding match_iff t by (simp add: run_table_names run_table_form v2)
qed

text \<open>Neither the leaf nor the second entry changes what the table check reads, and the second entry
  does not change what the leaf check reads.\<close>

lemma with_entry_form: "with_entry g b = b\<lparr>ab_bundle_anchor := ab_bundle_anchor (with_entry g b)\<rparr>"
  by (simp add: with_entry_def with_anchor_def)

lemma entry_ignored:
  "verifyLeafBinding g (b\<lparr>ab_bundle_anchor := x\<rparr>) = verifyLeafBinding g b"
  "verifyPreAnchor g (b\<lparr>ab_bundle_anchor := x\<rparr>) = verifyPreAnchor g b"
proof -
  have "leaf_preimage_parts g (b\<lparr>ab_bundle_anchor := x\<rparr>) = leaf_preimage_parts g b"
    "missing_inputs (b\<lparr>ab_bundle_anchor := x\<rparr>) = missing_inputs b"
    by (simp_all add: leaf_preimage_parts_def missing_inputs_def Let_def cong: if_cong)
  then show "verifyLeafBinding g (b\<lparr>ab_bundle_anchor := x\<rparr>) = verifyLeafBinding g b"
    by (simp add: verifyLeafBinding_def)
  have "preAnchorDisplayedRows g (b\<lparr>ab_bundle_anchor := x\<rparr>) = preAnchorDisplayedRows g b"
    by (simp add: preAnchorDisplayedRows_def fun_eq_iff Let_def)
  moreover have "ab_pre_anchor (b\<lparr>ab_bundle_anchor := x\<rparr>) = ab_pre_anchor b"
    "ab_pre_anchor_digest (b\<lparr>ab_bundle_anchor := x\<rparr>) = ab_pre_anchor_digest b" by simp_all
  ultimately show "verifyPreAnchor g (b\<lparr>ab_bundle_anchor := x\<rparr>) = verifyPreAnchor g b"
    by (simp only: verifyPreAnchor_def)
qed

lemma leaf_ignored: "verifyPreAnchor g (with_leaf h b) = verifyPreAnchor g b"
proof -
  have "preAnchorDisplayedRows g (with_leaf h b) = preAnchorDisplayedRows g b"
    by (simp add: preAnchorDisplayedRows_def with_leaf_def fun_eq_iff Let_def)
  moreover have "ab_pre_anchor (with_leaf h b) = ab_pre_anchor b"
    "ab_pre_anchor_digest (with_leaf h b) = ab_pre_anchor_digest b" by (simp_all add: with_leaf_def)
  ultimately show ?thesis by (simp only: verifyPreAnchor_def)
qed

lemma run_table_ok: "pc_Match (verifyPreAnchor toy_lib (run_sample j r))"
proof -
  let ?b = "with_bundle_hash toy_lib (with_seals (fill_hashes toy_lib (run_base j r)))"
  have "epa_policy_gate (ab_epa ?b) = None" "nr_signed_at (ab_nrep ?b) = []"
    by (simp_all add: with_bundle_hash_def with_seals_def fill_hashes_def run_base_def zero_audit_bundle_def zero_epa_def
        run_nrep_def zero_nrep_section_def)
  from run_table_match [OF this] show ?thesis
    unfolding run_sample_def run_tabled_def by (subst with_entry_form) (simp only: entry_ignored leaf_ignored)
qed

lemma run_leaf_ok:
  "lc_Match (verifyLeafBinding toy_lib (run_sample j r))" "lc_Form (verifyLeafBinding toy_lib (run_sample j r)) = leafDomainV6"
proof -
  let ?b = "with_leaf toy_lib (run_tabled j r)"
  have r: "verifyLeafBinding toy_lib (run_sample j r) = verifyLeafBinding toy_lib ?b"
    unfolding run_sample_def by (subst with_entry_form) (simp only: entry_ignored)
  have "ra_leaf_hash (ab_rekor_anchor ?b) \<noteq> []"
    using sha256_hex64 [OF toy_digest32, of "leaf_preimage toy_lib (run_tabled j r)"] by (auto simp: with_leaf_def is_hex64_def)
  then have "missing_inputs ?b = []"
    by (simp add: missing_inputs_def) (simp add: run_defs zero_aer_def zero_zksp_binding_def run_seal_def run_id_def)
  moreover have "ra_backend (ab_rekor_anchor (run_tabled j r)) = ''rekor''"
    by (simp add: run_defs)
  ultimately show m: "lc_Match (verifyLeafBinding toy_lib (run_sample j r))"
    unfolding r by (intro with_leaf_match)
  have "ab_pre_anchor ?b = run_table toy_lib (with_bundle_hash toy_lib (with_seals (fill_hashes toy_lib (run_base j r))))"
    by (simp add: with_leaf_def run_tabled_def with_run_table_def)
  then have "hd (leaf_preimage_parts toy_lib ?b) = leafDomainV6"
    by (simp add: leaf_preimage_parts_def run_table_form Let_def)
  then show "lc_Form (verifyLeafBinding toy_lib (run_sample j r)) = leafDomainV6"
    using leaf_form [OF m] r leaf_form by (metis m)
qed

section \<open>Every check\<close>

lemma run_identity: "ri_Match (verifyRecordIdentity (run_sample j r) (verifyLeafBinding toy_lib (run_sample j r)))"
proof -
  have "runEnvelopeID run_id" by code_simp
  then show ?thesis by (simp add: verifyRecordIdentity_def run_fields run_leaf_ok leaf_domains Let_def)
qed

lemma digest_ignores_entry:
  "ComputeAnchoredRecordDigest g (b\<lparr>ab_bundle_anchor := x\<rparr>) = ComputeAnchoredRecordDigest g b"
  by (simp add: ComputeAnchoredRecordDigest_def anchored_pairs_pre) (simp add: record_sources_def
      audit_bundle_preimage_def scaffold_notes_preimage_def seal_references_preimage_def named_seals_def
      section_residue_preimage_def record_metadata_preimage_def)

lemma with_entry_match:
  assumes "ValidateBundleLeafFields (env_envelope_id (ab_envelope b)) (ComputeAnchoredRecordDigest g b) = None"
  shows "bc_Match (verifyBundleAnchor g (\<lambda>_. None) (with_entry g b)) \<and> bc_Performed (verifyBundleAnchor g (\<lambda>_. None) (with_entry g b))"
proof -
  have e: "ab_envelope (with_entry g b) = ab_envelope b" by (simp add: with_entry_def)
  have d: "ComputeAnchoredRecordDigest g (with_entry g b) = ComputeAnchoredRecordDigest g b"
    by (subst with_entry_form) (rule digest_ignores_entry)
  show ?thesis
    using assms unfolding verifyBundleAnchor_def e d
    by (simp add: with_entry_def with_anchor_def Let_def ComputeBundleLeafHash_def bundle_leaf_preimage_def bundle_anchor_absent_def)
qed

lemma run_anchor_ok:
  "bc_Match (verifyBundleAnchor toy_lib (\<lambda>_. None) (run_sample j r))
   \<and> bc_Performed (verifyBundleAnchor toy_lib (\<lambda>_. None) (run_sample j r))"
proof -
  let ?b = "with_leaf toy_lib (run_tabled j r)"
  have "ValidateBundleLeafFields run_id (ComputeAnchoredRecordDigest toy_lib ?b) = None"
    using sha256_hex64 [OF toy_digest32]
    by (simp add: ValidateBundleLeafFields_def ComputeAnchoredRecordDigest_def is_hex64_def sha256_hex_chars run_id_def)
  moreover have "env_envelope_id (ab_envelope ?b) = run_id" by (simp add: run_defs)
  ultimately show ?thesis unfolding run_sample_def by (intro with_entry_match) simp
qed

lemma run_signers_ok: "ea_Match (verifyEntryAuthentication toy_lib run_pins (run_sample j r) True True)"
proof -
  have a: "preAnchorValue (ab_pre_anchor (run_sample j r)) ''clock_epoch'' = Some run_clock"
    "preAnchorValue (ab_pre_anchor (run_sample j r)) AnchoringWindowRow = None"
    using clock_row by (simp_all add: run_table_field run_table_value)
  obtain x where x: "ab_bundle_anchor (run_sample j r) = Some x" "ba_backend x = ''rekor''" "ba_integrated_time x = 1793534465"
    "ba_entry_body x = base64_encode signed_body"
    by (simp add: run_sample_def with_entry_def with_anchor_def)
  show ?thesis
    by (simp add: verifyEntryAuthentication_def run_fields windowed_signer run_pins_def sample_pin_def signerAcceptsAt_def
        check_record_entry_def check_clock_def check_window_def a x windowed_clock run_clock_def Let_def)
qed

lemma run_unclaimed:
  "nc_Performed (verifyNrepSignature g (run_sample j r) leaf) = False"
  "qc_Performed (verifyRequestSignature g (run_sample j r)) = False"
  "tc_Performed (verifyRuntimeTiming g (run_sample j r)) = False"
  by (simp_all add: verifyNrepSignature_def verifyRequestSignature_def verifyRuntimeTiming_def run_fields run_nrep_def
      zero_nrep_section_def)

lemma run_policies:
  "\<not> policyFailed (checkBuiltIn g (policyGateOf (run_sample j r)))" "accountGateOfBundle (run_sample j r) = None"
  "verifyCrossGeneration (run_sample j r) = []" "checkAccountID (nr_account_id (ab_nrep (run_sample j r))) = None"
  by (simp_all add: policyGateOf_def accountGateOfBundle_def verifyCrossGeneration_def checkAccountID_def run_fields run_nrep_def
      zero_nrep_section_def checkBuiltIn_def no_gate_def policyFailed_def)

section \<open>Well-formed\<close>

lemma hash_utf8: "valid_utf8 (sha256_hex g x)"
  using sha256_hex_chars [of g x]
  by (intro valid_utf8_ascii) (auto simp: ascii_text_def list_all_iff is_lower_hex_def in_range_def Let_def)

text \<open>The sections that differ from the zero bundle's, which is checked by evaluation.\<close>

definition run_changed :: "preimage list" where
  "run_changed = [
     Pairs ''verdifax.artifact.envelope.v1'' (envelope_pairs (ab_envelope (run_base None []))),
     Pairs ''verdifax.artifact.transport.v1'' (transport_pairs (ab_transport (run_base None []))),
     Canon (aer_preimage (ab_aer (run_base None []))),
     Pairs ''verdifax.artifact.transcript.v1'' (transcript_pairs (ab_transcript (run_base None []))),
     Canon (replay_fingerprint_preimage (ab_replay_fingerprint (run_base None []))),
     Pairs (fst (pote_pairs (ab_pote_proof (run_base None [])))) (snd (pote_pairs (ab_pote_proof (run_base None [])))),
     Canon (final_vfa_preimage (ab_final_vfa (run_base None [])))]"

lemmas text_simps = mk_obj_def js_def ji_def jb_def jv_def jl_def js_list_def js_omit_def wf_num_int_str rune_size_def in_range_def

lemma run_changed_ok: "list_all pre_ok run_changed"
  by (simp add: run_changed_def run_base_def zero_defs run_id_def envelope_pairs_def transport_pairs_def transcript_pairs_def
      pote_pairs_def pote_v2_def slice_def boolStr_def text_simps aer_preimage_def replay_fingerprint_preimage_def
      final_vfa_preimage_def dr_json_def)

lemma run_sources_ok: "list_all pre_ok (section_sources toy_lib (run_base None r))"
proof -
  let ?z = "section_sources toy_lib named_zero" and ?c = run_changed
  have "section_sources toy_lib (run_base None r) = [?z ! 0, ?c ! 0, ?c ! 1, ?z ! 3, ?z ! 4, ?c ! 2, ?c ! 3] @ take 4 (drop 7 ?z)
      @ [?c ! 4, ?c ! 5, ?c ! 6] @ drop 14 ?z"
    by (simp add: section_sources_def run_changed_def)
      (simp add: run_base_def named_zero_def zero_audit_bundle_def preimage_defs)
  moreover have "\<forall>n < length ?z. pre_ok (?z ! n)" "\<forall>n < length ?c. pre_ok (?c ! n)"
    using named_sources_ok run_changed_ok by (simp_all only: list_all_length)
  moreover have "length ?z = 20" "length ?c = 7" by (simp_all add: section_sources_def run_changed_def)
  ultimately show ?thesis
    using named_sources_ok by (simp add: list_all_iff) (auto dest: in_set_takeD in_set_dropD)
qed

lemma run_bundle_wf: "bundle_wf toy_lib (run_sample None r)"
proof -
  have "list_all valid_utf8 (recomputed_hashes toy_lib (run_sample None r))"
    by (simp add: recomputed_pre list_all_iff valid_utf8_hash)
  moreover have "ab_kind (run_sample None r) = ''verdifax.bundle''" "ab_schema_version (run_sample None r) = []"
    by (simp_all add: run_projections)
  moreover have "valid_utf8 ''verdifax.bundle''" "valid_utf8 ''manifest''" by code_simp+
  ultimately show ?thesis
    using run_sources_ok by (simp add: bundle_wf_def run_sources wf_bundle_preimage run_fields)
qed

lemma run_table_free: "nul_free (table_parts (ab_pre_anchor (run_sample None r)))"
proof -
  let ?b = "with_bundle_hash toy_lib (with_seals (fill_hashes toy_lib (run_base None r)))"
  have "nul_free (map snd (displayed toy_lib ?b))"
    by (simp add: displayed_def preAnchorDisplayedRows_def run_defs zero_defs run_seal_def run_nrep_def run_id_def nul_free_def slice_def
        sha256_hex_free is_lower_hex_def ComputeAttestedContextDigest_def ComputeScaffoldFlagsHash_def nullJoinHash_def nullJoinHashParts_def Let_def)
  then have "NUL \<notin> set (map_get (map_of (displayed toy_lib ?b)) n)" for n
    by (cases "map_of (displayed toy_lib ?b) n") (auto simp: map_get_def nul_free_def list_all_iff dest!: map_of_SomeD)
  moreover have "NUL \<notin> set run_clock" "NUL \<notin> set CompleteRecordAnchorRequired" "nul_free PreAnchorNamesV2" by code_simp+
  ultimately show ?thesis
    by (auto simp: run_table_field table_parts_def run_table_def nul_free_def list_all_iff)
qed

lemma run_digest: "ab_pre_anchor_digest (run_sample j r) = ComputePreAnchorDigestForTable toy_lib (ab_pre_anchor (run_sample j r))"
  by (simp add: run_table_field) (simp add: run_sample_def run_tabled_def with_entry_def with_anchor_def with_leaf_def with_run_table_def)

lemma run_digest_hash: "\<exists>x. ab_pre_anchor_digest (run_sample j r) = sha256_hex toy_lib x"
  by (auto simp: run_digest ComputePreAnchorDigestForTable_def ComputePreAnchorDigestFromTable_def
      ComputePreAnchorDigestV2FromTable_def ComputePreAnchorDigestV3FromTable_def nullJoinHashParts_def nullJoinHash_def)

lemma run_ledger_ok: "wf_json (pote_ledger_preimage (ab_pote_proof (run_base None r)))"
  by (simp add: pote_ledger_preimage_def run_base_def zero_pote_proof_def text_simps)

lemma named_seal_wf:
  "valid_utf8 n \<Longrightarrow> valid_utf8 (sr_manifest_hash s) \<Longrightarrow> valid_utf8 (sr_seal_field s) \<Longrightarrow> valid_utf8 (sr_sealed_hash s)
    \<Longrightarrow> wf_json (named_seal_json (n, s))"
  by (simp add: named_seal_json_def sr_json_def mk_obj_def js_def jv_def rune_size_def in_range_def)

lemma run_record_wf: "record_wf toy_lib (run_sample None r)"
proof -
  let ?s = "run_sample None r"
  have u: "valid_utf8 ''manifest''" "valid_utf8 ''aa''" "valid_utf8 ''bb''" by code_simp+
  have h: "valid_utf8 (rq_hash (ab_request_substance ?s))" "valid_utf8 (az_hash (ab_authorization_chain ?s))"
    "valid_utf8 (rg_hash (ab_regulatory_scaffolding ?s))" "valid_utf8 (cg_hash (ab_causal_graph ?s))"
    "valid_utf8 (sp_hash (ab_system_provenance ?s))"
    using run_sources(2) [of None r] valid_utf8_hash [of toy_lib]
    by (simp_all add: stored_hashes_def recomputed_pre section_sources_def)
  have "list_all (\<lambda>(n, s). wf_json (named_seal_json (n, s))) (named_seals ?s)"
    using u h by (simp add: named_seals_def run_values named_seal_wf run_seal_def zero_seal_reference_def rune_size_def in_range_def)
  then have s: "wf_json (seal_references_preimage ?s)"
    by (simp add: seal_references_preimage_def mk_obj_def js_def jl_def wf_elems_iff list_all_iff case_prod_beta rune_size_def in_range_def)
  have "valid_utf8 (ab_pre_anchor_digest ?s)" using run_digest_hash [of None r] hash_utf8 by metis
  then have m: "wf_json (record_metadata_preimage ?s)"
    by (simp add: record_metadata_preimage_def run_sections run_base_def zero_audit_bundle_def mk_obj_def js_def ji_def
        text_simps)
  have t: "nul_free (preAnchorDomain # table_parts (ab_pre_anchor ?s))"
    using run_table_free by (simp add: nul_free_def preAnchorDomain_def)
  let ?z = "record_sources toy_lib named_zero"
  have r: "record_sources toy_lib ?s = Canon (audit_bundle_preimage ?s) # Nulls (preAnchorDomain # table_parts (ab_pre_anchor ?s))
      # take 6 (drop 2 ?z) @ [Canon (pote_ledger_preimage (ab_pote_proof (run_base None r))), ?z ! 9,
          Canon (seal_references_preimage ?s), ?z ! 11, Canon (record_metadata_preimage ?s)]"
    by (simp add: record_sources_def run_sections hardware_evidence_preimage_def scaffold_notes_preimage_def
        pote_ledger_preimage_def section_residue_preimage_def)
      (simp add: run_base_def named_zero_def zero_audit_bundle_def run_nrep_def zero_nrep_section_def)
  have l: "length ?z = 13" by (simp add: record_sources_def)
  have z: "\<forall>p \<in> set (tl ?z). pre_ok p" using named_records_ok by (simp add: list_all_iff)
  have "?z ! 9 \<in> set (tl ?z)" "?z ! 11 \<in> set (tl ?z)"
    using l nth_mem [of 8 "tl ?z"] nth_mem [of 10 "tl ?z"] by (simp_all add: nth_tl)
  moreover have "set (take 6 (drop 2 ?z)) \<subseteq> set (tl ?z)"
    by (metis drop_Suc drop_drop numeral_2_eq_2 set_drop_subset set_take_subset subset_trans drop0 drop_Suc)
  ultimately show ?thesis
    unfolding record_wf_def r using z s m t run_bundle_wf run_ledger_ok by (auto simp: bundle_wf_def list_all_iff)
qed

text \<open>The entry's root hash is in nothing the record hashes.\<close>

lemma anchor_unhashed:
  "displayed g (b\<lparr>ab_rekor_anchor := x\<rparr>) = displayed g b" "RecomputeBundleHash g (b\<lparr>ab_rekor_anchor := x\<rparr>) = RecomputeBundleHash g b"
  "ComputeAnchoredRecordDigest g (b\<lparr>ab_rekor_anchor := x\<rparr>) = ComputeAnchoredRecordDigest g b"
  by (simp_all add: displayed_def preAnchorDisplayedRows_def Let_def RecomputeBundleHash_def audit_bundle_preimage_def)
    (simp add: ComputeAnchoredRecordDigest_def anchored_pairs_pre, simp add: record_sources_def
      audit_bundle_preimage_def scaffold_notes_preimage_def seal_references_preimage_def named_seals_def
      section_residue_preimage_def record_metadata_preimage_def)

lemma run_tabled_root: "run_tabled j r = (run_tabled j [])\<lparr>ab_rekor_anchor := ab_rekor_anchor (run_base j r)\<rparr>"
proof -
  have b: "run_base j r = (run_base j [])\<lparr>ab_rekor_anchor := ab_rekor_anchor (run_base j r)\<rparr>"
    by (simp add: run_base_def zero_audit_bundle_def)
  have t: "run_table toy_lib (b\<lparr>ab_rekor_anchor := x\<rparr>) = run_table toy_lib b" for b x
    by (simp only: run_table_def anchor_unhashed)
  have s: "fill_hashes toy_lib (b\<lparr>ab_rekor_anchor := x\<rparr>) = (fill_hashes toy_lib b)\<lparr>ab_rekor_anchor := x\<rparr>"
    "with_seals (b\<lparr>ab_rekor_anchor := x\<rparr>) = (with_seals b)\<lparr>ab_rekor_anchor := x\<rparr>"
    "with_bundle_hash toy_lib (b\<lparr>ab_rekor_anchor := x\<rparr>) = (with_bundle_hash toy_lib b)\<lparr>ab_rekor_anchor := x\<rparr>"
    "with_run_table toy_lib (b\<lparr>ab_rekor_anchor := x\<rparr>) = (with_run_table toy_lib b)\<lparr>ab_rekor_anchor := x\<rparr>" for b x
    by (simp_all add: fill_hashes_def with_seals_def with_bundle_hash_def with_run_table_def t anchor_unhashed)
  show ?thesis unfolding run_tabled_def by (subst b) (simp only: s)
qed

lemma run_recorded_leaf: "recorded_leaf (run_sample j r) = recorded_leaf (run_sample j [])"
proof -
  have w: "with_leaf toy_lib (b\<lparr>ab_rekor_anchor := x\<rparr>)
      = (with_leaf toy_lib b)\<lparr>ab_rekor_anchor := ab_rekor_anchor (with_leaf toy_lib (b\<lparr>ab_rekor_anchor := x\<rparr>))\<rparr>" for b x
    by (simp add: with_leaf_def)
  have "bundle_leaf_preimage toy_lib (b\<lparr>ab_rekor_anchor := x\<rparr>) = bundle_leaf_preimage toy_lib b" for b x
    by (simp add: bundle_leaf_preimage_def anchor_unhashed)
  then have "bundle_leaf_preimage toy_lib (with_leaf toy_lib (run_tabled j r)) = bundle_leaf_preimage toy_lib (with_leaf toy_lib (run_tabled j []))"
    by (subst run_tabled_root, subst w) simp
  then show ?thesis by (simp add: recorded_leaf_def run_sample_def with_entry_def with_anchor_def)
qed

end
