(* ===== verification/Verify.thy ===== *)
theory Verify
  imports Receipts Hardware RunSample
begin

text \<open>
  The verdict on an audit bundle (main.go): verify runs every check in the source's order and
  keeps each result in the report, rolls the results up into AllPassed, and grades the record by
  how much of it the public log binds. Then the flags of the command line, which judge the
  reader's own documents against the report, the exit code, and the one-glance summary.

  The rekorAnchorVerifier variable, the pinned signers and the standard library's functions are
  arguments, as in the theories of the checks. Texts the report only displays are values of the
  reason types. UncoveredFields, which is filled in from the tamper test, is not a field here.
\<close>

section \<open>The report\<close>

record seal_check =
  sk_Field :: string
  sk_ExpectedManifest :: string
  sk_SealManifest :: string
  sk_Match :: bool

datatype cross_check = CrossGeneration cross_failure | CopiesDiffer copy_failure | AccountMalformed string

record record_values =
  rw_Decision :: string
  rw_AttestedKind :: string
  rw_AttestedResult :: string
  rw_AttestedActor :: string
  rw_AivpOutcome :: string
  rw_AivpDecision :: string
  rw_Approvers :: "string list"
  rw_HumanInLoop :: bool
  rw_SLSALevel :: int
  rw_EffectsRecorded :: nat
  rw_EnvelopeID :: string

definition recordValuesOf :: "audit_bundle \<Rightarrow> record_values" where
  "recordValuesOf b =
     \<lparr>rw_Decision = dr_result (aer_decision (ab_aer b)),
      rw_AttestedKind = ac_decision_kind (epa_attested_context (ab_epa b)),
      rw_AttestedResult = ac_decision_result (epa_attested_context (ab_epa b)),
      rw_AttestedActor = ac_actor_id (epa_attested_context (ab_epa b)),
      rw_AivpOutcome = ai_outcome (ab_aivp_t4 b),
      rw_AivpDecision = ai_decision (ab_aivp_t4 b),
      rw_Approvers = map ap_actor_id (az_approvers (ab_authorization_chain b)),
      rw_HumanInLoop = hi_performed (az_human_in_loop (ab_authorization_chain b)),
      rw_SLSALevel = bp_slsa_level (sp_build_provenance (ab_system_provenance b)),
      rw_EffectsRecorded = length (cg_effect_log (ab_causal_graph b)),
      rw_EnvelopeID = env_envelope_id (ab_envelope b)\<rparr>"

record report =
  vr_BundleSchema :: string
  vr_BundleHashOK :: bool
  vr_Artifacts :: "hash_check list"
  vr_Categories :: "hash_check list"
  vr_BundleHash :: hash_check
  vr_Seals :: "seal_check list"
  vr_RekorAnchor :: rekor_anchor_check
  vr_LeafBinding :: leaf_binding_check
  vr_NrepSignature :: nrep_check
  vr_RequestSignature :: request_check
  vr_RuntimeTiming :: timing_check
  vr_PreAnchor :: pre_anchor_check
  vr_BundleAnchor :: bundle_anchor_check
  vr_CompleteRecordRequirement :: complete_record_check
  vr_EntryAuth :: entry_auth_check
  vr_RecordIdentity :: record_identity_check
  vr_PolicyGate :: policy_gate_check
  vr_PolicyHistory :: "policy_history_check option"
  vr_AccountID :: string
  vr_AccountPolicyGate :: "policy_gate_check option"
  vr_AccountPolicyHistory :: "policy_history_check option"
  vr_RecordValues :: record_values
  vr_CrossChecks :: "cross_check list"
  vr_AllPassed :: bool
  vr_Anchored :: bool
  vr_VerdictTier :: string
  vr_RecordCoverage :: string
  vr_HasScaffold :: bool
  vr_ScaffoldList :: "string list"
  vr_passedExceptRequirement :: bool

section \<open>The checks of verify\<close>

definition artifact_rows :: "golib \<Rightarrow> audit_bundle \<Rightarrow> hash_check list" where
  "artifact_rows g b = [
     mk ''payload'' (pl_hash (ab_payload b)) (RecomputePayloadHash g (ab_payload b)) False,
     mk ''envelope'' (env_hash (ab_envelope b)) (RecomputeEnvelopeHash g (ab_envelope b)) False,
     mk ''transport'' (tr_hash (ab_transport b)) (RecomputeTransportHash g (ab_transport b)) False,
     mk ''epa'' (epa_hash (ab_epa b)) (RecomputeEPAHash g (ab_epa b)) False,
     mk ''efa'' (efa_hash (ab_efa b)) (RecomputeEFAHash g (ab_efa b)) False,
     mk ''aer'' (aer_hash (ab_aer b)) (RecomputeAERHash g (ab_aer b)) False,
     mk ''transcript'' (ts_hash (ab_transcript b)) (RecomputeTranscriptHash g (ab_transcript b))
       (sn_is_scaffold (ts_scaffold (ab_transcript b))),
     mk ''hardware_attestation'' (hw_hash (ab_hardware_attestation b))
       (RecomputeHardwareAttestationHash g (ab_hardware_attestation b))
       (sn_is_scaffold (hw_scaffold (ab_hardware_attestation b))),
     mk ''leakage_bundle'' (lb_hash (ab_leakage_bundle b)) (RecomputeLeakageBundleHash g (ab_leakage_bundle b))
       (sn_is_scaffold (lb_scaffold (ab_leakage_bundle b))),
     mk ''zksp_binding'' (zk_hash (ab_zksp_binding b)) (RecomputeZkspBindingHash g (ab_zksp_binding b))
       (sn_is_scaffold (zk_scaffold (ab_zksp_binding b))),
     mk ''migration_token'' (mt_hash (ab_migration_token b)) (RecomputeMigrationTokenHash g (ab_migration_token b)) False,
     mk ''replay_fingerprint'' (rf_hash (ab_replay_fingerprint b))
       (RecomputeReplayFingerprintHash g (ab_replay_fingerprint b)) False,
     mk ''pote_proof'' (pp_hash (ab_pote_proof b)) (RecomputePoteProofHash g (ab_pote_proof b))
       (sn_is_scaffold (pp_scaffold (ab_pote_proof b))),
     mk ''final_vfa'' (vf_hash (ab_final_vfa b)) (RecomputeFinalVFAHash g (ab_final_vfa b)) False]"

definition section_rows :: "golib \<Rightarrow> audit_bundle \<Rightarrow> hash_check list" where
  "section_rows g b = [
     mk ''request_substance'' (rq_hash (ab_request_substance b))
       (RecomputeRequestSubstanceHash g (ab_request_substance b)) False,
     mk ''authorization_chain'' (az_hash (ab_authorization_chain b))
       (RecomputeAuthorizationChainHash g (ab_authorization_chain b)) False,
     mk ''regulatory_scaffolding'' (rg_hash (ab_regulatory_scaffolding b))
       (RecomputeRegulatoryScaffoldingHash g (ab_regulatory_scaffolding b)) False,
     mk ''causal_graph'' (cg_hash (ab_causal_graph b)) (RecomputeCausalGraphHash g (ab_causal_graph b)) False,
     mk ''system_provenance'' (sp_hash (ab_system_provenance b))
       (RecomputeSystemProvenanceHash g (ab_system_provenance b)) False,
     mk ''reproducibility_context'' (rc_hash (ab_reproducibility_context b))
       (RecomputeReproducibilityContextHash g (ab_reproducibility_context b)) False]"

text \<open>The extension rows: a formal-verification record, an execution record, and a claimed quote.\<close>

definition extension_rows :: "golib \<Rightarrow> audit_bundle \<Rightarrow> hash_check list" where
  "extension_rows g b =
     (if fv_kind (ab_formal_verification b) \<noteq> []
      then [mk ''formal_verification'' (fv_hash (ab_formal_verification b))
              (RecomputeFormalVerificationHash g (ab_formal_verification b)) False] else [])
     @ (case ab_execution_record b of None \<Rightarrow> [] | Some r \<Rightarrow> verifyExecutionRecord g b r)
     @ (if hw_attestation_mode (ab_hardware_attestation b) = ''sev_snp'' then [verifySevSnpQuote g b] else [])"

definition allSeals :: "audit_bundle \<Rightarrow> (string \<times> seal_reference) list" where
  "allSeals b = [
     (''envelope'', env_seal (ab_envelope b)), (''transport'', tr_seal (ab_transport b)), (''epa'', epa_seal (ab_epa b)),
     (''efa'', efa_seal (ab_efa b)), (''aer'', aer_seal (ab_aer b)), (''transcript'', ts_seal (ab_transcript b)),
     (''hardware_attestation'', hw_seal (ab_hardware_attestation b)), (''leakage_bundle'', lb_seal (ab_leakage_bundle b)),
     (''zksp_binding'', zk_seal (ab_zksp_binding b)), (''migration_token'', mt_seal (ab_migration_token b)),
     (''replay_fingerprint'', rf_seal (ab_replay_fingerprint b)), (''pote_proof'', pp_seal (ab_pote_proof b)),
     (''final_vfa'', vf_seal (ab_final_vfa b)), (''request_substance'', rq_seal (ab_request_substance b)),
     (''authorization_chain'', az_seal (ab_authorization_chain b)),
     (''regulatory_scaffolding'', rg_seal (ab_regulatory_scaffolding b)),
     (''causal_graph'', cg_seal (ab_causal_graph b)), (''system_provenance'', sp_seal (ab_system_provenance b))]"

definition seal_row :: "string \<Rightarrow> string \<Rightarrow> string \<Rightarrow> seal_check" where
  "seal_row manifest name sealed = \<lparr>sk_Field = name, sk_ExpectedManifest = manifest, sk_SealManifest = sealed,
     sk_Match = (sealed = manifest)\<rparr>"

definition seal_rows :: "audit_bundle \<Rightarrow> seal_check list" where
  "seal_rows b =
     map (\<lambda>(name, sealed). seal_row (ab_manifest_hash b) name (sr_manifest_hash sealed)) (allSeals b)
     @ (if fv_kind (ab_formal_verification b) \<noteq> []
        then [seal_row (ab_manifest_hash b) ''formal_verification'' (fv_manifest_hash (ab_formal_verification b))] else [])"

definition cross_checks :: "audit_bundle \<Rightarrow> cross_check list" where
  "cross_checks b = map CrossGeneration (verifyCrossGeneration b) @ map CopiesDiffer (verifyBoundCopies b)
     @ (case checkAccountID (nr_account_id (ab_nrep b)) of None \<Rightarrow> [] | Some i \<Rightarrow> [AccountMalformed i])"

definition entry_verified :: "rekor_anchor_check \<Rightarrow> bool" where
  "entry_verified c \<longleftrightarrow> rk_Performed c \<and> rk_Match c"

text \<open>Every check in the source's order; the verdict's own fields are still Go's zero values.\<close>

definition verify_checks ::
  "golib \<Rightarrow> (anchor_input \<Rightarrow> anchor_error option) \<Rightarrow> (string \<times> pinned_signer) list \<Rightarrow> audit_bundle \<Rightarrow> report" where
  "verify_checks g rekorAnchorVerifier pins b =
     (let bundle_row = mk ''bundle'' (ab_bundle_hash b) (RecomputeBundleHash g b) False;
          anchor = verifyRekorAnchor rekorAnchorVerifier (ab_rekor_anchor b);
          leaf = verifyLeafBinding g b;
          identity = verifyRecordIdentity b leaf;
          nrep = verifyNrepSignature g b leaf;
          request = verifyRequestSignature g b;
          timing = verifyRuntimeTiming g b;
          pre = verifyPreAnchor g b;
          nrep = sealedByPreAnchor nrep leaf pre;
          record_anchor = verifyBundleAnchor g rekorAnchorVerifier b;
          requirement = verifyCompleteRecordRequirement b record_anchor;
          auth = verifyEntryAuthentication g pins b (entry_verified anchor)
            (bc_Performed record_anchor \<and> bc_Match record_anchor);
          nrep = sealedOnlyWhenLogged nrep anchor auth
      in \<lparr>vr_BundleSchema = ab_kind b, vr_BundleHashOK = hc_Match bundle_row,
          vr_Artifacts = artifact_rows g b, vr_Categories = section_rows g b @ extension_rows g b,
          vr_BundleHash = bundle_row, vr_Seals = seal_rows b,
          vr_RekorAnchor = anchor, vr_LeafBinding = leaf, vr_NrepSignature = nrep, vr_RequestSignature = request,
          vr_RuntimeTiming = timing, vr_PreAnchor = pre, vr_BundleAnchor = record_anchor,
          vr_CompleteRecordRequirement = requirement, vr_EntryAuth = auth, vr_RecordIdentity = identity,
          vr_PolicyGate = checkBuiltIn g (policyGateOf b), vr_PolicyHistory = None,
          vr_AccountID = nr_account_id (ab_nrep b), vr_AccountPolicyGate = accountGateOfBundle b,
          vr_AccountPolicyHistory = None, vr_RecordValues = recordValuesOf b, vr_CrossChecks = cross_checks b,
          vr_AllPassed = False, vr_Anchored = False, vr_VerdictTier = [], vr_RecordCoverage = [],
          vr_HasScaffold = False, vr_ScaffoldList = [], vr_passedExceptRequirement = False\<rparr>)"

section \<open>The roll-up and the verdict\<close>

text \<open>
  A job block that Validate refuses sets the report's AllPassed, which the line after the roll-up
  overwrites, and the reason shown for the request signature.
\<close>

definition apply_job :: "job_link option \<Rightarrow> report \<Rightarrow> report" where
  "apply_job job r = (case job of None \<Rightarrow> r
   | Some j \<Rightarrow> (case JobLink_Validate (Some j) of None \<Rightarrow> r
      | Some e \<Rightarrow> r\<lparr>vr_AllPassed := False,
          vr_RequestSignature := (vr_RequestSignature r)\<lparr>qc_Reason := Some (RequestJob e)\<rparr>\<rparr>))"

definition passed_before_requirement :: "report \<Rightarrow> bool" where
  "passed_before_requirement r \<longleftrightarrow>
     vr_BundleHashOK r
     \<and> list_all hc_Match (vr_Artifacts r) \<and> list_all hc_Match (vr_Categories r) \<and> list_all sk_Match (vr_Seals r)
     \<and> \<not> (rk_Performed (vr_RekorAnchor r) \<and> \<not> rk_Match (vr_RekorAnchor r))
     \<and> \<not> (ri_Performed (vr_RecordIdentity r) \<and> \<not> ri_Match (vr_RecordIdentity r))
     \<and> \<not> (lc_Performed (vr_LeafBinding r) \<and> \<not> lc_Match (vr_LeafBinding r))
     \<and> \<not> (nc_Performed (vr_NrepSignature r) \<and> \<not> nc_Match (vr_NrepSignature r))
     \<and> \<not> (qc_Performed (vr_RequestSignature r) \<and> \<not> qc_Match (vr_RequestSignature r))
     \<and> \<not> (tc_Performed (vr_RuntimeTiming r) \<and> \<not> tc_Match (vr_RuntimeTiming r))
     \<and> \<not> (pc_Performed (vr_PreAnchor r) \<and> \<not> pc_Match (vr_PreAnchor r))
     \<and> vr_CrossChecks r = []
     \<and> \<not> (bc_Present (vr_BundleAnchor r) \<and> \<not> bc_Match (vr_BundleAnchor r))
     \<and> \<not> (ea_Performed (vr_EntryAuth r) \<and> \<not> ea_Match (vr_EntryAuth r))
     \<and> \<not> policyFailed (vr_PolicyGate r) \<and> \<not> accountFailed (vr_AccountPolicyGate r) None"

definition roll_up :: "job_link option \<Rightarrow> report \<Rightarrow> report" where
  "roll_up job r =
     (let scaffolds = map hc_Name (filter hc_Scaffold (vr_Artifacts r));
          r = apply_job job (r\<lparr>vr_HasScaffold := scaffolds \<noteq> [], vr_ScaffoldList := scaffolds\<rparr>);
          allPassed = passed_before_requirement r;
          r = r\<lparr>vr_passedExceptRequirement := allPassed\<rparr>;
          requirement = vr_CompleteRecordRequirement r
      in r\<lparr>vr_AllPassed := allPassed \<and> \<not> (cr_Sealed requirement \<and> \<not> cr_Satisfied requirement)\<rparr>)"

definition completeRecordAnchored :: "report \<Rightarrow> bool" where
  "completeRecordAnchored r \<longleftrightarrow> vr_AllPassed r \<and> vr_Anchored r
     \<and> pc_Performed (vr_PreAnchor r) \<and> pc_Match (vr_PreAnchor r)
     \<and> bc_Present (vr_BundleAnchor r) \<and> bc_Performed (vr_BundleAnchor r) \<and> bc_Match (vr_BundleAnchor r)"

definition recordCoverage :: "report \<Rightarrow> string" where
  "recordCoverage r =
     (if \<not> vr_AllPassed r then ''failed''
      else if \<not> vr_Anchored r then ''not_anchored''
      else if completeRecordAnchored r then ''complete_record_anchored''
      else if pc_Performed (vr_PreAnchor r) then ''partial_descriptive_sections_bundle_sealed''
      else ''partial_pre_v5_identity_only'')"

definition set_anchored :: "report \<Rightarrow> report" where
  "set_anchored r = r\<lparr>vr_Anchored := rk_Performed (vr_RekorAnchor r) \<and> rk_Match (vr_RekorAnchor r)
     \<and> lc_Performed (vr_LeafBinding r) \<and> lc_Match (vr_LeafBinding r)\<rparr>"

definition set_tier :: "report \<Rightarrow> report" where
  "set_tier r = r\<lparr>vr_VerdictTier := (if \<not> vr_AllPassed r then ''FAILED'' else if vr_Anchored r then ''VERIFIED_ANCHORED''
     else ''SELF_CONSISTENT_NOT_ANCHORED'')\<rparr>"

definition set_coverage :: "report \<Rightarrow> report" where
  "set_coverage r = r\<lparr>vr_RecordCoverage := recordCoverage r\<rparr>"

definition mark_partial :: "report \<Rightarrow> report" where
  "mark_partial r = (if vr_VerdictTier r = ''VERIFIED_ANCHORED'' \<and> vr_RecordCoverage r \<noteq> ''complete_record_anchored''
     then r\<lparr>vr_VerdictTier := ''ANCHORED_PARTIAL_COVERAGE''\<rparr> else r)"

definition with_verdict :: "report \<Rightarrow> report" where
  "with_verdict r = mark_partial (set_coverage (set_tier (set_anchored r)))"

lemmas verdict_steps = with_verdict_def mark_partial_def set_coverage_def set_tier_def set_anchored_def

definition verify ::
  "golib \<Rightarrow> (anchor_input \<Rightarrow> anchor_error option) \<Rightarrow> (string \<times> pinned_signer) list \<Rightarrow> audit_bundle \<Rightarrow> report" where
  "verify g rekorAnchorVerifier pins b =
     with_verdict (roll_up (nr_job (ab_nrep b)) (verify_checks g rekorAnchorVerifier pins b))"

section \<open>Flags and exit codes\<close>

definition partialCoverageExit :: "report \<Rightarrow> bool \<Rightarrow> bool" where
  "partialCoverageExit r allowPartial \<longleftrightarrow>
     vr_AllPassed r \<and> vr_Anchored r \<and> \<not> completeRecordAnchored r \<and> \<not> allowPartial"

definition exitShouldFail :: "report \<Rightarrow> bool \<Rightarrow> bool \<Rightarrow> bool" where
  "exitShouldFail r strict allowUnanchored =
     (if \<not> vr_AllPassed r then True
      else if strict \<and> vr_HasScaffold r then True
      else if \<not> vr_Anchored r \<and> \<not> allowUnanchored then True
      else False)"

definition report_failed :: "report \<Rightarrow> report" where
  "report_failed r = r\<lparr>vr_AllPassed := False, vr_VerdictTier := ''FAILED'', vr_RecordCoverage := ''failed''\<rparr>"

definition applyPolicyDocument :: "golib \<Rightarrow> report \<Rightarrow> bytes \<Rightarrow> report" where
  "applyPolicyDocument g r doc =
     (let r = r\<lparr>vr_PolicyGate := checkPolicyDocument g (vr_PolicyGate r) doc\<rparr>
      in if policyFailed (vr_PolicyGate r) then report_failed r else r)"

definition apply_policy_history ::
  "golib \<Rightarrow> (anchor_input \<Rightarrow> anchor_error option) \<Rightarrow> (string \<times> pinned_signer) list \<Rightarrow> report \<Rightarrow> bytes \<Rightarrow> report" where
  "apply_policy_history g rekorAnchorVerifier pins r data =
     (let c = loadPolicyHistory g rekorAnchorVerifier pins data (gc_ActivationHash (vr_PolicyGate r));
          r = r\<lparr>vr_PolicyHistory := Some c\<rparr>
      in if hk_OK c then r else report_failed r)"

text \<open>The account flags, each with the bytes of its file when it was given.\<close>

definition applyAccountFlags ::
  "golib \<Rightarrow> (anchor_input \<Rightarrow> anchor_error option) \<Rightarrow> (string \<times> pinned_signer) list \<Rightarrow> report \<Rightarrow> bytes option
    \<Rightarrow> bytes option \<Rightarrow> report" where
  "applyAccountFlags g rekorAnchorVerifier pins r policy history =
     (let r = (case policy of None \<Rightarrow> r
            | Some doc \<Rightarrow> r\<lparr>vr_AccountPolicyGate := applyAccountPolicyDocument g (vr_AccountPolicyGate r) doc\<rparr>);
          r = (case history of None \<Rightarrow> r
            | Some data \<Rightarrow> r\<lparr>vr_AccountPolicyHistory :=
                Some (loadAccountPolicyHistory g rekorAnchorVerifier pins data (vr_AccountID r) (vr_AccountPolicyGate r))\<rparr>)
      in if accountFailed (vr_AccountPolicyGate r) (vr_AccountPolicyHistory r) then report_failed r else r)"

text \<open>The two flags below set AllPassed and leave the tier and the coverage as verify set them.\<close>

definition apply_signer_key :: "report \<Rightarrow> string \<Rightarrow> report" where
  "apply_signer_key r want = (case applySignerKey (vr_RequestSignature r) (vr_AllPassed r) want of (c, passed) \<Rightarrow>
     r\<lparr>vr_RequestSignature := c, vr_AllPassed := passed\<rparr>)"

definition apply_request_file :: "golib \<Rightarrow> report \<Rightarrow> bytes \<Rightarrow> report" where
  "apply_request_file g r signedBytes =
     (let r = r\<lparr>vr_RequestSignature := applyRequestFile g (vr_RequestSignature r) signedBytes\<rparr>
      in if \<not> qc_RequestMatched (vr_RequestSignature r) then r\<lparr>vr_AllPassed := False\<rparr> else r)"

text \<open>The options of a run on a bundle: the contents of the files named by flags, and the switches.\<close>

record bundle_options =
  bo_policy :: "bytes option"
  bo_policyHistory :: "bytes option"
  bo_accountPolicy :: "bytes option"
  bo_accountHistory :: "bytes option"
  bo_signerKey :: "bytes option"
  bo_request :: "bytes option"
  bo_strict :: bool
  bo_allowPartial :: bool
  bo_allowUnanchored :: bool

definition when_given :: "('a \<Rightarrow> 'b \<Rightarrow> 'b) \<Rightarrow> 'a option \<Rightarrow> 'b \<Rightarrow> 'b" where
  "when_given f v r = (case v of None \<Rightarrow> r | Some x \<Rightarrow> f x r)"

definition flagged_report ::
  "golib \<Rightarrow> (anchor_input \<Rightarrow> anchor_error option) \<Rightarrow> (string \<times> pinned_signer) list \<Rightarrow> bundle_options \<Rightarrow> report \<Rightarrow> report" where
  "flagged_report g rekorAnchorVerifier pins fl r =
     (let r = when_given (\<lambda>doc r. applyPolicyDocument g r doc) (bo_policy fl) r;
          r = when_given (\<lambda>data r. apply_policy_history g rekorAnchorVerifier pins r data) (bo_policyHistory fl) r;
          r = applyAccountFlags g rekorAnchorVerifier pins r (bo_accountPolicy fl) (bo_accountHistory fl);
          r = when_given (\<lambda>key r. apply_signer_key r (trim_space key)) (bo_signerKey fl) r
      in when_given (\<lambda>doc r. apply_request_file g r doc) (bo_request fl) r)"

definition exitPartialCoverage :: nat where "exitPartialCoverage = 3"

definition exit_code :: "bundle_options \<Rightarrow> report \<Rightarrow> nat" where
  "exit_code fl r =
     (if exitShouldFail r (bo_strict fl) (bo_allowUnanchored fl) then 1
      else if partialCoverageExit r (bo_allowPartial fl) then exitPartialCoverage
      else 0)"

section \<open>The one-glance summary\<close>

datatype formal_summary = FormalBound string string | FormalAbsent
datatype hardware_summary = QuoteReverified string | QuoteClaimFailed | PolicyScaffold | HardwareAbsent
datatype pote_version = PoteV2 | PoteV1 | PoteOther string

record evidence_summary =
  ev_BundleSchema :: string
  ev_ManifestHash :: string
  ev_RunStatus :: string
  ev_TotalArtifacts :: nat
  ev_RealArtifacts :: int
  ev_ScaffoldCount :: nat
  ev_ScaffoldList :: "string list"
  ev_RekorAnchored :: bool
  ev_RekorLogIndex :: int
  ev_RekorLogEntryID :: string
  ev_RekorVerified :: string
  ev_LeafBound :: string
  ev_RecordAnchor :: string
  ev_RecordCoverage :: string
  ev_RecordAnchorRequirement :: string
  ev_PoteHashVersion :: pote_version
  ev_FormalVerification :: formal_summary
  ev_HardwareAttest :: hardware_summary
  ev_HashesAllMatch :: bool
  ev_StrictModeWanted :: bool
  ev_StrictModeGate :: string

definition rekor_verified_word :: "rekor_anchor_check \<Rightarrow> string" where
  "rekor_verified_word c =
     (if rk_Performed c \<and> rk_Match c then ''verified''
      else if rk_Performed c \<and> \<not> rk_Match c then ''failed''
      else if rk_Unverifiable c then ''not_verifiable'' else ''not_anchored'')"

definition record_anchor_word :: "bundle_anchor_check \<Rightarrow> string" where
  "record_anchor_word c =
     (if \<not> bc_Present c then ''absent'' else if \<not> bc_Match c then ''failed''
      else if \<not> bc_Performed c then ''not_public'' else ''complete'')"

definition hardware_summary_of :: "audit_bundle \<Rightarrow> report \<Rightarrow> hardware_summary" where
  "hardware_summary_of b r =
     (let h = ab_hardware_attestation b in
      if hw_attestation_mode h = ''sev_snp'' then
        (if list_ex (\<lambda>c. hc_Name c = ''hardware_attestation_sevsnp_quote'' \<and> hc_Match c) (vr_Categories r)
         then QuoteReverified (take 12 (hw_enclave_measurement h)) else QuoteClaimFailed)
      else if hw_kind h \<noteq> [] then PolicyScaffold else HardwareAbsent)"

definition buildEvidenceSummary :: "audit_bundle \<Rightarrow> report \<Rightarrow> bool \<Rightarrow> evidence_summary" where
  "buildEvidenceSummary b r strictWanted =
     (let anchored = rekor_verified_word (vr_RekorAnchor r); stated = anchored \<noteq> ''not_anchored'';
          leaf = vr_LeafBinding r; requirement = vr_CompleteRecordRequirement r;
          pote = pp_kind (ab_pote_proof b); formal = ab_formal_verification b
      in \<lparr>ev_BundleSchema = ab_kind b, ev_ManifestHash = ab_manifest_hash b, ev_RunStatus = ab_status b,
          ev_TotalArtifacts = length (vr_Artifacts r),
          ev_RealArtifacts = int (length (vr_Artifacts r)) - int (length (vr_ScaffoldList r)),
          ev_ScaffoldCount = length (vr_ScaffoldList r), ev_ScaffoldList = vr_ScaffoldList r,
          ev_RekorAnchored = rk_Performed (vr_RekorAnchor r),
          ev_RekorLogIndex = (if stated then ra_log_index (ab_rekor_anchor b) else 0),
          ev_RekorLogEntryID = (if stated then ra_log_entry_id (ab_rekor_anchor b) else []),
          ev_RekorVerified = anchored,
          ev_LeafBound = (if lc_Performed leaf \<and> lc_Match leaf then ''bound''
            else if lc_Performed leaf \<and> \<not> lc_Match leaf then ''foreign'' else ''not_checked''),
          ev_RecordAnchor = record_anchor_word (vr_BundleAnchor r), ev_RecordCoverage = vr_RecordCoverage r,
          ev_RecordAnchorRequirement = (if cr_Sealed requirement \<and> cr_Satisfied requirement then ''satisfied''
            else if cr_Sealed requirement then ''failed'' else ''not_sealed''),
          ev_PoteHashVersion = (if pote = ''verdifax.artifact.pote.v2'' then PoteV2
            else if pote = ''verdifax.artifact.pote.v1'' \<or> pote = [] then PoteV1 else PoteOther pote),
          ev_FormalVerification = (if fv_kind formal \<noteq> [] then FormalBound (fv_repo formal) (take 12 (fv_commit_sha formal))
            else FormalAbsent),
          ev_HardwareAttest = hardware_summary_of b r, ev_HashesAllMatch = vr_AllPassed r,
          ev_StrictModeWanted = strictWanted,
          ev_StrictModeGate = (if \<not> vr_AllPassed r \<or> strictWanted \<and> vr_HasScaffold r then ''fail'' else ''pass'')\<rparr>)"

section \<open>The kinds of input\<close>

definition inputBundle :: string where "inputBundle = ''an audit bundle''"
definition inputReceipt :: string where "inputReceipt = ''a receipt document''"
definition inputBoth :: string where "inputBoth = ''both''"

definition flagInputKinds :: "string \<rightharpoonup> string" where
  "flagInputKinds = map_of [(''json'', inputBoth), (''version'', inputBoth), (''allow-unanchored'', inputBoth),
     (''tamper-test'', inputBoth), (''recompute-hashes'', inputBoth), (''strict'', inputBundle), (''allow-partial'', inputBundle),
     (''policy'', inputBoth), (''policy-history'', inputBoth), (''account-policy'', inputBoth),
     (''account-policy-history'', inputBoth), (''signer-key'', inputBoth), (''request'', inputBoth), (''job'', inputBoth),
     (''show-evidence-summary'', inputBundle), (''self-hosted-receipt'', inputReceipt)]"

text \<open>The flags set on the command line, in any order, that the kind of input does not take.\<close>

definition flagsRefusedFor :: "string list \<Rightarrow> string \<Rightarrow> string list" where
  "flagsRefusedFor given kind = sort (map (\<lambda>f. ''--'' @ f) (filter (\<lambda>f. case flagInputKinds f of
     None \<Rightarrow> True | Some applies \<Rightarrow> applies \<noteq> inputBoth \<and> applies \<noteq> kind) given))"

text \<open>
  The routing reads the first JSON value only, as a map from names to values; a JSON null reads as
  an empty map. The members of a repeated name are one entry of Go's map.
\<close>

definition isReceiptDocument :: "bytes \<Rightarrow> bool" where
  "isReceiptDocument data = (case parse_value (2 * length data + 2) max_depth data of
     Some (JObj members, _) \<Rightarrow> ''manifest_hash'' \<notin> set (map fst members)
       \<and> list_ex (\<lambda>kind. kind \<in> set (map fst members)) ReceiptKinds
   | _ \<Rightarrow> False)"

text \<open>What decodeBundle asks of a bundle that the strict decoder returned.\<close>

definition bundle_readable :: "audit_bundle \<Rightarrow> bool" where
  "bundle_readable b \<longleftrightarrow> \<not> (ab_kind b = [] \<or> ab_manifest_hash b = [])"

section \<open>What the verdict says\<close>

lemma apply_job_fields:
  "apply_job job r = r\<lparr>vr_AllPassed := vr_AllPassed (apply_job job r), vr_RequestSignature := (vr_RequestSignature r)
     \<lparr>qc_Reason := qc_Reason (vr_RequestSignature (apply_job job r))\<rparr>\<rparr>"
  by (simp add: apply_job_def split: option.split)

text \<open>Nothing of the roll-up reads what the job block sets.\<close>

lemma passed_ignores_job [simp]:
  "passed_before_requirement (apply_job job r) = passed_before_requirement r"
  "passed_before_requirement (r\<lparr>vr_HasScaffold := h, vr_ScaffoldList := l\<rparr>) = passed_before_requirement r"
  by (simp_all add: passed_before_requirement_def apply_job_def split: option.split)

lemma apply_job_requirement [simp]:
  "vr_CompleteRecordRequirement (apply_job job r) = vr_CompleteRecordRequirement r"
  by (simp add: apply_job_def split: option.split)

definition rolled :: "report \<Rightarrow> bool" where
  "rolled r \<longleftrightarrow> passed_before_requirement r
     \<and> \<not> (cr_Sealed (vr_CompleteRecordRequirement r) \<and> \<not> cr_Satisfied (vr_CompleteRecordRequirement r))"

definition anchored :: "report \<Rightarrow> bool" where
  "anchored r \<longleftrightarrow> rk_Performed (vr_RekorAnchor r) \<and> rk_Match (vr_RekorAnchor r)
     \<and> lc_Performed (vr_LeafBinding r) \<and> lc_Match (vr_LeafBinding r)"

definition covered :: "report \<Rightarrow> bool" where
  "covered r \<longleftrightarrow> pc_Performed (vr_PreAnchor r) \<and> pc_Match (vr_PreAnchor r)
     \<and> bc_Present (vr_BundleAnchor r) \<and> bc_Performed (vr_BundleAnchor r) \<and> bc_Match (vr_BundleAnchor r)"

definition tier_of :: "report \<Rightarrow> string" where
  "tier_of r = (if \<not> rolled r then ''FAILED'' else if \<not> anchored r then ''SELF_CONSISTENT_NOT_ANCHORED''
     else if covered r then ''VERIFIED_ANCHORED'' else ''ANCHORED_PARTIAL_COVERAGE'')"

lemma roll_up_fields:
  "vr_AllPassed (roll_up job r) = rolled r" "vr_RekorAnchor (roll_up job r) = vr_RekorAnchor r"
  "vr_LeafBinding (roll_up job r) = vr_LeafBinding r" "vr_PreAnchor (roll_up job r) = vr_PreAnchor r"
  "vr_BundleAnchor (roll_up job r) = vr_BundleAnchor r" "vr_HasScaffold (roll_up job r) = (filter hc_Scaffold (vr_Artifacts r) \<noteq> [])"
  by (simp_all add: roll_up_def rolled_def Let_def) (simp_all add: apply_job_def split: option.split)

lemma verdict_fields:
  "vr_AllPassed (with_verdict (roll_up job r)) = rolled r"
  "vr_Anchored (with_verdict (roll_up job r)) = anchored r"
  "completeRecordAnchored (with_verdict (roll_up job r)) \<longleftrightarrow> rolled r \<and> anchored r \<and> covered r"
  "vr_VerdictTier (with_verdict (roll_up job r)) = tier_of r"
  "vr_HasScaffold (with_verdict (roll_up job r)) = (filter hc_Scaffold (vr_Artifacts r) \<noteq> [])"
  by (simp_all add: verdict_steps recordCoverage_def completeRecordAnchored_def tier_of_def anchored_def covered_def
      roll_up_fields Let_def)

lemma verify_fields:
  defines "r \<equiv> \<lambda>g ver pins b. verify_checks g ver pins b"
  shows "vr_AllPassed (verify g ver pins b) = rolled (r g ver pins b)"
    and "vr_Anchored (verify g ver pins b) = anchored (r g ver pins b)"
    and "vr_VerdictTier (verify g ver pins b) = tier_of (r g ver pins b)"
  by (simp_all add: verify_def r_def verdict_fields)

lemma rows_match:
  "list_all hc_Match (artifact_rows g b) \<and> list_all hc_Match (section_rows g b) \<longleftrightarrow> stored_hashes b = recomputed_hashes g b"
  by (auto simp: artifact_rows_def section_rows_def mk_def stored_hashes_def recomputed_hashes_def)

lemma seals_match:
  "list_all sk_Match (seal_rows b) \<longleftrightarrow>
     list_all (\<lambda>sealed. sr_manifest_hash sealed = ab_manifest_hash b) (map snd (allSeals b))
     \<and> (fv_kind (ab_formal_verification b) = [] \<or> fv_manifest_hash (ab_formal_verification b) = ab_manifest_hash b)"
  by (auto simp: seal_rows_def seal_row_def list.pred_map comp_def case_prod_beta)

text \<open>A check that is not performed does not fail the record.\<close>

definition optional :: "bool \<Rightarrow> bool \<Rightarrow> bool" where
  "optional performed matches = (if performed then matches else True)"

lemma optional_iff: "\<not> (p \<and> \<not> m) \<longleftrightarrow> optional p m"
  by (simp add: optional_def)

lemma match_performed:
  "rk_Match (verifyRekorAnchor ver a) \<Longrightarrow> rk_Performed (verifyRekorAnchor ver a)"
  "lc_Match (verifyLeafBinding g b) \<Longrightarrow> lc_Performed (verifyLeafBinding g b)"
  "pc_Match (verifyPreAnchor g b) \<Longrightarrow> pc_Performed (verifyPreAnchor g b)"
  by (auto simp: verifyRekorAnchor_def verifyLeafBinding_def verifyPreAnchor_def Let_def
      split: option.splits if_splits)

text \<open>What an anchored record of full coverage satisfies: every check the roll-up reads. The Validate of
  the job block is not one of them, see verdict_without_job below.\<close>

definition complete_record ::
  "golib \<Rightarrow> (anchor_input \<Rightarrow> anchor_error option) \<Rightarrow> (string \<times> pinned_signer) list \<Rightarrow> audit_bundle \<Rightarrow> bool" where
  "complete_record g ver pins b \<longleftrightarrow>
     ab_bundle_hash b = RecomputeBundleHash g b \<and> stored_hashes b = recomputed_hashes g b
     \<and> list_all hc_Match (extension_rows g b)
     \<and> list_all (\<lambda>sealed. sr_manifest_hash sealed = ab_manifest_hash b) (map snd (allSeals b))
     \<and> (fv_kind (ab_formal_verification b) = [] \<or> fv_manifest_hash (ab_formal_verification b) = ab_manifest_hash b)
     \<and> cross_checks b = []
     \<and> rk_Match (verifyRekorAnchor ver (ab_rekor_anchor b)) \<and> lc_Match (verifyLeafBinding g b)
     \<and> ri_Match (verifyRecordIdentity b (verifyLeafBinding g b)) \<and> pc_Match (verifyPreAnchor g b)
     \<and> bc_Match (verifyBundleAnchor g ver b) \<and> bc_Performed (verifyBundleAnchor g ver b)
     \<and> ea_Match (verifyEntryAuthentication g pins b True True)
     \<and> optional (nc_Performed (verifyNrepSignature g b (verifyLeafBinding g b)))
         (nc_Match (verifyNrepSignature g b (verifyLeafBinding g b)))
     \<and> optional (qc_Performed (verifyRequestSignature g b)) (qc_Match (verifyRequestSignature g b))
     \<and> optional (tc_Performed (verifyRuntimeTiming g b)) (tc_Match (verifyRuntimeTiming g b))
     \<and> \<not> policyFailed (checkBuiltIn g (policyGateOf b)) \<and> \<not> accountFailed (accountGateOfBundle b) None"

lemma actor_flags:
  "nc_Performed (sealedOnlyWhenLogged c anchor auth) = nc_Performed c" "nc_Match (sealedOnlyWhenLogged c anchor auth) = nc_Match c"
  "nc_Performed (sealedByPreAnchor c leaf pre) = nc_Performed c" "nc_Match (sealedByPreAnchor c leaf pre) = nc_Match c"
  by (simp_all add: sealedOnlyWhenLogged_def sealedByPreAnchor_def)

lemma entry_auth_runs:
  assumes "ra_backend (ab_rekor_anchor b) = ''rekor''"
  shows "ea_Performed (verifyEntryAuthentication g pins b True record)"
proof -
  have w: "ea_Performed (check_window b r c out) = ea_Performed out" for r c out
    by (simp add: check_window_def ea_fail_def Let_def split: option.split sum.split)
  have c: "check_clock b out = Inl o1 \<Longrightarrow> ea_Performed o1 = ea_Performed out"
    "check_clock b out = Inr (o1, t) \<Longrightarrow> ea_Performed o1 = ea_Performed out" for out o1 t
    by (auto simp: check_clock_def ea_fail_def Let_def split: option.splits)
  have e: "check_record_entry g ra s k ba r out = Inl o1 \<Longrightarrow> ea_Performed o1 = ea_Performed out"
    "check_record_entry g ra s k ba r out = Inr o1 \<Longrightarrow> ea_Performed o1 = ea_Performed out" for ra s k ba r out o1
    by (auto simp: check_record_entry_def ea_fail_def Let_def split: option.splits sum.splits if_splits)
  show ?thesis
    using assms
    by (auto simp: verifyEntryAuthentication_def entry_auth_none_def ea_fail_def Let_def w dest!: c e
        split: option.splits sum.splits prod.splits if_splits)
qed

lemma mk_match: "hc_Match (mk name recorded computed scaffold) \<longleftrightarrow> recorded = computed"
  by (simp add: mk_def)

lemmas verdict_unfold = complete_record_def rolled_def passed_before_requirement_def anchored_def covered_def
  verify_checks_def entry_verified_def actor_flags optional_def mk_match Let_def

lemma complete_exact:
  defines "r \<equiv> \<lambda>g ver pins b. verify_checks g ver pins b"
  shows "rolled (r g ver pins b) \<and> anchored (r g ver pins b) \<and> covered (r g ver pins b) \<longleftrightarrow> complete_record g ver pins b"
    (is "?checks \<longleftrightarrow> ?complete")
proof
  assume c: ?checks
  then have b: "ra_backend (ab_rekor_anchor b) = ''rekor''"
    by (auto simp: anchored_def r_def verify_checks_def verifyRekorAnchor_def Let_def split: if_splits)
  then have "ri_Performed (verifyRecordIdentity b leaf)" for leaf by (simp add: verifyRecordIdentity_def Let_def)
  moreover have "ea_Performed (verifyEntryAuthentication g pins b True True)"
    using b by (intro entry_auth_runs)
  moreover from c have "rk_Performed (verifyRekorAnchor ver (ab_rekor_anchor b))" "rk_Match (verifyRekorAnchor ver (ab_rekor_anchor b))"
    "bc_Performed (verifyBundleAnchor g ver b)" "bc_Match (verifyBundleAnchor g ver b)"
    by (simp_all add: anchored_def covered_def r_def verify_checks_def Let_def)
  ultimately show ?complete
    using c by (simp add: r_def verdict_unfold seals_match rows_match [symmetric])
next
  assume c: ?complete
  then have m: "rk_Performed (verifyRekorAnchor ver (ab_rekor_anchor b))" "lc_Performed (verifyLeafBinding g b)"
    "pc_Performed (verifyPreAnchor g b)" "bc_Present (verifyBundleAnchor g ver b)"
    by (simp_all add: complete_record_def match_performed match_present)
  then show ?checks
    using c requirement_iff [of b "verifyBundleAnchor g ver b"]
    by (simp add: r_def verdict_unfold seals_match rows_match [symmetric])
qed

definition plain_options :: bundle_options where
  "plain_options = \<lparr>bo_policy = None, bo_policyHistory = None, bo_accountPolicy = None, bo_accountHistory = None,
     bo_signerKey = None, bo_request = None, bo_strict = False, bo_allowPartial = False, bo_allowUnanchored = False\<rparr>"

lemma account_unflagged: "applyAccountFlags g ver pins r None None
    = (if accountFailed (vr_AccountPolicyGate r) (vr_AccountPolicyHistory r) then report_failed r else r)"
  by (simp add: applyAccountFlags_def Let_def)

lemma verified_complete: "vr_VerdictTier (verify g ver pins b) = ''VERIFIED_ANCHORED'' \<longleftrightarrow> complete_record g ver pins b"
  unfolding complete_exact [symmetric] by (simp add: verify_def verdict_fields tier_of_def)

text \<open>C2. Without flags the tool exits 0 for exactly the records it reports as VERIFIED_ANCHORED, and those
  are exactly the records that pass every check the verdict's roll-up reads: every section hash and
  the bundle hash recompute, every extension row and seal matches, no copies disagree, the leaf is
  the run's and its entry and the record's entry verify over it, the table agrees with the record,
  the signers and times are accepted, and what the record claims of its actor, request, timing and
  policies holds. The requirement of a second entry adds nothing to these. The one check verify
  makes that is not among them is the job block's Validate, whose result the roll-up does not
  read (invalid_job_verified below).\<close>

theorem exit_zero_exact:
  "(exit_code plain_options (flagged_report g ver pins plain_options (verify g ver pins b)) = 0 \<longleftrightarrow> complete_record g ver pins b)
   \<and> (vr_VerdictTier (verify g ver pins b) = ''VERIFIED_ANCHORED'' \<longleftrightarrow> complete_record g ver pins b)"
proof -
  let ?r = "verify_checks g ver pins b" and ?v = "verify g ver pins b"
  have e: "exit_code plain_options ?v = 0 \<longleftrightarrow> rolled ?r \<and> anchored ?r \<and> covered ?r"
    by (simp add: exit_code_def plain_options_def exitShouldFail_def partialCoverageExit_def exitPartialCoverage_def
        verify_def verdict_fields)
  have f: "flagged_report g ver pins plain_options ?v = ?v \<or> \<not> rolled ?r
      \<and> exit_code plain_options (flagged_report g ver pins plain_options ?v) \<noteq> 0"
  proof -
    have "vr_AccountPolicyGate ?v = vr_AccountPolicyGate ?r" "vr_AccountPolicyHistory ?v = None"
      by (simp_all add: verify_def verdict_steps roll_up_def apply_job_def verify_checks_def Let_def split: option.split)
    moreover have "\<not> rolled ?r" if "accountFailed (vr_AccountPolicyGate ?r) None"
      using that by (simp add: rolled_def passed_before_requirement_def)
    ultimately show ?thesis
      by (simp add: flagged_report_def plain_options_def when_given_def account_unflagged Let_def)
        (simp add: exit_code_def exitShouldFail_def report_failed_def)
  qed
  then show ?thesis unfolding verified_complete using e complete_exact [of g ver pins b] by auto
qed

text \<open>The exit code of every tier, with the flags that accept less.\<close>

lemma exit_code_of_tier:
  defines "r \<equiv> \<lambda>g ver pins b. verify g ver pins b"
  shows "exit_code fl (r g ver pins b) =
    (if bo_strict fl \<and> vr_HasScaffold (r g ver pins b) then 1
     else if vr_VerdictTier (r g ver pins b) = ''VERIFIED_ANCHORED'' then 0
     else if vr_VerdictTier (r g ver pins b) = ''ANCHORED_PARTIAL_COVERAGE'' then if bo_allowPartial fl then 0 else 3
     else if vr_VerdictTier (r g ver pins b) = ''SELF_CONSISTENT_NOT_ANCHORED'' then if bo_allowUnanchored fl then 0 else 1
     else 1)"
  by (simp add: r_def exit_code_def exitShouldFail_def partialCoverageExit_def exitPartialCoverage_def verify_def
      verdict_fields tier_of_def)

text \<open>A request file or a signer key that does not match the record fails the run, and leaves the tier
  the report states as it was.\<close>

lemma unmatched_request_keeps_tier:
  "vr_VerdictTier (apply_request_file g r doc) = vr_VerdictTier r"
  "vr_RecordCoverage (apply_request_file g r doc) = vr_RecordCoverage r"
  "\<not> qc_RequestMatched (applyRequestFile g (vr_RequestSignature r) doc) \<Longrightarrow> exit_code fl (apply_request_file g r doc) = 1"
  by (simp_all add: apply_request_file_def exit_code_def exitShouldFail_def Let_def)

lemma unmatched_key_keeps_tier:
  "vr_VerdictTier (apply_signer_key r key) = vr_VerdictTier r"
  "\<not> snd (applySignerKey (vr_RequestSignature r) (vr_AllPassed r) key) \<Longrightarrow> exit_code fl (apply_signer_key r key) = 1"
  by (cases "applySignerKey (vr_RequestSignature r) (vr_AllPassed r) key";
    simp add: apply_signer_key_def exit_code_def exitShouldFail_def)+

text \<open>C1. One record entry, one record: two bundles that are both reported as VERIFIED_ANCHORED over the same
  record leaf have the same envelope identifier and the same content (the decision, the policy
  gates, the payload, the program, the clock, the table, the governance section, the execution
  record, the timings, the seals, the metadata and every section), or two of their preimages
  collide. Neither the log's verifier nor the pinned signers play a part.\<close>

theorem verified_records_fixed:
  assumes "vr_VerdictTier (verify g va pa a) = ''VERIFIED_ANCHORED''" "vr_VerdictTier (verify g vb pb b) = ''VERIFIED_ANCHORED''"
    and leaf: "recorded_leaf a = recorded_leaf b"
    and wf: "bundle_wf g a" "bundle_wf g b" "record_wf g a" "record_wf g b"
  shows "env_envelope_id (ab_envelope a) = env_envelope_id (ab_envelope b) \<and> same_content g a b
    \<or> collides g (content_preimages g a) (content_preimages g b)"
proof -
  have "complete_record g va pa a" "complete_record g vb pb b"
    using assms(1,2) by (simp_all add: verified_complete)
  then have m: "bc_Match (verifyBundleAnchor g va a)" "bc_Match (verifyBundleAnchor g vb b)"
    "stored_hashes a = recomputed_hashes g a" "stored_hashes b = recomputed_hashes g b"
    by (simp_all add: complete_record_def)
  then show ?thesis using leaf wf by (intro record_entry_fixes_content)
qed

lemma roll_up_job:
  "roll_up job r = (roll_up None r)\<lparr>vr_RequestSignature := vr_RequestSignature (apply_job job r)\<rparr>"
proof -
  have "passed_before_requirement (r\<lparr>vr_HasScaffold := h, vr_ScaffoldList := l, vr_AllPassed := False, vr_RequestSignature :=
      (vr_RequestSignature r)\<lparr>qc_Reason := e\<rparr>\<rparr>) = passed_before_requirement r" for h l e
    by (simp add: passed_before_requirement_def)
  then show ?thesis
    by (simp add: roll_up_def apply_job_def Let_def split: option.split)
qed

lemma verdict_ignores_request:
  "with_verdict (r\<lparr>vr_RequestSignature := c\<rparr>) = (with_verdict r)\<lparr>vr_RequestSignature := c\<rparr>"
proof -
  have "set_anchored (r\<lparr>vr_RequestSignature := c\<rparr>) = (set_anchored r)\<lparr>vr_RequestSignature := c\<rparr>"
    "set_tier (r\<lparr>vr_RequestSignature := c\<rparr>) = (set_tier r)\<lparr>vr_RequestSignature := c\<rparr>"
    "set_coverage (r\<lparr>vr_RequestSignature := c\<rparr>) = (set_coverage r)\<lparr>vr_RequestSignature := c\<rparr>"
    "mark_partial (r\<lparr>vr_RequestSignature := c\<rparr>) = (mark_partial r)\<lparr>vr_RequestSignature := c\<rparr>" for r
    by (simp_all add: verdict_steps recordCoverage_def completeRecordAnchored_def)
  then show ?thesis by (simp add: with_verdict_def)
qed

text \<open>A job block that Validate refuses does not fail the record: the verdict, AllPassed and the coverage
  are those of the record's other checks, whatever the job block holds. Only the reason shown for
  the request signature changes.\<close>

lemma invalid_job_ignored:
  "verify g ver pins b = (with_verdict (roll_up None (verify_checks g ver pins b)))
     \<lparr>vr_RequestSignature := (verifyRequestSignature g b)\<lparr>qc_Reason :=
        (case nr_job (ab_nrep b) of None \<Rightarrow> qc_Reason (verifyRequestSignature g b)
         | Some j \<Rightarrow> (case JobLink_Validate (Some j) of None \<Rightarrow> qc_Reason (verifyRequestSignature g b)
            | Some e \<Rightarrow> Some (RequestJob e)))\<rparr>\<rparr>"
proof -
  have "vr_RequestSignature (verify_checks g ver pins b) = verifyRequestSignature g b"
    by (simp add: verify_checks_def Let_def)
  then show ?thesis
    unfolding verify_def roll_up_job [of "nr_job (ab_nrep b)"] verdict_ignores_request
    by (simp add: apply_job_def split: option.split)
qed

section \<open>The verdict on the sample\<close>

lemma run_complete: "complete_record toy_lib (\<lambda>_. None) run_pins (run_sample j r)"
proof -
  let ?s = "run_sample j r"
  have "extension_rows toy_lib ?s = []"
    by (simp add: extension_rows_def run_fields zero_formal_verification_def)
  moreover have "list_all (\<lambda>sealed. sr_manifest_hash sealed = ''manifest'') (map snd (allSeals ?s))"
    by (simp add: allSeals_def run_values run_seal_fields)
  moreover have "cross_checks ?s = []"
    by (simp add: cross_checks_def run_policies run_copies)
  moreover have "rk_Match (verifyRekorAnchor (\<lambda>_. None) (ab_rekor_anchor ?s))"
    by (simp add: verifyRekorAnchor_def run_fields isNoEntryBody_def)
  ultimately show ?thesis
    by (simp add: complete_record_def run_bundle_hash run_sources(2) run_fields run_identity run_leaf_ok run_table_ok
        run_anchor_ok run_signers_ok run_unclaimed run_policies optional_def accountFailed_def zero_formal_verification_def)
qed

text \<open>Two copies of the run that differ in the root hash of the first entry.\<close>

lemma verified_records_fixed_witness:
  "same_content toy_lib (run_sample None []) (run_sample None ''00'')
   \<or> collides toy_lib (content_preimages toy_lib (run_sample None [])) (content_preimages toy_lib (run_sample None ''00''))"
proof -
  have v: "vr_VerdictTier (verify toy_lib (\<lambda>_. None) run_pins (run_sample None r)) = ''VERIFIED_ANCHORED''" for r
    by (simp only: verified_complete run_complete)
  have "recorded_leaf (run_sample None []) = recorded_leaf (run_sample None ''00'')"
    by (simp only: run_recorded_leaf [of None "''00''"])
  from verified_records_fixed [OF v v this run_bundle_wf run_bundle_wf run_record_wf run_record_wf]
  show ?thesis by blast
qed

text \<open>A job block whose identifier is not a name.\<close>

definition unnamed_job :: job_link where
  "unnamed_job = \<lparr>jl_job_id = ''a b'', jl_step_id = ''1'', jl_previous_record_hashes = [], jl_external_previous = [], jl_final = True\<rparr>"

lemma unnamed_job_refused: "JobLink_Validate (Some unnamed_job) = Some JobIdMalformed"
  unfolding unnamed_job_def by code_simp

text \<open>The report of a record as it is when the job block is not validated at all.\<close>

definition verdict_without_job ::
  "golib \<Rightarrow> (anchor_input \<Rightarrow> anchor_error option) \<Rightarrow> (string \<times> pinned_signer) list \<Rightarrow> audit_bundle \<Rightarrow> report" where
  "verdict_without_job g ver pins b = with_verdict (roll_up None (verify_checks g ver pins b))"

lemma without_job_fields:
  assumes "r = (verdict_without_job g ver pins b)\<lparr>vr_RequestSignature := c\<rparr>"
  shows "vr_AllPassed r = vr_AllPassed (verdict_without_job g ver pins b)"
    and "vr_VerdictTier r = vr_VerdictTier (verdict_without_job g ver pins b)"
    and "vr_RecordCoverage r = vr_RecordCoverage (verdict_without_job g ver pins b)"
    and "exit_code fl r = exit_code fl (verdict_without_job g ver pins b)"
  using assms by (simp_all add: exit_code_def exitShouldFail_def partialCoverageExit_def completeRecordAnchored_def)

text \<open>C31. A job block that Validate refuses does not fail the record, whatever the record: its report is the
  one it would have if the job block were not validated at all, but for the reason shown for the
  request signature, which names the job error. AllPassed, the tier, the coverage and the exit code under any
  switches are those of the record's other checks, so a record that passes them all is reported
  as VERIFIED_ANCHORED and exits 0 with a malformed job block.\<close>

theorem invalid_job_verified:
  assumes "nr_job (ab_nrep b) = Some j" and "JobLink_Validate (Some j) = Some e"
  shows "verify g ver pins b = (verdict_without_job g ver pins b)
      \<lparr>vr_RequestSignature := (verifyRequestSignature g b)\<lparr>qc_Reason := Some (RequestJob e)\<rparr>\<rparr>
    \<and> vr_AllPassed (verify g ver pins b) = vr_AllPassed (verdict_without_job g ver pins b)
    \<and> vr_VerdictTier (verify g ver pins b) = vr_VerdictTier (verdict_without_job g ver pins b)
    \<and> vr_RecordCoverage (verify g ver pins b) = vr_RecordCoverage (verdict_without_job g ver pins b)
    \<and> (\<forall>fl. exit_code fl (verify g ver pins b) = exit_code fl (verdict_without_job g ver pins b))
    \<and> (complete_record g ver pins b \<longleftrightarrow> vr_VerdictTier (verify g ver pins b) = ''VERIFIED_ANCHORED'')
    \<and> (complete_record g ver pins b \<longleftrightarrow> exit_code plain_options (verify g ver pins b) = 0)"
proof -
  have r: "verify g ver pins b = (verdict_without_job g ver pins b)
      \<lparr>vr_RequestSignature := (verifyRequestSignature g b)\<lparr>qc_Reason := Some (RequestJob e)\<rparr>\<rparr>"
    using invalid_job_ignored [of g ver pins b] assms by (simp add: verdict_without_job_def)
  have "exit_code plain_options (verify g ver pins b) = 0 \<longleftrightarrow> complete_record g ver pins b"
    unfolding verified_complete [symmetric] by (simp add: exit_code_of_tier plain_options_def)
  then show ?thesis using r without_job_fields [OF r] verified_complete [of g ver pins b] by blast
qed

text \<open>The run of the sample with a job block whose identifier is not a name: verified, and exit 0.\<close>

lemma invalid_job_verified_witness:
  "qc_Reason (vr_RequestSignature (verify toy_lib (\<lambda>_. None) run_pins (run_sample (Some unnamed_job) []))) = Some (RequestJob JobIdMalformed)
   \<and> vr_VerdictTier (verify toy_lib (\<lambda>_. None) run_pins (run_sample (Some unnamed_job) [])) = ''VERIFIED_ANCHORED''
   \<and> exit_code plain_options (verify toy_lib (\<lambda>_. None) run_pins (run_sample (Some unnamed_job) [])) = 0"
proof -
  have "nr_job (ab_nrep (run_sample (Some unnamed_job) [])) = Some unnamed_job"
    by (simp add: run_fields run_nrep_def)
  note w = invalid_job_verified [OF this unnamed_job_refused, of toy_lib "\<lambda>_. None" run_pins]
  have "complete_record toy_lib (\<lambda>_. None) run_pins (run_sample (Some unnamed_job) [])" by (rule run_complete)
  moreover from w have "qc_Reason (vr_RequestSignature (verify toy_lib (\<lambda>_. None) run_pins (run_sample (Some unnamed_job) [])))
      = Some (RequestJob JobIdMalformed)"
    by (simp only: w [THEN conjunct1]) simp
  ultimately show ?thesis using w by blast
qed

end
