(* ===== verification/JobMap.thy ===== *)
theory JobMap
  imports Verify "HOL-Library.AList" "HOL-Library.Multiset"
begin

text \<open>
  The job map (jobmap.go): the records of one folder, each checked in full by the verifier of its
  kind and reduced to its hash, its job block, its signer and the reason it failed; then the rules
  of the map over them, and the modes and exit codes of --job.

  Each file is given as the document the strict decoder of its kind returns, or the decoder's
  error; the files are sorted by name. A problem is a constructor with the values its text holds. The code sorts the texts, so
  the list it prints is a function of the multiset of problems, which is what the report keeps;
  the external links are sorted by step with an unstable sort, so they are a multiset too.
\<close>

section \<open>The records of a folder\<close>

datatype record_reason =
    Undecoded string
  | RecordFails
  | ReceiptFails
  | FailedSignature request_reason
  | FailedReceipt receipt_reason

record job_record =
  jr_File :: string
  jr_Hash :: string
  jr_Job :: "job_link option"
  jr_Signer :: string
  jr_Reason :: "record_reason option"

record job_options =
  jo_allowUnanchored :: bool
  jo_selfHosted :: bool
  jo_signerKey :: string

definition new_record :: "string \<Rightarrow> job_record" where
  "new_record file = \<lparr>jr_File = file, jr_Hash = [], jr_Job = None, jr_Signer = [], jr_Reason = None\<rparr>"

text \<open>The reason of a failed record: the signature's own reason when the signature is what failed.\<close>

definition bundle_reason :: "report \<Rightarrow> bool \<Rightarrow> record_reason option" where
  "bundle_reason r allowUnanchored =
     (if exitShouldFail r False allowUnanchored then
        (let c = vr_RequestSignature r in
         if qc_Performed c \<and> \<not> qc_Match c then map_option FailedSignature (qc_Reason c) else Some RecordFails)
      else None)"

definition recordFromBundle ::
  "golib \<Rightarrow> (anchor_input \<Rightarrow> anchor_error option) \<Rightarrow> (string \<times> pinned_signer) list \<Rightarrow> string
    \<Rightarrow> string + audit_bundle \<Rightarrow> job_options \<Rightarrow> job_record" where
  "recordFromBundle g rekorAnchorVerifier pins file doc opts =
     (let rec = new_record file in
      case doc of Inl decodeErr \<Rightarrow> rec\<lparr>jr_Reason := Some (Undecoded decodeErr)\<rparr>
      | Inr b \<Rightarrow>
         if \<not> bundle_readable b then rec\<lparr>jr_Reason := Some (Undecoded ''missing kind or manifest_hash'')\<rparr> else
         (let r = verify g rekorAnchorVerifier pins b;
              r = (if jo_signerKey opts \<noteq> [] then apply_signer_key r (jo_signerKey opts) else r)
          in rec\<lparr>jr_Hash := ab_manifest_hash b, jr_Job := nr_job (ab_nrep b),
                 jr_Signer := qc_PublicKey (vr_RequestSignature r),
                 jr_Reason := bundle_reason r (jo_allowUnanchored opts)\<rparr>))"

definition receipt_reason_of :: "receipt_report \<Rightarrow> bool \<Rightarrow> record_reason option" where
  "receipt_reason_of r allowUnanchored =
     (if receiptExitShouldFail r allowUnanchored
      then Some (case rr_Reason r of None \<Rightarrow> ReceiptFails | Some e \<Rightarrow> FailedReceipt e)
      else None)"

definition recordFromReceipt ::
  "golib \<Rightarrow> (anchor_input \<Rightarrow> anchor_error option) \<Rightarrow> (string \<times> pinned_signer) list \<Rightarrow> string
    \<Rightarrow> string + receipt_document \<Rightarrow> job_options \<Rightarrow> job_record" where
  "recordFromReceipt g rekorAnchorVerifier pins file doc opts =
     (let rec = new_record file in
      case doc of Inl decodeErr \<Rightarrow> rec\<lparr>jr_Reason := Some (Undecoded decodeErr)\<rparr>
      | Inr d \<Rightarrow>
         (let r = verifyReceiptDocumentWith g rekorAnchorVerifier pins (jo_selfHosted opts) d;
              r = (if jo_signerKey opts \<noteq> [] then applyReceiptSignerKey r (jo_signerKey opts) else r)
          in rec\<lparr>jr_Hash := (case factsOf g d of Inl _ \<Rightarrow> [] | Inr f \<Rightarrow> fa_hash f),
                 jr_Job := (case rd_receipt_context d of None \<Rightarrow> None | Some c \<Rightarrow> rx_job c),
                 jr_Signer := qc_PublicKey (rr_RequestSignature r),
                 jr_Reason := receipt_reason_of r (jo_allowUnanchored opts)\<rparr>))"

text \<open>One file of the folder: what it decodes to, or its read error.\<close>

datatype job_document = BundleFile "string + audit_bundle" | ReceiptFile "string + receipt_document"
datatype load_error = NoRecords | FileUnreadable string

definition record_of ::
  "golib \<Rightarrow> (anchor_input \<Rightarrow> anchor_error option) \<Rightarrow> (string \<times> pinned_signer) list \<Rightarrow> job_options
    \<Rightarrow> string \<times> job_document \<Rightarrow> job_record" where
  "record_of g rekorAnchorVerifier pins opts file = (case snd file of
     BundleFile doc \<Rightarrow> recordFromBundle g rekorAnchorVerifier pins (fst file) doc opts
   | ReceiptFile doc \<Rightarrow> recordFromReceipt g rekorAnchorVerifier pins (fst file) doc opts)"

fun read_files ::
  "golib \<Rightarrow> (anchor_input \<Rightarrow> anchor_error option) \<Rightarrow> (string \<times> pinned_signer) list \<Rightarrow> job_options
    \<Rightarrow> (string \<times> job_document option) list \<Rightarrow> load_error + job_record list" where
  "read_files g rekorAnchorVerifier pins opts [] = Inr []"
| "read_files g rekorAnchorVerifier pins opts ((name, None) # files) = Inl (FileUnreadable name)"
| "read_files g rekorAnchorVerifier pins opts ((name, Some doc) # files) =
     (case read_files g rekorAnchorVerifier pins opts files of
        Inl e \<Rightarrow> Inl e
      | Inr records \<Rightarrow> Inr (record_of g rekorAnchorVerifier pins opts (name, doc) # records))"

definition loadJobRecords ::
  "golib \<Rightarrow> (anchor_input \<Rightarrow> anchor_error option) \<Rightarrow> (string \<times> pinned_signer) list \<Rightarrow> job_options
    \<Rightarrow> (string \<times> job_document option) list \<Rightarrow> load_error + job_record list" where
  "loadJobRecords g rekorAnchorVerifier pins opts files =
     (if files = [] then Inl NoRecords
      else read_files g rekorAnchorVerifier pins opts (sort_key fst files))"

section \<open>The map\<close>

definition external_targets :: "job_record list \<Rightarrow> string list" where
  "external_targets records =
     concat (map (\<lambda>r. case jr_Job r of None \<Rightarrow> [] | Some j \<Rightarrow> jl_external_previous j) records)"

definition mainJobID :: "job_record list \<Rightarrow> string" where
  "mainJobID records =
     (case find (\<lambda>r. jr_Job r \<noteq> None \<and> jr_Hash r \<notin> set (external_targets records)) records of
        None \<Rightarrow> [] | Some r \<Rightarrow> (case jr_Job r of None \<Rightarrow> [] | Some j \<Rightarrow> jl_job_id j))"

datatype job_problem =
    BadRecord string record_reason
  | NoJobBlock string
  | OtherJob string string string
  | JobBlockInvalid string job_error
  | StepTwice string string string
  | RecordTwice string string
  | PreviousMissing string string
  | ManyFinal "string list"
  | BranchDropped string

record job_index =
  jx_byHash :: "(string \<times> job_record) list"
  jx_byStep :: "(string \<times> string) list"
  jx_final :: "string list"

record external_link =
  xl_Step :: string
  xl_Record :: string
  xl_Supplied :: bool

record job_report =
  jt_JobID :: string
  jt_Records :: nat
  jt_Verdict :: string
  jt_Problems :: "job_problem multiset"
  jt_Signers :: "string list"
  jt_External :: "external_link multiset"

text \<open>The place of one record in the job: what the switch of indexJob reports of it.\<close>

definition place_problems :: "string \<Rightarrow> string list \<Rightarrow> job_record \<Rightarrow> job_problem list" where
  "place_problems jobID external r = (case jr_Reason r of
     Some e \<Rightarrow> [BadRecord (jr_File r) e]
   | None \<Rightarrow> (case jr_Job r of
       None \<Rightarrow> [NoJobBlock (jr_File r)]
     | Some j \<Rightarrow>
        if jl_job_id j \<noteq> jobID \<and> jr_Hash r \<notin> set external
        then [OtherJob (jr_File r) (jl_job_id j) jobID] else []))"

text \<open>A record of the job enters the index; a later step or record of one key replaces the earlier.\<close>

definition enter_problems :: "job_index \<Rightarrow> job_record \<Rightarrow> job_link \<Rightarrow> job_problem list" where
  "enter_problems idx r j =
     (case JobLink_Validate (Some j) of None \<Rightarrow> [] | Some e \<Rightarrow> [JobBlockInvalid (jr_File r) e]) @
     (case map_of (jx_byStep idx) (jl_step_id j) of None \<Rightarrow> []
      | Some other \<Rightarrow> [StepTwice (jl_step_id j) other (jr_File r)]) @
     (case map_of (jx_byHash idx) (jr_Hash r) of None \<Rightarrow> []
      | Some other \<Rightarrow> [RecordTwice (jr_File other) (jr_File r)])"

definition enter :: "job_record \<Rightarrow> job_link \<Rightarrow> job_index \<Rightarrow> job_index" where
  "enter r j idx = \<lparr>jx_byHash = AList.update (jr_Hash r) r (jx_byHash idx),
     jx_byStep = AList.update (jl_step_id j) (jr_File r) (jx_byStep idx),
     jx_final = (if jl_final j then jx_final idx @ [jr_File r] else jx_final idx)\<rparr>"

definition index_step ::
  "string \<Rightarrow> string list \<Rightarrow> job_record \<Rightarrow> job_index \<times> job_problem list \<Rightarrow> job_index \<times> job_problem list" where
  "index_step jobID external r st = (case st of (idx, problems) \<Rightarrow>
     (let problems = problems @ place_problems jobID external r in
      case jr_Job r of
        None \<Rightarrow> (idx, problems)
      | Some j \<Rightarrow>
         if jl_job_id j \<noteq> jobID then (idx, problems)
         else (enter r j idx, problems @ enter_problems idx r j)))"

definition empty_index :: job_index where
  "empty_index = \<lparr>jx_byHash = [], jx_byStep = [], jx_final = []\<rparr>"

definition indexJob :: "job_record list \<Rightarrow> string \<Rightarrow> string list \<Rightarrow> job_index \<times> job_problem list" where
  "indexJob records jobID external = fold (index_step jobID external) records (empty_index, [])"

text \<open>The loop over the index visits its entries in any order; perm is that order.\<close>

definition supplied_map :: "job_record list \<Rightarrow> string \<rightharpoonup> bool" where
  "supplied_map records = fold (\<lambda>r m. m(jr_Hash r \<mapsto> jr_Reason r = None)) records Map.empty"

definition entry_problems :: "(string \<times> job_record) list \<Rightarrow> string \<times> job_record \<Rightarrow> job_problem list" where
  "entry_problems byHash e = (let j = the (jr_Job (snd e)) in
     map (PreviousMissing (jl_step_id j)) (filter (\<lambda>h. map_of byHash h = None) (jl_previous_record_hashes j)))"

definition entry_links :: "(string \<rightharpoonup> bool) \<Rightarrow> string \<times> job_record \<Rightarrow> external_link list" where
  "entry_links supplied e = (let j = the (jr_Job (snd e)) in
     map (\<lambda>h. \<lparr>xl_Step = jl_step_id j, xl_Record = h, xl_Supplied = supplied h = Some True\<rparr>) (jl_external_previous j))"

definition followed_hashes :: "(string \<times> job_record) list \<Rightarrow> string list" where
  "followed_hashes entries = concat (map (\<lambda>e. jl_previous_record_hashes (the (jr_Job (snd e)))) entries)"

definition dropped :: "string list \<Rightarrow> string \<times> job_record \<Rightarrow> job_problem list" where
  "dropped followed e = (let j = the (jr_Job (snd e)) in
     if \<not> jl_final j \<and> fst e \<notin> set followed then [BranchDropped (jl_step_id j)] else [])"

definition job_problems :: "job_index \<Rightarrow> job_problem list \<Rightarrow> (string \<times> job_record) list \<Rightarrow> job_problem list" where
  "job_problems idx problems entries = (let followed = followed_hashes entries in
     problems @ concat (map (entry_problems (jx_byHash idx)) entries)
     @ (if length (jx_final idx) > 1 then [ManyFinal (jx_final idx)] else [])
     @ (if length (jx_final idx) = 1 then concat (map (dropped followed) entries) else []))"

definition checkJobMapIn ::
  "((string \<times> job_record) list \<Rightarrow> (string \<times> job_record) list) \<Rightarrow> job_record list \<Rightarrow> job_report" where
  "checkJobMapIn perm records =
     (let jobID = mainJobID records;
          (idx, problems) = indexJob records jobID (external_targets records);
          entries = perm (jx_byHash idx);
          problems = job_problems idx problems entries
      in \<lparr>jt_JobID = jobID, jt_Records = length records,
          jt_Verdict = (if problems \<noteq> [] then ''FAILED''
            else if length (jx_final idx) = 1 then ''COMPLETE'' else ''OPEN''),
          jt_Problems = mset problems,
          jt_Signers = sort (remdups (filter (\<lambda>s. s \<noteq> []) (map (\<lambda>e. jr_Signer (snd e)) entries))),
          jt_External = mset (concat (map (entry_links (supplied_map records)) entries))\<rparr>)"

definition checkJobMap :: "job_record list \<Rightarrow> job_report" where
  "checkJobMap records = checkJobMapIn (\<lambda>entries. entries) records"

section \<open>The mode and its exit codes\<close>

definition runJobCheck ::
  "golib \<Rightarrow> (anchor_input \<Rightarrow> anchor_error option) \<Rightarrow> (string \<times> pinned_signer) list \<Rightarrow> job_options \<Rightarrow> bool
    \<Rightarrow> (string \<times> job_document option) list \<Rightarrow> nat" where
  "runJobCheck g rekorAnchorVerifier pins opts allowOpen files =
     (case loadJobRecords g rekorAnchorVerifier pins opts files of
        Inl _ \<Rightarrow> 2
      | Inr records \<Rightarrow>
         (let v = jt_Verdict (checkJobMap records) in
          if v = ''COMPLETE'' then 0
          else if v = ''OPEN'' then if allowOpen then 0 else exitPartialCoverage
          else 1))"

definition job_flags :: "string list" where
  "job_flags = [''job'', ''json'', ''allow-partial'', ''allow-unanchored'', ''self-hosted-receipt'', ''signer-key'']"

text \<open>The flags set, the number of other arguments, and the content of the key file when --signer-key
  is set (Some None when it cannot be read).\<close>

definition runJobMode ::
  "golib \<Rightarrow> (anchor_input \<Rightarrow> anchor_error option) \<Rightarrow> (string \<times> pinned_signer) list \<Rightarrow> string list \<Rightarrow> nat
    \<Rightarrow> bytes option option \<Rightarrow> bool \<Rightarrow> bool \<Rightarrow> bool \<Rightarrow> (string \<times> job_document option) list \<Rightarrow> nat" where
  "runJobMode g rekorAnchorVerifier pins flags narg keyFile allowPartial allowUnanchored selfHosted files =
     (if list_ex (\<lambda>f. f \<notin> set job_flags) flags \<or> narg > 0 then 2
      else (let run = (\<lambda>key. runJobCheck g rekorAnchorVerifier pins
              \<lparr>jo_allowUnanchored = allowUnanchored, jo_selfHosted = selfHosted, jo_signerKey = key\<rparr> allowPartial files)
        in case keyFile of None \<Rightarrow> run []
           | Some None \<Rightarrow> 2
           | Some (Some key) \<Rightarrow> run (trim_space key)))"


section \<open>The index of a job\<close>

definition in_job :: "string \<Rightarrow> job_record \<Rightarrow> bool" where
  "in_job jobID r \<longleftrightarrow> (case jr_Job r of None \<Rightarrow> False | Some j \<Rightarrow> jl_job_id j = jobID)"

abbreviation jr_link :: "job_record \<Rightarrow> job_link" where
  "jr_link r \<equiv> the (jr_Job r)"

abbreviation jr_step :: "job_record \<Rightarrow> string" where
  "jr_step r \<equiv> jl_step_id (jr_link r)"

abbreviation jr_previous :: "job_record \<Rightarrow> string list" where
  "jr_previous r \<equiv> jl_previous_record_hashes (jr_link r)"

abbreviation jr_final :: "job_record \<Rightarrow> bool" where
  "jr_final r \<equiv> jl_final (jr_link r)"

definition members :: "job_record list \<Rightarrow> job_record list" where
  "members records = filter (in_job (mainJobID records)) records"

text \<open>A record in its place: verified, and either a valid step of the job or the target of an
  external link.\<close>

definition placed :: "string \<Rightarrow> string list \<Rightarrow> job_record \<Rightarrow> bool" where
  "placed jobID external r \<longleftrightarrow> jr_Reason r = None \<and> (case jr_Job r of None \<Rightarrow> False
     | Some j \<Rightarrow> if jl_job_id j = jobID then JobLink_Validate (Some j) = None else jr_Hash r \<in> set external)"

definition update_all :: "('a \<Rightarrow> 'k) \<Rightarrow> ('a \<Rightarrow> 'v) \<Rightarrow> 'a list \<Rightarrow> ('k \<times> 'v) list" where
  "update_all k v xs = fold (\<lambda>x. AList.update (k x) (v x)) xs []"

lemma update_all_simps [simp]:
  "update_all k v [] = []" "update_all k v (xs @ [x]) = AList.update (k x) (v x) (update_all k v xs)"
  by (simp_all add: update_all_def)

lemma update_fresh: "k \<notin> fst ` set l \<Longrightarrow> AList.update k v l = l @ [(k, v)]"
  by (induction l) auto

lemma update_member: "e \<in> set (AList.update k v l) \<Longrightarrow> e = (k, v) \<or> e \<in> set l"
  by (induction l) (auto split: if_splits)

lemma update_all_keys: "fst ` set (update_all k v xs) = k ` set xs"
  by (induction xs rule: rev_induct) (simp_all add: dom_update)

lemma update_all_lookup: "map_of (update_all k v xs) a = None \<longleftrightarrow> a \<notin> k ` set xs"
  by (simp add: map_of_eq_None_iff update_all_keys)

lemma update_all_distinct: "distinct (map fst (update_all k v xs))"
  by (induction xs rule: rev_induct) (simp_all add: distinct_update)

lemma update_all_member: "e \<in> set (update_all k v xs) \<Longrightarrow> \<exists>x \<in> set xs. e = (k x, v x)"
  by (induction xs rule: rev_induct) (auto dest: update_member)

lemma update_all_fresh: "distinct (map k xs) \<Longrightarrow> update_all k v xs = map (\<lambda>x. (k x, v x)) xs"
  by (induction xs rule: rev_induct) (auto simp: image_image intro!: update_fresh)

lemma enter_none: "enter_problems idx r j = [] \<longleftrightarrow> JobLink_Validate (Some j) = None
    \<and> map_of (jx_byStep idx) (jl_step_id j) = None \<and> map_of (jx_byHash idx) (jr_Hash r) = None"
  by (simp add: enter_problems_def split: option.split)

lemma place_inside: "jr_Job r = Some j \<Longrightarrow> jl_job_id j = jobID
    \<Longrightarrow> placed jobID external r \<longleftrightarrow> place_problems jobID external r = [] \<and> JobLink_Validate (Some j) = None"
  by (auto simp: placed_def place_problems_def split: option.splits)

lemma place_outside: "\<not> in_job jobID r \<Longrightarrow> placed jobID external r \<longleftrightarrow> place_problems jobID external r = []"
  by (auto simp: placed_def place_problems_def in_job_def split: option.splits)

lemma index_step_in: "jr_Job r = Some j \<Longrightarrow> jl_job_id j = jobID \<Longrightarrow> index_step jobID external r (idx, ps)
    = (enter r j idx, ps @ place_problems jobID external r @ enter_problems idx r j)"
  by (simp add: index_step_def Let_def)

lemma index_step_out: "\<not> in_job jobID r \<Longrightarrow> index_step jobID external r (idx, ps) = (idx, ps @ place_problems jobID external r)"
  by (simp add: index_step_def Let_def in_job_def split: option.splits)

lemma indexJob_snoc: "indexJob (rs @ [r]) jobID external = index_step jobID external r (indexJob rs jobID external)"
  by (simp add: indexJob_def)

text \<open>What the pass over the records leaves in the index, and when it reports nothing.\<close>

lemma index_invariant:
  fixes jobID :: string
  defines "ms \<equiv> \<lambda>rs. filter (in_job jobID) rs"
  shows "jx_byHash (fst (indexJob rs jobID external)) = update_all jr_Hash (\<lambda>r. r) (ms rs)
    \<and> jx_byStep (fst (indexJob rs jobID external)) = update_all jr_step jr_File (ms rs)
    \<and> jx_final (fst (indexJob rs jobID external)) = map jr_File (filter jr_final (ms rs))
    \<and> (snd (indexJob rs jobID external) = [] \<longleftrightarrow>
        list_all (placed jobID external) rs \<and> distinct (map jr_step (ms rs)) \<and> distinct (map jr_Hash (ms rs)))"
proof (induction rs rule: rev_induct)
  case Nil
  show ?case by (simp add: indexJob_def empty_index_def ms_def)
next
  case (snoc r rs)
  obtain idx ps where i: "indexJob rs jobID external = (idx, ps)" by fastforce
  show ?case
  proof (cases "in_job jobID r")
    case True
    then obtain j where j: "jr_Job r = Some j" "jl_job_id j = jobID" by (auto simp: in_job_def split: option.splits)
    let ?ps' = "place_problems jobID external r @ enter_problems idx r j"
    have n: "?ps' = [] \<longleftrightarrow> placed jobID external r \<and> jr_step r \<notin> jr_step ` set (ms rs) \<and> jr_Hash r \<notin> jr_Hash ` set (ms rs)"
      using snoc i j by (simp add: enter_none place_inside [OF j] update_all_lookup)
    have "ms (rs @ [r]) = ms rs @ [r]" using True by (simp add: ms_def)
    then show ?thesis
      using snoc i j n by (auto simp: indexJob_snoc index_step_in enter_def)
  next
    case False
    then have "ms (rs @ [r]) = ms rs" by (simp add: ms_def)
    with snoc i False show ?thesis
      by (auto simp: indexJob_snoc index_step_out place_outside)
  qed
qed

lemmas index_fields = index_invariant [THEN conjunct1] index_invariant [THEN conjunct2, THEN conjunct1]
  index_invariant [THEN conjunct2, THEN conjunct2, THEN conjunct1]
  index_invariant [THEN conjunct2, THEN conjunct2, THEN conjunct2]

text \<open>The index is well formed: one entry for each hash, under the hash of its own record, which is a
  record of the folder with a block of this job, so the loop never reads the block of a record
  that has none.\<close>

lemma index_well_formed:
  "distinct (map fst (jx_byHash (fst (indexJob rs jobID external))))"
  "e \<in> set (jx_byHash (fst (indexJob rs jobID external))) \<Longrightarrow>
    fst e = jr_Hash (snd e) \<and> snd e \<in> set rs \<and> jr_Job (snd e) \<noteq> None \<and> in_job jobID (snd e)"
  by (auto simp: index_fields update_all_distinct in_job_def dest!: update_all_member split: option.splits)


section \<open>The verdict on a job\<close>

text \<open>The rules of the map over its records, with no index and no order: every record is in its place,
  no step and no record comes twice, and every previous record is one of the job's.\<close>

definition sound_job :: "job_record list \<Rightarrow> bool" where
  "sound_job records \<longleftrightarrow> list_all (placed (mainJobID records) (external_targets records)) records
     \<and> distinct (map jr_step (members records)) \<and> distinct (map jr_Hash (members records))
     \<and> list_all (\<lambda>r. set (jr_previous r) \<subseteq> jr_Hash ` set (members records)) (members records)"

text \<open>Nothing is left hanging: every step but the final one is followed by a step.\<close>

definition joined_job :: "job_record list \<Rightarrow> bool" where
  "joined_job records \<longleftrightarrow> list_all (\<lambda>r. jr_final r \<or> list_ex (\<lambda>s. jr_Hash r \<in> set (jr_previous s)) (members records))
     (members records)"

definition final_steps :: "job_record list \<Rightarrow> nat" where
  "final_steps records = length (filter jr_final (members records))"

definition job_verdict :: "job_record list \<Rightarrow> string" where
  "job_verdict records =
     (if \<not> sound_job records \<or> final_steps records > 1 then ''FAILED''
      else if final_steps records = 0 then ''OPEN''
      else if joined_job records then ''COMPLETE'' else ''FAILED'')"

lemma concat_map_empty: "concat (map f xs) = [] \<longleftrightarrow> list_all (\<lambda>x. f x = []) xs"
  by (induction xs) auto

lemma entry_problems_none: "entry_problems byHash e = [] \<longleftrightarrow> set (jr_previous (snd e)) \<subseteq> fst ` set byHash"
  by (auto simp: entry_problems_def Let_def filter_empty_conv map_of_eq_None_iff)

lemma followed_perm: "mset a = mset b \<Longrightarrow> set (followed_hashes a) = set (followed_hashes b)"
  by (auto simp: followed_hashes_def dest!: mset_eq_setD)

lemma dropped_perm: "set a = set b \<Longrightarrow> dropped a = dropped b"
  by (rule ext) (simp add: dropped_def)

lemma concat_map_perm: "mset a = mset b \<Longrightarrow> mset (concat (map f a)) = mset (concat (map f b))"
proof -
  have "mset (concat (map f l)) = (\<Sum>x\<in>#mset l. mset (f x))" for l by (induction l) auto
  then show "mset a = mset b \<Longrightarrow> ?thesis" by simp
qed

text \<open>The report does not depend on the order in which the loop visits the map.\<close>

lemma map_order_irrelevant:
  assumes "\<And>l. mset (perm l) = mset l"
  shows "checkJobMapIn perm records = checkJobMap records"
proof -
  define idx where "idx = fst (indexJob records (mainJobID records) (external_targets records))"
  define ps where "ps = snd (indexJob records (mainJobID records) (external_targets records))"
  let ?p = "perm (jx_byHash idx)" and ?e = "jx_byHash idx"
  note m = assms [of ?e]
  have i: "indexJob records (mainJobID records) (external_targets records) = (idx, ps)" by (simp add: idx_def ps_def)
  have p: "mset (job_problems idx ps ?p) = mset (job_problems idx ps ?e)"
    by (simp add: job_problems_def Let_def concat_map_perm [OF m] dropped_perm [OF followed_perm [OF m]]
        cong: map_cong)
  have "job_problems idx ps ?p = [] \<longleftrightarrow> job_problems idx ps ?e = []"
    by (metis p mset_zero_iff)
  moreover have "sort (remdups (filter P (map f ?p))) = sort (remdups (filter P (map f ?e)))" for P and f :: "_ \<Rightarrow> string"
    by (simp add: sorted_list_of_set_sort_remdups [symmetric] mset_eq_setD [OF m])
  ultimately show ?thesis
    by (simp add: checkJobMapIn_def checkJobMap_def i Let_def p concat_map_perm [OF m])
qed

lemma dropped_none:
  "dropped followed e = [] \<longleftrightarrow> jr_final (snd e) \<or> fst e \<in> set followed"
  by (simp add: dropped_def Let_def)

lemma followed_hashes_map:
  "h \<in> set (followed_hashes (map (\<lambda>r. (jr_Hash r, r)) ms)) \<longleftrightarrow> list_ex (\<lambda>s. h \<in> set (jr_previous s)) ms"
  by (auto simp: followed_hashes_def list_ex_iff)

lemma job_map_verdict: "jt_Verdict (checkJobMap records) = job_verdict records"
proof -
  define idx where "idx = fst (indexJob records (mainJobID records) (external_targets records))"
  define ps where "ps = snd (indexJob records (mainJobID records) (external_targets records))"
  let ?ms = "members records" and ?placed = "placed (mainJobID records) (external_targets records)"
  have i: "indexJob records (mainJobID records) (external_targets records) = (idx, ps)" by (simp add: idx_def ps_def)
  have f: "jx_final idx = map jr_File (filter jr_final ?ms)"
    and p: "ps = [] \<longleftrightarrow> list_all ?placed records \<and> distinct (map jr_step ?ms) \<and> distinct (map jr_Hash ?ms)"
    and b: "jx_byHash idx = update_all jr_Hash (\<lambda>r. r) ?ms"
    by (simp_all add: idx_def ps_def index_fields members_def)
  show ?thesis
  proof (cases "ps = []")
    case False
    then have "\<not> sound_job records" using p by (auto simp: sound_job_def)
    then show ?thesis using False by (simp add: checkJobMap_def checkJobMapIn_def job_problems_def i job_verdict_def Let_def)
  next
    case True
    then have e: "jx_byHash idx = map (\<lambda>r. (jr_Hash r, r)) ?ms" using p by (simp add: b update_all_fresh)
    have s: "sound_job records \<longleftrightarrow> concat (map (entry_problems (jx_byHash idx)) (jx_byHash idx)) = []"
      using True p by (simp add: sound_job_def concat_map_empty e list.pred_map comp_def entry_problems_none image_image list_all_iff)
    have j: "joined_job records \<longleftrightarrow> concat (map (dropped (followed_hashes (jx_byHash idx))) (jx_byHash idx)) = []"
      by (simp add: joined_job_def concat_map_empty e list.pred_map comp_def dropped_none followed_hashes_map list_all_iff)
    have n: "length (jx_final idx) = final_steps records" by (simp add: f final_steps_def)
    show ?thesis
      by (simp add: checkJobMap_def checkJobMapIn_def job_problems_def i True Let_def n job_verdict_def s j)
  qed
qed

text \<open>C33. The verdict on a job is decided by rules over its records alone, whatever order the code's map is
  visited in: FAILED unless every record verified and is a valid step of the job or the target of
  an external link, no step and no record comes twice, every record a step follows is one of the
  job's, there is at most one final step, and with a final step every other step is followed; then
  COMPLETE with one final step and OPEN with none. The whole report, its problems, signers and
  links included, does not depend on that order.\<close>

theorem job_map_exact:
  assumes "\<And>l. mset (perm l) = mset l"
  shows "jt_Verdict (checkJobMapIn perm records) = job_verdict records \<and> checkJobMapIn perm records = checkJobMap records"
  using map_order_irrelevant [of perm, OF assms] by (simp add: job_map_verdict)


section \<open>What a complete job shows\<close>

text \<open>One step leads to another when a chain of links of the job goes from it to the other.\<close>

inductive leads_to :: "job_record list \<Rightarrow> job_record \<Rightarrow> job_record \<Rightarrow> bool" for ms where
  here: "r \<in> set ms \<Longrightarrow> leads_to ms r r"
| follow: "r \<in> set ms \<Longrightarrow> s \<in> set ms \<Longrightarrow> jr_Hash r \<in> set (jr_previous s) \<Longrightarrow> leads_to ms s t \<Longrightarrow> leads_to ms r t"

inductive_simps leads_to_iff: "leads_to ms r t"

lemma leads_to_rank:
  fixes rank :: "string \<Rightarrow> nat"
  assumes "leads_to ms r t" and "\<And>s h. s \<in> set ms \<Longrightarrow> h \<in> set (jr_previous s) \<Longrightarrow> rank h < rank (jr_Hash s)"
  shows "rank (jr_Hash r) \<le> rank (jr_Hash t)"
  using assms(1) by induction (auto dest: assms(2) order.strict_implies_order order_trans)

lemma leads_to_final:
  fixes rank :: "string \<Rightarrow> nat"
  assumes rank: "\<And>s h. s \<in> set ms \<Longrightarrow> h \<in> set (jr_previous s) \<Longrightarrow> rank h < rank (jr_Hash s)"
    and followed: "\<And>r. r \<in> set ms \<Longrightarrow> jr_final r \<or> (\<exists>s \<in> set ms. jr_Hash r \<in> set (jr_previous s))"
    and r: "r \<in> set ms"
  shows "\<exists>f \<in> set ms. jr_final f \<and> leads_to ms r f"
  using r
proof (induction "Max (insert 0 ((\<lambda>s. rank (jr_Hash s)) ` set ms)) - rank (jr_Hash r)" arbitrary: r rule: less_induct)
  case less
  show ?case
  proof (cases "jr_final r")
    case True
    with less.prems show ?thesis by (auto intro: here)
  next
    case False
    with followed [OF less.prems] obtain s where s: "s \<in> set ms" "jr_Hash r \<in> set (jr_previous s)" by blast
    have "rank (jr_Hash s) \<le> Max (insert 0 ((\<lambda>s. rank (jr_Hash s)) ` set ms))" using s(1) by (intro Max_ge) auto
    then have "Max (insert 0 ((\<lambda>s. rank (jr_Hash s)) ` set ms)) - rank (jr_Hash s)
        < Max (insert 0 ((\<lambda>s. rank (jr_Hash s)) ` set ms)) - rank (jr_Hash r)"
      using rank [OF s] by linarith
    from less.hyps [OF this s(1)] obtain f where "f \<in> set ms" "jr_final f" "leads_to ms s f" by blast
    with less.prems s show ?thesis by (auto intro: follow)
  qed
qed

lemma complete_job_parts:
  assumes "job_verdict records = ''COMPLETE''"
  shows "sound_job records" "joined_job records" "\<exists>f. filter jr_final (members records) = [f]"
proof -
  from assms have "sound_job records \<and> joined_job records \<and> final_steps records = 1"
    by (auto simp: job_verdict_def split: if_splits)
  then show "sound_job records" "joined_job records" "\<exists>f. filter jr_final (members records) = [f]"
    by (simp_all add: final_steps_def length_Suc_conv)
qed

text \<open>C34. A job reported as COMPLETE leads to its end: when no record names a hash of a later one (there is
  a rank, such as the time of sealing, that grows along every link), the job has exactly one final
  step, a chain of links goes from every record of the job to it, and no step follows it.\<close>

theorem complete_job_leads_to_final:
  fixes rank :: "string \<Rightarrow> nat"
  assumes "jt_Verdict (checkJobMap records) = ''COMPLETE''"
    and rank: "\<forall>s \<in> set (members records). \<forall>h \<in> set (jr_previous s). rank h < rank (jr_Hash s)"
  shows "\<exists>f \<in> set (members records). jr_final f
    \<and> (\<forall>r \<in> set (members records). leads_to (members records) r f \<and> (jr_final r \<longrightarrow> r = f)
        \<and> jr_Hash f \<notin> set (jr_previous r))"
proof -
  let ?ms = "members records"
  from assms(1) have v: "job_verdict records = ''COMPLETE''" by (simp add: job_map_verdict)
  obtain f where f: "filter jr_final ?ms = [f]" using complete_job_parts(3) [OF v] by blast
  have "{r \<in> set ?ms. jr_final r} = {f}" using arg_cong [OF f, of set] by simp
  then have fm: "f \<in> set ?ms" "jr_final f" and only: "\<And>r. r \<in> set ?ms \<Longrightarrow> jr_final r \<Longrightarrow> r = f" by blast+
  have lead: "leads_to ?ms r f" if "r \<in> set ?ms" for r
    using leads_to_final [of ?ms rank, OF _ _ that] rank complete_job_parts(2) [OF v] only
    by (fastforce simp: joined_job_def list_all_iff list_ex_iff)
  moreover have "jr_Hash f \<notin> set (jr_previous r)" if "r \<in> set ?ms" for r
    using leads_to_rank [OF lead [OF that], of rank] rank that by fastforce
  ultimately show ?thesis using fm only by blast
qed


section \<open>The records of a sound job verified\<close>

definition signed_by :: "string \<Rightarrow> request_check \<Rightarrow> bool" where
  "signed_by key c \<longleftrightarrow> qc_Performed c \<and> qc_Match c \<and> qc_PublicKey c = key"

text \<open>The tiers a bundle may have in a job: the mode does not ask for full coverage.\<close>

definition bundle_accepted :: "bool \<Rightarrow> string \<Rightarrow> bool" where
  "bundle_accepted allowUnanchored tier \<longleftrightarrow> tier = ''VERIFIED_ANCHORED'' \<or> tier = ''ANCHORED_PARTIAL_COVERAGE''
     \<or> allowUnanchored \<and> tier = ''SELF_CONSISTENT_NOT_ANCHORED''"

definition document_verified ::
  "golib \<Rightarrow> (anchor_input \<Rightarrow> anchor_error option) \<Rightarrow> (string \<times> pinned_signer) list \<Rightarrow> job_options \<Rightarrow> job_document \<Rightarrow> bool" where
  "document_verified g ver pins opts doc \<longleftrightarrow> (case doc of
     BundleFile (Inr b) \<Rightarrow> bundle_readable b \<and> bundle_accepted (jo_allowUnanchored opts) (vr_VerdictTier (verify g ver pins b))
       \<and> (jo_signerKey opts = [] \<or> signed_by (jo_signerKey opts) (verifyRequestSignature g b))
   | ReceiptFile (Inr d) \<Rightarrow> (let r = verifyReceiptDocumentWith g ver pins (jo_selfHosted opts) d in
       \<not> receiptExitShouldFail r (jo_allowUnanchored opts)
       \<and> (jo_signerKey opts = [] \<or> signed_by (jo_signerKey opts) (rr_RequestSignature r)))
   | _ \<Rightarrow> False)"

lemma request_reason_given:
  "qc_Performed (verifyRequestSignature g b) \<Longrightarrow> \<not> qc_Match (verifyRequestSignature g b)
    \<Longrightarrow> qc_Reason (verifyRequestSignature g b) \<noteq> None"
  by (auto simp: verifyRequestSignature_def checkRequestSignature_def requestSignatureFailure_def Let_def
      split: option.splits sum.splits if_splits)

lemma verify_request:
  "qc_Performed (vr_RequestSignature (verify g ver pins b)) = qc_Performed (verifyRequestSignature g b)"
  "qc_Match (vr_RequestSignature (verify g ver pins b)) = qc_Match (verifyRequestSignature g b)"
  "qc_PublicKey (vr_RequestSignature (verify g ver pins b)) = qc_PublicKey (verifyRequestSignature g b)"
  "qc_Performed (verifyRequestSignature g b) \<Longrightarrow> \<not> qc_Match (verifyRequestSignature g b)
    \<Longrightarrow> qc_Reason (vr_RequestSignature (verify g ver pins b)) \<noteq> None"
  using request_reason_given [of g b] by (auto simp: invalid_job_ignored split: option.splits)

lemma passed_request: "vr_AllPassed (verify g ver pins b) \<Longrightarrow> qc_Performed (verifyRequestSignature g b)
    \<Longrightarrow> qc_Match (verifyRequestSignature g b)"
  by (auto simp: verify_fields rolled_def passed_before_requirement_def verify_checks_def Let_def)

lemma exit_by_tier: "\<not> exitShouldFail (verify g ver pins b) False allow
    \<longleftrightarrow> bundle_accepted allow (vr_VerdictTier (verify g ver pins b))"
  by (auto simp: exitShouldFail_def bundle_accepted_def verify_fields tier_of_def)

text \<open>A bundle that fails always has a reason, the empty text included, so it never enters a sound job.\<close>

lemma bundle_reason_given:
  assumes "\<And>c. c = vr_RequestSignature r \<Longrightarrow> qc_Performed c \<Longrightarrow> \<not> qc_Match c \<Longrightarrow> qc_Reason c \<noteq> None"
  shows "bundle_reason r allow = None \<longleftrightarrow> \<not> exitShouldFail r False allow"
  using assms by (auto simp: bundle_reason_def Let_def)

lemma keyed_bundle:
  fixes g ver pins b
  defines "r \<equiv> verify g ver pins b"
  shows "bundle_reason (apply_signer_key r key) allow = None \<longleftrightarrow>
    \<not> exitShouldFail r False allow \<and> signed_by key (verifyRequestSignature g b)"
proof -
  note v = verify_request [where g = g and ver = ver and pins = pins and b = b, folded r_def] passed_request [of g ver pins b, folded r_def]
  have given: "qc_Performed (vr_RequestSignature (apply_signer_key r key)) \<Longrightarrow> \<not> qc_Match (vr_RequestSignature (apply_signer_key r key))
      \<Longrightarrow> qc_Reason (vr_RequestSignature (apply_signer_key r key)) \<noteq> None"
    using v by (auto simp: apply_signer_key_def applySignerKey_def requestSignatureFailure_def split: if_splits)
  have "exitShouldFail (apply_signer_key r key) False allow \<longleftrightarrow>
      exitShouldFail r False allow \<or> \<not> signed_by key (verifyRequestSignature g b)"
    using v by (auto simp: exitShouldFail_def apply_signer_key_def applySignerKey_def signed_by_def split: if_splits)
  then show ?thesis using bundle_reason_given [of "apply_signer_key r key" allow] given by auto
qed

lemma receipt_entry_request: "rr_RequestSignature (check_receipt_entry g rv pins f a rep) = rr_RequestSignature rep"
  by (simp add: check_receipt_entry_def Let_def rr_fail_def split: option.split sum.split)

lemma context_request: "check_context g rep kind c = (rep', None) \<Longrightarrow>
    rr_RequestSignature rep' = rr_RequestSignature rep \<or> qc_Match (rr_RequestSignature rep')"
  by (auto simp: check_context_def Let_def split: option.splits if_splits)

lemma receipt_anchor_request:
  assumes "\<not> qc_Performed (rr_RequestSignature rep)"
    and "rr_VerdictTier (check_receipt_anchor g rv pins d required expected f a rep) \<noteq> ''FAILED''"
  shows "qc_Performed (rr_RequestSignature (check_receipt_anchor g rv pins d required expected f a rep))
    \<Longrightarrow> qc_Match (rr_RequestSignature (check_receipt_anchor g rv pins d required expected f a rep))"
proof -
  let ?rep = "rep\<lparr>rr_AnchorPresent := True, rr_AnchorLogEntry := rc_log_entry_id a\<rparr>"
  obtain rep' x where ctx: "(case rd_receipt_context d of
      Some c \<Rightarrow> if rc_kind a = ReceiptAnchorKindV3 then check_context g ?rep (fa_kind f) c else (?rep, None)
    | None \<Rightarrow> (?rep, None)) = (rep', x)" by fastforce
  have "qc_Performed (rr_RequestSignature rep') \<Longrightarrow> qc_Match (rr_RequestSignature rep')" if "x = None"
    using ctx that assms(1) by (auto split: option.splits if_splits dest!: context_request)
  then show "qc_Performed (rr_RequestSignature (check_receipt_anchor g rv pins d required expected f a rep))
    \<Longrightarrow> qc_Match (rr_RequestSignature (check_receipt_anchor g rv pins d required expected f a rep))"
    using assms(2) unfolding check_receipt_anchor_def Let_def ctx
    by (cases x) (auto simp: receipt_entry_request self_consistent_def split: option.splits if_splits)
qed

lemma receipt_request:
  assumes "rr_VerdictTier (verifyReceiptDocumentWith g rv pins selfHosted d) \<noteq> ''FAILED''"
  shows "qc_Performed (rr_RequestSignature (verifyReceiptDocumentWith g rv pins selfHosted d))
    \<Longrightarrow> qc_Match (rr_RequestSignature (verifyReceiptDocumentWith g rv pins selfHosted d))"
  using assms receipt_anchor_request
  by (auto simp: verifyReceiptDocumentWith_def Let_def self_consistent_def empty_report_def zero_request_check_def
      split: option.splits sum.splits if_splits)

lemma keyed_receipt:
  fixes g rv pins self d
  defines "r \<equiv> verifyReceiptDocumentWith g rv pins self d"
  shows "receiptExitShouldFail (applyReceiptSignerKey r key) allow \<longleftrightarrow>
    receiptExitShouldFail r allow \<or> \<not> signed_by key (rr_RequestSignature r)"
proof -
  have "rr_VerdictTier r \<noteq> ''FAILED'' \<Longrightarrow> qc_Performed (rr_RequestSignature r) \<Longrightarrow> qc_Match (rr_RequestSignature r)"
    using receipt_request [of g rv pins self d] by (simp add: r_def)
  then show ?thesis
    by (auto simp: receiptExitShouldFail_def applyReceiptSignerKey_def applySignerKey_def signed_by_def Let_def split: if_splits)
qed

lemma record_verified:
  "jr_Reason (record_of g ver pins opts (name, doc)) = None \<longleftrightarrow> document_verified g ver pins opts doc"
proof (cases doc)
  case (BundleFile x)
  have "bundle_reason (verify g ver pins b) allow = None \<longleftrightarrow> \<not> exitShouldFail (verify g ver pins b) False allow" for b allow
    using verify_request [where g = g and ver = ver and pins = pins and b = b] by (intro bundle_reason_given) auto
  with BundleFile show ?thesis
    by (auto simp: record_of_def recordFromBundle_def document_verified_def Let_def keyed_bundle exit_by_tier
        split: sum.splits)
next
  case (ReceiptFile x)
  then show ?thesis
    by (auto simp: record_of_def recordFromReceipt_def document_verified_def Let_def receipt_reason_of_def keyed_receipt
        split: sum.splits)
qed

lemma read_files_records:
  "read_files g ver pins opts files = Inr records \<longleftrightarrow>
    list_all (\<lambda>f. snd f \<noteq> None) files \<and> records = map (\<lambda>f. record_of g ver pins opts (fst f, the (snd f))) files"
proof (induction files arbitrary: records)
  case (Cons f files)
  obtain name doc where f: "f = (name, doc)" by fastforce
  show ?case
    using Cons.IH f by (cases doc; cases "read_files g ver pins opts files") auto
qed auto

lemma load_records:
  "loadJobRecords g ver pins opts files = Inr records \<longleftrightarrow> files \<noteq> [] \<and> list_all (\<lambda>f. snd f \<noteq> None) files
    \<and> records = map (\<lambda>f. record_of g ver pins opts (fst f, the (snd f))) (sort_key fst files)"
  by (auto simp: loadJobRecords_def read_files_records list_all_iff)

lemma sound_records: "sound_job records \<Longrightarrow> r \<in> set records \<Longrightarrow> jr_Reason r = None"
  by (auto simp: sound_job_def placed_def list_all_iff)

lemma sound_verdict: "job_verdict records = ''COMPLETE'' \<or> job_verdict records = ''OPEN'' \<Longrightarrow> sound_job records"
  by (auto simp: job_verdict_def split: if_splits)

lemma runJobCheck_verdict:
  "runJobCheck g ver pins opts allowOpen files = 0 \<longleftrightarrow> (\<exists>records. loadJobRecords g ver pins opts files = Inr records
    \<and> (job_verdict records = ''COMPLETE'' \<or> allowOpen \<and> job_verdict records = ''OPEN''))"
  by (auto simp: runJobCheck_def Let_def job_map_verdict exitPartialCoverage_def split: sum.splits)

text \<open>C32. When --job exits 0, every file of the folder was read and decoded, and its document passes the
  verifier of its kind: a bundle is anchored, or consistent where the reader allows unanchored
  records, a receipt passes as in a run of its own, and with a signer key each carries a valid
  request signature under that key. The map over the records is COMPLETE, or OPEN where allowed.\<close>

theorem complete_job_verified:
  assumes "runJobCheck g ver pins opts allowOpen files = 0"
  shows "(\<forall>f \<in> set files. \<exists>doc. snd f = Some doc \<and> document_verified g ver pins opts doc)
    \<and> (\<exists>records. loadJobRecords g ver pins opts files = Inr records
        \<and> (job_verdict records = ''COMPLETE'' \<or> allowOpen \<and> job_verdict records = ''OPEN''))"
proof -
  obtain records where r: "loadJobRecords g ver pins opts files = Inr records"
    and v: "job_verdict records = ''COMPLETE'' \<or> allowOpen \<and> job_verdict records = ''OPEN''"
    using assms by (auto simp: runJobCheck_verdict)
  have "document_verified g ver pins opts (the (snd f))" if "f \<in> set files" for f
  proof -
    have "record_of g ver pins opts (fst f, the (snd f)) \<in> set records" using r that by (auto simp: load_records)
    then show ?thesis using sound_records [OF sound_verdict] v by (metis record_verified)
  qed
  moreover have "list_all (\<lambda>f. snd f \<noteq> None) files" using r by (simp add: load_records)
  ultimately have "\<forall>f \<in> set files. \<exists>doc. snd f = Some doc \<and> document_verified g ver pins opts doc"
    by (force simp: list_all_iff)
  then show ?thesis using r v by blast
qed


section \<open>Concrete jobs\<close>

definition step_link :: "string \<Rightarrow> string list \<Rightarrow> bool \<Rightarrow> job_link" where
  "step_link s previous fin = \<lparr>jl_job_id = ''job-1'', jl_step_id = s, jl_previous_record_hashes = previous,
     jl_external_previous = [], jl_final = fin\<rparr>"

definition step_record :: "char \<Rightarrow> string list \<Rightarrow> bool \<Rightarrow> job_record" where
  "step_record c previous fin = \<lparr>jr_File = [c] @ ''.json'', jr_Hash = replicate 64 c,
     jr_Job = Some (step_link [c] previous fin), jr_Signer = [], jr_Reason = None\<rparr>"

text \<open>Two branches that the last step joins.\<close>

definition joined_sample :: "job_record list" where
  "joined_sample = [step_record (CHR ''a'') [] False, step_record (CHR ''b'') [] False,
     step_record (CHR ''c'') [replicate 64 (CHR ''a''), replicate 64 (CHR ''b'')] True]"

text \<open>Two steps that follow each other, and a final step that follows nothing.\<close>

definition cycle_sample :: "job_record list" where
  "cycle_sample = [step_record (CHR ''a'') [replicate 64 (CHR ''b'')] False,
     step_record (CHR ''b'') [replicate 64 (CHR ''a'')] False, step_record (CHR ''c'') [] True]"

lemma joined_members: "members joined_sample = joined_sample"
  unfolding members_def joined_sample_def step_record_def step_link_def by code_simp

lemma cycle_members: "members cycle_sample = cycle_sample"
  unfolding members_def cycle_sample_def step_record_def step_link_def by code_simp

lemma sample_verdicts: "job_verdict joined_sample = ''COMPLETE''" "job_verdict cycle_sample = ''COMPLETE''"
  unfolding joined_sample_def cycle_sample_def step_record_def step_link_def by code_simp+

lemma complete_job_leads_to_final_witness:
  "\<exists>f \<in> set joined_sample. jr_final f
    \<and> (\<forall>r \<in> set joined_sample. leads_to joined_sample r f \<and> (jr_final r \<longrightarrow> r = f) \<and> jr_Hash f \<notin> set (jr_previous r))"
proof -
  have "jt_Verdict (checkJobMap joined_sample) = ''COMPLETE''" by (simp add: job_map_verdict sample_verdicts)
  moreover have "\<forall>s \<in> set joined_sample. \<forall>h \<in> set (jr_previous s).
      (if hd h = CHR ''c'' then 1 else 0) < (if hd (jr_Hash s) = CHR ''c'' then 1 else (0::nat))"
    by (simp add: joined_sample_def step_record_def step_link_def)
  ultimately show ?thesis
    using complete_job_leads_to_final [of joined_sample "\<lambda>h. if hd h = CHR ''c'' then 1 else 0"]
    by (simp only: joined_members)
qed

lemma job_map_exact_witness:
  "jt_Verdict (checkJobMapIn rev joined_sample) = ''COMPLETE'' \<and> checkJobMapIn rev joined_sample = checkJobMap joined_sample"
  using job_map_exact [of rev joined_sample] by (simp add: job_map_verdict sample_verdicts)

text \<open>The rank is needed: the rules alone accept two steps that follow each other, from which no link
  leads to the final step, because a followed step is not traced further.\<close>

lemma cycle_reported_complete:
  "jt_Verdict (checkJobMap cycle_sample) = ''COMPLETE'' \<and> \<not> leads_to cycle_sample (cycle_sample ! 0) (cycle_sample ! 2)"
proof -
  have "leads_to cycle_sample r t \<Longrightarrow> jr_Hash r \<noteq> replicate 64 (CHR ''c'') \<Longrightarrow> jr_Hash t \<noteq> replicate 64 (CHR ''c'')" for r t
  proof (induction rule: leads_to.induct)
    case (follow r s t)
    then show ?case by (auto simp: cycle_sample_def step_record_def step_link_def)
  qed simp
  from this [of "cycle_sample ! 0" "cycle_sample ! 2"]
  have "\<not> leads_to cycle_sample (cycle_sample ! 0) (cycle_sample ! 2)"
    by (auto simp: cycle_sample_def step_record_def)
  then show ?thesis by (simp add: job_map_verdict sample_verdicts)
qed

text \<open>A signer key file that holds only white space is taken as no key: the run is the one without the
  flag, although a key was asked for.\<close>

lemma blank_key_ignored:
  "trim_space key = [] \<Longrightarrow>
    runJobMode g ver pins flags narg (Some (Some key)) part unanch self files = runJobMode g ver pins flags narg None part unanch self files"
  by (simp add: runJobMode_def Let_def)

text \<open>A bundle of partial coverage makes a run of its own exit 3; in a job it counts as verified.\<close>

lemma partial_coverage_in_job:
  assumes "vr_VerdictTier (verify g ver pins b) = ''ANCHORED_PARTIAL_COVERAGE''" "bundle_readable b"
    and "jo_signerKey opts = []"
  shows "document_verified g ver pins opts (BundleFile (Inr b))"
    and "bo_strict fl = False \<Longrightarrow> bo_allowPartial fl = False \<Longrightarrow> exit_code fl (verify g ver pins b) = 3"
  using assms by (simp_all add: document_verified_def bundle_accepted_def exit_code_of_tier)

text \<open>A folder of one full record that closes its job.\<close>

definition last_link :: job_link where "last_link = step_link ''only'' [] True"

definition job_folder :: "(string \<times> job_document option) list" where
  "job_folder = [(''run.json'', Some (BundleFile (Inr (run_sample (Some last_link) []))))]"

definition job_choices :: job_options where
  "job_choices = \<lparr>jo_allowUnanchored = False, jo_selfHosted = False, jo_signerKey = []\<rparr>"

lemma job_folder_complete: "runJobCheck toy_lib (\<lambda>_. None) run_pins job_choices False job_folder = 0"
proof -
  let ?b = "run_sample (Some last_link) []"
  let ?r = "record_of toy_lib (\<lambda>_. None) run_pins job_choices (''run.json'', BundleFile (Inr ?b))"
  have read: "bundle_readable ?b"
    by (simp add: bundle_readable_def run_fields run_sections run_base_def)
  have tier: "vr_VerdictTier (verify toy_lib (\<lambda>_. None) run_pins ?b) = ''VERIFIED_ANCHORED''"
    by (simp only: verified_complete run_complete)
  have "jr_Reason ?r = None"
    unfolding record_verified by (simp add: document_verified_def read tier bundle_accepted_def job_choices_def)
  moreover have "jr_Job ?r = Some last_link"
    by (simp add: record_of_def recordFromBundle_def Let_def read run_fields run_nrep_def)
  moreover have "JobLink_Validate (Some last_link) = None"
    unfolding last_link_def step_link_def by code_simp
  ultimately have "job_verdict [?r] = ''COMPLETE''"
    by (simp add: job_verdict_def sound_job_def joined_job_def final_steps_def members_def in_job_def placed_def mainJobID_def
        external_targets_def last_link_def step_link_def)
  then show ?thesis
    by (auto simp: runJobCheck_verdict load_records job_folder_def)
qed

lemma complete_job_verified_witness:
  "document_verified toy_lib (\<lambda>_. None) run_pins job_choices (BundleFile (Inr (run_sample (Some last_link) [])))"
  using complete_job_verified [OF job_folder_complete] by (simp add: job_folder_def)

end
