(* ===== verification/TamperTree.thy ===== *)
theory TamperTree
  imports BoundCopies "HOL-Library.Sublist" "HOL-Library.List_Lexorder" "HOL-Library.Char_ord"
begin

text \<open>
  The tamper test's work on a decoded record (the first half of tamper.go): the changes it lists,
  how a change is made to a copy, and the edits of its forger. A record is decoded generically, so
  a value is a json tree. A Go map has no order and json.Marshal writes its keys sorted, so an
  object is kept with its keys sorted and each key once, and marshalling is json_write. A read of
  an absent key or index gives JNull for Go's nil.

  An edit that Go's type assertions would stop by a panic is None here; listed_made shows that
  no listed change is one. The standard library's arithmetic on binary floating-point numbers and
  on times is the argument tamper_lib.
\<close>

section \<open>Decoding and marshalling\<close>

record tamper_lib =
  tl_float_next :: "f64 \<Rightarrow> string"   \<comment> \<open>strconv.FormatFloat(f+1, 'g', -1, 64)\<close>
  tl_second_later :: "string \<Rightarrow> string \<Rightarrow> string"   \<comment> \<open>ts.Add(time.Second).Format(layout), of the text and the layout\<close>

fun map_put :: "string \<Rightarrow> 'a \<Rightarrow> (string \<times> 'a) list \<Rightarrow> (string \<times> 'a) list" where
  "map_put k v [] = [(k, v)]"
| "map_put k v ((k', v') # ms) =
     (if k < k' then (k, v) # (k', v') # ms else if k = k' then (k, v) # ms else (k', v') # map_put k v ms)"

text \<open>A key that occurs again replaces the earlier member, as in Go's decoder.\<close>

fun tree_of :: "json \<Rightarrow> json"
  and tree_elems :: "json list \<Rightarrow> json list"
  and tree_members :: "(string \<times> json) list \<Rightarrow> (string \<times> json) list" where
  "tree_of (JArr xs) = JArr (tree_elems xs)"
| "tree_of (JObj ms) = JObj (tree_members ms)"
| "tree_of v = v"
| "tree_elems [] = []"
| "tree_elems (x # xs) = tree_of x # tree_elems xs"
| "tree_members [] = []"
| "tree_members ((k, v) # ms) =
     (if k \<in> set (map fst ms) then tree_members ms else map_put k (tree_of v) (tree_members ms))"

definition tamperDecode :: "bytes \<Rightarrow> json option" where
  "tamperDecode data = map_option (\<lambda>(v, r). tree_of v) (parse_value (2 * length data + 2) max_depth data)"

section \<open>Paths and changes\<close>

datatype tamper_step = Key string | Item nat

fun ts_key :: "tamper_step \<Rightarrow> string" where
  "ts_key (Key k) = k" | "ts_key (Item i) = []"

fun ts_index :: "tamper_step \<Rightarrow> nat" where
  "ts_index (Key k) = 0" | "ts_index (Item i) = i"

fun ts_list :: "tamper_step \<Rightarrow> bool" where
  "ts_list (Key k) = False" | "ts_list (Item i) = True"

datatype tamper_kind = Changed | Deleted | Removed | Appended | Added

record tamper_change =
  tg_kind :: tamper_kind
  tg_path :: "tamper_step list"

definition change :: "tamper_kind \<Rightarrow> tamper_step list \<Rightarrow> tamper_change" where
  "change k p = \<lparr>tg_kind = k, tg_path = p\<rparr>"

fun step_text :: "tamper_step \<Rightarrow> string" where
  "step_text (Item i) = ''['' @ nat_str i @ '']''"
| "step_text (Key k) = ''.'' @ k"

definition tamperPathString :: "tamper_step list \<Rightarrow> string" where
  "tamperPathString path = ''$'' @ concat (map step_text path)"

fun tamperZero :: "golib \<Rightarrow> json \<Rightarrow> bool"
  and zero_elems :: "golib \<Rightarrow> json list \<Rightarrow> bool"
  and zero_members :: "golib \<Rightarrow> (string \<times> json) list \<Rightarrow> bool" where
  "tamperZero g JNull = True"
| "tamperZero g (JStr s) = (s = [])"
| "tamperZero g (JBool b) = (\<not> b)"
| "tamperZero g (JNum t) = (case gl_parse_float g t of None \<Rightarrow> False | Some f \<Rightarrow> f64_zero f)"
| "tamperZero g (JObj ms) = zero_members g ms"
| "tamperZero g (JArr xs) = zero_elems g xs"
| "zero_elems g [] = True"
| "zero_elems g (x # xs) = (tamperZero g x \<and> zero_elems g xs)"
| "zero_members g [] = True"
| "zero_members g ((k, v) # ms) = (tamperZero g v \<and> zero_members g ms)"

fun is_leaf :: "json \<Rightarrow> bool" where
  "is_leaf (JObj ms) = False" | "is_leaf (JArr xs) = False" | "is_leaf v = True"

text \<open>Every change to the record rooted at a node, in the order the code lists them.\<close>

fun tamperChanges :: "golib \<Rightarrow> json \<Rightarrow> tamper_step list \<Rightarrow> tamper_change list"
  and item_changes :: "golib \<Rightarrow> nat \<Rightarrow> json list \<Rightarrow> tamper_step list \<Rightarrow> tamper_change list"
  and member_changes :: "golib \<Rightarrow> (string \<times> json) list \<Rightarrow> tamper_step list \<Rightarrow> tamper_change list" where
  "tamperChanges g (JObj ms) path = member_changes g ms path @ [change Added path]"
| "tamperChanges g (JArr xs) path = item_changes g 0 xs path @ (if xs \<noteq> [] then [change Appended path] else [])"
| "tamperChanges g v path = []"
| "item_changes g i [] path = []"
| "item_changes g i (x # xs) path =
     (let child = path @ [Item i] in
      (if is_leaf x then [change Changed child] else tamperChanges g x child)
      @ [change Removed child] @ item_changes g (Suc i) xs path)"
| "member_changes g [] path = []"
| "member_changes g ((k, v) # ms) path =
     (let child = path @ [Key k] in
      (if is_leaf v then [change Changed child] else tamperChanges g v child)
      @ (if \<not> tamperZero g v then [change Deleted child] else []) @ member_changes g ms path)"

section \<open>The edits\<close>

definition tamperAltered :: "golib \<Rightarrow> tamper_lib \<Rightarrow> json \<Rightarrow> json" where
  "tamperAltered g fl v = (case v of
     JNull \<Rightarrow> JStr ''x''
   | JBool b \<Rightarrow> JBool (\<not> b)
   | JNum t \<Rightarrow> (case parse_int64 t of
        Some i \<Rightarrow> JNum (int_str (sint (word_of_int (i + 1) :: 64 word)))
      | None \<Rightarrow> (case gl_parse_float g t of Some f \<Rightarrow> JNum (tl_float_next fl f) | None \<Rightarrow> v))
   | JStr s \<Rightarrow> if is_hex64 s then (if hd s = CHR ''f'' then JStr (CHR ''0'' # tl s) else JStr (CHR ''f'' # tl s))
       else JStr (s @ ''x'')
   | _ \<Rightarrow> v)"

text \<open>The value at a path; a step that does not fit its node reads with the step's zero field.\<close>

fun tamperValueAt :: "json \<Rightarrow> tamper_step list \<Rightarrow> json" where
  "tamperValueAt node [] = node"
| "tamperValueAt node (s # path) = (case node of
     JObj ms \<Rightarrow> (case map_of ms (ts_key s) of None \<Rightarrow> tamperValueAt JNull path | Some v \<Rightarrow> tamperValueAt v path)
   | JArr xs \<Rightarrow> if length xs \<le> ts_index s then JNull else tamperValueAt (xs ! ts_index s) path
   | _ \<Rightarrow> JNull)"

text \<open>An edit of the node a path leads to, by type assertions that a listed path satisfies.\<close>

fun edit_at :: "(json \<Rightarrow> json option) \<Rightarrow> tamper_step list \<Rightarrow> json \<Rightarrow> json option" where
  "edit_at f [] node = f node"
| "edit_at f (Item i # path) node = (case node of
     JArr xs \<Rightarrow> if i < length xs then map_option (\<lambda>v. JArr (xs[i := v])) (edit_at f path (xs ! i)) else None
   | _ \<Rightarrow> None)"
| "edit_at f (Key k # path) node = (case node of
     JObj ms \<Rightarrow> (case map_of ms k of None \<Rightarrow> None
       | Some c \<Rightarrow> map_option (\<lambda>v. JObj (map_put k v ms)) (edit_at f path c))
   | _ \<Rightarrow> None)"

definition drop_index :: "nat \<Rightarrow> 'a list \<Rightarrow> 'a list" where
  "drop_index i xs = take i xs @ drop (Suc i) xs"

definition unknown_key :: string where "unknown_key = ''tamper_test_unknown_key''"

definition add_key :: "json \<Rightarrow> json option" where
  "add_key v = (case v of JObj ms \<Rightarrow> Some (JObj (map_put unknown_key (JStr ''x'') ms)) | _ \<Rightarrow> None)"

definition append_copy :: "json \<Rightarrow> json option" where
  "append_copy v = (case v of JArr xs \<Rightarrow> if xs = [] then None else Some (JArr (xs @ [last xs])) | _ \<Rightarrow> None)"

text \<open>The edit of one child of the parent node: the default branch of the switch.\<close>

definition edit_child :: "golib \<Rightarrow> tamper_lib \<Rightarrow> tamper_kind \<Rightarrow> tamper_step \<Rightarrow> json \<Rightarrow> json option" where
  "edit_child g fl kind s v = (case s of
     Item i \<Rightarrow> (case v of JArr xs \<Rightarrow> if length xs \<le> i then None
         else if kind = Removed then Some (JArr (drop_index i xs))
         else Some (JArr (xs[i := tamperAltered g fl (xs ! i)]))
       | _ \<Rightarrow> None)
   | Key k \<Rightarrow> (case v of JObj ms \<Rightarrow>
         if kind = Deleted then Some (JObj (filter (\<lambda>m. fst m \<noteq> k) ms))
         else Some (JObj (map_put k (tamperAltered g fl (case map_of ms k of None \<Rightarrow> JNull | Some c \<Rightarrow> c)) ms))
       | _ \<Rightarrow> None))"

definition edit_tree :: "golib \<Rightarrow> tamper_lib \<Rightarrow> tamper_change \<Rightarrow> json \<Rightarrow> json option" where
  "edit_tree g fl c doc = (case tg_kind c of
     Added \<Rightarrow> edit_at add_key (tg_path c) doc
   | Appended \<Rightarrow> edit_at append_copy (tg_path c) doc
   | kind \<Rightarrow> if tg_path c = [] then None
       else edit_at (edit_child g fl kind (last (tg_path c))) (butlast (tg_path c)) doc)"

definition tamperApply :: "golib \<Rightarrow> tamper_lib \<Rightarrow> bytes \<Rightarrow> tamper_change \<Rightarrow> bytes option" where
  "tamperApply g fl data c = (case tamperDecode data of None \<Rightarrow> None
   | Some doc \<Rightarrow> map_option json_write (edit_tree g fl c doc))"

text \<open>tamperSetIn: a value set at a path that tamperValueAt reads.\<close>

fun tamperSetIn :: "json \<Rightarrow> tamper_step list \<Rightarrow> json \<Rightarrow> json option" where
  "tamperSetIn node [] value = None"
| "tamperSetIn node [s] value = (case node of
     JObj ms \<Rightarrow> Some (JObj (map_put (ts_key s) value ms))
   | JArr xs \<Rightarrow> if length xs \<le> ts_index s then None else Some (JArr (xs[ts_index s := value]))
   | _ \<Rightarrow> None)"
| "tamperSetIn node (s # t # path) value = (case node of
     JObj ms \<Rightarrow> (case map_of ms (ts_key s) of None \<Rightarrow> None
       | Some c \<Rightarrow> map_option (\<lambda>v. JObj (map_put (ts_key s) v ms)) (tamperSetIn c (t # path) value))
   | JArr xs \<Rightarrow> if length xs \<le> ts_index s then None
       else map_option (\<lambda>v. JArr (xs[ts_index s := v])) (tamperSetIn (xs ! ts_index s) (t # path) value)
   | _ \<Rightarrow> None)"

definition tamperSetAt :: "bytes \<Rightarrow> tamper_step list \<Rightarrow> json \<Rightarrow> bytes option" where
  "tamperSetAt data path value = (case tamperDecode data of None \<Rightarrow> None
   | Some doc \<Rightarrow> map_option json_write (tamperSetIn doc path value))"

fun tamperReplaceValues :: "(string \<rightharpoonup> string) \<Rightarrow> json \<Rightarrow> json"
  and replace_elems :: "(string \<rightharpoonup> string) \<Rightarrow> json list \<Rightarrow> json list"
  and replace_members :: "(string \<rightharpoonup> string) \<Rightarrow> (string \<times> json) list \<Rightarrow> (string \<times> json) list" where
  "tamperReplaceValues stale (JObj ms) = JObj (replace_members stale ms)"
| "tamperReplaceValues stale (JArr xs) = JArr (replace_elems stale xs)"
| "tamperReplaceValues stale (JStr s) = JStr (case stale s of None \<Rightarrow> s | Some n \<Rightarrow> n)"
| "tamperReplaceValues stale v = v"
| "replace_elems stale [] = []"
| "replace_elems stale (x # xs) = tamperReplaceValues stale x # replace_elems stale xs"
| "replace_members stale [] = []"
| "replace_members stale ((k, v) # ms) = (k, tamperReplaceValues stale v) # replace_members stale ms"


section \<open>Trees with sorted keys\<close>

fun go_tree :: "json \<Rightarrow> bool"
  and go_elems :: "json list \<Rightarrow> bool"
  and go_members :: "(string \<times> json) list \<Rightarrow> bool" where
  "go_tree (JArr xs) \<longleftrightarrow> go_elems xs"
| "go_tree (JObj ms) \<longleftrightarrow> sorted_wrt (<) (map fst ms) \<and> go_members ms"
| "go_tree v \<longleftrightarrow> True"
| "go_elems [] \<longleftrightarrow> True"
| "go_elems (x # xs) \<longleftrightarrow> go_tree x \<and> go_elems xs"
| "go_members [] \<longleftrightarrow> True"
| "go_members ((k, v) # ms) \<longleftrightarrow> go_tree v \<and> go_members ms"

lemma go_elems_iff: "go_elems xs \<longleftrightarrow> list_all go_tree xs"
  by (induction xs) auto

lemma go_members_iff: "go_members ms \<longleftrightarrow> list_all (\<lambda>m. go_tree (snd m)) ms"
  by (induction ms) auto

lemma map_put_keys: "fst ` set (map_put k v ms) = insert k (fst ` set ms)"
  by (induction k v ms rule: map_put.induct) auto

lemma map_put_sorted: "sorted_wrt (<) (map fst ms) \<Longrightarrow> sorted_wrt (<) (map fst (map_put k v ms))"
proof (induction k v ms rule: map_put.induct)
  case (2 k v k' v' ms)
  then show ?case using map_put_keys [of k v ms] by (auto simp: not_less le_less)
qed simp

lemma map_put_lookup: "map_of (map_put k v ms) = (map_of ms)(k \<mapsto> v)"
  by (induction k v ms rule: map_put.induct) (auto simp: fun_eq_iff)

lemma map_put_go: "go_members ms \<Longrightarrow> go_tree v \<Longrightarrow> go_members (map_put k v ms)"
  by (induction k v ms rule: map_put.induct) auto

lemma tree_members_keys: "fst ` set (tree_members ms) = fst ` set ms"
proof (induction ms)
  case (Cons m ms)
  then show ?case by (cases m) (auto simp: map_put_keys insert_absorb)
qed simp

lemma tree_of_go:
  "go_tree (tree_of v)" "go_elems (tree_elems xs)"
  "sorted_wrt (<) (map fst (tree_members ms)) \<and> go_members (tree_members ms)"
  by (induction v and xs and ms rule: tree_of_tree_elems_tree_members.induct) (auto simp: map_put_sorted map_put_go)

lemma decoded_go: "tamperDecode data = Some v \<Longrightarrow> go_tree v"
  by (auto simp: tamperDecode_def tree_of_go)

section \<open>Which changes are listed\<close>

text \<open>The node at a path, where every step fits its node.\<close>

fun subtree :: "json \<Rightarrow> tamper_step list \<Rightarrow> json option" where
  "subtree v [] = Some v"
| "subtree (JArr xs) (Item i # p) = (if i < length xs then subtree (xs ! i) p else None)"
| "subtree (JObj ms) (Key k # p) = (case map_of ms k of None \<Rightarrow> None | Some w \<Rightarrow> subtree w p)"
| "subtree v (s # p) = None"

text \<open>The changes a reader can think of at one place: a value that is no object or list is changed, a
  member that is not zero is deleted, a list item is removed, a list with an item gets one more
  and an object gets an unknown key.\<close>

definition listed :: "golib \<Rightarrow> json \<Rightarrow> tamper_kind \<Rightarrow> tamper_step list \<Rightarrow> bool" where
  "listed g v k p \<longleftrightarrow> (case subtree v p of None \<Rightarrow> False | Some w \<Rightarrow> (case k of
     Changed \<Rightarrow> p \<noteq> [] \<and> is_leaf w
   | Deleted \<Rightarrow> p \<noteq> [] \<and> \<not> ts_list (last p) \<and> \<not> tamperZero g w
   | Removed \<Rightarrow> p \<noteq> [] \<and> ts_list (last p)
   | Appended \<Rightarrow> (case w of JArr xs \<Rightarrow> xs \<noteq> [] | _ \<Rightarrow> False)
   | Added \<Rightarrow> (case w of JObj ms \<Rightarrow> True | _ \<Rightarrow> False)))"

lemma listed_item: "listed g (JArr xs) k (Item i # q) \<longleftrightarrow>
    i < length xs \<and> (listed g (xs ! i) k q \<or> q = [] \<and> (k = Removed \<or> k = Changed \<and> is_leaf (xs ! i)))"
  by (cases k; cases q; cases "subtree (xs ! i) q") (auto simp: listed_def)

lemma listed_key: "listed g (JObj ms) k (Key x # q) \<longleftrightarrow>
    (\<exists>w. map_of ms x = Some w \<and> (listed g w k q \<or> q = [] \<and> (k = Changed \<and> is_leaf w \<or> k = Deleted \<and> \<not> tamperZero g w)))"
  by (cases k; cases q; cases "map_of ms x"; cases "subtree (the (map_of ms x)) q") (auto simp: listed_def)

lemma listed_leaf: "is_leaf v \<Longrightarrow> \<not> listed g v k q"
  by (cases v; cases q; cases k) (auto simp: listed_def)

lemma listed_misfit: "\<not> listed g (JArr xs) k (Key x # q)" "\<not> listed g (JObj ms) k (Item i # q)"
  by (simp_all add: listed_def)

lemma listed_here: "listed g (JArr xs) k [] \<longleftrightarrow> k = Appended \<and> xs \<noteq> []" "listed g (JObj ms) k [] \<longleftrightarrow> k = Added"
  by (cases k; simp add: listed_def)+

lemma change_eq: "change k p = change k' p' \<longleftrightarrow> k = k' \<and> p = p'"
  by (auto simp: change_def)

lemma leaf_unchanged: "is_leaf v \<Longrightarrow> tamperChanges g v p = []"
  by (cases v) auto

lemma path_cases: "(\<exists>q. P q) \<longleftrightarrow> P [] \<or> (\<exists>x q. P (Key x # q)) \<or> (\<exists>i q. P (Item i # q))"
  by (metis list.exhaust tamper_step.exhaust)

lemma changes_exact:
  "go_tree v \<Longrightarrow> change k r \<in> set (tamperChanges g v p) \<longleftrightarrow> (\<exists>q. r = p @ q \<and> listed g v k q)"
  "go_elems xs \<Longrightarrow> change k r \<in> set (item_changes g i xs p) \<longleftrightarrow>
     (\<exists>j q. r = p @ Item (i + j) # q \<and> listed g (JArr xs) k (Item j # q))"
  "go_members ms \<Longrightarrow> sorted_wrt (<) (map fst ms) \<Longrightarrow> change k r \<in> set (member_changes g ms p) \<longleftrightarrow>
     (\<exists>x q. r = p @ Key x # q \<and> listed g (JObj ms) k (Key x # q))"
proof (induction g v p and g i xs p and g ms p rule: tamperChanges_item_changes_member_changes.induct)
  case (1 g ms p)
  have "(\<exists>q. r = p @ q \<and> listed g (JObj ms) k q) \<longleftrightarrow> k = Added \<and> r = p
      \<or> (\<exists>x q. r = p @ Key x # q \<and> listed g (JObj ms) k (Key x # q))"
    by (subst path_cases) (auto simp: listed_here listed_misfit)
  then show ?case using 1 by (auto simp: change_eq)
next
  case (2 g xs p)
  have "(\<exists>q. r = p @ q \<and> listed g (JArr xs) k q) \<longleftrightarrow> (k = Appended \<and> xs \<noteq> [] \<and> r = p)
      \<or> (\<exists>j q. r = p @ Item j # q \<and> listed g (JArr xs) k (Item j # q))"
    by (subst path_cases) (auto simp: listed_here listed_misfit)
  then show ?case using 2 by (auto simp: change_eq)
next
  case (5 g i x xs p)
  have "(\<exists>j q. r = p @ Item (i + j) # q \<and> listed g (JArr (x # xs)) k (Item j # q)) \<longleftrightarrow>
      (\<exists>q. r = p @ Item i # q \<and> listed g (JArr (x # xs)) k (Item 0 # q))
      \<or> (\<exists>j q. r = p @ Item (Suc i + j) # q \<and> listed g (JArr xs) k (Item j # q))"
    (is "?l \<longleftrightarrow> ?h \<or> ?t")
  proof
    assume ?l
    then obtain j q where "r = p @ Item (i + j) # q" "listed g (JArr (x # xs)) k (Item j # q)" by blast
    then show "?h \<or> ?t" by (cases j) (auto simp: listed_item)
  next
    assume "?h \<or> ?t"
    then show ?l
    proof
      assume ?h then show ?l by (metis add_0_right)
    next
      assume ?t
      then obtain j q where "r = p @ Item (Suc i + j) # q" "listed g (JArr xs) k (Item j # q)" by blast
      then have "r = p @ Item (i + Suc j) # q" "listed g (JArr (x # xs)) k (Item (Suc j) # q)" by (auto simp: listed_item)
      then show ?l by blast
    qed
  qed
  with 5 show ?case
    by (cases "is_leaf x") (auto simp: Let_def change_eq listed_item listed_leaf leaf_unchanged)
next
  case (7 g k' v ms p)
  have n: "map_of ms k' = None" using 7(4) by (auto simp: map_of_eq_None_iff)
  have "(\<exists>x q. r = p @ Key x # q \<and> listed g (JObj ((k', v) # ms)) k (Key x # q)) \<longleftrightarrow>
      (\<exists>q. r = p @ Key k' # q \<and> listed g (JObj ((k', v) # ms)) k (Key k' # q))
      \<or> (\<exists>x q. r = p @ Key x # q \<and> listed g (JObj ms) k (Key x # q))"
    using n by (auto simp: listed_key split: if_splits) (metis option.distinct(1))+
  with 7 show ?case
    by (cases "is_leaf v") (auto simp: Let_def change_eq listed_key listed_leaf leaf_unchanged)
qed (auto simp: listed_leaf listed_key listed_item)


lemma decoded_changes:
  assumes "tamperDecode data = Some v"
  shows "c \<in> set (tamperChanges g v []) \<longleftrightarrow> listed g v (tg_kind c) (tg_path c)"
proof -
  have "change (tg_kind c) (tg_path c) = c" by (simp add: change_def)
  then show ?thesis using changes_exact(1) [OF decoded_go [OF assms], of "tg_kind c" "tg_path c" g "[]"] by simp
qed

text \<open>C37. The tamper test leaves out no change of its kinds: for a record that decodes, the listed changes
  are exactly the changes of every value that is no object or list, the deletions of every key
  whose value is not zero, the removals of every list item, one more item for every list that has
  one, and an unknown key for every object, at whatever depth.\<close>

theorem tamper_changes_exact:
  assumes "tamperDecode data = Some v"
  shows "c \<in> set (tamperChanges g v []) \<longleftrightarrow> listed g v (tg_kind c) (tg_path c)"
  by (rule decoded_changes [OF assms])

section \<open>A listed change is made, and only that\<close>

lemma edit_at_made:
  assumes "subtree v p = Some x" "f x = Some y"
  shows "\<exists>w. edit_at f p v = Some w \<and> subtree w p = Some y"
  using assms
proof (induction v p rule: subtree.induct)
  case (2 xs i p)
  then show ?case by (auto split: if_splits)
next
  case (3 ms k p)
  then show ?case by (auto simp: map_put_lookup split: option.splits)
qed auto

lemma edit_at_elsewhere:
  assumes "edit_at f p v = Some w" "\<not> prefix p q" "\<not> prefix q p"
  shows "subtree w q = subtree v q"
  using assms
proof (induction f p v arbitrary: w q rule: edit_at.induct)
  case (2 f i p v)
  then obtain s r where q: "q = s # r" by (cases q) auto
  from 2 q show ?case
    by (cases s) (auto simp: nth_list_update split: json.splits if_splits)
next
  case (3 f k p v)
  then obtain s r where q: "q = s # r" by (cases q) auto
  from 3 q show ?case
    by (cases s) (auto simp: map_put_lookup split: json.splits option.splits if_splits)
qed simp

text \<open>The node an edit works on: the object or list itself, or the parent of what is changed.\<close>

definition edited_node :: "tamper_change \<Rightarrow> tamper_step list" where
  "edited_node c = (if tg_kind c = Added \<or> tg_kind c = Appended then tg_path c else butlast (tg_path c))"

definition node_edit :: "golib \<Rightarrow> tamper_lib \<Rightarrow> tamper_change \<Rightarrow> json \<Rightarrow> json option" where
  "node_edit g fl c = (if tg_kind c = Added then add_key else if tg_kind c = Appended then append_copy
     else edit_child g fl (tg_kind c) (last (tg_path c)))"

lemma edit_tree_node: "tg_path c \<noteq> [] \<or> tg_kind c = Added \<or> tg_kind c = Appended
    \<Longrightarrow> edit_tree g fl c v = edit_at (node_edit g fl c) (edited_node c) v"
  by (cases "tg_kind c") (simp_all add: edit_tree_def edited_node_def node_edit_def)

text \<open>The changes that may leave a record as it is: a number that is no 64-bit integer gains one in
  binary floating point, and the added key may be there already.\<close>

definition may_stand :: "json \<Rightarrow> tamper_change \<Rightarrow> bool" where
  "may_stand v c \<longleftrightarrow> (case subtree v (tg_path c) of None \<Rightarrow> False | Some w \<Rightarrow>
     (case w of JNum t \<Rightarrow> tg_kind c = Changed \<and> parse_int64 t = None
      | JObj ms \<Rightarrow> tg_kind c = Added \<and> map_of ms unknown_key = Some (JStr ''x'') | _ \<Rightarrow> False))"

lemma next_int64: "sint (word_of_int (i + 1) :: 64 word) \<noteq> i"
proof
  assume "sint (word_of_int (i + 1) :: 64 word) = i"
  then have "of_int (sint (word_of_int (i + 1) :: 64 word)) = (word_of_int i :: 64 word)" by simp
  then show False unfolding of_int_sint by simp
qed

lemma altered_differs:
  assumes "is_leaf v" and "\<And>t. v = JNum t \<Longrightarrow> parse_int64 t \<noteq> None"
  shows "tamperAltered g fl v \<noteq> v"
proof (cases v)
  case (JNum t)
  then obtain i where i: "parse_int64 t = Some i" using assms(2) by blast
  have "int_str (sint (word_of_int (i + 1) :: 64 word)) \<noteq> t"
  proof
    assume t: "int_str (sint (word_of_int (i + 1) :: 64 word)) = t"
    have "int64_range (sint (word_of_int (i + 1) :: 64 word))"
      using sint_greater_eq [of "word_of_int (i + 1) :: 64 word"] sint_less [of "word_of_int (i + 1) :: 64 word"]
      by (simp add: int64_range_def)
    then have "parse_int64 t = Some (sint (word_of_int (i + 1) :: 64 word))"
      unfolding t [symmetric] by (rule parse_int64_str)
    with i next_int64 [of i] show False by simp
  qed
  with JNum i show ?thesis by (simp add: tamperAltered_def)
next
  case (JStr s)
  then show ?thesis by (cases s) (auto simp: tamperAltered_def is_hex64_def)
qed (use assms(1) in \<open>auto simp: tamperAltered_def\<close>)

lemma subtree_parent:
  assumes "subtree v (p @ [s]) = Some w"
  shows "\<exists>u. subtree v p = Some u \<and> subtree u [s] = Some w"
  using assms by (induction v p rule: subtree.induct) (auto split: if_splits option.splits)

lemma subtree_go: "go_tree v \<Longrightarrow> subtree v p = Some w \<Longrightarrow> go_tree w"
proof (induction v p rule: subtree.induct)
  case (2 xs i p)
  then show ?case by (auto simp: go_elems_iff list_all_length split: if_splits)
next
  case (3 ms k p)
  then show ?case by (fastforce simp: go_members_iff list_all_iff split: option.splits dest: map_of_SomeD)
qed auto

lemma node_edited:
  assumes go: "go_tree v" and l: "listed g v (tg_kind c) (tg_path c)"
  shows "\<exists>x y. subtree v (edited_node c) = Some x \<and> node_edit g fl c x = Some y \<and> (may_stand v c \<or> y \<noteq> x)"
proof -
  obtain w where w: "subtree v (tg_path c) = Some w" using l by (auto simp: listed_def split: option.splits)
  show ?thesis
  proof (cases "tg_kind c = Added \<or> tg_kind c = Appended")
    case True
    then show ?thesis
    proof
      assume k: "tg_kind c = Added"
      then obtain ms where "w = JObj ms" using l w by (auto simp: listed_def split: json.splits)
      moreover have "map_put unknown_key (JStr ''x'') ms \<noteq> ms" if "map_of ms unknown_key \<noteq> Some (JStr ''x'')"
        using that map_put_lookup [of unknown_key "JStr ''x''" ms] by (metis fun_upd_same)
      ultimately show ?thesis using w k by (auto simp: edited_node_def node_edit_def add_key_def may_stand_def)
    next
      assume k: "tg_kind c = Appended"
      then obtain xs where "w = JArr xs" "xs \<noteq> []" using l w by (auto simp: listed_def split: json.splits)
      then show ?thesis using w k by (auto simp: edited_node_def node_edit_def append_copy_def)
    qed
  next
    case False
    with l w obtain p s where p: "tg_path c = p @ [s]"
      by (cases "tg_path c" rule: rev_cases; cases "tg_kind c") (auto simp: listed_def)
    then obtain u where u: "subtree v p = Some u" "subtree u [s] = Some w" using subtree_parent w by metis
    have "\<exists>y. edit_child g fl (tg_kind c) s u = Some y \<and> (may_stand v c \<or> y \<noteq> u)"
    proof (cases s)
      case (Item i)
      then obtain xs where xs: "u = JArr xs" "i < length xs" "w = xs ! i"
        using u(2) by (cases u) (auto split: if_splits)
      have "tg_kind c = Removed \<or> tg_kind c = Changed \<and> is_leaf w"
        using l w False p Item by (cases "tg_kind c") (auto simp: listed_def)
      then show ?thesis
      proof
        assume "tg_kind c = Removed"
        moreover have "drop_index i xs \<noteq> xs"
          using xs(2) by (auto simp: drop_index_def dest!: arg_cong [where f = length])
        ultimately show ?thesis using xs Item by (simp add: edit_child_def)
      next
        assume k: "tg_kind c = Changed \<and> is_leaf w"
        have "tamperAltered g fl w \<noteq> w" if "\<not> may_stand v c"
          using that k w by (intro altered_differs) (auto simp: may_stand_def)
        then show ?thesis using xs Item k by (auto simp: edit_child_def list_update_same_conv)
      qed
    next
      case (Key x)
      then obtain ms where ms: "u = JObj ms" "map_of ms x = Some w"
        using u(2) by (cases u) (auto split: option.splits)
      have "tg_kind c = Deleted \<or> tg_kind c = Changed \<and> is_leaf w"
        using l w False p Key by (cases "tg_kind c") (auto simp: listed_def)
      then show ?thesis
      proof
        assume "tg_kind c = Deleted"
        moreover have "filter (\<lambda>m. fst m \<noteq> x) ms \<noteq> ms"
          using map_of_SomeD [OF ms(2)] by (force simp: filter_id_conv)
        ultimately show ?thesis using ms Key by (simp add: edit_child_def)
      next
        assume k: "tg_kind c = Changed \<and> is_leaf w"
        have "tamperAltered g fl w \<noteq> w" if "\<not> may_stand v c"
          using that k w by (intro altered_differs) (auto simp: may_stand_def)
        then have "map_put x (tamperAltered g fl w) ms \<noteq> ms" if "\<not> may_stand v c"
          using that ms(2) map_put_lookup [of x "tamperAltered g fl w" ms] by (metis fun_upd_same option.inject)
        then show ?thesis using ms Key k by (auto simp: edit_child_def)
      qed
    qed
    then show ?thesis using u p False by (auto simp: edited_node_def node_edit_def)
  qed
qed


lemma listed_made:
  assumes "tamperDecode data = Some v" "listed g v (tg_kind c) (tg_path c)"
  shows "\<exists>w. tamperApply g fl data c = Some (json_write w) \<and> (may_stand v c \<or> w \<noteq> v)
    \<and> (\<forall>q. \<not> prefix (edited_node c) q \<longrightarrow> \<not> prefix q (edited_node c) \<longrightarrow> subtree w q = subtree v q)"
proof -
  note l = assms(2)
  then have e: "edit_tree g fl c v = edit_at (node_edit g fl c) (edited_node c) v"
    by (intro edit_tree_node) (auto simp: listed_def split: option.splits tamper_kind.splits)
  obtain x y where x: "subtree v (edited_node c) = Some x" "node_edit g fl c x = Some y" "may_stand v c \<or> y \<noteq> x"
    using node_edited [OF decoded_go [OF assms(1)] l, of fl] by blast
  obtain w where w: "edit_at (node_edit g fl c) (edited_node c) v = Some w" "subtree w (edited_node c) = Some y"
    using edit_at_made [of v _ x "node_edit g fl c" y, OF x(1,2)] by blast
  have "may_stand v c \<or> w \<noteq> v" using x w(2) by auto
  then show ?thesis
    using edit_at_elsewhere [OF w(1)] w(1) e assms(1) by (auto simp: tamperApply_def)
qed

text \<open>C38. A listed change of a decoded record can always be made, no type assertion of the code fails on it,
  and the copy differs from the record, in the edited object or list and nowhere outside it. Two
  kinds of change may leave the record as it is: a number that is no 64-bit integer, which gains
  one in binary floating point, and the added key, when the record holds it already.\<close>

theorem listed_change_made:
  assumes "tamperDecode data = Some v" "c \<in> set (tamperChanges g v [])"
  shows "\<exists>w. tamperApply g fl data c = Some (json_write w) \<and> (may_stand v c \<or> w \<noteq> v)
    \<and> (\<forall>q. \<not> prefix (edited_node c) q \<longrightarrow> \<not> prefix q (edited_node c) \<longrightarrow> subtree w q = subtree v q)"
  using assms by (intro listed_made) (simp_all add: decoded_changes)

section \<open>Names of paths\<close>

text \<open>tamperIndex.ReplaceAllString(p, "[]"): every index in brackets loses its digits.\<close>

function index_free :: "string \<Rightarrow> string" where
  "index_free [] = []"
| "index_free (c # s) =
     (if c = CHR ''['' \<and> takeWhile is_digit s \<noteq> [] \<and> take 1 (dropWhile is_digit s) = '']''
      then ''[]'' @ index_free (tl (dropWhile is_digit s)) else c # index_free s)"
  by pat_completeness auto
termination
  by (relation "measure length") (auto simp: less_Suc_eq_le intro: order_trans [OF diff_le_self length_dropWhile_le])

definition trim_prefix :: "string \<Rightarrow> string \<Rightarrow> string" where
  "trim_prefix p s = (if take (length p) s = p then drop (length p) s else s)"

definition trim_suffix :: "string \<Rightarrow> string \<Rightarrow> string" where
  "trim_suffix p s = rev (trim_prefix (rev p) (rev s))"

definition tamperPathKey :: "tamper_change \<Rightarrow> string" where
  "tamperPathKey c =
     (let p = trim_prefix ''.'' (trim_prefix ''$'' (index_free (tamperPathString (tg_path c))));
          p = (case tg_kind c of
             Added \<Rightarrow> trim_suffix ''.'' (p @ ''.(added key)'')
           | Appended \<Rightarrow> p @ ''[] (appended item)''
           | _ \<Rightarrow> p)
      in if p = [] \<or> p = ''.(added key)'' then ''(added key)'' else p)"

text \<open>tamperKeySteps: a dotted path, with list items written as key[index]. The paths the code gives it
  are its own constants, whose indices are not negative.\<close>

definition last_open :: "string \<Rightarrow> nat option" where
  "last_open k = (if CHR ''['' \<in> set k then Some (length k - Suc (length (takeWhile (\<lambda>c. c \<noteq> CHR ''['') (rev k)))) else None)"

definition part_steps :: "string \<Rightarrow> tamper_step list" where
  "part_steps k =
     (let plain = (if k \<noteq> [] then [Key k] else []) in
      if k \<noteq> [] \<and> last k = CHR '']'' then
        (case last_open k of None \<Rightarrow> plain
         | Some i \<Rightarrow> (case parse_int64 (butlast (drop (Suc i) k)) of
              None \<Rightarrow> plain | Some n \<Rightarrow> [Key (take i k), Item (nat n)]))
      else plain)"

definition tamperKeySteps :: "string \<Rightarrow> tamper_step list" where
  "tamperKeySteps p = concat (map part_steps (split_on (CHR ''.'') p))"

section \<open>A well-formed value of the same form\<close>

fun position :: "'a \<Rightarrow> 'a list \<Rightarrow> nat option" where
  "position c [] = None"
| "position c (x # xs) = (if c = x then Some 0 else map_option Suc (position c xs))"

definition swap_char :: "string \<Rightarrow> char \<Rightarrow> char" where
  "swap_char alphabet c = alphabet ! ((case position c alphabet of Some i \<Rightarrow> Suc i | None \<Rightarrow> 0) mod length alphabet)"

definition hex_digits :: string where "hex_digits = ''0123456789abcdef''"
definition lower_letters :: string where "lower_letters = ''abcdefghijklmnopqrstuvwxyz''"
definition upper_letters :: string where "upper_letters = ''ABCDEFGHIJKLMNOPQRSTUVWXYZ''"
definition decimal_digits :: string where "decimal_digits = ''0123456789''"
definition b64_letters :: string where "b64_letters = upper_letters @ lower_letters @ decimal_digits @ ''+/''"

text \<open>big.Int.SetString in base 10.\<close>

definition parse_big :: "string \<Rightarrow> int option" where
  "parse_big s =
     (let (neg, ds) = (case s of [] \<Rightarrow> (False, [])
                       | c # r \<Rightarrow> if c = CHR ''-'' then (True, r) else if c = CHR ''+'' then (False, r) else (False, s))
      in if ds = [] then None
         else map_option (\<lambda>n. if neg then - int n else int n) (digits_value 0 ds))"

definition tamperWellFormed :: "tamper_lib \<Rightarrow> string \<Rightarrow> string option" where
  "tamperWellFormed fl s =
     (if s = [] then None
      else if parse_rfc3339 s \<noteq> None then
        Some (tl_second_later fl s (if CHR ''.'' \<in> set s then ''2006-01-02T15:04:05.999999999Z07:00'' else ''2006-01-02T15:04:05Z07:00''))
      else (case parse_big s of Some n \<Rightarrow> Some (int_str (n + 1))
      | None \<Rightarrow>
        if even (length s) \<and> list_all (\<lambda>c. c \<in> set hex_digits) s then Some (swap_char hex_digits (hd s) # tl s)
        else if base64_decode s \<noteq> None \<and> 4 \<le> length s then Some (swap_char b64_letters (hd s) # tl s)
        else if last s \<in> set lower_letters then Some (butlast s @ [swap_char lower_letters (last s)])
        else if last s \<in> set upper_letters then Some (butlast s @ [swap_char upper_letters (last s)])
        else if last s \<in> set decimal_digits then Some (butlast s @ [swap_char decimal_digits (last s)])
        else None))"


section \<open>A small record\<close>

definition small_text :: string where
  "small_text = [CHR ''{'', quote_char, CHR ''b'', quote_char, CHR '':'', CHR ''['', CHR ''7'', CHR '']'', CHR 0x2C,
     quote_char, CHR ''a'', quote_char, CHR '':'', quote_char, quote_char, CHR ''}'']"

definition small_tree :: json where
  "small_tree = JObj [(''a'', JStr []), (''b'', JArr [JNum ''7''])]"

definition float_lib :: tamper_lib where
  "float_lib = \<lparr>tl_float_next = (\<lambda>f. ''1''), tl_second_later = (\<lambda>s layout. s)\<rparr>"

lemma small_decoded: "tamperDecode small_text = Some small_tree"
  unfolding small_text_def small_tree_def by code_simp

lemma small_changes: "tamperChanges toy_lib small_tree [] =
    [change Changed [Key ''a''], change Changed [Key ''b'', Item 0], change Removed [Key ''b'', Item 0],
     change Appended [Key ''b''], change Deleted [Key ''b''], change Added []]"
  by (simp add: small_tree_def toy_lib_def Let_def)

lemma tamper_changes_exact_witness:
  "change Removed [Key ''b'', Item 0] \<in> set (tamperChanges toy_lib small_tree [])
   \<and> change Deleted [Key ''a''] \<notin> set (tamperChanges toy_lib small_tree [])"
  using tamper_changes_exact [OF small_decoded, of "change Removed [Key ''b'', Item 0]" toy_lib]
    tamper_changes_exact [OF small_decoded, of "change Deleted [Key ''a'']" toy_lib]
  by (simp add: listed_def small_tree_def change_def)

lemma listed_change_made_witness:
  "\<exists>w. tamperApply toy_lib float_lib small_text (change Changed [Key ''b'', Item 0]) = Some (json_write w) \<and> w \<noteq> small_tree"
proof -
  have "\<not> may_stand small_tree (change Changed [Key ''b'', Item 0])"
    unfolding may_stand_def small_tree_def change_def by code_simp
  then show ?thesis
    using listed_change_made [OF small_decoded, of "change Changed [Key ''b'', Item 0]" toy_lib float_lib]
    by (auto simp: small_changes)
qed

end
