(* ===== verification/Tamper.thy ===== *)
theory Tamper
  imports TamperTree Verify
begin

text \<open>
  The tamper test (the second half of tamper.go): the judge of a changed copy, the check groups a
  rejection is attributed to, the rewrite a forger would make of the whole record, the variants of
  a change, and the verdict and exit code of the run. Also the fields of a record no hash covers.

  The decoders of a bundle and of a receipt document are arguments, as the standard library is;
  the fields of tamper_env hold them. The report's printed lines are output only.
\<close>

record tamper_env =
  te_lib :: golib
  te_float :: tamper_lib
  te_rekor :: "anchor_input \<Rightarrow> anchor_error option"
  te_pins :: "(string \<times> pinned_signer) list"
  te_decodeBundle :: "bytes \<Rightarrow> audit_bundle option"
  te_decodeReceipt :: "bytes \<Rightarrow> receipt_document option"

abbreviation env_verify :: "tamper_env \<Rightarrow> audit_bundle \<Rightarrow> report" where
  "env_verify e b \<equiv> verify (te_lib e) (te_rekor e) (te_pins e) b"

definition verifyForTamper :: "tamper_env \<Rightarrow> bytes \<Rightarrow> bool" where
  "verifyForTamper e data = (case te_decodeBundle e data of None \<Rightarrow> False
   | Some b \<Rightarrow> \<not> exitShouldFail (env_verify e b) False False)"

section \<open>The judge\<close>

record tamper_verdict =
  tv_accepted :: bool
  tv_caughtBy :: "catch_group list"

definition accept_verdict :: tamper_verdict where
  "accept_verdict = \<lparr>tv_accepted = True, tv_caughtBy = []\<rparr>"

definition caught :: "catch_group list \<Rightarrow> tamper_verdict" where
  "caught gs = \<lparr>tv_accepted = False, tv_caughtBy = gs\<rparr>"

definition tamperCatchOrder :: "catch_group list" where
  "tamperCatchOrder = [CatchCompleteEntry, CatchFirstEntry, CatchReceiptEntry, CatchEntrySigner, CatchActor, CatchAMD,
     CatchDecode, CatchInternal, CatchConsistency]"

text \<open>Whether one check group failed in a report.\<close>

fun group_hit :: "report \<Rightarrow> catch_group \<Rightarrow> bool" where
  "group_hit r CatchAMD = list_ex (\<lambda>c. \<not> hc_Match c \<and> hc_Name c = ''hardware_attestation_sevsnp_quote'')
     (vr_Artifacts r @ vr_Categories r)"
| "group_hit r CatchInternal = (list_ex (\<lambda>c. \<not> hc_Match c \<and> hc_Name c \<noteq> ''hardware_attestation_sevsnp_quote'')
       (vr_Artifacts r @ vr_Categories r)
     \<or> \<not> vr_BundleHashOK r \<or> list_ex (\<lambda>s. \<not> sk_Match s) (vr_Seals r))"
| "group_hit r CatchFirstEntry = ((rk_Performed (vr_RekorAnchor r) \<and> \<not> rk_Match (vr_RekorAnchor r))
     \<or> (lc_Performed (vr_LeafBinding r) \<and> \<not> lc_Match (vr_LeafBinding r))
     \<or> (ri_Performed (vr_RecordIdentity r) \<and> \<not> ri_Match (vr_RecordIdentity r)) \<or> \<not> vr_Anchored r)"
| "group_hit r CatchCompleteEntry = ((bc_Present (vr_BundleAnchor r) \<and> \<not> bc_Match (vr_BundleAnchor r))
     \<or> (cr_Sealed (vr_CompleteRecordRequirement r) \<and> \<not> cr_Satisfied (vr_CompleteRecordRequirement r)))"
| "group_hit r CatchEntrySigner = (ea_Performed (vr_EntryAuth r) \<and> \<not> ea_Match (vr_EntryAuth r))"
| "group_hit r CatchActor = (nc_Performed (vr_NrepSignature r) \<and> \<not> nc_Match (vr_NrepSignature r))"
| "group_hit r CatchConsistency = ((tc_Performed (vr_RuntimeTiming r) \<and> \<not> tc_Match (vr_RuntimeTiming r))
     \<or> (pc_Performed (vr_PreAnchor r) \<and> \<not> pc_Match (vr_PreAnchor r)) \<or> vr_CrossChecks r \<noteq> [])"
| "group_hit r _ = False"

definition tamperCatchers :: "report \<Rightarrow> catch_group list" where
  "tamperCatchers r = filter (group_hit r) tamperCatchOrder"

definition judgeForTamper :: "tamper_env \<Rightarrow> bytes \<Rightarrow> tamper_verdict" where
  "judgeForTamper e data = (case te_decodeBundle e data of
     None \<Rightarrow> caught [CatchDecode]
   | Some b \<Rightarrow> (let r = env_verify e b in
       if \<not> exitShouldFail r False False then accept_verdict else caught (tamperCatchers r)))"

definition judgeReceiptForTamper :: "tamper_env \<Rightarrow> bytes \<Rightarrow> tamper_verdict" where
  "judgeReceiptForTamper e data = (case te_decodeReceipt e data of
     None \<Rightarrow> caught [CatchDecode]
   | Some d \<Rightarrow>
      (let rr = verifyReceiptDocumentWith (te_lib e) (te_rekor e) (te_pins e) False d in
       if \<not> receiptExitShouldFail rr False then accept_verdict
       else (let first = (if rr_caught rr = CatchNothing then CatchReceiptEntry else rr_caught rr) in
         caught ([first] @ (if rr_caught rr \<noteq> CatchReceiptEntry \<and> rr_caught rr \<noteq> CatchDecode
             \<and> \<not> receiptEntryBinds (te_lib e) (te_rekor e) d then [CatchReceiptEntry] else [])))))"

section \<open>Tiers\<close>

datatype tamper_tier = TierLog | TierAMD | TierStrict | TierActorOnly | TierNoRewrite | TierRejected | TierNot

fun tamperForgerRank :: "tamper_tier \<Rightarrow> nat" where
  "tamperForgerRank TierNot = 6"
| "tamperForgerRank TierRejected = 5"
| "tamperForgerRank TierActorOnly = 4"
| "tamperForgerRank TierStrict = 3"
| "tamperForgerRank TierAMD = 2"
| "tamperForgerRank TierLog = 1"
| "tamperForgerRank TierNoRewrite = 0"

definition tamperTier :: "tamper_verdict \<Rightarrow> bool \<Rightarrow> tamper_tier" where
  "tamperTier v recompute =
     (if tv_accepted v then TierNot
      else if \<not> recompute then TierRejected
      else (let has = set (tv_caughtBy v) in
        if CatchFirstEntry \<in> has \<or> CatchCompleteEntry \<in> has \<or> CatchReceiptEntry \<in> has \<or> CatchEntrySigner \<in> has then TierLog
        else if CatchAMD \<in> has then TierAMD
        else if CatchDecode \<in> has then TierStrict
        else if CatchActor \<in> has then TierActorOnly
        else TierNoRewrite))"

section \<open>The forger's rewrite\<close>

text \<open>The stored hashes that no longer recompute, later entries first.\<close>

definition stale_row :: "string \<Rightarrow> string \<Rightarrow> (string \<times> string) list" where
  "stale_row recorded computed =
     (if recorded \<noteq> computed \<and> is_hex64 recorded \<and> is_hex64 computed then [(recorded, computed)] else [])"

definition stale_check :: "hash_check \<Rightarrow> (string \<times> string) list" where
  "stale_check c = (case hc_Computed c of Computed t \<Rightarrow> stale_row (hc_Recorded c) t | _ \<Rightarrow> [])"

definition stale_hashes :: "report \<Rightarrow> (string \<times> string) list" where
  "stale_hashes r = rev (concat (map stale_check (vr_BundleHash r # vr_Artifacts r @ vr_Categories r))
     @ concat (map (\<lambda>s. stale_row (sk_SealManifest s) (sk_ExpectedManifest s)) (vr_Seals r)))"

definition replace_in :: "bytes \<Rightarrow> (string \<times> string) list \<Rightarrow> bytes option" where
  "replace_in data stale = map_option (\<lambda>doc. json_write (tamperReplaceValues (map_of stale) doc)) (tamperDecode data)"

definition tamperRecomputeReceipt :: "tamper_env \<Rightarrow> bytes \<Rightarrow> bytes" where
  "tamperRecomputeReceipt e data = (case te_decodeReceipt e data of None \<Rightarrow> data
   | Some d \<Rightarrow> (case receiptHashes (te_lib e) d of None \<Rightarrow> data
     | Some (recorded, computed) \<Rightarrow>
        if stale_row recorded computed = [] then data
        else (case replace_in data [(recorded, computed)] of None \<Rightarrow> data | Some out \<Rightarrow> out)))"

fun recompute_rounds :: "nat \<Rightarrow> tamper_env \<Rightarrow> bytes \<Rightarrow> bytes" where
  "recompute_rounds 0 e data = data"
| "recompute_rounds (Suc n) e data = (case te_decodeBundle e data of None \<Rightarrow> data
   | Some b \<Rightarrow> (let stale = stale_hashes (env_verify e b) in
       if stale = [] then data
       else (case replace_in data stale of None \<Rightarrow> data
         | Some out \<Rightarrow> if out = data then data else recompute_rounds n e out)))"

definition tamperRecompute :: "tamper_env \<Rightarrow> bytes \<Rightarrow> bytes" where
  "tamperRecompute e data = (if isReceiptDocument data then tamperRecomputeReceipt e data else recompute_rounds 12 e data)"

text \<open>tamperDerivedHashes: the hashes that verification recomputes from the record's own content.\<close>

definition tamperDerivedHashes :: "tamper_env \<Rightarrow> bytes \<Rightarrow> string list" where
  "tamperDerivedHashes e data =
     (if isReceiptDocument data then
        (case te_decodeReceipt e data of None \<Rightarrow> []
         | Some d \<Rightarrow> (case receiptHashes (te_lib e) d of None \<Rightarrow> []
           | Some (recorded, computed) \<Rightarrow> if recorded = computed \<and> is_hex64 recorded then [recorded] else []))
      else (case te_decodeBundle e data of None \<Rightarrow> []
        | Some b \<Rightarrow> (let r = env_verify e b in
            filter is_hex64 (map hc_Recorded (vr_BundleHash r # vr_Artifacts r @ vr_Categories r)
              @ map sk_SealManifest (vr_Seals r)))))"


section \<open>The variants of a change\<close>

text \<open>fmt.Sprint of a decoded value.\<close>

fun sprint :: "json \<Rightarrow> string"
  and sprint_elems :: "json list \<Rightarrow> string"
  and sprint_members :: "(string \<times> json) list \<Rightarrow> string" where
  "sprint JNull = ''<nil>''"
| "sprint (JBool b) = (if b then ''true'' else ''false'')"
| "sprint (JNum t) = t"
| "sprint (JStr s) = s"
| "sprint (JArr xs) = ''['' @ sprint_elems xs @ '']''"
| "sprint (JObj ms) = ''map['' @ sprint_members ms @ '']''"
| "sprint_elems [] = []"
| "sprint_elems [x] = sprint x"
| "sprint_elems (x # y # r) = sprint x @ '' '' @ sprint_elems (y # r)"
| "sprint_members [] = []"
| "sprint_members [(k, v)] = k @ '':'' @ sprint v"
| "sprint_members ((k, v) # y # r) = k @ '':'' @ sprint v @ '' '' @ sprint_members (y # r)"

definition path_name :: "tamper_change \<Rightarrow> string" where
  "path_name c = trim_prefix ''$.'' (tamperPathString (tg_path c))"

fun cut_marker :: "string \<Rightarrow> string \<times> string" where
  "cut_marker [] = ([], [])"
| "cut_marker (c # s) = (if c = CHR ''['' \<and> take 1 s = '']'' then ([], tl s)
     else (case cut_marker s of (a, b) \<Rightarrow> (c # a, b)))"

definition spread_hit :: "tamper_change \<Rightarrow> string \<Rightarrow> string \<Rightarrow> bool" where
  "spread_hit c normal p = (let base = fst (cut_marker p) @ ''[]'' in
     case tg_kind c of
       Changed \<Rightarrow> normal = p | Deleted \<Rightarrow> normal = p
     | Removed \<Rightarrow> normal = base
     | Appended \<Rightarrow> normal @ ''[]'' = base
     | Added \<Rightarrow> False)"

definition spread_index :: "tamper_change \<Rightarrow> nat option" where
  "spread_index c = (let p = tg_path c; n = length p in
     if 0 < n \<and> ts_list (p ! (n - 1)) \<and> tg_kind c \<noteq> Appended then Some (ts_index (p ! (n - 1)))
     else if 1 < n \<and> ts_list (p ! (n - 2)) \<and> (tg_kind c = Changed \<or> tg_kind c = Deleted) then Some (ts_index (p ! (n - 2)))
     else None)"

definition set_or_keep :: "json \<Rightarrow> tamper_step list \<Rightarrow> json \<Rightarrow> json" where
  "set_or_keep doc steps value = (case tamperSetIn doc steps value of None \<Rightarrow> doc | Some w \<Rightarrow> w)"

definition set_extra :: "json \<Rightarrow> json \<Rightarrow> string \<Rightarrow> json \<Rightarrow> json" where
  "set_extra original value p doc = (let steps = tamperKeySteps p in
     if tamperValueAt original steps \<noteq> JNull then set_or_keep doc steps value else doc)"

text \<open>The item of one list of a group, after the change: the item itself, or the field rest of it.\<close>

definition spread_item :: "string \<Rightarrow> json \<Rightarrow> nat \<Rightarrow> json list \<Rightarrow> json list" where
  "spread_item rest value i xs = (if rest = [] then xs[i := value]
     else (case xs ! i of JObj ms \<Rightarrow> xs[i := JObj (map_put rest value ms)] | _ \<Rightarrow> xs))"

definition spread_path :: "bound_list_group \<Rightarrow> json \<Rightarrow> tamper_change \<Rightarrow> json \<Rightarrow> string \<Rightarrow> json \<Rightarrow> json" where
  "spread_path G original c value p doc =
     (let (base, after) = cut_marker p; rest = trim_prefix ''.'' after; steps = tamperKeySteps base in
      case tamperValueAt original steps of
        JArr orig \<Rightarrow> (case tamperValueAt doc (butlast steps) of
          JObj ms \<Rightarrow>
            (let xs = (case map_of ms (ts_key (last steps)) of Some (JArr xs) \<Rightarrow> xs | _ \<Rightarrow> []);
                 put = (\<lambda>l. set_or_keep doc steps (JArr l)) in
             if tg_kind c = Changed \<or> tg_kind c = Deleted then
               (case spread_index c of None \<Rightarrow> doc
                | Some i \<Rightarrow> if length xs \<le> i then doc
                    else fold (set_extra original value)
                      (case map_of (lg_extras G) (int i) of None \<Rightarrow> [] | Some extras \<Rightarrow> extras)
                      (put (spread_item rest value i xs)))
             else if tg_kind c = Removed then
               (case spread_index c of None \<Rightarrow> doc
                | Some i \<Rightarrow> if length xs = length orig \<and> i < length xs then put (drop_index i xs) else doc)
             else if tg_kind c = Appended \<and> length xs = length orig \<and> xs \<noteq> [] then put (xs @ [last xs])
             else doc)
        | _ \<Rightarrow> doc)
      | _ \<Rightarrow> doc)"

text \<open>Some when the change is in a list of some group, with the spread copy.\<close>

definition tamperSpreadList :: "bytes \<Rightarrow> json \<Rightarrow> tamper_change \<Rightarrow> bytes option" where
  "tamperSpreadList changed original c =
     (let normal = index_free (path_name c) in
      case find (\<lambda>G. list_ex (spread_hit c normal) (lg_paths G)) boundListGroups of
        None \<Rightarrow> None
      | Some G \<Rightarrow> (case tamperDecode changed of
            None \<Rightarrow> Some changed
          | Some doc \<Rightarrow>
             (let value = (if tg_kind c = Changed then tamperValueAt doc (tg_path c) else JStr [])
              in Some (json_write (fold (spread_path G original c value) (lg_paths G) doc)))))"

definition spread_peer :: "tamper_env \<Rightarrow> json \<Rightarrow> tamper_change \<Rightarrow> json \<Rightarrow> json \<Rightarrow> string \<Rightarrow> bytes \<Rightarrow> bytes" where
  "spread_peer e original c was value p changed =
     (let steps = tamperKeySteps p; peer = tamperValueAt original steps in
      if peer = JNull \<or> sprint peer \<noteq> sprint was then changed
      else if tg_kind c = Deleted \<and> (\<forall>s. peer \<noteq> JStr s) then
        (case tamperApply (te_lib e) (te_float e) changed (change Deleted steps) of None \<Rightarrow> changed | Some out \<Rightarrow> out)
      else (case tamperSetAt changed steps value of None \<Rightarrow> changed | Some out \<Rightarrow> out))"

definition tamperSpreadCopies :: "tamper_env \<Rightarrow> bytes \<Rightarrow> json \<Rightarrow> tamper_change \<Rightarrow> bytes" where
  "tamperSpreadCopies e changed original c = (case tamperSpreadList changed original c of
     Some spread \<Rightarrow> spread
   | None \<Rightarrow>
      if tg_kind c \<noteq> Changed \<and> tg_kind c \<noteq> Deleted then changed
      else (let peers = boundCopyPeers (path_name c) in
        if peers = [] then changed
        else (case tamperDecode changed of None \<Rightarrow> changed
          | Some doc \<Rightarrow>
             (let was = tamperValueAt original (tg_path c);
                  value = (if tg_kind c = Changed then tamperValueAt doc (tg_path c) else JStr [])
              in fold (spread_peer e original c was value) peers changed))))"

definition gateOffValue :: "golib \<Rightarrow> json \<Rightarrow> tamper_step list \<Rightarrow> string \<Rightarrow> json" where
  "gateOffValue g doc steps off = (case tamperValueAt doc steps of
     JNum t \<Rightarrow> if gl_parse_float g off \<noteq> None then JNum off else JStr off
   | _ \<Rightarrow> JStr off)"

datatype tamper_variant = PlainChange | EveryCopy | OneCopy | GateOff string

text \<open>The variants of one change, before they are prepared: base is the record with the change made.\<close>

definition gate_variant :: "tamper_env \<Rightarrow> audit_bundle \<Rightarrow> json \<Rightarrow> bytes \<Rightarrow> string \<Rightarrow> copy_gate \<Rightarrow> (bytes \<times> tamper_variant) option" where
  "gate_variant e original doc base here G =
     (if \<not> gate_active G original \<or> gate_path G = here then None
      else (let steps = tamperKeySteps (gate_path G) in
        map_option (\<lambda>off. (off, GateOff (gate_path G)))
          (if gate_deleted G then tamperApply (te_lib e) (te_float e) base (change Deleted steps)
           else tamperSetAt base steps (gateOffValue (te_lib e) doc steps (gate_off G)))))"

definition gate_variants :: "tamper_env \<Rightarrow> audit_bundle option \<Rightarrow> json \<Rightarrow> bytes \<Rightarrow> tamper_change \<Rightarrow> (bytes \<times> tamper_variant) list" where
  "gate_variants e original doc base c = (case original of
     Some b \<Rightarrow> if tg_kind c = Changed \<or> tg_kind c = Deleted then
         concat (map (\<lambda>G. if path_name c \<notin> set (bg_paths G) then []
           else List.map_filter (gate_variant e b doc base (path_name c)) (bg_gates G)) boundCopyGroups)
       else []
   | None \<Rightarrow> [])"

definition variants :: "tamper_env \<Rightarrow> bool \<Rightarrow> audit_bundle option \<Rightarrow> json \<Rightarrow> bytes \<Rightarrow> tamper_change \<Rightarrow> (bytes \<times> tamper_variant) list" where
  "variants e recompute original doc base c =
     (if \<not> recompute then [(base, PlainChange)]
      else (let spread = tamperSpreadCopies e base doc c in
        (if spread \<noteq> base then [(spread, EveryCopy)] else []) @ [(base, OneCopy)] @ gate_variants e original doc base c))"

text \<open>In recompute mode every variant is rewritten, and one the rewrite undoes is no change.\<close>

definition prepare :: "tamper_env \<Rightarrow> bool \<Rightarrow> bytes \<Rightarrow> bytes \<times> tamper_variant \<Rightarrow> (bytes \<times> tamper_variant) option" where
  "prepare e recompute same x = (if \<not> recompute then Some x
     else (let ready = tamperRecompute e (fst x) in if ready = same then None else Some (ready, snd x)))"

definition candidates ::
  "tamper_env \<Rightarrow> bool \<Rightarrow> bytes \<Rightarrow> audit_bundle option \<Rightarrow> json \<Rightarrow> bytes \<Rightarrow> tamper_change \<Rightarrow> (bytes \<times> tamper_variant) list" where
  "candidates e recompute same original doc base c =
     List.map_filter (prepare e recompute same) (variants e recompute original doc base c)"

section \<open>The run\<close>

text \<open>The verdict of the variants that is best for the forger, the first of the highest rank.\<close>

fun weakest_of :: "(bytes \<Rightarrow> tamper_verdict) \<Rightarrow> bool \<Rightarrow> (tamper_verdict \<times> tamper_variant) \<times> int
    \<Rightarrow> (bytes \<times> tamper_variant) list \<Rightarrow> tamper_verdict \<times> tamper_variant" where
  "weakest_of judge recompute (best, rank) [] = best"
| "weakest_of judge recompute (best, rank) (x # xs) =
     (let v = judge (fst x); r = int (tamperForgerRank (tamperTier v recompute)) in
      weakest_of judge recompute (if r > rank then ((v, snd x), r) else (best, rank)) xs)"

definition weakest :: "(bytes \<Rightarrow> tamper_verdict) \<Rightarrow> bool \<Rightarrow> (bytes \<times> tamper_variant) list \<Rightarrow> tamper_verdict \<times> tamper_variant" where
  "weakest judge recompute xs = weakest_of judge recompute ((caught [], PlainChange), - 1) xs"

record tamper_result =
  tx_Kind :: tamper_kind
  tx_Path :: string
  tx_Accepted :: bool
  tx_CaughtBy :: "catch_group list"
  tx_Tier :: tamper_tier
  tx_Retried :: bool
  tx_Variant :: tamper_variant
  tx_change :: tamper_change

record tamper_outcome =
  to_tried :: nat
  to_unchanged :: nat
  to_results :: "tamper_result list"

definition no_outcome :: tamper_outcome where
  "no_outcome = \<lparr>to_tried = 0, to_unchanged = 0, to_results = []\<rparr>"

text \<open>The counters per group and per tier are functions of the results.\<close>

definition caughtCount :: "tamper_outcome \<Rightarrow> catch_group \<Rightarrow> nat" where
  "caughtCount out grp = length (filter (\<lambda>x. x = grp) (concat (map tx_CaughtBy (to_results out))))"

definition tierCount :: "tamper_outcome \<Rightarrow> tamper_tier \<Rightarrow> nat" where
  "tierCount out t = length (filter (\<lambda>r. tx_Tier r = t) (to_results out))"

text \<open>A change whose edit no longer decodes, or that only rewritable checks reject, is retried with a
  well-formed value of the same form.\<close>

definition retry_variants ::
  "tamper_env \<Rightarrow> bool \<Rightarrow> bytes \<Rightarrow> bytes \<Rightarrow> audit_bundle option \<Rightarrow> json \<Rightarrow> tamper_change \<Rightarrow> tamper_verdict
    \<Rightarrow> (bytes \<times> tamper_variant) list" where
  "retry_variants e recompute data same original doc c v =
     (if tg_kind c = Changed \<and> (tamperTier v recompute = TierNoRewrite \<or> tv_caughtBy v = [CatchDecode]) then
        (case tamperValueAt doc (tg_path c) of
           JStr s \<Rightarrow> (case tamperWellFormed (te_float e) s of None \<Rightarrow> []
             | Some alt \<Rightarrow> (case tamperSetAt data (tg_path c) (JStr alt) of None \<Rightarrow> []
               | Some again \<Rightarrow> candidates e recompute same original doc again c))
         | _ \<Rightarrow> [])
      else [])"

definition judge_change ::
  "tamper_env \<Rightarrow> (bytes \<Rightarrow> tamper_verdict) \<Rightarrow> bool \<Rightarrow> bytes \<Rightarrow> bytes \<Rightarrow> audit_bundle option \<Rightarrow> json \<Rightarrow> tamper_change
    \<Rightarrow> (bytes \<times> tamper_variant) list \<Rightarrow> tamper_result" where
  "judge_change e judge recompute data same original doc c xs =
     (let first = weakest judge recompute xs;
          more = retry_variants e recompute data same original doc c (fst first);
          (v, variant) = (if more \<noteq> [] then weakest judge recompute more else first)
      in \<lparr>tx_Kind = tg_kind c, tx_Path = tamperPathString (tg_path c), tx_Accepted = tv_accepted v,
          tx_CaughtBy = tv_caughtBy v, tx_Tier = tamperTier v recompute, tx_Retried = (more \<noteq> []),
          tx_Variant = variant, tx_change = c\<rparr>)"

definition run_change ::
  "tamper_env \<Rightarrow> (bytes \<Rightarrow> tamper_verdict) \<Rightarrow> bool \<Rightarrow> bytes \<Rightarrow> bytes \<Rightarrow> json \<Rightarrow> tamper_change \<Rightarrow> tamper_outcome \<Rightarrow> tamper_outcome" where
  "run_change e judge recompute data same doc c out =
     (if recompute \<and> tg_kind c = Deleted
         \<and> (case tamperValueAt doc (tg_path c) of JStr s \<Rightarrow> s \<in> set (tamperDerivedHashes e same) | _ \<Rightarrow> False)
      then out\<lparr>to_unchanged := to_unchanged out + 1\<rparr>
      else (case tamperApply (te_lib e) (te_float e) data c of None \<Rightarrow> out
        | Some base \<Rightarrow>
           (let original = te_decodeBundle e same; xs = candidates e recompute same original doc base c in
            if xs = [] then out\<lparr>to_unchanged := to_unchanged out + 1\<rparr>
            else out\<lparr>to_tried := to_tried out + 1,
              to_results := to_results out @ [judge_change e judge recompute data same original doc c xs]\<rparr>)))"

definition tamperRun :: "tamper_env \<Rightarrow> bytes \<Rightarrow> (bytes \<Rightarrow> tamper_verdict) \<Rightarrow> bool \<Rightarrow> tamper_outcome option" where
  "tamperRun e data judge recompute = (case tamperDecode data of None \<Rightarrow> None
   | Some doc \<Rightarrow> (let same = json_write doc in
       if \<not> tv_accepted (judge same) then None
       else Some (fold (run_change e judge recompute data same doc) (tamperChanges (te_lib e) doc []) no_outcome)))"

definition notStopped :: "tamper_outcome \<Rightarrow> tamper_result list" where
  "notStopped out = filter (\<lambda>r. tx_Tier r = TierNot \<or> tx_Tier r = TierActorOnly \<or> tx_Tier r = TierNoRewrite) (to_results out)"

definition rewritable :: "tamper_outcome \<Rightarrow> string list" where
  "rewritable out = sort (remdups (map (\<lambda>r. tamperPathKey (tx_change r)) (filter tx_Accepted (to_results out))))"

definition runTamperTestOutput :: "tamper_env \<Rightarrow> bytes \<Rightarrow> (bytes \<Rightarrow> tamper_verdict) \<Rightarrow> bool \<Rightarrow> nat" where
  "runTamperTestOutput e data judge recompute =
     (if \<not> tv_accepted (judge data) then 1
      else (case tamperRun e data judge recompute of None \<Rightarrow> 2
        | Some out \<Rightarrow> if notStopped out \<noteq> [] then 1 else 0))"

section \<open>The fields no hash covers\<close>

definition tamperAccepted :: "tamper_env \<Rightarrow> bytes \<Rightarrow> (bytes \<Rightarrow> bool) \<Rightarrow> (tamper_change list \<times> nat) option" where
  "tamperAccepted e data accepting = (case tamperDecode data of None \<Rightarrow> None
   | Some doc \<Rightarrow> if \<not> accepting (json_write doc) then None
      else (let made = List.map_filter (\<lambda>c. map_option (\<lambda>x. (c, x)) (tamperApply (te_lib e) (te_float e) data c))
              (tamperChanges (te_lib e) doc [])
        in Some (map fst (filter (\<lambda>(c, x). accepting x) made), length made)))"

definition uncoveredFields :: "tamper_env \<Rightarrow> bytes \<Rightarrow> report \<Rightarrow> string list" where
  "uncoveredFields e data r =
     (if vr_RecordCoverage r = ''complete_record_anchored'' \<or> exitShouldFail r False False then []
      else (case tamperAccepted e data (verifyForTamper e) of None \<Rightarrow> []
        | Some (accepted, tried) \<Rightarrow> sort (remdups (map tamperPathKey accepted))))"


section \<open>What the run shows\<close>

text \<open>
  What the run relies on of a judge: it names no check for a copy it accepts. Both judges of the
  program are one.
\<close>

definition forger_rank :: "(bytes \<Rightarrow> tamper_verdict) \<Rightarrow> bool \<Rightarrow> bytes \<Rightarrow> nat" where
  "forger_rank judge recompute x = tamperForgerRank (tamperTier (judge x) recompute)"

text \<open>The results one change adds to the run.\<close>

definition undone :: "tamper_env \<Rightarrow> bool \<Rightarrow> bytes \<Rightarrow> json \<Rightarrow> tamper_change \<Rightarrow> bool" where
  "undone e recompute same doc c \<longleftrightarrow> recompute \<and> tg_kind c = Deleted
     \<and> (case tamperValueAt doc (tg_path c) of JStr s \<Rightarrow> s \<in> set (tamperDerivedHashes e same) | _ \<Rightarrow> False)"

definition change_results ::
  "tamper_env \<Rightarrow> (bytes \<Rightarrow> tamper_verdict) \<Rightarrow> bool \<Rightarrow> bytes \<Rightarrow> bytes \<Rightarrow> json \<Rightarrow> tamper_change \<Rightarrow> tamper_result list" where
  "change_results e judge recompute data same doc c =
     (if undone e recompute same doc c then []
      else (case tamperApply (te_lib e) (te_float e) data c of None \<Rightarrow> []
        | Some base \<Rightarrow> (let xs = candidates e recompute same (te_decodeBundle e same) doc base c in
            if xs = [] then [] else [judge_change e judge recompute data same (te_decodeBundle e same) doc c xs])))"

lemma run_results:
  "to_results (fold (run_change e judge recompute data same doc) cs out)
    = to_results out @ concat (map (change_results e judge recompute data same doc) cs)"
proof (induction cs arbitrary: out)
  case (Cons c cs)
  have "to_results (run_change e judge recompute data same doc c out)
      = to_results out @ change_results e judge recompute data same doc c"
    by (simp add: run_change_def change_results_def undone_def Let_def split: option.split)
  then show ?case by (simp add: Cons.IH)
qed simp

definition stopped :: "tamper_tier \<Rightarrow> bool" where
  "stopped t \<longleftrightarrow> t \<noteq> TierNot \<and> t \<noteq> TierActorOnly \<and> t \<noteq> TierNoRewrite"

lemma exit_zero_results:
  "runTamperTestOutput e data judge recompute = 0 \<longleftrightarrow> tv_accepted (judge data)
    \<and> (\<exists>doc. tamperDecode data = Some doc \<and> tv_accepted (judge (json_write doc))
        \<and> (\<forall>c \<in> set (tamperChanges (te_lib e) doc []).
            \<forall>r \<in> set (change_results e judge recompute data (json_write doc) doc c). stopped (tx_Tier r)))"
proof (cases "tamperDecode data")
  case (Some doc)
  have "notStopped out = [] \<longleftrightarrow> (\<forall>r \<in> set (to_results out). stopped (tx_Tier r))" for out
    by (auto simp: notStopped_def stopped_def filter_empty_conv)
  then show ?thesis
    using Some by (auto simp: runTamperTestOutput_def tamperRun_def Let_def run_results no_outcome_def)
qed (simp add: runTamperTestOutput_def tamperRun_def)

locale tamper_judge =
  fixes judge :: "bytes \<Rightarrow> tamper_verdict"
  assumes accepted_uncaught: "tv_accepted (judge x) \<Longrightarrow> tv_caughtBy (judge x) = []"
begin

lemma weakest_of_max:
  assumes "weakest_of judge recompute ((v, variant), rank) xs = (w, variant')"
  shows "(\<forall>x \<in> set xs. int (forger_rank judge recompute (fst x)) \<le> max rank (int (tamperForgerRank (tamperTier w recompute))))
    \<and> (w = v \<or> (\<exists>x \<in> set xs. w = judge (fst x)))
    \<and> (rank \<le> int (tamperForgerRank (tamperTier w recompute)) \<or> w = v)"
  using assms
proof (induction xs arbitrary: v variant rank)
  case (Cons x xs)
  let ?r = "int (forger_rank judge recompute (fst x))"
  show ?case
  proof (cases "?r > rank")
    case True
    then have "weakest_of judge recompute ((judge (fst x), snd x), ?r) xs = (w, variant')"
      using Cons.prems by (simp add: Let_def forger_rank_def)
    from Cons.IH [OF this] True show ?thesis by (auto simp: forger_rank_def)
  next
    case False
    then have "weakest_of judge recompute ((v, variant), rank) xs = (w, variant')"
      using Cons.prems by (simp add: Let_def forger_rank_def)
    from Cons.IH [OF this] False show ?thesis by auto
  qed
qed simp

lemma weakest_max:
  assumes "xs \<noteq> []" "weakest judge recompute xs = (w, variant)"
  shows "(\<exists>x \<in> set xs. w = judge (fst x)) \<and> (\<forall>x \<in> set xs. forger_rank judge recompute (fst x) \<le> tamperForgerRank (tamperTier w recompute))"
proof -
  obtain x ys where xs: "xs = x # ys" using assms(1) by (cases xs) auto
  then have "weakest_of judge recompute ((judge (fst x), snd x), int (forger_rank judge recompute (fst x))) ys = (w, variant)"
    using assms(2) by (simp add: weakest_def Let_def forger_rank_def)
  from weakest_of_max [OF this] xs show ?thesis by (auto simp: forger_rank_def max_def split: if_splits)
qed

text \<open>A change the run counts as stopped has no variant that the judge accepts, and in recompute mode none
  that the actor signature alone stops.\<close>

lemma judged_change:
  assumes "xs \<noteq> []" and s: "stopped (tx_Tier (judge_change e judge recompute data same original doc c xs))"
    and x: "x \<in> set xs"
  shows "\<not> tv_accepted (judge (fst x)) \<and> (recompute \<longrightarrow> tamperTier (judge (fst x)) True \<noteq> TierActorOnly)"
proof -
  obtain v variant where v: "weakest judge recompute xs = (v, variant)" by fastforce
  note w = weakest_max [OF assms(1) v]
  let ?more = "retry_variants e recompute data same original doc c v"
  have "tamperForgerRank (tamperTier v recompute) \<le> (if recompute then 3 else 5)"
  proof (cases "?more = []")
    case True
    then have "stopped (tamperTier v recompute)" using s v by (simp add: judge_change_def Let_def)
    then show ?thesis by (auto simp: stopped_def tamperTier_def Let_def split: if_splits)
  next
    case False
    then consider "tamperTier v recompute = TierNoRewrite" | "tv_caughtBy v = [CatchDecode]"
      by (auto simp: retry_variants_def split: if_splits)
    then show ?thesis
    proof cases
      case 2
      then have "\<not> tv_accepted v" using w accepted_uncaught by fastforce
      with 2 show ?thesis by (simp add: tamperTier_def)
    qed simp
  qed
  then have "forger_rank judge recompute (fst x) \<le> (if recompute then 3 else 5)" using w x by (meson order_trans)
  then show ?thesis by (auto simp: forger_rank_def tamperTier_def split: if_splits)
qed

text \<open>What exit code 0 says of every listed change, in both modes.\<close>

lemma exit_zero:
  assumes "runTamperTestOutput e data judge recompute = 0"
  shows "\<exists>doc. tamperDecode data = Some doc \<and> tv_accepted (judge data) \<and> tv_accepted (judge (json_write doc))
    \<and> (\<forall>c \<in> set (tamperChanges (te_lib e) doc []). \<not> undone e recompute (json_write doc) doc c \<longrightarrow>
        (\<forall>base x. tamperApply (te_lib e) (te_float e) data c = Some base
          \<longrightarrow> x \<in> set (candidates e recompute (json_write doc) (te_decodeBundle e (json_write doc)) doc base c)
          \<longrightarrow> \<not> tv_accepted (judge (fst x)) \<and> (recompute \<longrightarrow> tamperTier (judge (fst x)) True \<noteq> TierActorOnly)))"
proof -
  obtain doc where d: "tamperDecode data = Some doc" "tv_accepted (judge data)" "tv_accepted (judge (json_write doc))"
    and r: "\<And>c r. c \<in> set (tamperChanges (te_lib e) doc []) \<Longrightarrow>
      r \<in> set (change_results e judge recompute data (json_write doc) doc c) \<Longrightarrow> stopped (tx_Tier r)"
    using assms by (auto simp: exit_zero_results)
  have "\<not> tv_accepted (judge (fst x)) \<and> (recompute \<longrightarrow> tamperTier (judge (fst x)) True \<noteq> TierActorOnly)"
    if "c \<in> set (tamperChanges (te_lib e) doc [])" "\<not> undone e recompute (json_write doc) doc c"
      "tamperApply (te_lib e) (te_float e) data c = Some base"
      "x \<in> set (candidates e recompute (json_write doc) (te_decodeBundle e (json_write doc)) doc base c)" for c base x
  proof (rule judged_change [OF _ _ that(4)])
    show n: "candidates e recompute (json_write doc) (te_decodeBundle e (json_write doc)) doc base c \<noteq> []"
      using that(4) by auto
    show "stopped (tx_Tier (judge_change e judge recompute data (json_write doc) (te_decodeBundle e (json_write doc)) doc c
        (candidates e recompute (json_write doc) (te_decodeBundle e (json_write doc)) doc base c)))"
      using r [OF that(1)] that(2,3) n by (simp add: change_results_def Let_def)
  qed
  then show ?thesis using d by blast
qed

end

text \<open>Both judges name no check for a copy they accept.\<close>

interpretation bundle_judge: tamper_judge "judgeForTamper e" for e
  by unfold_locales (auto simp: judgeForTamper_def Let_def accept_verdict_def caught_def split: option.splits if_splits)

interpretation receipt_judge: tamper_judge "judgeReceiptForTamper e" for e
  by unfold_locales (auto simp: judgeReceiptForTamper_def Let_def accept_verdict_def caught_def split: option.splits if_splits)

lemma judge_accepts [simp]: "tv_accepted (judgeForTamper e data) = verifyForTamper e data"
  by (simp add: judgeForTamper_def verifyForTamper_def Let_def accept_verdict_def caught_def split: option.split)

text \<open>C35. When the tamper test exits 0 on a bundle, the bundle verifies, and every copy of it with one change
  does not: for every value, member, item, list and object at any depth whose change the test
  lists, the change can be made and the changed copy is refused by the decoder or fails
  verification.\<close>

theorem tamper_test_rejects:
  assumes "runTamperTestOutput e data (judgeForTamper e) False = 0"
  shows "\<exists>doc. tamperDecode data = Some doc \<and> verifyForTamper e data
    \<and> (\<forall>k p. listed (te_lib e) doc k p \<longrightarrow>
        (\<exists>w. tamperApply (te_lib e) (te_float e) data (change k p) = Some w \<and> \<not> verifyForTamper e w))"
proof -
  obtain doc where d: "tamperDecode data = Some doc" "verifyForTamper e data"
    and r: "\<And>c base x. c \<in> set (tamperChanges (te_lib e) doc []) \<Longrightarrow> \<not> undone e False (json_write doc) doc c \<Longrightarrow>
      tamperApply (te_lib e) (te_float e) data c = Some base \<Longrightarrow>
      x \<in> set (candidates e False (json_write doc) (te_decodeBundle e (json_write doc)) doc base c) \<Longrightarrow>
      \<not> verifyForTamper e (fst x)"
    using bundle_judge.exit_zero [OF assms] unfolding judge_accepts by blast
  have "\<exists>w. tamperApply (te_lib e) (te_float e) data (change k p) = Some w \<and> \<not> verifyForTamper e w"
    if l: "listed (te_lib e) doc k p" for k p
  proof -
    have c: "change k p \<in> set (tamperChanges (te_lib e) doc [])"
      using l by (simp add: decoded_changes [OF d(1)] change_def)
    obtain w where w: "tamperApply (te_lib e) (te_float e) data (change k p) = Some w"
      using listed_made [OF d(1), of "te_lib e" "change k p" "te_float e"] l by (auto simp: change_def)
    have "(w, PlainChange) \<in> set (candidates e False (json_write doc) (te_decodeBundle e (json_write doc)) doc w (change k p))"
      by (simp add: candidates_def variants_def prepare_def List.map_filter_def)
    then show ?thesis using r [OF c _ w] w by (fastforce simp: undone_def)
  qed
  then show ?thesis using d by blast
qed

text \<open>C36. When the test exits 0 with the hashes recomputed, no rewrite it tries gets through: for every
  listed change, except the deletion of a string equal to a hash the record itself determines,
  which the test leaves unjudged because the rewrite can put it back, every variant (in
  every copy of the value, in one copy, or with a gate of its group switched off), after every
  hash is recomputed, is either the original record again, or fails verification and is not
  stopped by the actor signature alone.\<close>

theorem forger_test_rejects:
  assumes "runTamperTestOutput e data (judgeForTamper e) True = 0"
  shows "\<exists>doc. tamperDecode data = Some doc \<and> verifyForTamper e data
    \<and> (\<forall>k p base x. listed (te_lib e) doc k p \<longrightarrow> \<not> undone e True (json_write doc) doc (change k p) \<longrightarrow>
        tamperApply (te_lib e) (te_float e) data (change k p) = Some base \<longrightarrow>
        x \<in> set (variants e True (te_decodeBundle e (json_write doc)) doc base (change k p)) \<longrightarrow>
        tamperRecompute e (fst x) = json_write doc
        \<or> \<not> verifyForTamper e (tamperRecompute e (fst x))
          \<and> tamperTier (judgeForTamper e (tamperRecompute e (fst x))) True \<noteq> TierActorOnly)"
proof -
  obtain doc where d: "tamperDecode data = Some doc" "verifyForTamper e data"
    and r: "\<And>c base x. c \<in> set (tamperChanges (te_lib e) doc []) \<Longrightarrow> \<not> undone e True (json_write doc) doc c \<Longrightarrow>
      tamperApply (te_lib e) (te_float e) data c = Some base \<Longrightarrow>
      x \<in> set (candidates e True (json_write doc) (te_decodeBundle e (json_write doc)) doc base c) \<Longrightarrow>
      \<not> verifyForTamper e (fst x) \<and> tamperTier (judgeForTamper e (fst x)) True \<noteq> TierActorOnly"
    using bundle_judge.exit_zero [OF assms] unfolding judge_accepts by blast
  have "tamperRecompute e (fst x) = json_write doc
      \<or> \<not> verifyForTamper e (tamperRecompute e (fst x))
        \<and> tamperTier (judgeForTamper e (tamperRecompute e (fst x))) True \<noteq> TierActorOnly"
    if l: "listed (te_lib e) doc k p" and u: "\<not> undone e True (json_write doc) doc (change k p)"
      and a: "tamperApply (te_lib e) (te_float e) data (change k p) = Some base"
      and x: "x \<in> set (variants e True (te_decodeBundle e (json_write doc)) doc base (change k p))" for k p base x
  proof (cases "tamperRecompute e (fst x) = json_write doc")
    case False
    have c: "change k p \<in> set (tamperChanges (te_lib e) doc [])"
      using l by (simp add: decoded_changes [OF d(1)] change_def)
    have "(tamperRecompute e (fst x), snd x)
        \<in> set (candidates e True (json_write doc) (te_decodeBundle e (json_write doc)) doc base (change k p))"
      using x False by (force simp: candidates_def prepare_def Let_def List.map_filter_def)
    from r [OF c u a this] show ?thesis by simp
  qed simp
  then show ?thesis using d by blast
qed

section \<open>Attribution\<close>

lemma report_roll_up:
  "vr_AllPassed (verify g ver pins b) \<longleftrightarrow> passed_before_requirement (verify g ver pins b)
     \<and> \<not> (cr_Sealed (vr_CompleteRecordRequirement (verify g ver pins b))
          \<and> \<not> cr_Satisfied (vr_CompleteRecordRequirement (verify g ver pins b)))"
proof -
  have w: "passed_before_requirement (with_verdict r) = passed_before_requirement r"
    "vr_CompleteRecordRequirement (with_verdict r) = vr_CompleteRecordRequirement r" for r
    by (simp_all add: verdict_steps passed_before_requirement_def)
  have "passed_before_requirement (roll_up job r) = passed_before_requirement r"
    "vr_CompleteRecordRequirement (roll_up job r) = vr_CompleteRecordRequirement r" for job r
    by (simp_all add: roll_up_def apply_job_def Let_def passed_before_requirement_def split: option.split)
  then show ?thesis unfolding verify_fields by (simp add: verify_def w rolled_def)
qed

definition unnamed_failure :: "report \<Rightarrow> bool" where
  "unnamed_failure r \<longleftrightarrow> (qc_Performed (vr_RequestSignature r) \<and> \<not> qc_Match (vr_RequestSignature r))
     \<or> policyFailed (vr_PolicyGate r) \<or> accountFailed (vr_AccountPolicyGate r) None"

lemma no_group_hit:
  assumes "\<not> group_hit r CatchAMD" "\<not> group_hit r CatchInternal" "\<not> group_hit r CatchFirstEntry"
    "\<not> group_hit r CatchCompleteEntry" "\<not> group_hit r CatchEntrySigner" "\<not> group_hit r CatchActor"
    "\<not> group_hit r CatchConsistency"
  shows "vr_Anchored r \<and> \<not> (cr_Sealed (vr_CompleteRecordRequirement r) \<and> \<not> cr_Satisfied (vr_CompleteRecordRequirement r))
    \<and> (passed_before_requirement r \<longleftrightarrow> \<not> unnamed_failure r)"
proof -
  have "list_all hc_Match (vr_Artifacts r @ vr_Categories r)" "vr_BundleHashOK r" "list_all sk_Match (vr_Seals r)"
    using assms(1,2) by (auto simp: list_all_iff list_ex_iff)
  moreover note assms(3-7) [unfolded group_hit.simps]
  ultimately show ?thesis unfolding passed_before_requirement_def unnamed_failure_def list_all_append by argo
qed

text \<open>A rejected bundle for which the judge names no check: the report fails, and what fails is the request
  signature, the policy or the account's policy, which no check group stands for.\<close>

lemma unattributed:
  assumes "te_decodeBundle e data = Some b" "\<not> verifyForTamper e data" "tv_caughtBy (judgeForTamper e data) = []"
  shows "unnamed_failure (env_verify e b)"
proof -
  let ?r = "env_verify e b"
  have x: "exitShouldFail ?r False False" using assms(1,2) by (simp add: verifyForTamper_def)
  then have "tamperCatchers ?r = []" using assms by (simp add: judgeForTamper_def Let_def caught_def)
  then have n: "\<not> group_hit ?r G" if "G \<in> set tamperCatchOrder" for G
    using that by (auto simp: tamperCatchers_def filter_empty_conv)
  have h: "vr_Anchored ?r \<and> \<not> (cr_Sealed (vr_CompleteRecordRequirement ?r) \<and> \<not> cr_Satisfied (vr_CompleteRecordRequirement ?r))
      \<and> (passed_before_requirement ?r \<longleftrightarrow> \<not> unnamed_failure ?r)"
    by (rule no_group_hit; rule n; simp add: tamperCatchOrder_def)
  then have "\<not> vr_AllPassed ?r" using x by (simp only: exitShouldFail_def split: if_splits) blast
  then show ?thesis using h report_roll_up by blast
qed

section \<open>A run on a small record\<close>

text \<open>A decoder that reads one text only, as the full sample record of a run.\<close>

definition small_env :: tamper_env where
  "small_env = \<lparr>te_lib = toy_lib, te_float = float_lib, te_rekor = (\<lambda>_. None), te_pins = run_pins,
     te_decodeBundle = (\<lambda>x. if x = json_write small_tree then Some (run_sample None []) else None),
     te_decodeReceipt = (\<lambda>_. None)\<rparr>"

lemma small_accepts: "verifyForTamper small_env x \<longleftrightarrow> x = json_write small_tree"
proof -
  have "vr_VerdictTier (verify toy_lib (\<lambda>_. None) run_pins (run_sample None [])) = ''VERIFIED_ANCHORED''"
    by (simp only: verified_complete run_complete)
  then have "\<not> exitShouldFail (verify toy_lib (\<lambda>_. None) run_pins (run_sample None [])) False False"
    by (simp add: exitShouldFail_def verify_fields tier_of_def split: if_splits)
  then show ?thesis by (simp add: verifyForTamper_def small_env_def)
qed

lemma small_judge: "x \<noteq> json_write small_tree \<Longrightarrow> judgeForTamper small_env x = caught [CatchDecode]"
  by (simp add: judgeForTamper_def small_env_def)

lemma small_written: "tamperDecode (json_write small_tree) = Some small_tree"
  unfolding small_tree_def by code_simp

lemma small_copies: "list_all (\<lambda>c. case tamperApply toy_lib float_lib (json_write small_tree) c of None \<Rightarrow> False
    | Some w \<Rightarrow> w \<noteq> json_write small_tree) (tamperChanges toy_lib small_tree [])"
  unfolding small_tree_def float_lib_def by code_simp

text \<open>When every variant differs from the one text the decoder reads, strict reading stops the change.\<close>

lemma small_stopped:
  assumes "xs \<noteq> []" "\<And>x. x \<in> set xs \<Longrightarrow> fst x \<noteq> json_write small_tree"
    and "\<And>v x. x \<in> set (retry_variants small_env recompute data same original doc c v) \<Longrightarrow> fst x \<noteq> json_write small_tree"
  shows "stopped (tx_Tier (judge_change small_env (judgeForTamper small_env) recompute data same original doc c xs))"
proof -
  have w: "fst (weakest (judgeForTamper small_env) recompute ys) = caught [CatchDecode]"
    if ys: "ys \<noteq> []" "\<And>x. x \<in> set ys \<Longrightarrow> fst x \<noteq> json_write small_tree" for ys
  proof -
    obtain v variant where v: "weakest (judgeForTamper small_env) recompute ys = (v, variant)" by fastforce
    from bundle_judge.weakest_max [OF ys(1) v] obtain x where "x \<in> set ys" "v = judgeForTamper small_env (fst x)" by blast
    then show ?thesis using v small_judge ys(2) by simp
  qed
  have "stopped (tamperTier (caught [CatchDecode]) recompute)"
    by (simp add: stopped_def tamperTier_def caught_def)
  then show ?thesis
    using w [OF assms(1,2)] w [OF _ assms(3)]
    by (auto simp: judge_change_def Let_def case_prod_beta split: if_splits)
qed

lemma small_prepared: "x \<in> set (candidates small_env True (json_write small_tree) original doc base c)
    \<Longrightarrow> fst x \<noteq> json_write small_tree"
  by (auto simp: candidates_def prepare_def Let_def List.map_filter_def split: if_splits)

lemma retry_candidates:
  assumes "x \<in> set (retry_variants e recompute data same original doc c v)"
  shows "\<exists>again. x \<in> set (candidates e recompute same original doc again c)"
proof -
  let ?P = "tg_kind c = Changed \<and> (tamperTier v recompute = TierNoRewrite \<or> tv_caughtBy v = [CatchDecode])"
  have ?P using assms unfolding retry_variants_def by (cases ?P) simp_all
  then have r: "retry_variants e recompute data same original doc c v = (case tamperValueAt doc (tg_path c) of
      JStr s \<Rightarrow> (case tamperWellFormed (te_float e) s of None \<Rightarrow> []
        | Some alt \<Rightarrow> (case tamperSetAt data (tg_path c) (JStr alt) of None \<Rightarrow> []
          | Some again \<Rightarrow> candidates e recompute same original doc again c))
    | _ \<Rightarrow> [])"
    unfolding retry_variants_def by (rule if_P)
  from assms show ?thesis unfolding r by (simp split: json.splits option.splits) blast
qed

lemma forger_exit_zero: "runTamperTestOutput small_env (json_write small_tree) (judgeForTamper small_env) True = 0"
proof -
  have "stopped (tx_Tier r)"
    if "r \<in> set (change_results small_env (judgeForTamper small_env) True (json_write small_tree) (json_write small_tree) small_tree c)"
    for c r
  proof -
    note r = that
    let ?orig = "te_decodeBundle small_env (json_write small_tree)"
    obtain base where base: "candidates small_env True (json_write small_tree) ?orig small_tree base c \<noteq> []"
      "r = judge_change small_env (judgeForTamper small_env) True (json_write small_tree) (json_write small_tree) ?orig small_tree c
        (candidates small_env True (json_write small_tree) ?orig small_tree base c)"
      using r unfolding change_results_def Let_def by (auto split: if_splits option.splits)
    have again: "fst x \<noteq> json_write small_tree"
      if "x \<in> set (retry_variants small_env True (json_write small_tree) (json_write small_tree) ?orig small_tree c v)" for x v
      using retry_candidates [OF that] small_prepared by blast
    show ?thesis unfolding base(2)
    proof (rule small_stopped [OF base(1)])
      show "fst x \<noteq> json_write small_tree" if "x \<in> set (candidates small_env True (json_write small_tree) ?orig small_tree base c)" for x
        using that by (rule small_prepared)
    qed (rule again)
  qed
  then show ?thesis
    by (simp add: exit_zero_results small_written small_accepts)
qed

lemma plain_exit_zero: "runTamperTestOutput small_env (json_write small_tree) (judgeForTamper small_env) False = 0"
proof -
  have "stopped (tx_Tier r)"
    if c: "c \<in> set (tamperChanges toy_lib small_tree [])"
      and r: "r \<in> set (change_results small_env (judgeForTamper small_env) False (json_write small_tree) (json_write small_tree) small_tree c)"
    for c r
  proof -
    obtain w where w: "tamperApply toy_lib float_lib (json_write small_tree) c = Some w" "w \<noteq> json_write small_tree"
      using small_copies c by (auto simp: list_all_iff split: option.splits)
    have env: "te_lib small_env = toy_lib" "te_float small_env = float_lib" by (simp_all add: small_env_def)
    have "retry_variants small_env False (json_write small_tree) (json_write small_tree) original small_tree c v = []" for original v
    proof -
      have "\<forall>s. tamperValueAt small_tree (tg_path c) = JStr s \<longrightarrow> s = []"
        using c unfolding small_changes by (auto simp: change_def small_tree_def)
      then show ?thesis by (auto simp: retry_variants_def tamperWellFormed_def split: json.split)
    qed
    moreover have "r = judge_change small_env (judgeForTamper small_env) False (json_write small_tree) (json_write small_tree)
        (te_decodeBundle small_env (json_write small_tree)) small_tree c [(w, PlainChange)]"
      using r w(1) by (simp add: change_results_def candidates_def variants_def prepare_def List.map_filter_def env undone_def Let_def)
    ultimately show ?thesis using w(2) by (auto intro!: small_stopped)
  qed
  moreover have "te_lib small_env = toy_lib" by (simp add: small_env_def)
  ultimately show ?thesis
    by (simp add: exit_zero_results small_written small_accepts)
qed

lemma tamper_test_rejects_witness:
  "\<exists>w. tamperApply toy_lib float_lib (json_write small_tree) (change Removed [Key ''b'', Item 0]) = Some w
    \<and> \<not> verifyForTamper small_env w"
proof -
  have "listed toy_lib small_tree Removed [Key ''b'', Item 0]" by (simp add: listed_def small_tree_def)
  then show ?thesis
    using tamper_test_rejects [OF plain_exit_zero] by (simp add: small_written) (simp add: small_env_def)
qed

lemma small_recompute: "x \<noteq> json_write small_tree \<Longrightarrow> tamperRecompute small_env x = x"
  by (simp add: tamperRecompute_def tamperRecomputeReceipt_def small_env_def numeral_eq_Suc)

text \<open>An item taken out of the list, recomputed and refused.\<close>

lemma forger_test_rejects_witness:
  "\<exists>w. tamperApply toy_lib float_lib (json_write small_tree) (change Removed [Key ''b'', Item 0]) = Some w
    \<and> tamperRecompute small_env w \<noteq> json_write small_tree \<and> \<not> verifyForTamper small_env (tamperRecompute small_env w)
    \<and> tamperTier (judgeForTamper small_env (tamperRecompute small_env w)) True \<noteq> TierActorOnly"
proof -
  let ?c = "change Removed [Key ''b'', Item 0]" and ?original = "te_decodeBundle small_env (json_write small_tree)"
  have env: "te_lib small_env = toy_lib" "te_float small_env = float_lib" by (simp_all add: small_env_def)
  have l: "listed toy_lib small_tree Removed [Key ''b'', Item 0]" by (simp add: listed_def small_tree_def)
  obtain w where w: "tamperApply toy_lib float_lib (json_write small_tree) ?c = Some w" "w \<noteq> json_write small_tree"
    using small_copies unfolding list_all_iff small_changes by (auto split: option.splits)
  have x: "(w, OneCopy) \<in> set (variants small_env True ?original small_tree w ?c)" by (simp add: variants_def Let_def)
  have u: "\<not> undone small_env True (json_write small_tree) small_tree ?c" by (simp add: undone_def change_def)
  obtain doc where d: "doc = small_tree" and all: "\<And>k p base x. listed (te_lib small_env) doc k p \<Longrightarrow>
      \<not> undone small_env True (json_write doc) doc (change k p) \<Longrightarrow>
      tamperApply (te_lib small_env) (te_float small_env) (json_write small_tree) (change k p) = Some base \<Longrightarrow>
      x \<in> set (variants small_env True (te_decodeBundle small_env (json_write doc)) doc base (change k p)) \<Longrightarrow>
      tamperRecompute small_env (fst x) = json_write doc
        \<or> \<not> verifyForTamper small_env (tamperRecompute small_env (fst x))
          \<and> tamperTier (judgeForTamper small_env (tamperRecompute small_env (fst x))) True \<noteq> TierActorOnly"
    using forger_test_rejects [OF forger_exit_zero] unfolding small_written by blast
  from all [of Removed "[Key ''b'', Item 0]" w "(w, OneCopy)"] show ?thesis
    using l w x u unfolding d env by (simp add: small_recompute)
qed

end
