(* ===== verification/Builder.thy ===== *)
theory Builder
  imports BoundCopies Rekor
begin

text \<open>
  internal/artifacts/builder.go and provenance_helpers.go: the record a run's pipeline outputs are
  sealed into. BuildAuditBundle reads the clock, the operating system and the environment of the
  machine, which are the record host here; everything else is a function of its input. Each section
  has a definition of its own, with the struct literal the code hashes. MustCanonicalHash panics when
  json.Marshal refuses a value, which takes a float that is not finite; no input stands for one here.

  The lemmas show that the two copies of every preimage, the builder's and the verifier's, give one
  hash, and that the builder writes every repeated value alike.
\<close>

section \<open>The input and the machine\<close>

type_synonym six_ids = "string \<times> string \<times> string \<times> string \<times> string \<times> string"   \<comment> \<open>[6]string\<close>

definition six_list :: "six_ids \<Rightarrow> string list" where
  "six_list ids = (case ids of (a, b, c, d, e, f) \<Rightarrow> [a, b, c, d, e, f])"

record build_input =
  bin_Payload :: bytes
  bin_ProgramID :: string
  bin_RouteID :: string
  bin_RegistryRecordHash :: string
  bin_RunID :: int
  bin_Status :: string
  bin_EnvelopeID :: string
  bin_EnvelopeHash :: string
  bin_SequenceID :: string
  bin_TransportHash :: string
  bin_EpaHash :: string
  bin_EfaHash :: string
  bin_ExecutionIDs :: six_ids
  bin_AerHash :: string
  bin_TranscriptHash :: string
  bin_HardwareAttestationHash :: string
  bin_LeakageBundleHash :: string
  bin_FormalVerifierStatus :: string
  bin_ZkspBindingHash :: string
  bin_MigrationTokenHash :: string
  bin_ReplayFingerprint :: string
  bin_PoteProofHash :: string
  bin_LogEntryID :: string
  bin_LedgerBackend :: string
  bin_LedgerLeafHash :: string
  bin_LedgerLogID :: string
  bin_LedgerLogIndex :: int
  bin_LedgerTreeSize :: int
  bin_LedgerRootHash :: string
  bin_LedgerInclusionPath :: "string list option"
  bin_LedgerCheckpoint :: string
  bin_LedgerSignedEntryTimestamp :: string
  bin_LedgerIntegratedTime :: int
  bin_AivpOutcome :: string
  bin_AivpPiaHash :: string
  bin_AivpAdapterID :: string
  bin_AivpAiOutputHash :: string
  bin_AivpDecision :: string
  bin_AivpHaltReceiptHash :: string
  bin_NrepActorID :: string
  bin_NrepActorPublicKey :: string
  bin_NrepSignature :: string
  bin_FinalVfaHash :: string
  bin_IndependentVerified :: bool
  bin_ManifestHash :: string
  bin_Attested :: attested_context
  bin_Region :: string
  bin_RequestSubstance :: "request_substance option"
  bin_AuthorizationChain :: "authorization_chain option"
  bin_RegulatoryScaffolding :: "regulatory_scaffolding option"
  bin_CausalGraph :: "causal_graph option"
  bin_ReproducibilityContext :: "reproducibility_context option"
  bin_LatencyTotalMs :: int
  bin_SourceIPHash :: string
  bin_UserAgentHash :: string
  bin_GeoCountry :: string
  bin_AuthMethod :: string
  bin_APIKeyID :: int
  bin_APIKeyName :: string
  bin_MFASatisfied :: "bool option"

text \<open>What the builder reads besides its input: the clock as RFC 3339 text, the runtime's names, the
  host name or its error, the environment, and the variables the linker sets.\<close>

record host =
  ho_now :: string
  ho_GOOS :: string
  ho_GOARCH :: string
  ho_Version :: string
  ho_Hostname :: "string option"
  ho_Getenv :: "string \<Rightarrow> string"
  ho_buildOrchestratorVersion :: string
  ho_buildOrchestratorGitSHA :: string
  ho_buildSLSALevel :: string
  ho_buildBuilderID :: string
  ho_buildInvocationID :: string
  ho_buildContainerDigest :: string

definition getSLSALevel :: "host \<Rightarrow> int" where
  "getSLSALevel ho = (let level = ho_buildSLSALevel ho in
     if level = ''1'' then 1 else if level = ''2'' then 2 else if level = ''3'' then 3
     else if level = ''4'' then 4 else 0)"

definition inferCloud :: "host \<Rightarrow> string" where
  "inferCloud ho = (let env = ho_Getenv ho in
     if env ''VERDIFAX_CLOUD'' \<noteq> [] then env ''VERDIFAX_CLOUD''
     else if env ''FLY_REGION'' \<noteq> [] \<or> env ''FLY_APP_NAME'' \<noteq> [] then ''fly''
     else if env ''AWS_REGION'' \<noteq> [] \<or> env ''AWS_EXECUTION_ENV'' \<noteq> [] then ''aws''
     else if env ''GOOGLE_CLOUD_PROJECT'' \<noteq> [] \<or> env ''K_SERVICE'' \<noteq> [] then ''gcp''
     else if env ''AZURE_CLIENT_ID'' \<noteq> [] \<or> env ''WEBSITE_INSTANCE_ID'' \<noteq> [] then ''azure''
     else ''self_hosted'')"

definition getInstanceID :: "host \<Rightarrow> string" where
  "getInstanceID ho = (let env = ho_Getenv ho in
     if env ''FLY_MACHINE_ID'' \<noteq> [] then env ''FLY_MACHINE_ID''
     else if env ''HOSTNAME'' \<noteq> [] then env ''HOSTNAME'' else [])"

definition getHostname :: "host \<Rightarrow> string" where
  "getHostname ho = (case ho_Hostname ho of None \<Rightarrow> [] | Some h \<Rightarrow> h)"

definition built_region :: "build_input \<Rightarrow> string" where
  "built_region i = (if bin_Region i = [] then ''self-host'' else bin_Region i)"

section \<open>The pipeline's sections\<close>

definition build_seal :: "build_input \<Rightarrow> string \<Rightarrow> string \<Rightarrow> seal_reference" where
  "build_seal i field hash = \<lparr>sr_manifest_hash = bin_ManifestHash i, sr_seal_field = field, sr_sealed_hash = hash\<rparr>"

definition build_payload :: "golib \<Rightarrow> build_input \<Rightarrow> payload" where
  "build_payload g i =
     (let payloadHash = sha256_hex g (bin_Payload i);
          p = zero_payload\<lparr>pl_kind := ''verdifax.artifact.payload.v1'', pl_payload_id := ''payload-'' @ take 16 payloadHash,
            pl_content_hash := payloadHash, pl_content_length := int (length (bin_Payload i)), pl_origin_type := ''api'',
            pl_schema_version := ''v1''\<rparr>
      in p\<lparr>pl_hash := MustCanonicalHash g (mk_obj [
           (''kind'', js (pl_kind p)), (''payload_id'', js (pl_payload_id p)), (''content_hash'', js (pl_content_hash p)),
           (''content_length'', ji (pl_content_length p)), (''origin_type'', js (pl_origin_type p)),
           (''schema_version'', js (pl_schema_version p))])\<rparr>)"

definition build_envelope :: "golib \<Rightarrow> host \<Rightarrow> build_input \<Rightarrow> envelope" where
  "build_envelope g ho i =
     (let e = zero_envelope\<lparr>env_kind := ''verdifax.artifact.envelope.v1'', env_envelope_id := bin_EnvelopeID i,
            env_payload_hash := sha256_hex g (bin_Payload i), env_program_id := bin_ProgramID i,
            env_route_id := bin_RouteID i, env_registry_record_hash := bin_RegistryRecordHash i,
            env_timestamp := ho_now ho\<rparr>;
          hash = canonicalHashOf g ''verdifax.artifact.envelope.v1'' [
            (''envelope_id'', env_envelope_id e), (''payload_hash'', env_payload_hash e),
            (''program_id'', env_program_id e), (''route_id'', env_route_id e),
            (''registry_record_hash'', env_registry_record_hash e), (''timestamp'', env_timestamp e)]
      in e\<lparr>env_hash := hash, env_seal := build_seal i ''envelope_hash'' (bin_EnvelopeHash i)\<rparr>)"

definition build_transport :: "golib \<Rightarrow> build_input \<Rightarrow> transport" where
  "build_transport g i =
     (let t = zero_transport\<lparr>tr_kind := ''verdifax.artifact.transport.v1'', tr_envelope_id := bin_EnvelopeID i,
            tr_envelope_hash := bin_EnvelopeHash i, tr_sequence_id := bin_SequenceID i,
            tr_route := Some [''DOG'', ''DTL'', ''DKEC'', ''AER'', ''ZKSP'', ''PHASE4'', ''LEDGER'', ''REGISTRY'', ''DLA'']\<rparr>;
          hash = canonicalHashOf g ''verdifax.artifact.transport.v1'' [
            (''envelope_id'', tr_envelope_id t), (''envelope_hash'', tr_envelope_hash t),
            (''sequence_id'', tr_sequence_id t), (''route'', join (CHR ''|'') (slice (tr_route t)))]
      in t\<lparr>tr_hash := hash, tr_seal := build_seal i ''transport_hash'' (bin_TransportHash i)\<rparr>)"

text \<open>The caller's context counts as attested when it names an actor, a model provider or a decision.\<close>

definition built_attested :: "build_input \<Rightarrow> attested_context" where
  "built_attested i = (let a = bin_Attested i in
     if \<not> ac_attested a \<and> (ac_actor_id a \<noteq> [] \<or> ac_model_provider a \<noteq> [] \<or> ac_decision_kind a \<noteq> [])
     then a\<lparr>ac_attested := True\<rparr> else a)"

definition build_epa :: "golib \<Rightarrow> host \<Rightarrow> build_input \<Rightarrow> epa" where
  "build_epa g ho i =
     (let e = zero_epa\<lparr>epa_kind := ''verdifax.artifact.epa.v1'', epa_kernel_id := ''verdifax-orchestrator'',
            epa_kernel_version := ''0.1.1'', epa_policy_hash := sha256_hex g ''orchestrator.policy.v1'',
            epa_environment_snapshot := \<lparr>es_time = ho_now ho, es_region = built_region i, es_os = ho_GOOS ho,
              es_go_version = ho_Version ho\<rparr>,
            epa_attested_context := built_attested i\<rparr>
      in e\<lparr>epa_hash := RecomputeEPAHash g e, epa_seal := build_seal i ''epa_hash'' (bin_EpaHash i)\<rparr>)"

definition kernelNames :: "string list" where
  "kernelNames = [''DSE'', ''TOK'', ''DSC'', ''NREP'', ''AIVP'', ''DCAE'']"

definition build_efa :: "golib \<Rightarrow> build_input \<Rightarrow> efa" where
  "build_efa g i =
     (let steps = map (\<lambda>(n, name). \<lparr>st_step_index = int n, st_kernel = name,
            st_execution_id = six_list (bin_ExecutionIDs i) ! n, st_status = ''ok''\<rparr>) (enumerate 0 kernelNames);
          e = zero_efa\<lparr>efa_kind := ''verdifax.artifact.efa.v1'', efa_steps := Some steps, efa_deterministic := True,
            efa_fail_closed := False\<rparr>
      in e\<lparr>efa_hash := MustCanonicalHash g (mk_obj [
             (''kind'', js (efa_kind e)), (''steps'', jl st_json (efa_steps e)),
             (''deterministic'', jb (efa_deterministic e)), (''fail_closed'', jb (efa_fail_closed e))]),
           efa_seal := build_seal i ''efa_hash'' (bin_EfaHash i)\<rparr>)"

definition build_aer :: "golib \<Rightarrow> build_input \<Rightarrow> aer" where
  "build_aer g i =
     (let attested = built_attested i;
          source = (if ac_attested attested \<and> ac_decision_kind attested \<noteq> [] then ''caller_attested''
            else ''self_attested_deterministic'');
          a = zero_aer\<lparr>aer_kind := ''verdifax.artifact.aer.v1'', aer_envelope_id := bin_EnvelopeID i,
            aer_sequence_id := bin_SequenceID i, aer_execution_ids := Some (six_list (bin_ExecutionIDs i)),
            aer_final_state := ''committed'',
            aer_decision := \<lparr>dr_source = source, dr_kind = ac_decision_kind attested,
              dr_result = ac_decision_result attested, dr_note = ac_decision_note attested\<rparr>\<rparr>
      in a\<lparr>aer_hash := MustCanonicalHash g (mk_obj [
             (''kind'', js (aer_kind a)), (''envelope_id'', js (aer_envelope_id a)),
             (''sequence_id'', js (aer_sequence_id a)), (''execution_ids'', js_list (aer_execution_ids a)),
             (''final_state'', js (aer_final_state a)), (''decision'', jv dr_json (aer_decision a))]),
           aer_seal := build_seal i ''aer_hash'' (bin_AerHash i)\<rparr>)"

definition build_transcript :: "golib \<Rightarrow> build_input \<Rightarrow> transcript" where
  "build_transcript g i =
     (let t = zero_transcript\<lparr>ts_kind := ''verdifax.artifact.transcript.v1'', ts_proof_hash_input := bin_AerHash i,
            ts_transcript_hash := bin_TranscriptHash i,
            ts_scaffold := \<lparr>sn_is_scaffold = True, sn_activated_by = ''phase 6 (real ZK prover, winterfell)'',
              sn_note = ''Transcript is currently the deterministic R1CS hash facade. Real Fiat-Shamir transcript '' @
                ''bytes are emitted once the winterfell prover is wired (see ZK_PROVER_EVALUATION.md).''\<rparr>\<rparr>;
          hash = canonicalHashOf g ''verdifax.artifact.transcript.v1'' [
            (''proof_hash_input'', ts_proof_hash_input t), (''transcript_hash'', ts_transcript_hash t),
            (''scaffold_is_scaffold'', boolStr (sn_is_scaffold (ts_scaffold t)))]
      in t\<lparr>ts_hash := hash, ts_seal := build_seal i ''transcript_hash'' (bin_TranscriptHash i)\<rparr>)"

definition build_hwa :: "golib \<Rightarrow> build_input \<Rightarrow> hardware_attestation" where
  "build_hwa g i =
     (let h = zero_hardware_attestation\<lparr>hw_kind := ''verdifax.artifact.hw_attestation.v1'',
            hw_attestation_mode := ''policy_scaffold'', hw_enclave_measurement := bin_HardwareAttestationHash i,
            hw_firmware_class := ''self-attested-deterministic'', hw_secure_boot_state := ''unverified'',
            hw_execution_environment := ''containerized-fly-machine'', hw_pcr_selection := ''sha256:0,1,2,3,4,5,6,7'',
            hw_tier4_blockers := Some [''REAL_TEE_QUOTE_NOT_BOUND'', ''PLATFORM_CERTIFICATE_CHAIN_NOT_VERIFIED'',
              ''HARDWARE_BOUND_MODE_NOT_ENABLED_CURRENT_HORIZON''],
            hw_scaffold := \<lparr>sn_is_scaffold = True, sn_activated_by = ''phase 7 (live cloud, TPM2 / SEV-SNP)'',
              sn_note = ''Real attested hardware lands when the orchestrator is deployed on a SEV-SNP / vTPM2 cloud '' @
                ''instance per PHASE5_HARDWARE_REQUIREMENTS.md. Until then this artifact is honest about being a '' @
                ''policy scaffold.''\<rparr>\<rparr>
      in h\<lparr>hw_hash := MustCanonicalHash g (mk_obj [
             (''kind'', js (hw_kind h)), (''attestation_mode'', js (hw_attestation_mode h)),
             (''enclave_measurement'', js (hw_enclave_measurement h)), (''firmware_class'', js (hw_firmware_class h)),
             (''secure_boot_state'', js (hw_secure_boot_state h)),
             (''execution_environment'', js (hw_execution_environment h)), (''pcr_selection'', js (hw_pcr_selection h)),
             (''tier4_blockers'', js_list (hw_tier4_blockers h))]),
           hw_seal := build_seal i ''hardware_attestation_hash'' (bin_HardwareAttestationHash i)\<rparr>)"

definition build_leakage :: "golib \<Rightarrow> build_input \<Rightarrow> leakage_bundle" where
  "build_leakage g i =
     (let l = zero_leakage_bundle\<lparr>lb_kind := ''verdifax.artifact.leakage.v1'', lb_constant_time_compliant := True,
            lb_timing_variance_observed := False,
            lb_mitigations := Some [''constant_time_execution'', ''deterministic_kernel_scheduling'']\<rparr>
      in l\<lparr>lb_hash := MustCanonicalHash g (mk_obj [
             (''kind'', js (lb_kind l)), (''constant_time_compliant'', jb (lb_constant_time_compliant l)),
             (''timing_variance_observed'', jb (lb_timing_variance_observed l)),
             (''mitigations'', js_list (lb_mitigations l))]),
           lb_seal := build_seal i ''leakage_bundle_hash'' (bin_LeakageBundleHash i)\<rparr>)"

definition build_zksp :: "golib \<Rightarrow> build_input \<Rightarrow> zksp_binding" where
  "build_zksp g i =
     (let z = zero_zksp_binding\<lparr>zk_kind := ''verdifax.artifact.zksp_binding.v1'',
            zk_proving_system := ''DETERMINISTIC_R1CS_TRANSITIONAL_PROVER'',
            zk_verification_status := bin_FormalVerifierStatus i,
            zk_binds_to := Some [''envelope_id'', ''aer_hash'', ''program_id'', ''registry_record_hash''],
            zk_scaffold := \<lparr>sn_is_scaffold = True, sn_activated_by = ''phase 6 (real ZK prover, winterfell)'',
              sn_note = ''Verification status reflects the transitional R1CS hash facade. Real STARK proof bytes '' @
                ''land when winterfell is wired.''\<rparr>\<rparr>
      in z\<lparr>zk_hash := MustCanonicalHash g (mk_obj [
             (''kind'', js (zk_kind z)), (''proving_system'', js (zk_proving_system z)),
             (''verification_status'', js (zk_verification_status z)), (''binds_to'', js_list (zk_binds_to z))]),
           zk_seal := build_seal i ''zksp_binding_hash'' (bin_ZkspBindingHash i)\<rparr>)"

definition build_migration :: "golib \<Rightarrow> build_input \<Rightarrow> migration_token" where
  "build_migration g i =
     (let m = zero_migration_token\<lparr>mt_kind := ''verdifax.artifact.migration_token.v1'', mt_from_version := ''v1'',
            mt_to_version := ''v1'', mt_state_hash := bin_MigrationTokenHash i\<rparr>;
          hash = canonicalHashOf g ''verdifax.artifact.migration_token.v1'' [
            (''from_version'', mt_from_version m), (''to_version'', mt_to_version m), (''state_hash'', mt_state_hash m)]
      in m\<lparr>mt_hash := hash, mt_seal := build_seal i ''migration_token_hash'' (bin_MigrationTokenHash i)\<rparr>)"

definition build_replay :: "golib \<Rightarrow> build_input \<Rightarrow> replay_fingerprint" where
  "build_replay g i =
     (let r = zero_replay_fingerprint\<lparr>rf_kind := ''verdifax.artifact.replay.v1'',
            rf_deterministic_inputs := Some [''payload_hash'', ''program_id'', ''route_id'', ''registry_record_hash''],
            rf_expected_output_hash := bin_ManifestHash i\<rparr>
      in r\<lparr>rf_hash := MustCanonicalHash g (mk_obj [
             (''kind'', js (rf_kind r)), (''deterministic_inputs'', js_list (rf_deterministic_inputs r)),
             (''expected_output_hash'', js (rf_expected_output_hash r))]),
           rf_seal := build_seal i ''replay_fingerprint'' (bin_ReplayFingerprint i)\<rparr>)"

text \<open>The proof of temporal execution: with a public entry it takes its second form.\<close>

definition build_pote :: "golib \<Rightarrow> build_input \<Rightarrow> pote_proof" where
  "build_pote g i =
     (let p = zero_pote_proof\<lparr>pp_kind := ''verdifax.artifact.pote.v1'', pp_proof_type := ''proof_of_transparent_execution'',
            pp_execution_trace_hash := bin_AerHash i, pp_log_entry_id := bin_LogEntryID i\<rparr>;
          p = (if bin_LedgerBackend i = ''rekor'' \<and> bin_LogEntryID i \<noteq> []
            then p\<lparr>pp_kind := ''verdifax.artifact.pote.v2'', pp_ledger_backend := bin_LedgerBackend i,
              pp_ledger_log_id := bin_LedgerLogID i, pp_integrated_time := bin_LedgerIntegratedTime i,
              pp_signed_entry_timestamp := bin_LedgerSignedEntryTimestamp i,
              pp_ledger_checkpoint := bin_LedgerCheckpoint i,
              pp_scaffold := zero_scaffold_note\<lparr>sn_is_scaffold := False\<rparr>\<rparr>
            else p\<lparr>pp_scaffold := \<lparr>sn_is_scaffold = True,
              sn_activated_by = ''production runs anchored to Sigstore Rekor (VERDIFAX_LEDGER_MODE=rekor)'',
              sn_note = ''This run was sealed in mock-ledger mode. Production runs anchored to the live Sigstore '' @
                ''Rekor transparency log carry a real signed checkpoint, integrated time, and Merkle inclusion '' @
                ''proof, and the PoteProof scaffold flag is cleared accordingly.''\<rparr>\<rparr>)
      in p\<lparr>pp_hash := poteCanonicalHash g p, pp_seal := build_seal i ''pote_proof_hash'' (bin_PoteProofHash i)\<rparr>)"

definition build_vfa :: "golib \<Rightarrow> build_input \<Rightarrow> final_vfa" where
  "build_vfa g i =
     (let v = \<lparr>vf_kind = ''verdifax.artifact.final_vfa.v1'', vf_envelope_hash = bin_EnvelopeHash i,
            vf_transport_hash = bin_TransportHash i, vf_epa_hash = bin_EpaHash i, vf_efa_hash = bin_EfaHash i,
            vf_aer_hash = bin_AerHash i, vf_transcript_hash = bin_TranscriptHash i,
            vf_hardware_attestation_hash = bin_HardwareAttestationHash i, vf_leakage_bundle_hash = bin_LeakageBundleHash i,
            vf_zksp_binding_hash = bin_ZkspBindingHash i, vf_migration_token_hash = bin_MigrationTokenHash i,
            vf_replay_fingerprint = bin_ReplayFingerprint i, vf_pote_proof_hash = bin_PoteProofHash i,
            vf_independent_verified = bin_IndependentVerified i, vf_hash = [], vf_seal = zero_seal_reference\<rparr>
      in v\<lparr>vf_hash := MustCanonicalHash g (mk_obj [
             (''kind'', js (vf_kind v)), (''envelope_hash'', js (vf_envelope_hash v)),
             (''transport_hash'', js (vf_transport_hash v)), (''epa_hash'', js (vf_epa_hash v)),
             (''efa_hash'', js (vf_efa_hash v)), (''aer_hash'', js (vf_aer_hash v)),
             (''transcript_hash'', js (vf_transcript_hash v)),
             (''hardware_attestation_hash'', js (vf_hardware_attestation_hash v)),
             (''leakage_bundle_hash'', js (vf_leakage_bundle_hash v)), (''zksp_binding_hash'', js (vf_zksp_binding_hash v)),
             (''migration_token_hash'', js (vf_migration_token_hash v)),
             (''replay_fingerprint'', js (vf_replay_fingerprint v)), (''pote_proof_hash'', js (vf_pote_proof_hash v)),
             (''independent_verified'', jb (vf_independent_verified v))]),
           vf_seal := build_seal i ''final_vfa_hash'' (bin_FinalVfaHash i)\<rparr>)"

section \<open>The categories\<close>

definition observed_origin :: "build_input \<Rightarrow> request_origin \<Rightarrow> request_origin" where
  "observed_origin i r =
     (if bin_SourceIPHash i \<noteq> [] \<or> bin_UserAgentHash i \<noteq> [] \<or> bin_GeoCountry i \<noteq> []
      then r\<lparr>ro_source_ip_hash := (if ro_source_ip_hash r = [] then bin_SourceIPHash i else ro_source_ip_hash r),
        ro_user_agent_hash := (if ro_user_agent_hash r = [] then bin_UserAgentHash i else ro_user_agent_hash r),
        ro_geo_country := (if ro_geo_country r = [] then bin_GeoCountry i else ro_geo_country r)\<rparr>
      else r)"

definition observed_authentication :: "build_input \<Rightarrow> authentication_record \<Rightarrow> authentication_record" where
  "observed_authentication i a =
     (if bin_AuthMethod i \<noteq> []
      then a\<lparr>au_method := (if au_method a = [] then bin_AuthMethod i else au_method a),
        au_api_key_id := (if au_api_key_id a = 0 then bin_APIKeyID i else au_api_key_id a),
        au_api_key_name := (if au_api_key_name a = [] then bin_APIKeyName i else au_api_key_name a),
        au_mfa_satisfied := (if au_mfa_satisfied a = None \<and> bin_MFASatisfied i \<noteq> None
          then bin_MFASatisfied i else au_mfa_satisfied a)\<rparr>
      else a)"

definition build_request :: "golib \<Rightarrow> build_input \<Rightarrow> request_substance" where
  "build_request g i =
     (let r = (case bin_RequestSubstance i of None \<Rightarrow> zero_request_substance | Some r \<Rightarrow> r);
          r = r\<lparr>rq_kind := ''verdifax.request_substance.v1''\<rparr>;
          r = (if bin_LatencyTotalMs i > 0 then r\<lparr>rq_latency := (rq_latency r)\<lparr>la_total_ms := bin_LatencyTotalMs i\<rparr>\<rparr> else r);
          r = r\<lparr>rq_origin := observed_origin i (rq_origin r),
            rq_authentication := observed_authentication i (rq_authentication r)\<rparr>;
          r = r\<lparr>rq_hash := [], rq_seal := zero_seal_reference\<rparr>;
          r = r\<lparr>rq_hash := MustCanonicalHash g (rq_json g r)\<rparr>
      in r\<lparr>rq_seal := build_seal i ''request_substance'' (rq_hash r)\<rparr>)"

definition build_authorization :: "golib \<Rightarrow> build_input \<Rightarrow> authorization_chain" where
  "build_authorization g i =
     (let a = (case bin_AuthorizationChain i of None \<Rightarrow> zero_authorization_chain | Some a \<Rightarrow> a);
          a = a\<lparr>az_kind := ''verdifax.authorization_chain.v1''\<rparr>;
          a = a\<lparr>az_hash := [], az_seal := zero_seal_reference\<rparr>;
          a = a\<lparr>az_hash := MustCanonicalHash g (az_json g a)\<rparr>
      in a\<lparr>az_seal := build_seal i ''authorization_chain'' (az_hash a)\<rparr>)"

definition residency_defaults :: "string \<Rightarrow> data_residency \<Rightarrow> data_residency" where
  "residency_defaults region d =
     d\<lparr>dy_processing_region := (if dy_processing_region d = [] then region else dy_processing_region d),
       dy_storage_region := (if dy_storage_region d = [] then region else dy_storage_region d)\<rparr>"

definition build_regulatory :: "golib \<Rightarrow> build_input \<Rightarrow> regulatory_scaffolding" where
  "build_regulatory g i =
     (let r = (case bin_RegulatoryScaffolding i of None \<Rightarrow> zero_regulatory_scaffolding | Some r \<Rightarrow> r);
          r = r\<lparr>rg_kind := ''verdifax.regulatory_scaffolding.v1''\<rparr>;
          r = r\<lparr>rg_data_residency := residency_defaults (built_region i) (rg_data_residency r)\<rparr>;
          r = r\<lparr>rg_hash := [], rg_seal := zero_seal_reference\<rparr>;
          r = r\<lparr>rg_hash := MustCanonicalHash g (rg_json g r)\<rparr>
      in r\<lparr>rg_seal := build_seal i ''regulatory_scaffolding'' (rg_hash r)\<rparr>)"

definition build_causal :: "golib \<Rightarrow> build_input \<Rightarrow> causal_graph" where
  "build_causal g i =
     (let c = (case bin_CausalGraph i of None \<Rightarrow> zero_causal_graph | Some c \<Rightarrow> c);
          c = c\<lparr>cg_kind := ''verdifax.causal_graph.v1''\<rparr>;
          c = c\<lparr>cg_hash := [], cg_seal := zero_seal_reference\<rparr>;
          c = c\<lparr>cg_hash := MustCanonicalHash g (cg_json g c)\<rparr>
      in c\<lparr>cg_seal := build_seal i ''causal_graph'' (cg_hash c)\<rparr>)"

definition kernelVersions :: "kernel_version list" where
  "kernelVersions = map (\<lambda>(k, v). \<lparr>kv_kernel = k, kv_version = v, kv_hash = []\<rparr>)
     [(''DSE'', ''v1.3.2''), (''TOK'', ''v1.0.0''), (''DSC'', ''v1.0.0''), (''NREP'', ''v1.0.0''), (''AIVP'', ''v1.0.0''),
      (''DCAE'', ''v1.0.0'')]"

definition buildSystemProvenance :: "host \<Rightarrow> string \<Rightarrow> system_provenance" where
  "buildSystemProvenance ho region = zero_system_provenance\<lparr>
     sp_kind := ''verdifax.system_provenance.v1'',
     sp_orchestrator_version := ho_buildOrchestratorVersion ho,
     sp_orchestrator_git_sha := ho_buildOrchestratorGitSHA ho,
     sp_build_provenance := zero_build_provenance\<lparr>bp_slsa_level := getSLSALevel ho,
       bp_builder_id := ho_buildBuilderID ho, bp_build_invocation_id := ho_buildInvocationID ho,
       bp_source_repo := ''github.com/Verdifax/verdifax-orchestrator'',
       bp_source_commit_sha := ho_buildOrchestratorGitSHA ho\<rparr>,
     sp_kernel_versions := Some kernelVersions,
     sp_environment := zero_runtime_environment\<lparr>re_cloud := inferCloud ho, re_region := region,
       re_instance_id := getInstanceID ho, re_container_image_digest := ho_buildContainerDigest ho,
       re_os := ho_GOOS ho, re_arch := ho_GOARCH ho, re_go_version := ho_Version ho, re_hostname := getHostname ho\<rparr>\<rparr>"

definition build_provenance_section :: "golib \<Rightarrow> host \<Rightarrow> build_input \<Rightarrow> system_provenance" where
  "build_provenance_section g ho i =
     (let p = buildSystemProvenance ho (built_region i);
          p = p\<lparr>sp_hash := [], sp_seal := zero_seal_reference\<rparr>;
          p = p\<lparr>sp_hash := MustCanonicalHash g (sp_json p)\<rparr>
      in p\<lparr>sp_seal := build_seal i ''system_provenance'' (sp_hash p)\<rparr>)"

definition build_reproducibility :: "golib \<Rightarrow> build_input \<Rightarrow> reproducibility_context" where
  "build_reproducibility g i =
     (let r = (case bin_ReproducibilityContext i of
            None \<Rightarrow> zero_reproducibility_context
          | Some r \<Rightarrow> (if \<not> rc_declared r
              then r\<lparr>rc_declared := (rc_container_image_hash r \<noteq> [] \<or> rc_runtime_name r \<noteq> [] \<or> rc_runtime_version r \<noteq> []
                \<or> rc_pinned_dependencies r \<noteq> [] \<or> rc_git_commit_sha r \<noteq> [] \<or> rc_random_seeds r \<noteq> [] \<or> rc_platform r \<noteq> [])\<rparr>
              else r));
          r = r\<lparr>rc_hash := []\<rparr>
      in r\<lparr>rc_hash := MustCanonicalHash g (rc_json r)\<rparr>)"

section \<open>The record\<close>

text \<open>The bundle as the struct literal sets it; every other field is zero.\<close>

definition built_sections :: "golib \<Rightarrow> host \<Rightarrow> build_input \<Rightarrow> audit_bundle" where
  "built_sections g ho i = zero_audit_bundle\<lparr>
     ab_kind := ''verdifax.audit_bundle.v1'', ab_schema_version := ''v1'', ab_run_id := bin_RunID i,
     ab_status := bin_Status i, ab_manifest_hash := bin_ManifestHash i, ab_generated_at := ho_now ho,
     ab_payload := build_payload g i, ab_envelope := build_envelope g ho i, ab_transport := build_transport g i,
     ab_epa := build_epa g ho i, ab_efa := build_efa g i, ab_aer := build_aer g i, ab_transcript := build_transcript g i,
     ab_hardware_attestation := build_hwa g i, ab_leakage_bundle := build_leakage g i, ab_zksp_binding := build_zksp g i,
     ab_migration_token := build_migration g i, ab_replay_fingerprint := build_replay g i, ab_pote_proof := build_pote g i,
     ab_final_vfa := build_vfa g i, ab_request_substance := build_request g i,
     ab_authorization_chain := build_authorization g i, ab_regulatory_scaffolding := build_regulatory g i,
     ab_causal_graph := build_causal g i, ab_system_provenance := build_provenance_section g ho i,
     ab_reproducibility_context := build_reproducibility g i\<rparr>"

text \<open>The builder's own copy of the bundle hash's preimage.\<close>

definition built_bundle_hash :: "golib \<Rightarrow> audit_bundle \<Rightarrow> string" where
  "built_bundle_hash g b = MustCanonicalHash g (mk_obj [
     (''kind'', js (ab_kind b)), (''schema_version'', js (ab_schema_version b)), (''manifest_hash'', js (ab_manifest_hash b)),
     (''payload_hash'', js (pl_hash (ab_payload b))), (''envelope_hash'', js (env_hash (ab_envelope b))),
     (''transport_hash'', js (tr_hash (ab_transport b))), (''epa_hash'', js (epa_hash (ab_epa b))),
     (''efa_hash'', js (efa_hash (ab_efa b))), (''aer_hash'', js (aer_hash (ab_aer b))),
     (''transcript_hash'', js (ts_hash (ab_transcript b))), (''hwa_hash'', js (hw_hash (ab_hardware_attestation b))),
     (''leakage_hash'', js (lb_hash (ab_leakage_bundle b))), (''zksp_hash'', js (zk_hash (ab_zksp_binding b))),
     (''migration_hash'', js (mt_hash (ab_migration_token b))), (''replay_hash'', js (rf_hash (ab_replay_fingerprint b))),
     (''pote_hash'', js (pp_hash (ab_pote_proof b))), (''vfa_hash'', js (vf_hash (ab_final_vfa b))),
     (''request_substance_hash'', js (rq_hash (ab_request_substance b))),
     (''authorization_chain_hash'', js (az_hash (ab_authorization_chain b))),
     (''regulatory_scaffolding_hash'', js (rg_hash (ab_regulatory_scaffolding b))),
     (''causal_graph_hash'', js (cg_hash (ab_causal_graph b))),
     (''system_provenance_hash'', js (sp_hash (ab_system_provenance b))),
     (''reproducibility_context_hash'', js (rc_hash (ab_reproducibility_context b)))])"

text \<open>EmbeddedLogID: the id of the log key the verifier carries, None when the key cannot be read.\<close>

definition EmbeddedLogID :: "golib \<Rightarrow> string option" where
  "EmbeddedLogID g = (case loadRekorPublicKey g of None \<Rightarrow> None | Some key \<Rightarrow> computeRekorLogID g key)"

definition build_rekor_anchor :: "golib \<Rightarrow> build_input \<Rightarrow> rekor_anchor" where
  "build_rekor_anchor g i =
     (let backend = (if bin_LedgerBackend i = [] then ''mock'' else bin_LedgerBackend i);
          logID = (if bin_LedgerLogID i = [] \<and> backend = ''rekor''
            then (case EmbeddedLogID g of Some computed \<Rightarrow> computed | None \<Rightarrow> bin_LedgerLogID i)
            else bin_LedgerLogID i)
      in zero_rekor_anchor\<lparr>ra_backend := backend, ra_log_entry_id := bin_LogEntryID i, ra_log_id := logID,
           ra_leaf_hash := bin_LedgerLeafHash i, ra_log_index := bin_LedgerLogIndex i,
           ra_tree_size := bin_LedgerTreeSize i, ra_root_hash := bin_LedgerRootHash i,
           ra_inclusion_path := bin_LedgerInclusionPath i, ra_checkpoint := bin_LedgerCheckpoint i,
           ra_signed_entry_timestamp := bin_LedgerSignedEntryTimestamp i,
           ra_integrated_time := bin_LedgerIntegratedTime i\<rparr>)"

definition build_aivp :: "build_input \<Rightarrow> aivp_t4_section" where
  "build_aivp i = \<lparr>ai_outcome = (if bin_AivpOutcome i = [] then ''skipped'' else bin_AivpOutcome i),
     ai_pia_hash = bin_AivpPiaHash i, ai_adapter_id = bin_AivpAdapterID i, ai_ai_output_hash = bin_AivpAiOutputHash i,
     ai_decision = bin_AivpDecision i, ai_halt_receipt_hash = bin_AivpHaltReceiptHash i\<rparr>"

definition build_nrep :: "build_input \<Rightarrow> nrep_section" where
  "build_nrep i = zero_nrep_section\<lparr>nr_actor_id := bin_NrepActorID i, nr_public_key := bin_NrepActorPublicKey i,
     nr_signature := bin_NrepSignature i\<rparr>"

definition BuildAuditBundle :: "golib \<Rightarrow> host \<Rightarrow> build_input \<Rightarrow> audit_bundle" where
  "BuildAuditBundle g ho i =
     (let b = built_sections g ho i;
          b = b\<lparr>ab_bundle_hash := built_bundle_hash g b\<rparr>;
          b = b\<lparr>ab_rekor_anchor := build_rekor_anchor g i\<rparr>;
          b = b\<lparr>ab_aivp_t4 := build_aivp i\<rparr>
      in b\<lparr>ab_nrep := build_nrep i\<rparr>)"

section \<open>Every hash the builder writes recomputes\<close>

lemma built_fields:
  "ab_payload (BuildAuditBundle g ho i) = build_payload g i" "ab_envelope (BuildAuditBundle g ho i) = build_envelope g ho i"
  "ab_transport (BuildAuditBundle g ho i) = build_transport g i" "ab_epa (BuildAuditBundle g ho i) = build_epa g ho i"
  "ab_efa (BuildAuditBundle g ho i) = build_efa g i" "ab_aer (BuildAuditBundle g ho i) = build_aer g i"
  "ab_transcript (BuildAuditBundle g ho i) = build_transcript g i"
  "ab_hardware_attestation (BuildAuditBundle g ho i) = build_hwa g i"
  "ab_leakage_bundle (BuildAuditBundle g ho i) = build_leakage g i" "ab_zksp_binding (BuildAuditBundle g ho i) = build_zksp g i"
  "ab_migration_token (BuildAuditBundle g ho i) = build_migration g i"
  "ab_replay_fingerprint (BuildAuditBundle g ho i) = build_replay g i"
  "ab_pote_proof (BuildAuditBundle g ho i) = build_pote g i" "ab_final_vfa (BuildAuditBundle g ho i) = build_vfa g i"
  "ab_request_substance (BuildAuditBundle g ho i) = build_request g i"
  "ab_authorization_chain (BuildAuditBundle g ho i) = build_authorization g i"
  "ab_regulatory_scaffolding (BuildAuditBundle g ho i) = build_regulatory g i"
  "ab_causal_graph (BuildAuditBundle g ho i) = build_causal g i"
  "ab_system_provenance (BuildAuditBundle g ho i) = build_provenance_section g ho i"
  "ab_reproducibility_context (BuildAuditBundle g ho i) = build_reproducibility g i"
  "ab_kind (BuildAuditBundle g ho i) = ''verdifax.audit_bundle.v1''" "ab_generated_at (BuildAuditBundle g ho i) = ho_now ho"
  "ab_manifest_hash (BuildAuditBundle g ho i) = bin_ManifestHash i"
  "ab_rekor_anchor (BuildAuditBundle g ho i) = build_rekor_anchor g i" "ab_aivp_t4 (BuildAuditBundle g ho i) = build_aivp i"
  "ab_nrep (BuildAuditBundle g ho i) = build_nrep i"
  by (simp_all add: BuildAuditBundle_def built_sections_def Let_def)

text \<open>What the builder leaves at its zero value.\<close>

lemma built_unset:
  "ab_formal_verification (BuildAuditBundle g ho i) = zero_formal_verification"
  "ab_execution_record (BuildAuditBundle g ho i) = None" "ab_bundle_anchor (BuildAuditBundle g ho i) = None"
  "ab_pre_anchor (BuildAuditBundle g ho i) = []" "ab_pre_anchor_digest (BuildAuditBundle g ho i) = []"
  "ab_runtime_timing (BuildAuditBundle g ho i) = []" "ab_runtime_timing_hash (BuildAuditBundle g ho i) = []"
  "epa_policy_gate (build_epa g ho i) = None" "epa_account_policy_gate (build_epa g ho i) = None"
  "hw_verification (build_hwa g i) = None" "ra_entry_body (build_rekor_anchor g i) = []"
  "nr_signed_at (build_nrep i) = []" "nr_request_signature (build_nrep i) = None" "nr_job (build_nrep i) = None"
  "nr_account_id (build_nrep i) = []"
  by (simp_all add: BuildAuditBundle_def built_sections_def zero_audit_bundle_def build_epa_def zero_epa_def build_hwa_def
      zero_hardware_attestation_def build_rekor_anchor_def zero_rekor_anchor_def build_nrep_def zero_nrep_section_def Let_def)

lemma built_pipeline_hashes:
  "RecomputePayloadHash g (build_payload g i) = pl_hash (build_payload g i)"
  "RecomputeEnvelopeHash g (build_envelope g ho i) = env_hash (build_envelope g ho i)"
  "RecomputeTransportHash g (build_transport g i) = tr_hash (build_transport g i)"
  "RecomputeEPAHash g (build_epa g ho i) = epa_hash (build_epa g ho i)"
  "RecomputeEFAHash g (build_efa g i) = efa_hash (build_efa g i)"
  "RecomputeAERHash g (build_aer g i) = aer_hash (build_aer g i)"
  "RecomputeTranscriptHash g (build_transcript g i) = ts_hash (build_transcript g i)"
  "RecomputeHardwareAttestationHash g (build_hwa g i) = hw_hash (build_hwa g i)"
  "RecomputeLeakageBundleHash g (build_leakage g i) = lb_hash (build_leakage g i)"
  "RecomputeZkspBindingHash g (build_zksp g i) = zk_hash (build_zksp g i)"
  "RecomputeMigrationTokenHash g (build_migration g i) = mt_hash (build_migration g i)"
  "RecomputeReplayFingerprintHash g (build_replay g i) = rf_hash (build_replay g i)"
  "RecomputePoteProofHash g (build_pote g i) = pp_hash (build_pote g i)"
  "RecomputeFinalVFAHash g (build_vfa g i) = vf_hash (build_vfa g i)"
  by (simp_all add: recompute_defs preimage_defs build_payload_def build_envelope_def build_transport_def build_epa_def
      build_efa_def build_aer_def build_transcript_def build_hwa_def build_leakage_def build_zksp_def build_migration_def
      build_replay_def build_pote_def build_vfa_def Let_def)

lemma built_category_hashes:
  "RecomputeRequestSubstanceHash g (build_request g i) = rq_hash (build_request g i)"
  "RecomputeAuthorizationChainHash g (build_authorization g i) = az_hash (build_authorization g i)"
  "RecomputeRegulatoryScaffoldingHash g (build_regulatory g i) = rg_hash (build_regulatory g i)"
  "RecomputeCausalGraphHash g (build_causal g i) = cg_hash (build_causal g i)"
  "RecomputeSystemProvenanceHash g (build_provenance_section g ho i) = sp_hash (build_provenance_section g ho i)"
  "RecomputeReproducibilityContextHash g (build_reproducibility g i) = rc_hash (build_reproducibility g i)"
  by (simp_all add: recompute_defs preimage_defs build_request_def build_authorization_def build_regulatory_def
      build_causal_def build_provenance_section_def build_reproducibility_def Let_def)

lemma built_hashes: "recomputed_hashes g (BuildAuditBundle g ho i) = stored_hashes (BuildAuditBundle g ho i)"
  by (simp add: recomputed_hashes_def stored_hashes_def built_fields built_pipeline_hashes built_category_hashes)

lemma built_bundle_recomputes:
  "RecomputeBundleHash g (BuildAuditBundle g ho i) = ab_bundle_hash (BuildAuditBundle g ho i)"
  by (simp add: RecomputeBundleHash_def audit_bundle_preimage_def BuildAuditBundle_def built_bundle_hash_def Let_def)

section \<open>Every value the builder repeats is one value\<close>

lemma built_seal_fields [simp]:
  "sr_sealed_hash (build_seal i name hash) = hash" "sr_manifest_hash (build_seal i name hash) = bin_ManifestHash i"
  by (simp_all add: build_seal_def)

lemma built_ids:
  "slice (aer_execution_ids (build_aer g i)) = six_list (bin_ExecutionIDs i)"
  "map st_execution_id (slice (efa_steps (build_efa g i))) = six_list (bin_ExecutionIDs i)"
  by (cases "bin_ExecutionIDs i"; simp add: build_aer_def build_efa_def slice_def kernelNames_def six_list_def Let_def)+

lemma six_fourth: "listItem (six_list ids) 4 = Some (six_list ids ! 4)"
  by (cases ids) (simp add: listItem_def six_list_def)

lemma built_section_copies: "section_copies_agree (BuildAuditBundle g ho i)"
  by (simp add: section_copies_agree_def built_fields build_envelope_def build_transport_def build_aer_def build_vfa_def
      build_pote_def build_payload_def build_zksp_def build_epa_def build_efa_def build_transcript_def build_hwa_def
      build_leakage_def build_migration_def build_replay_def build_provenance_section_def buildSystemProvenance_def
      build_request_def build_authorization_def build_regulatory_def build_causal_def Let_def)

lemma built_aer_seal: "sr_sealed_hash (aer_seal (build_aer g i)) = bin_AerHash i"
  "ts_proof_hash_input (build_transcript g i) = bin_AerHash i"
  by (simp_all add: build_aer_def build_transcript_def Let_def)

lemma built_record_copies: "record_copies_agree (BuildAuditBundle g ho i)"
  by (simp add: record_copies_agree_def built_fields built_unset built_ids built_aer_seal)

lemma built_modes:
  "rekorAnchored (BuildAuditBundle g ho i) \<longleftrightarrow> bin_LedgerBackend i = ''rekor''" "\<not> sevSnp (BuildAuditBundle g ho i)"
  by (simp_all add: rekorAnchored_def sevSnp_def built_fields build_rekor_anchor_def build_hwa_def Let_def)

lemma built_hardware_copies: "hardware_copies_agree (BuildAuditBundle g ho i)"
  by (simp add: hardware_copies_agree_def built_modes built_fields built_unset) (simp add: build_hwa_def Let_def)

text \<open>A record of the public log repeats the entry in its proof section only when the entry has a number.\<close>

lemma built_anchor_copies:
  assumes "bin_LedgerBackend i = ''rekor'' \<Longrightarrow> bin_LogEntryID i \<noteq> []"
  shows "anchor_copies_agree (BuildAuditBundle g ho i)"
proof (cases "bin_LedgerBackend i = ''rekor''")
  case True
  then show ?thesis
    using assms by (simp add: anchor_copies_agree_def built_fields build_pote_def build_rekor_anchor_def Let_def)
next
  case False
  then have "\<not> anchoredOutside w (BuildAuditBundle g ho i)" for w
    by (simp add: anchoredOutside_def built_modes)
  then show ?thesis
    using False by (simp add: anchor_copies_agree_def built_modes)
qed

text \<open>No two copies of a built record differ, when an entry of the public log has its number and the hash
  of an AI review is the fifth execution id wherever the record's generation compares the two.\<close>

lemma built_copies:
  assumes "bin_LedgerBackend i = ''rekor'' \<Longrightarrow> bin_LogEntryID i \<noteq> []"
    and "piaInExecutionIDs (BuildAuditBundle g ho i) \<Longrightarrow> six_list (bin_ExecutionIDs i) ! 4 = bin_AivpPiaHash i"
  shows "verifyBoundCopies (BuildAuditBundle g ho i) = []"
proof -
  have "review_copies_agree (BuildAuditBundle g ho i)"
    using assms(2) by (simp add: review_copies_agree_def built_fields built_ids six_fourth record_kernels_def built_unset
        build_aivp_def listItem_def)
  then show ?thesis
    using assms(1) by (simp add: copies_parts built_section_copies built_record_copies built_hardware_copies built_anchor_copies)
qed

section \<open>The bundle hash and the clock\<close>

text \<open>
  The bundle hash is taken over the clock: it is over the envelope's hash, which is over the
  envelope's time. The same input sealed at two times has two bundle hashes, short of a collision.
\<close>

lemma bundle_hash_states_clock:
  assumes "bundle_wf g (BuildAuditBundle g h i)" "bundle_wf g (BuildAuditBundle g k j)"
    and "ab_bundle_hash (BuildAuditBundle g h i) = ab_bundle_hash (BuildAuditBundle g k j)"
    and "ho_now h \<noteq> ho_now k"
  shows "collides g (bundle_preimages g (BuildAuditBundle g h i)) (bundle_preimages g (BuildAuditBundle g k j))"
proof -
  have "section_sources g (BuildAuditBundle g h i) = section_sources g (BuildAuditBundle g k j)
      \<or> collides g (bundle_preimages g (BuildAuditBundle g h i)) (bundle_preimages g (BuildAuditBundle g k j))"
    using bundle_hash_binds [OF assms(1,2) built_hashes [symmetric] built_hashes [symmetric]] assms(3)
    unfolding built_bundle_recomputes by blast
  moreover have "env_timestamp (ab_envelope (BuildAuditBundle g h i)) \<noteq> env_timestamp (ab_envelope (BuildAuditBundle g k j))"
    using assms(4) by (simp add: built_fields build_envelope_def Let_def)
  ultimately show ?thesis using section_fields(10) by blast
qed

section \<open>What the caller can claim\<close>

text \<open>
  The origin and the authentication of a request are observed by the server, yet a value the caller
  supplied stands: an observed value only fills an empty one. The record then hashes and seals the
  caller's claim of its own address, method, key and second factor.
\<close>

lemma caller_claims_kept:
  assumes "bin_RequestSubstance i = Some r"
  shows "ro_source_ip_hash (rq_origin r) \<noteq> [] \<Longrightarrow>
      ro_source_ip_hash (rq_origin (build_request g i)) = ro_source_ip_hash (rq_origin r)"
    and "au_method (rq_authentication r) \<noteq> [] \<Longrightarrow>
      au_method (rq_authentication (build_request g i)) = au_method (rq_authentication r)"
    and "au_api_key_id (rq_authentication r) \<noteq> 0 \<Longrightarrow>
      au_api_key_id (rq_authentication (build_request g i)) = au_api_key_id (rq_authentication r)"
    and "au_mfa_satisfied (rq_authentication r) = Some m \<Longrightarrow>
      au_mfa_satisfied (rq_authentication (build_request g i)) = Some m"
  using assms by (simp_all add: build_request_def observed_origin_def observed_authentication_def Let_def)

end
