(* ===== verification/BuiltRecord.thy ===== *)
theory BuiltRecord
  imports Builder Verify
begin

text \<open>
  What the verifier says of a record BuildAuditBundle makes. Every section hash, the bundle hash and
  every seal of such a record match, whatever the input; what can fail is what the input says of the
  public log and of the actor. The builder does not carry the body of the log entry, so no record it
  makes is verified as anchored.
\<close>

section \<open>The checks of a built record\<close>

text \<open>The rows of every record the builder makes.\<close>

lemma built_rows:
  "list_all hc_Match (artifact_rows g (BuildAuditBundle g ho i))" "list_all hc_Match (section_rows g (BuildAuditBundle g ho i))"
  "extension_rows g (BuildAuditBundle g ho i) = []" "list_all sk_Match (seal_rows (BuildAuditBundle g ho i))"
proof -
  let ?b = "BuildAuditBundle g ho i"
  show "list_all hc_Match (artifact_rows g ?b)" "list_all hc_Match (section_rows g ?b)"
    using rows_match [of g ?b] by (simp_all add: built_hashes)
  show "extension_rows g ?b = []"
    by (simp add: extension_rows_def built_unset built_fields zero_formal_verification_def) (simp add: build_hwa_def Let_def)
  show "list_all sk_Match (seal_rows ?b)"
    unfolding seals_match
    by (simp add: allSeals_def built_unset built_fields zero_formal_verification_def build_envelope_def build_transport_def
        build_epa_def build_efa_def build_aer_def build_transcript_def build_hwa_def build_leakage_def build_zksp_def
        build_migration_def build_replay_def build_pote_def build_vfa_def build_request_def build_authorization_def
        build_regulatory_def build_causal_def build_provenance_section_def Let_def)
qed

lemma built_scaffolds:
  "map hc_Name (filter hc_Scaffold (artifact_rows g (BuildAuditBundle g ho i))) =
     [''transcript'', ''hardware_attestation'', ''zksp_binding'']
     @ (if bin_LedgerBackend i = ''rekor'' \<and> bin_LogEntryID i \<noteq> [] then [] else [''pote_proof''])"
  by (simp add: artifact_rows_def mk_def built_fields build_transcript_def build_hwa_def build_leakage_def zero_leakage_bundle_def
      zero_scaffold_note_def build_zksp_def build_pote_def Let_def)

text \<open>What the record does not claim is not checked.\<close>

lemma built_unclaimed:
  "verifyPreAnchor g (BuildAuditBundle g ho i) = \<lparr>pc_Performed = False, pc_Match = False, pc_Form = [], pc_Rows = 0, pc_Failures = []\<rparr>"
  "verifyBundleAnchor g ver (BuildAuditBundle g ho i) = bundle_anchor_absent"
  "qc_Performed (verifyRequestSignature g (BuildAuditBundle g ho i)) = False"
  "tc_Performed (verifyRuntimeTiming g (BuildAuditBundle g ho i)) = False"
  "\<not> policyFailed (checkBuiltIn g (policyGateOf (BuildAuditBundle g ho i)))"
  "accountGateOfBundle (BuildAuditBundle g ho i) = None"
  "\<not> cr_Sealed (verifyCompleteRecordRequirement (BuildAuditBundle g ho i) ba)"
  by (simp_all add: verifyPreAnchor_def verifyBundleAnchor_def verifyRequestSignature_def verifyRuntimeTiming_def policyGateOf_def
      accountGateOfBundle_def checkBuiltIn_def no_gate_def policyFailed_def verifyCompleteRecordRequirement_def
      TableRequiresCompleteRecordAnchor_def built_fields built_unset)

text \<open>The three actor values are given together or not at all; the time of signing is never carried, so
  the signature itself is not checked.\<close>

definition actor_given_whole :: "build_input \<Rightarrow> bool" where
  "actor_given_whole i \<longleftrightarrow> (bin_NrepActorID i = [] \<longleftrightarrow> bin_NrepActorPublicKey i = [])
     \<and> (bin_NrepActorPublicKey i = [] \<longleftrightarrow> bin_NrepSignature i = [])"

lemma built_actor:
  "nc_Performed (verifyNrepSignature g (BuildAuditBundle g ho i) leaf) \<longleftrightarrow> \<not> actor_given_whole i"
  "nc_Match (verifyNrepSignature g (BuildAuditBundle g ho i) leaf) = False"
  by (auto simp: verifyNrepSignature_def actor_given_whole_def built_fields built_unset nc_fail_def Let_def)
    (simp_all add: build_nrep_def)

section \<open>The verdict\<close>

lemma verify_scaffolds:
  "vr_ScaffoldList (verify g ver pins b) = map hc_Name (filter hc_Scaffold (artifact_rows g b))"
proof -
  have "vr_ScaffoldList (with_verdict r) = vr_ScaffoldList r" for r
    by (simp add: verdict_steps)
  then show ?thesis
    by (simp add: verify_def roll_up_def verify_checks_def Let_def) (simp add: apply_job_def split: option.split)
qed

text \<open>Off the public log nothing but the actor's values can fail a built record.\<close>

lemma built_off_log:
  assumes "bin_LedgerBackend i \<noteq> ''rekor''"
  shows "rolled (verify_checks g ver pins (BuildAuditBundle g ho i)) \<longleftrightarrow> actor_given_whole i"
    and "\<not> anchored (verify_checks g ver pins (BuildAuditBundle g ho i))"
proof -
  let ?b = "BuildAuditBundle g ho i"
  have a: "ra_backend (ab_rekor_anchor ?b) \<noteq> ''rekor''"
    using assms by (simp add: built_fields build_rekor_anchor_def Let_def)
  have "\<not> piaInExecutionIDs ?b"
    using assms by (simp add: piaInExecutionIDs_def anchoredOutside_def built_modes)
  then have "verifyBoundCopies ?b = []"
    using assms by (intro built_copies) simp_all
  then have "cross_checks ?b = []"
    by (simp add: cross_checks_def verifyCrossGeneration_def checkAccountID_def built_fields built_unset)
  then show "rolled (verify_checks g ver pins ?b) \<longleftrightarrow> actor_given_whole i"
    using a by (simp add: rolled_def passed_before_requirement_def verify_checks_def built_rows built_unclaimed built_actor
        built_bundle_recomputes mk_match actor_flags bundle_anchor_absent_def verifyRekorAnchor_def verifyLeafBinding_def
        verifyRecordIdentity_def verifyEntryAuthentication_def entry_auth_none_def accountFailed_def Let_def)
  show "\<not> anchored (verify_checks g ver pins ?b)"
    using a by (simp add: anchored_def verify_checks_def verifyRekorAnchor_def Let_def)
qed

text \<open>C39. A run sealed off the public log gives a record the verifier accepts as self-consistent,
  whatever the run's input and the machine: all hashes, seals and repeated values match. The one thing
  that fails it is an actor named by some but not all of the three values. The report lists as scaffolds
  the four sections the builder marks as such.\<close>

theorem built_record_verdict:
  assumes "bin_LedgerBackend i \<noteq> ''rekor''"
  shows "vr_VerdictTier (verify g ver pins (BuildAuditBundle g ho i))
        = (if actor_given_whole i then ''SELF_CONSISTENT_NOT_ANCHORED'' else ''FAILED'')
    \<and> vr_ScaffoldList (verify g ver pins (BuildAuditBundle g ho i))
        = [''transcript'', ''hardware_attestation'', ''zksp_binding'', ''pote_proof'']"
  using assms built_off_log [OF assms]
  by (simp add: verify_fields tier_of_def verify_scaffolds built_scaffolds)

text \<open>A mock run with an actor named by all three values.\<close>

definition small_host :: host where
  "small_host = \<lparr>ho_now = ''2026-11-01T12:00:00Z'', ho_GOOS = ''linux'', ho_GOARCH = ''amd64'', ho_Version = ''go1.22'',
     ho_Hostname = None, ho_Getenv = (\<lambda>name. if name = ''FLY_REGION'' then ''iad'' else []),
     ho_buildOrchestratorVersion = ''0.3.0-dev'', ho_buildOrchestratorGitSHA = ''unknown'', ho_buildSLSALevel = ''0'',
     ho_buildBuilderID = ''local'', ho_buildInvocationID = [], ho_buildContainerDigest = []\<rparr>"

definition small_input :: build_input where
  "small_input = \<lparr>bin_Payload = ''input'', bin_ProgramID = ''program'', bin_RouteID = ''route'', bin_RegistryRecordHash = ''aa'',
     bin_RunID = 7, bin_Status = ''ok'', bin_EnvelopeID = ''env-0'', bin_EnvelopeHash = ''bb'', bin_SequenceID = ''seq'',
     bin_TransportHash = ''cc'', bin_EpaHash = ''dd'', bin_EfaHash = ''ee'',
     bin_ExecutionIDs = (''1'', ''2'', ''3'', ''4'', ''5'', ''6''), bin_AerHash = ''ff'', bin_TranscriptHash = ''ab'',
     bin_HardwareAttestationHash = ''ac'', bin_LeakageBundleHash = ''ad'', bin_FormalVerifierStatus = ''SCAFFOLD'',
     bin_ZkspBindingHash = ''ae'', bin_MigrationTokenHash = ''af'', bin_ReplayFingerprint = ''ba'', bin_PoteProofHash = ''bc'',
     bin_LogEntryID = [], bin_LedgerBackend = ''mock'', bin_LedgerLeafHash = [], bin_LedgerLogID = [], bin_LedgerLogIndex = 0,
     bin_LedgerTreeSize = 0, bin_LedgerRootHash = [], bin_LedgerInclusionPath = None, bin_LedgerCheckpoint = [],
     bin_LedgerSignedEntryTimestamp = [], bin_LedgerIntegratedTime = 0, bin_AivpOutcome = ''passed'', bin_AivpPiaHash = ''bd'',
     bin_AivpAdapterID = ''mock-claude'', bin_AivpAiOutputHash = ''be'', bin_AivpDecision = ''allow'',
     bin_AivpHaltReceiptHash = [], bin_NrepActorID = ''actor'', bin_NrepActorPublicKey = ''key'', bin_NrepSignature = ''sig'',
     bin_FinalVfaHash = ''bf'', bin_IndependentVerified = True, bin_ManifestHash = ''ca'', bin_Attested = zero_attested_context,
     bin_Region = [], bin_RequestSubstance = None, bin_AuthorizationChain = None, bin_RegulatoryScaffolding = None,
     bin_CausalGraph = None, bin_ReproducibilityContext = None, bin_LatencyTotalMs = 12, bin_SourceIPHash = ''cb'',
     bin_UserAgentHash = [], bin_GeoCountry = ''SE'', bin_AuthMethod = ''api_key'', bin_APIKeyID = 3, bin_APIKeyName = ''main'',
     bin_MFASatisfied = Some True\<rparr>"

lemma built_record_verdict_witness:
  "vr_VerdictTier (verify toy_lib (\<lambda>_. None) [] (BuildAuditBundle toy_lib small_host small_input))
     = ''SELF_CONSISTENT_NOT_ANCHORED''
   \<and> vr_VerdictTier (verify toy_lib (\<lambda>_. None) [] (BuildAuditBundle toy_lib small_host (small_input\<lparr>bin_NrepSignature := []\<rparr>)))
     = ''FAILED''"
  using built_record_verdict [of small_input toy_lib "\<lambda>_. None" "[]" small_host]
    built_record_verdict [of "small_input\<lparr>bin_NrepSignature := []\<rparr>" toy_lib "\<lambda>_. None" "[]" small_host]
  by (simp add: small_input_def actor_given_whole_def)

text \<open>An entry without its body is not verified: the tool's own verifier refuses it.\<close>

lemma bodyless_refused:
  assumes "in_EntryBody x = []"
  shows "VerifyAnchor g x \<noteq> None"
  using assms by (simp add: VerifyAnchor_def VerifyAnchorWithKey_def split: option.split)

text \<open>C40. No record the builder makes is verified as anchored, with whatever entry of the public log its
  input names: the record does not carry the body of the entry, without which the verifier does not
  accept it. The tool exits 1 on every such record unless --allow-unanchored is given.\<close>

theorem built_record_never_anchored:
  "\<not> vr_Anchored (verify g (VerifyAnchor g) pins (BuildAuditBundle g ho i))
   \<and> exit_code (fl\<lparr>bo_allowUnanchored := False\<rparr>) (verify g (VerifyAnchor g) pins (BuildAuditBundle g ho i)) = 1"
proof -
  have "VerifyAnchor g (rekor_anchor_input (build_rekor_anchor g i)) \<noteq> None"
    by (intro bodyless_refused) (simp add: rekor_anchor_input_def built_unset)
  then have "\<not> rk_Match (verifyRekorAnchor (VerifyAnchor g) (build_rekor_anchor g i))"
    by (auto simp: verifyRekorAnchor_def Let_def split: option.split)
  then have "\<not> vr_Anchored (verify g (VerifyAnchor g) pins (BuildAuditBundle g ho i))"
    by (simp add: verify_fields anchored_def verify_checks_def built_fields Let_def)
  then show ?thesis by (simp add: exit_code_def exitShouldFail_def)
qed

end
