(* ===== verification/Maturity.thy ===== *)
theory Maturity
  imports Prelude Json
begin

text \<open>
  internal/artifacts/maturity.go: the report of how each stage of a run was exercised, from four
  values of its manifest. The lemmas say what each flag stands for, and that the note beside a flag is
  the note of that flag: a stage whose note speaks of a real backend is flagged REAL, and no other
  is. The verifier does not call this code; the documents made of a run do.
\<close>

datatype maturity_flag = REAL | MOCK | PARTIAL | UNKNOWN

text \<open>
  strings.ToLower as far as a comparison with an ASCII text can tell: the two letters outside ASCII
  whose lower case is an ASCII letter are the Kelvin sign and the dotted capital I; every other
  character outside ASCII keeps bytes that occur in no ASCII text.
\<close>

fun go_lower :: "string \<Rightarrow> string" where
  "go_lower [] = []"
| "go_lower (c # s) =
     (if take 3 (c # s) = [CHR 0xE2, CHR 0x84, CHR 0xAA] then CHR ''k'' # go_lower (drop 2 s)
      else if take 2 (c # s) = [CHR 0xC4, CHR 0xB0] then CHR ''i'' # go_lower (drop 1 s)
      else lower_char c # go_lower s)"

record maturity_row =
  mr_Stage :: string
  mr_Flag :: maturity_flag
  mr_Note :: string

record maturity_inputs =
  mi_AivpAdapterID :: string
  mi_LedgerBackend :: string
  mi_FormalVerifierStatus :: string
  mi_HardwareAttestationHash :: string

definition classifyAivp :: "string \<Rightarrow> maturity_flag" where
  "classifyAivp adapterID = (let a = go_lower (trim_space adapterID) in
     if a = [] then UNKNOWN else if a = ''live-claude-api'' then REAL else MOCK)"

definition DisplayAivpAdapter :: "string \<Rightarrow> string" where
  "DisplayAivpAdapter adapterID = (let a = go_lower (trim_space adapterID) in
     if a = [] then []
     else if a = ''live-claude-api'' then ''Live Anthropic Claude API''
     else if a = ''mock-claude'' then ''Mock Claude (deterministic scaffold)''
     else if a = ''aivp-t4-subprocess'' then ''AIVP subprocess (mock mode)''
     else if a = ''aivp-t4-subprocess-empty'' then ''AIVP subprocess (no AI output supplied)''
     else ''Non-canonical adapter'')"

definition noteAivp :: "string \<Rightarrow> string" where
  "noteAivp adapterID = (let a = go_lower (trim_space adapterID) in
     if a = [] then ''Run did not carry AI output text; AIVP not invoked''
     else if a = ''live-claude-api'' then ''Live Anthropic Claude API, invoked the live model for governance''
     else if a = ''mock-claude'' then ''Mock Claude, deterministic in-process scaffold (NOT real-model evaluation)''
     else if a = ''aivp-t4-subprocess-empty''
       then ''AIVP subprocess (no AI output supplied), governance ran with empty input; treat as mock''
     else if a = ''aivp-t4-subprocess''
       then ''AIVP subprocess (mock mode), sealed adapter present without live model call; treat as mock''
     else ''Non-canonical adapter, treat as mock'')"

definition classifyZKSP :: "string \<Rightarrow> maturity_flag" where
  "classifyZKSP status = (if trim_space status = [] then UNKNOWN else PARTIAL)"

definition noteZKSP :: "string \<Rightarrow> string" where
  "noteZKSP status =
     (if trim_space status = [] then ''ZKSP did not run (legacy run or halt before Stage 5)''
      else ''Artifact shape sealed (formal-verifier success token emitted); real ZK proof generation pending real_zk feature'')"

definition classifyHardware :: "string \<Rightarrow> maturity_flag" where
  "classifyHardware hash = (if trim_space hash = [] then UNKNOWN else PARTIAL)"

definition noteHardware :: "string \<Rightarrow> string" where
  "noteHardware hash =
     (if trim_space hash = [] then ''Hardware attestation did not run (legacy run or halt before Stage 5/L8)''
      else ''TPM2/SEV-SNP-shaped artifact sealed; real attester pending real_hw feature on Phase-5 hardware'')"

definition classifyLedger :: "string \<Rightarrow> maturity_flag" where
  "classifyLedger backend = (let b = go_lower (trim_space backend) in
     if b = [] then UNKNOWN else if b = ''rekor'' then REAL else MOCK)"

definition quoted_backend :: "string \<Rightarrow> string" where
  "quoted_backend b = ''LedgerBackend = '' @ [quote_char] @ b @ [quote_char]"

definition noteLedger :: "string \<Rightarrow> string" where
  "noteLedger backend = (let b = go_lower (trim_space backend) in
     if b = [] then ''Run did not anchor to a ledger (legacy or halt before Stage 7)''
     else if b = ''rekor''
       then quoted_backend ''rekor'' @ '', anchored on Sigstore'' @ [CHR 0x27] @ ''s public Rekor transparency log''
     else if b = ''mock'' then quoted_backend ''mock'' @ '', in-process ledger; no public transparency log entry''
     else quoted_backend backend @ '', non-canonical backend'')"

definition BuildMaturityReport :: "maturity_inputs \<Rightarrow> maturity_row list" where
  "BuildMaturityReport i = [
     \<lparr>mr_Stage = ''DOG (envelope construction)'', mr_Flag = REAL,
      mr_Note = ''RFC 8785 canonical JSON + SHA-256, deterministic''\<rparr>,
     \<lparr>mr_Stage = ''DTL (transport sequencing)'', mr_Flag = REAL, mr_Note = ''Deterministic in-process queue''\<rparr>,
     \<lparr>mr_Stage = ''DKEC (kernel execution)'', mr_Flag = REAL, mr_Note = ''10-state FSM with HALT gates + CLA''\<rparr>,
     \<lparr>mr_Stage = ''AER (attestation execution)'', mr_Flag = REAL,
      mr_Note = [CHR 0xC2, CHR 0xA7] @ ''0-canonical aggregation of kernel outputs''\<rparr>,
     \<lparr>mr_Stage = ''AIVP (AI Verification Protocol)'', mr_Flag = classifyAivp (mi_AivpAdapterID i),
      mr_Note = noteAivp (mi_AivpAdapterID i)\<rparr>,
     \<lparr>mr_Stage = ''ZKSP (zero-knowledge state prover)'', mr_Flag = classifyZKSP (mi_FormalVerifierStatus i),
      mr_Note = noteZKSP (mi_FormalVerifierStatus i)\<rparr>,
     \<lparr>mr_Stage = ''HRE (hardware attestation)'', mr_Flag = classifyHardware (mi_HardwareAttestationHash i),
      mr_Note = noteHardware (mi_HardwareAttestationHash i)\<rparr>,
     \<lparr>mr_Stage = ''Ledger (transparency log)'', mr_Flag = classifyLedger (mi_LedgerBackend i),
      mr_Note = noteLedger (mi_LedgerBackend i)\<rparr>,
     \<lparr>mr_Stage = ''DLA (final artifact)'', mr_Flag = REAL, mr_Note = ''Final VFA hash computed from sealed kernel outputs''\<rparr>]"

section \<open>What the flags say\<close>

text \<open>
  Upper and lower case and surrounding space do not change a flag; a REAL model review means the live
  adapter, a REAL ledger means the public log; the prover and the hardware are never REAL.
\<close>

lemma review_flags:
  "classifyAivp a = REAL \<longleftrightarrow> go_lower (trim_space a) = ''live-claude-api''"
  "classifyAivp a = UNKNOWN \<longleftrightarrow> go_lower (trim_space a) = []"
  "classifyAivp a \<noteq> PARTIAL"
  by (simp_all add: classifyAivp_def Let_def)

lemma ledger_flags:
  "classifyLedger b = REAL \<longleftrightarrow> go_lower (trim_space b) = ''rekor''"
  "classifyLedger b = UNKNOWN \<longleftrightarrow> go_lower (trim_space b) = []"
  "classifyLedger b \<noteq> PARTIAL"
  by (simp_all add: classifyLedger_def Let_def)

lemma scaffold_flags: "classifyZKSP s \<in> {PARTIAL, UNKNOWN}" "classifyHardware h \<in> {PARTIAL, UNKNOWN}"
  by (simp_all add: classifyZKSP_def classifyHardware_def)

text \<open>The note, and the label shown for the adapter, determine the flag.\<close>

lemma review_note_flag:
  "noteAivp a = noteAivp b \<Longrightarrow> classifyAivp a = classifyAivp b"
  "DisplayAivpAdapter a = DisplayAivpAdapter b \<Longrightarrow> classifyAivp a = classifyAivp b"
  by (auto simp: noteAivp_def DisplayAivpAdapter_def classifyAivp_def Let_def split: if_splits)

lemma scaffold_note_flag:
  "noteZKSP s = noteZKSP t \<Longrightarrow> classifyZKSP s = classifyZKSP t"
  "noteHardware s = noteHardware t \<Longrightarrow> classifyHardware s = classifyHardware t"
  by (auto simp: noteZKSP_def classifyZKSP_def noteHardware_def classifyHardware_def split: if_splits)

lemma rekor_word: "go_lower (trim_space ''rekor'') = ''rekor''"
  by code_simp

text \<open>A backend that is neither named is shown as it was written, so its note may be another's.\<close>

lemma ledger_note_flag:
  assumes "noteLedger b = noteLedger ''rekor''"
  shows "classifyLedger b = REAL"
  using assms rekor_word by (auto simp: noteLedger_def classifyLedger_def quoted_backend_def Let_def split: if_splits)

text \<open>A reader of the report can tell its four inputs' classes from its flags, and the report of a run is
  the same whatever the case and the space around its manifest's words.\<close>

lemma report_flags:
  "map mr_Flag (BuildMaturityReport i) = [REAL, REAL, REAL, REAL, classifyAivp (mi_AivpAdapterID i),
     classifyZKSP (mi_FormalVerifierStatus i), classifyHardware (mi_HardwareAttestationHash i),
     classifyLedger (mi_LedgerBackend i), REAL]"
  by (simp add: BuildMaturityReport_def)

end
