(* ===== verification/Spec2Isabelle.thy ===== *)
theory Spec2Isabelle
  imports JobMap Tamper BuiltRecord Maturity
begin

text \<open>
  The record verifier of verdifax-verify.

  The program

  verdifax-verify reads a sealed record of one run (an audit bundle), or the receipt of a refused or
  halted run, or a folder of both, and decides whether the record is internally consistent, whether it
  is the record the public log (Sigstore Rekor) holds an entry for, and how much of it that entry binds.
  It works offline: everything it needs is in the record, in two pinned keys and in documents the reader
  gives. main.go reads the input and runs the checks; each check is a file of the main package; the types
  and the hashes are in internal/artifacts, the log entry's verification in internal/rekorverify, the
  policy rules in internal/psleval, internal/policyhash and internal/pslbuiltin, and the AMD SEV-SNP
  report's in internal/sevsnp. The same package holds the builder a record was made with.

  Conventions

  A Go string is a byte sequence (string, a list of 8-bit characters); []byte is the same type. A struct
  is a record with one field per struct field; a pointer, and a slice that JSON distinguishes from an
  absent one, is an option. Integers that are only compared and printed are int; where the code's
  arithmetic wraps around or reads fixed-width bytes, the model writes the width out (GoTime, Hardware,
  ExecutionRecord, Actor.time_unix, the ranges of parse_int64). An error is a constructor of the check's
  own type, where the code has a text; a check's report is a record with the code's fields. Definitions
  have the names of the Go functions where these are legal and free.

  What the model takes as an argument

  golib (Golib) holds the primitives of Go's standard library whose algorithms are not in the
  repository: SHA-2, ECDSA and Ed25519 verification, PEM and X.509 parsing, Unicode case folding,
  quoting, and the spelling of floating-point numbers. tamper_lib (TamperTree) adds the arithmetic the
  tamper test does on numbers and times. The verifier of a log entry is an argument of the checks, as it
  is a variable in main.go, and so are the pinned signers. A theorem that rests on SHA-256 says so with
  the disjunct collides: a text of one finite list and a different text of another have one digest. The
  lists are the preimages the theorem names; no theorem assumes that there is no collision. Decoding a JSON text into the bundle's and the receipt's
  structs is an argument where the text itself matters (JobMap, Tamper) and absent elsewhere.

  The theories, in the order of their imports

  Prelude: strings as Go handles them (split and join, hex, decimal, base64, TrimSpace), and their round
  trips. Golib: the library record, collisions, and the locale commitment (an encoding that determines
  the value it encodes binds it by its digest). Json: the writer and the reader of encoding/json;
  reading a written value gives it back.

  Types, Categories (types.go, category1_request.go to category6_reproducibility.go): the bundle and the
  JSON each hashed struct is written as. Canonical (canonical.go, builder.go): the three forms of a
  preimage, each a commitment. Recompute (recompute.go): every section hash and the bundle hash, and what
  the bundle hash binds. Samples: zero values and small records the properties are applied to. Sealing
  (sealing.go, job.go): the digests the ledger leaf anchors and the three forms of the pre-anchor table.
  ExecutionRecord (execution_record.go): the formula of the attestation execution record.
  RecordAnchor (bundle_anchor.go): the complete-record digest and the record's leaf.

  Merkle and Rekor (internal/rekorverify): the inclusion proof against the tree of RFC 6962, the
  checkpoint, the entry body and the signed entry timestamp. LeafBinding (leafbinding.go): the leaf of a
  run in its six forms. BundleAnchor (bundleanchor.go): both log entries of a record and the sealed
  requirement of the second. EntryAuth (entryauth.go), with GoTime for RFC 3339 and float64: who logged
  the entries and when. PreAnchor (preanchor.go): the record against its anchored table. BoundCopies
  (boundcopies.go): the values a record stores several times. Actor (nrep.go, requestsig.go,
  recordidentity.go, timing.go, job.go): signatures, the kind of record, the measured times, the job
  block. Hardware (internal/sevsnp and verifySevSnpQuote in main.go): the hardware report and the rows
  of an execution record.

  StrictJson (strictjson.go): the reading a document must pass before it is decoded. PolicyEval
  (internal/psleval), PolicyDoc (internal/policyhash), PolicyGate (policygate.go, accountgate.go,
  internal/pslbuiltin): the policy decision a record seals, the document that must give it, and what the
  document's hash binds. PolicyHistory (policy_activation.go, policyhistory.go): the chain of policy
  changes, as a step relation the check implements.

  SealedArtifacts (the receipts, the allow token, the code finding): the locale sealed_artifact, one
  interpretation for each artifact. ReceiptLeaf (receipt_anchor.go) and Receipts (receipt.go): the leaf
  of a receipt's entry and the verdict on a receipt.

  RunSample: a record that passes every check. Verify (main.go): all checks in the code's order, the
  roll-up, the tier, the coverage, the flags, the exit code and the summary. JobMap (jobmap.go): the map
  of a job over a folder of records. TamperTree and Tamper (tamper.go): the changes the tamper test
  makes and what its exit code says; the locale tamper_judge is interpreted for the judge of a bundle and
  the judge of a receipt. Builder and BuiltRecord (builder.go, provenance_helpers.go): the record a run
  is sealed into, and the verdict on it. Maturity (maturity.go): the report on how each stage ran.

  How the parts meet

  Verify.verify calls the checks of the other theories and keeps their reports in one record, as verify
  in main.go does; no check reads another's report except where the code passes it (the leaf check's form
  to the identity check and the actor signature, the table check and the entry check to the actor's seal,
  whether each entry was verified to the entry authentication). JobMap and Tamper call verify and the
  receipt's verifier as the tool does; BuiltRecord applies verify to what Builder makes.

  What the properties show

  Binding: one leaf of the log names one run, one record or one receipt, and these three are never
  confused (LeafBinding, RecordAnchor, ReceiptLeaf, Receipts); the table and the complete-record digest
  fix what the record displays and holds (PreAnchor, RecordAnchor, Verify.verified_records_fixed); an
  accepted entry is signed by the log and sits in its tree (Merkle, Rekor); policy hashes bind decisions
  (PolicyDoc). Exactness: each verdict is characterised by an independent condition, in both directions
  (Verify.exit_zero_exact, over the checks the roll-up reads; BoundCopies, StrictJson, PolicyEval
  against a meaning of rules on texts, PolicyHistory against a step relation, Hardware.parseCerts_exact
  against a relation of PEM blocks, JobMap, TamperTree). Composition: a complete job verifies every
  record and leads to its final step (JobMap); an exit code 0 of the tamper test means that every listed
  change was refused, with the exceptions its texts name (Tamper); a record of the builder passes (BuiltRecord). Where the code does
  not do what its comments say, a lemma states what it does (Verify.invalid_job_verified: a refused job
  block changes no verdict); the findings of the manifest name them. Properties that bind joined texts
  assume that the joined fields hold no separator where the code does not check it, and a lemma beside
  them shows that this is needed (LeafBinding.dotted_runs_share_leaf, Hardware.colon_kernels_share_quote).

  Bounds and fuel

  json_parse runs with fuel 2 * length + 2, which is enough for every text (json_parse_write gives the
  round trip for every well-formed value whose nesting is at most max_depth, encoding/json's limit of
  10000). The certificate loop runs with one round per byte and one more: with a decoder that takes a
  block off the front of its input a file has at most one block per byte (blocks_bounded), and
  parse_loop_exact shows that this fuel reads them all (Hardware.parseCerts_exact). The rewrite of the tamper test runs
  the twelve rounds the code runs. Every other recursion is structural or has a measure.

  Not modelled

  Decoding a JSON text into the bundle and receipt structs (encoding/json by reflection, after the strict
  reading, which is modelled), and reading files, folders and URLs: the decoded document is the model's
  input. The printed report, the JSON output and the usage text: output only, computed from the report
  records. The explanations of gates and reasons: constructors instead of their wording. The unsealed
  sidecar types of the receipts. The clock and the environment the builder reads are the record host.
\<close>

end
